(* ===== verification/Prelude.thy ===== *)
theory Prelude
  imports Complex_Main "HOL-Library.AList"
begin

text \<open>
  The shared layer of the development: results of fallible operations, the JSON values that cross
  the wire, Python string operations on ASCII strings, dictionaries in insertion order, and the
  generic lemmas on lists and association lists that the component theories use.

  \<^item> A Python function that raises is a function into \<open>'e + 'a\<close>; \<open>Inl\<close> is the exception.
  \<^item> A transaction (\<open>with self._transaction()\<close>) is a function \<open>'s \<Rightarrow> 'e + 'a \<times> 's\<close>; an error
    carries no new state, because the transaction is rolled back.
  \<^item> Strings are lists of 8-bit characters; the case mappings are those of ASCII.
  \<^item> A \<open>dict\<close> whose order is observable is an association list, updated by \<open>AList.update\<close>, which
    replaces in place or appends at the end as Python does.
\<close>

named_theorems state_defs "definitions of the operations that change state"
named_theorems inv_intros "introduction rules for the invariants"

subsection \<open>Results and transactions\<close>

type_synonym ('e, 'a) res = "'e + 'a"
type_synonym ('s, 'e, 'a) tx = "'s \<Rightarrow> 'e + 'a \<times> 's"

definition is_ok :: "'e + 'a \<Rightarrow> bool" where
  "is_ok r = (case r of Inl _ \<Rightarrow> False | Inr _ \<Rightarrow> True)"

lemma is_ok_simps [simp]: "is_ok (Inl e) = False" "is_ok (Inr a) = True"
  by (simp_all add: is_ok_def)

lemma is_ok_iff: "is_ok r \<longleftrightarrow> (\<exists>a. r = Inr a)"
  by (cases r) auto

text \<open>Running a transaction as a step that always yields a state: on an error the old one.\<close>

definition run_tx :: "('s, 'e, 'a) tx \<Rightarrow> 's \<Rightarrow> ('e + 'a) \<times> 's" where
  "run_tx f s = (case f s of Inl e \<Rightarrow> (Inl e, s) | Inr (a, s') \<Rightarrow> (Inr a, s'))"

lemma run_tx_Inl [simp]: "f s = Inl e \<Longrightarrow> run_tx f s = (Inl e, s)"
  by (simp add: run_tx_def)

lemma run_tx_Inr [simp]: "f s = Inr (a, s') \<Longrightarrow> run_tx f s = (Inr a, s')"
  by (simp add: run_tx_def)

lemma run_tx_rollback: "fst (run_tx f s) = Inl e \<Longrightarrow> snd (run_tx f s) = s"
  by (auto simp: run_tx_def split: sum.splits prod.splits)

lemma run_tx_preserves:
  assumes "P s" and "\<And>a s'. f s = Inr (a, s') \<Longrightarrow> P s'"
  shows "P (snd (run_tx f s))"
  using assms by (auto simp: run_tx_def split: sum.splits prod.splits)

subsection \<open>JSON values\<close>

datatype json =
    JNull
  | JBool bool
  | JInt int
  | JFloat rat
  | JStr string
  | JList "json list"
  | JObj "(string \<times> json) list"

type_synonym dict = "(string \<times> json) list"

abbreviation dget :: "dict \<Rightarrow> string \<Rightarrow> json option" where
  "dget d k \<equiv> map_of d k"

definition dget_or :: "dict \<Rightarrow> string \<Rightarrow> json \<Rightarrow> json" where
  "dget_or d k v = (case dget d k of Some w \<Rightarrow> w | None \<Rightarrow> v)"

text \<open>\<open>dict.update\<close> with the pairs of a second dictionary, in its order.\<close>

fun dupdate :: "dict \<Rightarrow> dict \<Rightarrow> dict" where
  "dupdate d [] = d"
| "dupdate d ((k, v) # ps) = dupdate (AList.update k v d) ps"

definition dsetdefault :: "dict \<Rightarrow> string \<Rightarrow> json \<Rightarrow> dict" where
  "dsetdefault d k v = (if dget d k = None then AList.update k v d else d)"

lemma map_of_update [simp]: "map_of (AList.update k v d) k' = (if k' = k then Some v else map_of d k')"
  by (simp add: update_conv')

lemma dget_dupdate: "dget (dupdate d ps) k = (case dget (rev ps) k of None \<Rightarrow> dget d k | Some v \<Rightarrow> Some v)"
  by (induction d ps rule: dupdate.induct)
     (auto simp: map_add_def split: option.splits)

lemma dget_setdefault:
  "dget (dsetdefault d k v) k' = (if k' = k \<and> dget d k = None then Some v else dget d k')"
  by (auto simp: dsetdefault_def)

text \<open>Python truthiness of a JSON value, as \<open>bool(x)\<close> and \<open>not x\<close> read it.\<close>

fun truthy :: "json \<Rightarrow> bool" where
  "truthy JNull = False"
| "truthy (JBool b) = b"
| "truthy (JInt i) = (i \<noteq> 0)"
| "truthy (JFloat q) = (q \<noteq> 0)"
| "truthy (JStr s) = (s \<noteq> [])"
| "truthy (JList xs) = (xs \<noteq> [])"
| "truthy (JObj d) = (d \<noteq> [])"

subsection \<open>ASCII strings\<close>

abbreviation code :: "char \<Rightarrow> nat" where
  "code c \<equiv> of_char c"

definition is_upper :: "char \<Rightarrow> bool" where "is_upper c = (65 \<le> code c \<and> code c \<le> 90)"
definition is_lower :: "char \<Rightarrow> bool" where "is_lower c = (97 \<le> code c \<and> code c \<le> 122)"
definition is_digit :: "char \<Rightarrow> bool" where "is_digit c = (48 \<le> code c \<and> code c \<le> 57)"
definition is_alpha :: "char \<Rightarrow> bool" where "is_alpha c = (is_upper c \<or> is_lower c)"
definition is_alnum :: "char \<Rightarrow> bool" where "is_alnum c = (is_alpha c \<or> is_digit c)"

lemmas char_class_defs = is_upper_def is_lower_def is_digit_def is_alpha_def is_alnum_def

definition lower_char :: "char \<Rightarrow> char" where
  "lower_char c = (if is_upper c then char_of (code c + 32) else c)"

definition upper_char :: "char \<Rightarrow> char" where
  "upper_char c = (if is_lower c then char_of (code c - 32) else c)"

definition str_lower :: "string \<Rightarrow> string" where "str_lower s = map lower_char s"
definition str_upper :: "string \<Rightarrow> string" where "str_upper s = map upper_char s"

lemma length_str_lower [simp]: "length (str_lower s) = length s"
  by (simp add: str_lower_def)

lemma length_str_upper [simp]: "length (str_upper s) = length s"
  by (simp add: str_upper_def)

lemma code_char_of [simp]: "n < 256 \<Longrightarrow> code (char_of n :: char) = (n :: nat)"
  by simp

lemma not_upper_lower_char [simp]: "\<not> is_upper (lower_char c)"
  by (auto simp: lower_char_def is_upper_def)

lemma lower_char_idem [simp]: "lower_char (lower_char c) = lower_char c"
  using not_upper_lower_char[of c] by (simp add: lower_char_def)

lemma str_lower_idem [simp]: "str_lower (str_lower s) = str_lower s"
  by (simp add: str_lower_def)

definition hex_lower :: "char \<Rightarrow> bool" where
  "hex_lower c = (is_digit c \<or> (97 \<le> code c \<and> code c \<le> 102))"

text \<open>\<open>len(d) == 64\<close> and every character in \<open>0123456789abcdef\<close>.\<close>

definition is_sha256 :: "string \<Rightarrow> bool" where
  "is_sha256 d = (length d = 64 \<and> list_all hex_lower d)"

lemma lower_char_hex [simp]: "hex_lower c \<Longrightarrow> lower_char c = c"
  by (auto simp: hex_lower_def lower_char_def is_upper_def is_digit_def)

lemma str_lower_sha256: "is_sha256 d \<Longrightarrow> str_lower d = d"
  by (auto simp: is_sha256_def str_lower_def list_all_iff intro: map_idI)

text \<open>\<open>s.split(c)\<close>: always at least one part.\<close>

fun split_on :: "char \<Rightarrow> string \<Rightarrow> string list" where
  "split_on c [] = [[]]"
| "split_on c (x # xs) =
     (case split_on c xs of
        [] \<Rightarrow> [[x]]
      | p # ps \<Rightarrow> if x = c then [] # p # ps else (x # p) # ps)"

fun join_with :: "char \<Rightarrow> string list \<Rightarrow> string" where
  "join_with c [] = []"
| "join_with c [p] = p"
| "join_with c (p # q # ps) = p @ c # join_with c (q # ps)"

lemma split_on_ne [simp]: "split_on c s \<noteq> []"
  by (induction s) (auto split: list.splits)

lemma join_split_on [simp]: "join_with c (split_on c s) = s"
proof (induction s)
  case (Cons x xs)
  obtain p ps where "split_on c xs = p # ps" by (cases "split_on c xs") auto
  with Cons show ?case by (cases ps) auto
qed simp

lemma split_on_no_sep: "p \<in> set (split_on c s) \<Longrightarrow> c \<notin> set p"
proof (induction s arbitrary: p)
  case (Cons x xs)
  obtain q qs where "split_on c xs = q # qs" by (cases "split_on c xs") auto
  with Cons show ?case by (auto split: if_splits)
qed simp

definition replace_char :: "char \<Rightarrow> char \<Rightarrow> string \<Rightarrow> string" where
  "replace_char a b s = map (\<lambda>c. if c = a then b else c) s"

fun starts_with :: "string \<Rightarrow> string \<Rightarrow> bool" where
  "starts_with s [] = True"
| "starts_with [] (p # ps) = False"
| "starts_with (c # cs) (p # ps) = (c = p \<and> starts_with cs ps)"

lemma starts_with_iff: "starts_with s p \<longleftrightarrow> (\<exists>r. s = p @ r)"
  by (induction s p rule: starts_with.induct) auto

text \<open>The substring test \<open>p in s\<close>.\<close>

fun contains_sub :: "string \<Rightarrow> string \<Rightarrow> bool" where
  "contains_sub [] p = (p = [])"
| "contains_sub (c # cs) p = (starts_with (c # cs) p \<or> contains_sub cs p)"

lemma contains_sub_iff: "contains_sub s p \<longleftrightarrow> (\<exists>u v. s = u @ p @ v)"
proof (induction s)
  case (Cons c cs)
  show ?case
  proof
    assume "contains_sub (c # cs) p"
    then consider "starts_with (c # cs) p" | "contains_sub cs p" by auto
    then show "\<exists>u v. c # cs = u @ p @ v"
    proof cases
      case 1
      then show ?thesis by (metis append_Nil starts_with_iff)
    next
      case 2
      with Cons.IH obtain u v where "cs = u @ p @ v" by blast
      then have "c # cs = (c # u) @ p @ v" by simp
      then show ?thesis by blast
    qed
  next
    assume "\<exists>u v. c # cs = u @ p @ v"
    then obtain u v where uv: "c # cs = u @ p @ v" by blast
    show "contains_sub (c # cs) p"
    proof (cases u)
      case Nil
      with uv have "starts_with (c # cs) p" by (metis append_Nil starts_with_iff)
      then show ?thesis by simp
    next
      case (Cons a u')
      with uv have "cs = u' @ p @ v" by simp
      with \<open>contains_sub cs p = (\<exists>u v. cs = u @ p @ v)\<close> show ?thesis by auto
    qed
  qed
qed simp

text \<open>The identifier pattern \<open>^[A-Za-z0-9][A-Za-z0-9._:-]{0,127}$\<close> used across the services.\<close>

definition id_char :: "char \<Rightarrow> bool" where
  "id_char c = (is_alnum c \<or> c = CHR ''.'' \<or> c = CHR ''_'' \<or> c = CHR '':'' \<or> c = CHR ''-'')"

definition id_pattern :: "string \<Rightarrow> bool" where
  "id_pattern s = (case s of [] \<Rightarrow> False | c # cs \<Rightarrow> is_alnum c \<and> length cs \<le> 127 \<and> list_all id_char cs)"

lemma id_pattern_nonempty: "id_pattern s \<Longrightarrow> s \<noteq> []"
  by (auto simp: id_pattern_def)

lemma id_pattern_no_slash: "id_pattern s \<Longrightarrow> CHR ''/'' \<notin> set s"
  by (auto simp: id_pattern_def id_char_def char_class_defs list_all_iff split: list.splits)

subsection \<open>Decimal numerals\<close>

text \<open>\<open>str(i)\<close> of an integer.\<close>

fun dec_nat :: "nat \<Rightarrow> string" where
  "dec_nat n = (if n < 10 then [char_of (48 + n)] else dec_nat (n div 10) @ [char_of (48 + n mod 10)])"

declare dec_nat.simps [simp del]

definition dec_int :: "int \<Rightarrow> string" where
  "dec_int i = (if i < 0 then CHR ''-'' # dec_nat (nat (- i)) else dec_nat (nat i))"

subsection \<open>Integers that SQLite can bind\<close>

text \<open>\<open>sqlite3\<close> raises \<open>OverflowError\<close> for an integer outside the signed 64-bit range.\<close>

definition sqlite_int :: "int \<Rightarrow> bool" where
  "sqlite_int v = (- (2 ^ 63) \<le> v \<and> v < 2 ^ 63)"

subsection \<open>Rows of a table\<close>

text \<open>
  A table is the list of its rows in rowid order. \<open>upd_where\<close> is \<open>UPDATE ... WHERE\<close>;
  \<open>find_row\<close> is a lookup by a unique key.
\<close>

definition upd_where :: "('r \<Rightarrow> bool) \<Rightarrow> ('r \<Rightarrow> 'r) \<Rightarrow> 'r list \<Rightarrow> 'r list" where
  "upd_where p f rows = map (\<lambda>r. if p r then f r else r) rows"

definition find_row :: "('r \<Rightarrow> bool) \<Rightarrow> 'r list \<Rightarrow> 'r option" where
  "find_row p rows = List.find p rows"

lemma find_row_None: "find_row p rows = None \<longleftrightarrow> (\<forall>r \<in> set rows. \<not> p r)"
  by (auto simp: find_row_def find_None_iff)

lemma find_row_SomeD: "find_row p rows = Some r \<Longrightarrow> r \<in> set rows \<and> p r"
  by (auto simp: find_row_def find_Some_iff)

lemma find_row_append: "find_row p (xs @ ys) = (case find_row p xs of None \<Rightarrow> find_row p ys | Some r \<Rightarrow> Some r)"
  by (induction xs) (auto simp: find_row_def)

lemma find_row_simps [simp]:
  "find_row p [] = None"
  "find_row p (r # rows) = (if p r then Some r else find_row p rows)"
  by (simp_all add: find_row_def)

lemma upd_where_simps [simp]:
  "upd_where p f [] = []"
  "upd_where p f (r # rows) = (if p r then f r else r) # upd_where p f rows"
  by (simp_all add: upd_where_def)

lemma length_upd_where [simp]: "length (upd_where p f rows) = length rows"
  by (simp add: upd_where_def)

lemma map_upd_where_key:
  assumes "\<And>r. k (f r) = k r"
  shows "map k (upd_where p f rows) = map k rows"
  using assms by (simp add: upd_where_def)

lemma set_upd_where: "set (upd_where p f rows) = {if p r then f r else r | r. r \<in> set rows}"
  by (auto simp: upd_where_def)

lemma in_upd_whereE [elim!]:
  assumes "r \<in> set (upd_where p f rows)"
  obtains r' where "r' \<in> set rows" "p r'" "r = f r'" | "r \<in> set rows" "\<not> p r"
  using assms by (auto simp: upd_where_def split: if_splits)

lemma upd_where_mem: "r \<in> set rows \<Longrightarrow> (if p r then f r else r) \<in> set (upd_where p f rows)"
  by (auto simp: upd_where_def)

lemma upd_where_twice:
  assumes "\<And>r. p (f r) = p r"
  shows "upd_where p g (upd_where p f rows) = upd_where p (\<lambda>r. g (f r)) rows"
  using assms by (auto simp: upd_where_def)

lemma find_row_upd_where_same:
  assumes "\<And>r. q (f r) = q r"
  shows "find_row q (upd_where p f rows) = map_option (\<lambda>r. if p r then f r else r) (find_row q rows)"
  using assms by (induction rows) auto

lemma filter_upd_where_same:
  assumes "\<And>r. q (f r) = q r"
  shows "filter q (upd_where p f rows) = upd_where p f (filter q rows)"
  using assms by (induction rows) auto

lemma find_row_unique:
  assumes "distinct (map k rows)" and "r \<in> set rows" and "k r = x"
  shows "find_row (\<lambda>r. k r = x) rows = Some r"
  using assms by (induction rows) auto

subsection \<open>Lists in the order of a key\<close>

lemma filter_gt_drop:
  fixes f :: "'a \<Rightarrow> int"
  assumes "map f xs = [1..n]"
  shows "filter (\<lambda>x. k < f x) xs = drop (nat k) xs"
  using assms
proof (induction xs arbitrary: n rule: rev_induct)
  case (snoc x xs)
  then have "n \<ge> 1" by (metis Nil_is_map_conv append_is_Nil_conv not_less not_Cons_self2 upto_empty)
  then have eq: "map f xs = [1..n - 1]" "f x = n"
    using snoc.prems by (simp_all add: upto_rec2)
  then have "int (length xs) = n - 1" using \<open>n \<ge> 1\<close> by (simp add: arg_cong[OF eq(1), of length, simplified])
  then show ?case using snoc.IH[OF eq(1)] eq(2) \<open>n \<ge> 1\<close> by auto
qed simp

lemma sort_key_sorted [simp]: "sorted (map f xs) \<Longrightarrow> sort_key f xs = xs"
  by (induction xs) (auto simp: insort_is_Cons)

lemma drop_upto: "drop n [i..j] = [i + int n..j]"
proof (induction n arbitrary: i)
  case (Suc n)
  then show ?case by (cases "i \<le> j") (simp_all add: upto_rec1 algebra_simps)
qed simp

end
