(* ===== verification/Domain.thy ===== *)
theory Domain
  imports Prelude "HOL-Library.Char_ord" "HOL-Library.List_Lexorder"
begin

text \<open>
  The shared domain package (\<open>packages/domain\<close>): the publish state machine of \<open>states.py\<close>, the
  role and permission policy of \<open>rbac.py\<close>, the value objects of \<open>models.py\<close> with the checks of their
  constructors, the errors of \<open>errors.py\<close> and the UUIDv7 layout of \<open>events.py\<close>.
\<close>

unbundle bit_operations_syntax

subsection \<open>Errors\<close>

datatype domain_error =
    DomainError string
  | ValidationError string
  | NotFoundError string
  | ConflictError string
  | ForbiddenError string
  | AuthenticationError string
  | ValueError string

fun status :: "domain_error \<Rightarrow> nat" where
  "status (DomainError _) = 400"
| "status (ValidationError _) = 422"
| "status (NotFoundError _) = 404"
| "status (ConflictError _) = 409"
| "status (ForbiddenError _) = 403"
| "status (AuthenticationError _) = 401"
| "status (ValueError _) = 500"

subsection \<open>The publish state machine\<close>

datatype publish_state =
    DRAFT | AWAITING_APPROVAL | SCHEDULED | QUEUED | RUNNING | WAITING_CONFIRMATION
  | COMMITTING | RECONCILING | SUCCEEDED | FAILED | UNKNOWN | CANCELED

definition TERMINAL_STATES :: "publish_state set" where
  "TERMINAL_STATES = {SUCCEEDED, FAILED, UNKNOWN, CANCELED}"

definition SAFE_CANCEL_STATES :: "publish_state set" where
  "SAFE_CANCEL_STATES = {DRAFT, AWAITING_APPROVAL, SCHEDULED, QUEUED, RUNNING, WAITING_CONFIRMATION}"

fun ALLOWED_TRANSITIONS :: "publish_state \<Rightarrow> publish_state set" where
  "ALLOWED_TRANSITIONS DRAFT = {AWAITING_APPROVAL, SCHEDULED}"
| "ALLOWED_TRANSITIONS AWAITING_APPROVAL = {SCHEDULED, FAILED, CANCELED}"
| "ALLOWED_TRANSITIONS SCHEDULED = {QUEUED, CANCELED}"
| "ALLOWED_TRANSITIONS QUEUED = {RUNNING, FAILED, CANCELED}"
| "ALLOWED_TRANSITIONS RUNNING = {WAITING_CONFIRMATION, COMMITTING, FAILED, CANCELED}"
| "ALLOWED_TRANSITIONS WAITING_CONFIRMATION = {COMMITTING, FAILED, CANCELED}"
| "ALLOWED_TRANSITIONS COMMITTING = {RECONCILING}"
| "ALLOWED_TRANSITIONS RECONCILING = {SUCCEEDED, FAILED, UNKNOWN}"
| "ALLOWED_TRANSITIONS SUCCEEDED = {}"
| "ALLOWED_TRANSITIONS FAILED = {}"
| "ALLOWED_TRANSITIONS UNKNOWN = {SUCCEEDED, FAILED}"
| "ALLOWED_TRANSITIONS CANCELED = {}"

fun publish_state_name :: "publish_state \<Rightarrow> string" where
  "publish_state_name DRAFT = ''DRAFT''"
| "publish_state_name AWAITING_APPROVAL = ''AWAITING_APPROVAL''"
| "publish_state_name SCHEDULED = ''SCHEDULED''"
| "publish_state_name QUEUED = ''QUEUED''"
| "publish_state_name RUNNING = ''RUNNING''"
| "publish_state_name WAITING_CONFIRMATION = ''WAITING_CONFIRMATION''"
| "publish_state_name COMMITTING = ''COMMITTING''"
| "publish_state_name RECONCILING = ''RECONCILING''"
| "publish_state_name SUCCEEDED = ''SUCCEEDED''"
| "publish_state_name FAILED = ''FAILED''"
| "publish_state_name UNKNOWN = ''UNKNOWN''"
| "publish_state_name CANCELED = ''CANCELED''"

definition assert_publish_transition :: "publish_state \<Rightarrow> publish_state \<Rightarrow> domain_error + unit" where
  "assert_publish_transition current requested =
     (if requested \<notin> ALLOWED_TRANSITIONS current
      then Inl (ConflictError (''invalid publish transition: '' @ publish_state_name current @
                               '' -> '' @ publish_state_name requested))
      else Inr ())"

definition assert_safe_cancel :: "publish_state \<Rightarrow> domain_error + unit" where
  "assert_safe_cancel current =
     (if current \<notin> SAFE_CANCEL_STATES
      then Inl (ConflictError (''publish cannot be canceled safely while '' @ publish_state_name current))
      else Inr ())"

text \<open>A history of accepted transitions, from a start state.\<close>

inductive publish_path :: "publish_state \<Rightarrow> publish_state list \<Rightarrow> publish_state \<Rightarrow> bool" where
  publish_path_nil: "publish_path s [] s"
| publish_path_cons:
    "assert_publish_transition s t = Inr () \<Longrightarrow> publish_path t ts u \<Longrightarrow> publish_path s (t # ts) u"

inductive_simps publish_path_Nil_iff: "publish_path s [] u"
inductive_simps publish_path_Cons_iff: "publish_path s (t # ts) u"
inductive_cases publish_path_ConsE: "publish_path s (t # ts) u"

subsection \<open>Roles and permissions\<close>

datatype permission =
    TENANT_ADMIN | CONTENT_READ | CONTENT_WRITE | PUBLISH_READ | PUBLISH_CREATE | PUBLISH_APPROVE
  | DEVICE_READ | DEVICE_CONTROL | DEVICE_MAINTAIN | APK_MANAGE | AUTOMATION_MANAGE | RECIPE_PUBLISH
  | DATA_DELETE | TASK_CREATE | DEBUG_SESSION_MANAGE | OPERATION_APPROVE | AUDIT_READ

fun permission_value :: "permission \<Rightarrow> string" where
  "permission_value TENANT_ADMIN = ''tenant.admin''"
| "permission_value CONTENT_READ = ''content.read''"
| "permission_value CONTENT_WRITE = ''content.write''"
| "permission_value PUBLISH_READ = ''publish.read''"
| "permission_value PUBLISH_CREATE = ''publish.create''"
| "permission_value PUBLISH_APPROVE = ''publish.approve''"
| "permission_value DEVICE_READ = ''device.read''"
| "permission_value DEVICE_CONTROL = ''device.control''"
| "permission_value DEVICE_MAINTAIN = ''device.maintain''"
| "permission_value APK_MANAGE = ''apk.manage''"
| "permission_value AUTOMATION_MANAGE = ''automation.manage''"
| "permission_value RECIPE_PUBLISH = ''recipe.publish''"
| "permission_value DATA_DELETE = ''data.delete''"
| "permission_value TASK_CREATE = ''task.create''"
| "permission_value DEBUG_SESSION_MANAGE = ''debug_session.manage''"
| "permission_value OPERATION_APPROVE = ''operation.approve''"
| "permission_value AUDIT_READ = ''audit.read''"

definition all_permissions :: "permission list" where
  "all_permissions =
     [TENANT_ADMIN, CONTENT_READ, CONTENT_WRITE, PUBLISH_READ, PUBLISH_CREATE, PUBLISH_APPROVE,
      DEVICE_READ, DEVICE_CONTROL, DEVICE_MAINTAIN, APK_MANAGE, AUTOMATION_MANAGE, RECIPE_PUBLISH,
      DATA_DELETE, TASK_CREATE, DEBUG_SESSION_MANAGE, OPERATION_APPROVE, AUDIT_READ]"

datatype role =
    VIEWER | CONTENT_EDITOR | PUBLISHER | APPROVER | AUTOMATION_DEVELOPER | DEVICE_OPERATOR
  | SECURITY_ADMIN | SYSTEM_SERVICE

fun ROLE_PERMISSIONS :: "role \<Rightarrow> permission set" where
  "ROLE_PERMISSIONS VIEWER = {CONTENT_READ, PUBLISH_READ, DEVICE_READ}"
| "ROLE_PERMISSIONS CONTENT_EDITOR = {CONTENT_READ, CONTENT_WRITE, DATA_DELETE}"
| "ROLE_PERMISSIONS PUBLISHER = {CONTENT_READ, PUBLISH_READ, PUBLISH_CREATE, TASK_CREATE}"
| "ROLE_PERMISSIONS APPROVER = {PUBLISH_READ, PUBLISH_APPROVE, OPERATION_APPROVE, DEVICE_READ}"
| "ROLE_PERMISSIONS AUTOMATION_DEVELOPER =
     {AUTOMATION_MANAGE, RECIPE_PUBLISH, DEBUG_SESSION_MANAGE, DEVICE_READ}"
| "ROLE_PERMISSIONS DEVICE_OPERATOR =
     {DEVICE_READ, DEVICE_CONTROL, DEVICE_MAINTAIN, DEBUG_SESSION_MANAGE, PUBLISH_READ, TASK_CREATE}"
| "ROLE_PERMISSIONS SECURITY_ADMIN = set all_permissions"
| "ROLE_PERMISSIONS SYSTEM_SERVICE =
     {DEVICE_READ, DEVICE_CONTROL, DEVICE_MAINTAIN, PUBLISH_READ, PUBLISH_CREATE, TASK_CREATE,
      DEBUG_SESSION_MANAGE, AUDIT_READ}"

fun effective_permissions :: "role list \<Rightarrow> permission set" where
  "effective_permissions [] = {}"
| "effective_permissions (r # rs) = ROLE_PERMISSIONS r \<union> effective_permissions rs"

definition missing_permissions :: "role list \<Rightarrow> permission list \<Rightarrow> permission list" where
  "missing_permissions roles required =
     filter (\<lambda>p. p \<in> set required \<and> p \<notin> effective_permissions roles) all_permissions"

fun comma_join :: "string list \<Rightarrow> string" where
  "comma_join [] = []"
| "comma_join [x] = x"
| "comma_join (x # y # zs) = x @ '', '' @ comma_join (y # zs)"

definition require_permissions :: "role list \<Rightarrow> permission list \<Rightarrow> domain_error + unit" where
  "require_permissions roles required =
     (let missing = missing_permissions roles required
      in if missing \<noteq> []
         then Inl (ForbiddenError (''missing permissions: '' @
                                   comma_join (sort (map permission_value missing))))
         else Inr ())"

subsection \<open>Value objects\<close>

record actor =
  actor_tenant_id :: string
  actor_user_id :: string
  actor_roles :: "role list"
  actor_mfa :: bool
  actor_request_id :: string
  actor_ip :: "string option"
  actor_user_agent :: "string option"

record approval =
  appr_plan_id :: string
  appr_creator_id :: string
  appr_approver_id :: string
  appr_decision :: string
  appr_id :: string
  appr_occurred_at :: int

definition mk_approval :: "approval \<Rightarrow> domain_error + approval" where
  "mk_approval a =
     (if appr_creator_id a = appr_approver_id a
      then Inl (ValueError ''creator and approver must be different users'') else Inr a)"

record device_lease =
  dl_tenant_id :: string
  dl_device_id :: string
  dl_lease_id :: string
  dl_owner_workflow_id :: string
  dl_fencing_token :: int
  dl_expires_at :: int

record commit_intent =
  ci_tenant_id :: string
  ci_target_id :: string
  ci_fencing_token :: int
  ci_before_commit_evidence_id :: string
  ci_attempt_no :: int
  ci_id :: string
  ci_created_at :: int

definition mk_commit_intent :: "commit_intent \<Rightarrow> domain_error + commit_intent" where
  "mk_commit_intent c =
     (if ci_attempt_no c \<noteq> 1 then Inl (ValueError ''commit intent only supports attempt_no=1'') else Inr c)"

subsection \<open>UUIDv7\<close>

text \<open>
  \<open>random_bits\<close> is the result of \<open>secrets.randbits(74)\<close>: an integer with 74 bits. \<open>uuid.UUID(int=v)\<close>
  raises outside the 128-bit range.
\<close>

definition uuid_of_int :: "int \<Rightarrow> domain_error + int" where
  "uuid_of_int v = (if 0 \<le> v \<and> v < 2 ^ 128 then Inr v
                    else Inl (ValueError ''int is out of range (need a 128-bit value)''))"

definition new_uuid7 :: "int \<Rightarrow> int \<Rightarrow> domain_error + int" where
  "new_uuid7 unix_ms random_bits =
     (if \<not> (0 \<le> unix_ms \<and> unix_ms < push_bit 48 1)
      then Inl (ValueError ''timestamp is outside UUIDv7 range'')
      else let value = push_bit 80 unix_ms;
               value = value OR push_bit 76 7;
               value = value OR push_bit 64 (drop_bit 62 random_bits);
               value = value OR push_bit 62 2;
               value = value OR (random_bits AND (push_bit 62 1 - 1))
           in uuid_of_int value)"

definition randbits74 :: "int \<Rightarrow> bool" where
  "randbits74 r = (0 \<le> r \<and> r < 2 ^ 74)"

subsection \<open>Lemmas: the state machine\<close>

lemma assert_publish_transition_ok [simp]:
  "assert_publish_transition s t = Inr () \<longleftrightarrow> t \<in> ALLOWED_TRANSITIONS s"
  by (simp add: assert_publish_transition_def)

lemma publish_path_invariant:
  assumes "publish_path s ts u" and "P s"
    and "\<And>a b. P a \<Longrightarrow> b \<in> ALLOWED_TRANSITIONS a \<Longrightarrow> P b"
  shows "P u \<and> (\<forall>t \<in> set ts. P t)"
  using assms by (induction rule: publish_path.induct) auto

text \<open>The number of transitions that can still follow: the table has no cycle.\<close>

fun publish_rank :: "publish_state \<Rightarrow> nat" where
  "publish_rank DRAFT = 9"
| "publish_rank AWAITING_APPROVAL = 8"
| "publish_rank SCHEDULED = 7"
| "publish_rank QUEUED = 6"
| "publish_rank RUNNING = 5"
| "publish_rank WAITING_CONFIRMATION = 4"
| "publish_rank COMMITTING = 3"
| "publish_rank RECONCILING = 2"
| "publish_rank UNKNOWN = 1"
| "publish_rank _ = 0"

lemma publish_rank_decreases: "t \<in> ALLOWED_TRANSITIONS s \<Longrightarrow> publish_rank t < publish_rank s"
  by (cases s) auto

lemma publish_path_length: "publish_path s ts u \<Longrightarrow> length ts + publish_rank u \<le> publish_rank s"
  by (induction rule: publish_path.induct) (auto dest: publish_rank_decreases)

definition past_commit :: "publish_state \<Rightarrow> bool" where
  "past_commit s = (s \<in> {COMMITTING, RECONCILING, SUCCEEDED, UNKNOWN, FAILED})"

lemma past_commit_step: "past_commit a \<Longrightarrow> b \<in> ALLOWED_TRANSITIONS a \<Longrightarrow> past_commit b"
  by (cases a) (auto simp: past_commit_def)

lemma publish_path_prefix_free:
  assumes "publish_path s ts u"
  shows "distinct (s # ts)"
proof -
  have "publish_path s ts u \<Longrightarrow> \<forall>t \<in> set ts. publish_rank t < publish_rank s" for s ts u
    by (induction rule: publish_path.induct) (auto dest!: publish_rank_decreases)
  with assms show ?thesis
  proof (induction rule: publish_path.induct)
    case (publish_path_cons s t ts u)
    have "publish_path s (t # ts) u"
      using publish_path_cons.hyps by (rule publish_path.publish_path_cons)
    then have "\<forall>x \<in> set (t # ts). publish_rank x < publish_rank s" by (rule publish_path_cons.prems)
    then have "s \<notin> set (t # ts)" by blast
    moreover have "distinct (t # ts)" using publish_path_cons.IH publish_path_cons.prems by blast
    ultimately show ?case by simp
  qed simp
qed

lemma publish_path_append:
  "publish_path s (xs @ t # ys) u \<Longrightarrow> publish_path s (xs @ [t]) t \<and> publish_path t ys u"
  by (induction xs arbitrary: s)
     (auto simp: publish_path_Cons_iff intro: publish_path.intros)

subsection \<open>Lemmas: permissions\<close>

lemma all_permissions_complete [simp]: "set all_permissions = UNIV"
proof -
  have "p \<in> set all_permissions" for p by (cases p) (simp_all add: all_permissions_def)
  then show ?thesis by blast
qed

lemma effective_permissions_Union: "effective_permissions rs = (\<Union>r \<in> set rs. ROLE_PERMISSIONS r)"
  by (induction rs) auto

lemma missing_permissions_Nil:
  "missing_permissions roles required = [] \<longleftrightarrow> set required \<subseteq> effective_permissions roles"
  by (auto simp: missing_permissions_def filter_empty_conv)

lemma require_permissions_ok:
  "require_permissions roles required = Inr () \<longleftrightarrow> set required \<subseteq> effective_permissions roles"
  by (auto simp: require_permissions_def Let_def simp flip: missing_permissions_Nil)

lemma distinct_all_permission_values: "distinct (map permission_value all_permissions)"
  by (simp add: all_permissions_def)

lemma sorted_missing:
  "sort (map permission_value (missing_permissions roles required)) =
     sorted_list_of_set (permission_value ` (set required - effective_permissions roles))"
proof -
  let ?m = "missing_permissions roles required"
  have "set ?m = set required - effective_permissions roles" by (auto simp: missing_permissions_def)
  moreover have "distinct (map permission_value ?m)"
    unfolding missing_permissions_def by (rule distinct_map_filter[OF distinct_all_permission_values])
  ultimately show ?thesis
    by (metis distinct_remdups_id list.set_map sorted_list_of_set_sort_remdups)
qed

subsection \<open>Lemmas: the UUIDv7 layout\<close>

lemma or_disjoint_add:
  fixes a b :: int
  assumes "0 \<le> b" and "b < 2 ^ n"
  shows "push_bit n a OR b = push_bit n a + b"
proof -
  have "push_bit n a AND b = 0"
  proof (rule bit_eqI)
    fix k
    have "take_bit n b = b" using assms by (simp add: take_bit_int_eq_self)
    then have "bit b k \<Longrightarrow> k < n" by (metis bit_take_bit_iff)
    then show "bit (push_bit n a AND b) k = bit (0::int) k"
      by (auto simp: bit_and_iff bit_push_bit_iff)
  qed
  then show ?thesis by (simp add: disjunctive_add_eq_or)
qed

definition uuid7_layout :: "int \<Rightarrow> int \<Rightarrow> int \<Rightarrow> int" where
  "uuid7_layout ms hi lo = ms * 2 ^ 80 + 7 * 2 ^ 76 + hi * 2 ^ 64 + 2 * 2 ^ 62 + lo"

lemma uuid7_layout_range:
  assumes "0 \<le> ms" "ms < 2 ^ 48" "0 \<le> hi" "hi < 2 ^ 12" "0 \<le> lo" "lo < 2 ^ 62"
  shows "0 \<le> uuid7_layout ms hi lo" and "uuid7_layout ms hi lo < 2 ^ 128"
  using assms unfolding uuid7_layout_def by simp_all

lemma new_uuid7_layout:
  assumes "0 \<le> ms" "ms < 2 ^ 48" "randbits74 r"
  shows "new_uuid7 ms r = Inr (uuid7_layout ms (r div 2 ^ 62) (r mod 2 ^ 62))"
proof -
  let ?hi = "r div 2 ^ 62" and ?lo = "r mod 2 ^ 62"
  have r: "0 \<le> r" "r < 2 ^ 74" using assms(3) by (auto simp: randbits74_def)
  have hi: "0 \<le> ?hi" "?hi < 2 ^ 12" using r by (auto simp: pos_imp_zdiv_nonneg_iff)
  have lo: "0 \<le> ?lo" "?lo < 2 ^ 62" by auto
  have drop: "drop_bit 62 r = ?hi" by (simp add: drop_bit_eq_div)
  have mask: "r AND (push_bit 62 1 - 1) = ?lo"
    unfolding push_bit_eq_mult mult_1 mask_eq_exp_minus_1[symmetric] take_bit_eq_mask[symmetric]
      take_bit_eq_mod ..
  have s1: "push_bit 80 ms OR push_bit 76 7 = push_bit 76 (ms * 16 + 7)"
    using or_disjoint_add[of "7 * 2 ^ 76" 80 ms] by (simp add: push_bit_eq_mult)
  have s2: "push_bit 76 (ms * 16 + 7) OR push_bit 64 ?hi = push_bit 64 ((ms * 16 + 7) * 2 ^ 12 + ?hi)"
    using or_disjoint_add[of "?hi * 2 ^ 64" 76 "ms * 16 + 7"] hi by (simp add: push_bit_eq_mult algebra_simps)
  have s3: "push_bit 64 x OR push_bit 62 2 = push_bit 62 (x * 4 + 2)" for x :: int
    using or_disjoint_add[of "2 * 2 ^ 62" 64 x] by (simp add: push_bit_eq_mult)
  have s4: "push_bit 62 x OR ?lo = x * 2 ^ 62 + ?lo" for x
    using or_disjoint_add[of ?lo 62 x] lo by (simp add: push_bit_eq_mult)
  have range: "0 \<le> uuid7_layout ms ?hi ?lo" "uuid7_layout ms ?hi ?lo < 2 ^ 128"
    using uuid7_layout_range assms(1,2) hi lo by blast+
  have guard: "ms < push_bit 48 1" using assms(2) by simp
  have "new_uuid7 ms r = uuid_of_int (uuid7_layout ms ?hi ?lo)"
    unfolding new_uuid7_def Let_def drop mask s1 s2 s3 s4
    using assms(1) guard by (simp add: uuid7_layout_def algebra_simps)
  then show ?thesis using range by (simp add: uuid_of_int_def)
qed

lemma div_mod_digit:
  fixes q r d :: int
  assumes "v = q * d + r" "0 \<le> r" "r < d"
  shows "v div d = q" and "v mod d = r"
  using assms by (auto simp: div_add1_eq)

lemma uuid7_layout_fields:
  fixes ms hi lo v :: int
  assumes "0 \<le> hi" "hi < 2 ^ 12" "0 \<le> lo" "lo < 2 ^ 62"
  defines "v \<equiv> uuid7_layout ms hi lo"
  shows "v div 2 ^ 80 = ms"
    and "v div 2 ^ 76 mod 2 ^ 4 = 7"
    and "v div 2 ^ 64 mod 2 ^ 12 = hi"
    and "v div 2 ^ 62 mod 2 ^ 2 = 2"
    and "v mod 2 ^ 62 = lo"
proof -
  note b = assms(1-4) and v = v_def[unfolded uuid7_layout_def]
  show "v div 2 ^ 80 = ms"
    by (rule div_mod_digit(1)[where r = "7 * 2 ^ 76 + hi * 2 ^ 64 + 2 * 2 ^ 62 + lo"])
       (use b in \<open>simp_all add: v\<close>)
  have "v div 2 ^ 76 = ms * 2 ^ 4 + 7"
    by (rule div_mod_digit(1)[where r = "hi * 2 ^ 64 + 2 * 2 ^ 62 + lo"])
       (use b in \<open>simp_all add: v\<close>)
  then show "v div 2 ^ 76 mod 2 ^ 4 = 7" by (rule div_mod_digit(2)) simp_all
  have "v div 2 ^ 64 = (ms * 2 ^ 4 + 7) * 2 ^ 12 + hi"
    by (rule div_mod_digit(1)[where r = "2 * 2 ^ 62 + lo"]) (use b in \<open>simp_all add: v\<close>)
  then show "v div 2 ^ 64 mod 2 ^ 12 = hi" by (rule div_mod_digit(2)) (use b in simp_all)
  have "v div 2 ^ 62 = ((ms * 2 ^ 4 + 7) * 2 ^ 12 + hi) * 2 ^ 2 + 2"
    by (rule div_mod_digit(1)[where r = lo]) (use b in \<open>simp_all add: v\<close>)
  then show "v div 2 ^ 62 mod 2 ^ 2 = 2" by (rule div_mod_digit(2)) simp_all
  show "v mod 2 ^ 62 = lo"
    by (rule div_mod_digit(2)[where q = "((ms * 2 ^ 4 + 7) * 2 ^ 12 + hi) * 2 ^ 2 + 2"])
       (use b in \<open>simp_all add: v\<close>)
qed

subsection \<open>Properties\<close>

text \<open>
  C22. Every history of accepted publish transitions is finite and repeats no state (at most nine
  steps), and once a target has entered COMMITTING no later state is CANCELED or a state before the
  commit: what follows a commit is reconciliation and its outcomes only.
\<close>

theorem publish_history_safe:
  assumes "publish_path s ts u"
  shows "length ts \<le> 9 \<and> distinct (s # ts) \<and>
         (\<forall>xs ys. ts = xs @ COMMITTING # ys \<longrightarrow> set ys \<subseteq> {RECONCILING, SUCCEEDED, FAILED, UNKNOWN})"
proof (intro conjI allI impI)
  have "publish_rank s \<le> 9" by (cases s) simp_all
  with publish_path_length[OF assms] show "length ts \<le> 9" by simp
  show "distinct (s # ts)" by (rule publish_path_prefix_free[OF assms])
  fix xs ys
  assume "ts = xs @ COMMITTING # ys"
  with assms have path: "publish_path COMMITTING ys u" by (blast dest: publish_path_append)
  have "past_commit COMMITTING" by (simp add: past_commit_def)
  with path have "\<forall>t \<in> set ys. past_commit t"
    using publish_path_invariant[where P = past_commit] past_commit_step by blast
  moreover have "distinct (COMMITTING # ys)" by (rule publish_path_prefix_free[OF path])
  ultimately show "set ys \<subseteq> {RECONCILING, SUCCEEDED, FAILED, UNKNOWN}" by (auto simp: past_commit_def)
qed

theorem publish_history_safe_witness:
  "publish_path DRAFT [SCHEDULED, QUEUED, RUNNING, COMMITTING, RECONCILING, UNKNOWN, SUCCEEDED] SUCCEEDED \<and>
   distinct [DRAFT, SCHEDULED, QUEUED, RUNNING, COMMITTING, RECONCILING, UNKNOWN, SUCCEEDED]"
proof -
  have "publish_path DRAFT [SCHEDULED, QUEUED, RUNNING, COMMITTING, RECONCILING, UNKNOWN, SUCCEEDED] SUCCEEDED"
    by (simp add: publish_path_Cons_iff publish_path_Nil_iff)
  with publish_history_safe[OF this] show ?thesis by blast
qed

text \<open>
  An actor passes a permission check exactly when every required permission is granted by at
  least one of its roles; otherwise the check raises ForbiddenError and names what is missing, in
  sorted order.
\<close>

theorem require_permissions_correct:
  "require_permissions roles required =
     (if set required \<subseteq> (\<Union>r \<in> set roles. ROLE_PERMISSIONS r) then Inr ()
      else Inl (ForbiddenError (''missing permissions: '' @ comma_join
             (sorted_list_of_set (permission_value ` (set required - effective_permissions roles))))))"
  using missing_permissions_Nil[of roles required]
  by (auto simp: require_permissions_def Let_def sorted_missing effective_permissions_Union)

text \<open>
  C36. For a timestamp in the 48-bit range and 74 random bits, \<open>new_uuid7\<close> returns a 128-bit value whose
  version field is 7 and whose variant field is 2, and from which the timestamp and all the random
  bits can be read back; outside that range it raises.
\<close>

theorem new_uuid7_fields:
  assumes "randbits74 r"
  shows "if 0 \<le> ms \<and> ms < 2 ^ 48
         then \<exists>v. new_uuid7 ms r = Inr v \<and> 0 \<le> v \<and> v < 2 ^ 128 \<and>
                  v div 2 ^ 80 = ms \<and> v div 2 ^ 76 mod 2 ^ 4 = 7 \<and> v div 2 ^ 62 mod 2 ^ 2 = 2 \<and>
                  (v div 2 ^ 64 mod 2 ^ 12) * 2 ^ 62 + v mod 2 ^ 62 = r
         else new_uuid7 ms r = Inl (ValueError ''timestamp is outside UUIDv7 range'')"
  proof (cases "0 \<le> ms \<and> ms < 2 ^ 48")
  case True
  have hi: "0 \<le> r div 2 ^ 62" "r div 2 ^ 62 < 2 ^ 12"
    using assms by (auto simp: randbits74_def pos_imp_zdiv_nonneg_iff)
  have lo: "0 \<le> r mod 2 ^ 62" "r mod 2 ^ 62 < 2 ^ 62" by auto
  have range: "0 \<le> uuid7_layout ms (r div 2 ^ 62) (r mod 2 ^ 62)"
    "uuid7_layout ms (r div 2 ^ 62) (r mod 2 ^ 62) < 2 ^ 128"
    using uuid7_layout_range True hi lo by blast+
  show ?thesis
    using True new_uuid7_layout[of ms r] assms range uuid7_layout_fields[OF hi lo, of ms]
    by (metis div_mult_mod_eq)
next
  case False
  then show ?thesis by (auto simp: new_uuid7_def)
qed

theorem new_uuid7_fields_witness:
  "randbits74 5 \<and> (\<exists>v. new_uuid7 1700000000000 5 = Inr v \<and> v div 2 ^ 80 = 1700000000000 \<and>
                        v div 2 ^ 76 mod 2 ^ 4 = 7)"
proof -
  have r: "randbits74 5" by (simp add: randbits74_def)
  from new_uuid7_fields[OF r, of 1700000000000] show ?thesis using r by auto
qed

end
