(* ===== verification/Protocol.thy ===== *)
theory Protocol
  imports Prelude
begin

text \<open>
  The messages of the Edge control stream (\<open>packages/edge-protocol/spec/edge-control.proto\<close>), as the
  gateway and the hub see them through the generated classes: one record per message, one datatype
  per \<open>oneof\<close>, an absent \<open>oneof\<close> as \<open>None\<close>. A \<open>Timestamp\<close> is a number of microseconds; a \<open>Struct\<close>
  is a dictionary.

  Serialisation is code of the protobuf runtime. It is a parameter, the record \<open>codec\<close>; what the
  program relies on is \<open>codec_ok\<close>: parsing what was serialised gives the message back.
\<close>

record artifact_ref =
  ar_object_key :: string
  ar_sha256 :: string
  ar_size :: int
  ar_kind :: string
  ar_content_type :: string
  ar_file_name :: string
  ar_split_name :: string
  ar_package_name :: string

record start_command =
  sc_command_id :: string
  sc_task_run_id :: string
  sc_device_id :: string
  sc_lease_id :: string
  sc_fencing_token :: int
  sc_deadline :: "int option"
  sc_command_type :: string
  sc_payload :: dict
  sc_artifacts :: "artifact_ref list"

record command_ack =
  ca_command_id :: string
  ca_state :: string
  ca_error_code :: string
  ca_detail :: string

record task_event =
  te_command_id :: string
  te_task_run_id :: string
  te_step :: string
  te_state :: string
  te_occurred_at :: int
  te_attributes :: dict

record evidence_ready =
  er_command_id :: string
  er_evidence_id :: string
  er_kind :: string
  er_sha256 :: string
  er_size :: int

record confirmation_required =
  cr_confirmation_id :: string
  cr_command_id :: string
  cr_task_run_id :: string
  cr_device_id :: string
  cr_title :: string
  cr_detail :: string
  cr_risk_level :: string
  cr_expires_at :: int

record operator_action =
  oa_action_id :: string
  oa_device_id :: string
  oa_command_id :: string
  oa_confirmation_id :: string
  oa_action :: string
  oa_occurred_at :: int

record artifact_delivery_event =
  ad_command_id :: string
  ad_task_run_id :: string
  ad_device_id :: string
  ad_artifact :: artifact_ref
  ad_state :: string
  ad_bytes_received :: int
  ad_error_code :: string
  ad_occurred_at :: int

record debug_relay_frame =
  rf_session_id :: string
  rf_request_id :: string
  rf_capability :: string
  rf_kind :: string
  rf_payload :: string
  rf_end :: bool
  rf_device_id :: string

record edge_hello =
  eh_edge_id :: string
  eh_software_version :: string
  eh_last_cloud_sequence_acked :: int

record device_health =
  dh_device_id :: string
  dh_state :: string
  dh_current_task_run_id :: string
  dh_current_task_state :: string
  dh_automation_stopped :: bool

record heartbeat =
  hb_edge_id :: string
  hb_observed_at :: int
  hb_devices :: "device_health list"

datatype edge_body =
    Hello edge_hello
  | Heartbeat heartbeat
  | Command_ack command_ack
  | Task_event task_event
  | Evidence_ready evidence_ready
  | Confirmation_required confirmation_required
  | Operator_action operator_action
  | Artifact_delivery artifact_delivery_event
  | Edge_relay_frame debug_relay_frame

record edge_to_cloud =
  ec_sequence :: int
  ec_body :: "edge_body option"

record cancel_command =
  cc_command_id :: string
  cc_reason :: string

record debug_session_grant =
  dg_session_id :: string
  dg_device_id :: string
  dg_expires_at :: int
  dg_capabilities :: "string list"
  dg_lease_id :: string
  dg_fencing_token :: int
  dg_relay_token :: string

record confirmation_resolution =
  cf_confirmation_id :: string
  cf_command_id :: string
  cf_approved :: bool
  cf_actor_id :: string
  cf_decided_at :: int

record debug_session_revoke =
  dr_session_id :: string
  dr_device_id :: string
  dr_reason :: string

datatype cloud_body =
    Cloud_hello int
  | Start start_command
  | Cancel cancel_command
  | Debug_grant debug_session_grant
  | Revocations "string list"
  | Resolution confirmation_resolution
  | Debug_revoke debug_session_revoke
  | Cloud_relay_frame debug_relay_frame

record cloud_to_edge =
  ce_sequence :: int
  ce_body :: "cloud_body option"

text \<open>The width of the \<open>uint64\<close> fields (sequences, fencing tokens).\<close>

definition uint64 :: "int \<Rightarrow> bool" where
  "uint64 v = (0 \<le> v \<and> v < 2 ^ 64)"

text \<open>\<open>message.WhichOneof("body") in {None, "hello"}\<close>.\<close>

definition unsequenced :: "edge_to_cloud \<Rightarrow> bool" where
  "unsequenced m = (case ec_body m of None \<Rightarrow> True | Some (Hello _) \<Rightarrow> True | Some _ \<Rightarrow> False)"

subsection \<open>The codec\<close>

record 'b codec =
  ser_start :: "start_command \<Rightarrow> 'b"
  parse_start :: "'b \<Rightarrow> start_command option"
  ser_edge :: "edge_to_cloud \<Rightarrow> 'b"
  parse_edge :: "'b \<Rightarrow> edge_to_cloud option"
  ser_grant :: "debug_session_grant \<Rightarrow> 'b"
  parse_grant :: "'b \<Rightarrow> debug_session_grant option"
  ser_cloud :: "cloud_to_edge \<Rightarrow> 'b"
  parse_cloud :: "'b \<Rightarrow> cloud_to_edge option"

definition codec_ok :: "'b codec \<Rightarrow> bool" where
  "codec_ok c \<longleftrightarrow> (\<forall>m. parse_start c (ser_start c m) = Some m) \<and>
                  (\<forall>m. parse_edge c (ser_edge c m) = Some m) \<and>
                  (\<forall>m. parse_grant c (ser_grant c m) = Some m) \<and>
                  (\<forall>m. parse_cloud c (ser_cloud c m) = Some m)"

text \<open>A concrete codec, for the examples: the bytes are the message itself.\<close>

datatype wire = WStart start_command | WEdge edge_to_cloud | WGrant debug_session_grant | WCloud cloud_to_edge

definition wire_codec :: "wire codec" where
  "wire_codec =
     \<lparr> ser_start = WStart,
       parse_start = (\<lambda>w. case w of WStart m \<Rightarrow> Some m | _ \<Rightarrow> None),
       ser_edge = WEdge,
       parse_edge = (\<lambda>w. case w of WEdge m \<Rightarrow> Some m | _ \<Rightarrow> None),
       ser_grant = WGrant,
       parse_grant = (\<lambda>w. case w of WGrant m \<Rightarrow> Some m | _ \<Rightarrow> None),
       ser_cloud = WCloud,
       parse_cloud = (\<lambda>w. case w of WCloud m \<Rightarrow> Some m | _ \<Rightarrow> None) \<rparr>"

lemma wire_codec_ok [simp]: "codec_ok wire_codec"
  by (simp add: codec_ok_def wire_codec_def)

lemma wire_codec_simps [simp]:
  "ser_start wire_codec = WStart" "ser_edge wire_codec = WEdge" "ser_grant wire_codec = WGrant"
  "ser_cloud wire_codec = WCloud"
  "parse_start wire_codec (WStart m) = Some m"
  "parse_edge wire_codec (WEdge e) = Some e"
  "parse_grant wire_codec (WGrant g) = Some g"
  "parse_cloud wire_codec (WCloud k) = Some k"
  by (simp_all add: wire_codec_def)

lemma codec_roundtrip [simp]:
  assumes "codec_ok c"
  shows "parse_start c (ser_start c m) = Some m"
    and "parse_edge c (ser_edge c e) = Some e"
    and "parse_grant c (ser_grant c g) = Some g"
    and "parse_cloud c (ser_cloud c k) = Some k"
  using assms by (simp_all add: codec_ok_def)

lemma codec_inj [simp]:
  assumes "codec_ok c"
  shows "ser_start c m = ser_start c m' \<longleftrightarrow> m = m'"
    and "ser_edge c e = ser_edge c e' \<longleftrightarrow> e = e'"
    and "ser_grant c g = ser_grant c g' \<longleftrightarrow> g = g'"
    and "ser_cloud c k = ser_cloud c k' \<longleftrightarrow> k = k'"
  using assms by (metis codec_roundtrip(1) option.inject, metis codec_roundtrip(2) option.inject,
    metis codec_roundtrip(3) option.inject, metis codec_roundtrip(4) option.inject)

lemma unsequenced_sequence [simp]: "unsequenced (m\<lparr>ec_sequence := n\<rparr>) = unsequenced m"
  by (simp add: unsequenced_def)

end
