(* ===== verification/Spool.thy ===== *)
theory Spool
  imports Protocol "HOL-Library.Char_ord" "HOL-Library.List_Lexorder"
begin

text \<open>
  The gateway's SQLite spool (\<open>edge/gateway/src/cloudctl_edge/spool.py\<close>), the durable replay state of
  an Edge: the commands received and their fencing tokens, the outbound event stream with its
  acknowledgement watermark, the last cloud sequence, debug grants, evidence, device health, companion
  enrolment codes and bindings, and artifact deliveries.

  A table is the list of its rows in rowid order (no row is ever deleted), or a map when it is only
  reached by its key. An operation that opens a transaction is a \<open>tx\<close>: an error leaves no state
  behind, which is the \<open>ROLLBACK\<close> of \<open>_Transaction.__exit__\<close>. The text of the clock
  (\<open>datetime.now(UTC).isoformat()\<close>) is the parameter \<open>now\<close>; \<open>ORDER BY\<close> on it is SQLite's binary
  order, the lexicographic order of strings. The \<open>metadata\<close> values are the integers whose decimal
  text the table stores.
\<close>

datatype spool_error =
    CommandIdReused
  | StaleToken int int
  | FenceOtherLease
  | FenceNotOwned
  | UnsupportedCommandState string
  | UnknownCommand
  | NotSequenced
  | CloudGap int int
  | AckNeverEmitted
  | CloudSequenceNotPositive
  | GrantReused
  | GrantRevoked
  | HealthNotObject
  | SqlIntegrityError
  | SqlOverflowError
  | DecodeError

text \<open>The instances of \<open>StaleFencingToken\<close>.\<close>

fun is_StaleFencingToken :: "spool_error \<Rightarrow> bool" where
  "is_StaleFencingToken (StaleToken _ _) = True"
| "is_StaleFencingToken FenceOtherLease = True"
| "is_StaleFencingToken FenceNotOwned = True"
| "is_StaleFencingToken _ = False"

record accepted_command =
  ac_inserted :: bool
  ac_state :: string

record evidence_record =
  ev_evidence_id :: string
  ev_command_id :: string
  ev_kind :: string
  ev_path :: string
  ev_sha256 :: string
  ev_size :: int
  ev_priority :: int
  ev_attempts :: int

record 'b command_row =
  cmd_command_id :: string
  cmd_device_id :: string
  cmd_lease_id :: string
  cmd_fencing_token :: int
  cmd_command_type :: string
  cmd_serialized :: 'b
  cmd_state :: string
  cmd_received_at :: string

record 'b outbound_row =
  ob_sequence :: int
  ob_payload :: 'b
  ob_priority :: int
  ob_created_at :: string
  ob_acked :: bool

record evidence_row =
  evr_record :: evidence_record
  evr_state :: string

record enrollment_code_row =
  ecr_device_id :: string
  ecr_tenant_name :: string
  ecr_site_name :: string
  ecr_created_at :: string
  ecr_consumed_at :: "string option"

record binding_row =
  br_token_digest :: string
  br_device_id :: string
  br_created_at :: string
  br_revoked_at :: "string option"

record delivery_row =
  dlv_command_id :: string
  dlv_task_run_id :: string
  dlv_device_id :: string
  dlv_artifact_id :: string
  dlv_kind :: string
  dlv_state :: string
  dlv_bytes_received :: int
  dlv_size_bytes :: int
  dlv_error_code :: string
  dlv_observed_at :: string

record 'b grant_row =
  gr_session_id :: string
  gr_payload :: 'b
  gr_created_at :: string
  gr_revoked_at :: "string option"

record 'b spool =
  metadata :: "string \<rightharpoonup> int"
  commands :: "'b command_row list"
  fence_tokens :: "string \<rightharpoonup> (int \<times> string)"
  outbound :: "'b outbound_row list"
  evidence :: "evidence_row list"
  device_health :: "string \<rightharpoonup> (json \<times> string)"
  enrollment_codes :: "string \<rightharpoonup> enrollment_code_row"
  bindings :: "binding_row list"
  deliveries :: "delivery_row list"
  debug_grants :: "'b grant_row list"

definition metadata_int :: "'b spool \<Rightarrow> string \<Rightarrow> int" where
  "metadata_int s k = (case metadata s k of Some v \<Rightarrow> v | None \<Rightarrow> 0)"

definition set_metadata :: "string \<Rightarrow> int \<Rightarrow> 'b spool \<Rightarrow> 'b spool" where
  "set_metadata k v s = s\<lparr>metadata := (metadata s)(k \<mapsto> v)\<rparr>"

abbreviation LAST_EDGE :: string where "LAST_EDGE \<equiv> ''last_edge_sequence''"
abbreviation LAST_ACKED :: string where "LAST_ACKED \<equiv> ''last_edge_sequence_acked''"
abbreviation LAST_CLOUD :: string where "LAST_CLOUD \<equiv> ''last_cloud_sequence''"

definition create_schema :: "'b spool" where
  "create_schema =
     \<lparr> metadata = [LAST_EDGE \<mapsto> 0, LAST_ACKED \<mapsto> 0, LAST_CLOUD \<mapsto> 0],
       commands = [], fence_tokens = Map.empty, outbound = [], evidence = [],
       device_health = Map.empty, enrollment_codes = Map.empty, bindings = [], deliveries = [],
       debug_grants = [] \<rparr>"

subsection \<open>Commands and fences\<close>

definition find_command :: "'b spool \<Rightarrow> string \<Rightarrow> 'b command_row option" where
  "find_command s cid = find_row (\<lambda>r. cmd_command_id r = cid) (commands s)"

definition command_row_of :: "'b codec \<Rightarrow> string \<Rightarrow> start_command \<Rightarrow> 'b command_row" where
  "command_row_of c now command =
     \<lparr> cmd_command_id = sc_command_id command, cmd_device_id = sc_device_id command,
       cmd_lease_id = sc_lease_id command, cmd_fencing_token = sc_fencing_token command,
       cmd_command_type = sc_command_type command, cmd_serialized = ser_start c command,
       cmd_state = ''RECEIVED'', cmd_received_at = now \<rparr>"

text \<open>The check of the fence of a device: the token may not go back, nor change its lease.\<close>

definition check_fence :: "'b spool \<Rightarrow> start_command \<Rightarrow> spool_error + unit" where
  "check_fence s command =
     (case fence_tokens s (sc_device_id command) of
        None \<Rightarrow> Inr ()
      | Some (current, lease_id) \<Rightarrow>
          if sc_fencing_token command < current then Inl (StaleToken (sc_fencing_token command) current)
          else if sc_fencing_token command = current \<and> sc_lease_id command \<noteq> lease_id
          then Inl FenceOtherLease else Inr ())"

definition advance_fence :: "start_command \<Rightarrow> 'b spool \<Rightarrow> 'b spool" where
  "advance_fence command s =
     (if (case fence_tokens s (sc_device_id command) of
            None \<Rightarrow> True | Some (current, _) \<Rightarrow> current < sc_fencing_token command)
      then s\<lparr>fence_tokens := (fence_tokens s)
               (sc_device_id command \<mapsto> (sc_fencing_token command, sc_lease_id command))\<rparr>
      else s)"

definition accept_command ::
  "'b codec \<Rightarrow> string \<Rightarrow> start_command \<Rightarrow> ('b spool, spool_error, accepted_command) tx" where
  "accept_command c now command s =
     (case find_command s (sc_command_id command) of
        Some existing \<Rightarrow>
          if cmd_serialized existing \<noteq> ser_start c command then Inl CommandIdReused
          else Inr (\<lparr>ac_inserted = False, ac_state = cmd_state existing\<rparr>, s)
      | None \<Rightarrow>
          (case check_fence s command of
             Inl e \<Rightarrow> Inl e
           | Inr _ \<Rightarrow>
               if \<not> sqlite_int (sc_fencing_token command) then Inl SqlOverflowError
               else let s1 = advance_fence command s
                    in Inr (\<lparr>ac_inserted = True, ac_state = ''RECEIVED''\<rparr>,
                            s1\<lparr>commands := commands s1 @ [command_row_of c now command]\<rparr>)))"

definition assert_current_fence :: "'b spool \<Rightarrow> string \<Rightarrow> string \<Rightarrow> int \<Rightarrow> spool_error + unit" where
  "assert_current_fence s device_id lease_id fencing_token =
     (case fence_tokens s device_id of
        None \<Rightarrow> Inl FenceNotOwned
      | Some (token, lease) \<Rightarrow>
          if token \<noteq> fencing_token \<or> lease \<noteq> lease_id then Inl FenceNotOwned else Inr ())"

definition command_state :: "'b spool \<Rightarrow> string \<Rightarrow> string option" where
  "command_state s cid = map_option cmd_state (find_command s cid)"

definition command_states :: "string set" where
  "command_states = {''RECEIVED'', ''STARTED'', ''SUCCEEDED'', ''FAILED'', ''CANCELED'', ''BLOCKED_HARDWARE''}"

definition set_command_state :: "string \<Rightarrow> string \<Rightarrow> ('b spool, spool_error, unit) tx" where
  "set_command_state cid state s =
     (if state \<notin> command_states then Inl (UnsupportedCommandState state)
      else if length (filter (\<lambda>r. cmd_command_id r = cid) (commands s)) \<noteq> 1 then Inl UnknownCommand
      else Inr ((), s\<lparr>commands := upd_where (\<lambda>r. cmd_command_id r = cid)
                                            (\<lambda>r. r\<lparr>cmd_state := state\<rparr>) (commands s)\<rparr>))"

definition command_for_device ::
  "'b codec \<Rightarrow> 'b spool \<Rightarrow> string \<Rightarrow> spool_error + (start_command \<times> string) option" where
  "command_for_device c s device_id =
     (case rev (filter (\<lambda>r. cmd_device_id r = device_id) (commands s)) of
        [] \<Rightarrow> Inr None
      | r # _ \<Rightarrow> (case parse_start c (cmd_serialized r) of
                   None \<Rightarrow> Inl DecodeError
                 | Some m \<Rightarrow> Inr (Some (m, cmd_state r))))"

subsection \<open>The event stream\<close>

definition outbound_row_of :: "'b codec \<Rightarrow> string \<Rightarrow> int \<Rightarrow> int \<Rightarrow> edge_to_cloud \<Rightarrow> 'b outbound_row" where
  "outbound_row_of c now priority sequence message =
     \<lparr> ob_sequence = sequence, ob_payload = ser_edge c (message\<lparr>ec_sequence := sequence\<rparr>),
       ob_priority = priority, ob_created_at = now, ob_acked = False \<rparr>"

text \<open>
  \<open>INSERT INTO outbound\<close>: the sequence is the primary key, and SQLite binds 64-bit integers only.
\<close>

definition insert_outbound :: "'b outbound_row \<Rightarrow> 'b spool \<Rightarrow> spool_error + 'b spool" where
  "insert_outbound row s =
     (if \<not> sqlite_int (ob_sequence row) \<or> \<not> sqlite_int (ob_priority row) then Inl SqlOverflowError
      else if \<exists>r \<in> set (outbound s). ob_sequence r = ob_sequence row then Inl SqlIntegrityError
      else Inr (s\<lparr>outbound := outbound s @ [row]\<rparr>))"

definition enqueue_edge_message ::
  "'b codec \<Rightarrow> string \<Rightarrow> edge_to_cloud \<Rightarrow> int \<Rightarrow> ('b spool, spool_error, int) tx" where
  "enqueue_edge_message c now message priority s =
     (if unsequenced message then Inl NotSequenced
      else let sequence = metadata_int s LAST_EDGE + 1
           in case insert_outbound (outbound_row_of c now priority sequence message) s of
                Inl e \<Rightarrow> Inl e
              | Inr s1 \<Rightarrow> Inr (sequence, set_metadata LAST_EDGE sequence s1))"

definition record_cloud_with_edge_message ::
  "'b codec \<Rightarrow> string \<Rightarrow> int \<Rightarrow> edge_to_cloud \<Rightarrow> int \<Rightarrow> ('b spool, spool_error, int) tx" where
  "record_cloud_with_edge_message c now cloud_sequence message priority s =
     (if unsequenced message then Inl NotSequenced
      else let current_cloud = metadata_int s LAST_CLOUD
           in if cloud_sequence \<noteq> current_cloud + 1 then Inl (CloudGap (current_cloud + 1) cloud_sequence)
              else let edge_sequence = metadata_int s LAST_EDGE + 1
                   in case insert_outbound (outbound_row_of c now priority edge_sequence message) s of
                        Inl e \<Rightarrow> Inl e
                      | Inr s1 \<Rightarrow>
                          Inr (edge_sequence,
                               set_metadata LAST_CLOUD cloud_sequence
                                 (set_metadata LAST_EDGE edge_sequence s1)))"

fun parse_all :: "('b \<Rightarrow> 'm option) \<Rightarrow> 'b list \<Rightarrow> spool_error + 'm list" where
  "parse_all p [] = Inr []"
| "parse_all p (b # bs) =
     (case p b of None \<Rightarrow> Inl DecodeError
      | Some m \<Rightarrow> (case parse_all p bs of Inl e \<Rightarrow> Inl e | Inr ms \<Rightarrow> Inr (m # ms)))"

definition replay_edge_messages :: "'b codec \<Rightarrow> 'b spool \<Rightarrow> int \<Rightarrow> spool_error + edge_to_cloud list" where
  "replay_edge_messages c s after_sequence =
     (if \<not> sqlite_int after_sequence then Inl SqlOverflowError
      else parse_all (parse_edge c)
             (map ob_payload
               (sort_key ob_sequence
                 (filter (\<lambda>r. after_sequence < ob_sequence r \<and> \<not> ob_acked r) (outbound s)))))"

definition acknowledge_edge_sequence :: "int \<Rightarrow> ('b spool, spool_error, unit) tx" where
  "acknowledge_edge_sequence through_sequence s =
     (if metadata_int s LAST_EDGE < through_sequence then Inl AckNeverEmitted
      else if through_sequence \<le> metadata_int s LAST_ACKED then Inr ((), s)
      else if \<not> sqlite_int through_sequence then Inl SqlOverflowError
      else Inr ((), set_metadata LAST_ACKED through_sequence
             (s\<lparr>outbound := upd_where (\<lambda>r. ob_sequence r \<le> through_sequence)
                              (\<lambda>r. r\<lparr>ob_acked := True\<rparr>) (outbound s)\<rparr>)))"

definition record_cloud_sequence :: "int \<Rightarrow> ('b spool, spool_error, bool) tx" where
  "record_cloud_sequence sequence s =
     (if sequence < 1 then Inl CloudSequenceNotPositive
      else let current = metadata_int s LAST_CLOUD
           in if sequence \<le> current then Inr (False, s)
              else if sequence \<noteq> current + 1 then Inl (CloudGap (current + 1) sequence)
              else Inr (True, set_metadata LAST_CLOUD sequence s))"

definition last_cloud_sequence :: "'b spool \<Rightarrow> int" where
  "last_cloud_sequence s = metadata_int s LAST_CLOUD"

subsection \<open>Debug grants\<close>

definition put_debug_grant :: "'b codec \<Rightarrow> string \<Rightarrow> debug_session_grant \<Rightarrow> ('b spool, spool_error, unit) tx" where
  "put_debug_grant c now grant s =
     (let payload = ser_grant c grant
      in case find_row (\<lambda>r. gr_session_id r = dg_session_id grant) (debug_grants s) of
           Some existing \<Rightarrow>
             if gr_payload existing \<noteq> payload then Inl GrantReused
             else if gr_revoked_at existing \<noteq> None then Inl GrantRevoked
             else Inr ((), s)
         | None \<Rightarrow>
             Inr ((), s\<lparr>debug_grants := debug_grants s @
                     [\<lparr>gr_session_id = dg_session_id grant, gr_payload = payload,
                       gr_created_at = now, gr_revoked_at = None\<rparr>]\<rparr>))"

definition coalesce :: "'a option \<Rightarrow> 'a \<Rightarrow> 'a option" where
  "coalesce x d = (case x of None \<Rightarrow> Some d | Some y \<Rightarrow> Some y)"

definition revoke_debug_grant :: "string \<Rightarrow> string \<Rightarrow> 'b spool \<Rightarrow> 'b spool" where
  "revoke_debug_grant now session_id s =
     s\<lparr>debug_grants := upd_where (\<lambda>r. gr_session_id r = session_id)
        (\<lambda>r. r\<lparr>gr_revoked_at := coalesce (gr_revoked_at r) now\<rparr>) (debug_grants s)\<rparr>"

definition active_debug_grants :: "'b codec \<Rightarrow> 'b spool \<Rightarrow> spool_error + debug_session_grant list" where
  "active_debug_grants c s =
     parse_all (parse_grant c)
       (map gr_payload (sort_key gr_created_at (filter (\<lambda>r. gr_revoked_at r = None) (debug_grants s))))"

subsection \<open>Evidence\<close>

definition add_evidence :: "evidence_record \<Rightarrow> ('b spool, spool_error, unit) tx" where
  "add_evidence rec s =
     (if \<not> sqlite_int (ev_size rec) \<or> \<not> sqlite_int (ev_priority rec) \<or> \<not> sqlite_int (ev_attempts rec)
      then Inl SqlOverflowError
      else if \<exists>r \<in> set (evidence s). ev_evidence_id (evr_record r) = ev_evidence_id rec
      then Inl SqlIntegrityError
      else Inr ((), s\<lparr>evidence := evidence s @ [\<lparr>evr_record = rec, evr_state = ''PENDING''\<rparr>]\<rparr>))"

text \<open>\<open>LIMIT ?\<close>: a negative limit is no limit.\<close>

definition sql_limit :: "int \<Rightarrow> 'a list \<Rightarrow> 'a list" where
  "sql_limit n xs = (if n < 0 then xs else take (nat n) xs)"

definition pending_evidence :: "'b spool \<Rightarrow> int \<Rightarrow> evidence_record list" where
  "pending_evidence s limit =
     map evr_record
       (sql_limit limit
         (sort_key (\<lambda>r. ev_priority (evr_record r))
           (filter (\<lambda>r. evr_state r \<in> {''PENDING'', ''RETRY''}) (evidence s))))"

definition mark_evidence_uploaded :: "string \<Rightarrow> 'b spool \<Rightarrow> 'b spool" where
  "mark_evidence_uploaded eid s =
     s\<lparr>evidence := upd_where (\<lambda>r. ev_evidence_id (evr_record r) = eid)
                     (\<lambda>r. r\<lparr>evr_state := ''UPLOADED''\<rparr>) (evidence s)\<rparr>"

definition mark_evidence_retry :: "string \<Rightarrow> 'b spool \<Rightarrow> 'b spool" where
  "mark_evidence_retry eid s =
     s\<lparr>evidence := upd_where (\<lambda>r. ev_evidence_id (evr_record r) = eid)
         (\<lambda>r. r\<lparr>evr_state := ''RETRY'',
                evr_record := (evr_record r)\<lparr>ev_attempts := ev_attempts (evr_record r) + 1\<rparr>\<rparr>)
         (evidence s)\<rparr>"

subsection \<open>Device health\<close>

text \<open>\<open>json.dumps(health, sort_keys=True)\<close> followed by \<open>json.loads\<close>: the keys come back sorted.\<close>

primrec sort_keys_json :: "json \<Rightarrow> json" where
  "sort_keys_json JNull = JNull"
| "sort_keys_json (JBool b) = JBool b"
| "sort_keys_json (JInt i) = JInt i"
| "sort_keys_json (JFloat q) = JFloat q"
| "sort_keys_json (JStr t) = JStr t"
| "sort_keys_json (JList xs) = JList (map sort_keys_json xs)"
| "sort_keys_json (JObj d) = JObj (sort_key fst (map (map_prod id sort_keys_json) d))"

definition put_device_health :: "string \<Rightarrow> string \<Rightarrow> dict \<Rightarrow> 'b spool \<Rightarrow> 'b spool" where
  "put_device_health now device_id health s =
     s\<lparr>device_health := (device_health s)(device_id \<mapsto> (sort_keys_json (JObj health), now))\<rparr>"

definition get_device_health :: "'b spool \<Rightarrow> string \<Rightarrow> spool_error + dict option" where
  "get_device_health s device_id =
     (case device_health s device_id of
        None \<Rightarrow> Inr None
      | Some (payload, observed_at) \<Rightarrow>
          (case payload of
             JObj d \<Rightarrow> Inr (Some (dsetdefault d ''observed_at'' (JStr observed_at)))
           | _ \<Rightarrow> Inl HealthNotObject))"

subsection \<open>Companion enrolment\<close>

definition issue_companion_enrollment ::
  "string \<Rightarrow> string \<Rightarrow> string \<Rightarrow> string \<Rightarrow> string \<Rightarrow> 'b spool \<Rightarrow> 'b spool" where
  "issue_companion_enrollment now code_digest device_id tenant_name site_name s =
     (if enrollment_codes s code_digest \<noteq> None then s
      else s\<lparr>enrollment_codes := (enrollment_codes s)(code_digest \<mapsto>
               \<lparr>ecr_device_id = device_id, ecr_tenant_name = tenant_name, ecr_site_name = site_name,
                ecr_created_at = now, ecr_consumed_at = None\<rparr>)\<rparr>)"

text \<open>
  \<open>INSERT INTO companion_bindings ... ON CONFLICT(device_id) DO UPDATE\<close>: the token is the primary key,
  so a token that another device holds violates it, whether the row is new or updated.
\<close>

definition upsert_binding :: "string \<Rightarrow> string \<Rightarrow> string \<Rightarrow> binding_row list \<Rightarrow> spool_error + binding_row list" where
  "upsert_binding now token_digest device_id rows =
     (if \<exists>r \<in> set rows. br_token_digest r = token_digest \<and> br_device_id r \<noteq> device_id
      then Inl SqlIntegrityError
      else if \<exists>r \<in> set rows. br_device_id r = device_id
      then Inr (upd_where (\<lambda>r. br_device_id r = device_id)
                 (\<lambda>r. r\<lparr>br_token_digest := token_digest, br_created_at := now, br_revoked_at := None\<rparr>) rows)
      else Inr (rows @ [\<lparr>br_token_digest = token_digest, br_device_id = device_id,
                         br_created_at = now, br_revoked_at = None\<rparr>]))"

definition consume_companion_enrollment ::
  "string \<Rightarrow> string \<Rightarrow> string \<Rightarrow> ('b spool, spool_error, (string \<times> string \<times> string) option) tx" where
  "consume_companion_enrollment now code_digest token_digest s =
     (case enrollment_codes s code_digest of
        None \<Rightarrow> Inr (None, s)
      | Some row \<Rightarrow>
          if ecr_consumed_at row \<noteq> None then Inr (None, s)
          else (case upsert_binding now token_digest (ecr_device_id row) (bindings s) of
                  Inl e \<Rightarrow> Inl e
                | Inr rows \<Rightarrow>
                    Inr (Some (ecr_device_id row, ecr_tenant_name row, ecr_site_name row),
                         s\<lparr>enrollment_codes := (enrollment_codes s)
                              (code_digest \<mapsto> row\<lparr>ecr_consumed_at := Some now\<rparr>),
                           bindings := rows\<rparr>)))"

definition companion_binding_device :: "'b spool \<Rightarrow> string \<Rightarrow> string option" where
  "companion_binding_device s token_digest =
     map_option br_device_id
       (find_row (\<lambda>r. br_token_digest r = token_digest \<and> br_revoked_at r = None) (bindings s))"

definition revoke_companion_binding :: "string \<Rightarrow> string \<Rightarrow> string \<Rightarrow> 'b spool \<Rightarrow> bool \<times> 'b spool" where
  "revoke_companion_binding now token_digest device_id s =
     (let hit = (\<lambda>r. br_token_digest r = token_digest \<and> br_device_id r = device_id \<and> br_revoked_at r = None)
      in (length (filter hit (bindings s)) = 1,
          s\<lparr>bindings := upd_where hit (\<lambda>r. r\<lparr>br_revoked_at := Some now\<rparr>) (bindings s)\<rparr>))"

subsection \<open>Artifact deliveries\<close>

definition artifact_id_of :: "artifact_ref \<Rightarrow> string" where
  "artifact_id_of a = (if ar_sha256 a \<noteq> [] then ar_sha256 a else ar_object_key a)"

definition put_artifact_delivery :: "string \<Rightarrow> artifact_delivery_event \<Rightarrow> 'b spool \<Rightarrow> 'b spool" where
  "put_artifact_delivery now event s =
     (let aid = artifact_id_of (ad_artifact event);
          hit = (\<lambda>r. dlv_command_id r = ad_command_id event \<and> dlv_artifact_id r = aid)
      in if \<exists>r \<in> set (deliveries s). hit r
         then s\<lparr>deliveries := upd_where hit
                  (\<lambda>r. r\<lparr>dlv_state := ad_state event, dlv_bytes_received := ad_bytes_received event,
                         dlv_error_code := ad_error_code event, dlv_observed_at := now\<rparr>) (deliveries s)\<rparr>
         else s\<lparr>deliveries := deliveries s @
                  [\<lparr>dlv_command_id = ad_command_id event, dlv_task_run_id = ad_task_run_id event,
                    dlv_device_id = ad_device_id event, dlv_artifact_id = aid,
                    dlv_kind = ar_kind (ad_artifact event), dlv_state = ad_state event,
                    dlv_bytes_received = ad_bytes_received event,
                    dlv_size_bytes = ar_size (ad_artifact event),
                    dlv_error_code = ad_error_code event, dlv_observed_at = now\<rparr>]\<rparr>)"

definition progress_percent :: "delivery_row \<Rightarrow> int" where
  "progress_percent r =
     (if dlv_size_bytes r = 0 \<and> dlv_state r = ''DELIVERED'' then 100
      else if dlv_size_bytes r = 0 then 0
      else min 100 (dlv_bytes_received r * 100 div dlv_size_bytes r))"

definition delivery_dict :: "delivery_row \<Rightarrow> dict" where
  "delivery_dict r =
     [(''artifactId'', JStr (dlv_artifact_id r)), (''kind'', JStr (dlv_kind r)),
      (''state'', JStr (dlv_state r)), (''bytesReceived'', JInt (dlv_bytes_received r)),
      (''sizeBytes'', JInt (dlv_size_bytes r)), (''progressPercent'', JInt (progress_percent r)),
      (''errorCode'', if dlv_error_code r = [] then JNull else JStr (dlv_error_code r))]"

definition artifact_deliveries :: "'b spool \<Rightarrow> string \<Rightarrow> dict list" where
  "artifact_deliveries s device_id =
     map delivery_dict
       (rev (sort_key dlv_observed_at (filter (\<lambda>r. dlv_device_id r = device_id) (deliveries s))))"

subsection \<open>Steps\<close>

text \<open>The transactions of the spool: the step relation of every operation that changes it.\<close>

inductive spool_step :: "'b codec \<Rightarrow> 'b spool \<Rightarrow> 'b spool \<Rightarrow> bool" for c where
  step_accept: "accept_command c now command s = Inr (r, s') \<Longrightarrow> spool_step c s s'"
| step_state: "set_command_state cid state s = Inr (u, s') \<Longrightarrow> spool_step c s s'"
| step_enqueue: "enqueue_edge_message c now message priority s = Inr (n, s') \<Longrightarrow> spool_step c s s'"
| step_record_with:
    "record_cloud_with_edge_message c now q message priority s = Inr (n, s') \<Longrightarrow> spool_step c s s'"
| step_ack: "acknowledge_edge_sequence n s = Inr (u, s') \<Longrightarrow> spool_step c s s'"
| step_record: "record_cloud_sequence q s = Inr (b, s') \<Longrightarrow> spool_step c s s'"
| step_put_grant: "put_debug_grant c now grant s = Inr (u, s') \<Longrightarrow> spool_step c s s'"
| step_revoke_grant: "spool_step c s (revoke_debug_grant now sid s)"
| step_add_evidence: "add_evidence rec s = Inr (u, s') \<Longrightarrow> spool_step c s s'"
| step_uploaded: "spool_step c s (mark_evidence_uploaded eid s)"
| step_retry: "spool_step c s (mark_evidence_retry eid s)"
| step_health: "spool_step c s (put_device_health now did health s)"
| step_issue: "spool_step c s (issue_companion_enrollment now cd did tenant site s)"
| step_consume: "consume_companion_enrollment now cd td s = Inr (r, s') \<Longrightarrow> spool_step c s s'"
| step_revoke_binding: "revoke_companion_binding now td did s = (b, s') \<Longrightarrow> spool_step c s s'"
| step_delivery: "spool_step c s (put_artifact_delivery now event s)"

inductive spool_steps :: "'b codec \<Rightarrow> 'b spool \<Rightarrow> 'b spool \<Rightarrow> bool" for c where
  steps_refl: "spool_steps c s s"
| steps_step: "spool_steps c s s' \<Longrightarrow> spool_step c s' s'' \<Longrightarrow> spool_steps c s s''"

abbreviation spool_reachable :: "'b codec \<Rightarrow> 'b spool \<Rightarrow> bool" where
  "spool_reachable c \<equiv> spool_steps c create_schema"

end
