(* ===== verification/Spool_Laws.thy ===== *)
theory Spool_Laws
  imports Spool
begin

text \<open>
  What the spool keeps: its invariant \<open>spool_ok\<close> (contiguous edge sequences, an acknowledgement
  watermark that agrees with the rows, one row per command, no command above the fence of its device,
  stored bytes that parse), preserved by every transaction, and the laws of the event stream, the
  fences and the command table that the gateway's components rely on.
\<close>

definition edge_msg :: "'b codec \<Rightarrow> 'b outbound_row \<Rightarrow> edge_to_cloud" where
  "edge_msg c r = the (parse_edge c (ob_payload r))"

text \<open>The log of the events ever emitted, in order.\<close>

definition edge_log :: "'b codec \<Rightarrow> 'b spool \<Rightarrow> edge_to_cloud list" where
  "edge_log c s = map (edge_msg c) (outbound s)"

definition outbound_row_ok :: "'b codec \<Rightarrow> int \<Rightarrow> 'b outbound_row \<Rightarrow> bool" where
  "outbound_row_ok c acked r \<longleftrightarrow>
     (ob_acked r \<longleftrightarrow> ob_sequence r \<le> acked) \<and>
     (\<exists>m. ob_payload r = ser_edge c m \<and> ec_sequence m = ob_sequence r \<and> \<not> unsequenced m)"

definition stream_ok :: "'b codec \<Rightarrow> 'b spool \<Rightarrow> bool" where
  "stream_ok c s \<longleftrightarrow>
     0 \<le> metadata_int s LAST_ACKED \<and> metadata_int s LAST_ACKED \<le> metadata_int s LAST_EDGE \<and>
     0 \<le> metadata_int s LAST_CLOUD \<and> sqlite_int (metadata_int s LAST_EDGE) \<and>
     map ob_sequence (outbound s) = [1..metadata_int s LAST_EDGE] \<and>
     (\<forall>r \<in> set (outbound s). outbound_row_ok c (metadata_int s LAST_ACKED) r)"

text \<open>A fence moves forward: its token grows, or nothing changes.\<close>

definition fence_before :: "int \<times> string \<Rightarrow> int \<times> string \<Rightarrow> bool" where
  "fence_before a b \<longleftrightarrow> fst a < fst b \<or> a = b"

definition fence_le :: "(string \<rightharpoonup> int \<times> string) \<Rightarrow> (string \<rightharpoonup> int \<times> string) \<Rightarrow> bool" where
  "fence_le f g \<longleftrightarrow> (\<forall>d a. f d = Some a \<longrightarrow> (\<exists>b. g d = Some b \<and> fence_before a b))"

definition row_ok :: "'b codec \<Rightarrow> (string \<rightharpoonup> int \<times> string) \<Rightarrow> 'b command_row \<Rightarrow> bool" where
  "row_ok c fences r \<longleftrightarrow>
     cmd_state r \<in> command_states \<and>
     (\<exists>m. cmd_serialized r = ser_start c m \<and> sc_command_id m = cmd_command_id r \<and>
          sc_device_id m = cmd_device_id r \<and> sc_lease_id m = cmd_lease_id r \<and>
          sc_fencing_token m = cmd_fencing_token r) \<and>
     (\<exists>b. fences (cmd_device_id r) = Some b \<and> fence_before (cmd_fencing_token r, cmd_lease_id r) b)"

definition commands_ok :: "'b codec \<Rightarrow> 'b spool \<Rightarrow> bool" where
  "commands_ok c s \<longleftrightarrow>
     distinct (map cmd_command_id (commands s)) \<and> (\<forall>r \<in> set (commands s). row_ok c (fence_tokens s) r)"

definition grants_ok :: "'b codec \<Rightarrow> 'b spool \<Rightarrow> bool" where
  "grants_ok c s \<longleftrightarrow>
     distinct (map gr_session_id (debug_grants s)) \<and>
     (\<forall>r \<in> set (debug_grants s). \<exists>g. gr_payload r = ser_grant c g \<and> dg_session_id g = gr_session_id r)"

definition bindings_ok :: "'b spool \<Rightarrow> bool" where
  "bindings_ok s \<longleftrightarrow>
     distinct (map br_token_digest (bindings s)) \<and> distinct (map br_device_id (bindings s))"

definition deliveries_ok :: "'b spool \<Rightarrow> bool" where
  "deliveries_ok s \<longleftrightarrow>
     distinct (map (\<lambda>r. (dlv_command_id r, dlv_artifact_id r)) (deliveries s))"

definition spool_ok :: "'b codec \<Rightarrow> 'b spool \<Rightarrow> bool" where
  "spool_ok c s \<longleftrightarrow>
     stream_ok c s \<and> commands_ok c s \<and> grants_ok c s \<and> bindings_ok s \<and> deliveries_ok s \<and>
     distinct (map (\<lambda>r. ev_evidence_id (evr_record r)) (evidence s))"

lemmas spool_ok_defs = spool_ok_def stream_ok_def commands_ok_def grants_ok_def bindings_ok_def deliveries_ok_def

subsection \<open>Metadata\<close>

lemma metadata_int_set [simp]:
  "metadata_int (set_metadata k v s) k' = (if k' = k then v else metadata_int s k')"
  by (simp add: metadata_int_def set_metadata_def)

lemma set_metadata_fields [simp]:
  "outbound (set_metadata k v s) = outbound s"
  "commands (set_metadata k v s) = commands s"
  "fence_tokens (set_metadata k v s) = fence_tokens s"
  "debug_grants (set_metadata k v s) = debug_grants s"
  "bindings (set_metadata k v s) = bindings s"
  "deliveries (set_metadata k v s) = deliveries s"
  "evidence (set_metadata k v s) = evidence s"
  by (simp_all add: set_metadata_def)

lemma metadata_int_update [simp]:
  "metadata_int (s\<lparr>outbound := x\<rparr>) k = metadata_int s k"
  "metadata_int (s\<lparr>commands := y\<rparr>) k = metadata_int s k"
  "metadata_int (s\<lparr>fence_tokens := z\<rparr>) k = metadata_int s k"
  "metadata_int (s\<lparr>debug_grants := g\<rparr>) k = metadata_int s k"
  "metadata_int (s\<lparr>bindings := b\<rparr>) k = metadata_int s k"
  "metadata_int (s\<lparr>deliveries := d\<rparr>) k = metadata_int s k"
  "metadata_int (s\<lparr>evidence := e\<rparr>) k = metadata_int s k"
  "metadata_int (s\<lparr>device_health := h\<rparr>) k = metadata_int s k"
  "metadata_int (s\<lparr>enrollment_codes := n\<rparr>) k = metadata_int s k"
  by (simp_all add: metadata_int_def)

lemma spool_ok_init: "spool_ok c create_schema"
  by (simp add: spool_ok_defs create_schema_def metadata_int_def sqlite_int_def)

subsection \<open>The event stream\<close>

lemma stream_okD:
  assumes "stream_ok c s"
  shows "0 \<le> metadata_int s LAST_ACKED" "metadata_int s LAST_ACKED \<le> metadata_int s LAST_EDGE"
    and "0 \<le> metadata_int s LAST_CLOUD"
    and "map ob_sequence (outbound s) = [1..metadata_int s LAST_EDGE]"
    and "\<forall>r \<in> set (outbound s). outbound_row_ok c (metadata_int s LAST_ACKED) r"
    and "sqlite_int (metadata_int s LAST_EDGE)"
  using assms by (auto simp: stream_ok_def)

lemma outbound_sequence_range:
  assumes "stream_ok c s" "r \<in> set (outbound s)"
  shows "1 \<le> ob_sequence r \<and> ob_sequence r \<le> metadata_int s LAST_EDGE"
proof -
  have "ob_sequence r \<in> set (map ob_sequence (outbound s))" using assms(2) by simp
  then show ?thesis by (simp add: stream_okD(4)[OF assms(1)])
qed

lemma stream_ok_acked:
  "stream_ok c s \<Longrightarrow> r \<in> set (outbound s) \<Longrightarrow> ob_acked r \<longleftrightarrow> ob_sequence r \<le> metadata_int s LAST_ACKED"
  by (simp add: stream_ok_def outbound_row_ok_def)

lemma length_outbound:
  assumes "stream_ok c s"
  shows "int (length (outbound s)) = metadata_int s LAST_EDGE"
proof -
  have "length (map ob_sequence (outbound s)) = nat (metadata_int s LAST_EDGE)"
    by (simp add: stream_okD(4)[OF assms])
  then show ?thesis using stream_okD(1,2)[OF assms] by simp
qed

text \<open>The insertion of the next event never meets an existing key.\<close>

lemma insert_outbound_next:
  assumes "stream_ok c s"
  shows "insert_outbound (outbound_row_of c now p (metadata_int s LAST_EDGE + 1) m) s =
     (if sqlite_int (metadata_int s LAST_EDGE + 1) \<and> sqlite_int p
      then Inr (s\<lparr>outbound := outbound s @ [outbound_row_of c now p (metadata_int s LAST_EDGE + 1) m]\<rparr>)
      else Inl SqlOverflowError)"
  using outbound_sequence_range[OF assms] by (fastforce simp: insert_outbound_def outbound_row_of_def)

lemma outbound_row_ok_new:
  "\<not> unsequenced m \<Longrightarrow> acked < n \<Longrightarrow> outbound_row_ok c acked (outbound_row_of c now p n m)"
  by (auto simp: outbound_row_ok_def outbound_row_of_def intro!: exI[of _ "m\<lparr>ec_sequence := n\<rparr>"])

lemma outbound_row_ok_acked:
  "outbound_row_ok c acked r \<Longrightarrow> ob_sequence r \<le> n \<Longrightarrow> outbound_row_ok c n (r\<lparr>ob_acked := True\<rparr>)"
  by (auto simp: outbound_row_ok_def)

lemma outbound_row_ok_later:
  "outbound_row_ok c acked r \<Longrightarrow> n < ob_sequence r \<Longrightarrow> acked \<le> n \<Longrightarrow> outbound_row_ok c n r"
  by (auto simp: outbound_row_ok_def)

lemma ob_sequence_row_of [simp]: "ob_sequence (outbound_row_of c now p n m) = n"
  by (simp add: outbound_row_of_def)

lemma stream_ok_append:
  assumes "stream_ok c s" "\<not> unsequenced m" and "n = metadata_int s LAST_EDGE + 1"
    and "metadata_int s' LAST_EDGE = n" "metadata_int s' LAST_ACKED = metadata_int s LAST_ACKED"
    and "0 \<le> metadata_int s' LAST_CLOUD"
    and "outbound s' = outbound s @ [outbound_row_of c now p n m]" "sqlite_int n"
  shows "stream_ok c s'"
  using assms stream_okD[OF assms(1)] by (auto simp: stream_ok_def upto_rec2 intro: outbound_row_ok_new)

lemma set_metadata_same: "metadata_int s k = v \<Longrightarrow> metadata s k \<noteq> None \<Longrightarrow> set_metadata k v s = s"
  by (auto simp: metadata_int_def set_metadata_def intro!: spool.equality)

lemma enqueue_ok_iff:
  assumes "stream_ok c s"
  shows "enqueue_edge_message c now m p s =
     (if unsequenced m then Inl NotSequenced
      else if sqlite_int (metadata_int s LAST_EDGE + 1) \<and> sqlite_int p
      then Inr (metadata_int s LAST_EDGE + 1,
                set_metadata LAST_EDGE (metadata_int s LAST_EDGE + 1)
                  (s\<lparr>outbound := outbound s @
                      [outbound_row_of c now p (metadata_int s LAST_EDGE + 1) m]\<rparr>))
      else Inl SqlOverflowError)"
  by (simp add: enqueue_edge_message_def insert_outbound_next[OF assms] Let_def)

lemma record_with_ok_iff:
  assumes "stream_ok c s"
  shows "record_cloud_with_edge_message c now q m p s =
     (if unsequenced m then Inl NotSequenced
      else if q \<noteq> metadata_int s LAST_CLOUD + 1 then Inl (CloudGap (metadata_int s LAST_CLOUD + 1) q)
      else if sqlite_int (metadata_int s LAST_EDGE + 1) \<and> sqlite_int p
      then Inr (metadata_int s LAST_EDGE + 1,
                set_metadata LAST_CLOUD q (set_metadata LAST_EDGE (metadata_int s LAST_EDGE + 1)
                  (s\<lparr>outbound := outbound s @
                      [outbound_row_of c now p (metadata_int s LAST_EDGE + 1) m]\<rparr>)))
      else Inl SqlOverflowError)"
  by (simp add: record_cloud_with_edge_message_def insert_outbound_next[OF assms] Let_def)

lemma stream_ok_enqueue:
  assumes "stream_ok c s" "enqueue_edge_message c now m p s = Inr (n, s')"
  shows "stream_ok c s'"
  by (rule stream_ok_append[OF assms(1), of m n s' now p])
     (use assms(2) stream_okD[OF assms(1)] in \<open>auto simp: enqueue_ok_iff[OF assms(1)] split: if_splits\<close>)

lemma stream_ok_record_with:
  assumes "stream_ok c s" "record_cloud_with_edge_message c now q m p s = Inr (n, s')"
  shows "stream_ok c s'"
  by (rule stream_ok_append[OF assms(1), of m n s' now p])
     (use assms(2) stream_okD[OF assms(1)] in \<open>auto simp: record_with_ok_iff[OF assms(1)] split: if_splits\<close>)

lemma stream_ok_ack:
  assumes "stream_ok c s" "acknowledge_edge_sequence n s = Inr (u, s')"
  shows "stream_ok c s'"
proof (cases "n \<le> metadata_int s LAST_ACKED")
  case True
  then show ?thesis using assms by (auto simp: acknowledge_edge_sequence_def split: if_splits)
next
  case False
  have seq: "map ob_sequence (upd_where q (\<lambda>r. r\<lparr>ob_acked := True\<rparr>) rows) = map ob_sequence rows"
    for q :: "'a outbound_row \<Rightarrow> bool" and rows
    by (rule map_upd_where_key) simp
  show ?thesis
    using assms(2) False stream_okD[OF assms(1)]
    by (auto simp: acknowledge_edge_sequence_def stream_ok_def seq
          outbound_row_ok_acked[where acked = "metadata_int s LAST_ACKED"]
          outbound_row_ok_later[where acked = "metadata_int s LAST_ACKED"] split: if_splits)
qed

lemma stream_ok_record:
  assumes "stream_ok c s" "record_cloud_sequence q s = Inr (b, s')"
  shows "stream_ok c s'"
  using assms stream_okD[OF assms(1)]
  by (auto simp: record_cloud_sequence_def Let_def stream_ok_def split: if_splits)

lemma stream_ok_cong:
  assumes "stream_ok c s" "outbound s' = outbound s" "metadata s' = metadata s"
  shows "stream_ok c s'"
  using assms by (simp add: stream_ok_def metadata_int_def)

subsection \<open>Commands and fences\<close>

lemma fence_before_refl [simp]: "fence_before a a"
  by (simp add: fence_before_def)

lemma fence_before_trans: "fence_before a b \<Longrightarrow> fence_before b d \<Longrightarrow> fence_before a d"
  by (auto simp: fence_before_def)

lemma fence_le_refl [simp]: "fence_le f f"
  by (auto simp: fence_le_def)

lemma fence_le_trans: "fence_le f g \<Longrightarrow> fence_le g h \<Longrightarrow> fence_le f h"
  unfolding fence_le_def by (meson fence_before_trans)

lemma advance_fence_fields [simp]:
  "commands (advance_fence m s) = commands s"
  "outbound (advance_fence m s) = outbound s"
  "metadata (advance_fence m s) = metadata s"
  "debug_grants (advance_fence m s) = debug_grants s"
  "bindings (advance_fence m s) = bindings s"
  "deliveries (advance_fence m s) = deliveries s"
  "evidence (advance_fence m s) = evidence s"
  by (simp_all add: advance_fence_def)

lemma advance_fence_le: "check_fence s m = Inr u \<Longrightarrow> fence_le (fence_tokens s) (fence_tokens (advance_fence m s))"
  by (auto simp: fence_le_def fence_before_def advance_fence_def)

lemma advance_fence_owner:
  "check_fence s m = Inr u \<Longrightarrow>
     fence_tokens (advance_fence m s) (sc_device_id m) = Some (sc_fencing_token m, sc_lease_id m)"
  by (auto simp: check_fence_def advance_fence_def split: option.splits if_splits)

lemma row_ok_mono: "row_ok c f r \<Longrightarrow> fence_le f g \<Longrightarrow> row_ok c g r"
  unfolding row_ok_def fence_le_def by (meson fence_before_trans)

lemma accept_cases:
  assumes "accept_command c now m s = Inr (a, s')"
  obtains (known) r where "find_command s (sc_command_id m) = Some r" "cmd_serialized r = ser_start c m"
      "a = \<lparr>ac_inserted = False, ac_state = cmd_state r\<rparr>" "s' = s"
  | (fresh) u where "find_command s (sc_command_id m) = None" "check_fence s m = Inr u"
      "sqlite_int (sc_fencing_token m)" "a = \<lparr>ac_inserted = True, ac_state = ''RECEIVED''\<rparr>"
      "s' = (advance_fence m s)\<lparr>commands := commands s @ [command_row_of c now m]\<rparr>"
  using assms unfolding accept_command_def
  by (auto simp: Let_def split: option.splits sum.splits if_splits)

lemma accept_fence_le:
  "accept_command c now m s = Inr (a, s') \<Longrightarrow> fence_le (fence_tokens s) (fence_tokens s')"
  by (erule accept_cases) (auto dest: advance_fence_le)

lemma commands_ok_accept:
  assumes "commands_ok c s" "accept_command c now m s = Inr (a, s')"
  shows "commands_ok c s'"
  using assms(2)
proof (cases rule: accept_cases)
  case known
  then show ?thesis using assms(1) by simp
next
  case (fresh u)
  have old: "row_ok c (fence_tokens (advance_fence m s)) r" if "r \<in> set (commands s)" for r
    using that assms(1) row_ok_mono[OF _ advance_fence_le[OF fresh(2)]] by (auto simp: commands_ok_def)
  have new: "row_ok c (fence_tokens (advance_fence m s)) (command_row_of c now m)"
    using advance_fence_owner[OF fresh(2)] by (auto simp: row_ok_def command_row_of_def command_states_def)
  show ?thesis
    using assms(1) fresh(1,5) old new
    by (auto simp: commands_ok_def find_command_def find_row_None command_row_of_def)
qed

lemma row_ok_state: "row_ok c f r \<Longrightarrow> st \<in> command_states \<Longrightarrow> row_ok c f (r\<lparr>cmd_state := st\<rparr>)"
  by (auto simp: row_ok_def)

lemma commands_ok_state:
  assumes "commands_ok c s" "set_command_state cid st s = Inr (u, s')"
  shows "commands_ok c s'"
proof -
  have ids: "map cmd_command_id (upd_where q (\<lambda>r. r\<lparr>cmd_state := st\<rparr>) rows) = map cmd_command_id rows"
    for q :: "'a command_row \<Rightarrow> bool" and rows
    by (rule map_upd_where_key) simp
  show ?thesis
    using assms
    by (auto simp: set_command_state_def commands_ok_def ids row_ok_state split: if_splits)
qed

lemma commands_ok_cong:
  assumes "commands_ok c s" "commands s' = commands s" "fence_tokens s' = fence_tokens s"
  shows "commands_ok c s'"
  using assms by (simp add: commands_ok_def)

subsection \<open>The other tables\<close>

lemma grants_ok_put:
  assumes "grants_ok c s" "put_debug_grant c now g s = Inr (u, s')"
  shows "grants_ok c s'"
  using assms
  by (auto simp: put_debug_grant_def Let_def grants_ok_def find_row_None
           split: option.splits if_splits) blast+

lemma grants_ok_revoke:
  assumes "grants_ok c s"
  shows "grants_ok c (revoke_debug_grant now sid s)"
proof -
  have ids: "map gr_session_id (upd_where q (\<lambda>r. r\<lparr>gr_revoked_at := f r\<rparr>) rows) = map gr_session_id rows"
    for q :: "'a grant_row \<Rightarrow> bool" and f rows
    by (rule map_upd_where_key) simp
  show ?thesis using assms by (auto simp: revoke_debug_grant_def grants_ok_def ids)
qed

lemma distinct_upd_key:
  assumes "distinct (map k rows)" "distinct (map d rows)"
    and "\<And>r. r \<in> set rows \<Longrightarrow> k r = v \<Longrightarrow> d r = x" and "\<And>r. k (f r) = v"
  shows "distinct (map k (upd_where (\<lambda>r. d r = x) f rows))"
proof -
  have fresh: "v \<notin> k ` {r \<in> set rows. d r \<noteq> x}" using assms(3) by auto
  have "inj_on (\<lambda>r. k (if d r = x then f r else r)) (set rows)"
  proof (rule inj_onI)
    fix a b
    assume a: "a \<in> set rows" and b: "b \<in> set rows"
      and eq: "k (if d a = x then f a else a) = k (if d b = x then f b else b)"
    have inj_k: "inj_on k (set rows)" and inj_d: "inj_on d (set rows)"
      using assms(1,2) by (simp_all add: distinct_map)
    show "a = b"
      using eq a b assms(3,4) inj_onD[OF inj_k _ a b] inj_onD[OF inj_d _ a b]
      by (cases "d a = x"; cases "d b = x") (simp, metis, metis, simp)
  qed
  moreover have "distinct rows" using assms(1) by (simp add: distinct_map)
  ultimately show ?thesis by (simp add: upd_where_def comp_def distinct_map)
qed

lemma bindings_ok_upsert:
  assumes "bindings_ok s" "upsert_binding now td did (bindings s) = Inr rows"
  shows "distinct (map br_token_digest rows) \<and> distinct (map br_device_id rows)"
proof (cases "\<exists>r \<in> set (bindings s). br_device_id r = did")
  case True
  let ?f = "\<lambda>r. r\<lparr>br_token_digest := td, br_created_at := now, br_revoked_at := None\<rparr>"
  have rows: "rows = upd_where (\<lambda>r. br_device_id r = did) ?f (bindings s)"
    and free: "\<And>r. r \<in> set (bindings s) \<Longrightarrow> br_token_digest r = td \<Longrightarrow> br_device_id r = did"
    using assms(2) True by (auto simp: upsert_binding_def split: if_splits)
  have "distinct (map br_token_digest rows)"
    unfolding rows
    by (rule distinct_upd_key) (use assms(1) free in \<open>auto simp: bindings_ok_def\<close>)
  moreover have "map br_device_id rows = map br_device_id (bindings s)"
    unfolding rows by (rule map_upd_where_key) simp
  ultimately show ?thesis using assms(1) by (simp add: bindings_ok_def)
next
  case False
  then show ?thesis
    using assms by (auto simp: upsert_binding_def bindings_ok_def split: if_splits)
qed

lemma bindings_ok_consume:
  assumes "bindings_ok s" "consume_companion_enrollment now cd td s = Inr (r, s')"
  shows "bindings_ok s'"
  using assms(2) bindings_ok_upsert[OF assms(1)] assms(1)
  by (auto simp: consume_companion_enrollment_def bindings_ok_def split: option.splits if_splits sum.splits)

lemma bindings_ok_revoke:
  assumes "bindings_ok s" "revoke_companion_binding now td did s = (b, s')"
  shows "bindings_ok s'"
proof -
  have "map k (upd_where q (\<lambda>r. r\<lparr>br_revoked_at := Some now\<rparr>) rows) = map k rows"
    if "k = br_token_digest \<or> k = br_device_id" for k :: "binding_row \<Rightarrow> string" and q rows
    using that by (intro map_upd_where_key) auto
  then show ?thesis using assms by (auto simp: revoke_companion_binding_def bindings_ok_def Let_def)
qed

lemma deliveries_ok_put:
  assumes "deliveries_ok s"
  shows "deliveries_ok (put_artifact_delivery now e s)"
proof -
  let ?k = "\<lambda>r. (dlv_command_id r, dlv_artifact_id r)"
  have keys: "map ?k (upd_where q (\<lambda>r. r\<lparr>dlv_state := a, dlv_bytes_received := b, dlv_error_code := d,
                                          dlv_observed_at := now\<rparr>) rows) = map ?k rows"
    for q a b d rows by (rule map_upd_where_key) simp
  show ?thesis
    using assms by (auto simp: put_artifact_delivery_def deliveries_ok_def Let_def keys)
qed

lemma evidence_ids_upd:
  assumes "\<And>r. ev_evidence_id (evr_record (f r)) = ev_evidence_id (evr_record r)"
  shows "map (\<lambda>r. ev_evidence_id (evr_record r)) (upd_where q f rows) =
         map (\<lambda>r. ev_evidence_id (evr_record r)) rows"
  using assms by (rule map_upd_where_key)

subsection \<open>Every transaction keeps the invariant\<close>

lemma stream_ok_frame [simp]:
  "stream_ok c (s\<lparr>commands := x0\<rparr>) = stream_ok c s"
  "stream_ok c (s\<lparr>fence_tokens := x1\<rparr>) = stream_ok c s"
  "stream_ok c (s\<lparr>evidence := x2\<rparr>) = stream_ok c s"
  "stream_ok c (s\<lparr>device_health := x3\<rparr>) = stream_ok c s"
  "stream_ok c (s\<lparr>enrollment_codes := x4\<rparr>) = stream_ok c s"
  "stream_ok c (s\<lparr>bindings := x5\<rparr>) = stream_ok c s"
  "stream_ok c (s\<lparr>deliveries := x6\<rparr>) = stream_ok c s"
  "stream_ok c (s\<lparr>debug_grants := x7\<rparr>) = stream_ok c s"
  by (simp_all add: stream_ok_def)

lemma commands_ok_frame [simp]:
  "commands_ok c (s\<lparr>metadata := x0\<rparr>) = commands_ok c s"
  "commands_ok c (s\<lparr>outbound := x1\<rparr>) = commands_ok c s"
  "commands_ok c (s\<lparr>evidence := x2\<rparr>) = commands_ok c s"
  "commands_ok c (s\<lparr>device_health := x3\<rparr>) = commands_ok c s"
  "commands_ok c (s\<lparr>enrollment_codes := x4\<rparr>) = commands_ok c s"
  "commands_ok c (s\<lparr>bindings := x5\<rparr>) = commands_ok c s"
  "commands_ok c (s\<lparr>deliveries := x6\<rparr>) = commands_ok c s"
  "commands_ok c (s\<lparr>debug_grants := x7\<rparr>) = commands_ok c s"
  by (simp_all add: commands_ok_def)

lemma grants_ok_frame [simp]:
  "grants_ok c (s\<lparr>metadata := x0\<rparr>) = grants_ok c s"
  "grants_ok c (s\<lparr>commands := x1\<rparr>) = grants_ok c s"
  "grants_ok c (s\<lparr>fence_tokens := x2\<rparr>) = grants_ok c s"
  "grants_ok c (s\<lparr>outbound := x3\<rparr>) = grants_ok c s"
  "grants_ok c (s\<lparr>evidence := x4\<rparr>) = grants_ok c s"
  "grants_ok c (s\<lparr>device_health := x5\<rparr>) = grants_ok c s"
  "grants_ok c (s\<lparr>enrollment_codes := x6\<rparr>) = grants_ok c s"
  "grants_ok c (s\<lparr>bindings := x7\<rparr>) = grants_ok c s"
  "grants_ok c (s\<lparr>deliveries := x8\<rparr>) = grants_ok c s"
  by (simp_all add: grants_ok_def)

lemma bindings_ok_frame [simp]:
  "bindings_ok (s\<lparr>metadata := x0\<rparr>) = bindings_ok s"
  "bindings_ok (s\<lparr>commands := x1\<rparr>) = bindings_ok s"
  "bindings_ok (s\<lparr>fence_tokens := x2\<rparr>) = bindings_ok s"
  "bindings_ok (s\<lparr>outbound := x3\<rparr>) = bindings_ok s"
  "bindings_ok (s\<lparr>evidence := x4\<rparr>) = bindings_ok s"
  "bindings_ok (s\<lparr>device_health := x5\<rparr>) = bindings_ok s"
  "bindings_ok (s\<lparr>enrollment_codes := x6\<rparr>) = bindings_ok s"
  "bindings_ok (s\<lparr>deliveries := x7\<rparr>) = bindings_ok s"
  "bindings_ok (s\<lparr>debug_grants := x8\<rparr>) = bindings_ok s"
  by (simp_all add: bindings_ok_def)

lemma deliveries_ok_frame [simp]:
  "deliveries_ok (s\<lparr>metadata := x0\<rparr>) = deliveries_ok s"
  "deliveries_ok (s\<lparr>commands := x1\<rparr>) = deliveries_ok s"
  "deliveries_ok (s\<lparr>fence_tokens := x2\<rparr>) = deliveries_ok s"
  "deliveries_ok (s\<lparr>outbound := x3\<rparr>) = deliveries_ok s"
  "deliveries_ok (s\<lparr>evidence := x4\<rparr>) = deliveries_ok s"
  "deliveries_ok (s\<lparr>device_health := x5\<rparr>) = deliveries_ok s"
  "deliveries_ok (s\<lparr>enrollment_codes := x6\<rparr>) = deliveries_ok s"
  "deliveries_ok (s\<lparr>bindings := x7\<rparr>) = deliveries_ok s"
  "deliveries_ok (s\<lparr>debug_grants := x8\<rparr>) = deliveries_ok s"
  by (simp_all add: deliveries_ok_def)

text \<open>What an operation may change: the fields named on the right.\<close>

lemma accept_shape:
  "accept_command c now m s = Inr (a, s') \<Longrightarrow> \<exists>x y. s' = s\<lparr>fence_tokens := x, commands := y\<rparr>"
  by (cases s) (auto simp: accept_command_def advance_fence_def Let_def split: option.splits sum.splits if_splits prod.splits)

lemma set_state_shape:
  "set_command_state cid st s = Inr (u, s') \<Longrightarrow> \<exists>x. s' = s\<lparr>commands := x\<rparr>"
  by (cases s) (auto simp: set_command_state_def Let_def split: option.splits sum.splits if_splits prod.splits)

lemma enqueue_shape:
  "enqueue_edge_message c now e p s = Inr (n, s') \<Longrightarrow> \<exists>x y. s' = s\<lparr>outbound := x, metadata := y\<rparr>"
  by (cases s) (auto simp: enqueue_edge_message_def insert_outbound_def set_metadata_def Let_def split: option.splits sum.splits if_splits prod.splits)

lemma record_with_shape:
  "record_cloud_with_edge_message c now q e p s = Inr (n, s') \<Longrightarrow>
     \<exists>x y. s' = s\<lparr>outbound := x, metadata := y\<rparr>"
  by (cases s) (auto simp: record_cloud_with_edge_message_def insert_outbound_def set_metadata_def Let_def split: option.splits sum.splits if_splits prod.splits)

lemma ack_shape:
  "acknowledge_edge_sequence n s = Inr (u, s') \<Longrightarrow> \<exists>x y. s' = s\<lparr>outbound := x, metadata := y\<rparr>"
  by (cases s) (auto simp: acknowledge_edge_sequence_def set_metadata_def Let_def split: option.splits sum.splits if_splits prod.splits)

lemma record_shape:
  "record_cloud_sequence q s = Inr (b, s') \<Longrightarrow> \<exists>x. s' = s\<lparr>metadata := x\<rparr>"
  by (cases s) (auto simp: record_cloud_sequence_def set_metadata_def Let_def split: option.splits sum.splits if_splits prod.splits)

lemma put_grant_shape:
  "put_debug_grant c now g s = Inr (u, s') \<Longrightarrow> \<exists>x. s' = s\<lparr>debug_grants := x\<rparr>"
  by (cases s) (auto simp: put_debug_grant_def Let_def split: option.splits sum.splits if_splits prod.splits)

lemma add_evidence_shape:
  "add_evidence rec s = Inr (u, s') \<Longrightarrow> \<exists>x. s' = s\<lparr>evidence := x\<rparr>"
  by (cases s) (auto simp: add_evidence_def Let_def split: option.splits sum.splits if_splits prod.splits)

lemma consume_shape:
  "consume_companion_enrollment now cd td s = Inr (r, s') \<Longrightarrow>
     \<exists>x y. s' = s\<lparr>enrollment_codes := x, bindings := y\<rparr>"
  by (cases s) (auto simp: consume_companion_enrollment_def Let_def split: option.splits sum.splits if_splits prod.splits)

lemma revoke_binding_shape:
  "revoke_companion_binding now td did s = (b, s') \<Longrightarrow> \<exists>x. s' = s\<lparr>bindings := x\<rparr>"
  by (cases s) (auto simp: revoke_companion_binding_def Let_def split: option.splits sum.splits if_splits prod.splits)

lemma revoke_grant_shape:
  "\<exists>x. revoke_debug_grant now sid s = s\<lparr>debug_grants := x\<rparr>"
  by (cases s) (auto simp: revoke_debug_grant_def Let_def split: option.splits sum.splits if_splits prod.splits)

lemma uploaded_shape:
  "\<exists>x. mark_evidence_uploaded eid s = s\<lparr>evidence := x\<rparr>"
  by (cases s) (auto simp: mark_evidence_uploaded_def Let_def split: option.splits sum.splits if_splits prod.splits)

lemma retry_shape:
  "\<exists>x. mark_evidence_retry eid s = s\<lparr>evidence := x\<rparr>"
  by (cases s) (auto simp: mark_evidence_retry_def Let_def split: option.splits sum.splits if_splits prod.splits)

lemma health_shape:
  "\<exists>x. put_device_health now did h s = s\<lparr>device_health := x\<rparr>"
  by (cases s) (auto simp: put_device_health_def Let_def split: option.splits sum.splits if_splits prod.splits)

lemma issue_shape:
  "\<exists>x. issue_companion_enrollment now cd did tn sn s = s\<lparr>enrollment_codes := x\<rparr>"
  by (cases s) (auto simp: issue_companion_enrollment_def Let_def split: option.splits sum.splits if_splits prod.splits)

lemma delivery_shape:
  "\<exists>x. put_artifact_delivery now ev s = s\<lparr>deliveries := x\<rparr>"
  by (cases s) (auto simp: put_artifact_delivery_def Let_def split: option.splits sum.splits if_splits prod.splits)

lemmas op_shapes =
  accept_shape set_state_shape enqueue_shape record_with_shape ack_shape record_shape put_grant_shape add_evidence_shape
  consume_shape revoke_binding_shape revoke_grant_shape uploaded_shape retry_shape health_shape issue_shape delivery_shape

subsection \<open>Every transaction keeps the invariant\<close>

lemmas total_ops =
  revoke_debug_grant_def mark_evidence_uploaded_def mark_evidence_retry_def put_device_health_def
  issue_companion_enrollment_def put_artifact_delivery_def Let_def

lemma step_stream_ok: "spool_step c s s' \<Longrightarrow> stream_ok c s \<Longrightarrow> stream_ok c s'"
  by (erule spool_step.cases)
     (auto simp: total_ops
       dest!: accept_shape set_state_shape put_grant_shape add_evidence_shape consume_shape revoke_binding_shape
       intro: stream_ok_enqueue stream_ok_record_with stream_ok_ack stream_ok_record)

lemma step_commands_ok: "spool_step c s s' \<Longrightarrow> commands_ok c s \<Longrightarrow> commands_ok c s'"
  by (erule spool_step.cases)
     (auto simp: total_ops
       dest!: enqueue_shape record_with_shape ack_shape record_shape put_grant_shape add_evidence_shape
              consume_shape revoke_binding_shape
       intro: commands_ok_accept commands_ok_state)

lemma step_grants_ok: "spool_step c s s' \<Longrightarrow> grants_ok c s \<Longrightarrow> grants_ok c s'"
  by (erule spool_step.cases)
     (auto simp: total_ops(2-)
       dest!: accept_shape set_state_shape enqueue_shape record_with_shape ack_shape record_shape
              add_evidence_shape consume_shape revoke_binding_shape
       intro: grants_ok_put grants_ok_revoke)

lemma step_bindings_ok: "spool_step c s s' \<Longrightarrow> bindings_ok s \<Longrightarrow> bindings_ok s'"
  by (erule spool_step.cases)
     (auto simp: total_ops
       dest!: accept_shape set_state_shape enqueue_shape record_with_shape ack_shape record_shape
              put_grant_shape add_evidence_shape
       intro: bindings_ok_consume bindings_ok_revoke)

lemma step_deliveries_ok: "spool_step c s s' \<Longrightarrow> deliveries_ok s \<Longrightarrow> deliveries_ok s'"
  by (erule spool_step.cases)
     (auto simp: total_ops(1-5)
       dest!: accept_shape set_state_shape enqueue_shape record_with_shape ack_shape record_shape
              put_grant_shape add_evidence_shape consume_shape revoke_binding_shape
       intro: deliveries_ok_put)

lemma step_evidence_distinct:
  "spool_step c s s' \<Longrightarrow> distinct (map (\<lambda>r. ev_evidence_id (evr_record r)) (evidence s)) \<Longrightarrow>
   distinct (map (\<lambda>r. ev_evidence_id (evr_record r)) (evidence s'))"
  by (erule spool_step.cases)
     (auto simp: total_ops evidence_ids_upd add_evidence_def split: if_splits
       dest!: accept_shape set_state_shape enqueue_shape record_with_shape ack_shape record_shape
              put_grant_shape consume_shape revoke_binding_shape, blast)

lemma spool_step_ok: "spool_step c s s' \<Longrightarrow> spool_ok c s \<Longrightarrow> spool_ok c s'"
  unfolding spool_ok_def
  using step_stream_ok step_commands_ok step_grants_ok step_bindings_ok step_deliveries_ok
    step_evidence_distinct by blast

lemma spool_steps_ok: "spool_steps c s s' \<Longrightarrow> spool_ok c s \<Longrightarrow> spool_ok c s'"
  by (induction rule: spool_steps.induct) (auto intro: spool_step_ok)

lemma spool_reachable_ok: "spool_reachable c s \<Longrightarrow> spool_ok c s"
  using spool_steps_ok spool_ok_init by blast

lemma spool_steps_trans: "spool_steps c s t \<Longrightarrow> spool_steps c r s \<Longrightarrow> spool_steps c r t"
  by (induction rule: spool_steps.induct) (auto intro: spool_steps.intros)

lemma step_fence_le: "spool_step c s s' \<Longrightarrow> fence_le (fence_tokens s) (fence_tokens s')"
  by (erule spool_step.cases)
     (auto simp: total_ops
       dest!: set_state_shape enqueue_shape record_with_shape ack_shape record_shape put_grant_shape
              add_evidence_shape consume_shape revoke_binding_shape
       intro: accept_fence_le)

lemma steps_fence_le: "spool_steps c s s' \<Longrightarrow> fence_le (fence_tokens s) (fence_tokens s')"
  by (induction rule: spool_steps.induct) (auto intro: fence_le_trans step_fence_le)

subsection \<open>The log and its replay\<close>

lemma parse_all_rows:
  "\<forall>r \<in> set rows. p (g r) \<noteq> None \<Longrightarrow> parse_all p (map g rows) = Inr (map (\<lambda>r. the (p (g r))) rows)"
  by (induction rows) auto

lemma edge_log_length: "stream_ok c s \<Longrightarrow> int (length (edge_log c s)) = metadata_int s LAST_EDGE"
  by (simp add: edge_log_def length_outbound)

lemma edge_log_sequences:
  assumes "codec_ok c" "stream_ok c s"
  shows "map ec_sequence (edge_log c s) = [1..metadata_int s LAST_EDGE]"
proof -
  have "ec_sequence (edge_msg c r) = ob_sequence r" if "r \<in> set (outbound s)" for r
    using that assms stream_okD(5)[OF assms(2)] by (auto simp: outbound_row_ok_def edge_msg_def)
  then have "map ec_sequence (edge_log c s) = map ob_sequence (outbound s)"
    by (simp add: edge_log_def)
  then show ?thesis by (simp add: stream_okD(4)[OF assms(2)])
qed

lemma replay_drop:
  assumes "codec_ok c" "stream_ok c s" "sqlite_int k"
  shows "replay_edge_messages c s k = Inr (drop (nat (max k (metadata_int s LAST_ACKED))) (edge_log c s))"
proof -
  let ?a = "metadata_int s LAST_ACKED" and ?rows = "outbound s"
  have seqs: "map ob_sequence ?rows = [1..metadata_int s LAST_EDGE]" by (rule stream_okD(4)[OF assms(2)])
  have "filter (\<lambda>r. k < ob_sequence r \<and> \<not> ob_acked r) ?rows = filter (\<lambda>r. max k ?a < ob_sequence r) ?rows"
    by (rule filter_cong[OF refl]) (simp add: stream_ok_acked[OF assms(2)] not_le)
  also have "\<dots> = drop (nat (max k ?a)) ?rows" by (rule filter_gt_drop[OF seqs])
  finally have rows: "filter (\<lambda>r. k < ob_sequence r \<and> \<not> ob_acked r) ?rows = drop (nat (max k ?a)) ?rows" .
  have "sorted (map ob_sequence (drop (nat (max k ?a)) ?rows))"
    by (simp add: sorted_wrt_drop seqs flip: drop_map)
  moreover have "\<forall>r \<in> set (drop (nat (max k ?a)) ?rows). parse_edge c (ob_payload r) \<noteq> None"
    using stream_okD(5)[OF assms(2)] assms(1) by (auto simp: outbound_row_ok_def dest!: in_set_dropD)
  ultimately show ?thesis
    using assms(3) unfolding replay_edge_messages_def rows
    by (simp add: parse_all_rows edge_log_def edge_msg_def[abs_def] drop_map)
qed

lemma edge_log_enqueue:
  assumes "codec_ok c" "stream_ok c s" "enqueue_edge_message c now m p s = Inr (n, s')"
  shows "edge_log c s' = edge_log c s @ [m\<lparr>ec_sequence := n\<rparr>]" "n = metadata_int s LAST_EDGE + 1"
    and "metadata_int s' LAST_ACKED = metadata_int s LAST_ACKED"
    and "metadata_int s' LAST_CLOUD = metadata_int s LAST_CLOUD"
  using assms(3)
  by (auto simp: enqueue_ok_iff[OF assms(2)] edge_log_def edge_msg_def outbound_row_of_def
      codec_roundtrip[OF assms(1)] split: if_splits)

lemma edge_log_record_with:
  assumes "codec_ok c" "stream_ok c s" "record_cloud_with_edge_message c now q m p s = Inr (n, s')"
  shows "edge_log c s' = edge_log c s @ [m\<lparr>ec_sequence := n\<rparr>]" "n = metadata_int s LAST_EDGE + 1"
    and "metadata_int s' LAST_ACKED = metadata_int s LAST_ACKED"
    and "metadata_int s' LAST_CLOUD = q" "q = metadata_int s LAST_CLOUD + 1"
  using assms(3)
  by (auto simp: record_with_ok_iff[OF assms(2)] edge_log_def edge_msg_def outbound_row_of_def
      codec_roundtrip[OF assms(1)] split: if_splits)

lemma edge_log_ack:
  assumes "acknowledge_edge_sequence n s = Inr (u, s')"
  shows "edge_log c s' = edge_log c s" "metadata_int s' LAST_ACKED = max n (metadata_int s LAST_ACKED)"
    and "n \<le> metadata_int s LAST_EDGE"
    and "metadata_int s' LAST_CLOUD = metadata_int s LAST_CLOUD"
proof -
  have keep: "map (edge_msg c) (upd_where q (\<lambda>r. r\<lparr>ob_acked := True\<rparr>) rows) = map (edge_msg c) rows"
    for q and rows :: "'a outbound_row list"
    by (rule map_upd_where_key) (simp add: edge_msg_def)
  show "edge_log c s' = edge_log c s" "metadata_int s' LAST_ACKED = max n (metadata_int s LAST_ACKED)"
    "n \<le> metadata_int s LAST_EDGE" "metadata_int s' LAST_CLOUD = metadata_int s LAST_CLOUD"
    using assms by (auto simp: acknowledge_edge_sequence_def edge_log_def keep split: if_splits)
qed

lemma edge_log_frame [simp]:
  "edge_log c (s\<lparr>metadata := x0\<rparr>) = edge_log c s"
  "edge_log c (s\<lparr>commands := x1\<rparr>) = edge_log c s"
  "edge_log c (s\<lparr>fence_tokens := x2\<rparr>) = edge_log c s"
  "edge_log c (s\<lparr>evidence := x3\<rparr>) = edge_log c s"
  "edge_log c (s\<lparr>device_health := x4\<rparr>) = edge_log c s"
  "edge_log c (s\<lparr>enrollment_codes := x5\<rparr>) = edge_log c s"
  "edge_log c (s\<lparr>bindings := x6\<rparr>) = edge_log c s"
  "edge_log c (s\<lparr>deliveries := x7\<rparr>) = edge_log c s"
  "edge_log c (s\<lparr>debug_grants := x8\<rparr>) = edge_log c s"
  by (simp_all add: edge_log_def)

lemma step_edge_log:
  assumes "spool_step c s s'" "codec_ok c" "stream_ok c s"
  shows "\<exists>es. edge_log c s' = edge_log c s @ es"
  using assms
  by (cases rule: spool_step.cases)
     (auto simp: edge_log_ack(1) edge_log_enqueue(1) edge_log_record_with(1) total_ops
       dest!: accept_shape set_state_shape record_shape put_grant_shape add_evidence_shape consume_shape
              revoke_binding_shape)

lemma steps_edge_log:
  assumes "spool_steps c s s'" "codec_ok c" "spool_ok c s"
  shows "\<exists>es. edge_log c s' = edge_log c s @ es"
  using assms
proof (induction rule: spool_steps.induct)
  case (steps_step s s' s'')
  then have "stream_ok c s'" using spool_steps_ok by (auto simp: spool_ok_def)
  then obtain es where "edge_log c s'' = edge_log c s' @ es"
    using step_edge_log steps_step by blast
  then show ?case using steps_step by auto
qed simp

subsection \<open>What stays recorded\<close>

text \<open>A command keeps its content, a consumed code stays consumed, a revoked grant stays revoked.\<close>

lemma find_command_upd:
  "find_command (s\<lparr>commands := upd_where q (\<lambda>r. r\<lparr>cmd_state := st\<rparr>) (commands s)\<rparr>) cid =
     map_option (\<lambda>r. if q r then r\<lparr>cmd_state := st\<rparr> else r) (find_command s cid)"
  by (simp add: find_command_def find_row_upd_where_same)

lemma find_command_frame [simp]:
  "find_command (s\<lparr>metadata := x0\<rparr>) cid = find_command s cid"
  "find_command (s\<lparr>fence_tokens := x1\<rparr>) cid = find_command s cid"
  "find_command (s\<lparr>outbound := x2\<rparr>) cid = find_command s cid"
  "find_command (s\<lparr>evidence := x3\<rparr>) cid = find_command s cid"
  "find_command (s\<lparr>device_health := x4\<rparr>) cid = find_command s cid"
  "find_command (s\<lparr>enrollment_codes := x5\<rparr>) cid = find_command s cid"
  "find_command (s\<lparr>bindings := x6\<rparr>) cid = find_command s cid"
  "find_command (s\<lparr>deliveries := x7\<rparr>) cid = find_command s cid"
  "find_command (s\<lparr>debug_grants := x8\<rparr>) cid = find_command s cid"
  by (simp_all add: find_command_def)

lemma accept_keeps_command:
  assumes "accept_command c now m s = Inr (a, s')" "find_command s cid = Some r"
  shows "find_command s' cid = Some r"
  using assms(1) by (cases rule: accept_cases) (use assms(2) in \<open>auto simp: find_command_def find_row_append\<close>)

lemma state_keeps_command:
  assumes "set_command_state cid' st s = Inr (u, s')" "find_command s cid = Some r"
  shows "\<exists>r'. find_command s' cid = Some r' \<and> cmd_serialized r' = cmd_serialized r"
  using assms by (auto simp: set_command_state_def find_command_upd split: if_splits)

lemma step_keeps_command:
  assumes "spool_step c s s'" "find_command s cid = Some r"
  shows "\<exists>r'. find_command s' cid = Some r' \<and> cmd_serialized r' = cmd_serialized r"
proof -
  from assms(1) show ?thesis
  proof (cases rule: spool_step.cases)
    case step_accept
    then show ?thesis using assms(2) accept_keeps_command by blast
  next
    case step_state
    then show ?thesis using assms(2) state_keeps_command by blast
  qed (use assms(2) in \<open>auto simp: total_ops
        dest!: enqueue_shape record_with_shape ack_shape record_shape put_grant_shape add_evidence_shape
               consume_shape revoke_binding_shape\<close>)
qed

lemma steps_keep_command:
  assumes "spool_steps c s s'" "find_command s cid = Some r"
  shows "\<exists>r'. find_command s' cid = Some r' \<and> cmd_serialized r' = cmd_serialized r"
  using assms
proof (induction rule: spool_steps.induct)
  case (steps_step s s' s'')
  then obtain r' where "find_command s' cid = Some r'" "cmd_serialized r' = cmd_serialized r" by blast
  with step_keeps_command[OF steps_step.hyps(2)] show ?case by fastforce
qed simp

definition code_consumed :: "'b spool \<Rightarrow> string \<Rightarrow> bool" where
  "code_consumed s cd \<longleftrightarrow> (\<exists>row. enrollment_codes s cd = Some row \<and> ecr_consumed_at row \<noteq> None)"

lemma step_code_consumed: "spool_step c s s' \<Longrightarrow> code_consumed s cd \<Longrightarrow> code_consumed s' cd"
  by (erule spool_step.cases)
     (auto simp: code_consumed_def total_ops consume_companion_enrollment_def
       split: option.splits if_splits sum.splits
       dest!: accept_shape set_state_shape enqueue_shape record_with_shape ack_shape record_shape put_grant_shape
              add_evidence_shape revoke_binding_shape)

lemma steps_code_consumed: "spool_steps c s s' \<Longrightarrow> code_consumed s cd \<Longrightarrow> code_consumed s' cd"
  by (induction rule: spool_steps.induct) (auto intro: step_code_consumed)

definition grant_revoked :: "'b spool \<Rightarrow> string \<Rightarrow> bool" where
  "grant_revoked s sid \<longleftrightarrow>
     (\<exists>r. find_row (\<lambda>r. gr_session_id r = sid) (debug_grants s) = Some r \<and> gr_revoked_at r \<noteq> None)"

lemma grant_revoked_revoke:
  assumes "grant_revoked s sid"
  shows "grant_revoked (revoke_debug_grant now sid' s) sid"
proof -
  obtain r where r: "find_row (\<lambda>r. gr_session_id r = sid) (debug_grants s) = Some r" "gr_revoked_at r \<noteq> None"
    using assms by (auto simp: grant_revoked_def)
  let ?r = "if gr_session_id r = sid' then r\<lparr>gr_revoked_at := coalesce (gr_revoked_at r) now\<rparr> else r"
  have "find_row (\<lambda>r. gr_session_id r = sid) (debug_grants (revoke_debug_grant now sid' s)) = Some ?r"
    using r(1) by (simp add: revoke_debug_grant_def find_row_upd_where_same)
  moreover have "gr_revoked_at ?r \<noteq> None" using r(2) by (simp add: coalesce_def split: option.splits)
  ultimately show ?thesis by (auto simp: grant_revoked_def)
qed

lemma grant_revoked_put:
  "put_debug_grant c now g s = Inr (u, s') \<Longrightarrow> grant_revoked s sid \<Longrightarrow> grant_revoked s' sid"
  by (auto simp: put_debug_grant_def grant_revoked_def Let_def find_row_append split: option.splits if_splits)

lemma grant_revoked_frame [simp]:
  "grant_revoked (s\<lparr>metadata := x0\<rparr>) sid = grant_revoked s sid"
  "grant_revoked (s\<lparr>commands := x1\<rparr>) sid = grant_revoked s sid"
  "grant_revoked (s\<lparr>fence_tokens := x2\<rparr>) sid = grant_revoked s sid"
  "grant_revoked (s\<lparr>outbound := x3\<rparr>) sid = grant_revoked s sid"
  "grant_revoked (s\<lparr>evidence := x4\<rparr>) sid = grant_revoked s sid"
  "grant_revoked (s\<lparr>device_health := x5\<rparr>) sid = grant_revoked s sid"
  "grant_revoked (s\<lparr>enrollment_codes := x6\<rparr>) sid = grant_revoked s sid"
  "grant_revoked (s\<lparr>bindings := x7\<rparr>) sid = grant_revoked s sid"
  "grant_revoked (s\<lparr>deliveries := x8\<rparr>) sid = grant_revoked s sid"
  by (simp_all add: grant_revoked_def)

lemma step_grant_revoked: "spool_step c s s' \<Longrightarrow> grant_revoked s sid \<Longrightarrow> grant_revoked s' sid"
  by (erule spool_step.cases)
     (auto simp: total_ops(2-)
       intro: grant_revoked_put grant_revoked_revoke
       dest!: accept_shape set_state_shape enqueue_shape record_with_shape ack_shape record_shape consume_shape
              add_evidence_shape revoke_binding_shape)

lemma steps_grant_revoked: "spool_steps c s s' \<Longrightarrow> grant_revoked s sid \<Longrightarrow> grant_revoked s' sid"
  by (induction rule: spool_steps.induct) (auto intro: step_grant_revoked)

subsection \<open>A concrete spool\<close>

definition demo_command :: start_command where
  "demo_command =
     \<lparr> sc_command_id = ''c-1'', sc_task_run_id = ''r-1'', sc_device_id = ''d-1'', sc_lease_id = ''l-1'',
       sc_fencing_token = 7, sc_deadline = Some 1000, sc_command_type = ''PUBLISH'', sc_payload = [],
       sc_artifacts = [] \<rparr>"

definition demo_ack :: edge_to_cloud where
  "demo_ack = \<lparr> ec_sequence = 0, ec_body = Some (Command_ack
     \<lparr> ca_command_id = ''c-1'', ca_state = ''RECEIVED'', ca_error_code = [], ca_detail = [] \<rparr>) \<rparr>"

definition demo_spool1 :: "wire spool" where
  "demo_spool1 = (create_schema :: wire spool)\<lparr>fence_tokens := [''d-1'' \<mapsto> (7, ''l-1'')],
                    commands := [command_row_of wire_codec ''t0'' demo_command]\<rparr>"

definition demo_spool2 :: "wire spool" where
  "demo_spool2 = set_metadata LAST_EDGE 1
     (demo_spool1\<lparr>outbound := [outbound_row_of wire_codec ''t1'' 100 1 demo_ack]\<rparr>)"

definition demo_grant :: debug_session_grant where
  "demo_grant = \<lparr> dg_session_id = ''s-1'', dg_device_id = ''d-1'', dg_expires_at = 10,
     dg_capabilities = [''debug.view''], dg_lease_id = ''l-1'', dg_fencing_token = 7, dg_relay_token = ''tok'' \<rparr>"

definition demo_granted :: "wire spool" where
  "demo_granted = (create_schema :: wire spool)\<lparr>debug_grants := [\<lparr>gr_session_id = ''s-1'', gr_payload = WGrant demo_grant,
                    gr_created_at = ''t'', gr_revoked_at = None\<rparr>]\<rparr>"

lemma demo_accept:
  "accept_command wire_codec ''t0'' demo_command create_schema =
     Inr (\<lparr>ac_inserted = True, ac_state = ''RECEIVED''\<rparr>, demo_spool1)"
  by (simp add: accept_command_def find_command_def create_schema_def check_fence_def sqlite_int_def
      advance_fence_def demo_spool1_def demo_command_def)

lemma demo_enqueue: "enqueue_edge_message wire_codec ''t1'' demo_ack 100 demo_spool1 = Inr (1, demo_spool2)"
  by (simp add: enqueue_edge_message_def unsequenced_def demo_ack_def demo_spool1_def insert_outbound_def
      sqlite_int_def demo_spool2_def create_schema_def metadata_int_def outbound_row_of_def set_metadata_def)

lemma demo_reachable: "spool_reachable wire_codec demo_spool1" "spool_reachable wire_codec demo_spool2"
proof -
  show "spool_reachable wire_codec demo_spool1"
    by (rule steps_step[OF steps_refl step_accept[OF demo_accept]])
  then show "spool_reachable wire_codec demo_spool2"
    by (rule steps_step[OF _ step_enqueue[OF demo_enqueue]])
qed

subsection \<open>Properties\<close>

text \<open>
  C18. Whatever sequence of transactions runs from an empty database, the spool keeps its invariant:
  the outbound sequences are exactly 1 to the last one emitted, a row is acknowledged exactly up to
  the acknowledgement watermark, command ids, grant sessions, evidence ids, companion tokens and
  devices are unique, every stored command is at or below the fence of its device, and every stored
  payload is a serialised message.
\<close>

theorem spool_invariant:
  assumes "spool_reachable c s"
  shows "spool_ok c s"
  using assms by (rule spool_reachable_ok)

theorem spool_invariant_witness: "spool_ok wire_codec demo_spool2"
  by (rule spool_invariant[OF demo_reachable(2)])

text \<open>
  Replaying after a sequence number returns, in order and parsed, exactly the emitted events that
  are above that number and above the acknowledgement watermark; the log of emitted events itself
  only ever grows at its end.
\<close>

theorem replay_is_unacked_suffix:
  assumes "codec_ok c" "spool_reachable c s" "sqlite_int k"
  shows "replay_edge_messages c s k = Inr (drop (nat (max k (metadata_int s LAST_ACKED))) (edge_log c s)) \<and>
         map ec_sequence (edge_log c s) = [1..metadata_int s LAST_EDGE] \<and>
         (\<forall>s'. spool_steps c s s' \<longrightarrow> (\<exists>es. edge_log c s' = edge_log c s @ es))"
proof -
  have ok: "spool_ok c s" "stream_ok c s" using spool_reachable_ok[OF assms(2)] by (auto simp: spool_ok_def)
  show ?thesis
    using replay_drop[OF assms(1) ok(2) assms(3)] edge_log_sequences[OF assms(1) ok(2)]
      steps_edge_log[OF _ assms(1) ok(1)] by blast
qed

theorem replay_is_unacked_suffix_witness:
  "replay_edge_messages wire_codec demo_spool2 0 = Inr [demo_ack\<lparr>ec_sequence := 1\<rparr>]"
proof -
  have "sqlite_int 0" by (simp add: sqlite_int_def)
  with replay_is_unacked_suffix[OF wire_codec_ok demo_reachable(2), of 0]
  show ?thesis
    by (simp add: edge_log_def edge_msg_def demo_spool2_def demo_spool1_def outbound_row_of_def
        metadata_int_def set_metadata_def create_schema_def)
qed

text \<open>
  C21. Fencing: once a device's fence holds a token, then after any further transactions its token is at
  least that one (and the lease can change only with a larger token); a holder of a smaller token
  fails the ownership check, and a new command with a smaller token is rejected as stale.
\<close>

theorem superseded_token_rejected:
  assumes "fence_tokens s d = Some (t, l)" "spool_steps c s s'" "t0 < t"
  shows "(\<exists>t' l'. fence_tokens s' d = Some (t', l') \<and> t \<le> t' \<and> (t' = t \<longrightarrow> l' = l)) \<and>
         assert_current_fence s' d l0 t0 = Inl FenceNotOwned \<and>
         (\<forall>m now. sc_device_id m = d \<and> sc_fencing_token m = t0 \<and> find_command s' (sc_command_id m) = None \<longrightarrow>
              (\<exists>t' \<ge> t. accept_command c now m s' = Inl (StaleToken t0 t')))"
proof -
  obtain t' l' where f: "fence_tokens s' d = Some (t', l')" "t < t' \<or> t = t' \<and> l = l'"
    using steps_fence_le[OF assms(2)] assms(1) by (fastforce simp: fence_le_def fence_before_def)
  then have "assert_current_fence s' d l0 t0 = Inl FenceNotOwned"
    using assms(3) by (auto simp: assert_current_fence_def)
  moreover have "accept_command c now m s' = Inl (StaleToken t0 t')"
    if "sc_device_id m = d" "sc_fencing_token m = t0" "find_command s' (sc_command_id m) = None" for m now
    using that f assms(3) by (auto simp: accept_command_def check_fence_def)
  ultimately show ?thesis using f by force
qed

theorem superseded_token_rejected_witness:
  "assert_current_fence demo_spool2 ''d-1'' ''l-0'' 6 = Inl FenceNotOwned"
proof -
  have f: "fence_tokens demo_spool1 ''d-1'' = Some (7, ''l-1'')" by (simp add: demo_spool1_def)
  have st: "spool_steps wire_codec demo_spool1 demo_spool2"
    by (rule steps_step[OF steps_refl step_enqueue[OF demo_enqueue]])
  show ?thesis using superseded_token_rejected[OF f st, of 6 "''l-0''"] by simp
qed

text \<open>
  Idempotence of commands: once a command was accepted, then after any further transactions the
  same command is answered with its current state and changes nothing, and a different command under
  the same id is rejected.
\<close>

theorem accept_command_idempotent:
  assumes "codec_ok c" "accept_command c now m s = Inr (a, s1)" "spool_steps c s1 s2"
  shows "(\<exists>st. command_state s2 (sc_command_id m) = Some st \<and>
               accept_command c now' m s2 = Inr (\<lparr>ac_inserted = False, ac_state = st\<rparr>, s2)) \<and>
         (\<forall>m'. sc_command_id m' = sc_command_id m \<and> m' \<noteq> m \<longrightarrow>
               accept_command c now' m' s2 = Inl CommandIdReused)"
proof -
  obtain r where "find_command s1 (sc_command_id m) = Some r" "cmd_serialized r = ser_start c m"
    using assms(2)
    by (cases rule: accept_cases)
       (auto simp: find_command_def find_row_append command_row_of_def)
  then obtain r' where "find_command s2 (sc_command_id m) = Some r'" "cmd_serialized r' = ser_start c m"
    using steps_keep_command[OF assms(3)] by fastforce
  then show ?thesis
    using codec_inj(1)[OF assms(1)] by (auto simp: accept_command_def command_state_def)
qed

theorem accept_command_idempotent_witness:
  "accept_command wire_codec ''t9'' (demo_command\<lparr>sc_lease_id := ''l-2''\<rparr>) demo_spool2 = Inl CommandIdReused"
proof -
  have st: "spool_steps wire_codec demo_spool1 demo_spool2"
    by (rule steps_step[OF steps_refl step_enqueue[OF demo_enqueue]])
  show ?thesis
    using accept_command_idempotent[OF wire_codec_ok demo_accept st, of "''t9''"]
    by (simp add: demo_command_def)
qed

text \<open>
  A companion enrolment code binds at most once: after it was consumed, no later presentation of it
  changes the spool or returns a binding, whatever happened in between.
\<close>

theorem enrollment_code_single_use:
  assumes "consume_companion_enrollment now cd td s = Inr (Some b, s1)" "spool_steps c s1 s2"
  shows "consume_companion_enrollment now' cd td' s2 = Inr (None, s2)"
proof -
  have "code_consumed s1 cd"
    using assms(1) by (auto simp: consume_companion_enrollment_def code_consumed_def
        split: option.splits if_splits sum.splits)
  from steps_code_consumed[OF assms(2) this] show ?thesis
    by (auto simp: code_consumed_def consume_companion_enrollment_def)
qed

theorem enrollment_code_single_use_witness:
  "\<exists>b s1. consume_companion_enrollment ''t'' ''code'' ''tok''
            (issue_companion_enrollment ''t'' ''code'' ''d-1'' ''T'' ''S'' (create_schema :: wire spool)) =
          Inr (Some b, s1) \<and>
          consume_companion_enrollment ''t2'' ''code'' ''tok2'' s1 = Inr (None, s1)"
proof -
  define s0 :: "wire spool" where
    "s0 = issue_companion_enrollment ''t'' ''code'' ''d-1'' ''T'' ''S'' create_schema"
  obtain b s1 where c: "consume_companion_enrollment ''t'' ''code'' ''tok'' s0 = Inr (Some b, s1)"
    by (simp add: s0_def consume_companion_enrollment_def issue_companion_enrollment_def create_schema_def
        upsert_binding_def)
  have "consume_companion_enrollment ''t2'' ''code'' ''tok2'' s1 = Inr (None, s1)"
    by (rule enrollment_code_single_use[OF c steps_refl])
  with c show ?thesis unfolding s0_def by blast
qed

text \<open>
  A debug session that was revoked stays revoked: after any further transactions it is in no list
  of active grants and granting it again raises.
\<close>

theorem revoked_grant_stays_revoked:
  assumes "codec_ok c" "spool_reachable c s" "grant_revoked s (dg_session_id g)" "spool_steps c s s2"
  shows "\<not> is_ok (put_debug_grant c now g s2) \<and>
         (\<exists>gs. active_debug_grants c s2 = Inr gs \<and> dg_session_id g \<notin> dg_session_id ` set gs)"
proof -
  have "spool_ok c s2" using spool_reachable_ok[OF assms(2)] spool_steps_ok[OF assms(4)] by blast
  then have grants: "distinct (map gr_session_id (debug_grants s2))"
    "\<forall>r \<in> set (debug_grants s2). \<exists>g. gr_payload r = ser_grant c g \<and> dg_session_id g = gr_session_id r"
    by (auto simp: spool_ok_def grants_ok_def)
  have revoked: "grant_revoked s2 (dg_session_id g)" by (rule steps_grant_revoked[OF assms(4,3)])
  then have "\<not> is_ok (put_debug_grant c now g s2)"
    by (auto simp: grant_revoked_def put_debug_grant_def Let_def split: if_splits)
  moreover have "gr_session_id r \<noteq> dg_session_id g"
    if "r \<in> set (debug_grants s2)" "gr_revoked_at r = None" for r
    using find_row_unique[OF grants(1) that(1) refl] revoked that(2) by (auto simp: grant_revoked_def)
  moreover have "\<exists>gs. active_debug_grants c s2 = Inr gs \<and>
      (\<forall>g' \<in> set gs. \<exists>r \<in> set (debug_grants s2). gr_revoked_at r = None \<and> dg_session_id g' = gr_session_id r)"
    unfolding active_debug_grants_def
    by (subst parse_all_rows) (use grants(2) codec_roundtrip(3)[OF assms(1)] in force)+
  ultimately show ?thesis by fastforce
qed

theorem revoked_grant_stays_revoked_witness:
  "\<not> is_ok (put_debug_grant wire_codec ''t2'' demo_grant (revoke_debug_grant ''t1'' ''s-1'' demo_granted))"
proof -
  have put: "put_debug_grant wire_codec ''t'' demo_grant create_schema = Inr ((), demo_granted)"
    by (simp add: put_debug_grant_def create_schema_def demo_granted_def demo_grant_def)
  have reach: "spool_reachable wire_codec (revoke_debug_grant ''t1'' ''s-1'' demo_granted)"
    by (rule steps_step[OF steps_step[OF steps_refl step_put_grant[OF put]] step_revoke_grant])
  have rev: "grant_revoked (revoke_debug_grant ''t1'' ''s-1'' demo_granted) (dg_session_id demo_grant)"
    by (simp add: grant_revoked_def revoke_debug_grant_def demo_granted_def demo_grant_def coalesce_def)
  show ?thesis using revoked_grant_stays_revoked[OF wire_codec_ok reach rev steps_refl] by blast
qed

end
