(* ===== verification/Runner.thy ===== *)
theory Runner
  imports Spool_Laws
begin

text \<open>
  The gateway's execution side: the runner supervisor of \<open>runner.py\<close> (one active runner per device, the
  fence checked before device access, the final state recorded whatever happens) and the command
  scheduler of \<open>scheduler.py\<close> (validation, acceptance into the spool, dispatch, cancellation).

  A runner task runs concurrently with the stream handler; its code between two awaits is one step:
  \<open>run_begin\<close> up to the call of the executor, \<open>run_finish\<close> from its return. What the executor does on
  the device is its outcome.
\<close>

subsection \<open>State\<close>

datatype runner_phase = Created | Executing | Done

record runner =
  rn_command :: start_command
  rn_cancel :: bool
  rn_phase :: runner_phase

record 'b gateway =
  gw_spool :: "'b spool"
  gw_active :: "(string \<times> runner) list"

datatype runner_error = RunnerBusy string

text \<open>How \<open>executor.execute\<close> ends: it returns, or one of the exceptions that \<open>_run\<close> tells apart.\<close>

datatype outcome = Returned | RaisedCancelled | RaisedHardware | RaisedStale | RaisedOther

subsection \<open>RunnerSupervisor\<close>

definition sup_start :: "start_command \<Rightarrow> 'b gateway \<Rightarrow> runner_error + 'b gateway" where
  "sup_start command g =
     (let fresh = \<lparr>rn_command = command, rn_cancel = False, rn_phase = Created\<rparr>
      in case map_of (gw_active g) (sc_device_id command) of
           Some current \<Rightarrow>
             if rn_phase current \<noteq> Done
             then Inl (RunnerBusy (''device '' @ sc_device_id command @ '' already has an active runner''))
             else Inr (g\<lparr>gw_active := AList.update (sc_device_id command) fresh (gw_active g)\<rparr>)
         | None \<Rightarrow> Inr (g\<lparr>gw_active := AList.update (sc_device_id command) fresh (gw_active g)\<rparr>))"

fun cancel_first :: "string \<Rightarrow> (string \<times> runner) list \<Rightarrow> bool \<times> (string \<times> runner) list" where
  "cancel_first cid [] = (False, [])"
| "cancel_first cid ((d, r) # rs) =
     (if sc_command_id (rn_command r) = cid \<and> rn_phase r \<noteq> Done
      then (True, (d, r\<lparr>rn_cancel := True\<rparr>) # rs)
      else let (b, rs') = cancel_first cid rs in (b, (d, r) # rs'))"

definition sup_cancel :: "string \<Rightarrow> 'b gateway \<Rightarrow> bool \<times> 'b gateway" where
  "sup_cancel cid g = (let (b, rs) = cancel_first cid (gw_active g) in (b, g\<lparr>gw_active := rs\<rparr>))"

definition active_command :: "'b gateway \<Rightarrow> string \<Rightarrow> string option" where
  "active_command g device_id =
     (case map_of (gw_active g) device_id of
        None \<Rightarrow> None
      | Some r \<Rightarrow> if rn_phase r = Done then None else Some (sc_command_id (rn_command r)))"

definition cancel_stale :: "string \<Rightarrow> int \<Rightarrow> 'b gateway \<Rightarrow> 'b gateway" where
  "cancel_stale device_id current_fencing_token g =
     (case map_of (gw_active g) device_id of
        Some r \<Rightarrow>
          if rn_phase r \<noteq> Done \<and> sc_fencing_token (rn_command r) < current_fencing_token
          then g\<lparr>gw_active := AList.update device_id (r\<lparr>rn_cancel := True\<rparr>) (gw_active g)\<rparr>
          else g
      | None \<Rightarrow> g)"

definition runner_event :: "start_command \<Rightarrow> string \<Rightarrow> edge_to_cloud" where
  "runner_event command state =
     \<lparr> ec_sequence = 0,
       ec_body = Some (Task_event \<lparr> te_command_id = sc_command_id command, te_task_run_id = sc_task_run_id command,
         te_step = ''runner'', te_state = state, te_occurred_at = 0, te_attributes = [] \<rparr>) \<rparr>"

text \<open>\<open>emit_task_event\<close> of the control stream is the event sink: the spool with priority 10.\<close>

definition emit_task_event :: "'b codec \<Rightarrow> string \<Rightarrow> edge_to_cloud \<Rightarrow> ('b spool, spool_error, int) tx" where
  "emit_task_event c now event s = enqueue_edge_message c now event 10 s"

text \<open>The state the outcome leads to, given whether the cancel event is set.\<close>

fun final_state :: "outcome \<Rightarrow> bool \<Rightarrow> string" where
  "final_state Returned cancel = (if cancel then ''CANCELED'' else ''SUCCEEDED'')"
| "final_state RaisedCancelled cancel = ''CANCELED''"
| "final_state RaisedHardware cancel = ''BLOCKED_HARDWARE''"
| "final_state RaisedStale cancel = (if cancel then ''CANCELED'' else ''FAILED'')"
| "final_state RaisedOther cancel = ''FAILED''"

text \<open>
  The \<open>finally\<close> of \<open>_run\<close>: record the final state and emit it (an error of either is swallowed with the
  task), then leave the table of active runners if the entry is still this command's.
\<close>

definition record_final :: "'b codec \<Rightarrow> string \<Rightarrow> start_command \<Rightarrow> string \<Rightarrow> 'b spool \<Rightarrow> 'b spool" where
  "record_final c now command state s =
     (case set_command_state (sc_command_id command) state s of
        Inl _ \<Rightarrow> s
      | Inr (_, s1) \<Rightarrow>
          (case emit_task_event c now (runner_event command state) s1 of
             Inl _ \<Rightarrow> s1
           | Inr (_, s2) \<Rightarrow> s2))"

definition leave_active :: "start_command \<Rightarrow> (string \<times> runner) list \<Rightarrow> (string \<times> runner) list" where
  "leave_active command active =
     (case map_of active (sc_device_id command) of
        Some current \<Rightarrow>
          if sc_command_id (rn_command current) = sc_command_id command
          then AList.delete (sc_device_id command) active else active
      | None \<Rightarrow> active)"

definition run_finish :: "'b codec \<Rightarrow> string \<Rightarrow> start_command \<Rightarrow> bool \<Rightarrow> outcome \<Rightarrow> 'b gateway \<Rightarrow> 'b gateway" where
  "run_finish c now command cancel out g =
     g\<lparr>gw_spool := record_final c now command (final_state out cancel) (gw_spool g),
       gw_active := leave_active command (gw_active g)\<rparr>"

text \<open>
  The start of \<open>_run\<close>, up to the executor: the fence check, the state \<open>STARTED\<close>, its event. An error on the
  way goes to the \<open>finally\<close> with the state its exception class gives.
\<close>

definition run_begin :: "'b codec \<Rightarrow> string \<Rightarrow> runner \<Rightarrow> 'b gateway \<Rightarrow> 'b gateway" where
  "run_begin c now r g =
     (let command = rn_command r; cancel = rn_cancel r
      in case assert_current_fence (gw_spool g) (sc_device_id command) (sc_lease_id command) (sc_fencing_token command) of
           Inl _ \<Rightarrow> run_finish c now command cancel RaisedStale g
         | Inr _ \<Rightarrow>
             (case set_command_state (sc_command_id command) ''STARTED'' (gw_spool g) of
                Inl _ \<Rightarrow> run_finish c now command cancel RaisedOther g
              | Inr (_, s1) \<Rightarrow>
                  (case emit_task_event c now (runner_event command ''STARTED'') s1 of
                     Inl _ \<Rightarrow> run_finish c now command cancel RaisedOther (g\<lparr>gw_spool := s1\<rparr>)
                   | Inr (_, s2) \<Rightarrow>
                       g\<lparr>gw_spool := s2,
                         gw_active := AList.update (sc_device_id command) (r\<lparr>rn_phase := Executing\<rparr>) (gw_active g)\<rparr>)))"

subsection \<open>CommandScheduler\<close>

definition ALLOWED_COMMAND_TYPES :: "string set" where
  "ALLOWED_COMMAND_TYPES = {''RUN_AUTOMATION'', ''INSTALL_APK'', ''PREFETCH_ARTIFACTS'', ''PUSH_MEDIA'',
                            ''COLLECT_HEALTH'', ''STOP_AUTOMATION''}"

definition ARTIFACT_KINDS :: "string set" where
  "ARTIFACT_KINDS = {''APK'', ''APK_SPLIT'', ''MEDIA'', ''AUTOMATION_PACKAGE''}"

definition allowed_by_command :: "string \<Rightarrow> string set" where
  "allowed_by_command command_type =
     (if command_type = ''INSTALL_APK'' then {''APK'', ''APK_SPLIT''}
      else if command_type = ''PUSH_MEDIA'' then {''MEDIA''}
      else if command_type = ''PREFETCH_ARTIFACTS'' then ARTIFACT_KINDS
      else if command_type = ''RUN_AUTOMATION'' then {''MEDIA'', ''AUTOMATION_PACKAGE''}
      else {})"

definition key_parts :: "string \<Rightarrow> string list" where
  "key_parts object_key = split_on (CHR ''/'') (replace_char (CHR 0x5C) (CHR ''/'') object_key)"

definition validate_artifact :: "string \<Rightarrow> artifact_ref \<Rightarrow> (string \<times> string) option" where
  "validate_artifact command_type a =
     (if ar_kind a \<notin> ARTIFACT_KINDS \<or> ar_kind a \<notin> allowed_by_command command_type
      then Some (''EDGE_ARTIFACT_KIND_DENIED'', ''artifact kind is not allowed for command'')
      else if \<not> is_sha256 (str_lower (ar_sha256 a))
      then Some (''EDGE_ARTIFACT_INVALID'', ''artifact SHA256 is invalid'')
      else if ar_size a < 0 \<or> ar_object_key a = []
      then Some (''EDGE_ARTIFACT_INVALID'', ''artifact object key and size are required'')
      else if list_ex (\<lambda>part. part \<in> {[], ''.'', ''..''}) (key_parts (ar_object_key a))
      then Some (''EDGE_ARTIFACT_INVALID'', ''artifact object key is not canonical'')
      else if ar_file_name a \<noteq> [] \<and>
              (CHR ''/'' \<in> set (ar_file_name a) \<or> CHR 0x5C \<in> set (ar_file_name a) \<or> ar_file_name a \<in> {''.'', ''..''})
      then Some (''EDGE_ARTIFACT_INVALID'', ''artifact file name cannot contain a path'')
      else None)"

fun first_error :: "('a \<Rightarrow> 'e option) \<Rightarrow> 'a list \<Rightarrow> 'e option" where
  "first_error f [] = None"
| "first_error f (x # xs) = (case f x of Some e \<Rightarrow> Some e | None \<Rightarrow> first_error f xs)"

definition validate_artifacts :: "start_command \<Rightarrow> (string \<times> string) option" where
  "validate_artifacts command =
     (if sc_command_type command \<in> {''INSTALL_APK'', ''PREFETCH_ARTIFACTS'', ''PUSH_MEDIA''} \<and> sc_artifacts command = []
      then Some (''EDGE_ARTIFACT_REQUIRED'', ''command requires at least one approved artifact'')
      else first_error (validate_artifact (sc_command_type command)) (sc_artifacts command))"

definition validate :: "start_command \<Rightarrow> int \<Rightarrow> (string \<times> string) option" where
  "validate command now =
     (if \<not> list_all id_pattern [sc_command_id command, sc_task_run_id command, sc_device_id command, sc_lease_id command]
      then Some (''EDGE_INVALID_COMMAND'', ''command, task run and device identifiers are required'')
      else if sc_fencing_token command < 1 \<or> 2 ^ 63 - 1 < sc_fencing_token command
      then Some (''EDGE_INVALID_LEASE'', ''lease_id and positive fencing_token are required'')
      else if sc_command_type command \<notin> ALLOWED_COMMAND_TYPES
      then Some (''EDGE_CAPABILITY_DENIED'', ''command type is not on the Edge allowlist'')
      else case validate_artifacts command of
             Some e \<Rightarrow> Some e
           | None \<Rightarrow>
               (case sc_deadline command of
                  None \<Rightarrow> Some (''EDGE_DEADLINE_REQUIRED'', ''command deadline is required'')
                | Some deadline \<Rightarrow>
                    if deadline \<le> now then Some (''EDGE_DEADLINE_EXPIRED'', ''command deadline has expired'')
                    else None))"

definition ack_of :: "string \<Rightarrow> string \<Rightarrow> string \<Rightarrow> string \<Rightarrow> command_ack" where
  "ack_of cid state ecode detail = \<lparr>ca_command_id = cid, ca_state = state, ca_error_code = ecode, ca_detail = detail\<rparr>"

text \<open>The texts of the exceptions that \<open>accept_command\<close> raises.\<close>

fun spool_error_text :: "spool_error \<Rightarrow> string" where
  "spool_error_text (StaleToken t current) =
     ''fencing token '' @ dec_int t @ '' is below current token '' @ dec_int current"
| "spool_error_text FenceOtherLease = ''current fencing token belongs to another lease''"
| "spool_error_text CommandIdReused = ''command_id was reused with different content''"
| "spool_error_text _ = []"

text \<open>
  \<open>receive\<close> catches \<open>SpoolError\<close> and its subclass; an error of the database layer would escape as an
  exception (\<open>Inl\<close>). \<open>now_us\<close> and \<open>now\<close> are the same clock as a number and as text.
\<close>

definition is_sqlite_error :: "spool_error \<Rightarrow> bool" where
  "is_sqlite_error e = (e \<in> {SqlIntegrityError, SqlOverflowError, DecodeError})"

definition receive :: "'b codec \<Rightarrow> string \<Rightarrow> int \<Rightarrow> start_command \<Rightarrow> 'b gateway \<Rightarrow> spool_error + command_ack \<times> 'b gateway" where
  "receive c now now_us command g =
     (case validate command now_us of
        Some (ecode, detail) \<Rightarrow> Inr (ack_of (sc_command_id command) ''REJECTED'' ecode detail, g)
      | None \<Rightarrow>
          (case accept_command c now command (gw_spool g) of
             Inl e \<Rightarrow>
               if is_sqlite_error e then Inl e
               else if is_StaleFencingToken e
               then Inr (ack_of (sc_command_id command) ''REJECTED'' ''EDGE_STALE_FENCE'' (spool_error_text e), g)
               else Inr (ack_of (sc_command_id command) ''REJECTED'' ''EDGE_COMMAND_CONFLICT'' (spool_error_text e), g)
           | Inr (accepted, s') \<Rightarrow>
               let g1 = g\<lparr>gw_spool := s'\<rparr>;
                   g2 = (if ac_inserted accepted
                         then cancel_stale (sc_device_id command) (sc_fencing_token command) g1 else g1)
               in Inr (ack_of (sc_command_id command) (ac_state accepted) [] [], g2)))"

definition dispatch :: "start_command \<Rightarrow> 'b gateway \<Rightarrow> command_ack \<times> 'b gateway" where
  "dispatch command g =
     (if command_state (gw_spool g) (sc_command_id command) \<noteq> Some ''RECEIVED''
      then (ack_of (sc_command_id command) ''REJECTED'' ''EDGE_COMMAND_STATE'' ''command is not dispatchable'', g)
      else case sup_start command g of
             Inl (RunnerBusy text) \<Rightarrow> (ack_of (sc_command_id command) ''REJECTED'' ''EDGE_DEVICE_BUSY'' text, g)
           | Inr g' \<Rightarrow> (ack_of (sc_command_id command) ''STARTED'' [] [], g'))"

definition cancel :: "cancel_command \<Rightarrow> 'b gateway \<Rightarrow> bool \<times> 'b gateway" where
  "cancel command g = sup_cancel (cc_command_id command) g"

text \<open>
  The steps of the gateway: the scheduler's operations, the two halves of a runner task, and any other
  transaction of the spool that leaves the fences alone.
\<close>

inductive gateway_step :: "'b codec \<Rightarrow> 'b gateway \<Rightarrow> 'b gateway \<Rightarrow> bool" for c where
  gw_receive: "receive c now now_us command g = Inr (ack, g') \<Longrightarrow> gateway_step c g g'"
| gw_dispatch: "dispatch command g = (ack, g') \<Longrightarrow> gateway_step c g g'"
| gw_cancel: "cancel command g = (b, g') \<Longrightarrow> gateway_step c g g'"
| gw_begin: "map_of (gw_active g) d = Some r \<Longrightarrow> rn_phase r = Created \<Longrightarrow> gateway_step c g (run_begin c now r g)"
| gw_finish: "map_of (gw_active g) d = Some r \<Longrightarrow> rn_phase r = Executing \<Longrightarrow>
    gateway_step c g (run_finish c now (rn_command r) (rn_cancel r) out g)"
| gw_spool: "spool_step c (gw_spool g) s' \<Longrightarrow> fence_tokens s' = fence_tokens (gw_spool g) \<Longrightarrow>
    gateway_step c g (g\<lparr>gw_spool := s'\<rparr>)"

inductive gateway_reachable :: "'b codec \<Rightarrow> 'b gateway \<Rightarrow> bool" for c where
  gw_init: "spool_reachable c s \<Longrightarrow> gateway_reachable c \<lparr>gw_spool = s, gw_active = []\<rparr>"
| gw_step: "gateway_reachable c g \<Longrightarrow> gateway_step c g g' \<Longrightarrow> gateway_reachable c g'"

subsection \<open>Lemmas: the table of active runners\<close>

lemma map_of_cancel_first:
  "map_of (snd (cancel_first cid rs)) d =
     (case map_of rs d of None \<Rightarrow> None
      | Some r \<Rightarrow> if map_of (snd (cancel_first cid rs)) d = Some r then Some r else Some (r\<lparr>rn_cancel := True\<rparr>))"
  by (induction cid rs rule: cancel_first.induct) (auto split: option.splits prod.splits)

text \<open>An entry of a runner that executes on a device: it holds the fence, or it has been told to stop.\<close>

definition runner_ok :: "(string \<rightharpoonup> int \<times> string) \<Rightarrow> string \<Rightarrow> runner \<Rightarrow> bool" where
  "runner_ok fences d r \<longleftrightarrow>
     sc_device_id (rn_command r) = d \<and> rn_phase r \<noteq> Done \<and>
     (rn_phase r = Executing \<longrightarrow>
        rn_cancel r \<or> fences d = Some (sc_fencing_token (rn_command r), sc_lease_id (rn_command r)))"

definition gateway_ok :: "'b gateway \<Rightarrow> bool" where
  "gateway_ok g \<longleftrightarrow> (\<forall>d r. map_of (gw_active g) d = Some r \<longrightarrow> runner_ok (fence_tokens (gw_spool g)) d r)"

lemma gateway_okD: "gateway_ok g \<Longrightarrow> map_of (gw_active g) d = Some r \<Longrightarrow> runner_ok (fence_tokens (gw_spool g)) d r"
  by (simp add: gateway_ok_def)

lemma runner_ok_cancel: "runner_ok f d r \<Longrightarrow> runner_ok g d (r\<lparr>rn_cancel := True\<rparr>)"
  by (simp add: runner_ok_def)

lemma gateway_ok_update:
  assumes "gateway_ok g" "fence_tokens s = fence_tokens (gw_spool g)" "runner_ok (fence_tokens s) d r"
    "gw_spool g' = s" "gw_active g' = AList.update d r (gw_active g)"
  shows "gateway_ok g'"
  unfolding gateway_ok_def assms(4,5)
  using assms(1-3) by (simp add: gateway_ok_def)

lemma gateway_ok_frame: "gateway_ok g \<Longrightarrow> fence_tokens s = fence_tokens (gw_spool g) \<Longrightarrow> gateway_ok (g\<lparr>gw_spool := s\<rparr>)"
  by (simp add: gateway_ok_def)

lemma cancel_ok:
  assumes "gateway_ok g" "cancel k g = (b, g')"
  shows "gateway_ok g'"
proof -
  have g': "gw_spool g' = gw_spool g" "gw_active g' = snd (cancel_first (cc_command_id k) (gw_active g))"
    using assms(2) by (auto simp: cancel_def sup_cancel_def split: prod.splits)
  show ?thesis
    unfolding gateway_ok_def g'
  proof (intro allI impI)
    fix d r
    assume "map_of (snd (cancel_first (cc_command_id k) (gw_active g))) d = Some r"
    then obtain r0 where "map_of (gw_active g) d = Some r0" "r = r0 \<or> r = r0\<lparr>rn_cancel := True\<rparr>"
      using map_of_cancel_first[of "cc_command_id k" "gw_active g" d] by (auto split: option.splits if_splits)
    then show "runner_ok (fence_tokens (gw_spool g)) d r"
      using gateway_okD[OF assms(1)] runner_ok_cancel by blast
  qed
qed

lemma start_ok:
  assumes "gateway_ok g" "sup_start m g = Inr g'"
  shows "gateway_ok g'"
proof (rule gateway_ok_update[OF assms(1) refl])
  show "runner_ok (fence_tokens (gw_spool g)) (sc_device_id m) \<lparr>rn_command = m, rn_cancel = False, rn_phase = Created\<rparr>"
    by (simp add: runner_ok_def)
  show "gw_spool g' = gw_spool g"
    "gw_active g' = AList.update (sc_device_id m) \<lparr>rn_command = m, rn_cancel = False, rn_phase = Created\<rparr> (gw_active g)"
    using assms(2) by (auto simp: sup_start_def Let_def split: option.splits if_splits)
qed

lemma dispatch_ok:
  assumes "gateway_ok g" "dispatch m g = (a, g')"
  shows "gateway_ok g'"
  using assms start_ok by (auto simp: dispatch_def split: if_splits sum.splits runner_error.splits)

lemma record_final_fences [simp]: "fence_tokens (record_final c now m st s) = fence_tokens s"
  by (auto simp: record_final_def emit_task_event_def split: sum.splits prod.splits
      dest!: set_state_shape enqueue_shape)

lemma map_of_leave_active: "map_of (leave_active m rs) d = Some r \<Longrightarrow> map_of rs d = Some r"
  by (auto simp: leave_active_def delete_conv' split: option.splits if_splits)

lemma finish_ok: "gateway_ok g \<Longrightarrow> gateway_ok (run_finish c now m b out g)"
  by (auto simp: run_finish_def gateway_ok_def dest!: map_of_leave_active)

lemma begin_ok:
  assumes "gateway_ok g" "map_of (gw_active g) d = Some r"
  shows "gateway_ok (run_begin c now r g)"
proof -
  let ?m = "rn_command r"
  have d: "sc_device_id ?m = d" using gateway_okD[OF assms] by (simp add: runner_ok_def)
  show ?thesis
  proof (cases "assert_current_fence (gw_spool g) (sc_device_id ?m) (sc_lease_id ?m) (sc_fencing_token ?m)")
    case (Inl e)
    then show ?thesis using finish_ok[OF assms(1)] by (simp add: run_begin_def Let_def)
  next
    case (Inr u)
    then have fence: "fence_tokens (gw_spool g) d = Some (sc_fencing_token ?m, sc_lease_id ?m)"
      using d by (auto simp: assert_current_fence_def split: option.splits if_splits)
    show ?thesis
    proof (cases "set_command_state (sc_command_id ?m) ''STARTED'' (gw_spool g)")
      case (Inl e)
      then show ?thesis using Inr finish_ok[OF assms(1)] by (simp add: run_begin_def Let_def)
    next
      case (Inr p)
      obtain v s1 where p: "p = (v, s1)" by (cases p)
      have s1: "fence_tokens s1 = fence_tokens (gw_spool g)" using Inr p by (auto dest!: set_state_shape)
      note fin = finish_ok[OF gateway_ok_frame[OF assms(1) s1]]
      show ?thesis
      proof (cases "emit_task_event c now (runner_event ?m ''STARTED'') s1")
        case (Inl e)
        then show ?thesis
          using \<open>assert_current_fence _ _ _ _ = Inr u\<close> Inr p fin by (simp add: run_begin_def Let_def)
      next
        case (Inr q)
        obtain n s2 where q: "q = (n, s2)" by (cases q)
        have s2: "fence_tokens s2 = fence_tokens (gw_spool g)"
          using Inr q s1 by (auto simp: emit_task_event_def dest!: enqueue_shape)
        have "runner_ok (fence_tokens s2) d (r\<lparr>rn_phase := Executing\<rparr>)"
          using d fence s2 by (simp add: runner_ok_def)
        then show ?thesis
          by (rule gateway_ok_update[OF assms(1) s2])
             (use \<open>assert_current_fence _ _ _ _ = Inr u\<close> \<open>set_command_state _ _ _ = Inr p\<close> Inr p q d
              in \<open>simp_all add: run_begin_def Let_def\<close>)
      qed
    qed
  qed
qed

lemma receive_ok:
  assumes "gateway_ok g" "receive c now now_us m g = Inr (a, g')"
  shows "gateway_ok g'"
proof (cases "validate m now_us = None \<and> is_ok (accept_command c now m (gw_spool g))")
  case False
  then show ?thesis
    using assms by (auto simp: receive_def is_ok_def split: option.splits sum.splits if_splits)
next
  case True
  then obtain acc s' where acc: "accept_command c now m (gw_spool g) = Inr (acc, s')" by (auto simp: is_ok_iff)
  let ?d = "sc_device_id m"
  let ?g1 = "g\<lparr>gw_spool := s'\<rparr>"
  have g': "g' = (if ac_inserted acc then cancel_stale ?d (sc_fencing_token m) ?g1 else ?g1)"
    using assms(2) True acc by (simp add: receive_def Let_def)
  from acc show ?thesis
  proof (cases rule: accept_cases)
    case known
    then show ?thesis using assms(1) g' by (simp add: gateway_ok_def)
  next
    case (fresh u)
    have other: "fence_tokens s' d = fence_tokens (gw_spool g) d" if "d \<noteq> ?d" for d
      using that fresh(5) by (simp add: advance_fence_def)
    have mine: "fence_tokens s' ?d = Some (sc_fencing_token m, sc_lease_id m)"
      using fresh(5) advance_fence_owner[OF fresh(2)] by simp
    have same: "fence_tokens (gw_spool g) ?d = Some (t, l) \<Longrightarrow> t < sc_fencing_token m \<or> t = sc_fencing_token m \<and> l = sc_lease_id m" for t l
      using fresh(2) by (auto simp: check_fence_def split: if_splits)
    show ?thesis
      unfolding gateway_ok_def
    proof (intro allI impI)
      fix d r
      assume r: "map_of (gw_active g') d = Some r"
      obtain r0 where r0: "map_of (gw_active g) d = Some r0"
        "r = r0 \<or> r = r0\<lparr>rn_cancel := True\<rparr>"
        "d = ?d \<and> sc_fencing_token (rn_command r0) < sc_fencing_token m \<and> rn_phase r0 \<noteq> Done \<longrightarrow> rn_cancel r"
        using r g' fresh(4)
        by (cases "d = ?d") (auto simp: cancel_stale_def split: option.splits if_splits)
      have sp: "gw_spool g' = s'" using g' by (auto simp: cancel_stale_def split: option.splits)
      show "runner_ok (fence_tokens (gw_spool g')) d r"
        using gateway_okD[OF assms(1) r0(1)] r0(2,3) other[of d] mine same unfolding sp runner_ok_def
        by (cases "d = ?d") auto
    qed
  qed
qed

lemma gateway_step_ok: "gateway_step c g g' \<Longrightarrow> gateway_ok g \<Longrightarrow> gateway_ok g'"
  by (erule gateway_step.cases)
     (auto intro: receive_ok dispatch_ok cancel_ok begin_ok finish_ok gateway_ok_frame)

lemma gateway_reachable_ok: "gateway_reachable c g \<Longrightarrow> gateway_ok g"
proof (induction rule: gateway_reachable.induct)
  case (gw_init s)
  then show ?case by (simp add: gateway_ok_def)
qed (rule gateway_step_ok)

subsection \<open>Lemmas: the gateway works on the spool through its transactions\<close>

lemma record_final_steps: "spool_steps c s (record_final c now m st s)"
proof (cases "set_command_state (sc_command_id m) st s")
  case (Inl e)
  then show ?thesis by (simp add: record_final_def steps_refl)
next
  case (Inr p)
  obtain u s1 where p: "p = (u, s1)" by (cases p)
  have s1: "spool_steps c s s1" using step_state[of _ st s u s1] Inr p steps_step[OF steps_refl] by blast
  show ?thesis
  proof (cases "emit_task_event c now (runner_event m st) s1")
    case (Inl e)
    then show ?thesis using Inr p s1 by (simp add: record_final_def)
  next
    case (Inr q)
    obtain n s2 where q: "q = (n, s2)" by (cases q)
    have "spool_step c s1 s2" using Inr q by (auto simp: emit_task_event_def intro: step_enqueue)
    then show ?thesis
      using Inr q p s1 \<open>set_command_state _ _ _ = Inr p\<close> by (auto simp: record_final_def intro: steps_step)
  qed
qed

lemma begin_steps: "spool_steps c (gw_spool g) (gw_spool (run_begin c now r g))"
proof -
  let ?m = "rn_command r"
  have fin: "spool_steps c s (gw_spool (run_finish c now ?m (rn_cancel r) out (g\<lparr>gw_spool := s\<rparr>)))" for s out
    by (simp add: run_finish_def record_final_steps)
  have fin0: "spool_steps c (gw_spool g) (gw_spool (run_finish c now ?m (rn_cancel r) out g))" for out
    by (simp add: run_finish_def record_final_steps)
  show ?thesis
  proof (cases "set_command_state (sc_command_id ?m) ''STARTED'' (gw_spool g)")
    case (Inl e)
    then show ?thesis using fin0 by (auto simp: run_begin_def Let_def split: sum.splits)
  next
    case (Inr p)
    obtain u s1 where p: "p = (u, s1)" by (cases p)
    have s1: "spool_steps c (gw_spool g) s1"
      using step_state[of _ "''STARTED''" _ u s1] Inr p steps_step[OF steps_refl] by blast
    have emit: "emit_task_event c now (runner_event ?m ''STARTED'') s1 = Inr (n, s2) \<Longrightarrow> spool_steps c (gw_spool g) s2" for n s2
      using steps_step[OF s1] by (auto simp: emit_task_event_def intro: step_enqueue)
    show ?thesis
      using Inr p fin0 fin[of s1] spool_steps_trans[OF fin[of s1] s1] emit
      by (auto simp: run_begin_def Let_def split: sum.splits)
  qed
qed

lemma accept_steps: "accept_command c now m s = Inr (a, s') \<Longrightarrow> spool_steps c s s'"
  by (rule steps_step[OF steps_refl step_accept])

lemma gateway_step_spool: "gateway_step c g g' \<Longrightarrow> spool_steps c (gw_spool g) (gw_spool g')"
proof (erule gateway_step.cases)
  fix now now_us m g1 a g1'
  assume "g = g1" "g' = g1'" "receive c now now_us m g1 = Inr (a, g1')"
  then show ?thesis
    by (auto simp: receive_def cancel_stale_def Let_def
        split: option.splits sum.splits if_splits prod.splits
        intro: steps_refl accept_steps)
next
  fix m g1 a g1'
  assume "g = g1" "g' = g1'" "dispatch m g1 = (a, g1')"
  then show ?thesis
    by (auto simp: dispatch_def sup_start_def Let_def split: if_splits sum.splits runner_error.splits option.splits
        intro: steps_refl)
next
  fix k g1 b g1'
  assume "g = g1" "g' = g1'" "cancel k g1 = (b, g1')"
  then show ?thesis by (auto simp: cancel_def sup_cancel_def split: prod.splits intro: steps_refl)
qed (auto simp: run_finish_def intro: begin_steps record_final_steps steps_step[OF steps_refl])

lemma gateway_reachable_spool: "gateway_reachable c g \<Longrightarrow> spool_reachable c (gw_spool g)"
  by (induction rule: gateway_reachable.induct) (auto intro: spool_steps_trans dest: gateway_step_spool)

lemma accept_command_errors:
  "accept_command c now m s = Inl e \<Longrightarrow>
     e = CommandIdReused \<or> is_StaleFencingToken e \<or> e = SqlOverflowError \<and> \<not> sqlite_int (sc_fencing_token m)"
  by (auto simp: accept_command_def check_fence_def Let_def split: option.splits sum.splits if_splits)

lemma first_error_None: "first_error f xs = None \<longleftrightarrow> (\<forall>x \<in> set xs. f x = None)"
  by (induction xs) (auto split: option.splits)

lemma validate_None_token: "validate m now = None \<Longrightarrow> 1 \<le> sc_fencing_token m \<and> sc_fencing_token m < 2 ^ 63"
  by (auto simp: validate_def split: if_splits)

lemma validate_artifact_None:
  assumes "validate_artifact t a = None"
  shows "ar_kind a \<in> allowed_by_command t" "is_sha256 (str_lower (ar_sha256 a))" "0 \<le> ar_size a"
    "{[], ''.'', ''..''} \<inter> set (key_parts (ar_object_key a)) = {}"
    "CHR ''/'' \<notin> set (ar_file_name a)" "ar_file_name a \<noteq> ''..''"
proof -
  have guard: "(if b then Some x else y) = None \<longleftrightarrow> \<not> b \<and> y = None" for b and x :: "string \<times> string" and y
    by simp
  note v = assms[unfolded validate_artifact_def guard list_ex_iff]
  show "ar_kind a \<in> allowed_by_command t" "is_sha256 (str_lower (ar_sha256 a))" "0 \<le> ar_size a"
    using v by auto
  show "{[], ''.'', ''..''} \<inter> set (key_parts (ar_object_key a)) = {}" using v by blast
  show "CHR ''/'' \<notin> set (ar_file_name a)" "ar_file_name a \<noteq> ''..''" using v by fastforce+
qed

subsection \<open>Properties\<close>


definition demo_gateway :: "wire gateway" where
  "demo_gateway = run_begin wire_codec ''t1'' \<lparr>rn_command = demo_command, rn_cancel = False, rn_phase = Created\<rparr>
     \<lparr>gw_spool = demo_spool1,
      gw_active = [(''d-1'', \<lparr>rn_command = demo_command, rn_cancel = False, rn_phase = Created\<rparr>)]\<rparr>"

lemma demo_gateway_reachable: "gateway_reachable wire_codec demo_gateway"
proof -
  let ?g0 = "\<lparr>gw_spool = demo_spool1, gw_active = []\<rparr>"
  let ?r = "\<lparr>rn_command = demo_command, rn_cancel = False, rn_phase = Created\<rparr>"
  have "dispatch demo_command ?g0 =
      (ack_of ''c-1'' ''STARTED'' [] [], \<lparr>gw_spool = demo_spool1, gw_active = [(''d-1'', ?r)]\<rparr>)"
    by (simp add: dispatch_def command_state_def find_command_def demo_spool1_def command_row_of_def sup_start_def
        demo_command_def Let_def)
  from gw_step[OF gw_step[OF gw_init[OF demo_reachable(1)] gw_dispatch[OF this]] gw_begin[of _ "''d-1''" ?r]]
  show ?thesis by (simp add: demo_gateway_def)
qed

lemma demo_gateway_active:
  "map_of (gw_active demo_gateway) ''d-1'' = Some \<lparr>rn_command = demo_command, rn_cancel = False, rn_phase = Executing\<rparr>"
  by (simp add: demo_gateway_def run_begin_def assert_current_fence_def demo_spool1_def demo_command_def
      set_command_state_def command_states_def command_row_of_def emit_task_event_def enqueue_edge_message_def
      unsequenced_def runner_event_def insert_outbound_def outbound_row_of_def sqlite_int_def create_schema_def
      metadata_int_def Let_def)


text \<open>
  Receiving a start command always yields an acknowledgement: no database error escapes, because the
  validation bounds the fencing token; a rejected command changes nothing.
\<close>

theorem receive_always_answers:
  "\<exists>ack g'. receive c now now_us m g = Inr (ack, g') \<and> ca_command_id ack = sc_command_id m \<and>
     (if validate m now_us = None \<and> is_ok (accept_command c now m (gw_spool g))
      then ca_error_code ack = [] else ca_state ack = ''REJECTED'' \<and> g' = g)"
proof (cases "validate m now_us")
  case None
  then have tok: "sqlite_int (sc_fencing_token m)" using validate_None_token[of m now_us] by (auto simp: sqlite_int_def)
  show ?thesis
  proof (cases "accept_command c now m (gw_spool g)")
    case (Inl e)
    then have "\<not> is_sqlite_error e" using accept_command_errors[OF Inl] tok by (auto simp: is_sqlite_error_def)
    then show ?thesis using None Inl by (simp add: receive_def ack_of_def)
  next
    case (Inr p)
    then show ?thesis using None by (cases p) (simp add: receive_def ack_of_def Let_def)
  qed
next
  case (Some e)
  then show ?thesis by (cases e) (simp add: receive_def ack_of_def)
qed

text \<open>
  A command that passes validation is well formed: identifiers match the pattern, the token is in the
  positive 63-bit range, the type is on the allowlist, the deadline lies ahead, and every artifact has a
  kind allowed for the type, a 64-digit digest, and an object key and file name that cannot leave
  their directory.
\<close>

theorem validated_command_safe:
  assumes "validate m now = None"
  shows "id_pattern (sc_command_id m) \<and> id_pattern (sc_device_id m) \<and> id_pattern (sc_lease_id m) \<and>
         1 \<le> sc_fencing_token m \<and> sc_fencing_token m < 2 ^ 63 \<and> sc_command_type m \<in> ALLOWED_COMMAND_TYPES \<and>
         (\<exists>t. sc_deadline m = Some t \<and> now < t) \<and>
         (\<forall>a \<in> set (sc_artifacts m). ar_kind a \<in> allowed_by_command (sc_command_type m) \<and>
            is_sha256 (str_lower (ar_sha256 a)) \<and> 0 \<le> ar_size a \<and>
            {[], ''.'', ''..''} \<inter> set (key_parts (ar_object_key a)) = {} \<and>
            CHR ''/'' \<notin> set (ar_file_name a) \<and> ar_file_name a \<noteq> ''..'')"
proof -
  have arts: "validate_artifacts m = None"
    using assms by (auto simp: validate_def split: if_splits option.splits)
  have vn: "validate_artifact (sc_command_type m) a = None" if "a \<in> set (sc_artifacts m)" for a
    using arts that by (auto simp: validate_artifacts_def first_error_None split: if_splits)
  have "ar_kind a \<in> allowed_by_command (sc_command_type m) \<and>
            is_sha256 (str_lower (ar_sha256 a)) \<and> 0 \<le> ar_size a \<and>
            {[], ''.'', ''..''} \<inter> set (key_parts (ar_object_key a)) = {} \<and>
            CHR ''/'' \<notin> set (ar_file_name a) \<and> ar_file_name a \<noteq> ''..''" if "a \<in> set (sc_artifacts m)" for a
    by (intro conjI) (rule validate_artifact_None[OF vn[OF that]])+
  moreover have "id_pattern (sc_command_id m) \<and> id_pattern (sc_device_id m) \<and> id_pattern (sc_lease_id m) \<and>
         1 \<le> sc_fencing_token m \<and> sc_fencing_token m < 2 ^ 63 \<and> sc_command_type m \<in> ALLOWED_COMMAND_TYPES \<and>
         (\<exists>t. sc_deadline m = Some t \<and> now < t)"
    using assms by (auto simp: validate_def split: if_splits option.splits)
  ultimately show ?thesis by blast
qed

theorem validated_command_safe_witness:
  "validate (demo_command\<lparr>sc_command_type := ''COLLECT_HEALTH''\<rparr>) 5 = None \<and>
   id_pattern (sc_command_id demo_command)"
proof -
  have v: "validate (demo_command\<lparr>sc_command_type := ''COLLECT_HEALTH''\<rparr>) 5 = None"
    by (simp add: validate_def demo_command_def id_pattern_def id_char_def char_class_defs ALLOWED_COMMAND_TYPES_def
        validate_artifacts_def)
  show ?thesis using validated_command_safe[OF v] v by simp
qed

end
