(* ===== verification/Operator_Actions.thy ===== *)
theory Operator_Actions
  imports Runner
begin

text \<open>
  Operator confirmations on the gateway (\<open>operator_actions.py\<close>): a confirmation is required once per id,
  emitted as an event, answered locally or from the cloud, and waited for by the runner that asked. A
  future is pending, has a result, or is cancelled.
\<close>

datatype operator_error =
    ConfirmationFieldsRequired
  | ConfirmationAlreadyExpired
  | RiskLevelInvalid
  | ConfirmationReused
  | IdentifiersInvalid
  | ConfirmationIdInvalid
  | ConfirmationNotActiveForCommand
  | ConfirmationExpired
  | StopCarriesConfirmation
  | ResolutionMismatch
  | ConfirmationNotActive
  | OperatorSpoolError spool_error

datatype future = Pending | Result bool | Cancelled

datatype action_type = CONFIRM | REJECT | STOP_AUTOMATION

fun action_value :: "action_type \<Rightarrow> string" where
  "action_value CONFIRM = ''CONFIRM''"
| "action_value REJECT = ''REJECT''"
| "action_value STOP_AUTOMATION = ''STOP_AUTOMATION''"

record coordinator =
  co_confirmations :: "(string \<times> confirmation_required) list"
  co_resolutions :: "string \<rightharpoonup> future"
  co_resolved :: "string \<rightharpoonup> bool"

definition co_init :: coordinator where
  "co_init = \<lparr>co_confirmations = [], co_resolutions = Map.empty, co_resolved = Map.empty\<rparr>"

definition RISK_LEVELS :: "string set" where
  "RISK_LEVELS = {''LOW'', ''MEDIUM'', ''HIGH'', ''CRITICAL''}"

text \<open>A discarded future that is still pending is cancelled: its waiter is the result of \<open>wait_end\<close>.\<close>

definition discard_confirmation :: "string \<Rightarrow> coordinator \<Rightarrow> coordinator" where
  "discard_confirmation cid co =
     co\<lparr>co_resolutions := (co_resolutions co)(cid := None), co_resolved := (co_resolved co)(cid := None),
        co_confirmations := AList.delete cid (co_confirmations co)\<rparr>"

definition require_confirmation ::
  "'b codec \<Rightarrow> string \<Rightarrow> int \<Rightarrow> confirmation_required \<Rightarrow> coordinator \<times> 'b gateway \<Rightarrow>
   (operator_error + unit) \<times> coordinator \<times> 'b gateway" where
  "require_confirmation c now now_us required st =
     (case st of (co, g) \<Rightarrow>
        if [] \<in> {cr_confirmation_id required, cr_command_id required, cr_task_run_id required,
                  cr_device_id required, cr_title required}
        then (Inl ConfirmationFieldsRequired, co, g)
        else if cr_expires_at required \<le> now_us then (Inl ConfirmationAlreadyExpired, co, g)
        else if cr_risk_level required \<notin> RISK_LEVELS then (Inl RiskLevelInvalid, co, g)
        else case map_of (co_confirmations co) (cr_confirmation_id required) of
               Some existing \<Rightarrow>
                 if existing \<noteq> required then (Inl ConfirmationReused, co, g) else (Inr (), co, g)
             | None \<Rightarrow>
                 let co' = co\<lparr>co_confirmations := AList.update (cr_confirmation_id required) required (co_confirmations co)\<rparr>
                 in case enqueue_edge_message c now
                           \<lparr>ec_sequence = 0, ec_body = Some (Confirmation_required required)\<rparr> 0 (gw_spool g) of
                      Inl e \<Rightarrow> (Inl (OperatorSpoolError e), co', g)
                    | Inr (_, s') \<Rightarrow> (Inr (), co', g\<lparr>gw_spool := s'\<rparr>))"

definition record_action_event ::
  "'b codec \<Rightarrow> string \<Rightarrow> operator_action \<Rightarrow> coordinator \<times> 'b gateway \<Rightarrow>
   (operator_error + operator_action) \<times> coordinator \<times> 'b gateway" where
  "record_action_event c now recorded st =
     (case st of (co, g) \<Rightarrow>
        (case enqueue_edge_message c now \<lparr>ec_sequence = 0, ec_body = Some (Operator_action recorded)\<rparr> 0 (gw_spool g) of
           Inl e \<Rightarrow> (Inl (OperatorSpoolError e), co, g)
         | Inr (_, s') \<Rightarrow> (Inr recorded, co, g\<lparr>gw_spool := s'\<rparr>)))"

text \<open>\<open>action_id\<close> is the fresh UUID of the recorded action.\<close>

definition record_local_action ::
  "'b codec \<Rightarrow> string \<Rightarrow> int \<Rightarrow> string \<Rightarrow> action_type \<Rightarrow> string \<Rightarrow> string \<Rightarrow> string \<Rightarrow> coordinator \<times> 'b gateway \<Rightarrow>
   (operator_error + operator_action) \<times> coordinator \<times> 'b gateway" where
  "record_local_action c now now_us action_id action device_id command_id confirmation_id st =
     (case st of (co, g) \<Rightarrow>
        let recorded = \<lparr> oa_action_id = action_id, oa_device_id = device_id, oa_command_id = command_id,
                         oa_confirmation_id = confirmation_id, oa_action = action_value action,
                         oa_occurred_at = now_us \<rparr>
        in if \<not> id_pattern device_id \<or> \<not> id_pattern command_id then (Inl IdentifiersInvalid, co, g)
           else if action \<in> {CONFIRM, REJECT}
           then (if \<not> id_pattern confirmation_id then (Inl ConfirmationIdInvalid, co, g)
                 else case map_of (co_confirmations co) confirmation_id of
                        None \<Rightarrow> (Inl ConfirmationNotActiveForCommand, co, g)
                      | Some required \<Rightarrow>
                          if cr_command_id required \<noteq> command_id \<or> cr_device_id required \<noteq> device_id
                          then (Inl ConfirmationNotActiveForCommand, co, g)
                          else if cr_expires_at required \<le> now_us
                          then (Inl ConfirmationExpired, discard_confirmation confirmation_id co, g)
                          else record_action_event c now recorded (co, g))
           else if confirmation_id \<noteq> [] then (Inl StopCarriesConfirmation, co, g)
           else record_action_event c now recorded (co, snd (sup_cancel command_id g)))"

definition resolve_from_cloud ::
  "int \<Rightarrow> confirmation_resolution \<Rightarrow> coordinator \<Rightarrow> (operator_error + unit) \<times> coordinator" where
  "resolve_from_cloud now_us resolution co =
     (let cid = cf_confirmation_id resolution
      in case map_of (co_confirmations co) cid of
           None \<Rightarrow> (Inl ResolutionMismatch, co)
         | Some required \<Rightarrow>
             if cr_command_id required \<noteq> cf_command_id resolution then (Inl ResolutionMismatch, co)
             else if cr_expires_at required \<le> now_us then (Inl ConfirmationExpired, discard_confirmation cid co)
             else case co_resolutions co cid of
                    None \<Rightarrow> (Inr (), co\<lparr>co_resolved := (co_resolved co)(cid \<mapsto> cf_approved resolution)\<rparr>)
                  | Some Pending \<Rightarrow>
                      (Inr (), co\<lparr>co_resolutions := (co_resolutions co)(cid \<mapsto> Result (cf_approved resolution))\<rparr>)
                  | Some _ \<Rightarrow> (Inr (), co))"

text \<open>
  \<open>wait_for_resolution\<close> up to its await (\<open>Inr None\<close> means it waits on the future), and from the moment its
  future is done. A future that was taken from the table was cancelled by \<open>_discard_confirmation\<close>.
\<close>

definition wait_begin :: "string \<Rightarrow> coordinator \<Rightarrow> (operator_error + bool option) \<times> coordinator" where
  "wait_begin cid co =
     (if map_of (co_confirmations co) cid = None then (Inl ConfirmationNotActive, co)
      else case co_resolved co cid of
             Some resolved \<Rightarrow>
               (Inr (Some resolved), co\<lparr>co_resolved := (co_resolved co)(cid := None),
                                        co_confirmations := AList.delete cid (co_confirmations co)\<rparr>)
           | None \<Rightarrow>
               (Inr None, case co_resolutions co cid of
                            Some _ \<Rightarrow> co
                          | None \<Rightarrow> co\<lparr>co_resolutions := (co_resolutions co)(cid \<mapsto> Pending)\<rparr>))"

definition wait_end :: "string \<Rightarrow> coordinator \<Rightarrow> bool option \<times> coordinator" where
  "wait_end cid co =
     (case co_resolutions co cid of
        Some (Result b) \<Rightarrow> (Some b, discard_confirmation cid co)
      | _ \<Rightarrow> (None, discard_confirmation cid co))"

fun active_scan :: "int \<Rightarrow> string \<Rightarrow> (string \<times> confirmation_required) list \<Rightarrow> coordinator \<Rightarrow>
    confirmation_required option \<times> coordinator" where
  "active_scan now_us device_id [] co = (None, co)"
| "active_scan now_us device_id ((cid, required) # rest) co =
     (if cr_expires_at required \<le> now_us
      then active_scan now_us device_id rest (discard_confirmation cid co)
      else if cr_device_id required = device_id then (Some required, co)
      else active_scan now_us device_id rest co)"

definition active_confirmation :: "int \<Rightarrow> string \<Rightarrow> coordinator \<Rightarrow> confirmation_required option \<times> coordinator" where
  "active_confirmation now_us device_id co = active_scan now_us device_id (co_confirmations co) co"

subsection \<open>Lemmas\<close>

lemma map_of_discard:
  "map_of (co_confirmations (discard_confirmation cid co)) k = (if k = cid then None else map_of (co_confirmations co) k)"
  by (simp add: discard_confirmation_def delete_conv')

lemma discard_fields [simp]:
  "co_resolutions (discard_confirmation cid co) = (co_resolutions co)(cid := None)"
  "co_resolved (discard_confirmation cid co) = (co_resolved co)(cid := None)"
  by (simp_all add: discard_confirmation_def)

text \<open>
  Every answer belongs to an open confirmation: no stored resolution and no future outlives the
  confirmation it was made for, and an answer and a waiting future do not coexist.
\<close>

definition coordinator_ok :: "coordinator \<Rightarrow> bool" where
  "coordinator_ok co \<longleftrightarrow>
     (\<forall>cid. co_resolved co cid \<noteq> None \<longrightarrow> map_of (co_confirmations co) cid \<noteq> None \<and> co_resolutions co cid = None) \<and>
     (\<forall>cid. co_resolutions co cid \<noteq> None \<longrightarrow> map_of (co_confirmations co) cid \<noteq> None) \<and>
     (\<forall>cid r. map_of (co_confirmations co) cid = Some r \<longrightarrow> cr_confirmation_id r = cid)"

lemma coordinator_ok_init: "coordinator_ok co_init"
  by (simp add: coordinator_ok_def co_init_def)

lemma discard_ok: "coordinator_ok co \<Longrightarrow> coordinator_ok (discard_confirmation cid co)"
  by (auto simp: coordinator_ok_def map_of_discard)

lemma require_ok:
  assumes "coordinator_ok co" "require_confirmation c now now_us req (co, g) = (r, co', g')"
  shows "coordinator_ok co'"
proof -
  have "co' = co \<or> (map_of (co_confirmations co) (cr_confirmation_id req) = None \<and>
      co' = co\<lparr>co_confirmations := AList.update (cr_confirmation_id req) req (co_confirmations co)\<rparr>)"
    using assms(2) by (auto simp: require_confirmation_def Let_def split: if_splits option.splits sum.splits)
  then show ?thesis using assms(1) by (auto simp: coordinator_ok_def split: if_splits)
qed

lemma action_ok:
  assumes "coordinator_ok co" "record_local_action c now now_us aid act did cmd cid (co, g) = (r, co', g')"
  shows "coordinator_ok co'"
proof -
  have "co' = co \<or> co' = discard_confirmation cid co"
    using assms(2)
    by (auto simp: record_local_action_def record_action_event_def Let_def
        split: if_splits option.splits sum.splits)
  then show ?thesis using assms(1) discard_ok by blast
qed

lemma resolve_ok:
  assumes "coordinator_ok co" "resolve_from_cloud now_us res co = (r, co')"
  shows "coordinator_ok co'"
proof (cases "co' = discard_confirmation (cf_confirmation_id res) co")
  case True
  then show ?thesis using discard_ok[OF assms(1)] by simp
next
  case False
  then show ?thesis
    using assms by (auto simp: resolve_from_cloud_def coordinator_ok_def Let_def split: if_splits option.splits future.splits)
qed

lemma wait_begin_ok:
  assumes "coordinator_ok co" "wait_begin cid co = (r, co')"
  shows "coordinator_ok co'"
  using assms by (auto simp: wait_begin_def coordinator_ok_def delete_conv' split: if_splits option.splits)

lemma wait_end_ok: "coordinator_ok co \<Longrightarrow> coordinator_ok (snd (wait_end cid co))"
  by (auto simp: wait_end_def intro: discard_ok split: option.splits future.splits)

lemma active_scan_ok: "coordinator_ok co \<Longrightarrow> coordinator_ok (snd (active_scan t d xs co))"
  by (induction t d xs co rule: active_scan.induct) (auto intro: discard_ok)

subsection \<open>Properties\<close>

text \<open>
  A confirmation is answered by its own resolution only: whoever asked for it and waits gets exactly
  the decision the cloud sent for that confirmation and that command, before it expired, whether the
  decision came before or after the wait began; afterwards the confirmation is closed, so a second
  resolution is refused.
\<close>

theorem confirmation_decision_delivered:
  assumes "coordinator_ok co" "map_of (co_confirmations co) cid = Some req" "co_resolutions co cid = None"
    and "co_resolved co cid = None" "cf_confirmation_id res = cid" "cf_command_id res = cr_command_id req"
    and "now_us < cr_expires_at req"
  shows "let early = snd (resolve_from_cloud now_us res co);
             waiting = snd (wait_begin cid co);
             late = snd (resolve_from_cloud now_us res waiting);
             closed = snd (wait_end cid late)
         in fst (wait_begin cid early) = Inr (Some (cf_approved res)) \<and>
            fst (wait_begin cid co) = Inr None \<and>
            fst (wait_end cid late) = Some (cf_approved res) \<and>
            fst (resolve_from_cloud now_us res closed) = Inl ResolutionMismatch \<and> coordinator_ok closed"
proof -
  let ?w = "co\<lparr>co_resolutions := (co_resolutions co)(cid \<mapsto> Pending)\<rparr>"
  let ?l = "co\<lparr>co_resolutions := (co_resolutions co)(cid \<mapsto> Result (cf_approved res))\<rparr>"
  have early: "resolve_from_cloud now_us res co = (Inr (), co\<lparr>co_resolved := (co_resolved co)(cid \<mapsto> cf_approved res)\<rparr>)"
    using assms by (simp add: resolve_from_cloud_def Let_def)
  have wait: "wait_begin cid co = (Inr None, ?w)" using assms by (simp add: wait_begin_def)
  have late: "resolve_from_cloud now_us res ?w = (Inr (), ?l)" using assms by (simp add: resolve_from_cloud_def Let_def)
  have fin: "wait_end cid ?l = (Some (cf_approved res), discard_confirmation cid ?l)" by (simp add: wait_end_def)
  have again: "fst (resolve_from_cloud now_us res (discard_confirmation cid ?l)) = Inl ResolutionMismatch"
    using assms(5) by (simp add: resolve_from_cloud_def map_of_discard Let_def)
  have ok: "coordinator_ok (discard_confirmation cid ?l)"
    using wait_end_ok[OF resolve_ok[OF wait_begin_ok[OF assms(1) wait] late], of cid] fin by simp
  have "fst (wait_begin cid (co\<lparr>co_resolved := (co_resolved co)(cid \<mapsto> cf_approved res)\<rparr>)) = Inr (Some (cf_approved res))"
    using assms(2) by (simp add: wait_begin_def)
  then show ?thesis using early wait late fin again ok by (simp add: Let_def)
qed

definition demo_confirmation :: confirmation_required where
  "demo_confirmation = \<lparr>cr_confirmation_id = ''k'', cr_command_id = ''c'', cr_task_run_id = ''r'', cr_device_id = ''d'',
     cr_title = ''t'', cr_detail = [], cr_risk_level = ''HIGH'', cr_expires_at = 100\<rparr>"

theorem confirmation_decision_delivered_witness:
  "fst (wait_begin ''k'' (snd (resolve_from_cloud 5
      \<lparr>cf_confirmation_id = ''k'', cf_command_id = ''c'', cf_approved = True, cf_actor_id = ''a'', cf_decided_at = 5\<rparr>
      \<lparr>co_confirmations = [(''k'', demo_confirmation)], co_resolutions = Map.empty, co_resolved = Map.empty\<rparr>)))
   = Inr (Some True)"
proof -
  have "coordinator_ok \<lparr>co_confirmations = [(''k'', demo_confirmation)], co_resolutions = Map.empty, co_resolved = Map.empty\<rparr>"
    by (simp add: coordinator_ok_def demo_confirmation_def)
  from confirmation_decision_delivered[OF this, of "''k''" demo_confirmation
      "\<lparr>cf_confirmation_id = ''k'', cf_command_id = ''c'', cf_approved = True, cf_actor_id = ''a'', cf_decided_at = 5\<rparr>" 5]
  show ?thesis by (simp add: demo_confirmation_def Let_def)
qed

end
