(* ===== verification/Debug_Sessions.thy ===== *)
theory Debug_Sessions
  imports Protocol
begin

text \<open>
  The debug sessions of a gateway (\<open>DebugSessionManager\<close> of \<open>remote_proxy.py\<close>): grants with a bounded
  lifetime and an explicit set of capabilities, the authorisation of a bearer, the validation of relayed
  frames, revocation and expiry; and the byte budget of the relay's copy loop. Times are microseconds.
  The dictionary of sessions is an association list in insertion order; \<open>digest\<close> is SHA-256.
\<close>

datatype debug_error =
    GrantLifetimeInvalid
  | ProhibitedCapability
  | TokenTooShort
  | LeaseIdEmpty
  | FencingTokenNotPositive
  | SessionExistsDifferent
  | SessionNotActive
  | OtherDevice
  | SessionExpired
  | CapabilityNotGranted
  | InvalidToken
  | FrameKindNotAllowed
  | FramePayloadTooLarge
  | TargetOutsideDeviceNetwork
  | TargetPortNotAllowed
  | TargetAddressInvalid
  | RelayIdleTimeout
  | RelayBudgetExceeded

record proxy_target =
  pt_host :: string
  pt_port :: int

text \<open>
  \<open>ProxyTarget.__post_init__\<close>. \<open>classify\<close> is \<open>ipaddress.ip_address\<close>: \<open>None\<close> when the text is no address, else
  whether the address is private or loopback.
\<close>

definition mk_proxy_target :: "(string \<Rightarrow> bool option) \<Rightarrow> string \<Rightarrow> int \<Rightarrow> debug_error + proxy_target" where
  "mk_proxy_target classify host port =
     (case classify host of
        None \<Rightarrow> Inl TargetAddressInvalid
      | Some inside \<Rightarrow>
          if \<not> inside then Inl TargetOutsideDeviceNetwork
          else if port \<noteq> 65000 then Inl TargetPortNotAllowed
          else Inr \<lparr>pt_host = host, pt_port = port\<rparr>)"

record debug_session =
  ds_session_id :: string
  ds_device_id :: string
  ds_expires_at :: int
  ds_capabilities :: "string set"
  ds_token_digest :: string
  ds_target :: proxy_target
  ds_lease_id :: "string option"
  ds_fencing_token :: "int option"
  ds_revoked :: bool

type_synonym sessions = "(string \<times> debug_session) list"

definition DEBUG_CAPABILITIES :: "string set" where
  "DEBUG_CAPABILITIES = {''view.frame'', ''view.layout'', ''input.tap'', ''input.swipe'', ''input.text'',
                         ''debug.steps'', ''debug.variables'', ''evidence.capture''}"

definition MAX_TTL :: int where
  "MAX_TTL = 15 * 60 * 1000000"

definition compat_alias :: "string \<Rightarrow> string" where
  "compat_alias v = (if v = ''view'' then ''view.frame'' else if v = ''layout'' then ''view.layout''
                     else if v = ''input'' then ''input.tap'' else v)"

text \<open>
  \<open>grant\<close>: \<open>random_token\<close> is \<open>secrets.token_urlsafe(32)\<close>, used when no bearer is given.
\<close>

definition grant_session ::
  "(string \<Rightarrow> string) \<Rightarrow> string \<Rightarrow> string \<Rightarrow> string \<Rightarrow> int \<Rightarrow> string set \<Rightarrow> proxy_target \<Rightarrow> string option \<Rightarrow>
   string option \<Rightarrow> int option \<Rightarrow> int \<Rightarrow> sessions \<Rightarrow> debug_error + string \<times> sessions" where
  "grant_session digest random_token session_id device_id expires_at capabilities target bearer_token
     lease_id fencing_token now ss =
     (if expires_at \<le> now \<or> MAX_TTL < expires_at - now then Inl GrantLifetimeInvalid
      else let normalized = compat_alias ` capabilities
           in if normalized = {} \<or> \<not> normalized \<subseteq> DEBUG_CAPABILITIES then Inl ProhibitedCapability
              else let token = (case bearer_token of Some t \<Rightarrow> if t = [] then random_token else t | None \<Rightarrow> random_token)
                   in if length token < 32 then Inl TokenTooShort
                      else if lease_id = Some [] then Inl LeaseIdEmpty
                      else if (case fencing_token of None \<Rightarrow> False | Some n \<Rightarrow> n < 1) then Inl FencingTokenNotPositive
                      else let session = \<lparr> ds_session_id = session_id, ds_device_id = device_id,
                                 ds_expires_at = expires_at, ds_capabilities = normalized,
                                 ds_token_digest = digest token, ds_target = target, ds_lease_id = lease_id,
                                 ds_fencing_token = fencing_token, ds_revoked = False \<rparr>
                           in case map_of ss session_id of
                                Some existing \<Rightarrow>
                                  if existing = session then Inr (token, ss) else Inl SessionExistsDifferent
                              | None \<Rightarrow> Inr (token, AList.update session_id session ss))"

definition revoke_session :: "string \<Rightarrow> sessions \<Rightarrow> sessions" where
  "revoke_session session_id ss =
     (case map_of ss session_id of
        Some s \<Rightarrow> AList.update session_id (s\<lparr>ds_revoked := True\<rparr>) ss
      | None \<Rightarrow> ss)"

text \<open>\<open>authorize\<close>: finding the session expired marks it revoked before the error is raised.\<close>

definition authorize ::
  "(string \<Rightarrow> string) \<Rightarrow> string \<Rightarrow> string \<Rightarrow> string \<Rightarrow> string \<Rightarrow> int \<Rightarrow> sessions \<Rightarrow> (debug_error + proxy_target) \<times> sessions" where
  "authorize digest session_id device_id token capability now ss =
     (case map_of ss session_id of
        None \<Rightarrow> (Inl SessionNotActive, ss)
      | Some s \<Rightarrow>
          if ds_revoked s then (Inl SessionNotActive, ss)
          else if ds_device_id s \<noteq> device_id then (Inl OtherDevice, ss)
          else if ds_expires_at s \<le> now then (Inl SessionExpired, revoke_session session_id ss)
          else if compat_alias capability \<notin> ds_capabilities s then (Inl CapabilityNotGranted, ss)
          else if ds_token_digest s \<noteq> digest token then (Inl InvalidToken, ss)
          else (Inr (ds_target s), ss))"

definition frame_kinds :: "string set" where
  "frame_kinds = {''tap'', ''swipe'', ''text'', ''evidence.request'', ''ack'', ''frame'', ''layout'', ''ready'', ''error''}"

definition validate_frame :: "debug_relay_frame \<Rightarrow> string \<Rightarrow> int \<Rightarrow> sessions \<Rightarrow> (debug_error + unit) \<times> sessions" where
  "validate_frame frame device_id now ss =
     (case map_of ss (rf_session_id frame) of
        None \<Rightarrow> (Inl SessionNotActive, ss)
      | Some s \<Rightarrow>
          if ds_revoked s then (Inl SessionNotActive, ss)
          else if ds_device_id s \<noteq> device_id then (Inl OtherDevice, ss)
          else if ds_expires_at s \<le> now then (Inl SessionExpired, revoke_session (rf_session_id frame) ss)
          else if compat_alias (rf_capability frame) \<notin> ds_capabilities s then (Inl CapabilityNotGranted, ss)
          else if rf_kind frame \<notin> frame_kinds then (Inl FrameKindNotAllowed, ss)
          else if 256 * 1024 < length (rf_payload frame) then (Inl FramePayloadTooLarge, ss)
          else (Inr (), ss))"

fun expire_sessions :: "int \<Rightarrow> sessions \<Rightarrow> nat \<times> sessions" where
  "expire_sessions now [] = (0, [])"
| "expire_sessions now ((k, s) # ss) =
     (let (n, ss') = expire_sessions now ss
      in if \<not> ds_revoked s \<and> ds_expires_at s \<le> now
         then (n + 1, (k, s\<lparr>ds_revoked := True\<rparr>) # ss')
         else (n, (k, s) # ss'))"

text \<open>
  \<open>_copy\<close>: the chunks the reader yields, \<open>None\<close> for a read that times out, the empty chunk for the end of the
  stream. The result is what was written and how the loop ended.
\<close>

fun relay_copy :: "nat \<Rightarrow> nat \<Rightarrow> string option list \<Rightarrow> string list \<times> (debug_error + unit)" where
  "relay_copy budget transferred [] = ([], Inr ())"
| "relay_copy budget transferred (None # cs) = ([], Inl RelayIdleTimeout)"
| "relay_copy budget transferred (Some chunk # cs) =
     (if chunk = [] then ([], Inr ())
      else let t = transferred + length chunk
           in if budget < t then ([], Inl RelayBudgetExceeded)
              else let (out, r) = relay_copy budget t cs in (chunk # out, r))"

subsection \<open>Steps\<close>

inductive debug_step :: "(string \<Rightarrow> string) \<Rightarrow> sessions \<Rightarrow> sessions \<Rightarrow> bool" for digest where
  dbg_grant: "grant_session digest rnd sid did ex caps tgt bearer lease fence now ss = Inr (tok, ss') \<Longrightarrow>
    debug_step digest ss ss'"
| dbg_authorize: "authorize digest sid did tok cap now ss = (r, ss') \<Longrightarrow> debug_step digest ss ss'"
| dbg_frame: "validate_frame frame did now ss = (u, ss') \<Longrightarrow> debug_step digest ss ss'"
| dbg_revoke: "debug_step digest ss (revoke_session sid ss)"
| dbg_expire: "expire_sessions now ss = (n, ss') \<Longrightarrow> debug_step digest ss ss'"

inductive debug_steps :: "(string \<Rightarrow> string) \<Rightarrow> sessions \<Rightarrow> sessions \<Rightarrow> bool" for digest where
  dbg_refl: "debug_steps digest ss ss"
| dbg_trans: "debug_steps digest ss ss' \<Longrightarrow> debug_step digest ss' ss'' \<Longrightarrow> debug_steps digest ss ss''"

subsection \<open>Lemmas\<close>

text \<open>A session only changes by being revoked.\<close>

definition session_evolves :: "debug_session \<Rightarrow> debug_session \<Rightarrow> bool" where
  "session_evolves s s' \<longleftrightarrow> s' = s \<or> s' = s\<lparr>ds_revoked := True\<rparr>"

lemma session_evolves_refl [simp]: "session_evolves s s"
  by (simp add: session_evolves_def)

lemma session_evolves_trans: "session_evolves a b \<Longrightarrow> session_evolves b d \<Longrightarrow> session_evolves a d"
  by (auto simp: session_evolves_def)

lemma session_evolves_revoked: "session_evolves s s' \<Longrightarrow> ds_revoked s \<Longrightarrow> s' = s"
  by (cases s) (auto simp: session_evolves_def)

lemma map_of_revoke: "map_of (revoke_session sid ss) k =
    (if k = sid then map_option (\<lambda>s. s\<lparr>ds_revoked := True\<rparr>) (map_of ss k) else map_of ss k)"
  by (auto simp: revoke_session_def split: option.splits)

lemma map_of_expire: "map_of (snd (expire_sessions now ss)) k =
    map_option (\<lambda>s. if \<not> ds_revoked s \<and> ds_expires_at s \<le> now then s\<lparr>ds_revoked := True\<rparr> else s) (map_of ss k)"
  by (induction now ss rule: expire_sessions.induct) (auto split: prod.splits)

lemma debug_step_evolves:
  assumes "debug_step digest ss ss'" "map_of ss sid = Some s"
  shows "\<exists>s'. map_of ss' sid = Some s' \<and> session_evolves s s'"
  using assms(1)
proof cases
  case dbg_grant
  then show ?thesis
    using assms(2) by (auto simp: grant_session_def Let_def split: if_splits option.splits)
next
  case dbg_authorize
  then show ?thesis
    using assms(2) by (auto simp: authorize_def map_of_revoke session_evolves_def split: if_splits option.splits)
next
  case dbg_frame
  then show ?thesis
    using assms(2) by (auto simp: validate_frame_def map_of_revoke session_evolves_def split: if_splits option.splits)
next
  case dbg_revoke
  then show ?thesis using assms(2) by (auto simp: map_of_revoke session_evolves_def)
next
  case (dbg_expire now n)
  then show ?thesis using assms(2) map_of_expire[of now ss sid] by (auto simp: session_evolves_def)
qed

lemma debug_steps_evolves:
  assumes "debug_steps digest ss ss'" "map_of ss sid = Some s"
  shows "\<exists>s'. map_of ss' sid = Some s' \<and> session_evolves s s'"
  using assms
proof (induction rule: debug_steps.induct)
  case (dbg_trans ss ss' ss'')
  then show ?case using debug_step_evolves session_evolves_trans by blast
qed simp

text \<open>What a grant fixes for the whole life of a session.\<close>

definition session_ok :: "debug_session \<Rightarrow> bool" where
  "session_ok s \<longleftrightarrow> ds_capabilities s \<subseteq> DEBUG_CAPABILITIES \<and> ds_capabilities s \<noteq> {}"

lemma grant_new:
  assumes "grant_session digest rnd sid did ex caps tgt bearer lease fence now ss = Inr (tok, ss')"
  shows "\<exists>s. map_of ss' sid = Some s \<and> ds_device_id s = did \<and> ds_expires_at s = ex \<and> now < ex \<and>
           ex \<le> now + MAX_TTL \<and> session_ok s \<and> ds_token_digest s = digest tok \<and> 32 \<le> length tok \<and> \<not> ds_revoked s"
  using assms
  by (auto simp: grant_session_def Let_def session_ok_def split: if_splits option.splits)

lemma authorize_ok:
  "authorize digest sid did tok cap now ss = (Inr tgt, ss') \<longleftrightarrow>
     ss' = ss \<and> (\<exists>s. map_of ss sid = Some s \<and> \<not> ds_revoked s \<and> ds_device_id s = did \<and> now < ds_expires_at s \<and>
        compat_alias cap \<in> ds_capabilities s \<and> ds_token_digest s = digest tok \<and> tgt = ds_target s)"
  by (auto simp: authorize_def split: option.splits if_splits)

lemma relay_copy_budget:
  "relay_copy budget t cs = (out, r) \<Longrightarrow> t \<le> budget \<Longrightarrow> t + length (concat out) \<le> budget"
  by (induction budget t cs arbitrary: out r rule: relay_copy.induct)
     (auto simp: Let_def add.assoc split: if_splits prod.splits)

subsection \<open>Properties\<close>

text \<open>
  A debug session never outlives its grant: after a grant, and whatever operations follow, a bearer is
  authorised only with the digest of the granted token, on the granted device, for a capability of the
  grant that is on the allowlist, and before an expiry at most fifteen minutes after the grant.
\<close>

theorem debug_authorization_bounded:
  assumes "grant_session digest rnd sid did ex caps tgt bearer lease fence t0 ss = Inr (tok, ss1)"
    and "debug_steps digest ss1 ss2" "authorize digest sid did' tok' cap now ss2 = (Inr tgt', ss3)"
  shows "did' = did \<and> digest tok' = digest tok \<and> compat_alias cap \<in> DEBUG_CAPABILITIES \<and>
         compat_alias cap \<in> compat_alias ` caps \<and> now < ex \<and> ex \<le> t0 + MAX_TTL"
proof -
  obtain s where s: "map_of ss1 sid = Some s" "ds_device_id s = did" "ds_expires_at s = ex" "ex \<le> t0 + MAX_TTL"
    "session_ok s" "ds_token_digest s = digest tok"
    using grant_new[OF assms(1)] by blast
  have caps: "ds_capabilities s = compat_alias ` caps"
    using assms(1) s(1) by (auto simp: grant_session_def Let_def split: if_splits option.splits)
  obtain s2 where s2: "map_of ss2 sid = Some s2" "session_evolves s s2"
    using debug_steps_evolves[OF assms(2) s(1)] by blast
  then have "ds_device_id s2 = did" "ds_expires_at s2 = ex" "ds_capabilities s2 = ds_capabilities s"
    "ds_token_digest s2 = digest tok"
    using s by (auto simp: session_evolves_def)
  then show ?thesis using assms(3) s2(1) s(4,5) caps by (auto simp: authorize_ok session_ok_def)
qed

definition demo_token :: string where
  "demo_token = ''0123456789abcdef0123456789abcdef''"

theorem debug_authorization_bounded_witness:
  "\<exists>ss1. grant_session (\<lambda>t. t) [] ''s'' ''d'' 50 {''view''} \<lparr>pt_host = ''10.0.0.2'', pt_port = 65000\<rparr>
            (Some demo_token) (Some ''l'') (Some 1) 10 [] = Inr (demo_token, ss1) \<and>
         fst (authorize (\<lambda>t. t) ''s'' ''d'' demo_token ''view'' 20 ss1) = Inr \<lparr>pt_host = ''10.0.0.2'', pt_port = 65000\<rparr> \<and>
         (20 :: int) < 50"
proof -
  let ?tgt = "\<lparr>pt_host = ''10.0.0.2'', pt_port = 65000\<rparr>"
  obtain ss1 where g: "grant_session (\<lambda>t. t) [] ''s'' ''d'' 50 {''view''} ?tgt
            (Some demo_token) (Some ''l'') (Some 1) 10 [] = Inr (demo_token, ss1)"
    and ss1: "ss1 = [(''s'', \<lparr>ds_session_id = ''s'', ds_device_id = ''d'', ds_expires_at = 50,
        ds_capabilities = {''view.frame''}, ds_token_digest = demo_token, ds_target = ?tgt,
        ds_lease_id = Some ''l'', ds_fencing_token = Some 1, ds_revoked = False\<rparr>)]"
    by (simp add: grant_session_def MAX_TTL_def DEBUG_CAPABILITIES_def compat_alias_def demo_token_def Let_def)
  have a: "authorize (\<lambda>t. t) ''s'' ''d'' demo_token ''view'' 20 ss1 = (Inr ?tgt, ss1)"
    by (simp add: ss1 authorize_def compat_alias_def)
  show ?thesis using g a debug_authorization_bounded[OF g dbg_refl a] by auto
qed

text \<open>
  Revocation is final: once a session is revoked (explicitly, or because it was seen expired), no later
  operation makes it usable again; every authorisation and every relayed frame for it is refused, and it
  cannot be granted a second time.
\<close>

theorem revoked_debug_session_unusable:
  assumes "map_of ss sid = Some s" "ds_revoked s" "debug_steps digest ss ss'"
  shows "fst (authorize digest sid did tok cap now ss') = Inl SessionNotActive \<and>
         (\<forall>frame. rf_session_id frame = sid \<longrightarrow> fst (validate_frame frame did now ss') = Inl SessionNotActive) \<and>
         \<not> is_ok (grant_session digest rnd sid did ex caps tgt bearer lease fence now ss')"
proof -
  have "map_of ss' sid = Some s"
    using debug_steps_evolves[OF assms(3,1)] session_evolves_revoked assms(2) by blast
  then show ?thesis
    using assms(2)
    by (auto simp: authorize_def validate_frame_def grant_session_def Let_def is_ok_def
        split: if_splits option.splits sum.splits)
qed

definition demo_revoked_session :: debug_session where
  "demo_revoked_session = \<lparr>ds_session_id = ''s'', ds_device_id = ''d'', ds_expires_at = 50,
     ds_capabilities = {''view.frame''}, ds_token_digest = ''h'', ds_target = \<lparr>pt_host = ''10.0.0.2'', pt_port = 65000\<rparr>,
     ds_lease_id = None, ds_fencing_token = None, ds_revoked = True\<rparr>"

theorem revoked_debug_session_unusable_witness:
  "fst (authorize (\<lambda>t. t) ''s'' ''d'' ''h'' ''view'' 20 [(''s'', demo_revoked_session)]) = Inl SessionNotActive"
  using revoked_debug_session_unusable[of "[(''s'', demo_revoked_session)]" "''s''" demo_revoked_session, OF _ _ dbg_refl]
  by (simp add: demo_revoked_session_def)

end
