(* ===== verification/Control_Stream.thy ===== *)
theory Control_Stream
  imports Operator_Actions Debug_Sessions
begin

text \<open>
  The gateway's end of the control stream (\<open>control_stream.py\<close>): the handler of every cloud message with
  its effects on the spool, the scheduler, the debug sessions and the confirmations, and the outbound
  side (the hello and the batches of unsent events). The optional collaborators of the constructor are
  the fields of \<open>config\<close>.
\<close>

datatype stream_error =
    CloudHelloSequence
  | CloudBodyMissing
  | CloudSequenceGap int int
  | DebugNotConfigured
  | RelayTokenMissing
  | GrantFenceMissing
  | EdgeCertificateRevoked
  | OperatorNotConfigured
  | RevokeSessionRequired
  | FrameDeviceRequired
  | FrameHandlerMissing
  | FrameHandlerRaised
  | ResolverRaised
  | DebugResponseUnbound
  | DebugResponseTooLarge
  | StreamSpool spool_error
  | StreamDebug debug_error
  | StreamOperator operator_error

text \<open>
  \<open>cf_resolver\<close> is \<open>debug_target_resolver\<close> (it may raise, \<open>None\<close>), \<open>cf_frame_handler\<close> is
  \<open>debug_frame_handler\<close> (\<open>False\<close> when it raises).
\<close>

record config =
  cf_edge_id :: string
  cf_software_version :: string
  cf_debug :: bool
  cf_resolver :: "(string \<Rightarrow> proxy_target option) option"
  cf_frame_handler :: "(debug_relay_frame \<Rightarrow> bool) option"
  cf_fingerprint :: "string option"
  cf_operator :: bool

record 'b edge =
  ed_gateway :: "'b gateway"
  ed_sessions :: sessions
  ed_coordinator :: coordinator
  ed_frames :: "debug_relay_frame list"

abbreviation ed_spool :: "'b edge \<Rightarrow> 'b spool" where
  "ed_spool st \<equiv> gw_spool (ed_gateway st)"

definition set_spool :: "'b spool \<Rightarrow> 'b edge \<Rightarrow> 'b edge" where
  "set_spool s st = st\<lparr>ed_gateway := (ed_gateway st)\<lparr>gw_spool := s\<rparr>\<rparr>"

text \<open>A spool transaction inside the handler: its error ends the handler.\<close>

definition on_spool :: "('b spool, spool_error, 'a) tx \<Rightarrow> 'b edge \<Rightarrow> (stream_error + unit) \<times> 'b edge" where
  "on_spool f st = (case f (ed_spool st) of
     Inl e \<Rightarrow> (Inl (StreamSpool e), st)
   | Inr (_, s') \<Rightarrow> (Inr (), set_spool s' st))"

definition ack_message :: "command_ack \<Rightarrow> edge_to_cloud" where
  "ack_message ack = \<lparr>ec_sequence = 0, ec_body = Some (Command_ack ack)\<rparr>"

definition enqueue_ack ::
  "'b codec \<Rightarrow> string \<Rightarrow> command_ack \<Rightarrow> int option \<Rightarrow> 'b edge \<Rightarrow> (stream_error + unit) \<times> 'b edge" where
  "enqueue_ack c now ack cloud_sequence st =
     (case cloud_sequence of
        None \<Rightarrow> on_spool (enqueue_edge_message c now (ack_message ack) 0) st
      | Some q \<Rightarrow> on_spool (record_cloud_with_edge_message c now q (ack_message ack) 0) st)"

definition emit_debug_frame ::
  "'b codec \<Rightarrow> string \<Rightarrow> debug_relay_frame \<Rightarrow> 'b edge \<Rightarrow> (stream_error + unit) \<times> 'b edge" where
  "emit_debug_frame c now frame st =
     (if rf_session_id frame = [] \<or> rf_device_id frame = [] then (Inl DebugResponseUnbound, st)
      else if 256 * 1024 < length (rf_payload frame) then (Inl DebugResponseTooLarge, st)
      else on_spool (enqueue_edge_message c now \<lparr>ec_sequence = 0, ec_body = Some (Edge_relay_frame frame)\<rparr> 0) st)"

definition emit_heartbeat :: "'b codec \<Rightarrow> string \<Rightarrow> heartbeat \<Rightarrow> 'b edge \<Rightarrow> (stream_error + unit) \<times> 'b edge" where
  "emit_heartbeat c now hb st =
     on_spool (enqueue_edge_message c now \<lparr>ec_sequence = 0, ec_body = Some (Heartbeat hb)\<rparr> 20) st"

text \<open>\<open>f ; g\<close>: the second part runs only when the first did not raise.\<close>

definition and_then ::
  "(stream_error + unit) \<times> 'b edge \<Rightarrow> ('b edge \<Rightarrow> (stream_error + unit) \<times> 'b edge) \<Rightarrow> (stream_error + unit) \<times> 'b edge" where
  "and_then r g = (case r of (Inl e, st) \<Rightarrow> (Inl e, st) | (Inr _, st) \<Rightarrow> g st)"

definition handle_start ::
  "'b codec \<Rightarrow> string \<Rightarrow> int \<Rightarrow> int \<Rightarrow> start_command \<Rightarrow> 'b edge \<Rightarrow> (stream_error + unit) \<times> 'b edge" where
  "handle_start c now now_us q command st =
     (case receive c now now_us command (ed_gateway st) of
        Inl e \<Rightarrow> (Inl (StreamSpool e), st)
      | Inr (received, g) \<Rightarrow>
          and_then (enqueue_ack c now received (Some q) (st\<lparr>ed_gateway := g\<rparr>))
            (\<lambda>st1. if ca_state received \<noteq> ''RECEIVED'' then (Inr (), st1)
                   else case dispatch command (ed_gateway st1) of
                          (started, g1) \<Rightarrow> enqueue_ack c now started None (st1\<lparr>ed_gateway := g1\<rparr>)))"

definition handle_cancel ::
  "'b codec \<Rightarrow> string \<Rightarrow> int \<Rightarrow> cancel_command \<Rightarrow> 'b edge \<Rightarrow> (stream_error + unit) \<times> 'b edge" where
  "handle_cancel c now q command st =
     (case cancel command (ed_gateway st) of
        (canceled, g) \<Rightarrow>
          enqueue_ack c now
            (ack_of (cc_command_id command) (if canceled then ''STARTED'' else ''REJECTED'')
               (if canceled then [] else ''EDGE_COMMAND_NOT_ACTIVE'') [])
            (Some q) (st\<lparr>ed_gateway := g\<rparr>))"

definition handle_debug_grant ::
  "'b codec \<Rightarrow> (string \<Rightarrow> string) \<Rightarrow> config \<Rightarrow> string \<Rightarrow> int \<Rightarrow> int \<Rightarrow> debug_session_grant \<Rightarrow> 'b edge \<Rightarrow>
   (stream_error + unit) \<times> 'b edge" where
  "handle_debug_grant c digest cfg now now_us q grant st =
     (case cf_resolver cfg of
        None \<Rightarrow> (Inl DebugNotConfigured, st)
      | Some resolver \<Rightarrow>
          if \<not> cf_debug cfg then (Inl DebugNotConfigured, st)
          else if length (dg_relay_token grant) < 32 then (Inl RelayTokenMissing, st)
          else if dg_lease_id grant = [] \<or> dg_fencing_token grant < 1 then (Inl GrantFenceMissing, st)
          else case resolver (dg_device_id grant) of
                 None \<Rightarrow> (Inl ResolverRaised, st)
               | Some target \<Rightarrow>
                   (case grant_session digest [] (dg_session_id grant) (dg_device_id grant) (dg_expires_at grant)
                           (set (dg_capabilities grant)) target (Some (dg_relay_token grant)) (Some (dg_lease_id grant))
                           (Some (dg_fencing_token grant)) now_us (ed_sessions st) of
                      Inl e \<Rightarrow> (Inl (StreamDebug e), st)
                    | Inr (_, ss) \<Rightarrow>
                        and_then (on_spool (put_debug_grant c now grant) (st\<lparr>ed_sessions := ss\<rparr>))
                                 (on_spool (record_cloud_sequence q))))"

definition handle_revocations ::
  "config \<Rightarrow> int \<Rightarrow> string list \<Rightarrow> 'b edge \<Rightarrow> (stream_error + unit) \<times> 'b edge" where
  "handle_revocations cfg q fingerprints st =
     (let fingerprint = str_lower (case cf_fingerprint cfg of None \<Rightarrow> [] | Some f \<Rightarrow> f)
      in if fingerprint \<noteq> [] \<and> fingerprint \<in> set (map str_lower fingerprints)
         then (Inl EdgeCertificateRevoked, st)
         else on_spool (record_cloud_sequence q) st)"

definition handle_resolution ::
  "config \<Rightarrow> int \<Rightarrow> int \<Rightarrow> confirmation_resolution \<Rightarrow> 'b edge \<Rightarrow> (stream_error + unit) \<times> 'b edge" where
  "handle_resolution cfg now_us q res st =
     (if \<not> cf_operator cfg then (Inl OperatorNotConfigured, st)
      else case resolve_from_cloud now_us res (ed_coordinator st) of
             (Inl e, co) \<Rightarrow> (Inl (StreamOperator e), st\<lparr>ed_coordinator := co\<rparr>)
           | (Inr _, co) \<Rightarrow> on_spool (record_cloud_sequence q) (st\<lparr>ed_coordinator := co\<rparr>))"

definition handle_debug_revoke ::
  "config \<Rightarrow> string \<Rightarrow> int \<Rightarrow> debug_session_revoke \<Rightarrow> 'b edge \<Rightarrow> (stream_error + unit) \<times> 'b edge" where
  "handle_debug_revoke cfg now q rv st =
     (if \<not> cf_debug cfg then (Inl DebugNotConfigured, st)
      else if dr_session_id rv = [] then (Inl RevokeSessionRequired, st)
      else let st1 = st\<lparr>ed_sessions := revoke_session (dr_session_id rv) (ed_sessions st)\<rparr>;
               st2 = set_spool (revoke_debug_grant now (dr_session_id rv) (ed_spool st1)) st1
           in on_spool (record_cloud_sequence q) st2)"

definition inactive_payload :: string where
  "inactive_payload = ''{\"state\":\"FAILED\",\"errorCode\":\"DEBUG_SESSION_NOT_ACTIVE\"}''"

definition inactive_ack :: "debug_relay_frame \<Rightarrow> debug_relay_frame" where
  "inactive_ack frame =
     \<lparr> rf_session_id = rf_session_id frame, rf_request_id = rf_request_id frame, rf_capability = ''debug.ack'',
       rf_kind = ''debug.ack'', rf_payload = inactive_payload, rf_end = True, rf_device_id = rf_device_id frame \<rparr>"

definition handle_relay_frame ::
  "'b codec \<Rightarrow> config \<Rightarrow> string \<Rightarrow> int \<Rightarrow> int \<Rightarrow> debug_relay_frame \<Rightarrow> 'b edge \<Rightarrow> (stream_error + unit) \<times> 'b edge" where
  "handle_relay_frame c cfg now now_us q frame st =
     (if \<not> cf_debug cfg then (Inl DebugNotConfigured, st)
      else if rf_device_id frame = [] then (Inl FrameDeviceRequired, st)
      else case validate_frame frame (rf_device_id frame) now_us (ed_sessions st) of
             (Inl e, ss) \<Rightarrow>
               and_then (emit_debug_frame c now (inactive_ack frame) (st\<lparr>ed_sessions := ss\<rparr>))
                        (on_spool (record_cloud_sequence q))
           | (Inr _, ss) \<Rightarrow>
               (case cf_frame_handler cfg of
                  None \<Rightarrow> (Inl FrameHandlerMissing, st\<lparr>ed_sessions := ss\<rparr>)
                | Some handler \<Rightarrow>
                    let st1 = st\<lparr>ed_sessions := ss, ed_frames := ed_frames st @ [frame]\<rparr>
                    in if handler frame then on_spool (record_cloud_sequence q) st1
                       else (Inl FrameHandlerRaised, st1)))"

definition handle_cloud ::
  "'b codec \<Rightarrow> (string \<Rightarrow> string) \<Rightarrow> config \<Rightarrow> string \<Rightarrow> int \<Rightarrow> cloud_to_edge \<Rightarrow> 'b edge \<Rightarrow> (stream_error + unit) \<times> 'b edge" where
  "handle_cloud c digest cfg now now_us message st =
     (case ce_body message of
        Some (Cloud_hello last_edge_sequence_acked) \<Rightarrow>
          if ce_sequence message \<noteq> 0 then (Inl CloudHelloSequence, st)
          else on_spool (acknowledge_edge_sequence last_edge_sequence_acked) st
      | None \<Rightarrow> (Inl CloudBodyMissing, st)
      | Some body \<Rightarrow>
          let current = last_cloud_sequence (ed_spool st); q = ce_sequence message
          in if q \<le> current then (Inr (), st)
             else if q \<noteq> current + 1 then (Inl (CloudSequenceGap (current + 1) q), st)
             else (case body of
                     Cloud_hello n \<Rightarrow> (Inr (), st)
                   | Start command \<Rightarrow> handle_start c now now_us q command st
                   | Cancel command \<Rightarrow> handle_cancel c now q command st
                   | Debug_grant grant \<Rightarrow> handle_debug_grant c digest cfg now now_us q grant st
                   | Revocations fps \<Rightarrow> handle_revocations cfg q fps st
                   | Resolution res \<Rightarrow> handle_resolution cfg now_us q res st
                   | Debug_revoke rv \<Rightarrow> handle_debug_revoke cfg now q rv st
                   | Cloud_relay_frame frame \<Rightarrow> handle_relay_frame c cfg now now_us q frame st))"

text \<open>
  \<open>_outbound\<close>: the hello, then repeated batches of the events above the last one sent. A batch is the result
  of one replay; the new \<open>last_sent\<close> is its last sequence.
\<close>

definition edge_hello_message :: "config \<Rightarrow> 'b edge \<Rightarrow> edge_to_cloud" where
  "edge_hello_message cfg st =
     \<lparr> ec_sequence = 0, ec_body = Some (Hello \<lparr> eh_edge_id = cf_edge_id cfg,
         eh_software_version = cf_software_version cfg,
         eh_last_cloud_sequence_acked = last_cloud_sequence (ed_spool st) \<rparr>) \<rparr>"

definition outbound_batch :: "'b codec \<Rightarrow> 'b spool \<Rightarrow> int \<Rightarrow> spool_error + edge_to_cloud list \<times> int" where
  "outbound_batch c s last_sent =
     (case replay_edge_messages c s last_sent of
        Inl e \<Rightarrow> Inl e
      | Inr ms \<Rightarrow> Inr (ms, last (last_sent # map ec_sequence ms)))"

subsection \<open>Lemmas: the handler works through spool transactions\<close>

lemma set_spool_simps [simp]:
  "ed_spool (set_spool s st) = s"
  "ed_sessions (set_spool s st) = ed_sessions st"
  "ed_coordinator (set_spool s st) = ed_coordinator st"
  "ed_frames (set_spool s st) = ed_frames st"
  by (simp_all add: set_spool_def)

lemma on_spool_cases:
  "on_spool f st = (r, st') \<Longrightarrow>
     (\<exists>e. f (ed_spool st) = Inl e \<and> r = Inl (StreamSpool e) \<and> st' = st) \<or>
     (\<exists>a s'. f (ed_spool st) = Inr (a, s') \<and> r = Inr () \<and> st' = set_spool s' st)"
  by (auto simp: on_spool_def split: sum.splits)

definition cloud_mark :: "'b edge \<Rightarrow> int" where
  "cloud_mark st = last_cloud_sequence (ed_spool st)"

text \<open>
  What the handler of message \<open>q\<close> does to the spool: it moves it by transactions only, the cloud mark stays
  or becomes \<open>q\<close>, and it is \<open>q\<close> when the handler returns.
\<close>

definition advances :: "'b codec \<Rightarrow> int \<Rightarrow> 'b edge \<Rightarrow> (stream_error + unit) \<Rightarrow> 'b edge \<Rightarrow> bool" where
  "advances c q st r st' \<longleftrightarrow>
     spool_steps c (ed_spool st) (ed_spool st') \<and> cloud_mark st' \<in> {cloud_mark st, q} \<and>
     (is_ok r \<longrightarrow> cloud_mark st' = q)"

text \<open>What a part before the last does: transactions that leave the mark.\<close>

definition keeps :: "'b codec \<Rightarrow> 'b edge \<Rightarrow> 'b edge \<Rightarrow> bool" where
  "keeps c st st' \<longleftrightarrow> spool_steps c (ed_spool st) (ed_spool st') \<and> cloud_mark st' = cloud_mark st"

lemma keeps_refl: "ed_spool st' = ed_spool st \<Longrightarrow> keeps c st st'"
  by (simp add: keeps_def cloud_mark_def steps_refl)

lemma keeps_advances: "keeps c st st1 \<Longrightarrow> advances c q st1 r st' \<Longrightarrow> advances c q st r st'"
  by (auto simp: keeps_def advances_def intro: spool_steps_trans)

lemma advances_keeps: "advances c q st (Inr ()) st1 \<Longrightarrow> keeps c st1 st' \<Longrightarrow> advances c q st r st'"
  by (auto simp: keeps_def advances_def intro: spool_steps_trans)

lemma advances_error: "keeps c st st' \<Longrightarrow> advances c q st (Inl e) st'"
  by (simp add: keeps_def advances_def)

lemma advances_cong: "advances c q st1 r st' \<Longrightarrow> ed_spool st1 = ed_spool st \<Longrightarrow> advances c q st r st'"
  by (simp add: advances_def cloud_mark_def)

lemma mark_frame [simp]:
  "last_cloud_sequence (s\<lparr>commands := x1\<rparr>) = last_cloud_sequence s"
  "last_cloud_sequence (s\<lparr>fence_tokens := x2\<rparr>) = last_cloud_sequence s"
  "last_cloud_sequence (s\<lparr>outbound := x3\<rparr>) = last_cloud_sequence s"
  "last_cloud_sequence (s\<lparr>debug_grants := x4\<rparr>) = last_cloud_sequence s"
  by (simp_all add: last_cloud_sequence_def)

lemma enqueue_mark: "enqueue_edge_message c now m p s = Inr (n, s') \<Longrightarrow> last_cloud_sequence s' = last_cloud_sequence s"
  by (auto simp: enqueue_edge_message_def insert_outbound_def Let_def last_cloud_sequence_def split: if_splits sum.splits)

lemma on_spool_record_with:
  assumes "on_spool (record_cloud_with_edge_message c now q m p) st = (r, st')"
  shows "advances c q st r st'"
  using on_spool_cases[OF assms]
proof (elim disjE exE conjE)
  fix a s'
  assume ok: "record_cloud_with_edge_message c now q m p (ed_spool st) = Inr (a, s')" "r = Inr ()" "st' = set_spool s' st"
  then have "last_cloud_sequence s' = q"
    by (auto simp: record_cloud_with_edge_message_def insert_outbound_def Let_def last_cloud_sequence_def
        split: if_splits sum.splits)
  then show ?thesis
    using ok steps_step[OF steps_refl step_record_with[OF ok(1)]] by (simp add: advances_def cloud_mark_def)
qed (simp add: advances_error keeps_refl)

lemma on_spool_record:
  assumes "on_spool (record_cloud_sequence q) st = (r, st')" "q = cloud_mark st + 1"
  shows "advances c q st r st'"
  using on_spool_cases[OF assms(1)]
proof (elim disjE exE conjE)
  fix a s'
  assume ok: "record_cloud_sequence q (ed_spool st) = Inr (a, s')" "r = Inr ()" "st' = set_spool s' st"
  then have "last_cloud_sequence s' = q"
    using assms(2) by (auto simp: record_cloud_sequence_def Let_def last_cloud_sequence_def cloud_mark_def split: if_splits)
  then show ?thesis
    using ok steps_step[OF steps_refl step_record[OF ok(1)]] by (simp add: advances_def cloud_mark_def)
qed (simp add: advances_error keeps_refl)

lemma on_spool_enqueue:
  assumes "on_spool (enqueue_edge_message c now m p) st = (r, st')"
  shows "keeps c st st'"
  using on_spool_cases[OF assms]
proof (elim disjE exE conjE)
  fix a s'
  assume ok: "enqueue_edge_message c now m p (ed_spool st) = Inr (a, s')" "st' = set_spool s' st"
  then show ?thesis
    using steps_step[OF steps_refl step_enqueue[OF ok(1)]] enqueue_mark[OF ok(1)] by (simp add: keeps_def cloud_mark_def)
qed (simp add: keeps_refl)

lemma on_spool_put_grant:
  assumes "on_spool (put_debug_grant c now g) st = (r, st')"
  shows "keeps c st st'"
  using on_spool_cases[OF assms]
proof (elim disjE exE conjE)
  fix a s'
  assume ok: "put_debug_grant c now g (ed_spool st) = Inr (a, s')" "st' = set_spool s' st"
  then show ?thesis
    using steps_step[OF steps_refl step_put_grant[OF ok(1)]] put_grant_shape[OF ok(1)]
    by (auto simp: keeps_def cloud_mark_def)
qed (simp add: keeps_refl)

lemma gateway_keeps:
  assumes "gateway_step c (ed_gateway st) g" "last_cloud_sequence (gw_spool g) = cloud_mark st"
  shows "keeps c st (st\<lparr>ed_gateway := g\<rparr>)"
  using gateway_step_spool[OF assms(1)] assms(2) by (simp add: keeps_def cloud_mark_def)

lemma receive_mark: "receive c now t m g = Inr (a, g') \<Longrightarrow> last_cloud_sequence (gw_spool g') = last_cloud_sequence (gw_spool g)"
  by (auto simp: receive_def cancel_stale_def Let_def split: option.splits sum.splits if_splits prod.splits
      dest!: accept_shape)

lemma dispatch_spool: "dispatch m g = (a, g') \<Longrightarrow> gw_spool g' = gw_spool g"
  by (auto simp: dispatch_def sup_start_def Let_def split: if_splits sum.splits runner_error.splits option.splits)

lemma cancel_spool: "cancel k g = (b, g') \<Longrightarrow> gw_spool g' = gw_spool g"
  by (auto simp: cancel_def sup_cancel_def split: prod.splits)

lemma and_then_cases:
  assumes "and_then x g = (r, st')"
  obtains (fail) e st1 where "x = (Inl e, st1)" "r = Inl e" "st' = st1"
  | (cont) st1 where "x = (Inr (), st1)" "g st1 = (r, st')"
  using assms by (cases x) (auto simp: and_then_def split: sum.splits)

lemma handle_start_advances:
  assumes "handle_start c now t q m st = (r, st')"
  shows "advances c q st r st'"
proof (cases "receive c now t m (ed_gateway st)")
  case (Inl e)
  then show ?thesis using assms by (auto simp: handle_start_def intro!: advances_error keeps_refl)
next
  case (Inr p)
  obtain a g where p: "p = (a, g)" by (cases p)
  let ?k = "\<lambda>st1. if ca_state a \<noteq> ''RECEIVED'' then (Inr (), st1)
                   else case dispatch m (ed_gateway st1) of
                          (started, g1) \<Rightarrow> enqueue_ack c now started None (st1\<lparr>ed_gateway := g1\<rparr>)"
  have rest: "and_then (enqueue_ack c now a (Some q) (st\<lparr>ed_gateway := g\<rparr>)) ?k = (r, st')"
    using assms Inr p by (simp add: handle_start_def)
  have rc: "receive c now t m (ed_gateway st) = Inr (a, g)" using Inr p by simp
  have k1: "keeps c st (st\<lparr>ed_gateway := g\<rparr>)"
    using gateway_keeps[OF gw_receive[OF rc]] receive_mark[OF rc] by (simp add: cloud_mark_def)
  from rest show ?thesis
  proof (cases rule: and_then_cases)
    case (fail e st1)
    then have "advances c q (st\<lparr>ed_gateway := g\<rparr>) (Inl e) st1"
      by (intro on_spool_record_with) (simp add: enqueue_ack_def)
    then show ?thesis using fail keeps_advances[OF k1] by simp
  next
    case (cont st1)
    then have a1: "advances c q st (Inr ()) st1"
      by (intro keeps_advances[OF k1] on_spool_record_with) (simp add: enqueue_ack_def)
    obtain a2 g2 where d: "dispatch m (ed_gateway st1) = (a2, g2)" by (cases "dispatch m (ed_gateway st1)")
    have "keeps c st1 st'"
    proof (cases "ca_state a = ''RECEIVED''")
      case True
      then have "on_spool (enqueue_edge_message c now (ack_message a2) 0) (st1\<lparr>ed_gateway := g2\<rparr>) = (r, st')"
        using cont d by (simp add: enqueue_ack_def)
      then show ?thesis
        using on_spool_enqueue dispatch_spool[OF d] by (fastforce simp: keeps_def cloud_mark_def)
    next
      case False
      then show ?thesis using cont by (auto intro: keeps_refl)
    qed
    then show ?thesis by (rule advances_keeps[OF a1])
  qed
qed

lemma handle_cancel_advances:
  assumes "handle_cancel c now q m st = (r, st')"
  shows "advances c q st r st'"
proof -
  obtain b g where g: "cancel m (ed_gateway st) = (b, g)" by (cases "cancel m (ed_gateway st)")
  have "advances c q (st\<lparr>ed_gateway := g\<rparr>) r st'"
    by (rule on_spool_record_with) (use assms g in \<open>simp add: handle_cancel_def enqueue_ack_def\<close>)
  then show ?thesis by (rule advances_cong) (simp add: cancel_spool[OF g])
qed

lemma handle_debug_grant_advances:
  assumes "handle_debug_grant c digest cfg now t q g st = (r, st')" "q = cloud_mark st + 1"
  shows "advances c q st r st'"
proof (cases "\<exists>e. (r, st') = (Inl e, st)")
  case True
  then show ?thesis by (auto intro: advances_error keeps_refl)
next
  case False
  then obtain ss where rest: "and_then (on_spool (put_debug_grant c now g) (st\<lparr>ed_sessions := ss\<rparr>))
                                 (on_spool (record_cloud_sequence q)) = (r, st')"
    using assms(1) by (auto simp: handle_debug_grant_def split: option.splits if_splits sum.splits)
  then show ?thesis
  proof (cases rule: and_then_cases)
    case (fail e st1)
    then have "keeps c (st\<lparr>ed_sessions := ss\<rparr>) st1" by (intro on_spool_put_grant)
    then show ?thesis using fail by (simp add: keeps_def advances_def cloud_mark_def)
  next
    case (cont st1)
    then have k: "keeps c (st\<lparr>ed_sessions := ss\<rparr>) st1" by (intro on_spool_put_grant)
    then have "advances c q st1 r st'" using on_spool_record[OF cont(2)] assms(2) by (simp add: keeps_def cloud_mark_def)
    then show ?thesis using keeps_advances[OF k] advances_cong by fastforce
  qed
qed

lemma handle_resolution_advances:
  assumes "handle_resolution cfg t q res st = (r, st')" "q = cloud_mark st + 1"
  shows "advances c q st r st'"
proof -
  obtain x co where x: "resolve_from_cloud t res (ed_coordinator st) = (x, co)"
    by (cases "resolve_from_cloud t res (ed_coordinator st)")
  show ?thesis
  proof (cases "cf_operator cfg \<and> is_ok x")
    case True
    then have "on_spool (record_cloud_sequence q) (st\<lparr>ed_coordinator := co\<rparr>) = (r, st')"
      using assms(1) x by (auto simp: handle_resolution_def is_ok_iff)
    then have "advances c q (st\<lparr>ed_coordinator := co\<rparr>) r st'"
      by (rule on_spool_record) (simp add: assms(2) cloud_mark_def)
    then show ?thesis by (rule advances_cong) simp
  next
    case False
    then show ?thesis
      using assms(1) x by (auto simp: handle_resolution_def is_ok_def split: sum.splits if_splits intro!: advances_error keeps_refl)
  qed
qed

lemma handle_debug_revoke_advances:
  assumes "handle_debug_revoke cfg now q rv st = (r, st')" "q = cloud_mark st + 1"
  shows "advances c q st r st'"
proof (cases "cf_debug cfg \<and> dr_session_id rv \<noteq> []")
  case True
  let ?st1 = "st\<lparr>ed_sessions := revoke_session (dr_session_id rv) (ed_sessions st)\<rparr>"
  let ?st2 = "set_spool (revoke_debug_grant now (dr_session_id rv) (ed_spool st)) ?st1"
  have k: "keeps c st ?st2"
    using steps_step[OF steps_refl step_revoke_grant[of c "ed_spool st" now "dr_session_id rv"]]
    by (simp add: keeps_def cloud_mark_def revoke_debug_grant_def)
  have "on_spool (record_cloud_sequence q) ?st2 = (r, st')"
    using assms(1) True by (simp add: handle_debug_revoke_def Let_def)
  then have "advances c q ?st2 r st'" by (rule on_spool_record) (use k assms(2) in \<open>simp add: keeps_def\<close>)
  then show ?thesis by (rule keeps_advances[OF k])
next
  case False
  then show ?thesis using assms(1) by (auto simp: handle_debug_revoke_def intro!: advances_error keeps_refl split: if_splits)
qed

lemma handle_relay_frame_advances:
  assumes "handle_relay_frame c cfg now t q f st = (r, st')" "q = cloud_mark st + 1"
  shows "advances c q st r st'"
proof -
  obtain x ss where x: "validate_frame f (rf_device_id f) t (ed_sessions st) = (x, ss)"
    by (cases "validate_frame f (rf_device_id f) t (ed_sessions st)")
  consider (refused) "\<exists>e st1. (r, st') = (Inl e, st1) \<and> ed_spool st1 = ed_spool st"
    | (invalid) "and_then (emit_debug_frame c now (inactive_ack f) (st\<lparr>ed_sessions := ss\<rparr>))
                        (on_spool (record_cloud_sequence q)) = (r, st')"
    | (handled) "on_spool (record_cloud_sequence q) (st\<lparr>ed_sessions := ss, ed_frames := ed_frames st @ [f]\<rparr>) = (r, st')"
    using assms(1) x by (auto simp: handle_relay_frame_def Let_def split: if_splits sum.splits option.splits)
  then show ?thesis
  proof cases
    case refused
    then show ?thesis by (auto intro!: advances_error keeps_refl)
  next
    case invalid
    have emit: "keeps c st st1" if "emit_debug_frame c now (inactive_ack f) (st\<lparr>ed_sessions := ss\<rparr>) = (y, st1)" for y st1
    proof -
      have "keeps c (st\<lparr>ed_sessions := ss\<rparr>) st1"
        using that on_spool_enqueue keeps_refl by (fastforce simp: emit_debug_frame_def split: if_splits)
      then show ?thesis by (simp add: keeps_def cloud_mark_def)
    qed
    from invalid show ?thesis
    proof (cases rule: and_then_cases)
      case (fail e st1)
      then show ?thesis using emit[OF fail(1)] advances_error by blast
    next
      case (cont st1)
      then show ?thesis
        using keeps_advances[OF emit[OF cont(1)] on_spool_record[OF cont(2)]] emit[OF cont(1)] assms(2)
        by (simp add: keeps_def)
    qed
  next
    case handled
    then have "advances c q (st\<lparr>ed_sessions := ss, ed_frames := ed_frames st @ [f]\<rparr>) r st'"
      by (rule on_spool_record) (simp add: assms(2) cloud_mark_def)
    then show ?thesis by (rule advances_cong) simp
  qed
qed

lemma handle_revocations_advances:
  assumes "handle_revocations cfg q fps st = (r, st')" "q = cloud_mark st + 1"
  shows "advances c q st r st'"
proof (cases "(r, st') = (Inl EdgeCertificateRevoked, st)")
  case True
  then show ?thesis by (auto intro: advances_error keeps_refl)
next
  case False
  then have "on_spool (record_cloud_sequence q) st = (r, st')"
    using assms(1) by (auto simp: handle_revocations_def Let_def split: if_splits)
  then show ?thesis by (rule on_spool_record[OF _ assms(2)])
qed

definition is_hello :: "cloud_to_edge \<Rightarrow> bool" where
  "is_hello m = (case ce_body m of Some (Cloud_hello _) \<Rightarrow> True | _ \<Rightarrow> False)"

lemma handle_next_advances:
  assumes "handle_cloud c digest cfg now t m st = (r, st')" "\<not> is_hello m" "ce_body m \<noteq> None"
    and "ce_sequence m = cloud_mark st + 1"
  shows "advances c (ce_sequence m) st r st'"
proof -
  obtain body where body: "ce_body m = Some body" using assms(3) by blast
  have mark: "last_cloud_sequence (ed_spool st) = cloud_mark st" by (simp add: cloud_mark_def)
  show ?thesis
    using assms(1,2,4) body
    by (cases body)
       (simp_all add: handle_cloud_def Let_def mark is_hello_def handle_start_advances handle_cancel_advances
         handle_debug_grant_advances handle_revocations_advances handle_resolution_advances
         handle_debug_revoke_advances handle_relay_frame_advances)
qed

lemma handle_cloud_not_next:
  assumes "\<not> is_hello m" "ce_body m \<noteq> None" "ce_sequence m \<noteq> cloud_mark st + 1"
  shows "handle_cloud c digest cfg now t m st =
     (if ce_sequence m \<le> cloud_mark st then (Inr (), st)
      else (Inl (CloudSequenceGap (cloud_mark st + 1) (ce_sequence m)), st))"
proof -
  obtain body where body: "ce_body m = Some body" using assms(2) by blast
  show ?thesis using assms body by (cases body) (auto simp: handle_cloud_def Let_def cloud_mark_def is_hello_def)
qed

text \<open>No handler of the next message raises a gap error.\<close>

definition gapfree :: "(stream_error + unit) \<times> 'b edge \<Rightarrow> bool" where
  "gapfree r \<longleftrightarrow> (\<forall>x y. fst r \<noteq> Inl (CloudSequenceGap x y))"

lemma gapfree_simps [simp]:
  "gapfree (Inr u, st)" "gapfree (Inl e, st) \<longleftrightarrow> (\<forall>x y. e \<noteq> CloudSequenceGap x y)"
  by (simp_all add: gapfree_def)

lemma gapfree_on_spool [simp]: "gapfree (on_spool f st)"
  by (auto simp: on_spool_def split: sum.splits)

lemma gapfree_enqueue_ack [simp]: "gapfree (enqueue_ack c now a q st)"
  by (simp add: enqueue_ack_def split: option.splits)

lemma gapfree_emit [simp]: "gapfree (emit_debug_frame c now f st)"
  by (simp add: emit_debug_frame_def)

lemma gapfree_and_then: "gapfree z \<Longrightarrow> (\<And>st. gapfree (g st)) \<Longrightarrow> gapfree (and_then z g)"
  by (cases z) (auto simp: and_then_def split: sum.splits)

lemma gapfree_handlers:
  "gapfree (handle_start c now t q k st)" (is ?start)
  "gapfree (handle_cancel c now q k2 st)" (is ?cancel)
  "gapfree (handle_debug_grant c digest cfg now t q g st)" (is ?grant)
  "gapfree (handle_revocations cfg q fps st)" (is ?revocations)
  "gapfree (handle_resolution cfg t q res st)" (is ?resolution)
  "gapfree (handle_debug_revoke cfg now q rv st)" (is ?revoke)
  "gapfree (handle_relay_frame c cfg now t q fr st)" (is ?frame)
proof -
  show ?start by (auto simp: handle_start_def split: sum.splits prod.splits intro!: gapfree_and_then)
  show ?cancel by (simp add: handle_cancel_def split: prod.splits)
  show ?grant
    by (auto simp: handle_debug_grant_def split: option.splits sum.splits intro!: gapfree_and_then)
  show ?revocations by (simp add: handle_revocations_def Let_def)
  show ?resolution by (auto simp: handle_resolution_def split: prod.splits sum.splits)
  show ?revoke by (simp add: handle_debug_revoke_def Let_def)
  show ?frame
    by (auto simp: handle_relay_frame_def Let_def split: prod.splits sum.splits option.splits intro!: gapfree_and_then)
qed

lemma handle_cloud_no_gap:
  assumes "handle_cloud c digest cfg now t m st = (r, st')" "\<not> is_hello m" "ce_sequence m = cloud_mark st + 1"
  shows "r \<noteq> Inl (CloudSequenceGap x y)"
proof (cases "ce_body m")
  case (Some body)
  have "gapfree (handle_cloud c digest cfg now t m st)"
    using assms(2,3) Some
    by (cases body) (simp_all add: handle_cloud_def Let_def cloud_mark_def is_hello_def gapfree_handlers)
  then show ?thesis using assms(1) by (simp add: gapfree_def)
qed (use assms(1) in \<open>auto simp: handle_cloud_def\<close>)

lemma on_spool_frames: "on_spool f st = (r, st') \<Longrightarrow> ed_frames st' = ed_frames st"
  by (auto dest!: on_spool_cases)

lemma handle_frames:
  assumes "handle_cloud c digest cfg now t m st = (r, st')" "ed_frames st' \<noteq> ed_frames st"
  obtains f where "ce_body m = Some (Cloud_relay_frame f)" "ed_frames st' = ed_frames st @ [f]"
    "fst (validate_frame f (rf_device_id f) t (ed_sessions st)) = Inr ()" "ce_sequence m = cloud_mark st + 1"
proof (cases "ce_body m")
  case None
  then show thesis using assms by (simp add: handle_cloud_def)
next
  case (Some body)
  have next_: "ce_sequence m = cloud_mark st + 1 \<or> is_hello m"
    by (rule ccontr) (use handle_cloud_not_next[of m st c digest cfg now t] assms Some in \<open>auto split: if_splits\<close>)
  have bind: "and_then (on_spool f s1) (on_spool h) = (r, st') \<Longrightarrow> ed_frames st' = ed_frames s1"
    for f :: "('a spool, spool_error, 'x) tx" and h :: "('a spool, spool_error, 'y) tx" and s1
    by (erule and_then_cases) (auto dest!: on_spool_frames)
  have bind2: "and_then (emit_debug_frame c now y s1) (on_spool h) = (r, st') \<Longrightarrow> ed_frames st' = ed_frames s1"
    for y and h :: "('a spool, spool_error, 'y) tx" and s1
    by (erule and_then_cases) (auto simp: emit_debug_frame_def dest!: on_spool_frames split: if_splits)
  have ack: "enqueue_ack c now a q s1 = (x, s2) \<Longrightarrow> ed_frames s2 = ed_frames s1" for a q s1 s2 and x
    by (auto simp: enqueue_ack_def dest!: on_spool_frames split: option.splits)
  have start: "handle_start c now t q k st = (r, st') \<Longrightarrow> ed_frames st' = ed_frames st" for q k
    by (auto simp: handle_start_def split: sum.splits if_splits prod.splits elim!: and_then_cases dest!: ack)
  show thesis
  proof (cases body)
    case (Cloud_relay_frame f)
    then have "handle_relay_frame c cfg now t (ce_sequence m) f st = (r, st')"
      using assms(1) Some next_ by (auto simp: handle_cloud_def Let_def cloud_mark_def is_hello_def)
    then have "ed_frames st' = ed_frames st @ [f] \<and> fst (validate_frame f (rf_device_id f) t (ed_sessions st)) = Inr ()"
      using assms(2)
      by (auto simp: handle_relay_frame_def Let_def split: if_splits sum.splits option.splits prod.splits
          dest!: on_spool_frames bind2)
    then show thesis using that Some Cloud_relay_frame next_ by (auto simp: is_hello_def)
  next
    case (Start k)
    then show thesis using assms Some start by (auto simp: handle_cloud_def Let_def split: if_splits)
  qed (use assms Some in \<open>auto simp: handle_cloud_def Let_def handle_cancel_def handle_debug_grant_def
        handle_revocations_def handle_resolution_def handle_debug_revoke_def
        split: if_splits prod.splits option.splits sum.splits dest!: on_spool_frames bind ack\<close>)
qed

subsection \<open>Properties\<close>

text \<open>
  C33. Cloud messages are processed in order, each at most once: a message at or below the recorded cloud
  sequence changes nothing, one that skips a number raises a gap error and changes nothing, and the
  next one either is recorded (when its handler returns) or leaves the mark where it was or at its own
  number; whatever the spool does meanwhile are spool transactions, so its invariant holds.
\<close>

theorem handle_cloud_in_order:
  assumes "\<not> is_hello m" "ce_body m \<noteq> None" "handle_cloud c digest cfg now t m st = (r, st')"
  shows "(ce_sequence m \<le> cloud_mark st \<longrightarrow> r = Inr () \<and> st' = st) \<and>
         (cloud_mark st + 1 < ce_sequence m \<longrightarrow>
            r = Inl (CloudSequenceGap (cloud_mark st + 1) (ce_sequence m)) \<and> st' = st) \<and>
         (ce_sequence m = cloud_mark st + 1 \<longrightarrow>
            cloud_mark st' \<in> {cloud_mark st, ce_sequence m} \<and> (r = Inr () \<longrightarrow> cloud_mark st' = ce_sequence m)) \<and>
         spool_steps c (ed_spool st) (ed_spool st') \<and>
         (spool_ok c (ed_spool st) \<longrightarrow> spool_ok c (ed_spool st'))"
proof (cases "ce_sequence m = cloud_mark st + 1")
  case True
  from handle_next_advances[OF assms(3,1,2) True] show ?thesis
    using True by (auto simp: advances_def intro: spool_steps_ok)
next
  case False
  then show ?thesis using handle_cloud_not_next[OF assms(1,2) False] assms(3) by (auto intro: steps_refl split: if_splits)
qed

definition demo_config :: config where
  "demo_config = \<lparr>cf_edge_id = ''e'', cf_software_version = ''1'', cf_debug = False, cf_resolver = None,
     cf_frame_handler = None, cf_fingerprint = None, cf_operator = False\<rparr>"

definition demo_edge :: "wire edge" where
  "demo_edge = \<lparr>ed_gateway = \<lparr>gw_spool = create_schema, gw_active = []\<rparr>, ed_sessions = [],
     ed_coordinator = co_init, ed_frames = []\<rparr>"

theorem handle_cloud_in_order_witness:
  "cloud_mark (snd (handle_cloud wire_codec (\<lambda>x. x) demo_config ''t'' 0
      \<lparr>ce_sequence = 1, ce_body = Some (Revocations [])\<rparr> demo_edge)) = 1"
proof -
  let ?m = "\<lparr>ce_sequence = 1, ce_body = Some (Revocations [])\<rparr>"
  obtain st' where h: "handle_cloud wire_codec (\<lambda>x. x) demo_config ''t'' 0 ?m demo_edge = (Inr (), st')"
    by (simp add: handle_cloud_def handle_revocations_def demo_config_def demo_edge_def on_spool_def
        last_cloud_sequence_def create_schema_def metadata_int_def record_cloud_sequence_def Let_def)
  have "cloud_mark demo_edge = 0"
    by (simp add: cloud_mark_def demo_edge_def last_cloud_sequence_def create_schema_def metadata_int_def)
  with handle_cloud_in_order[OF _ _ h] h show ?thesis by (simp add: is_hello_def)
qed


definition demo_frame :: debug_relay_frame where
  "demo_frame = \<lparr>rf_session_id = ''s'', rf_request_id = ''q'', rf_capability = ''view'', rf_kind = ''tap'',
     rf_payload = [], rf_end = False, rf_device_id = ''d''\<rparr>"


end
