(* ===== verification/Hub_Store.thy ===== *)
theory Hub_Store
  imports Protocol
begin

text \<open>
  The stream state of the Edge hub (\<open>services/edge-hub\<close>): the \<open>HubStore\<close> protocol of \<open>session.py\<close> and
  its two implementations, the in-memory store of \<open>session.py\<close> and the SQLite store of
  \<open>sqlite_hub_store.py\<close>, with their live subscriber queues. The protocol is the locale \<open>hub_store\<close>: what
  a store owes the hub about the cloud messages that are not yet acknowledged and the edge messages
  it has recorded. Both implementations are interpretations of it.
\<close>

datatype session_error =
    AckBehindWatermark
  | AckNeverEmittedByHub
  | AckNegative
  | EdgeSequenceNotPositive
  | EdgeSequenceReused
  | EdgeSequenceGap int int
  | EdgeIdRequired
  | CloudBodyRequired
  | HelloNotSequenced
  | HubSqlOverflow
  | HubSqlIntegrity
  | HubDecodeError

text \<open>The queues of the open sessions of an edge, by the identity of the queue.\<close>

type_synonym queues = "(nat \<times> cloud_to_edge list) list"

definition put_queues :: "cloud_to_edge \<Rightarrow> queues \<Rightarrow> queues" where
  "put_queues m qs = map (\<lambda>(q, ms). (q, ms @ [m])) qs"

definition discard_queue :: "nat \<Rightarrow> queues \<Rightarrow> queues" where
  "discard_queue q qs = filter (\<lambda>p. fst p \<noteq> q) qs"

subsection \<open>The in-memory store\<close>

record edge_state =
  es_cloud_messages :: "cloud_to_edge list"
  es_edge_messages :: "(int \<times> edge_to_cloud) list"
  es_last_cloud_sequence :: int
  es_cloud_ack_watermark :: int
  es_subscribers :: queues

definition empty_edge_state :: edge_state where
  "empty_edge_state = \<lparr> es_cloud_messages = [], es_edge_messages = [], es_last_cloud_sequence = 0,
     es_cloud_ack_watermark = 0, es_subscribers = [] \<rparr>"

text \<open>\<open>defaultdict(_EdgeState)\<close>: every edge has a state.\<close>

type_synonym mem_store = "string \<Rightarrow> edge_state"

definition mem_init :: mem_store where
  "mem_init = (\<lambda>_. empty_edge_state)"

definition mem_append_cloud :: "string \<Rightarrow> cloud_to_edge \<Rightarrow> (mem_store, session_error, cloud_to_edge) tx" where
  "mem_append_cloud edge_id message st =
     (let state = st edge_id;
          n = es_last_cloud_sequence state + 1;
          stored = message\<lparr>ce_sequence := n\<rparr>
      in Inr (stored, st(edge_id := state\<lparr>es_last_cloud_sequence := n,
                 es_cloud_messages := es_cloud_messages state @ [stored],
                 es_subscribers := put_queues stored (es_subscribers state)\<rparr>)))"

definition mem_acknowledge_cloud :: "string \<Rightarrow> int \<Rightarrow> (mem_store, session_error, unit) tx" where
  "mem_acknowledge_cloud edge_id through_sequence st =
     (let state = st edge_id
      in if through_sequence < es_cloud_ack_watermark state then Inl AckBehindWatermark
         else if es_last_cloud_sequence state < through_sequence then Inl AckNeverEmittedByHub
         else Inr ((), st(edge_id := state\<lparr>es_cloud_ack_watermark := through_sequence,
                es_cloud_messages := filter (\<lambda>m. through_sequence < ce_sequence m) (es_cloud_messages state)\<rparr>)))"

definition mem_replay_cloud :: "mem_store \<Rightarrow> string \<Rightarrow> int \<Rightarrow> session_error + cloud_to_edge list" where
  "mem_replay_cloud st edge_id after_sequence =
     Inr (filter (\<lambda>m. after_sequence < ce_sequence m) (es_cloud_messages (st edge_id)))"

definition mem_record_edge :: "'b codec \<Rightarrow> string \<Rightarrow> edge_to_cloud \<Rightarrow> (mem_store, session_error, bool) tx" where
  "mem_record_edge c edge_id message st =
     (if ec_sequence message < 1 then Inl EdgeSequenceNotPositive
      else let state = st edge_id
           in case map_of (es_edge_messages state) (ec_sequence message) of
                Some existing \<Rightarrow>
                  if ser_edge c existing \<noteq> ser_edge c message then Inl EdgeSequenceReused
                  else Inr (False, st)
              | None \<Rightarrow>
                  let expected = int (length (es_edge_messages state)) + 1
                  in if ec_sequence message \<noteq> expected
                     then Inl (EdgeSequenceGap expected (ec_sequence message))
                     else Inr (True, st(edge_id := state\<lparr>es_edge_messages :=
                            es_edge_messages state @ [(ec_sequence message, message)]\<rparr>)))"

definition mem_last_edge_sequence :: "mem_store \<Rightarrow> string \<Rightarrow> int" where
  "mem_last_edge_sequence st edge_id = int (length (es_edge_messages (st edge_id)))"

definition mem_last_cloud_sequence :: "mem_store \<Rightarrow> string \<Rightarrow> int" where
  "mem_last_cloud_sequence st edge_id = es_last_cloud_sequence (st edge_id)"

text \<open>The identity of the new queue is the parameter \<open>q\<close>.\<close>

definition mem_live_queue :: "nat \<Rightarrow> string \<Rightarrow> mem_store \<Rightarrow> mem_store" where
  "mem_live_queue q edge_id st =
     st(edge_id := (st edge_id)\<lparr>es_subscribers := (q, []) # es_subscribers (st edge_id)\<rparr>)"

definition mem_remove_live_queue :: "nat \<Rightarrow> string \<Rightarrow> mem_store \<Rightarrow> mem_store" where
  "mem_remove_live_queue q edge_id st =
     st(edge_id := (st edge_id)\<lparr>es_subscribers := discard_queue q (es_subscribers (st edge_id))\<rparr>)"

subsection \<open>The SQLite store\<close>

record 'b hub_message_row =
  hm_edge_id :: string
  hm_sequence :: int
  hm_payload :: 'b

record hub_edge_row =
  hs_last_cloud_sequence :: int
  hs_cloud_ack_watermark :: int
  hs_last_edge_sequence :: int

record 'b sql_store =
  hub_edge_state :: "string \<rightharpoonup> hub_edge_row"
  hub_cloud_message :: "'b hub_message_row list"
  hub_edge_message :: "'b hub_message_row list"
  hub_subscribers :: "string \<Rightarrow> queues"

definition sql_init :: "'b sql_store" where
  "sql_init = \<lparr> hub_edge_state = Map.empty, hub_cloud_message = [], hub_edge_message = [],
                hub_subscribers = (\<lambda>_. []) \<rparr>"

text \<open>\<open>_state\<close>: the row of the edge, inserted with its defaults when it is absent.\<close>

definition state_row :: "'b sql_store \<Rightarrow> string \<Rightarrow> hub_edge_row" where
  "state_row st edge_id = (case hub_edge_state st edge_id of
     Some row \<Rightarrow> row
   | None \<Rightarrow> \<lparr>hs_last_cloud_sequence = 0, hs_cloud_ack_watermark = 0, hs_last_edge_sequence = 0\<rparr>)"

definition put_state :: "string \<Rightarrow> hub_edge_row \<Rightarrow> 'b sql_store \<Rightarrow> 'b sql_store" where
  "put_state edge_id row st = st\<lparr>hub_edge_state := (hub_edge_state st)(edge_id \<mapsto> row)\<rparr>"

definition has_message :: "'b hub_message_row list \<Rightarrow> string \<Rightarrow> int \<Rightarrow> bool" where
  "has_message rows edge_id n \<longleftrightarrow> (\<exists>r \<in> set rows. hm_edge_id r = edge_id \<and> hm_sequence r = n)"

definition sql_append_cloud ::
  "'b codec \<Rightarrow> string \<Rightarrow> cloud_to_edge \<Rightarrow> ('b sql_store, session_error, cloud_to_edge) tx" where
  "sql_append_cloud c edge_id message st =
     (let row = state_row st edge_id;
          n = hs_last_cloud_sequence row + 1;
          stored = message\<lparr>ce_sequence := n\<rparr>
      in if \<not> sqlite_int n then Inl HubSqlOverflow
         else if has_message (hub_cloud_message st) edge_id n then Inl HubSqlIntegrity
         else Inr (stored,
                (put_state edge_id (row\<lparr>hs_last_cloud_sequence := n\<rparr>) st)
                  \<lparr>hub_cloud_message := hub_cloud_message st @
                      [\<lparr>hm_edge_id = edge_id, hm_sequence = n, hm_payload = ser_cloud c stored\<rparr>],
                   hub_subscribers := (hub_subscribers st)
                      (edge_id := put_queues stored (hub_subscribers st edge_id))\<rparr>))"

definition sql_acknowledge_cloud :: "string \<Rightarrow> int \<Rightarrow> ('b sql_store, session_error, unit) tx" where
  "sql_acknowledge_cloud edge_id through_sequence st =
     (if through_sequence < 0 then Inl AckNegative
      else let row = state_row st edge_id
           in if through_sequence < hs_cloud_ack_watermark row then Inl AckBehindWatermark
              else if hs_last_cloud_sequence row < through_sequence
              then (if hs_last_cloud_sequence row \<noteq> 0 \<or> hs_cloud_ack_watermark row \<noteq> 0
                    then Inl AckNeverEmittedByHub
                    else if \<not> sqlite_int through_sequence then Inl HubSqlOverflow
                    else Inr ((), put_state edge_id
                           (row\<lparr>hs_last_cloud_sequence := through_sequence,
                                hs_cloud_ack_watermark := through_sequence\<rparr>) st))
              else if \<not> sqlite_int through_sequence then Inl HubSqlOverflow
              else Inr ((), (put_state edge_id (row\<lparr>hs_cloud_ack_watermark := through_sequence\<rparr>) st)
                     \<lparr>hub_cloud_message := filter
                        (\<lambda>r. \<not> (hm_edge_id r = edge_id \<and> hm_sequence r \<le> through_sequence))
                        (hub_cloud_message st)\<rparr>))"

fun decode_all :: "('b \<Rightarrow> 'm option) \<Rightarrow> 'b list \<Rightarrow> session_error + 'm list" where
  "decode_all p [] = Inr []"
| "decode_all p (b # bs) =
     (case p b of None \<Rightarrow> Inl HubDecodeError
      | Some m \<Rightarrow> (case decode_all p bs of Inl e \<Rightarrow> Inl e | Inr ms \<Rightarrow> Inr (m # ms)))"

definition sql_replay_cloud :: "'b codec \<Rightarrow> 'b sql_store \<Rightarrow> string \<Rightarrow> int \<Rightarrow> session_error + cloud_to_edge list" where
  "sql_replay_cloud c st edge_id after_sequence =
     (if \<not> sqlite_int after_sequence then Inl HubSqlOverflow
      else decode_all (parse_cloud c)
             (map hm_payload (sort_key hm_sequence
                (filter (\<lambda>r. hm_edge_id r = edge_id \<and> after_sequence < hm_sequence r) (hub_cloud_message st)))))"

definition sql_record_edge :: "'b codec \<Rightarrow> string \<Rightarrow> edge_to_cloud \<Rightarrow> ('b sql_store, session_error, bool) tx" where
  "sql_record_edge c edge_id message st =
     (if ec_sequence message < 1 then Inl EdgeSequenceNotPositive
      else if \<not> sqlite_int (ec_sequence message) then Inl HubSqlOverflow
      else let row = state_row st edge_id
           in case find_row (\<lambda>r. hm_edge_id r = edge_id \<and> hm_sequence r = ec_sequence message)
                     (hub_edge_message st) of
                Some existing \<Rightarrow>
                  if hm_payload existing \<noteq> ser_edge c message then Inl EdgeSequenceReused
                  else Inr (False, st)
              | None \<Rightarrow>
                  let expected = hs_last_edge_sequence row + 1
                  in if ec_sequence message \<noteq> expected
                     then Inl (EdgeSequenceGap expected (ec_sequence message))
                     else Inr (True,
                            (put_state edge_id (row\<lparr>hs_last_edge_sequence := ec_sequence message\<rparr>) st)
                              \<lparr>hub_edge_message := hub_edge_message st @
                                 [\<lparr>hm_edge_id = edge_id, hm_sequence = ec_sequence message,
                                   hm_payload = ser_edge c message\<rparr>]\<rparr>))"

definition sql_last_edge_sequence :: "'b sql_store \<Rightarrow> string \<Rightarrow> int" where
  "sql_last_edge_sequence st edge_id = hs_last_edge_sequence (state_row st edge_id)"

definition sql_last_cloud_sequence :: "'b sql_store \<Rightarrow> string \<Rightarrow> int" where
  "sql_last_cloud_sequence st edge_id = hs_last_cloud_sequence (state_row st edge_id)"

definition sql_live_queue :: "nat \<Rightarrow> string \<Rightarrow> 'b sql_store \<Rightarrow> 'b sql_store" where
  "sql_live_queue q edge_id st =
     st\<lparr>hub_subscribers := (hub_subscribers st)(edge_id := (q, []) # hub_subscribers st edge_id)\<rparr>"

definition sql_remove_live_queue :: "nat \<Rightarrow> string \<Rightarrow> 'b sql_store \<Rightarrow> 'b sql_store" where
  "sql_remove_live_queue q edge_id st =
     st\<lparr>hub_subscribers := (hub_subscribers st)
           (edge_id := discard_queue q (hub_subscribers st edge_id))\<rparr>"

end
