(* ===== verification/Hub_Laws.thy ===== *)
theory Hub_Laws
  imports Hub_Store
begin

text \<open>
  The contract of a hub store, as a locale over the view of one edge (the unacknowledged cloud
  messages, the two cloud counters, the edge messages recorded), and its interpretation on both
  stores.
\<close>

record hub_view =
  v_pending :: "cloud_to_edge list"
  v_last :: int
  v_watermark :: int
  v_received :: "edge_to_cloud list"

definition view_ok :: "hub_view \<Rightarrow> bool" where
  "view_ok v \<longleftrightarrow> 0 \<le> v_watermark v \<and> v_watermark v \<le> v_last v \<and>
     map ce_sequence (v_pending v) = [v_watermark v + 1..v_last v] \<and>
     map ec_sequence (v_received v) = [1..int (length (v_received v))]"

locale hub_store =
  fixes inv :: "'st \<Rightarrow> bool"
    and view :: "'st \<Rightarrow> string \<Rightarrow> hub_view"
    and append_cloud :: "string \<Rightarrow> cloud_to_edge \<Rightarrow> 'st \<Rightarrow> session_error + cloud_to_edge \<times> 'st"
    and acknowledge_cloud :: "string \<Rightarrow> int \<Rightarrow> 'st \<Rightarrow> session_error + unit \<times> 'st"
    and replay_cloud :: "'st \<Rightarrow> string \<Rightarrow> int \<Rightarrow> session_error + cloud_to_edge list"
    and record_edge :: "string \<Rightarrow> edge_to_cloud \<Rightarrow> 'st \<Rightarrow> session_error + bool \<times> 'st"
    and last_edge_sequence :: "'st \<Rightarrow> string \<Rightarrow> int"
  assumes inv_view: "inv s \<Longrightarrow> view_ok (view s e)"
    and append_law: "inv s \<Longrightarrow> append_cloud e m s = Inr (m', s') \<Longrightarrow>
        inv s' \<and> m' = m\<lparr>ce_sequence := v_last (view s e) + 1\<rparr> \<and>
        view s' = (view s)(e := (view s e)\<lparr>v_pending := v_pending (view s e) @ [m'],
                                            v_last := v_last (view s e) + 1\<rparr>)"
    and ack_law: "inv s \<Longrightarrow> acknowledge_cloud e n s = Inr (u, s') \<Longrightarrow>
        inv s' \<and> v_watermark (view s e) \<le> n \<and>
        view s' = (view s)(e := (view s e)\<lparr>v_pending := filter (\<lambda>m. n < ce_sequence m) (v_pending (view s e)),
                                            v_last := max n (v_last (view s e)), v_watermark := n\<rparr>)"
    and ack_accepts: "inv s \<Longrightarrow> v_watermark (view s e) \<le> n \<Longrightarrow> n \<le> v_last (view s e) \<Longrightarrow> sqlite_int n \<Longrightarrow>
        is_ok (acknowledge_cloud e n s)"
    and replay_law: "inv s \<Longrightarrow> sqlite_int n \<Longrightarrow>
        replay_cloud s e n = Inr (filter (\<lambda>m. n < ce_sequence m) (v_pending (view s e)))"
    and replay_sound: "inv s \<Longrightarrow> replay_cloud s e n = Inr ms \<Longrightarrow>
        ms = filter (\<lambda>m. n < ce_sequence m) (v_pending (view s e))"
    and record_law: "inv s \<Longrightarrow> record_edge e x s = Inr (b, s') \<Longrightarrow>
        inv s' \<and> (if b then ec_sequence x = int (length (v_received (view s e))) + 1 \<and>
                            view s' = (view s)(e := (view s e)\<lparr>v_received := v_received (view s e) @ [x]\<rparr>)
                  else s' = s \<and> x \<in> set (v_received (view s e)))"
    and record_next: "inv s \<Longrightarrow> ec_sequence x = int (length (v_received (view s e))) + 1 \<Longrightarrow>
        sqlite_int (ec_sequence x) \<Longrightarrow> \<exists>s'. record_edge e x s = Inr (True, s')"
    and record_again: "inv s \<Longrightarrow> x \<in> set (v_received (view s e)) \<Longrightarrow> record_edge e x s = Inr (False, s)"
    and last_edge_law: "inv s \<Longrightarrow> last_edge_sequence s e = int (length (v_received (view s e)))"
begin

lemma pending_sequences: "inv s \<Longrightarrow> map ce_sequence (v_pending (view s e)) = [v_watermark (view s e) + 1..v_last (view s e)]"
  using inv_view by (simp add: view_ok_def)

lemma received_sequences: "inv s \<Longrightarrow> map ec_sequence (v_received (view s e)) = [1..int (length (v_received (view s e)))]"
  using inv_view unfolding view_ok_def by blast

text \<open>A received message is recognised by its position.\<close>

lemma received_nth:
  assumes "inv s" "i < length (v_received (view s e))"
  shows "ec_sequence (v_received (view s e) ! i) = int i + 1"
proof -
  have "ec_sequence (v_received (view s e) ! i) = map ec_sequence (v_received (view s e)) ! i"
    using assms(2) by simp
  also have "\<dots> = int i + 1"
    unfolding received_sequences[OF assms(1)] using assms(2) by simp
  finally show ?thesis .
qed

text \<open>
  Feeding a run of consecutive messages that starts at or before the next expected one: the ones
  already recorded are skipped, the rest are recorded, nothing is refused.
\<close>

lemma feed_run:
  assumes "inv s" and "m = L ! i" and "i \<le> length (v_received (view s e))" and "i < length L"
    and "v_received (view s e) = take (length (v_received (view s e))) L"
    and "map ec_sequence L = [1..int (length L)]" and "sqlite_int (int (length L))"
  shows "\<exists>b s'. record_edge e m s = Inr (b, s') \<and> inv s' \<and>
           v_received (view s' e) = take (max (i + 1) (length (v_received (view s e)))) L \<and>
           (\<forall>e'. e' \<noteq> e \<longrightarrow> view s' e' = view s e')"
proof (cases "i = length (v_received (view s e))")
  case True
  have "ec_sequence m = map ec_sequence L ! i" using assms(2,4) by simp
  then have seq: "ec_sequence m = int i + 1" unfolding assms(6) using assms(4) by simp
  have "sqlite_int (ec_sequence m)" using seq assms(4,7) by (simp add: sqlite_int_def)
  then obtain s' where s': "record_edge e m s = Inr (True, s')"
    using record_next[OF assms(1)] seq True by blast
  have "v_received (view s' e) = take i L @ [L ! i]"
    using record_law[OF assms(1) s'] assms(2,5) True by simp
  then show ?thesis
    using s' record_law[OF assms(1) s'] True assms(4)
    by (auto simp: take_Suc_conv_app_nth)
next
  case False
  then have lt: "i < length (v_received (view s e))" using assms(3) by simp
  then have "m = v_received (view s e) ! i" using assms(2,5) by (metis nth_take)
  then have "record_edge e m s = Inr (False, s)" using record_again[OF assms(1)] lt by simp
  then show ?thesis using assms(1,5) lt by (intro exI[of _ False] exI[of _ s]) (simp add: max_def)
qed

end

subsection \<open>The in-memory store keeps the contract\<close>

definition mem_view :: "mem_store \<Rightarrow> string \<Rightarrow> hub_view" where
  "mem_view st e = \<lparr> v_pending = es_cloud_messages (st e), v_last = es_last_cloud_sequence (st e),
     v_watermark = es_cloud_ack_watermark (st e), v_received = map snd (es_edge_messages (st e)) \<rparr>"

definition mem_inv :: "'b codec \<Rightarrow> mem_store \<Rightarrow> bool" where
  "mem_inv c st \<longleftrightarrow> codec_ok c \<and>
     (\<forall>e. view_ok (mem_view st e) \<and>
          map fst (es_edge_messages (st e)) = map (\<lambda>p. ec_sequence (snd p)) (es_edge_messages (st e)))"

lemma mem_invD:
  assumes "mem_inv c st"
  shows "codec_ok c" "view_ok (mem_view st e)"
    and "map fst (es_edge_messages (st e)) = map (\<lambda>p. ec_sequence (snd p)) (es_edge_messages (st e))"
  using assms by (simp_all add: mem_inv_def)

lemma filter_upto_gt:
  fixes f :: "'a \<Rightarrow> int"
  assumes "map f xs = [a + 1..b]" "a \<le> n" "n \<le> b"
  shows "map f (filter (\<lambda>x. n < f x) xs) = [n + 1..b]"
proof -
  have "map f (filter (\<lambda>x. n < f x) xs) = filter (\<lambda>k. n < k) [a + 1..b]"
    by (simp add: filter_map comp_def flip: assms(1))
  also have "[a + 1..b] = [a + 1..n] @ [n + 1..b]" using assms(2,3) upto_split2[of "a + 1" n b] by (cases "a = n") simp_all
  finally show ?thesis by (simp add: filter_empty_conv)
qed

lemma view_ok_append:
  "view_ok v \<Longrightarrow> ce_sequence m = v_last v + 1 \<Longrightarrow>
     view_ok (v\<lparr>v_pending := v_pending v @ [m], v_last := v_last v + 1\<rparr>)"
  by (simp add: view_ok_def upto_rec2)

lemma view_ok_ack:
  "view_ok v \<Longrightarrow> v_watermark v \<le> n \<Longrightarrow> n \<le> v_last v \<Longrightarrow>
     view_ok (v\<lparr>v_pending := filter (\<lambda>m. n < ce_sequence m) (v_pending v), v_last := max n (v_last v), v_watermark := n\<rparr>)"
  by (simp add: view_ok_def filter_upto_gt)

lemma view_ok_received:
  "view_ok v \<Longrightarrow> ec_sequence m = int (length (v_received v)) + 1 \<Longrightarrow> view_ok (v\<lparr>v_received := v_received v @ [m]\<rparr>)"
  by (simp add: view_ok_def upto_rec2)

lemma mem_view_upd: "mem_view (st(e := s)) = (mem_view st)(e := mem_view (\<lambda>_. s) e)"
  by (rule ext) (simp add: mem_view_def)

lemma mem_keys:
  assumes "mem_inv c st"
  shows "map fst (es_edge_messages (st e)) = [1..int (length (es_edge_messages (st e)))]"
proof -
  have "map ec_sequence (map snd (es_edge_messages (st e))) = [1..int (length (es_edge_messages (st e)))]"
    using mem_invD(2)[OF assms, of e] by (simp add: view_ok_def mem_view_def)
  then show ?thesis using mem_invD(3)[OF assms, of e] by (simp add: comp_def)
qed

lemma mem_edge_key:
  assumes "mem_inv c st" "(n, m) \<in> set (es_edge_messages (st e))"
  shows "ec_sequence m = n"
proof -
  have "\<forall>p \<in> set (es_edge_messages (st e)). fst p = ec_sequence (snd p)"
    using mem_invD(3)[OF assms(1), of e] by (simp add: map_eq_conv)
  then show ?thesis using assms(2) by force
qed

lemma mem_inv_upd:
  assumes "mem_inv c st" "view_ok (mem_view (\<lambda>_. s) e)" "map fst (es_edge_messages s) = map (\<lambda>p. ec_sequence (snd p)) (es_edge_messages s)"
  shows "mem_inv c (st(e := s))"
  using assms by (auto simp: mem_inv_def mem_view_upd)

lemma mem_append_law:
  assumes "mem_inv c s" "mem_append_cloud e m s = Inr (m', s')"
  shows "mem_inv c s' \<and> m' = m\<lparr>ce_sequence := v_last (mem_view s e) + 1\<rparr> \<and>
         mem_view s' = (mem_view s)(e := (mem_view s e)\<lparr>v_pending := v_pending (mem_view s e) @ [m'],
                                            v_last := v_last (mem_view s e) + 1\<rparr>)"
proof -
  have s': "m' = m\<lparr>ce_sequence := es_last_cloud_sequence (s e) + 1\<rparr>"
    "s' = s(e := (s e)\<lparr>es_last_cloud_sequence := es_last_cloud_sequence (s e) + 1,
        es_cloud_messages := es_cloud_messages (s e) @ [m'],
        es_subscribers := put_queues m' (es_subscribers (s e))\<rparr>)"
    using assms(2) by (auto simp: mem_append_cloud_def Let_def)
  have view: "mem_view s' = (mem_view s)(e := (mem_view s e)\<lparr>v_pending := v_pending (mem_view s e) @ [m'],
                                            v_last := v_last (mem_view s e) + 1\<rparr>)"
    unfolding s'(2) mem_view_upd by (simp add: mem_view_def)
  have "mem_inv c s'"
    unfolding s'(2)
    by (rule mem_inv_upd[OF assms(1)])
       (use mem_invD[OF assms(1)] view_ok_append[OF mem_invD(2)[OF assms(1), of e], of m'] s'(1)
        in \<open>simp_all add: mem_view_def\<close>)
  then show ?thesis using view s' by (simp add: mem_view_def)
qed

lemma mem_ack_law:
  assumes "mem_inv c s" "mem_acknowledge_cloud e n s = Inr (u, s')"
  shows "mem_inv c s' \<and> v_watermark (mem_view s e) \<le> n \<and>
        mem_view s' = (mem_view s)(e := (mem_view s e)
           \<lparr>v_pending := filter (\<lambda>m. n < ce_sequence m) (v_pending (mem_view s e)),
            v_last := max n (v_last (mem_view s e)), v_watermark := n\<rparr>)"
proof -
  have s': "s' = s(e := (s e)\<lparr>es_cloud_ack_watermark := n,
        es_cloud_messages := filter (\<lambda>m. n < ce_sequence m) (es_cloud_messages (s e))\<rparr>)"
    and n: "es_cloud_ack_watermark (s e) \<le> n" "n \<le> es_last_cloud_sequence (s e)"
    using assms(2) by (auto simp: mem_acknowledge_cloud_def Let_def split: if_splits)
  have view: "mem_view s' = (mem_view s)(e := (mem_view s e)
           \<lparr>v_pending := filter (\<lambda>m. n < ce_sequence m) (v_pending (mem_view s e)),
            v_last := max n (v_last (mem_view s e)), v_watermark := n\<rparr>)"
    unfolding s' mem_view_upd using n by (simp add: mem_view_def max_def)
  have "mem_inv c s'"
    unfolding s'
    by (rule mem_inv_upd[OF assms(1)])
       (use mem_invD[OF assms(1)] view_ok_ack[OF mem_invD(2)[OF assms(1), of e], of n] n
        in \<open>simp_all add: mem_view_def max_def\<close>)
  then show ?thesis using view n by (simp add: mem_view_def)
qed

lemma mem_record_cases:
  assumes "mem_record_edge c e m s = Inr (b, s')"
  obtains (again) x where "map_of (es_edge_messages (s e)) (ec_sequence m) = Some x" "ser_edge c x = ser_edge c m"
      "b = False" "s' = s"
  | (fresh) "ec_sequence m = int (length (es_edge_messages (s e))) + 1" "b = True"
      "s' = s(e := (s e)\<lparr>es_edge_messages := es_edge_messages (s e) @ [(ec_sequence m, m)]\<rparr>)"
proof (cases "map_of (es_edge_messages (s e)) (ec_sequence m)")
  case None
  then show thesis by (intro fresh) (use assms in \<open>simp_all add: mem_record_edge_def Let_def split: if_splits\<close>)
next
  case (Some x)
  show thesis by (rule again[of x]) (use assms Some in \<open>simp_all add: mem_record_edge_def Let_def split: if_splits\<close>)
qed

lemma mem_record_law:
  assumes "mem_inv c s" "mem_record_edge c e m s = Inr (b, s')"
  shows "mem_inv c s' \<and> (if b then ec_sequence m = int (length (v_received (mem_view s e))) + 1 \<and>
             mem_view s' = (mem_view s)(e := (mem_view s e)\<lparr>v_received := v_received (mem_view s e) @ [m]\<rparr>)
           else s' = s \<and> m \<in> set (v_received (mem_view s e)))"
  using assms(2)
proof (cases rule: mem_record_cases)
  case (again x)
  have "x = m" using again(2) mem_invD(1)[OF assms(1)] by simp
  then have "m \<in> snd ` set (es_edge_messages (s e))" using map_of_SomeD[OF again(1)] by force
  then show ?thesis using again(3,4) assms(1) by (simp add: mem_view_def)
next
  case fresh
  have view: "mem_view s' = (mem_view s)(e := (mem_view s e)\<lparr>v_received := v_received (mem_view s e) @ [m]\<rparr>)"
    unfolding fresh(3) mem_view_upd by (simp add: mem_view_def)
  have "mem_inv c s'"
    unfolding fresh(3)
    by (rule mem_inv_upd[OF assms(1)])
       (use mem_invD[OF assms(1)] view_ok_received[OF mem_invD(2)[OF assms(1), of e], of m] fresh(1)
        in \<open>simp_all add: mem_view_def\<close>)
  then show ?thesis using view fresh(1,2) by (simp add: mem_view_def)
qed

lemma mem_fresh_key:
  assumes "mem_inv c s" "n = int (length (es_edge_messages (s e))) + 1"
  shows "map_of (es_edge_messages (s e)) n = None"
proof -
  have "set (map fst (es_edge_messages (s e))) = {1..int (length (es_edge_messages (s e)))}"
    unfolding mem_keys[OF assms(1)] by simp
  then have "n \<notin> fst ` set (es_edge_messages (s e))" using assms(2) by simp
  then show ?thesis by (simp add: map_of_eq_None_iff)
qed

lemma mem_received_unique:
  assumes "mem_inv c s" "m \<in> set (v_received (mem_view s e))"
  shows "map_of (es_edge_messages (s e)) (ec_sequence m) = Some m" "1 \<le> ec_sequence m"
proof -
  let ?es = "es_edge_messages (s e)"
  obtain n where n: "(n, m) \<in> set ?es" using assms(2) by (auto simp: mem_view_def)
  then have eq: "ec_sequence m = n" by (rule mem_edge_key[OF assms(1)])
  have "distinct (map fst ?es)" unfolding mem_keys[OF assms(1)] by simp
  then show "map_of ?es (ec_sequence m) = Some m" using n eq by simp
  have "n \<in> set (map fst ?es)" using n by force
  then show "1 \<le> ec_sequence m" unfolding mem_keys[OF assms(1)] using eq by simp
qed

interpretation mem: hub_store "mem_inv c" mem_view mem_append_cloud mem_acknowledge_cloud
  mem_replay_cloud "mem_record_edge c" mem_last_edge_sequence for c :: "'b codec"
proof (unfold_locales, goal_cases)
  case (1 s e)
  then show ?case by (simp add: mem_inv_def)
next
  case (2 s e m m' s')
  then show ?case by (rule mem_append_law)
next
  case (3 s e n u s')
  then show ?case by (rule mem_ack_law)
next
  case (4 s e n)
  then show ?case by (simp add: mem_acknowledge_cloud_def mem_view_def Let_def)
next
  case (5 s n e)
  then show ?case by (simp add: mem_replay_cloud_def mem_view_def)
next
  case (6 s e n ms)
  then show ?case by (simp add: mem_replay_cloud_def mem_view_def)
next
  case (7 s e x b s')
  then show ?case by (rule mem_record_law)
next
  case (8 s x e)
  then show ?case
    using mem_fresh_key[OF 8(1), of "ec_sequence x" e] by (simp add: mem_record_edge_def mem_view_def Let_def)
next
  case (9 s x e)
  then show ?case
    using mem_received_unique[OF 9] by (simp add: mem_record_edge_def)
next
  case (10 s e)
  then show ?case by (simp add: mem_last_edge_sequence_def mem_view_def)
qed

subsection \<open>The SQLite store keeps the contract\<close>

definition edge_rows :: "'b hub_message_row list \<Rightarrow> string \<Rightarrow> 'b hub_message_row list" where
  "edge_rows rows e = filter (\<lambda>r. hm_edge_id r = e) rows"

definition sql_view :: "'b codec \<Rightarrow> 'b sql_store \<Rightarrow> string \<Rightarrow> hub_view" where
  "sql_view c st e =
     \<lparr> v_pending = map (\<lambda>r. the (parse_cloud c (hm_payload r))) (edge_rows (hub_cloud_message st) e),
       v_last = hs_last_cloud_sequence (state_row st e),
       v_watermark = hs_cloud_ack_watermark (state_row st e),
       v_received = map (\<lambda>r. the (parse_edge c (hm_payload r))) (edge_rows (hub_edge_message st) e) \<rparr>"

definition cloud_row_ok :: "'b codec \<Rightarrow> 'b hub_message_row \<Rightarrow> bool" where
  "cloud_row_ok c r \<longleftrightarrow> (\<exists>m. hm_payload r = ser_cloud c m \<and> ce_sequence m = hm_sequence r)"

definition edge_row_ok :: "'b codec \<Rightarrow> 'b hub_message_row \<Rightarrow> bool" where
  "edge_row_ok c r \<longleftrightarrow> (\<exists>m. hm_payload r = ser_edge c m \<and> ec_sequence m = hm_sequence r)
     \<and> sqlite_int (hm_sequence r)"

definition sql_inv :: "'b codec \<Rightarrow> 'b sql_store \<Rightarrow> bool" where
  "sql_inv c st \<longleftrightarrow> codec_ok c \<and>
     (\<forall>r \<in> set (hub_cloud_message st). cloud_row_ok c r) \<and>
     (\<forall>r \<in> set (hub_edge_message st). edge_row_ok c r) \<and>
     (\<forall>e. view_ok (sql_view c st e) \<and>
          hs_last_edge_sequence (state_row st e) = int (length (v_received (sql_view c st e))))"

lemma sql_invD:
  assumes "sql_inv c st"
  shows "codec_ok c" "\<forall>r \<in> set (hub_cloud_message st). cloud_row_ok c r"
    "\<forall>r \<in> set (hub_edge_message st). edge_row_ok c r" "view_ok (sql_view c st e)"
    "hs_last_edge_sequence (state_row st e) = int (length (v_received (sql_view c st e)))"
  using assms by (simp_all add: sql_inv_def)

lemma edge_rows_append [simp]:
  "edge_rows (rows @ [r]) e = edge_rows rows e @ (if hm_edge_id r = e then [r] else [])"
  by (simp add: edge_rows_def)

lemma state_row_put [simp]: "state_row (put_state e row st) e' = (if e' = e then row else state_row st e')"
  by (simp add: state_row_def put_state_def)

lemma state_row_frame [simp]:
  "state_row (st\<lparr>hub_cloud_message := x\<rparr>) e = state_row st e"
  "state_row (st\<lparr>hub_edge_message := y\<rparr>) e = state_row st e"
  "state_row (st\<lparr>hub_subscribers := z\<rparr>) e = state_row st e"
  by (simp_all add: state_row_def)

lemma put_state_frame [simp]:
  "hub_cloud_message (put_state e row st) = hub_cloud_message st"
  "hub_edge_message (put_state e row st) = hub_edge_message st"
  by (simp_all add: put_state_def)

lemma parse_cloud_seq:
  assumes "codec_ok c" "\<forall>r \<in> set rows. cloud_row_ok c r"
  shows "map (\<lambda>r. ce_sequence (the (parse_cloud c (hm_payload r)))) rows = map hm_sequence rows"
  using assms by (auto simp: cloud_row_ok_def)

lemma sql_pending_rows:
  assumes "sql_inv c st"
  shows "map hm_sequence (edge_rows (hub_cloud_message st) e) =
         [v_watermark (sql_view c st e) + 1..v_last (sql_view c st e)]"
proof -
  have "\<forall>r \<in> set (edge_rows (hub_cloud_message st) e). cloud_row_ok c r"
    using sql_invD(2)[OF assms] by (auto simp: edge_rows_def)
  note eq = parse_cloud_seq[OF sql_invD(1)[OF assms] this]
  have "map (\<lambda>r. ce_sequence (the (parse_cloud c (hm_payload r)))) (edge_rows (hub_cloud_message st) e) =
        [v_watermark (sql_view c st e) + 1..v_last (sql_view c st e)]"
    using sql_invD(4)[OF assms, of e] by (simp add: view_ok_def sql_view_def comp_def)
  then show ?thesis unfolding eq .
qed

lemma sql_received_rows:
  assumes "sql_inv c st"
  shows "map hm_sequence (edge_rows (hub_edge_message st) e) =
         [1..int (length (v_received (sql_view c st e)))]"
proof -
  have "\<forall>r \<in> set (edge_rows (hub_edge_message st) e). ec_sequence (the (parse_edge c (hm_payload r))) = hm_sequence r"
    using sql_invD(1,3)[OF assms] by (auto simp: edge_rows_def edge_row_ok_def)
  then have "map ec_sequence (v_received (sql_view c st e)) = map hm_sequence (edge_rows (hub_edge_message st) e)"
    by (simp add: sql_view_def)
  then show ?thesis using sql_invD(4)[OF assms, of e] by (simp add: view_ok_def)
qed

lemma sql_no_next_cloud:
  assumes "sql_inv c st"
  shows "\<not> has_message (hub_cloud_message st) e (hs_last_cloud_sequence (state_row st e) + 1)"
proof
  assume "has_message (hub_cloud_message st) e (hs_last_cloud_sequence (state_row st e) + 1)"
  then have "hs_last_cloud_sequence (state_row st e) + 1 \<in> set (map hm_sequence (edge_rows (hub_cloud_message st) e))"
    by (force simp: has_message_def edge_rows_def)
  then show False unfolding sql_pending_rows[OF assms] by (simp add: sql_view_def)
qed

lemma sql_inv_upd:
  assumes "sql_inv c st" "sql_view c st' = (sql_view c st)(e := v)" "view_ok v"
    and "\<forall>r \<in> set (hub_cloud_message st'). cloud_row_ok c r" "\<forall>r \<in> set (hub_edge_message st'). edge_row_ok c r"
    and "\<And>e'. e' \<noteq> e \<Longrightarrow> state_row st' e' = state_row st e'"
    and "hs_last_edge_sequence (state_row st' e) = int (length (v_received v))"
  shows "sql_inv c st'"
  using assms(4-7) sql_invD[OF assms(1)] assms(3) unfolding sql_inv_def assms(2) by simp

lemma sql_append_law:
  assumes "sql_inv c s" "sql_append_cloud c e m s = Inr (m', s')"
  shows "sql_inv c s' \<and> m' = m\<lparr>ce_sequence := v_last (sql_view c s e) + 1\<rparr> \<and>
         sql_view c s' = (sql_view c s)(e := (sql_view c s e)\<lparr>v_pending := v_pending (sql_view c s e) @ [m'],
                                            v_last := v_last (sql_view c s e) + 1\<rparr>)"
proof -
  let ?row = "state_row s e"
  have m': "m' = m\<lparr>ce_sequence := hs_last_cloud_sequence ?row + 1\<rparr>" and
    s': "s' = (put_state e (?row\<lparr>hs_last_cloud_sequence := hs_last_cloud_sequence ?row + 1\<rparr>) s)
       \<lparr>hub_cloud_message := hub_cloud_message s @
          [\<lparr>hm_edge_id = e, hm_sequence = hs_last_cloud_sequence ?row + 1, hm_payload = ser_cloud c m'\<rparr>],
        hub_subscribers := (hub_subscribers s)(e := put_queues m' (hub_subscribers s e))\<rparr>"
    using assms(2) by (auto simp: sql_append_cloud_def Let_def split: if_splits)
  have view: "sql_view c s' = (sql_view c s)(e := (sql_view c s e)\<lparr>v_pending := v_pending (sql_view c s e) @ [m'],
                                            v_last := v_last (sql_view c s e) + 1\<rparr>)"
    unfolding s' by (rule ext) (simp add: sql_view_def sql_invD(1)[OF assms(1)])
  have "ce_sequence m' = v_last (sql_view c s e) + 1" using m' by (simp add: sql_view_def)
  then have "sql_inv c s'"
    by (intro sql_inv_upd[OF assms(1) view view_ok_append[OF sql_invD(4)[OF assms(1)]]])
       (use sql_invD[OF assms(1)] m' in \<open>auto simp: s' cloud_row_ok_def\<close>)
  then show ?thesis using view m' by (simp add: sql_view_def)
qed

lemma sql_ack_law:
  assumes "sql_inv c s" "sql_acknowledge_cloud e n s = Inr (u, s')"
  shows "sql_inv c s' \<and> v_watermark (sql_view c s e) \<le> n \<and>
        sql_view c s' = (sql_view c s)(e := (sql_view c s e)
           \<lparr>v_pending := filter (\<lambda>m. n < ce_sequence m) (v_pending (sql_view c s e)),
            v_last := max n (v_last (sql_view c s e)), v_watermark := n\<rparr>)"
    (is "_ \<and> _ \<and> _ = (sql_view c s)(e := ?v)")
proof (cases "hs_last_cloud_sequence (state_row s e) < n")
  case True
  then have zero: "hs_last_cloud_sequence (state_row s e) = 0" "hs_cloud_ack_watermark (state_row s e) = 0"
    and s': "s' = put_state e ((state_row s e)\<lparr>hs_last_cloud_sequence := n, hs_cloud_ack_watermark := n\<rparr>) s"
    using assms(2) by (auto simp: sql_acknowledge_cloud_def Let_def split: if_splits)
  have none: "edge_rows (hub_cloud_message s) e = []"
    using sql_pending_rows[OF assms(1), of e] zero by (simp add: sql_view_def)
  have view: "sql_view c s' = (sql_view c s)(e := ?v)"
    unfolding s' by (rule ext) (use none True in \<open>simp add: sql_view_def zero\<close>)
  have "view_ok ?v"
    using sql_invD(4)[OF assms(1), of e] none True zero by (simp add: view_ok_def sql_view_def)
  then have "sql_inv c s'"
    by (rule sql_inv_upd[OF assms(1) view]) (use sql_invD[OF assms(1)] in \<open>simp_all add: s'\<close>)
  then show ?thesis using view True zero by (simp add: sql_view_def)
next
  case False
  define kept where "kept = filter (\<lambda>r. \<not> (hm_edge_id r = e \<and> hm_sequence r \<le> n)) (hub_cloud_message s)"
  have n: "hs_cloud_ack_watermark (state_row s e) \<le> n"
    and s': "s' = (put_state e ((state_row s e)\<lparr>hs_cloud_ack_watermark := n\<rparr>) s)\<lparr>hub_cloud_message := kept\<rparr>"
    using assms(2) False by (auto simp: kept_def sql_acknowledge_cloud_def Let_def split: if_splits)
  have rows: "edge_rows kept e' = (if e' = e then filter (\<lambda>r. n < hm_sequence r) (edge_rows (hub_cloud_message s) e)
                                    else edge_rows (hub_cloud_message s) e')" for e'
    by (auto simp: kept_def edge_rows_def intro!: filter_cong)
  have seq: "\<forall>r \<in> set (edge_rows (hub_cloud_message s) e).
               ce_sequence (the (parse_cloud c (hm_payload r))) = hm_sequence r"
    using sql_invD(1,2)[OF assms(1)] by (auto simp: edge_rows_def cloud_row_ok_def)
  have pend: "v_pending ?v = map (\<lambda>r. the (parse_cloud c (hm_payload r)))
                 (filter (\<lambda>r. n < hm_sequence r) (edge_rows (hub_cloud_message s) e))"
    using seq by (auto simp: sql_view_def filter_map comp_def intro!: arg_cong[where f = "map _"] filter_cong)
  have view: "sql_view c s' = (sql_view c s)(e := ?v)"
    unfolding s' using pend False by (intro ext) (simp add: sql_view_def rows max_def)
  have "view_ok ?v"
    using view_ok_ack[OF sql_invD(4)[OF assms(1), of e], of n] n False by (simp add: sql_view_def)
  then have "sql_inv c s'"
    by (rule sql_inv_upd[OF assms(1) view]) (use sql_invD[OF assms(1)] in \<open>auto simp: s' kept_def\<close>)
  then show ?thesis using view n by (simp add: sql_view_def)
qed

lemma decode_all_rows:
  "\<forall>r \<in> set rows. p (g r) \<noteq> None \<Longrightarrow> decode_all p (map g rows) = Inr (map (\<lambda>r. the (p (g r))) rows)"
  by (induction rows) auto

lemma sql_replay_law:
  assumes "sql_inv c s" "sqlite_int n"
  shows "sql_replay_cloud c s e n = Inr (filter (\<lambda>m. n < ce_sequence m) (v_pending (sql_view c s e)))"
proof -
  let ?rows = "edge_rows (hub_cloud_message s) e"
  have flt: "filter (\<lambda>r. hm_edge_id r = e \<and> n < hm_sequence r) (hub_cloud_message s) = filter (\<lambda>r. n < hm_sequence r) ?rows"
    by (auto simp: edge_rows_def intro!: filter_cong)
  have ok: "\<forall>r \<in> set ?rows. \<exists>m. parse_cloud c (hm_payload r) = Some m \<and> ce_sequence m = hm_sequence r"
    using sql_invD(1,2)[OF assms(1)] by (auto simp: edge_rows_def cloud_row_ok_def)
  have "sorted (map hm_sequence ?rows)" unfolding sql_pending_rows[OF assms(1)] by simp
  then have "sorted (map hm_sequence (filter (\<lambda>r. n < hm_sequence r) ?rows))" by (rule sorted_filter)
  then have "sql_replay_cloud c s e n =
      Inr (map (\<lambda>r. the (parse_cloud c (hm_payload r))) (filter (\<lambda>r. n < hm_sequence r) ?rows))"
    using assms(2) ok unfolding sql_replay_cloud_def flt by (subst decode_all_rows) (fastforce, simp)
  also have "map (\<lambda>r. the (parse_cloud c (hm_payload r))) (filter (\<lambda>r. n < hm_sequence r) ?rows) =
      filter (\<lambda>m. n < ce_sequence m) (v_pending (sql_view c s e))"
    using ok by (auto simp: sql_view_def filter_map comp_def intro!: arg_cong[where f = "map _"] filter_cong)
  finally show ?thesis .
qed

definition edge_hit :: "string \<Rightarrow> int \<Rightarrow> 'b hub_message_row \<Rightarrow> bool" where
  "edge_hit e n r \<longleftrightarrow> hm_edge_id r = e \<and> hm_sequence r = n"

lemma find_edge_row: "find_row (edge_hit e n) rows = find_row (\<lambda>r. hm_sequence r = n) (edge_rows rows e)"
  by (induction rows) (auto simp: edge_rows_def edge_hit_def)

lemma sql_record_cases:
  assumes "sql_record_edge c e m s = Inr (b, s')"
  obtains (again) x where "find_row (edge_hit e (ec_sequence m)) (hub_edge_message s) = Some x"
      "hm_payload x = ser_edge c m" "b = False" "s' = s"
  | (fresh) "ec_sequence m = hs_last_edge_sequence (state_row s e) + 1" "b = True" "sqlite_int (ec_sequence m)"
      "s' = (put_state e ((state_row s e)\<lparr>hs_last_edge_sequence := ec_sequence m\<rparr>) s)
              \<lparr>hub_edge_message := hub_edge_message s @
                 [\<lparr>hm_edge_id = e, hm_sequence = ec_sequence m, hm_payload = ser_edge c m\<rparr>]\<rparr>"
proof (cases "find_row (edge_hit e (ec_sequence m)) (hub_edge_message s)")
  case None
  then show thesis
    by (intro fresh)
       (use assms in \<open>simp_all add: sql_record_edge_def edge_hit_def[abs_def] Let_def split: if_splits\<close>)
next
  case (Some x)
  show thesis
    by (rule again[OF Some])
       (use assms Some in \<open>simp_all add: sql_record_edge_def edge_hit_def[abs_def] Let_def split: if_splits\<close>)
qed

lemma sql_record_law:
  assumes "sql_inv c s" "sql_record_edge c e m s = Inr (b, s')"
  shows "sql_inv c s' \<and> (if b then ec_sequence m = int (length (v_received (sql_view c s e))) + 1 \<and>
             sql_view c s' = (sql_view c s)(e := (sql_view c s e)\<lparr>v_received := v_received (sql_view c s e) @ [m]\<rparr>)
           else s' = s \<and> m \<in> set (v_received (sql_view c s e)))"
  using assms(2)
proof (cases rule: sql_record_cases)
  case (again x)
  have "x \<in> set (edge_rows (hub_edge_message s) e)"
    using find_row_SomeD[OF again(1)] by (simp add: edge_rows_def edge_hit_def)
  moreover have "the (parse_edge c (hm_payload x)) = m" using again(2) sql_invD(1)[OF assms(1)] by simp
  ultimately have "m \<in> set (v_received (sql_view c s e))" by (force simp: sql_view_def)
  then show ?thesis using again(3,4) assms(1) by simp
next
  case fresh
  have len: "ec_sequence m = int (length (v_received (sql_view c s e))) + 1"
    using fresh(1) sql_invD(5)[OF assms(1)] by simp
  have view: "sql_view c s' = (sql_view c s)(e := (sql_view c s e)\<lparr>v_received := v_received (sql_view c s e) @ [m]\<rparr>)"
    unfolding fresh(4) by (rule ext) (simp add: sql_view_def sql_invD(1)[OF assms(1)])
  have "sql_inv c s'"
    by (rule sql_inv_upd[OF assms(1) view view_ok_received[OF sql_invD(4)[OF assms(1)] len]])
       (use sql_invD[OF assms(1)] fresh(3) len in \<open>auto simp: fresh(4) edge_row_ok_def\<close>)
  then show ?thesis using view len fresh(2) by simp
qed

lemma sql_record_next:
  assumes "sql_inv c s" "ec_sequence x = int (length (v_received (sql_view c s e))) + 1" "sqlite_int (ec_sequence x)"
  shows "\<exists>s'. sql_record_edge c e x s = Inr (True, s')"
proof -
  have "ec_sequence x \<notin> set (map hm_sequence (edge_rows (hub_edge_message s) e))"
    unfolding sql_received_rows[OF assms(1)] using assms(2) by simp
  then have "find_row (edge_hit e (ec_sequence x)) (hub_edge_message s) = None"
    by (force simp: find_edge_row find_row_None)
  then show ?thesis
    using assms sql_invD(5)[OF assms(1), of e]
    by (simp add: sql_record_edge_def edge_hit_def[abs_def] Let_def)
qed

lemma sql_record_again:
  assumes "sql_inv c s" "m \<in> set (v_received (sql_view c s e))"
  shows "sql_record_edge c e m s = Inr (False, s)"
proof -
  obtain r where r: "r \<in> set (edge_rows (hub_edge_message s) e)" "m = the (parse_edge c (hm_payload r))"
    using assms(2) by (auto simp: sql_view_def)
  then have ok: "edge_row_ok c r" using sql_invD(3)[OF assms(1)] by (simp add: edge_rows_def)
  then have m: "hm_payload r = ser_edge c m" "ec_sequence m = hm_sequence r" "sqlite_int (ec_sequence m)"
    using r(2) sql_invD(1)[OF assms(1)] by (auto simp: edge_row_ok_def)
  have "distinct (map hm_sequence (edge_rows (hub_edge_message s) e))"
    unfolding sql_received_rows[OF assms(1)] by simp
  then have "find_row (edge_hit e (ec_sequence m)) (hub_edge_message s) = Some r"
    unfolding find_edge_row m(2) by (rule find_row_unique[OF _ r(1) refl])
  moreover have "hm_sequence r \<in> set (map hm_sequence (edge_rows (hub_edge_message s) e))" using r(1) by simp
  then have "1 \<le> ec_sequence m" unfolding sql_received_rows[OF assms(1)] m(2) by simp
  ultimately show ?thesis
    using m by (simp add: sql_record_edge_def edge_hit_def[abs_def] Let_def)
qed

interpretation sql: hub_store "sql_inv c" "sql_view c" "sql_append_cloud c" sql_acknowledge_cloud
  "sql_replay_cloud c" "sql_record_edge c" sql_last_edge_sequence for c :: "'b codec"
proof (unfold_locales, goal_cases)
  case (1 s e)
  then show ?case by (rule sql_invD(4))
next
  case (2 s e m m' s')
  then show ?case by (rule sql_append_law)
next
  case (3 s e n u s')
  then show ?case by (rule sql_ack_law)
next
  case (4 s e n)
  then have "0 \<le> n" using sql_invD(4)[OF 4(1), of e] by (simp add: view_ok_def)
  then show ?case using 4 by (simp add: sql_acknowledge_cloud_def sql_view_def Let_def)
next
  case (5 s n e)
  then show ?case by (rule sql_replay_law)
next
  case (6 s e n ms)
  then have "sqlite_int n" by (auto simp: sql_replay_cloud_def split: if_splits)
  then show ?case using sql_replay_law[OF 6(1)] 6(2) by simp
next
  case (7 s e x b s')
  then show ?case by (rule sql_record_law)
next
  case (8 s x e)
  then show ?case by (rule sql_record_next)
next
  case (9 s x e)
  then show ?case by (rule sql_record_again)
next
  case (10 s e)
  then show ?case by (simp add: sql_last_edge_sequence_def sql_invD(5)[OF 10])
qed

lemma mem_inv_init: "codec_ok c \<Longrightarrow> mem_inv c mem_init"
  by (simp add: mem_inv_def mem_init_def mem_view_def view_ok_def empty_edge_state_def)

lemma sql_inv_init: "codec_ok c \<Longrightarrow> sql_inv c sql_init"
  by (simp add: sql_inv_def sql_init_def sql_view_def view_ok_def edge_rows_def state_row_def)

subsection \<open>The two stores agree\<close>

text \<open>Two results agree: the same error, or the same value with the same view of every edge.\<close>

definition agree :: "'b codec \<Rightarrow> session_error + 'a \<times> mem_store \<Rightarrow> session_error + 'a \<times> 'b sql_store \<Rightarrow> bool" where
  "agree c r1 r2 \<longleftrightarrow>
     (case (r1, r2) of
        (Inl a, Inl b) \<Rightarrow> a = b
      | (Inr (x, m), Inr (y, q)) \<Rightarrow> x = y \<and> mem_view m = sql_view c q
      | _ \<Rightarrow> False)"

lemma agree_Inl [simp]: "agree c (Inl a) (Inl b) \<longleftrightarrow> a = b"
  by (simp add: agree_def)

lemma agree_Inr [simp]: "agree c (Inr (x, m)) (Inr (y, q)) \<longleftrightarrow> x = y \<and> mem_view m = sql_view c q"
  by (simp add: agree_def)

lemma views_eqD:
  assumes "mem_view m = sql_view c q"
  shows "es_last_cloud_sequence (m e) = hs_last_cloud_sequence (state_row q e)"
    and "es_cloud_ack_watermark (m e) = hs_cloud_ack_watermark (state_row q e)"
    and "v_received (mem_view m e) = v_received (sql_view c q e)"
  using fun_cong[OF assms, of e] by (simp_all add: mem_view_def sql_view_def)

lemma agree_append:
  assumes "mem_inv c m" "sql_inv c q" "mem_view m = sql_view c q" "sqlite_int (v_last (sql_view c q e) + 1)"
  shows "agree c (mem_append_cloud e k m) (sql_append_cloud c e k q)"
proof -
  obtain k1 m' where m': "mem_append_cloud e k m = Inr (k1, m')"
    by (simp add: mem_append_cloud_def Let_def)
  obtain k2 q' where q': "sql_append_cloud c e k q = Inr (k2, q')"
    using sql_no_next_cloud[OF assms(2), of e] assms(4) by (simp add: sql_append_cloud_def Let_def sql_view_def)
  show ?thesis
    using mem_append_law[OF assms(1) m'] sql_append_law[OF assms(2) q'] assms(3) m' q' by simp
qed

lemma agree_ack:
  assumes "mem_inv c m" "sql_inv c q" "mem_view m = sql_view c q" "0 \<le> n" "sqlite_int n"
    and "n \<le> v_last (sql_view c q e) \<or> v_last (sql_view c q e) \<noteq> 0"
  shows "agree c (mem_acknowledge_cloud e n m) (sql_acknowledge_cloud e n q)"
proof (cases "mem_acknowledge_cloud e n m")
  case (Inl err)
  then show ?thesis
    using views_eqD[OF assms(3), of e] assms(4-6)
    by (auto simp: mem_acknowledge_cloud_def sql_acknowledge_cloud_def sql_view_def Let_def split: if_splits)
next
  case (Inr p)
  then obtain u m' where m': "mem_acknowledge_cloud e n m = Inr (u, m')" by (cases p) auto
  then have "es_cloud_ack_watermark (m e) \<le> n" "n \<le> es_last_cloud_sequence (m e)"
    by (auto simp: mem_acknowledge_cloud_def Let_def split: if_splits)
  then have "is_ok (sql_acknowledge_cloud e n q)"
    using sql.ack_accepts[OF assms(2)] views_eqD[OF assms(3), of e] assms(5) by (simp add: sql_view_def)
  then obtain u' q' where q': "sql_acknowledge_cloud e n q = Inr (u', q')" by (auto simp: is_ok_iff)
  show ?thesis using mem_ack_law[OF assms(1) m'] sql_ack_law[OF assms(2) q'] assms(3) m' q' by simp
qed

text \<open>Whether a message is already recorded, and with which content, is read off the view.\<close>

lemma mem_lookup_view:
  assumes "mem_inv c s"
  shows "map_of (es_edge_messages (s e)) n = find_row (\<lambda>x. ec_sequence x = n) (v_received (mem_view s e))"
proof -
  have "map fst es = map (\<lambda>p. ec_sequence (snd p)) es \<Longrightarrow>
        map_of es n = find_row (\<lambda>x. ec_sequence x = n) (map snd es)" for es :: "(int \<times> edge_to_cloud) list"
    by (induction es) auto
  from this[OF mem_invD(3)[OF assms, of e]] show ?thesis by (simp add: mem_view_def)
qed

lemma sql_lookup_view:
  assumes "sql_inv c s"
  shows "find_row (edge_hit e n) (hub_edge_message s) = None \<longleftrightarrow>
           find_row (\<lambda>x. ec_sequence x = n) (v_received (sql_view c s e)) = None"
    and "find_row (edge_hit e n) (hub_edge_message s) = Some r \<Longrightarrow>
           \<exists>x. find_row (\<lambda>x. ec_sequence x = n) (v_received (sql_view c s e)) = Some x \<and> hm_payload r = ser_edge c x"
proof -
  let ?p = "\<lambda>r. the (parse_edge c (hm_payload r))"
  have ok: "\<forall>r \<in> set (edge_rows (hub_edge_message s) e). ec_sequence (?p r) = hm_sequence r \<and> hm_payload r = ser_edge c (?p r)"
    using sql_invD(1,3)[OF assms] by (auto simp: edge_rows_def edge_row_ok_def)
  have "\<forall>r \<in> set rows. ec_sequence (?p r) = hm_sequence r \<Longrightarrow>
     find_row (\<lambda>x. ec_sequence x = n) (map ?p rows) = map_option ?p (find_row (\<lambda>r. hm_sequence r = n) rows)"
    for rows :: "'a hub_message_row list"
    by (induction rows) auto
  then have eq: "find_row (\<lambda>x. ec_sequence x = n) (v_received (sql_view c s e)) =
      map_option ?p (find_row (edge_hit e n) (hub_edge_message s))"
    using ok by (simp add: sql_view_def find_edge_row)
  then show "find_row (edge_hit e n) (hub_edge_message s) = None \<longleftrightarrow>
      find_row (\<lambda>x. ec_sequence x = n) (v_received (sql_view c s e)) = None" by simp
  assume r: "find_row (edge_hit e n) (hub_edge_message s) = Some r"
  then have "r \<in> set (edge_rows (hub_edge_message s) e)" by (auto simp: find_edge_row dest: find_row_SomeD)
  with ok eq r show "\<exists>x. find_row (\<lambda>x. ec_sequence x = n) (v_received (sql_view c s e)) = Some x \<and> hm_payload r = ser_edge c x"
    by simp
qed

lemma agree_record:
  assumes "mem_inv c m" "sql_inv c q" "mem_view m = sql_view c q" "sqlite_int (ec_sequence x)"
  shows "agree c (mem_record_edge c e x m) (sql_record_edge c e x q)"
proof (cases "is_ok (mem_record_edge c e x m)")
  case True
  then obtain b m' where m': "mem_record_edge c e x m = Inr (b, m')" by (auto simp: is_ok_iff)
  have "\<exists>q'. sql_record_edge c e x q = Inr (b, q')"
    using mem_record_law[OF assms(1) m'] sql_record_next[OF assms(2) _ assms(4), of e]
      sql_record_again[OF assms(2), of x e] views_eqD(3)[OF assms(3), of e]
    by (cases b) auto
  then obtain q' where q': "sql_record_edge c e x q = Inr (b, q')" by blast
  show ?thesis
    using mem_record_law[OF assms(1) m'] sql_record_law[OF assms(2) q'] assms(3) m' q' by (cases b) auto
next
  case False
  let ?n = "ec_sequence x"
  have view: "v_received (mem_view m e) = v_received (sql_view c q e)" by (rule views_eqD(3)[OF assms(3)])
  have len: "int (length (es_edge_messages (m e))) = hs_last_edge_sequence (state_row q e)"
    using arg_cong[OF view, of length] sql_invD(5)[OF assms(2), of e] by (simp add: mem_view_def)
  have look: "map_of (es_edge_messages (m e)) ?n = find_row (\<lambda>y. ec_sequence y = ?n) (v_received (sql_view c q e))"
    by (simp add: mem_lookup_view[OF assms(1)] view)
  show ?thesis
  proof (cases "find_row (edge_hit e ?n) (hub_edge_message q)")
    case None
    then show ?thesis
      using False look len assms(4) sql_lookup_view(1)[OF assms(2), of e ?n]
      by (auto simp: mem_record_edge_def sql_record_edge_def edge_hit_def[abs_def] Let_def split: if_splits)
  next
    case (Some r)
    then show ?thesis
      using False look len assms(4) sql_lookup_view(2)[OF assms(2) Some] codec_inj(2)[OF mem_invD(1)[OF assms(1)]]
      by (auto simp: mem_record_edge_def sql_record_edge_def edge_hit_def[abs_def] Let_def split: if_splits)
  qed
qed

lemma agree_init: "codec_ok c \<Longrightarrow> mem_view mem_init = sql_view c (sql_init :: 'b sql_store)"
  by (rule ext) (simp add: mem_view_def sql_view_def mem_init_def sql_init_def empty_edge_state_def edge_rows_def
      state_row_def)

subsection \<open>Properties\<close>



text \<open>
  First contact of an edge that is ahead of an empty hub (a hub that lost its state): the SQLite store
  adopts the acknowledged number as its own counter, so the next command continues the edge's
  sequence; the in-memory store refuses the session.
\<close>

theorem ack_bootstrap:
  assumes "0 < n" "sqlite_int n" "sqlite_int (n + 1)"
  shows "mem_acknowledge_cloud e n mem_init = Inl AckNeverEmittedByHub \<and>
         (\<exists>q q' k'. sql_acknowledge_cloud e n (sql_init :: 'b sql_store) = Inr ((), q) \<and>
            sql_append_cloud c e k q = Inr (k', q') \<and> ce_sequence k' = n + 1)"
  using assms
  by (simp add: mem_acknowledge_cloud_def mem_init_def empty_edge_state_def sql_acknowledge_cloud_def sql_init_def
      state_row_def Let_def sql_append_cloud_def put_state_def has_message_def)

theorem ack_bootstrap_witness: "mem_acknowledge_cloud ''edge-1'' 5 mem_init = Inl AckNeverEmittedByHub"
  using ack_bootstrap[of 5 "''edge-1''" wire_codec] by (simp add: sqlite_int_def)

end
