(* ===== verification/Hub_Session.thy ===== *)
theory Hub_Session
  imports Hub_Laws
begin

text \<open>
  The hub's side of a session: \<open>EdgeHub\<close> of \<open>session.py\<close> over any store (the store's operations are
  arguments), the peer identity check of \<open>identity.py\<close>, the admission of a stream by
  \<open>grpc_service.py\<close>, and the one-time enrolment registry of \<open>enrollment.py\<close>.
\<close>

subsection \<open>EdgeHub\<close>

definition hub_queue ::
  "(string \<Rightarrow> cloud_to_edge \<Rightarrow> 'st \<Rightarrow> session_error + cloud_to_edge \<times> 'st) \<Rightarrow>
   string \<Rightarrow> cloud_to_edge \<Rightarrow> 'st \<Rightarrow> session_error + cloud_to_edge \<times> 'st" where
  "hub_queue append_cloud edge_id message st =
     (if edge_id = [] then Inl EdgeIdRequired
      else if ce_body message = None then Inl CloudBodyRequired
      else append_cloud edge_id message st)"

text \<open>
  A handler of an edge message works on a state of its own; it may raise (\<open>None\<close> is the state kept
  by the raising handler, so the result is a flag and a state). The handlers run in order and the
  first that raises ends the loop.
\<close>

type_synonym 'h handler = "string \<Rightarrow> edge_to_cloud \<Rightarrow> 'h \<Rightarrow> bool \<times> 'h"

fun run_handlers :: "'h handler list \<Rightarrow> string \<Rightarrow> edge_to_cloud \<Rightarrow> 'h \<Rightarrow> bool \<times> 'h" where
  "run_handlers [] e m h = (True, h)"
| "run_handlers (f # fs) e m h =
     (case f e m h of (False, h') \<Rightarrow> (False, h') | (True, h') \<Rightarrow> run_handlers fs e m h')"

datatype accept_result = Refused session_error | Accepted bool | HandlerRaised

definition hub_accept ::
  "(string \<Rightarrow> edge_to_cloud \<Rightarrow> 'st \<Rightarrow> session_error + bool \<times> 'st) \<Rightarrow> 'h handler list \<Rightarrow>
   string \<Rightarrow> edge_to_cloud \<Rightarrow> 'st \<times> 'h \<Rightarrow> accept_result \<times> 'st \<times> 'h" where
  "hub_accept record_edge handlers edge_id message sh =
     (case sh of (st, h) \<Rightarrow>
        (case ec_body message of
           Some (Hello _) \<Rightarrow> (Refused HelloNotSequenced, st, h)
         | _ \<Rightarrow>
             (case record_edge edge_id message st of
                Inl err \<Rightarrow> (Refused err, st, h)
              | Inr (inserted, st') \<Rightarrow>
                  if inserted
                  then (case run_handlers handlers edge_id message h of
                          (True, h') \<Rightarrow> (Accepted True, st', h')
                        | (False, h') \<Rightarrow> (HandlerRaised, st', h'))
                  else (Accepted False, st', h))))"

text \<open>
  \<open>open\<close>: acknowledge, greet with the last recorded edge sequence, replay, and then the live queue, of
  which the messages at or below the cursor are dropped. The result of the first part is the list
  of messages yielded and the cursor.
\<close>

definition hub_open ::
  "(string \<Rightarrow> int \<Rightarrow> 'st \<Rightarrow> session_error + unit \<times> 'st) \<Rightarrow> ('st \<Rightarrow> string \<Rightarrow> int) \<Rightarrow>
   ('st \<Rightarrow> string \<Rightarrow> int \<Rightarrow> session_error + cloud_to_edge list) \<Rightarrow>
   string \<Rightarrow> int \<Rightarrow> 'st \<Rightarrow> session_error + (cloud_to_edge list \<times> int) \<times> 'st" where
  "hub_open acknowledge_cloud last_edge_sequence replay_cloud edge_id last_cloud_sequence_acked st =
     (case acknowledge_cloud edge_id last_cloud_sequence_acked st of
        Inl err \<Rightarrow> Inl err
      | Inr (_, st') \<Rightarrow>
          (case replay_cloud st' edge_id last_cloud_sequence_acked of
             Inl err \<Rightarrow> Inl err
           | Inr ms \<Rightarrow>
               Inr ((\<lparr>ce_sequence = 0, ce_body = Some (Cloud_hello (last_edge_sequence st' edge_id))\<rparr> # ms,
                     last (last_cloud_sequence_acked # map ce_sequence ms)), st')))"

fun live_yield :: "int \<Rightarrow> cloud_to_edge list \<Rightarrow> cloud_to_edge list" where
  "live_yield cursor [] = []"
| "live_yield cursor (m # ms) =
     (if cursor < ce_sequence m then m # live_yield (ce_sequence m) ms else live_yield cursor ms)"

subsection \<open>Peer identity\<close>

datatype identity_error =
    MissingPeerProperty string
  | RequiresMtls
  | NotAnEdgeIdentity
  | IdentityMismatch
  | MalformedCertificate
  | CertificateRevoked
  | NotAControlPlaneIdentity
  | EmptyControlPlaneIdentity

type_synonym auth_context = "string \<rightharpoonup> string list"

definition first_value :: "auth_context \<Rightarrow> string \<Rightarrow> identity_error + string" where
  "first_value context key =
     (case context key of
        None \<Rightarrow> Inl (MissingPeerProperty key)
      | Some [] \<Rightarrow> Inl (MissingPeerProperty key)
      | Some (v # _) \<Rightarrow> Inr v)"

definition revoke :: "string list \<Rightarrow> string set \<Rightarrow> string set" where
  "revoke fingerprints revoked = revoked \<union> set (map str_lower fingerprints)"

record peer_identity =
  pi_edge_id :: string
  pi_certificate_fingerprint :: string

text \<open>
  \<open>fingerprint\<close> is the certificate library: \<open>None\<close> for a certificate that does not parse.
\<close>

definition verify_peer ::
  "(string \<Rightarrow> string option) \<Rightarrow> string set \<Rightarrow> auth_context \<Rightarrow> string \<Rightarrow> identity_error + peer_identity" where
  "verify_peer fingerprint revoked context claimed_edge_id =
     (case first_value context ''transport_security_type'' of
        Inl e \<Rightarrow> Inl e
      | Inr transport \<Rightarrow>
          if transport \<noteq> ''ssl'' then Inl RequiresMtls
          else (case first_value context ''x509_common_name'' of
                  Inl e \<Rightarrow> Inl e
                | Inr common_name \<Rightarrow>
                    if \<not> starts_with common_name ''edge:'' then Inl NotAnEdgeIdentity
                    else let edge_id = drop 5 common_name
                         in if edge_id \<noteq> claimed_edge_id then Inl IdentityMismatch
                            else (case first_value context ''x509_pem_cert'' of
                                    Inl e \<Rightarrow> Inl e
                                  | Inr pem \<Rightarrow>
                                      (case fingerprint pem of
                                         None \<Rightarrow> Inl MalformedCertificate
                                       | Some fp \<Rightarrow>
                                           if str_lower fp \<in> revoked then Inl CertificateRevoked
                                           else Inr \<lparr>pi_edge_id = edge_id, pi_certificate_fingerprint = fp\<rparr>))))"

definition verify_control_plane ::
  "(string \<Rightarrow> string option) \<Rightarrow> string set \<Rightarrow> auth_context \<Rightarrow> identity_error + string" where
  "verify_control_plane fingerprint revoked context =
     (case first_value context ''transport_security_type'' of
        Inl e \<Rightarrow> Inl e
      | Inr transport \<Rightarrow>
          if transport \<noteq> ''ssl'' then Inl RequiresMtls
          else (case first_value context ''x509_common_name'' of
                  Inl e \<Rightarrow> Inl e
                | Inr common_name \<Rightarrow>
                    if \<not> starts_with common_name ''control:'' then Inl NotAControlPlaneIdentity
                    else let identity = drop 8 common_name
                         in if identity = [] then Inl EmptyControlPlaneIdentity
                            else (case first_value context ''x509_pem_cert'' of
                                    Inl e \<Rightarrow> Inl e
                                  | Inr pem \<Rightarrow>
                                      (case fingerprint pem of
                                         None \<Rightarrow> Inl MalformedCertificate
                                       | Some fp \<Rightarrow>
                                           if str_lower fp \<in> revoked then Inl CertificateRevoked
                                           else Inr identity))))"

text \<open>
  The admission of a stream by \<open>Connect\<close>: the first message is a hello with sequence zero, and its
  edge id is the one of the certificate.
\<close>

datatype connect_error = HelloRequired | FirstNotHello | Unauthenticated identity_error

definition connect_admit ::
  "(string \<Rightarrow> string option) \<Rightarrow> string set \<Rightarrow> auth_context \<Rightarrow> edge_to_cloud list \<Rightarrow> connect_error + edge_hello" where
  "connect_admit fingerprint revoked context requests =
     (case requests of
        [] \<Rightarrow> Inl HelloRequired
      | m # _ \<Rightarrow>
          (case ec_body m of
             Some (Hello hello) \<Rightarrow>
               if ec_sequence m \<noteq> 0 then Inl FirstNotHello
               else (case verify_peer fingerprint revoked context (eh_edge_id hello) of
                       Inl e \<Rightarrow> Inl (Unauthenticated e)
                     | Inr _ \<Rightarrow> Inr hello)
           | _ \<Rightarrow> Inl FirstNotHello))"

text \<open>\<open>_receive\<close>: accept the rest of the stream until a message is refused.\<close>

fun receive_all ::
  "(string \<Rightarrow> edge_to_cloud \<Rightarrow> 'st \<Rightarrow> session_error + bool \<times> 'st) \<Rightarrow> 'h handler list \<Rightarrow>
   string \<Rightarrow> edge_to_cloud list \<Rightarrow> 'st \<times> 'h \<Rightarrow> accept_result option \<times> 'st \<times> 'h" where
  "receive_all rec hs e [] sh = (None, sh)"
| "receive_all rec hs e (m # ms) sh =
     (case hub_accept rec hs e m sh of
        (Accepted _, sh') \<Rightarrow> receive_all rec hs e ms sh'
      | (r, sh') \<Rightarrow> (Some r, sh'))"

subsection \<open>One-time enrolment\<close>

datatype enrollment_error =
    EnrollmentFieldsRequired
  | CsrRequired
  | InvalidEnrollmentToken
  | EnrollmentTokenConsumed
  | EnrollmentTokenExpired
  | IssuerRaised

record enrollment =
  en_edge_id :: string
  en_tenant_id :: string
  en_site_id :: string
  en_expires_at :: int
  en_consumed_at :: "int option"

record enrollment_result =
  enr_edge_id :: string
  enr_tenant_id :: string
  enr_site_id :: string
  enr_certificate_pem :: string
  enr_certificate_chain_pem :: string
  enr_expires_at :: int

type_synonym registry = "string \<rightharpoonup> enrollment"

text \<open>\<open>digest\<close> is SHA-256 in hexadecimal and \<open>token\<close> the random token.\<close>

definition enrollment_create ::
  "(string \<Rightarrow> string) \<Rightarrow> string \<Rightarrow> int \<Rightarrow> int \<Rightarrow> string \<Rightarrow> string \<Rightarrow> string \<Rightarrow> registry \<Rightarrow> enrollment_error + string \<times> registry" where
  "enrollment_create digest token now ttl edge_id tenant_id site_id reg =
     (if edge_id = [] \<or> tenant_id = [] \<or> site_id = [] then Inl EnrollmentFieldsRequired
      else Inr (token, reg(digest token \<mapsto>
             \<lparr>en_edge_id = edge_id, en_tenant_id = tenant_id, en_site_id = site_id,
              en_expires_at = now + ttl, en_consumed_at = None\<rparr>)))"

definition csr_header :: string where
  "csr_header = ''-----BEGIN CERTIFICATE REQUEST-----''"

text \<open>
  \<open>issue\<close> is the certificate authority; it may raise (\<open>None\<close>). The consumption of the token is kept in
  that case, so the result carries the registry in every case.
\<close>

definition enrollment_exchange ::
  "(string \<Rightarrow> string) \<Rightarrow> (string \<Rightarrow> string \<Rightarrow> int \<Rightarrow> (string \<times> string) option) \<Rightarrow> int \<Rightarrow>
   string \<Rightarrow> string \<Rightarrow> int \<Rightarrow> registry \<Rightarrow> (enrollment_error + enrollment_result) \<times> registry" where
  "enrollment_exchange digest issue lifetime token csr_pem now reg =
     (if \<not> starts_with csr_pem csr_header then (Inl CsrRequired, reg)
      else case reg (digest token) of
             None \<Rightarrow> (Inl InvalidEnrollmentToken, reg)
           | Some en \<Rightarrow>
               if en_consumed_at en \<noteq> None then (Inl EnrollmentTokenConsumed, reg)
               else if en_expires_at en \<le> now then (Inl EnrollmentTokenExpired, reg)
               else let reg' = reg(digest token \<mapsto> en\<lparr>en_consumed_at := Some now\<rparr>)
                    in case issue (en_edge_id en) csr_pem lifetime of
                         None \<Rightarrow> (Inl IssuerRaised, reg')
                       | Some (certificate, chain) \<Rightarrow>
                           (Inr \<lparr>enr_edge_id = en_edge_id en, enr_tenant_id = en_tenant_id en,
                                 enr_site_id = en_site_id en, enr_certificate_pem = certificate,
                                 enr_certificate_chain_pem = chain, enr_expires_at = now + lifetime\<rparr>, reg'))"

subsection \<open>Lemmas\<close>

lemma verify_peer_ok:
  assumes "verify_peer fingerprint revoked context claimed = Inr p"
  shows "\<exists>fp. pi_edge_id p = claimed \<and> pi_certificate_fingerprint p = fp \<and> str_lower fp \<notin> revoked \<and>
           first_value context ''transport_security_type'' = Inr ''ssl'' \<and>
           first_value context ''x509_common_name'' = Inr (''edge:'' @ claimed) \<and>
           (\<exists>pem. first_value context ''x509_pem_cert'' = Inr pem \<and> fingerprint pem = Some fp)"
proof -
  obtain cn pem fp where *: "first_value context ''transport_security_type'' = Inr ''ssl''"
    "first_value context ''x509_common_name'' = Inr cn" "starts_with cn ''edge:''" "drop 5 cn = claimed"
    "first_value context ''x509_pem_cert'' = Inr pem" "fingerprint pem = Some fp" "str_lower fp \<notin> revoked"
    "p = \<lparr>pi_edge_id = drop 5 cn, pi_certificate_fingerprint = fp\<rparr>"
    using assms by (auto simp: verify_peer_def Let_def split: sum.splits if_splits option.splits)
  then have "cn = ''edge:'' @ claimed" by (auto simp: starts_with_iff)
  with * show ?thesis by auto
qed

lemma live_yield_contiguous:
  assumes "map ce_sequence ms = [k..n]" "k \<le> c + 1"
  shows "map ce_sequence (live_yield c ms) = [c + 1..n]"
  using assms
proof (induction c ms arbitrary: k rule: live_yield.induct)
  case (1 c)
  then show ?case by simp
next
  case (2 c m ms)
  have kn: "k \<le> n" using "2.prems"(1) by (metis list.distinct(1) list.simps(9) not_less upto_empty)
  have k: "ce_sequence m = k" "map ce_sequence ms = [k + 1..n]"
    using "2.prems"(1) upto_rec1[OF kn] by simp_all
  show ?case
  proof (cases "c < k")
    case True
    then have "k = c + 1" using "2.prems"(2) by simp
    then show ?thesis using "2.IH"(1)[of "k + 1"] k kn upto_rec1[of "c + 1" n] by simp
  next
    case False
    then show ?thesis using "2.IH"(2)[of "k + 1"] k by simp
  qed
qed

context hub_store
begin

text \<open>
  Opening a session yields a hello with the number of edge messages recorded, and then every pending
  message above the acknowledged one, in order and without a gap.
\<close>

lemma open_yields:
  assumes "inv s" "v_watermark (view s e) \<le> n" "n \<le> v_last (view s e)" "sqlite_int n"
  shows "\<exists>ms s'. hub_open acknowledge_cloud last_edge_sequence replay_cloud e n s =
            Inr ((\<lparr>ce_sequence = 0, ce_body = Some (Cloud_hello (int (length (v_received (view s e)))))\<rparr> # ms,
                  v_last (view s e)), s') \<and>
          map ce_sequence ms = [n + 1..v_last (view s e)] \<and>
          ms = filter (\<lambda>m. n < ce_sequence m) (v_pending (view s e)) \<and> inv s' \<and>
          view s' = (view s)(e := (view s e)\<lparr>v_pending := ms, v_watermark := n\<rparr>)"
proof -
  obtain u s' where ack: "acknowledge_cloud e n s = Inr (u, s')"
    using ack_accepts[OF assms] by (auto simp: is_ok_iff)
  let ?ms = "filter (\<lambda>m. n < ce_sequence m) (v_pending (view s e))"
  note law = ack_law[OF assms(1) ack]
  have inv': "inv s'" and view': "view s' = (view s)(e := (view s e)\<lparr>v_pending := ?ms, v_watermark := n\<rparr>)"
    using law assms(3) by (simp_all add: max_def)
  have rep: "replay_cloud s' e n = Inr ?ms" using replay_law[OF inv' assms(4), of e] view' by simp
  have seqs: "map ce_sequence ?ms = [n + 1..v_last (view s e)]"
    by (rule filter_upto_gt[OF pending_sequences[OF assms(1)] assms(2,3)])
  have cur: "last (n # map ce_sequence ?ms) = v_last (view s e)"
    unfolding seqs using assms(3) by (cases "n = v_last (view s e)") (auto simp: upto_rec2)
  show ?thesis
    using ack rep seqs cur inv' view' last_edge_law[OF inv', of e] by (simp add: hub_open_def)
qed

lemma accept_Accepted:
  assumes "inv st" "hub_accept record_edge hs e m (st, h) = (Accepted b, st', h')"
  shows "inv st' \<and> m \<in> set (v_received (view st' e)) \<and>
         set (v_received (view st e)) \<subseteq> set (v_received (view st' e)) \<and> (\<forall>x. ec_body m \<noteq> Some (Hello x))"
proof -
  have nh: "\<forall>x. ec_body m \<noteq> Some (Hello x)" using assms(2) by (auto simp: hub_accept_def)
  obtain ins where rec: "record_edge e m st = Inr (ins, st')"
    using assms(2) by (auto simp: hub_accept_def split: option.splits edge_body.splits sum.splits if_splits prod.splits bool.splits)
  show ?thesis using record_law[OF assms(1) rec] nh by (cases ins) auto
qed

lemma accept_again:
  assumes "inv st" "m \<in> set (v_received (view st e))" "\<forall>x. ec_body m \<noteq> Some (Hello x)"
  shows "hub_accept record_edge hs e m (st, h) = (Accepted False, st, h)"
  using record_again[OF assms(1,2)] assms(3)
  by (auto simp: hub_accept_def split: option.splits edge_body.splits)

lemma receive_all_known:
  assumes "inv st" "\<forall>m \<in> set ms. m \<in> set (v_received (view st e)) \<and> (\<forall>x. ec_body m \<noteq> Some (Hello x))"
  shows "receive_all record_edge hs e ms (st, h) = (None, st, h)"
  using assms(2) by (induction ms) (simp_all add: accept_again[OF assms(1)])

lemma receive_all_records:
  assumes "inv st" "receive_all record_edge hs e ms (st, h) = (None, st', h')"
  shows "inv st' \<and> set (v_received (view st e)) \<subseteq> set (v_received (view st' e)) \<and>
         (\<forall>m \<in> set ms. m \<in> set (v_received (view st' e)) \<and> (\<forall>x. ec_body m \<noteq> Some (Hello x)))"
  using assms
proof (induction ms arbitrary: st h)
  case (Cons m ms)
  obtain b st1 h1 where acc: "hub_accept record_edge hs e m (st, h) = (Accepted b, st1, h1)"
    and rest: "receive_all record_edge hs e ms (st1, h1) = (None, st', h')"
    using Cons.prems(2)
    by (cases "hub_accept record_edge hs e m (st, h)") (auto split: accept_result.splits prod.splits)
  from accept_Accepted[OF Cons.prems(1) acc] Cons.IH[OF _ rest] show ?case by auto
qed simp

end

subsection \<open>Properties\<close>

text \<open>
  A session on the durable store delivers every pending cloud message exactly once and in order: the
  burst of \<open>open\<close> followed by the live queue, whatever overlap the queue has with the burst, is the run of
  consecutive sequence numbers that starts right after the acknowledged one.
\<close>

theorem session_stream_contiguous:
  assumes "sql_inv c s" "v_watermark (sql_view c s e) \<le> n" "n \<le> v_last (sql_view c s e)" "sqlite_int n"
    and "map ce_sequence live = [k..n']" "k \<le> v_last (sql_view c s e) + 1" "v_last (sql_view c s e) \<le> n'"
  shows "\<exists>ms cursor s'. hub_open sql_acknowledge_cloud sql_last_edge_sequence (sql_replay_cloud c) e n s =
            Inr ((\<lparr>ce_sequence = 0, ce_body = Some (Cloud_hello (sql_last_edge_sequence s e))\<rparr> # ms, cursor), s') \<and>
          map ce_sequence (ms @ live_yield cursor live) = [n + 1..n']"
proof -
  obtain ms s' where o: "hub_open sql_acknowledge_cloud sql_last_edge_sequence (sql_replay_cloud c) e n s =
      Inr ((\<lparr>ce_sequence = 0, ce_body = Some (Cloud_hello (int (length (v_received (sql_view c s e)))))\<rparr> # ms,
            v_last (sql_view c s e)), s')" "map ce_sequence ms = [n + 1..v_last (sql_view c s e)]"
    using sql.open_yields[OF assms(1-4)] by blast
  have "map ce_sequence (ms @ live_yield (v_last (sql_view c s e)) live) =
        [n + 1..v_last (sql_view c s e)] @ [v_last (sql_view c s e) + 1..n']"
    using o(2) live_yield_contiguous[OF assms(5,6)] by simp
  also have "\<dots> = [n + 1..n']"
    using assms(3,7) upto_split2[of "n + 1" "v_last (sql_view c s e)" n']
    by (cases "n = v_last (sql_view c s e)") simp_all
  finally show ?thesis using o(1) sql.last_edge_law[OF assms(1), of e] by auto
qed

definition demo_cloud :: cloud_to_edge where
  "demo_cloud = \<lparr>ce_sequence = 0, ce_body = Some (Revocations [])\<rparr>"

definition demo_hub :: "wire sql_store" where
  "demo_hub = \<lparr> hub_edge_state = [''e'' \<mapsto> \<lparr>hs_last_cloud_sequence = 1, hs_cloud_ack_watermark = 0,
                                         hs_last_edge_sequence = 0\<rparr>],
     hub_cloud_message = [\<lparr>hm_edge_id = ''e'', hm_sequence = 1, hm_payload = WCloud (demo_cloud\<lparr>ce_sequence := 1\<rparr>)\<rparr>],
     hub_edge_message = [], hub_subscribers = (\<lambda>_. []) \<rparr>"

lemma demo_hub_append:
  "sql_append_cloud wire_codec ''e'' demo_cloud sql_init = Inr (demo_cloud\<lparr>ce_sequence := 1\<rparr>, demo_hub)"
  by (simp add: sql_append_cloud_def sql_init_def state_row_def sqlite_int_def has_message_def put_state_def
      put_queues_def demo_hub_def Let_def fun_upd_idem)

lemma demo_hub_inv: "sql_inv wire_codec demo_hub"
  using sql_append_law[OF sql_inv_init[OF wire_codec_ok] demo_hub_append] by blast

theorem session_stream_contiguous_witness:
  "\<exists>ms cursor s'. hub_open sql_acknowledge_cloud sql_last_edge_sequence (sql_replay_cloud wire_codec) ''e'' 0 demo_hub =
       Inr ((\<lparr>ce_sequence = 0, ce_body = Some (Cloud_hello 0)\<rparr> # ms, cursor), s') \<and>
     map ce_sequence (ms @ live_yield cursor
        [demo_cloud\<lparr>ce_sequence := 1\<rparr>, demo_cloud\<lparr>ce_sequence := 2\<rparr>]) = [1, 2]"
proof -
  have "[1..2] = [1, 2 :: int]" by (simp add: upto_rec1)
  then show ?thesis
    using session_stream_contiguous[OF demo_hub_inv, of "''e''" 0
        "[demo_cloud\<lparr>ce_sequence := 1\<rparr>, demo_cloud\<lparr>ce_sequence := 2\<rparr>]" 1 2]
    by (simp add: sql_view_def demo_hub_def state_row_def sqlite_int_def sql_last_edge_sequence_def)
qed

text \<open>
  Redelivery is harmless: a run of edge messages that the hub accepted completely can be received
  again (the edge replays everything that is not acknowledged) and neither the store nor the state
  of the handlers changes, so every handler sees each event once.
\<close>

theorem redelivery_idempotent:
  assumes "sql_inv c st" "receive_all (sql_record_edge c) hs e ms (st, h) = (None, st', h')"
  shows "receive_all (sql_record_edge c) hs e ms (st', h') = (None, st', h')"
proof -
  note records = sql.receive_all_records[OF assms]
  show ?thesis by (rule sql.receive_all_known[OF conjunct1[OF records]]) (use records in blast)
qed

theorem redelivery_idempotent_witness:
  "\<exists>st' h'. receive_all (sql_record_edge wire_codec) [\<lambda>_ _ n. (True, n + 1)] ''e''
              [\<lparr>ec_sequence = 1, ec_body = None\<rparr>] (demo_hub, 0 :: nat) = (None, st', h') \<and> h' = 1 \<and>
            receive_all (sql_record_edge wire_codec) [\<lambda>_ _ n. (True, n + 1)] ''e''
              [\<lparr>ec_sequence = 1, ec_body = None\<rparr>] (st', h') = (None, st', h')"
proof -
  obtain st' where r: "receive_all (sql_record_edge wire_codec) [\<lambda>_ _ n. (True, n + 1)] ''e''
              [\<lparr>ec_sequence = 1, ec_body = None\<rparr>] (demo_hub, 0 :: nat) = (None, st', 1)"
    by (simp add: hub_accept_def sql_record_edge_def demo_hub_def state_row_def sqlite_int_def Let_def)
  show ?thesis using r redelivery_idempotent[OF demo_hub_inv r] by blast
qed

text \<open>
  A stream is admitted only for the edge named by the authenticated certificate: the first message is a
  sequence-zero hello, the transport is mutual TLS, the common name is the claimed edge, and the
  certificate's fingerprint is not revoked; after a fingerprint is revoked no stream with it is admitted.
\<close>

theorem connect_admits_certificate_owner:
  assumes "connect_admit fingerprint revoked context requests = Inr hello"
  shows "(\<exists>m rest. requests = m # rest \<and> ec_sequence m = 0 \<and> ec_body m = Some (Hello hello)) \<and>
         first_value context ''transport_security_type'' = Inr ''ssl'' \<and>
         first_value context ''x509_common_name'' = Inr (''edge:'' @ eh_edge_id hello) \<and>
         (\<exists>pem fp. first_value context ''x509_pem_cert'' = Inr pem \<and> fingerprint pem = Some fp \<and>
                   str_lower fp \<notin> revoked \<and>
                   (\<forall>fps. fp \<in> set fps \<longrightarrow> \<not> is_ok (connect_admit fingerprint (revoke fps revoked) context requests)))"
proof -
  obtain m rest p where r: "requests = m # rest" "ec_sequence m = 0" "ec_body m = Some (Hello hello)"
    "verify_peer fingerprint revoked context (eh_edge_id hello) = Inr p"
    using assms by (auto simp: connect_admit_def split: list.splits option.splits edge_body.splits if_splits sum.splits)
  obtain pem fp where v: "first_value context ''transport_security_type'' = Inr ''ssl''"
    "first_value context ''x509_common_name'' = Inr (''edge:'' @ eh_edge_id hello)"
    "first_value context ''x509_pem_cert'' = Inr pem" "fingerprint pem = Some fp" "str_lower fp \<notin> revoked"
    using verify_peer_ok[OF r(4)] by blast
  have "\<not> is_ok (connect_admit fingerprint (revoke fps revoked) context requests)" if "fp \<in> set fps" for fps
  proof -
    have "verify_peer fingerprint (revoke fps revoked) context (eh_edge_id hello) = Inl CertificateRevoked"
      using v that by (auto simp: verify_peer_def revoke_def Let_def)
    then show ?thesis using r by (simp add: connect_admit_def)
  qed
  with r v show ?thesis by blast
qed

definition demo_auth :: auth_context where
  "demo_auth = [''transport_security_type'' \<mapsto> [''ssl''], ''x509_common_name'' \<mapsto> [''edge:e-1''],
                ''x509_pem_cert'' \<mapsto> [''pem'']]"

theorem connect_admits_certificate_owner_witness:
  "\<not> is_ok (connect_admit (\<lambda>_. Some ''AB'') (revoke [''AB''] {}) demo_auth
      [\<lparr>ec_sequence = 0, ec_body = Some (Hello \<lparr>eh_edge_id = ''e-1'', eh_software_version = ''1'',
        eh_last_cloud_sequence_acked = 0\<rparr>)\<rparr>])"
proof -
  let ?h = "\<lparr>eh_edge_id = ''e-1'', eh_software_version = ''1'', eh_last_cloud_sequence_acked = 0\<rparr>"
  let ?m = "\<lparr>ec_sequence = 0, ec_body = Some (Hello ?h)\<rparr>"
  have ok: "connect_admit (\<lambda>_. Some ''AB'') {} demo_auth [?m] = Inr ?h"
    by (simp add: connect_admit_def verify_peer_def first_value_def demo_auth_def Let_def)
  show ?thesis using connect_admits_certificate_owner[OF ok] by force
qed

text \<open>
  An enrolment token is exchanged at most once: the attempt that consumes it (also one whose
  certificate issuance fails) makes every later attempt with that token fail, and a token past its expiry
  is refused.
\<close>

theorem enrollment_token_single_use:
  assumes "enrollment_exchange digest issue lifetime token csr now reg = (r, reg')"
    and "r = Inl IssuerRaised \<or> is_ok r"
  shows "\<exists>err. enrollment_exchange digest issue' lifetime' token csr' now' reg' = (Inl err, reg') \<and>
               (\<forall>en. reg (digest token) = Some en \<longrightarrow> now < en_expires_at en)"
  using assms
  by (auto simp: enrollment_exchange_def Let_def is_ok_def split: if_splits option.splits prod.splits)

theorem enrollment_token_single_use_witness:
  "\<exists>reg'. enrollment_exchange (\<lambda>t. t) (\<lambda>_ _ _. None) 90 ''tok'' csr_header 5
            [''tok'' \<mapsto> \<lparr>en_edge_id = ''e'', en_tenant_id = ''t'', en_site_id = ''s'', en_expires_at = 9,
                         en_consumed_at = None\<rparr>] = (Inl IssuerRaised, reg') \<and>
          (\<exists>err. enrollment_exchange (\<lambda>t. t) (\<lambda>_ _ _. Some (''c'', ''k'')) 90 ''tok'' csr_header 6 reg' = (Inl err, reg'))"
proof -
  let ?reg = "[''tok'' \<mapsto> \<lparr>en_edge_id = ''e'', en_tenant_id = ''t'', en_site_id = ''s'', en_expires_at = 9,
                         en_consumed_at = None\<rparr>] :: registry"
  obtain reg' where e: "enrollment_exchange (\<lambda>t. t) (\<lambda>_ _ _. None) 90 ''tok'' csr_header 5 ?reg = (Inl IssuerRaised, reg')"
    by (simp add: enrollment_exchange_def csr_header_def)
  show ?thesis
    using e enrollment_token_single_use[OF e, of "\<lambda>_ _ _. Some (''c'', ''k'')" 90 csr_header 6] by auto
qed

end
