(* ===== verification/Stream_Link.thy ===== *)
theory Stream_Link
  imports Control_Stream Hub_Session
begin

text \<open>
  The two ends of the control stream together. The uplink carries the events of a gateway's spool to the
  hub's store over connections that come and go; the downlink carries the hub's commands to the gateway.
  Each is a step relation over the two stores, the messages in flight and the state of the connection,
  built from the operations of both components; the hub's store is any \<open>hub_store\<close>.
\<close>

subsection \<open>The uplink\<close>

record ('b, 'st) uplink =
  up_spool :: "'b spool"
  up_store :: 'st
  up_wire :: "edge_to_cloud list"
  up_last_sent :: int
  up_hello :: "int option"

text \<open>
  The steps: a transaction of the spool other than an acknowledgement; a change of the store that is not the
  receipt of an event (\<open>other\<close>); a new connection, whose first message to the edge is the hello; a batch of
  events put on the wire; the receipt of the next event by the hub; the receipt of the hello by the edge; and
  the loss of the connection with everything in flight.
\<close>

inductive uplink_step ::
  "'b codec \<Rightarrow> (string \<Rightarrow> edge_to_cloud \<Rightarrow> 'st \<Rightarrow> session_error + bool \<times> 'st) \<Rightarrow> ('st \<Rightarrow> string \<Rightarrow> int) \<Rightarrow>
   ('st \<Rightarrow> 'st \<Rightarrow> bool) \<Rightarrow> string \<Rightarrow> ('b, 'st) uplink \<Rightarrow> ('b, 'st) uplink \<Rightarrow> bool"
  for c rec last_edge other e where
  ul_spool: "spool_step c (up_spool u) s' \<Longrightarrow> metadata_int s' LAST_ACKED = metadata_int (up_spool u) LAST_ACKED \<Longrightarrow>
    uplink_step c rec last_edge other e u (u\<lparr>up_spool := s'\<rparr>)"
| ul_other: "other (up_store u) st' \<Longrightarrow> uplink_step c rec last_edge other e u (u\<lparr>up_store := st'\<rparr>)"
| ul_connect: "uplink_step c rec last_edge other e u
    (u\<lparr>up_wire := [], up_last_sent := 0, up_hello := Some (last_edge (up_store u) e)\<rparr>)"
| ul_send: "outbound_batch c (up_spool u) (up_last_sent u) = Inr (ms, n) \<Longrightarrow>
    uplink_step c rec last_edge other e u (u\<lparr>up_wire := up_wire u @ ms, up_last_sent := n\<rparr>)"
| ul_deliver: "up_wire u = m # w \<Longrightarrow> rec e m (up_store u) = Inr (b, st') \<Longrightarrow>
    uplink_step c rec last_edge other e u (u\<lparr>up_wire := w, up_store := st'\<rparr>)"
| ul_hello: "up_hello u = Some n \<Longrightarrow> acknowledge_edge_sequence n (up_spool u) = Inr (v, s') \<Longrightarrow>
    uplink_step c rec last_edge other e u (u\<lparr>up_hello := None, up_spool := s'\<rparr>)"
| ul_drop: "uplink_step c rec last_edge other e u (u\<lparr>up_wire := [], up_last_sent := 0, up_hello := None\<rparr>)"

inductive uplink_steps for c rec last_edge other e where
  ul_refl: "uplink_steps c rec last_edge other e u u"
| ul_trans: "uplink_steps c rec last_edge other e u u' \<Longrightarrow> uplink_step c rec last_edge other e u' u'' \<Longrightarrow>
    uplink_steps c rec last_edge other e u u''"

definition uplink_init :: "'st \<Rightarrow> ('b, 'st) uplink" where
  "uplink_init st = \<lparr>up_spool = create_schema, up_store = st, up_wire = [], up_last_sent = 0, up_hello = None\<rparr>"

text \<open>
  The wire is a run of the log that starts at a position the hub has reached; on a fresh connection
  nothing has been sent yet.
\<close>

definition wire_ok :: "edge_to_cloud list \<Rightarrow> nat \<Rightarrow> edge_to_cloud list \<Rightarrow> int \<Rightarrow> bool" where
  "wire_ok L n wire last_sent \<longleftrightarrow>
     wire = [] \<and> last_sent = 0 \<or>
     (\<exists>i \<le> n. int n \<le> last_sent \<and> last_sent = int (i + length wire) \<and> i + length wire \<le> length L \<and>
              wire = take (length wire) (drop i L))"

lemma wire_ok_grow: "wire_ok L n wire k \<Longrightarrow> wire_ok (L @ es) n wire k"
  unfolding wire_ok_def by (elim disjE exE conjE) auto

lemma wire_ok_send:
  assumes "wire_ok L n wire k" "a \<le> n" "n \<le> length L" "map ec_sequence L = [1..int (length L)]"
    and "ms = drop (nat (max k (int a))) L"
  shows "wire_ok L n (wire @ ms) (last (k # map ec_sequence ms))"
proof (cases "ms = []")
  case True
  then show ?thesis using assms(1) by simp
next
  case False
  let ?p = "nat (max k (int a))"
  have p: "?p < length L" using False assms(5) by simp
  have "last (map ec_sequence ms) = last (map ec_sequence L)"
    using False assms(5) p by (cases "L = []") (simp_all add: last_map)
  also have "\<dots> = int (length L)" unfolding assms(4) using p by (simp add: upto_rec2)
  finally have last: "last (k # map ec_sequence ms) = int (length L)" using False by simp
  have "\<exists>i \<le> n. wire @ ms = drop i L"
  proof (cases "wire = [] \<and> k = 0")
    case True
    then show ?thesis using assms(2,5) by auto
  next
    case False
    then obtain i where i: "i \<le> n" "int n \<le> k" "k = int (i + length wire)" "wire = take (length wire) (drop i L)"
      using assms(1) by (auto simp: wire_ok_def)
    have "max k (int a) = k" using i(2) assms(2) by simp
    then have "nat (max k (int a)) = i + length wire" by (simp only: i(3) nat_int)
    then have "ms = drop (i + length wire) L" using assms(5) by simp
    then have "wire @ ms = take (length wire) (drop i L) @ drop (length wire) (drop i L)"
      using i(4) by (simp add: add.commute)
    then show ?thesis using i(1) by (metis append_take_drop_id)
  qed
  then obtain i where "i \<le> n" "wire @ ms = drop i L" by blast
  then show ?thesis unfolding wire_ok_def last using assms(3) by (intro disjI2 exI[of _ i]) auto
qed

context hub_store
begin

definition uplink_ok :: "'b codec \<Rightarrow> string \<Rightarrow> ('b, 'st) uplink \<Rightarrow> bool" where
  "uplink_ok c e u \<longleftrightarrow>
     codec_ok c \<and> spool_ok c (up_spool u) \<and> inv (up_store u) \<and>
     (let L = edge_log c (up_spool u); R = v_received (view (up_store u) e)
      in length R \<le> length L \<and> R = take (length R) L \<and>
         metadata_int (up_spool u) LAST_ACKED \<le> int (length R) \<and>
         (case up_hello u of None \<Rightarrow> True | Some n \<Rightarrow> 0 \<le> n \<and> n \<le> int (length R)) \<and>
         wire_ok L (length R) (up_wire u) (up_last_sent u))"

lemma uplink_okD:
  assumes "uplink_ok c e u"
  shows "codec_ok c" "spool_ok c (up_spool u)" "stream_ok c (up_spool u)" "inv (up_store u)"
    "length (v_received (view (up_store u) e)) \<le> length (edge_log c (up_spool u))"
    "v_received (view (up_store u) e) = take (length (v_received (view (up_store u) e))) (edge_log c (up_spool u))"
    "metadata_int (up_spool u) LAST_ACKED \<le> int (length (v_received (view (up_store u) e)))"
    "\<And>n. up_hello u = Some n \<Longrightarrow> 0 \<le> n \<and> n \<le> int (length (v_received (view (up_store u) e)))"
    "wire_ok (edge_log c (up_spool u)) (length (v_received (view (up_store u) e))) (up_wire u) (up_last_sent u)"
  using assms by (auto simp: uplink_ok_def Let_def spool_ok_def)

lemma uplink_okI:
  assumes "codec_ok c" "spool_ok c (up_spool u)" "inv (up_store u)"
    "length (v_received (view (up_store u) e)) \<le> length (edge_log c (up_spool u))"
    "v_received (view (up_store u) e) = take (length (v_received (view (up_store u) e))) (edge_log c (up_spool u))"
    "metadata_int (up_spool u) LAST_ACKED \<le> int (length (v_received (view (up_store u) e)))"
    "\<And>n. up_hello u = Some n \<Longrightarrow> 0 \<le> n \<and> n \<le> int (length (v_received (view (up_store u) e)))"
    "wire_ok (edge_log c (up_spool u)) (length (v_received (view (up_store u) e))) (up_wire u) (up_last_sent u)"
  shows "uplink_ok c e u"
  using assms unfolding uplink_ok_def Let_def by (simp split: option.splits)

lemma uplink_log:
  assumes "uplink_ok c e u"
  shows "map ec_sequence (edge_log c (up_spool u)) = [1..int (length (edge_log c (up_spool u)))]"
    and "sqlite_int (int (length (edge_log c (up_spool u))))"
  using edge_log_sequences[OF uplink_okD(1,3)[OF assms]] edge_log_length[OF uplink_okD(3)[OF assms]]
    stream_okD(6)[OF uplink_okD(3)[OF assms]] by simp_all

text \<open>The next event on the wire is never refused, and the receipt keeps the invariant.\<close>

lemma uplink_deliver_ok:
  assumes "uplink_ok c e u" "up_wire u = m # w"
  shows "\<exists>b st'. record_edge e m (up_store u) = Inr (b, st') \<and> uplink_ok c e (u\<lparr>up_wire := w, up_store := st'\<rparr>) \<and>
           length (v_received (view st' e)) \<ge> length (v_received (view (up_store u) e))"
proof -
  let ?L = "edge_log c (up_spool u)" and ?R = "v_received (view (up_store u) e)"
  note ok = uplink_okD[OF assms(1)]
  obtain i where i: "i \<le> length ?R" "int (length ?R) \<le> up_last_sent u" "up_last_sent u = int (i + length (m # w))"
    "i + length (m # w) \<le> length ?L" "m # w = take (length (m # w)) (drop i ?L)"
    using ok(9) assms(2) by (auto simp: wire_ok_def)
  have m: "m = ?L ! i" using i(4,5) by (metis add_diff_cancel_left' hd_drop_conv_nth hd_take length_greater_0_conv
        less_add_same_cancel1 list.discI list.sel(1) order_less_le_trans)
  have w: "w = take (length w) (drop (i + 1) ?L)"
    using i(5) by (metis (no_types, lifting) Suc_eq_plus1 drop_Suc length_Cons list.sel(3) take_Suc_Cons tl_drop tl_take diff_Suc_1 drop_drop)
  have lt: "i < length ?L" using i(4) by simp
  obtain b st' where rec: "record_edge e m (up_store u) = Inr (b, st')" "inv st'"
    "v_received (view st' e) = take (max (i + 1) (length ?R)) ?L"
    using feed_run[OF ok(4) m i(1) lt ok(6) uplink_log[OF assms(1)]] by blast
  have len: "length (v_received (view st' e)) = max (i + 1) (length ?R)" using rec(3) lt ok(5) by simp
  have prefix: "v_received (view st' e) = take (length (v_received (view st' e))) ?L" using len rec(3) by simp
  have hello: "0 \<le> n \<and> n \<le> int (length (v_received (view st' e)))" if "up_hello u = Some n" for n
    using ok(8)[OF that] len by (auto simp: max_def)
  have wire: "wire_ok ?L (length (v_received (view st' e))) w (up_last_sent u)"
    unfolding wire_ok_def len using i w lt by (intro disjI2 exI[of _ "i + 1"]) auto
  have "uplink_ok c e (u\<lparr>up_wire := w, up_store := st'\<rparr>)"
    by (rule uplink_okI) (use ok(1,2,5,7) rec(2) prefix hello wire len lt in simp_all)
  then show ?thesis using rec(1) len by auto
qed

lemma uplink_step_ok:
  assumes "uplink_step c record_edge last_edge_sequence other e u u'" "uplink_ok c e u"
    and other: "\<And>st st'. other st st' \<Longrightarrow> inv st \<Longrightarrow> inv st' \<and> v_received (view st' e) = v_received (view st e)"
  shows "uplink_ok c e u'"
  using assms(1)
proof cases
  case (ul_spool s')
  note ok = uplink_okD[OF assms(2)]
  obtain es where es: "edge_log c s' = edge_log c (up_spool u) @ es"
    using step_edge_log[OF ul_spool(2) ok(1,3)] by blast
  have "v_received (view (up_store u) e) = take (length (v_received (view (up_store u) e))) (edge_log c s')"
    using ok(5,6) es by simp
  then show ?thesis
    using ok es wire_ok_grow[OF ok(9)] spool_step_ok[OF ul_spool(2) ok(2)] ul_spool(1,3)
    unfolding uplink_ok_def Let_def by (auto split: option.splits)
next
  case (ul_other st')
  then show ?thesis
    using assms(2) other[OF ul_other(2) uplink_okD(4)[OF assms(2)]] by (simp add: uplink_ok_def Let_def)
next
  case ul_connect
  note ok = uplink_okD[OF assms(2)]
  show ?thesis
    using ok last_edge_law[OF ok(4), of e] unfolding uplink_ok_def Let_def ul_connect by (simp add: wire_ok_def)
next
  case (ul_send ms n)
  note ok = uplink_okD[OF assms(2)]
  let ?L = "edge_log c (up_spool u)" and ?a = "metadata_int (up_spool u) LAST_ACKED"
  have "0 \<le> ?a" by (rule stream_okD(1)[OF ok(3)])
  have "up_last_sent u \<le> int (length ?L)" "0 \<le> up_last_sent u" using ok(9) by (auto simp: wire_ok_def)
  then have "sqlite_int (up_last_sent u)" using uplink_log(2)[OF assms(2)] by (auto simp: sqlite_int_def)
  from replay_drop[OF ok(1,3) this] have ms: "ms = drop (nat (max (up_last_sent u) ?a)) ?L"
    and n: "n = last (up_last_sent u # map ec_sequence ms)"
    using ul_send(2) by (auto simp: outbound_batch_def)
  have "wire_ok ?L (length (v_received (view (up_store u) e))) (up_wire u @ ms) n"
    unfolding n
    by (rule wire_ok_send[OF ok(9) _ ok(5) uplink_log(1)[OF assms(2)], of "nat ?a"])
       (use ok(7) \<open>0 \<le> ?a\<close> ms in auto)
  then show ?thesis using assms(2) ul_send(1) by (simp add: uplink_ok_def Let_def)
next
  case (ul_deliver m w b st')
  then show ?thesis using uplink_deliver_ok[OF assms(2) ul_deliver(2)] by auto
next
  case (ul_hello n v s')
  note ok = uplink_okD[OF assms(2)]
  have log: "edge_log c s' = edge_log c (up_spool u)" by (rule edge_log_ack(1)[OF ul_hello(3)])
  have ack: "metadata_int s' LAST_ACKED = max n (metadata_int (up_spool u) LAST_ACKED)"
    by (rule edge_log_ack(2)[OF ul_hello(3)])
  have "spool_ok c s'" using spool_step_ok[OF step_ack[OF ul_hello(3)] ok(2)] .
  then show ?thesis
    using assms(2) log ack ok(7) ok(8)[OF ul_hello(2)] ul_hello(1) by (simp add: uplink_ok_def Let_def)
next
  case ul_drop
  then show ?thesis using assms(2) by (simp add: uplink_ok_def Let_def wire_ok_def)
qed

lemma uplink_hello_ok:
  assumes "uplink_ok c e u" "up_hello u = Some n"
  shows "is_ok (acknowledge_edge_sequence n (up_spool u))"
proof -
  note ok = uplink_okD[OF assms(1)]
  have "n \<le> metadata_int (up_spool u) LAST_EDGE" "0 \<le> n"
    using ok(8)[OF assms(2)] ok(5) edge_log_length[OF ok(3)] by auto
  moreover have "sqlite_int n"
    using calculation stream_okD(6)[OF ok(3)] by (auto simp: sqlite_int_def)
  ultimately show ?thesis by (simp add: acknowledge_edge_sequence_def)
qed

text \<open>Delivering a whole wire, one event after the other.\<close>

lemma uplink_drain:
  assumes "uplink_ok c e u"
  shows "\<exists>st'. uplink_steps c record_edge last_edge_sequence other e u (u\<lparr>up_wire := [], up_store := st'\<rparr>) \<and>
           uplink_ok c e (u\<lparr>up_wire := [], up_store := st'\<rparr>)"
  using assms
proof (induction "up_wire u" arbitrary: u)
  case Nil
  then have "u = u\<lparr>up_wire := [], up_store := up_store u\<rparr>" by simp
  then show ?case using Nil.prems ul_refl by metis
next
  case (Cons m w)
  have wire: "up_wire u = m # w" using Cons(2) by simp
  obtain b st1 where d: "record_edge e m (up_store u) = Inr (b, st1)" "uplink_ok c e (u\<lparr>up_wire := w, up_store := st1\<rparr>)"
    using uplink_deliver_ok[OF Cons.prems wire] by blast
  have step: "uplink_step c record_edge last_edge_sequence other e u (u\<lparr>up_wire := w, up_store := st1\<rparr>)"
    by (rule ul_deliver) (use wire d(1) in simp_all)
  obtain st' where st': "uplink_steps c record_edge last_edge_sequence other e (u\<lparr>up_wire := w, up_store := st1\<rparr>)
      (u\<lparr>up_wire := [], up_store := st'\<rparr>)" "uplink_ok c e (u\<lparr>up_wire := [], up_store := st'\<rparr>)"
    using Cons(1)[of "u\<lparr>up_wire := w, up_store := st1\<rparr>"] d(2) by auto
  have "uplink_steps c record_edge last_edge_sequence other e v v' \<Longrightarrow> uplink_step c record_edge last_edge_sequence other e u v \<Longrightarrow>
        uplink_steps c record_edge last_edge_sequence other e u v'" for v v'
    by (induction rule: uplink_steps.induct) (auto intro: uplink_steps.intros)
  then show ?case using st' step by blast
qed

lemma uplink_steps_ok:
  assumes "uplink_steps c record_edge last_edge_sequence other e u u'" "uplink_ok c e u"
    and other: "\<And>st st'. other st st' \<Longrightarrow> inv st \<Longrightarrow> inv st' \<and> v_received (view st' e) = v_received (view st e)"
  shows "uplink_ok c e u'"
  using assms(1,2) by (induction rule: uplink_steps.induct) (auto intro: uplink_step_ok[OF _ _ other])

text \<open>
  From any state, a connection that lasts long enough to send one batch and receive it brings the hub up to
  date.
\<close>

lemma uplink_catch_up:
  assumes "uplink_ok c e u"
    and other: "\<And>st st'. other st st' \<Longrightarrow> inv st \<Longrightarrow> inv st' \<and> v_received (view st' e) = v_received (view st e)"
  shows "\<exists>u'. uplink_steps c record_edge last_edge_sequence other e u u' \<and> up_spool u' = up_spool u \<and>
              v_received (view (up_store u') e) = edge_log c (up_spool u)"
proof -
  let ?steps = "uplink_steps c record_edge last_edge_sequence other e"
  let ?u1 = "u\<lparr>up_wire := [], up_last_sent := 0, up_hello := None\<rparr>"
  have s1: "?steps u ?u1" by (rule ul_trans[OF ul_refl ul_drop])
  have ok1: "uplink_ok c e ?u1" by (rule uplink_steps_ok[OF s1 assms])
  note ok = uplink_okD[OF ok1]
  have zero: "sqlite_int 0" by (simp add: sqlite_int_def)
  let ?L = "edge_log c (up_spool u)" and ?a = "metadata_int (up_spool u) LAST_ACKED"
  define ms where "ms = drop (nat ?a) ?L"
  have a0: "0 \<le> ?a" using stream_okD(1)[OF ok(3)] by simp
  then have batch: "outbound_batch c (up_spool ?u1) (up_last_sent ?u1) = Inr (ms, last (0 # map ec_sequence ms))"
    using replay_drop[OF ok(1,3) zero] by (simp add: outbound_batch_def ms_def max_def)
  let ?u2 = "?u1\<lparr>up_wire := up_wire ?u1 @ ms, up_last_sent := last (0 # map ec_sequence ms)\<rparr>"
  have s2: "?steps u ?u2" by (rule ul_trans[OF s1 ul_send[OF batch]])
  have ok2: "uplink_ok c e ?u2" by (rule uplink_steps_ok[OF s2 assms])
  obtain st' where st': "?steps ?u2 (?u2\<lparr>up_wire := [], up_store := st'\<rparr>)" "uplink_ok c e (?u2\<lparr>up_wire := [], up_store := st'\<rparr>)"
    using uplink_drain[OF ok2] by blast
  have trans: "?steps v w \<Longrightarrow> ?steps u v \<Longrightarrow> ?steps u w" for v w
    by (induction rule: uplink_steps.induct) (auto intro: uplink_steps.intros)
  note ok3 = uplink_okD[OF st'(2)]
  have "length (v_received (view st' e)) = length ?L"
  proof (cases "ms = []")
    case True
    then have "length ?L \<le> nat ?a" by (simp add: ms_def)
    then show ?thesis using ok3(5,7) by simp
  next
    case False
    have "last (map ec_sequence ms) = last (map ec_sequence ?L)"
      using False by (cases "?L = []") (auto simp: ms_def last_map)
    also have "\<dots> = int (length ?L)"
      unfolding uplink_log(1)[OF assms(1)] using False by (cases "?L = []") (auto simp: ms_def upto_rec2)
    finally have "0 < last (0 # map ec_sequence ms)" "last (0 # map ec_sequence ms) = int (length ?L)"
      using False by (auto simp: ms_def)
    then show ?thesis using ok3(9) ok3(5) by (auto simp: wire_ok_def)
  qed
  then have "v_received (view st' e) = ?L" using ok3(6) by simp
  then show ?thesis using trans[OF st'(1) s2] by (intro exI[of _ "?u2\<lparr>up_wire := [], up_store := st'\<rparr>"]) simp
qed

end

subsection \<open>The downlink\<close>

record ('b, 'st) downlink =
  dn_edge :: "'b edge"
  dn_store :: 'st
  dn_wire :: "cloud_to_edge list"
  dn_queue :: "cloud_to_edge list"
  dn_cursor :: int
  dn_open :: bool

definition normal :: "cloud_to_edge \<Rightarrow> bool" where
  "normal m \<longleftrightarrow> ce_body m \<noteq> None \<and> \<not> is_hello m"

text \<open>
  The steps: the hub queues a command for the edge (also into the live queue of an open session); the store
  changes in another way (\<open>other\<close>); the edge does something that is not the handling of a cloud message; a
  session opens with the mark the edge announced, its live queue possibly already holding the last of the
  replayed messages; the session forwards a message of its live queue; the edge handles the next message of
  the wire, and an error ends the session; the connection is lost.
\<close>

inductive downlink_step ::
  "'b codec \<Rightarrow> (string \<Rightarrow> string) \<Rightarrow> config \<Rightarrow>
   (string \<Rightarrow> cloud_to_edge \<Rightarrow> 'st \<Rightarrow> session_error + cloud_to_edge \<times> 'st) \<Rightarrow>
   (string \<Rightarrow> int \<Rightarrow> 'st \<Rightarrow> session_error + unit \<times> 'st) \<Rightarrow> ('st \<Rightarrow> string \<Rightarrow> int) \<Rightarrow>
   ('st \<Rightarrow> string \<Rightarrow> int \<Rightarrow> session_error + cloud_to_edge list) \<Rightarrow> ('st \<Rightarrow> 'st \<Rightarrow> bool) \<Rightarrow> string \<Rightarrow>
   ('b, 'st) downlink \<Rightarrow> ('b, 'st) downlink \<Rightarrow> bool"
  for c digest cfg append_cloud acknowledge_cloud last_edge replay_cloud other e where
  dl_queue: "hub_queue append_cloud e m (dn_store d) = Inr (m', st') \<Longrightarrow> \<not> is_hello m \<Longrightarrow>
    downlink_step c digest cfg append_cloud acknowledge_cloud last_edge replay_cloud other e d
      (d\<lparr>dn_store := st', dn_queue := (if dn_open d then dn_queue d @ [m'] else dn_queue d)\<rparr>)"
| dl_other: "other (dn_store d) st' \<Longrightarrow>
    downlink_step c digest cfg append_cloud acknowledge_cloud last_edge replay_cloud other e d (d\<lparr>dn_store := st'\<rparr>)"
| dl_edge: "cloud_mark ed' = cloud_mark (dn_edge d) \<Longrightarrow>
    downlink_step c digest cfg append_cloud acknowledge_cloud last_edge replay_cloud other e d (d\<lparr>dn_edge := ed'\<rparr>)"
| dl_open: "hub_open acknowledge_cloud last_edge replay_cloud e (cloud_mark (dn_edge d)) (dn_store d) =
      Inr ((h # pre @ qs, cursor), st') \<Longrightarrow>
    downlink_step c digest cfg append_cloud acknowledge_cloud last_edge replay_cloud other e d
      (d\<lparr>dn_store := st', dn_wire := h # pre @ qs, dn_queue := qs, dn_cursor := cursor, dn_open := True\<rparr>)"
| dl_live: "dn_queue d = m # q \<Longrightarrow>
    downlink_step c digest cfg append_cloud acknowledge_cloud last_edge replay_cloud other e d
      (if dn_cursor d < ce_sequence m
       then d\<lparr>dn_queue := q, dn_wire := dn_wire d @ [m], dn_cursor := ce_sequence m\<rparr>
       else d\<lparr>dn_queue := q\<rparr>)"
| dl_deliver: "dn_wire d = m # w \<Longrightarrow> handle_cloud c digest cfg now t m (dn_edge d) = (r, ed') \<Longrightarrow>
    downlink_step c digest cfg append_cloud acknowledge_cloud last_edge replay_cloud other e d
      (if is_ok r then d\<lparr>dn_edge := ed', dn_wire := w\<rparr>
       else d\<lparr>dn_edge := ed', dn_wire := [], dn_queue := [], dn_open := False\<rparr>)"
| dl_drop: "downlink_step c digest cfg append_cloud acknowledge_cloud last_edge replay_cloud other e d
    (d\<lparr>dn_wire := [], dn_queue := [], dn_open := False\<rparr>)"

inductive downlink_steps for c digest cfg append_cloud acknowledge_cloud last_edge replay_cloud other e where
  dl_refl: "downlink_steps c digest cfg append_cloud acknowledge_cloud last_edge replay_cloud other e d d"
| dl_trans: "downlink_steps c digest cfg append_cloud acknowledge_cloud last_edge replay_cloud other e d d' \<Longrightarrow>
    downlink_step c digest cfg append_cloud acknowledge_cloud last_edge replay_cloud other e d' d'' \<Longrightarrow>
    downlink_steps c digest cfg append_cloud acknowledge_cloud last_edge replay_cloud other e d d''"

definition downlink_init :: "'b edge \<Rightarrow> 'st \<Rightarrow> ('b, 'st) downlink" where
  "downlink_init ed st = \<lparr>dn_edge = ed, dn_store = st, dn_wire = [], dn_queue = [], dn_cursor = 0, dn_open = False\<rparr>"

text \<open>The sequences of the commands in flight, and of those still in the live queue.\<close>

definition flight_ok :: "int \<Rightarrow> int \<Rightarrow> cloud_to_edge list \<Rightarrow> cloud_to_edge list \<Rightarrow> int \<Rightarrow> bool" where
  "flight_ok mark last_seq wire queue cursor \<longleftrightarrow>
     (\<forall>m \<in> set wire. is_hello m \<or> normal m) \<and> (\<forall>m \<in> set queue. normal m) \<and>
     (\<exists>a b. a \<le> mark + 1 \<and> mark \<le> cursor \<and> cursor \<le> last_seq \<and> b \<le> cursor + 1 \<and>
            map ce_sequence (filter normal wire) = [a..cursor] \<and> map ce_sequence queue = [b..last_seq])"

lemma flight_okI:
  assumes "\<And>m. m \<in> set wire \<Longrightarrow> is_hello m \<or> normal m" "\<And>m. m \<in> set queue \<Longrightarrow> normal m"
    and "a \<le> mark + 1" "mark \<le> cursor" "cursor \<le> last_seq" "b \<le> cursor + 1"
    and "map ce_sequence (filter normal wire) = [a..cursor]" "map ce_sequence queue = [b..last_seq]"
  shows "flight_ok mark last_seq wire queue cursor"
  unfolding flight_ok_def using assms by blast

lemma normal_sequence [simp]: "normal (m\<lparr>ce_sequence := n\<rparr>) = normal m"
  by (simp add: normal_def is_hello_def)

lemma not_normal_hello: "is_hello m \<Longrightarrow> \<not> normal m"
  by (simp add: normal_def)

lemma flight_append:
  assumes "flight_ok k n wire queue cur" "normal m" "ce_sequence m = n + 1"
  shows "flight_ok k (n + 1) wire (queue @ [m]) cur"
proof -
  obtain a b where ab: "a \<le> k + 1" "k \<le> cur" "cur \<le> n" "b \<le> cur + 1"
    "map ce_sequence (filter normal wire) = [a..cur]" "map ce_sequence queue = [b..n]"
    using assms(1) by (auto simp: flight_ok_def)
  have "map ce_sequence (queue @ [m]) = [b..n + 1]" using ab(3,4,6) assms(3) by (simp add: upto_rec2)
  then show ?thesis
    by (intro flight_okI[where a = a and b = b]) (use ab assms(1,2) in \<open>auto simp: flight_ok_def\<close>)
qed

lemma flight_live:
  assumes "flight_ok k n wire (m # q) cur"
  shows "if cur < ce_sequence m then flight_ok k n (wire @ [m]) q (ce_sequence m) else flight_ok k n wire q cur"
proof -
  obtain a b where ab: "a \<le> k + 1" "k \<le> cur" "cur \<le> n" "b \<le> cur + 1"
    "map ce_sequence (filter normal wire) = [a..cur]" "map ce_sequence (m # q) = [b..n]"
    using assms by (auto simp: flight_ok_def)
  have bn: "b \<le> n" using ab(6) by (metis list.distinct(1) list.simps(9) not_less upto_empty)
  have m: "ce_sequence m = b" "map ce_sequence q = [b + 1..n]" using ab(6) upto_rec1[OF bn] by simp_all
  have nm: "normal m" "\<forall>x \<in> set q. normal x" "\<forall>x \<in> set wire. is_hello x \<or> normal x"
    using assms by (auto simp: flight_ok_def)
  show ?thesis
  proof (cases "cur < b")
    case True
    then have "b = cur + 1" using ab(4) by simp
    then have "map ce_sequence (filter normal (wire @ [m])) = [a..b]"
      using ab(1,2,5) nm(1) m(1) by (simp add: upto_rec2)
    then have "flight_ok k n (wire @ [m]) q b"
      by (intro flight_okI[where a = a and b = "b + 1"]) (use ab bn m nm \<open>b = cur + 1\<close> in auto)
    then show ?thesis using True m(1) by simp
  next
    case False
    have "flight_ok k n wire q cur"
      by (rule flight_okI[where a = a and b = "b + 1"]) (use False ab m nm in auto)
    then show ?thesis using False m(1) by simp
  qed
qed

lemma flight_hello:
  assumes "flight_ok k n (m # w) queue cur" "is_hello m"
  shows "flight_ok k n w queue cur"
  using assms not_normal_hello[OF assms(2)] by (simp add: flight_ok_def)

lemma flight_head:
  assumes "flight_ok k n (m # w) queue cur" "\<not> is_hello m"
  shows "normal m" "ce_sequence m \<le> k + 1" "ce_sequence m \<le> cur"
    "k' = k \<and> ce_sequence m \<le> k \<or> k' = ce_sequence m \<and> ce_sequence m = k + 1 \<Longrightarrow> flight_ok k' n w queue cur"
proof -
  obtain a b where ab: "a \<le> k + 1" "k \<le> cur" "cur \<le> n" "b \<le> cur + 1"
    "map ce_sequence (filter normal (m # w)) = [a..cur]" "map ce_sequence queue = [b..n]"
    using assms by (auto simp: flight_ok_def)
  show nm: "normal m" using assms by (auto simp: flight_ok_def)
  have ac: "a \<le> cur" using ab(5) nm by (metis filter.simps(2) list.distinct(1) list.simps(9) not_less upto_empty)
  have m: "ce_sequence m = a" "map ce_sequence (filter normal w) = [a + 1..cur]"
    using ab(5) nm upto_rec1[OF ac] by simp_all
  show "ce_sequence m \<le> k + 1" "ce_sequence m \<le> cur" using m ab(1) ac by simp_all
  assume "k' = k \<and> ce_sequence m \<le> k \<or> k' = ce_sequence m \<and> ce_sequence m = k + 1"
  then show "flight_ok k' n w queue cur"
    by (intro flight_okI[where a = "a + 1" and b = b]) (use ab m ac assms(1) in \<open>auto simp: flight_ok_def\<close>)
qed

context hub_store
begin

definition downlink_ok :: "string \<Rightarrow> ('b, 'st) downlink \<Rightarrow> bool" where
  "downlink_ok e d \<longleftrightarrow>
     inv (dn_store d) \<and>
     (let v = view (dn_store d) e; k = cloud_mark (dn_edge d)
      in v_watermark v \<le> k \<and> k \<le> v_last v \<and> (\<forall>m \<in> set (v_pending v). normal m) \<and>
         (if dn_open d then flight_ok k (v_last v) (dn_wire d) (dn_queue d) (dn_cursor d)
          else dn_wire d = [] \<and> dn_queue d = []))"

lemma downlink_open_ok:
  assumes "downlink_ok e d"
    and "hub_open acknowledge_cloud last_edge_sequence replay_cloud e (cloud_mark (dn_edge d)) (dn_store d) =
           Inr ((h # pre @ qs, cursor), st')"
  shows "downlink_ok e (d\<lparr>dn_store := st', dn_wire := h # pre @ qs, dn_queue := qs, dn_cursor := cursor, dn_open := True\<rparr>)"
proof -
  let ?k = "cloud_mark (dn_edge d)" and ?v = "view (dn_store d) e"
  let ?ms = "filter (\<lambda>m. ?k < ce_sequence m) (v_pending ?v)"
  have inv: "inv (dn_store d)" and k: "v_watermark ?v \<le> ?k" "?k \<le> v_last ?v" and nm: "\<forall>m \<in> set (v_pending ?v). normal m"
    using assms(1) by (auto simp: downlink_ok_def Let_def)
  obtain u where ack: "acknowledge_cloud e ?k (dn_store d) = Inr (u, st')"
    and rep: "replay_cloud st' e ?k = Inr (pre @ qs)"
    and h: "h = \<lparr>ce_sequence = 0, ce_body = Some (Cloud_hello (last_edge_sequence st' e))\<rparr>"
    and cur: "cursor = last (?k # map ce_sequence (pre @ qs))"
    using assms(2) by (auto simp: hub_open_def split: sum.splits)
  note law = ack_law[OF inv ack]
  have inv': "inv st'" and view': "view st' = (view (dn_store d))(e := ?v\<lparr>v_pending := ?ms, v_watermark := ?k\<rparr>)"
    using law k(2) by (simp_all add: max_def)
  have ms: "pre @ qs = ?ms" using replay_sound[OF inv' rep] view' by simp
  have seqs: "map ce_sequence (pre @ qs) = [?k + 1..v_last ?v]"
    unfolding ms by (rule filter_upto_gt[OF pending_sequences[OF inv] k])
  have cur': "cursor = v_last ?v"
    unfolding cur seqs using k(2) by (cases "?k = v_last ?v") (auto simp: upto_rec2)
  have nms: "\<forall>m \<in> set (pre @ qs). normal m" using nm ms by auto
  have nh: "\<not> normal h" "is_hello h" using h by (simp_all add: normal_def is_hello_def)
  obtain b where b: "map ce_sequence qs = [b..v_last ?v]" "b \<le> v_last ?v + 1"
  proof -
    have "map ce_sequence qs = drop (length pre) [?k + 1..v_last ?v]" by (simp flip: seqs)
    then have "map ce_sequence qs = [?k + 1 + int (length pre)..v_last ?v]" by (simp add: drop_upto)
    moreover have "int (length pre) \<le> v_last ?v - ?k"
      using arg_cong[OF seqs, of length] k(2) by simp
    ultimately show thesis using that[of "?k + 1 + int (length pre)"] by simp
  qed
  have "filter normal (h # pre @ qs) = pre @ qs" using nms nh by simp
  then have "flight_ok ?k (v_last ?v) (h # pre @ qs) qs cursor"
    by (intro flight_okI[where a = "?k + 1" and b = b]) (use nms nh seqs cur' k(2) b in auto)
  then show ?thesis using inv' view' k nm by (simp add: downlink_ok_def Let_def)
qed

lemma downlink_deliver_ok:
  assumes "downlink_ok e d" "dn_wire d = m # w" "handle_cloud c digest cfg now t m (dn_edge d) = (r, ed')"
  shows "downlink_ok e (if is_ok r then d\<lparr>dn_edge := ed', dn_wire := w\<rparr>
           else d\<lparr>dn_edge := ed', dn_wire := [], dn_queue := [], dn_open := False\<rparr>)"
    and "r \<noteq> Inl (CloudSequenceGap x y)"
proof -
  let ?k = "cloud_mark (dn_edge d)" and ?v = "view (dn_store d) e"
  have fl: "dn_open d" "flight_ok ?k (v_last ?v) (m # w) (dn_queue d) (dn_cursor d)"
    using assms(1,2) by (auto simp: downlink_ok_def Let_def split: if_splits)
  have base: "inv (dn_store d)" "v_watermark ?v \<le> ?k" "?k \<le> v_last ?v" "\<forall>m \<in> set (v_pending ?v). normal m"
    using assms(1) by (auto simp: downlink_ok_def Let_def)
  have "cloud_mark ed' \<le> v_last ?v \<and> ?k \<le> cloud_mark ed' \<and> r \<noteq> Inl (CloudSequenceGap x y) \<and>
        (is_ok r \<longrightarrow> flight_ok (cloud_mark ed') (v_last ?v) w (dn_queue d) (dn_cursor d))"
  proof (cases "is_hello m")
    case True
    then obtain n where n: "ce_body m = Some (Cloud_hello n)" by (auto simp: is_hello_def split: option.splits cloud_body.splits)
    have "cloud_mark ed' = ?k \<and> r \<noteq> Inl (CloudSequenceGap x y)"
      using assms(3) n edge_log_ack(4)
      by (auto simp: handle_cloud_def cloud_mark_def last_cloud_sequence_def split: if_splits dest!: on_spool_cases)
    then show ?thesis using flight_hello[OF fl(2) True] base by auto
  next
    case False
    note head = flight_head[OF fl(2) False]
    have cur: "dn_cursor d \<le> v_last ?v" using fl(2) by (auto simp: flight_ok_def)
    show ?thesis
    proof (cases "ce_sequence m \<le> ?k")
      case True
      then have "r = Inr ()" "ed' = dn_edge d"
        using handle_cloud_not_next[of m "dn_edge d" c digest cfg now t] head(1) assms(3) by (auto simp: normal_def)
      then show ?thesis using head(4)[of ?k] True base by auto
    next
      case F: False
      then have seq: "ce_sequence m = ?k + 1" using head(2) by simp
      have adv: "advances c (ce_sequence m) (dn_edge d) r ed'"
        by (rule handle_next_advances[OF assms(3) _ _ seq]) (use head(1) in \<open>auto simp: normal_def\<close>)
      have gap: "r \<noteq> Inl (CloudSequenceGap x y)"
        by (rule handle_cloud_no_gap[OF assms(3) _ seq]) (use head(1) in \<open>auto simp: normal_def\<close>)
      show ?thesis using adv gap seq head(3) head(4)[of "ce_sequence m"] cur base by (auto simp: advances_def)
    qed
  qed
  then show "downlink_ok e (if is_ok r then d\<lparr>dn_edge := ed', dn_wire := w\<rparr>
           else d\<lparr>dn_edge := ed', dn_wire := [], dn_queue := [], dn_open := False\<rparr>)"
    and "r \<noteq> Inl (CloudSequenceGap x y)"
    using base fl(1) by (auto simp: downlink_ok_def Let_def)
qed

lemma downlink_step_ok:
  assumes "downlink_step c digest cfg append_cloud acknowledge_cloud last_edge_sequence replay_cloud other e d d'"
    "downlink_ok e d"
    and other: "\<And>st st'. other st st' \<Longrightarrow> inv st \<Longrightarrow> inv st' \<and> v_pending (view st' e) = v_pending (view st e) \<and>
        v_last (view st' e) = v_last (view st e) \<and> v_watermark (view st' e) = v_watermark (view st e)"
  shows "downlink_ok e d'"
  using assms(1)
proof cases
  case (dl_queue m m' st')
  have inv: "inv (dn_store d)" using assms(2) by (simp add: downlink_ok_def)
  have app: "append_cloud e m (dn_store d) = Inr (m', st')" and nm: "normal m"
    using dl_queue by (auto simp: hub_queue_def normal_def split: if_splits)
  note law = append_law[OF inv app]
  have m': "normal m'" "ce_sequence m' = v_last (view (dn_store d) e) + 1" using law nm by auto
  show ?thesis
  proof (cases "dn_open d")
    case True
    then have "flight_ok (cloud_mark (dn_edge d)) (v_last (view (dn_store d) e)) (dn_wire d) (dn_queue d) (dn_cursor d)"
      using assms(2) by (simp add: downlink_ok_def Let_def)
    from flight_append[OF this m'] show ?thesis
      using law assms(2) True m' dl_queue(1) by (auto simp: downlink_ok_def Let_def)
  next
    case False
    then show ?thesis using law assms(2) m' dl_queue(1) by (auto simp: downlink_ok_def Let_def)
  qed
next
  case (dl_other st')
  have "inv (dn_store d)" using assms(2) by (simp add: downlink_ok_def)
  from other[OF dl_other(2) this] show ?thesis
    using assms(2) dl_other(1) by (simp add: downlink_ok_def Let_def)
next
  case (dl_edge ed')
  then show ?thesis using assms(2) by (simp add: downlink_ok_def Let_def)
next
  case (dl_open h pre qs cursor st')
  then show ?thesis using downlink_open_ok[OF assms(2)] by blast
next
  case (dl_live m q)
  have "dn_open d" "flight_ok (cloud_mark (dn_edge d)) (v_last (view (dn_store d) e)) (dn_wire d) (m # q) (dn_cursor d)"
    using assms(2) dl_live(2) by (auto simp: downlink_ok_def Let_def split: if_splits)
  from flight_live[OF this(2)] show ?thesis
    using assms(2) dl_live(1) \<open>dn_open d\<close> by (auto simp: downlink_ok_def Let_def)
next
  case (dl_deliver m w now t r ed')
  then show ?thesis using downlink_deliver_ok(1)[OF assms(2)] by blast
next
  case dl_drop
  then show ?thesis using assms(2) by (simp add: downlink_ok_def Let_def)
qed

lemma downlink_steps_ok:
  assumes "downlink_steps c digest cfg append_cloud acknowledge_cloud last_edge_sequence replay_cloud other e d d'"
    "downlink_ok e d"
    and other: "\<And>st st'. other st st' \<Longrightarrow> inv st \<Longrightarrow> inv st' \<and> v_pending (view st' e) = v_pending (view st e) \<and>
        v_last (view st' e) = v_last (view st e) \<and> v_watermark (view st' e) = v_watermark (view st e)"
  shows "downlink_ok e d'"
  using assms(1,2) by (induction rule: downlink_steps.induct) (auto intro: downlink_step_ok[OF _ _ other])

end

end
