(* ===== verification/Relay.thy ===== *)
theory Relay
  imports Hub_Session
begin

text \<open>
  The browser relay of the hub (\<open>relay.py\<close>): grants, authenticated connections and the routing of
  frames in both directions. A connection is an object that the router, the browser handler and an
  older handler of the same session may all refer to, so connections live in a store, and the router
  refers to them by their place in it. Times are microseconds; \<open>digest\<close> is SHA-256 and \<open>dumps\<close> the JSON
  encoder with the settings of the module (\<open>None\<close> when it raises).
\<close>

datatype relay_error =
    RelayConnectionClosed
  | RelayGrantIncomplete
  | RelayGrantProhibited
  | RelayGrantExpired
  | RelayGrantConflict
  | RelayTokenLength
  | RelaySessionInactive
  | RelayTokenInvalid
  | RelayNoLongerActive
  | FrameSessionMismatch
  | FrameRequestIdInvalid
  | RelayFrameKind
  | RelayFrameCapability
  | RelayFramePayload
  | RelayQueueFull
  | RelayTokenRequired
  | RelayPayloadNotJson
  | RelayHubError session_error

definition MAX_PAYLOAD :: nat where
  "MAX_PAYLOAD = 256 * 1024"

definition ALLOWED_KINDS :: "string set" where
  "ALLOWED_KINDS = {''tap'', ''swipe'', ''text'', ''evidence.request'', ''ack'', ''frame'', ''layout'', ''ready'', ''error''}"

definition RELAY_CAPABILITIES :: "string set" where
  "RELAY_CAPABILITIES = {''input.tap'', ''input.swipe'', ''input.text'', ''evidence.capture'', ''view.frame'', ''view.layout''}"

record relay_grant =
  rg_session_id :: string
  rg_edge_id :: string
  rg_device_id :: string
  rg_capabilities :: "string set"
  rg_expires_at :: int
  rg_token_digest :: string
  rg_revoked :: bool

record relay_connection =
  rc_grant :: relay_grant
  rc_incoming :: "debug_relay_frame list"
  rc_closed :: bool

record router =
  rt_grants :: "string \<rightharpoonup> relay_grant"
  rt_connections :: "string \<rightharpoonup> nat"
  rt_objects :: "relay_connection list"

definition router_init :: router where
  "router_init = \<lparr>rt_grants = Map.empty, rt_connections = Map.empty, rt_objects = []\<rparr>"

subsection \<open>Operations\<close>

definition close_connection :: "nat \<Rightarrow> router \<Rightarrow> router" where
  "close_connection i rt = rt\<lparr>rt_objects := (rt_objects rt)[i := (rt_objects rt ! i)\<lparr>rc_closed := True\<rparr>]\<rparr>"

definition router_register :: "int \<Rightarrow> relay_grant \<Rightarrow> (router, relay_error, unit) tx" where
  "router_register now grant rt =
     (if rg_session_id grant = [] \<or> rg_edge_id grant = [] \<or> rg_device_id grant = [] then Inl RelayGrantIncomplete
      else if \<not> rg_capabilities grant \<subseteq> RELAY_CAPABILITIES then Inl RelayGrantProhibited
      else if rg_expires_at grant \<le> now then Inl RelayGrantExpired
      else case rt_grants rt (rg_session_id grant) of
             Some existing \<Rightarrow>
               if existing \<noteq> grant then Inl RelayGrantConflict
               else Inr ((), rt\<lparr>rt_grants := (rt_grants rt)(rg_session_id grant \<mapsto> grant)\<rparr>)
           | None \<Rightarrow> Inr ((), rt\<lparr>rt_grants := (rt_grants rt)(rg_session_id grant \<mapsto> grant)\<rparr>))"

text \<open>The result of \<open>authenticate\<close> is the new connection object; a previous one is closed.\<close>

definition router_authenticate ::
  "(string \<Rightarrow> string) \<Rightarrow> int \<Rightarrow> string \<Rightarrow> string \<Rightarrow> (router, relay_error, nat) tx" where
  "router_authenticate digest now session_id token rt =
     (if length token < 32 \<or> 256 < length token then Inl RelayTokenLength
      else case rt_grants rt session_id of
             None \<Rightarrow> Inl RelaySessionInactive
           | Some grant \<Rightarrow>
               if rg_revoked grant \<or> rg_expires_at grant \<le> now then Inl RelaySessionInactive
               else if rg_token_digest grant \<noteq> digest token then Inl RelayTokenInvalid
               else let i = length (rt_objects rt);
                        rt1 = (case rt_connections rt session_id of Some old \<Rightarrow> close_connection old rt | None \<Rightarrow> rt)
                    in Inr (i, rt1\<lparr>rt_objects := rt_objects rt1 @ [\<lparr>rc_grant = grant, rc_incoming = [], rc_closed = False\<rparr>],
                                   rt_connections := (rt_connections rt1)(session_id \<mapsto> i)\<rparr>))"

definition router_revoke :: "string \<Rightarrow> router \<Rightarrow> router" where
  "router_revoke session_id rt =
     (let rt1 = (case rt_grants rt session_id of
                   Some grant \<Rightarrow> rt\<lparr>rt_grants := (rt_grants rt)(session_id \<mapsto> grant\<lparr>rg_revoked := True\<rparr>)\<rparr>
                 | None \<Rightarrow> rt)
      in case rt_connections rt1 session_id of
           Some i \<Rightarrow> close_connection i (rt1\<lparr>rt_connections := (rt_connections rt1)(session_id := None)\<rparr>)
         | None \<Rightarrow> rt1)"

definition relay_validate_frame :: "debug_relay_frame \<Rightarrow> relay_grant \<Rightarrow> relay_error option" where
  "relay_validate_frame frame grant =
     (if rf_session_id frame \<noteq> rg_session_id grant then Some FrameSessionMismatch
      else if rf_request_id frame = [] \<or> 128 < length (rf_request_id frame) then Some FrameRequestIdInvalid
      else if rf_kind frame \<notin> ALLOWED_KINDS then Some RelayFrameKind
      else if rf_capability frame \<notin> rg_capabilities grant then Some RelayFrameCapability
      else if MAX_PAYLOAD < length (rf_payload frame) then Some RelayFramePayload
      else None)"

definition from_browser ::
  "(string \<Rightarrow> cloud_to_edge \<Rightarrow> 'st \<Rightarrow> session_error + cloud_to_edge \<times> 'st) \<Rightarrow> int \<Rightarrow> relay_grant \<Rightarrow>
   debug_relay_frame \<Rightarrow> router \<Rightarrow> 'st \<Rightarrow> relay_error + cloud_to_edge \<times> 'st" where
  "from_browser append_cloud now grant frame rt st =
     (case relay_validate_frame frame grant of
        Some err \<Rightarrow> Inl err
      | None \<Rightarrow>
          if rt_grants rt (rg_session_id grant) \<noteq> Some grant \<or> rg_revoked grant \<or> rg_expires_at grant \<le> now
          then Inl RelayNoLongerActive
          else case hub_queue append_cloud (rg_edge_id grant)
                      \<lparr>ce_sequence = 0, ce_body = Some (Cloud_relay_frame frame)\<rparr> st of
                 Inl err \<Rightarrow> Inl (RelayHubError err)
               | Inr r \<Rightarrow> Inr r)"

definition relay_encode_payload :: "(json \<Rightarrow> string option) \<Rightarrow> json \<Rightarrow> relay_error + string" where
  "relay_encode_payload dumps payload =
     (case dumps payload of
        None \<Rightarrow> Inl RelayPayloadNotJson
      | Some encoded \<Rightarrow> if MAX_PAYLOAD < length encoded then Inl RelayFramePayload else Inr encoded)"

definition connection_send ::
  "(string \<Rightarrow> cloud_to_edge \<Rightarrow> 'st \<Rightarrow> session_error + cloud_to_edge \<times> 'st) \<Rightarrow> (json \<Rightarrow> string option) \<Rightarrow> int \<Rightarrow>
   relay_connection \<Rightarrow> string \<Rightarrow> string \<Rightarrow> string \<Rightarrow> json \<Rightarrow> router \<Rightarrow> 'st \<Rightarrow> relay_error + cloud_to_edge \<times> 'st" where
  "connection_send append_cloud dumps now conn request_id kind capability payload rt st =
     (if rc_closed conn then Inl RelayConnectionClosed
      else case relay_encode_payload dumps payload of
             Inl err \<Rightarrow> Inl err
           | Inr encoded \<Rightarrow>
               from_browser append_cloud now (rc_grant conn)
                 \<lparr>rf_session_id = rg_session_id (rc_grant conn), rf_request_id = request_id, rf_capability = capability,
                  rf_kind = kind, rf_payload = encoded, rf_end = False, rf_device_id = rg_device_id (rc_grant conn)\<rparr> rt st)"

text \<open>\<open>receive\<close> takes the next frame; on an empty queue it waits, which is no step.\<close>

definition connection_receive :: "nat \<Rightarrow> router \<Rightarrow> (relay_error + debug_relay_frame) option \<times> router" where
  "connection_receive i rt =
     (let conn = rt_objects rt ! i in
      if rc_closed conn then (Some (Inl RelayConnectionClosed), rt)
      else case rc_incoming conn of
             [] \<Rightarrow> (None, rt)
           | f # fs \<Rightarrow> (Some (Inr f), rt\<lparr>rt_objects := (rt_objects rt)[i := conn\<lparr>rc_incoming := fs\<rparr>]\<rparr>))"

text \<open>A full browser queue (64 frames) closes the connection before the error is raised.\<close>

definition router_on_edge_message :: "int \<Rightarrow> string \<Rightarrow> edge_to_cloud \<Rightarrow> router \<Rightarrow> (relay_error + unit) \<times> router" where
  "router_on_edge_message now edge_id message rt =
     (case ec_body message of
        Some (Edge_relay_frame frame) \<Rightarrow>
          (case (rt_grants rt (rf_session_id frame), rt_connections rt (rf_session_id frame)) of
             (Some grant, Some i) \<Rightarrow>
               (let conn = rt_objects rt ! i in
                if rc_closed conn \<or> rg_revoked grant \<or> rg_edge_id grant \<noteq> edge_id \<or> rg_expires_at grant \<le> now
                then (Inr (), rt)
                else case relay_validate_frame frame grant of
                       Some err \<Rightarrow> (Inl err, rt)
                     | None \<Rightarrow>
                         if 64 \<le> length (rc_incoming conn) then (Inl RelayQueueFull, close_connection i rt)
                         else (Inr (), rt\<lparr>rt_objects := (rt_objects rt)[i := conn\<lparr>rc_incoming := rc_incoming conn @ [frame]\<rparr>]\<rparr>))
           | _ \<Rightarrow> (Inr (), rt))
      | _ \<Rightarrow> (Inr (), rt))"

definition relay_grant_from_token ::
  "(string \<Rightarrow> string) \<Rightarrow> string \<Rightarrow> string \<Rightarrow> string \<Rightarrow> string list \<Rightarrow> int \<Rightarrow> string \<Rightarrow> relay_error + relay_grant" where
  "relay_grant_from_token digest session_id edge_id device_id capabilities expires_at token =
     (if token = [] then Inl RelayTokenRequired
      else Inr \<lparr>rg_session_id = session_id, rg_edge_id = edge_id, rg_device_id = device_id,
                rg_capabilities = set capabilities, rg_expires_at = expires_at, rg_token_digest = digest token,
                rg_revoked = False\<rparr>)"

subsection \<open>Runs of the router\<close>

inductive router_step :: "(string \<Rightarrow> string) \<Rightarrow> router \<Rightarrow> router \<Rightarrow> bool" for digest where
  rs_register: "router_register now g rt = Inr (u, rt') \<Longrightarrow> router_step digest rt rt'"
| rs_authenticate: "router_authenticate digest now sid token rt = Inr (i, rt') \<Longrightarrow> router_step digest rt rt'"
| rs_revoke: "router_step digest rt (router_revoke sid rt)"
| rs_edge: "router_on_edge_message now e m rt = (r, rt') \<Longrightarrow> router_step digest rt rt'"
| rs_receive: "connection_receive i rt = (r, rt') \<Longrightarrow> i < length (rt_objects rt) \<Longrightarrow> router_step digest rt rt'"
| rs_close: "i < length (rt_objects rt) \<Longrightarrow> router_step digest rt (close_connection i rt)"

inductive router_steps :: "(string \<Rightarrow> string) \<Rightarrow> router \<Rightarrow> router \<Rightarrow> bool" for digest where
  rs_refl: "router_steps digest rt rt"
| rs_trans: "router_steps digest rt rt' \<Longrightarrow> router_step digest rt' rt'' \<Longrightarrow> router_steps digest rt rt''"

text \<open>
  The router invariant: grants are filed under their session and name only relay capabilities; a
  registered connection exists and carries the grant of its session up to revocation; a queue never
  holds more than 64 frames, each of which passed the check against the connection's grant.
\<close>

definition frame_ok :: "relay_grant \<Rightarrow> debug_relay_frame \<Rightarrow> bool" where
  "frame_ok g f \<longleftrightarrow> relay_validate_frame f g = None"

definition connection_ok :: "relay_connection \<Rightarrow> bool" where
  "connection_ok k \<longleftrightarrow> length (rc_incoming k) \<le> 64 \<and> \<not> rg_revoked (rc_grant k) \<and>
     (\<forall>f \<in> set (rc_incoming k). frame_ok (rc_grant k) f)"

definition router_ok :: "router \<Rightarrow> bool" where
  "router_ok rt \<longleftrightarrow>
     (\<forall>sid g. rt_grants rt sid = Some g \<longrightarrow> rg_session_id g = sid \<and> rg_capabilities g \<subseteq> RELAY_CAPABILITIES) \<and>
     (\<forall>sid i. rt_connections rt sid = Some i \<longrightarrow>
        i < length (rt_objects rt) \<and> rt_grants rt sid = Some (rc_grant (rt_objects rt ! i))) \<and>
     (\<forall>k \<in> set (rt_objects rt). connection_ok k)"

lemma router_okD:
  assumes "router_ok rt"
  shows "rt_grants rt sid = Some g \<Longrightarrow> rg_session_id g = sid \<and> rg_capabilities g \<subseteq> RELAY_CAPABILITIES"
    and "rt_connections rt sid = Some i \<Longrightarrow> i < length (rt_objects rt) \<and> rt_grants rt sid = Some (rc_grant (rt_objects rt ! i))"
    and "i < length (rt_objects rt) \<Longrightarrow> connection_ok (rt_objects rt ! i)"
  using assms by (auto simp: router_ok_def)

lemma router_okI:
  assumes "\<And>sid g. rt_grants rt sid = Some g \<Longrightarrow> rg_session_id g = sid \<and> rg_capabilities g \<subseteq> RELAY_CAPABILITIES"
    and "\<And>sid i. rt_connections rt sid = Some i \<Longrightarrow>
           i < length (rt_objects rt) \<and> rt_grants rt sid = Some (rc_grant (rt_objects rt ! i))"
    and "\<And>k. k \<in> set (rt_objects rt) \<Longrightarrow> connection_ok k"
  shows "router_ok rt"
  using assms by (simp add: router_ok_def)

text \<open>Replacing a connection by one with the same grant keeps the invariant.\<close>

lemma router_ok_set_object:
  assumes "router_ok rt" "rc_grant k = rc_grant (rt_objects rt ! i)" "connection_ok k"
  shows "router_ok (rt\<lparr>rt_objects := (rt_objects rt)[i := k]\<rparr>)"
proof (rule router_okI, goal_cases)
  case (2 sid j)
  then show ?case using router_okD(2)[OF assms(1), of sid j] assms(2)
    by (cases "j = i") (auto simp: nth_list_update)
next
  case (3 k')
  then have "k' = k \<or> k' \<in> set (rt_objects rt)" using set_update_subset_insert by fastforce
  then show ?case using assms(1,3) by (auto simp: router_ok_def)
qed (use router_okD(1)[OF assms(1)] in simp)

lemma router_ok_close: "router_ok rt \<Longrightarrow> router_ok (close_connection i rt)"
proof (cases "i < length (rt_objects rt)")
  case True
  then show "router_ok rt \<Longrightarrow> ?thesis" unfolding close_connection_def
    by (intro router_ok_set_object) (auto simp: connection_ok_def dest: router_okD(3)[of rt i])
next
  case False
  then have "close_connection i rt = rt" by (simp add: close_connection_def list_update_beyond)
  then show "router_ok rt \<Longrightarrow> ?thesis" by simp
qed

lemma close_connection_frame [simp]:
  "rt_grants (close_connection i rt) = rt_grants rt"
  "rt_connections (close_connection i rt) = rt_connections rt"
  "length (rt_objects (close_connection i rt)) = length (rt_objects rt)"
  "rt_grants (rt\<lparr>rt_connections := c\<rparr>) = rt_grants rt"
  by (simp_all add: close_connection_def)

lemma router_ok_register:
  assumes "router_register now g rt = Inr (u, rt')" "router_ok rt"
  shows "router_ok rt'"
proof -
  have g: "rg_capabilities g \<subseteq> RELAY_CAPABILITIES" "rt_grants rt (rg_session_id g) \<in> {None, Some g}"
    "rt' = rt\<lparr>rt_grants := (rt_grants rt)(rg_session_id g \<mapsto> g)\<rparr>"
    using assms(1) by (auto simp: router_register_def split: if_splits option.splits)
  show ?thesis unfolding g(3)
  proof (rule router_okI, goal_cases)
    case (2 sid i)
    then show ?case using g(2) router_okD(2)[OF assms(2), of sid i] by auto
  qed (use g(1) router_okD(1)[OF assms(2)] assms(2) in \<open>auto simp: router_ok_def split: if_splits\<close>)
qed

lemma router_ok_attach:
  assumes "router_ok rt" "rt_grants rt sid = Some g" "\<not> rg_revoked g"
  shows "router_ok (rt\<lparr>rt_objects := rt_objects rt @ [\<lparr>rc_grant = g, rc_incoming = [], rc_closed = False\<rparr>],
                       rt_connections := (rt_connections rt)(sid \<mapsto> length (rt_objects rt))\<rparr>)"
proof (rule router_okI, goal_cases)
  case (2 sid' i)
  then show ?case using router_okD(2)[OF assms(1), of sid' i] assms(2) by (auto simp: nth_append split: if_splits)
next
  case (3 k)
  then show ?case using assms(1,3) by (auto simp: router_ok_def connection_ok_def)
qed (use router_okD(1)[OF assms(1)] in simp)

lemma router_ok_authenticate:
  assumes "router_authenticate digest now sid token rt = Inr (i, rt')" "router_ok rt"
  shows "router_ok rt'"
proof -
  define rt1 where "rt1 = (case rt_connections rt sid of Some old \<Rightarrow> close_connection old rt | None \<Rightarrow> rt)"
  have ok: "router_ok rt1" and eq: "rt_grants rt1 = rt_grants rt" "length (rt_objects rt1) = length (rt_objects rt)"
    using assms(2) by (auto simp: rt1_def router_ok_close split: option.splits)
  from assms(1) obtain g where "rt_grants rt sid = Some g" "\<not> rg_revoked g"
    "rt' = rt1\<lparr>rt_objects := rt_objects rt1 @ [\<lparr>rc_grant = g, rc_incoming = [], rc_closed = False\<rparr>],
               rt_connections := (rt_connections rt1)(sid \<mapsto> length (rt_objects rt))\<rparr>"
    by (auto simp: router_authenticate_def rt1_def Let_def split: if_splits option.splits)
  then show ?thesis using router_ok_attach[OF ok, of sid g] eq by simp
qed

lemma router_ok_revoke: "router_ok rt \<Longrightarrow> router_ok (router_revoke sid rt)"
proof -
  assume ok: "router_ok rt"
  let ?g = "\<lambda>rt. case rt_grants rt sid of
      Some grant \<Rightarrow> rt\<lparr>rt_grants := (rt_grants rt)(sid \<mapsto> grant\<lparr>rg_revoked := True\<rparr>)\<rparr> | None \<Rightarrow> rt"
  let ?rt1 = "(?g rt)\<lparr>rt_connections := (rt_connections (?g rt))(sid := None)\<rparr>"
  have "router_ok ?rt1"
  proof (rule router_okI, goal_cases)
    case (1 sid' g)
    then show ?case using router_okD(1)[OF ok, of sid'] by (fastforce split: option.splits if_splits)
  next
    case (2 sid' i)
    then show ?case using router_okD(2)[OF ok, of sid' i] by (auto split: option.splits if_splits)
  next
    case (3 k)
    then show ?case using ok by (auto simp: router_ok_def split: option.splits)
  qed
  moreover have "router_revoke sid rt = (case rt_connections rt sid of None \<Rightarrow> ?rt1 | Some i \<Rightarrow> close_connection i ?rt1)"
    by (auto simp: router_revoke_def Let_def fun_upd_idem split: option.splits)
  ultimately show ?thesis by (auto simp: router_ok_close split: option.splits)
qed

lemma router_ok_edge:
  assumes "router_on_edge_message now e m rt = (r, rt')" "router_ok rt"
  shows "router_ok rt'"
proof (cases "rt' = rt")
  case False
  from assms(1) False obtain f g i where f: "ec_body m = Some (Edge_relay_frame f)"
    and g: "rt_grants rt (rf_session_id f) = Some g" and i: "rt_connections rt (rf_session_id f) = Some i"
    and v: "relay_validate_frame f g = None"
    and out: "rt' = close_connection i rt \<or> length (rc_incoming (rt_objects rt ! i)) < 64 \<and>
        rt' = rt\<lparr>rt_objects := (rt_objects rt)[i := (rt_objects rt ! i)\<lparr>rc_incoming := rc_incoming (rt_objects rt ! i) @ [f]\<rparr>]\<rparr>"
    by (auto simp: router_on_edge_message_def Let_def split: option.splits edge_body.splits if_splits)
  note conn = router_okD(2)[OF assms(2) i]
  from out show ?thesis
  proof
    assume "rt' = close_connection i rt"
    then show ?thesis using router_ok_close assms(2) by simp
  next
    assume "length (rc_incoming (rt_objects rt ! i)) < 64 \<and>
        rt' = rt\<lparr>rt_objects := (rt_objects rt)[i := (rt_objects rt ! i)\<lparr>rc_incoming := rc_incoming (rt_objects rt ! i) @ [f]\<rparr>]\<rparr>"
    then show ?thesis
      using conn g v router_okD(3)[OF assms(2), of i]
      by (auto intro!: router_ok_set_object[OF assms(2)] simp: connection_ok_def frame_ok_def)
  qed
qed (use assms(2) in simp)

lemma router_ok_receive:
  assumes "connection_receive i rt = (r, rt')" "i < length (rt_objects rt)" "router_ok rt"
  shows "router_ok rt'"
  using assms router_okD(3)[OF assms(3,2)]
  by (auto simp: connection_receive_def Let_def connection_ok_def split: if_splits list.splits
      intro!: router_ok_set_object[OF assms(3)])

lemma router_step_ok: "router_step digest rt rt' \<Longrightarrow> router_ok rt \<Longrightarrow> router_ok rt'"
  by (induction rule: router_step.induct)
     (auto intro: router_ok_register router_ok_authenticate router_ok_revoke router_ok_edge router_ok_receive router_ok_close)

lemma router_steps_ok: "router_steps digest rt rt' \<Longrightarrow> router_ok rt \<Longrightarrow> router_ok rt'"
  by (induction rule: router_steps.induct) (auto intro: router_step_ok)

lemma router_ok_init: "router_ok router_init"
  by (simp add: router_ok_def router_init_def)

text \<open>A revoked grant stays where it is, revoked.\<close>

lemma revoked_step:
  assumes "router_step digest rt rt'" "rt_grants rt sid = Some g" "rg_revoked g"
  shows "\<exists>g'. rt_grants rt' sid = Some g' \<and> rg_revoked g'"
  using assms
  by (induction rule: router_step.induct)
     (auto simp: router_register_def router_authenticate_def router_revoke_def router_on_edge_message_def
       connection_receive_def Let_def split: if_splits option.splits edge_body.splits list.splits)

lemma revoked_steps:
  assumes "router_steps digest rt rt'" "rt_grants rt sid = Some g" "rg_revoked g"
  shows "\<exists>g'. rt_grants rt' sid = Some g' \<and> rg_revoked g'"
  using assms by (induction rule: router_steps.induct) (blast intro: revoked_step)+

subsection \<open>Properties\<close>


definition demo_relay_grant :: relay_grant where
  "demo_relay_grant = \<lparr>rg_session_id = ''s'', rg_edge_id = ''e'', rg_device_id = ''d'', rg_capabilities = {''input.tap''},
     rg_expires_at = 100, rg_token_digest = replicate 40 CHR ''t'', rg_revoked = False\<rparr>"

definition demo_router :: router where
  "demo_router = \<lparr>rt_grants = [''s'' \<mapsto> demo_relay_grant], rt_connections = [''s'' \<mapsto> 0],
     rt_objects = [\<lparr>rc_grant = demo_relay_grant, rc_incoming = [], rc_closed = False\<rparr>]\<rparr>"

lemma demo_router_reachable: "router_steps (\<lambda>x. x) router_init demo_router"
proof -
  let ?rt = "router_init\<lparr>rt_grants := [''s'' \<mapsto> demo_relay_grant]\<rparr>"
  have "router_register 5 demo_relay_grant router_init = Inr ((), ?rt)"
    by (simp add: router_register_def demo_relay_grant_def router_init_def RELAY_CAPABILITIES_def)
  moreover have "router_authenticate (\<lambda>x. x) 6 ''s'' (replicate 40 CHR ''t'') ?rt = Inr (0, demo_router)"
    by (simp add: router_authenticate_def demo_relay_grant_def router_init_def demo_router_def Let_def)
  ultimately show ?thesis by (blast intro: rs_refl rs_trans rs_register rs_authenticate)
qed


text \<open>
  Revocation at the relay is final: after a session with a grant has been revoked, whatever the
  router does next (new registrations of the same session included), no token authenticates for it, no
  connection of it sends a frame to the hub, and frames from the edge are dropped.
\<close>

theorem relay_revocation_final:
  assumes "rt_grants rt sid = Some g" "router_steps digest (router_revoke sid rt) rt'"
  shows "\<not> is_ok (router_authenticate digest now sid token rt') \<and>
         (rg_session_id (rc_grant conn) = sid \<longrightarrow>
            \<not> is_ok (connection_send append_cloud dumps now conn rid kind cap payload rt' st)) \<and>
         (rf_session_id f = sid \<longrightarrow>
            router_on_edge_message now e \<lparr>ec_sequence = n, ec_body = Some (Edge_relay_frame f)\<rparr> rt' = (Inr (), rt'))"
proof -
  have "rt_grants (router_revoke sid rt) sid = Some (g\<lparr>rg_revoked := True\<rparr>)"
    using assms(1) by (auto simp: router_revoke_def Let_def split: option.splits)
  from revoked_steps[OF assms(2) this] obtain g' where g': "rt_grants rt' sid = Some g'" "rg_revoked g'" by auto
  show ?thesis
    using g' by (auto simp: router_authenticate_def connection_send_def from_browser_def router_on_edge_message_def
        is_ok_def Let_def split: option.splits sum.splits if_splits)
qed

theorem relay_revocation_final_witness:
  "\<not> is_ok (router_authenticate (\<lambda>x. x) 8 ''s'' (replicate 40 CHR ''t'') (router_revoke ''s'' demo_router))"
proof -
  have "rt_grants demo_router ''s'' = Some demo_relay_grant" by (simp add: demo_router_def)
  from conjunct1[OF relay_revocation_final[OF this rs_refl]] show ?thesis .
qed

end
