(* ===== verification/Debug_Delivery.thy ===== *)
theory Debug_Delivery
  imports Relay "HOL-Library.Char_ord" "HOL-Library.List_Lexorder"
begin

text \<open>
  The delivery of debug grants over the edge stream (\<open>debug_delivery.py\<close>): the delivery records with
  their two stores, the in-memory one and the SQLite one of \<open>sqlite_debug_store.py\<close>, and
  \<open>DebugGrantDelivery\<close>, which records a grant, registers it with the relay, queues it on the hub and
  consumes the acknowledgements and the revocations. The store is the interface \<open>delivery_store\<close>.

  A call that raises half way keeps the effects it had: its result is a pair of the outcome and the
  state. A timestamp is a number of microseconds (the SQLite store writes it as ISO text and reads it
  back); \<open>fromisoformat\<close>, SHA-256 and \<open>str\<close> of a JSON number or container are arguments.
\<close>

datatype delivery_error =
    DeliveryIdsRequired
  | DeliveryCapabilitiesRequired
  | DeliveryProhibited
  | DeliveryTokenShort
  | DeliveryExpired
  | DeliveryExists
  | DeliveryUnknown string
  | DeliveryRelay relay_error
  | DeliveryHub session_error
  | DeliveryGrantPayload
  | DeliveryRevokePayload
  | DeliveryOtherEdge
  | DeliveryAckState string
  | DeliveryOverflow

text \<open>
  The overflow, integrity and decoding errors of the libraries are no \<open>ValueError\<close>; every other error
  above is a \<open>SessionError\<close>, which is one.
\<close>

definition delivery_value_error :: "delivery_error \<Rightarrow> bool" where
  "delivery_value_error err \<longleftrightarrow>
     err \<notin> {DeliveryOverflow, DeliveryHub HubSqlOverflow, DeliveryHub HubSqlIntegrity, DeliveryHub HubDecodeError}"

definition ACK_STATES :: "string set" where
  "ACK_STATES = {''RECEIVED'', ''ACCEPTED'', ''REJECTED'', ''FAILED''}"

definition ALLOWED_DEBUG_CAPABILITIES :: "string set" where
  "ALLOWED_DEBUG_CAPABILITIES = {''view.frame'', ''view.layout'', ''input.tap'', ''input.swipe'', ''input.text'',
     ''debug.steps'', ''debug.variables'', ''evidence.capture''}"

record delivery =
  dv_session_id :: string
  dv_edge_id :: string
  dv_device_id :: string
  dv_capabilities :: "string list"
  dv_expires_at :: int
  dv_state :: string
  dv_error_code :: "string option"
  dv_detail :: "string option"
  dv_cloud_sequence :: "int option"
  dv_lease_id :: "string option"
  dv_fencing_token :: "int option"
  dv_relay_token_digest :: "string option"

text \<open>\<open>replace(existing, ...)\<close>: \<open>cloud_sequence or existing.cloud_sequence\<close> keeps the old number when none or zero is given.\<close>

definition delivery_replace ::
  "string \<Rightarrow> string option \<Rightarrow> string option \<Rightarrow> int option \<Rightarrow> delivery \<Rightarrow> delivery" where
  "delivery_replace state error_code detail cloud_sequence r =
     r\<lparr>dv_state := state, dv_error_code := error_code, dv_detail := detail,
       dv_cloud_sequence := (if cloud_sequence = None \<or> cloud_sequence = Some 0 then dv_cloud_sequence r else cloud_sequence)\<rparr>"

subsection \<open>The in-memory store\<close>

type_synonym mem_deliveries = "string \<rightharpoonup> delivery"

definition memd_create :: "delivery \<Rightarrow> (mem_deliveries, delivery_error, unit) tx" where
  "memd_create record s =
     (case s (dv_session_id record) of
        Some existing \<Rightarrow> if existing \<noteq> record then Inl DeliveryExists else Inr ((), s(dv_session_id record \<mapsto> record))
      | None \<Rightarrow> Inr ((), s(dv_session_id record \<mapsto> record)))"

definition memd_update ::
  "string \<Rightarrow> string \<Rightarrow> string option \<Rightarrow> string option \<Rightarrow> int option \<Rightarrow> (mem_deliveries, delivery_error, delivery) tx" where
  "memd_update session_id state error_code detail cloud_sequence s =
     (case s session_id of
        None \<Rightarrow> Inl (DeliveryUnknown session_id)
      | Some existing \<Rightarrow>
          let updated = delivery_replace state error_code detail cloud_sequence existing
          in Inr (updated, s(session_id \<mapsto> updated)))"

definition memd_get :: "mem_deliveries \<Rightarrow> string \<Rightarrow> delivery option" where
  "memd_get s session_id = s session_id"

subsection \<open>The SQLite store\<close>

text \<open>A row holds the capabilities as one text, separated by commas.\<close>

record delivery_sql_row =
  dw_session_id :: string
  dw_edge_id :: string
  dw_device_id :: string
  dw_capabilities :: string
  dw_expires_at :: int
  dw_state :: string
  dw_error_code :: "string option"
  dw_detail :: "string option"
  dw_cloud_sequence :: "int option"
  dw_lease_id :: "string option"
  dw_fencing_token :: "int option"
  dw_relay_token_digest :: "string option"

type_synonym sql_deliveries = "delivery_sql_row list"

definition row_record :: "delivery_sql_row \<Rightarrow> delivery" where
  "row_record w =
     \<lparr>dv_session_id = dw_session_id w, dv_edge_id = dw_edge_id w, dv_device_id = dw_device_id w,
      dv_capabilities = split_on (CHR '','') (dw_capabilities w), dv_expires_at = dw_expires_at w,
      dv_state = dw_state w, dv_error_code = dw_error_code w, dv_detail = dw_detail w,
      dv_cloud_sequence = dw_cloud_sequence w, dv_lease_id = dw_lease_id w,
      dv_fencing_token = dw_fencing_token w, dv_relay_token_digest = dw_relay_token_digest w\<rparr>"

definition record_row :: "delivery \<Rightarrow> delivery_sql_row" where
  "record_row r =
     \<lparr>dw_session_id = dv_session_id r, dw_edge_id = dv_edge_id r, dw_device_id = dv_device_id r,
      dw_capabilities = join_with (CHR '','') (dv_capabilities r), dw_expires_at = dv_expires_at r,
      dw_state = dv_state r, dw_error_code = dv_error_code r, dw_detail = dv_detail r,
      dw_cloud_sequence = dv_cloud_sequence r, dw_lease_id = dv_lease_id r,
      dw_fencing_token = dv_fencing_token r, dw_relay_token_digest = dv_relay_token_digest r\<rparr>"

definition sql_opt :: "int option \<Rightarrow> bool" where
  "sql_opt v = (case v of None \<Rightarrow> True | Some i \<Rightarrow> sqlite_int i)"

definition sqld_get :: "sql_deliveries \<Rightarrow> string \<Rightarrow> delivery option" where
  "sqld_get s session_id = map_option row_record (find_row (\<lambda>w. dw_session_id w = session_id) s)"

definition sqld_create :: "delivery \<Rightarrow> (sql_deliveries, delivery_error, unit) tx" where
  "sqld_create record s =
     (case find_row (\<lambda>w. dw_session_id w = dv_session_id record) s of
        Some existing \<Rightarrow> if row_record existing \<noteq> record then Inl DeliveryExists else Inr ((), s)
      | None \<Rightarrow>
          if \<not> sql_opt (dv_cloud_sequence record) \<or> \<not> sql_opt (dv_fencing_token record) then Inl DeliveryOverflow
          else Inr ((), s @ [record_row record]))"

definition sqld_update ::
  "string \<Rightarrow> string \<Rightarrow> string option \<Rightarrow> string option \<Rightarrow> int option \<Rightarrow> (sql_deliveries, delivery_error, delivery) tx" where
  "sqld_update session_id state error_code detail cloud_sequence s =
     (case sqld_get s session_id of
        None \<Rightarrow> Inl (DeliveryUnknown session_id)
      | Some current \<Rightarrow>
          let updated = delivery_replace state error_code detail cloud_sequence current
          in if \<not> sql_opt (dv_cloud_sequence updated) then Inl DeliveryOverflow
             else Inr (updated, upd_where (\<lambda>w. dw_session_id w = session_id)
                    (\<lambda>w. w\<lparr>dw_state := dv_state updated, dw_error_code := dv_error_code updated,
                           dw_detail := dv_detail updated, dw_cloud_sequence := dv_cloud_sequence updated\<rparr>) s))"

subsection \<open>Grant delivery\<close>

record ('d, 'st) delivery_hub =
  dh_store :: 'd
  dh_router :: "router option"
  dh_hub :: 'st

record grant_request =
  gq_session_id :: string
  gq_edge_id :: string
  gq_device_id :: string
  gq_capabilities :: "string list"
  gq_expires_at :: int
  gq_relay_token :: "string option"
  gq_lease_id :: "string option"
  gq_fencing_token :: "int option"

definition default_text :: "string option \<Rightarrow> string \<Rightarrow> string" where
  "default_text v d = (case v of Some t \<Rightarrow> if t = [] then d else t | None \<Rightarrow> d)"

definition default_int :: "int option \<Rightarrow> int \<Rightarrow> int" where
  "default_int v d = (case v of Some i \<Rightarrow> if i = 0 then d else i | None \<Rightarrow> d)"

text \<open>\<open>tuple(sorted(set(capabilities)))\<close>.\<close>

definition sorted_capabilities :: "string list \<Rightarrow> string list" where
  "sorted_capabilities cs = sort (remdups cs)"

definition pending_delivery :: "(string \<Rightarrow> string) \<Rightarrow> grant_request \<Rightarrow> string \<Rightarrow> delivery" where
  "pending_delivery digest q token =
     \<lparr>dv_session_id = gq_session_id q, dv_edge_id = gq_edge_id q, dv_device_id = gq_device_id q,
      dv_capabilities = sorted_capabilities (gq_capabilities q), dv_expires_at = gq_expires_at q, dv_state = ''PENDING'',
      dv_error_code = None, dv_detail = None, dv_cloud_sequence = None,
      dv_lease_id = Some (default_text (gq_lease_id q) (''debug-lease/'' @ gq_session_id q)),
      dv_fencing_token = Some (default_int (gq_fencing_token q) 1), dv_relay_token_digest = Some (digest token)\<rparr>"

definition grant_message :: "delivery \<Rightarrow> string \<Rightarrow> cloud_to_edge" where
  "grant_message r token =
     \<lparr>ce_sequence = 0, ce_body = Some (Debug_grant
        \<lparr>dg_session_id = dv_session_id r, dg_device_id = dv_device_id r, dg_expires_at = dv_expires_at r,
         dg_capabilities = dv_capabilities r, dg_lease_id = default_text (dv_lease_id r) [],
         dg_fencing_token = default_int (dv_fencing_token r) 0, dg_relay_token = token\<rparr>)\<rparr>"

definition register_grant ::
  "(string \<Rightarrow> string) \<Rightarrow> int \<Rightarrow> delivery \<Rightarrow> string \<Rightarrow> router \<Rightarrow> relay_error + router" where
  "register_grant digest now r token rt =
     (case relay_grant_from_token digest (dv_session_id r) (dv_edge_id r) (dv_device_id r) (dv_capabilities r)
             (dv_expires_at r) token of
        Inl err \<Rightarrow> Inl err
      | Inr grant \<Rightarrow> (case router_register now grant rt of Inl err \<Rightarrow> Inl err | Inr (_, rt') \<Rightarrow> Inr rt'))"

definition delivery_queue ::
  "(delivery \<Rightarrow> 'd \<Rightarrow> delivery_error + unit \<times> 'd) \<Rightarrow>
   (string \<Rightarrow> string \<Rightarrow> string option \<Rightarrow> string option \<Rightarrow> int option \<Rightarrow> 'd \<Rightarrow> delivery_error + delivery \<times> 'd) \<Rightarrow>
   (string \<Rightarrow> cloud_to_edge \<Rightarrow> 'st \<Rightarrow> session_error + cloud_to_edge \<times> 'st) \<Rightarrow>
   (string \<Rightarrow> string) \<Rightarrow> string \<Rightarrow> int \<Rightarrow> grant_request \<Rightarrow> ('d, 'st) delivery_hub \<Rightarrow>
   (delivery_error + delivery) \<times> ('d, 'st) delivery_hub" where
  "delivery_queue create update append_cloud digest random_token now q h =
     (let token = default_text (gq_relay_token q) random_token;
          record = pending_delivery digest q token in
      if gq_session_id q = [] \<or> gq_edge_id q = [] \<or> gq_device_id q = [] then (Inl DeliveryIdsRequired, h)
      else if gq_capabilities q = [] then (Inl DeliveryCapabilitiesRequired, h)
      else if \<not> set (gq_capabilities q) \<subseteq> ALLOWED_DEBUG_CAPABILITIES then (Inl DeliveryProhibited, h)
      else if length token < 32 then (Inl DeliveryTokenShort, h)
      else if gq_expires_at q \<le> now then (Inl DeliveryExpired, h)
      else case create record (dh_store h) of
             Inl err \<Rightarrow> (Inl err, h)
           | Inr (_, s1) \<Rightarrow>
               (case (case dh_router h of
                        None \<Rightarrow> Inr None
                      | Some rt \<Rightarrow> (case register_grant digest now record token rt of
                                       Inl err \<Rightarrow> Inl err | Inr rt' \<Rightarrow> Inr (Some rt'))) of
                  Inl err \<Rightarrow> (Inl (DeliveryRelay err), h\<lparr>dh_store := s1\<rparr>)
                | Inr router' \<Rightarrow>
                    (case hub_queue append_cloud (gq_edge_id q) (grant_message record token) (dh_hub h) of
                       Inl err \<Rightarrow> (Inl (DeliveryHub err), h\<lparr>dh_store := s1, dh_router := router'\<rparr>)
                     | Inr (stored, st') \<Rightarrow>
                         (case update (gq_session_id q) ''QUEUED'' None None (Some (ce_sequence stored)) s1 of
                            Inl err \<Rightarrow> (Inl err, \<lparr>dh_store = s1, dh_router = router', dh_hub = st'\<rparr>)
                          | Inr (r, s2) \<Rightarrow> (Inr r, \<lparr>dh_store = s2, dh_router = router', dh_hub = st'\<rparr>)))))"

text \<open>\<open>str(value)\<close> of a JSON value: \<open>repr\<close> stands for floats and containers.\<close>

fun py_str :: "(json \<Rightarrow> string) \<Rightarrow> json \<Rightarrow> string" where
  "py_str repr (JStr s) = s"
| "py_str repr JNull = ''None''"
| "py_str repr (JBool b) = (if b then ''True'' else ''False'')"
| "py_str repr (JInt i) = dec_int i"
| "py_str repr v = repr v"

fun optional_positive_int :: "json option \<Rightarrow> unit + int option" where
  "optional_positive_int None = Inr None"
| "optional_positive_int (Some JNull) = Inr None"
| "optional_positive_int (Some (JInt i)) = (if i < 1 then Inl () else Inr (Some i))"
| "optional_positive_int (Some (JFloat x)) =
     (if of_int \<lfloor>x\<rfloor> = x \<and> 1 \<le> \<lfloor>x\<rfloor> then Inr (Some \<lfloor>x\<rfloor>) else Inl ())"
| "optional_positive_int (Some _) = Inl ()"

fun string_items :: "json list \<Rightarrow> string list option" where
  "string_items [] = Some []"
| "string_items (JStr s # xs) = map_option (Cons s) (string_items xs)"
| "string_items (_ # xs) = None"

definition opt_str :: "(json \<Rightarrow> string) \<Rightarrow> json option \<Rightarrow> string option" where
  "opt_str repr v = (case v of None \<Rightarrow> None | Some JNull \<Rightarrow> None | Some w \<Rightarrow> Some (py_str repr w))"

definition event_request ::
  "(json \<Rightarrow> string) \<Rightarrow> (string \<Rightarrow> int option) \<Rightarrow> dict \<Rightarrow> grant_request option" where
  "event_request repr fromisoformat payload =
     (case dget payload ''capabilities'' of
        Some (JList items) \<Rightarrow>
          (case (string_items items, dget payload ''sessionId'', dget payload ''edgeId'', dget payload ''deviceId'',
                 dget payload ''expiresAt'') of
             (Some capabilities, Some sid, Some eid, Some did, Some until) \<Rightarrow>
               (case (fromisoformat (py_str repr until), optional_positive_int (dget payload ''fencingToken'')) of
                  (Some expires_at, Inr fencing) \<Rightarrow>
                    Some \<lparr>gq_session_id = py_str repr sid, gq_edge_id = py_str repr eid, gq_device_id = py_str repr did,
                      gq_capabilities = capabilities, gq_expires_at = expires_at,
                      gq_relay_token = opt_str repr (dget payload ''relayToken''),
                      gq_lease_id = opt_str repr (dget payload ''leaseId''), gq_fencing_token = fencing\<rparr>
                | _ \<Rightarrow> None)
           | _ \<Rightarrow> None)
      | _ \<Rightarrow> None)"

definition queue_from_event ::
  "(delivery \<Rightarrow> 'd \<Rightarrow> delivery_error + unit \<times> 'd) \<Rightarrow>
   (string \<Rightarrow> string \<Rightarrow> string option \<Rightarrow> string option \<Rightarrow> int option \<Rightarrow> 'd \<Rightarrow> delivery_error + delivery \<times> 'd) \<Rightarrow>
   (string \<Rightarrow> cloud_to_edge \<Rightarrow> 'st \<Rightarrow> session_error + cloud_to_edge \<times> 'st) \<Rightarrow>
   (json \<Rightarrow> string) \<Rightarrow> (string \<Rightarrow> int option) \<Rightarrow> (string \<Rightarrow> string) \<Rightarrow> string \<Rightarrow> int \<Rightarrow> dict \<Rightarrow> ('d, 'st) delivery_hub \<Rightarrow>
   (delivery_error + delivery) \<times> ('d, 'st) delivery_hub" where
  "queue_from_event create update append_cloud repr fromisoformat digest random_token now payload h =
     (case event_request repr fromisoformat payload of
        None \<Rightarrow> (Inl DeliveryGrantPayload, h)
      | Some q \<Rightarrow>
          (case delivery_queue create update append_cloud digest random_token now q h of
             (Inl err, h') \<Rightarrow> (Inl (if delivery_value_error err then DeliveryGrantPayload else err), h')
           | (Inr r, h') \<Rightarrow> (Inr r, h')))"

definition revoke_reason :: "(json \<Rightarrow> string) \<Rightarrow> dict \<Rightarrow> string" where
  "revoke_reason repr payload = take 1000 (py_str repr (dget_or payload ''reason'' (JStr ''revoked'')))"

definition revoke_from_event ::
  "(string \<Rightarrow> string \<Rightarrow> string option \<Rightarrow> string option \<Rightarrow> int option \<Rightarrow> 'd \<Rightarrow> delivery_error + delivery \<times> 'd) \<Rightarrow>
   ('d \<Rightarrow> string \<Rightarrow> delivery option) \<Rightarrow>
   (string \<Rightarrow> cloud_to_edge \<Rightarrow> 'st \<Rightarrow> session_error + cloud_to_edge \<times> 'st) \<Rightarrow>
   (json \<Rightarrow> string) \<Rightarrow> dict \<Rightarrow> ('d, 'st) delivery_hub \<Rightarrow> (delivery_error + cloud_to_edge) \<times> ('d, 'st) delivery_hub" where
  "revoke_from_event update get append_cloud repr payload h =
     (case (dget payload ''sessionId'', dget payload ''deviceId'') of
        (Some s, Some d) \<Rightarrow>
          (let session_id = py_str repr s; device_id = py_str repr d in
           if session_id = [] \<or> device_id = [] then (Inl DeliveryRevokePayload, h)
           else
             let h1 = h\<lparr>dh_router := map_option (router_revoke session_id) (dh_router h)\<rparr> in
             case dget payload ''edgeId'' of
               None \<Rightarrow> (Inl DeliveryRevokePayload, h1)
             | Some e \<Rightarrow>
                 (case hub_queue append_cloud (py_str repr e)
                         \<lparr>ce_sequence = 0, ce_body = Some (Debug_revoke \<lparr>dr_session_id = session_id,
                            dr_device_id = device_id, dr_reason = revoke_reason repr payload\<rparr>)\<rparr> (dh_hub h1) of
                    Inl err \<Rightarrow> (Inl (if delivery_value_error (DeliveryHub err) then DeliveryRevokePayload else DeliveryHub err), h1)
                  | Inr (queued, st') \<Rightarrow>
                      (let h2 = h1\<lparr>dh_hub := st'\<rparr> in
                       case get (dh_store h2) session_id of
                         None \<Rightarrow> (Inr queued, h2)
                       | Some _ \<Rightarrow>
                           (case update session_id ''REVOKED'' (Some ''REVOKED'') (Some (revoke_reason repr payload))
                                   (Some (ce_sequence queued)) (dh_store h2) of
                              Inl err \<Rightarrow> (Inl (if delivery_value_error err then DeliveryRevokePayload else err), h2)
                            | Inr (_, s') \<Rightarrow> (Inr queued, h2\<lparr>dh_store := s'\<rparr>)))))
      | _ \<Rightarrow> (Inl DeliveryRevokePayload, h))"

definition empty_none :: "string \<Rightarrow> string option" where
  "empty_none t = (if t = [] then None else Some t)"

definition delivery_accept_edge_message ::
  "(string \<Rightarrow> string \<Rightarrow> string option \<Rightarrow> string option \<Rightarrow> int option \<Rightarrow> 'd \<Rightarrow> delivery_error + delivery \<times> 'd) \<Rightarrow>
   ('d \<Rightarrow> string \<Rightarrow> delivery option) \<Rightarrow> string \<Rightarrow> edge_to_cloud \<Rightarrow> 'd \<Rightarrow> delivery_error + unit \<times> 'd" where
  "delivery_accept_edge_message update get edge_id message s =
     (case ec_body message of
        Some (Command_ack ack) \<Rightarrow>
          (case get s (ca_command_id ack) of
             None \<Rightarrow> Inr ((), s)
           | Some record \<Rightarrow>
               if dv_edge_id record \<noteq> edge_id then Inl DeliveryOtherEdge
               else if ca_state ack \<notin> ACK_STATES then Inl (DeliveryAckState (ca_state ack))
               else (case update (dv_session_id record) (ca_state ack) (empty_none (ca_error_code ack))
                            (empty_none (ca_detail ack)) None s of
                       Inl err \<Rightarrow> Inl err
                     | Inr (_, s') \<Rightarrow> Inr ((), s')))
      | _ \<Rightarrow> Inr ((), s))"

subsection \<open>What a delivery store promises\<close>

text \<open>Records that the SQLite columns can hold: at least one capability, none with a comma.\<close>

definition columns_ok :: "delivery \<Rightarrow> bool" where
  "columns_ok r \<longleftrightarrow> dv_capabilities r \<noteq> [] \<and> (\<forall>k \<in> set (dv_capabilities r). CHR '','' \<notin> set k)"

locale delivery_store =
  fixes inv :: "'d \<Rightarrow> bool"
    and create :: "delivery \<Rightarrow> 'd \<Rightarrow> delivery_error + unit \<times> 'd"
    and update :: "string \<Rightarrow> string \<Rightarrow> string option \<Rightarrow> string option \<Rightarrow> int option \<Rightarrow> 'd \<Rightarrow> delivery_error + delivery \<times> 'd"
    and get :: "'d \<Rightarrow> string \<Rightarrow> delivery option"
  assumes create_sound: "inv s \<Longrightarrow> columns_ok r \<Longrightarrow> create r s = Inr (u, s') \<Longrightarrow>
        inv s' \<and> (get s (dv_session_id r) = None \<or> get s (dv_session_id r) = Some r) \<and> get s' = (get s)(dv_session_id r \<mapsto> r)"
    and create_accepts: "inv s \<Longrightarrow> columns_ok r \<Longrightarrow> get s (dv_session_id r) = None \<Longrightarrow> sql_opt (dv_cloud_sequence r) \<Longrightarrow>
        sql_opt (dv_fencing_token r) \<Longrightarrow> is_ok (create r s)"
    and create_other: "inv s \<Longrightarrow> get s (dv_session_id r) = Some r' \<Longrightarrow> r' \<noteq> r \<Longrightarrow> create r s = Inl DeliveryExists"
    and update_sound: "inv s \<Longrightarrow> update sid st ec dt n s = Inr (r', s') \<Longrightarrow>
        inv s' \<and> (\<exists>r. get s sid = Some r \<and> r' = delivery_replace st ec dt n r) \<and> get s' = (get s)(sid \<mapsto> r')"
    and update_accepts: "inv s \<Longrightarrow> get s sid = Some r \<Longrightarrow> sql_opt n \<Longrightarrow> is_ok (update sid st ec dt n s)"
    and get_key: "inv s \<Longrightarrow> get s sid = Some r \<Longrightarrow> dv_session_id r = sid"

definition memd_inv :: "mem_deliveries \<Rightarrow> bool" where
  "memd_inv s \<longleftrightarrow> (\<forall>sid r. s sid = Some r \<longrightarrow> dv_session_id r = sid)"

lemma delivery_replace_simps [simp]:
  "dv_session_id (delivery_replace st ec dt n r) = dv_session_id r"
  "dv_edge_id (delivery_replace st ec dt n r) = dv_edge_id r"
  "dv_state (delivery_replace st ec dt n r) = st"
  "dv_expires_at (delivery_replace st ec dt n r) = dv_expires_at r"
  "dv_capabilities (delivery_replace st ec dt n r) = dv_capabilities r"
  "dv_relay_token_digest (delivery_replace st ec dt n r) = dv_relay_token_digest r"
  by (simp_all add: delivery_replace_def)

lemma delivery_replace_storable: "sql_opt (dv_cloud_sequence r) \<Longrightarrow> sql_opt n \<Longrightarrow> sql_opt (dv_cloud_sequence (delivery_replace st ec dt n r))"
  by (simp add: delivery_replace_def)

lemma memd_invD: "memd_inv s \<Longrightarrow> s sid = Some r \<Longrightarrow> dv_session_id r = sid"
  by (simp add: memd_inv_def)

lemma memd_inv_upd: "memd_inv s \<Longrightarrow> dv_session_id r = sid \<Longrightarrow> memd_inv (s(sid \<mapsto> r))"
  by (simp add: memd_inv_def)

interpretation memd: delivery_store memd_inv memd_create memd_update memd_get
proof (unfold_locales, goal_cases)
  case (1 s r u s')
  then show ?case
    by (auto simp: memd_create_def memd_get_def[abs_def] intro: memd_inv_upd split: option.splits if_splits)
next
  case (4 s sid st ec dt n r' s')
  then show ?case
    by (auto simp: memd_update_def memd_get_def[abs_def] Let_def intro!: memd_inv_upd dest: memd_invD split: option.splits)
qed (auto simp: memd_create_def memd_update_def memd_get_def is_ok_def Let_def dest: memd_invD split: option.splits)

text \<open>The SQLite store reads back what it wrote.\<close>

lemma split_join: "ps \<noteq> [] \<Longrightarrow> (\<forall>p \<in> set ps. c \<notin> set p) \<Longrightarrow> split_on c (join_with c ps) = ps"
proof (induction c ps rule: join_with.induct)
  case (2 c p)
  then have "c \<notin> set p" by simp
  then show ?case by (induction p) auto
next
  case (3 c p q ps)
  then have IH: "split_on c (join_with c (q # ps)) = q # ps" and "c \<notin> set p" by auto
  then show ?case by (induction p) (auto split: list.splits)
qed simp

lemma row_record_row: "columns_ok r \<Longrightarrow> row_record (record_row r) = r"
  by (simp add: columns_ok_def row_record_def record_row_def split_join)

definition sqld_inv :: "sql_deliveries \<Rightarrow> bool" where
  "sqld_inv s \<longleftrightarrow> distinct (map dw_session_id s) \<and> (\<forall>w \<in> set s. sql_opt (dw_cloud_sequence w))"

lemma row_record_key [simp]: "dv_session_id (row_record w) = dw_session_id w"
  "dv_cloud_sequence (row_record w) = dw_cloud_sequence w"
  by (simp_all add: row_record_def)

lemma record_row_key [simp]: "dw_session_id (record_row r) = dv_session_id r"
  "dw_cloud_sequence (record_row r) = dv_cloud_sequence r"
  by (simp_all add: record_row_def)

lemma sqld_get_append: "sqld_get (s @ [w]) sid = (case sqld_get s sid of Some r \<Rightarrow> Some r | None \<Rightarrow> if dw_session_id w = sid then Some (row_record w) else None)"
  by (auto simp: sqld_get_def find_row_append split: option.splits)

lemma sqld_update_rows:
  assumes "sqld_get s sid = Some r"
  shows "sqld_get (upd_where (\<lambda>w. dw_session_id w = sid)
            (\<lambda>w. w\<lparr>dw_state := dv_state r', dw_error_code := dv_error_code r', dw_detail := dv_detail r',
                   dw_cloud_sequence := dv_cloud_sequence r'\<rparr>) s) =
         (sqld_get s)(sid \<mapsto> r\<lparr>dv_state := dv_state r', dv_error_code := dv_error_code r', dv_detail := dv_detail r',
                            dv_cloud_sequence := dv_cloud_sequence r'\<rparr>)"
proof
  fix sid'
  obtain w where w: "find_row (\<lambda>w. dw_session_id w = sid) s = Some w" "r = row_record w" "dw_session_id w = sid"
    using assms by (auto simp: sqld_get_def dest: find_row_SomeD)
  show "sqld_get (upd_where (\<lambda>w. dw_session_id w = sid) (\<lambda>w. w\<lparr>dw_state := dv_state r',
      dw_error_code := dv_error_code r', dw_detail := dv_detail r', dw_cloud_sequence := dv_cloud_sequence r'\<rparr>) s) sid' =
    ((sqld_get s)(sid \<mapsto> r\<lparr>dv_state := dv_state r', dv_error_code := dv_error_code r', dv_detail := dv_detail r',
      dv_cloud_sequence := dv_cloud_sequence r'\<rparr>)) sid'"
  proof (cases "sid' = sid")
    case True
    then show ?thesis
      unfolding sqld_get_def by (subst find_row_upd_where_same) (simp_all add: w row_record_def)
  next
    case False
    have "map_option row_record (map_option (\<lambda>x. if dw_session_id x = sid then g x else x)
        (find_row (\<lambda>w. dw_session_id w = sid') s)) = map_option row_record (find_row (\<lambda>w. dw_session_id w = sid') s)" for g
      using find_row_SomeD[of "\<lambda>w. dw_session_id w = sid'" s] False
      by (cases "find_row (\<lambda>w. dw_session_id w = sid') s") auto
    then show ?thesis
      unfolding sqld_get_def using False by (subst find_row_upd_where_same) simp_all
  qed
qed

lemma sqld_create_law:
  assumes "sqld_inv s" "columns_ok r" "sqld_create r s = Inr (u, s')"
  shows "sqld_inv s' \<and> (sqld_get s (dv_session_id r) = None \<or> sqld_get s (dv_session_id r) = Some r) \<and>
         sqld_get s' = (sqld_get s)(dv_session_id r \<mapsto> r)"
proof (cases "find_row (\<lambda>w. dw_session_id w = dv_session_id r) s")
  case None
  then have s': "s' = s @ [record_row r]" "sql_opt (dv_cloud_sequence r)"
    using assms(3) by (auto simp: sqld_create_def split: if_splits)
  have "sqld_inv s'" using assms(1) None s' by (auto simp: sqld_inv_def find_row_None)
  moreover have "sqld_get s' = (sqld_get s)(dv_session_id r \<mapsto> r)"
  proof
    fix sid
    have "sqld_get s (dv_session_id r) = None" using None by (simp add: sqld_get_def)
    then show "sqld_get s' sid = ((sqld_get s)(dv_session_id r \<mapsto> r)) sid"
      using assms(2) by (auto simp: s' sqld_get_append row_record_row split: option.splits)
  qed
  ultimately show ?thesis using None by (simp add: sqld_get_def)
next
  case (Some w)
  then have "s' = s" "row_record w = r" using assms(3) by (auto simp: sqld_create_def split: if_splits)
  then show ?thesis using assms(1) Some by (auto simp: sqld_get_def fun_upd_idem)
qed

lemma sqld_update_law:
  assumes "sqld_inv s" "sqld_update sid st ec dt n s = Inr (r', s')"
  shows "sqld_inv s' \<and> (\<exists>r. sqld_get s sid = Some r \<and> r' = delivery_replace st ec dt n r) \<and>
         sqld_get s' = (sqld_get s)(sid \<mapsto> r')"
proof -
  obtain r where r: "sqld_get s sid = Some r" "r' = delivery_replace st ec dt n r" "sql_opt (dv_cloud_sequence r')"
    and s': "s' = upd_where (\<lambda>w. dw_session_id w = sid) (\<lambda>w. w\<lparr>dw_state := dv_state r', dw_error_code := dv_error_code r',
        dw_detail := dv_detail r', dw_cloud_sequence := dv_cloud_sequence r'\<rparr>) s"
    using assms(2) by (auto simp: sqld_update_def Let_def split: option.splits if_splits)
  have "sqld_inv s'" using assms(1) r(3) by (auto simp: s' sqld_inv_def map_upd_where_key)
  moreover have "sqld_get s' = (sqld_get s)(sid \<mapsto> r')"
    using sqld_update_rows[OF r(1), of r'] unfolding s' by (simp add: r(2) delivery_replace_def)
  ultimately show ?thesis using r by blast
qed

interpretation sqld: delivery_store sqld_inv sqld_create sqld_update sqld_get
proof (unfold_locales, goal_cases)
  case (5 s sid r n st ec dt)
  have "sql_opt (dv_cloud_sequence (delivery_replace st ec dt n r))"
    using 5 by (intro delivery_replace_storable) (auto simp: sqld_get_def sqld_inv_def dest!: find_row_SomeD)
  then show ?case using 5(2) by (simp add: sqld_update_def Let_def)
next
  case (1 s r u s')
  then show ?case by (rule sqld_create_law)
next
  case (4 s sid st ec dt n r' s')
  then show ?case by (rule sqld_update_law)
next
  case (6 s sid r)
  then show ?case by (auto simp: sqld_get_def dest!: find_row_SomeD)
qed (auto simp: sqld_create_def sqld_get_def)

subsection \<open>Delivery over any store\<close>

lemma allowed_capability_text: "k \<in> ALLOWED_DEBUG_CAPABILITIES \<Longrightarrow> CHR '','' \<notin> set k"
  by (auto simp: ALLOWED_DEBUG_CAPABILITIES_def)

lemma pending_columns_ok:
  "gq_capabilities q \<noteq> [] \<Longrightarrow> set (gq_capabilities q) \<subseteq> ALLOWED_DEBUG_CAPABILITIES \<Longrightarrow> columns_ok (pending_delivery digest q token)"
  using length_sort[of "\<lambda>x. x" "remdups (gq_capabilities q)"]
  by (auto simp: columns_ok_def pending_delivery_def sorted_capabilities_def simp del: length_sort
      dest: allowed_capability_text)

lemma pending_delivery_simps [simp]:
  "dv_session_id (pending_delivery digest q token) = gq_session_id q"
  "dv_edge_id (pending_delivery digest q token) = gq_edge_id q"
  "dv_state (pending_delivery digest q token) = ''PENDING''"
  "dv_relay_token_digest (pending_delivery digest q token) = Some (digest token)"
  by (simp_all add: pending_delivery_def)

context delivery_store
begin

lemma queue_success:
  assumes "inv (dh_store h)"
    and "delivery_queue create update append_cloud digest random_token now q h = (Inr r, h')"
  shows "\<exists>m. append_cloud (gq_edge_id q) (grant_message (pending_delivery digest q (default_text (gq_relay_token q) random_token))
                (default_text (gq_relay_token q) random_token)) (dh_hub h) = Inr (m, dh_hub h') \<and>
           r = delivery_replace ''QUEUED'' None None (Some (ce_sequence m))
                 (pending_delivery digest q (default_text (gq_relay_token q) random_token)) \<and>
           inv (dh_store h') \<and> get (dh_store h') = (get (dh_store h))(gq_session_id q \<mapsto> r) \<and>
           set (gq_capabilities q) \<subseteq> ALLOWED_DEBUG_CAPABILITIES \<and> now < gq_expires_at q"
proof -
  define token where "token = default_text (gq_relay_token q) random_token"
  define p where "p = pending_delivery digest q token"
  from assms(2) obtain s1 m s2 where c: "create p (dh_store h) = Inr ((), s1)"
    and m: "hub_queue append_cloud (gq_edge_id q) (grant_message p token) (dh_hub h) = Inr (m, dh_hub h')"
    and u: "update (gq_session_id q) ''QUEUED'' None None (Some (ce_sequence m)) s1 = Inr (r, dh_store h')"
    and g: "gq_capabilities q \<noteq> []" "set (gq_capabilities q) \<subseteq> ALLOWED_DEBUG_CAPABILITIES" "now < gq_expires_at q"
    unfolding p_def token_def
    by (auto simp: delivery_queue_def Let_def split: if_splits sum.splits prod.splits option.splits)
  note create = create_sound[OF assms(1) _ c]
  have cs: "inv s1" "get s1 = (get (dh_store h))(gq_session_id q \<mapsto> p)"
    using create pending_columns_ok[OF g(1,2)] by (auto simp: p_def)
  note upd = update_sound[OF cs(1) u]
  have "append_cloud (gq_edge_id q) (grant_message p token) (dh_hub h) = Inr (m, dh_hub h')"
    using m by (auto simp: hub_queue_def split: if_splits)
  moreover have "r = delivery_replace ''QUEUED'' None None (Some (ce_sequence m)) p" using upd cs(2) by auto
  ultimately show ?thesis using upd cs(2) g unfolding p_def token_def by (intro exI[of _ m]) simp
qed

text \<open>A session that is already recorded in another state is refused before anything changes.\<close>

lemma queue_again:
  assumes "inv (dh_store h)" "get (dh_store h) (gq_session_id q) = Some r" "dv_state r \<noteq> ''PENDING''"
  shows "\<exists>err. delivery_queue create update append_cloud digest random_token now q h = (Inl err, h)"
proof -
  have "create (pending_delivery digest q t) (dh_store h) = Inl DeliveryExists" for t
    using assms by (intro create_other[of _ _ r]) auto
  then show ?thesis by (simp add: delivery_queue_def Let_def)
qed

lemma accept_sound:
  assumes "inv s" "delivery_accept_edge_message update get e \<lparr>ec_sequence = n, ec_body = Some (Command_ack a)\<rparr> s = Inr (u, s')"
    and "get s (ca_command_id a) = Some r"
  shows "dv_edge_id r = e \<and> ca_state a \<in> ACK_STATES \<and> inv s' \<and>
         get s' = (get s)(ca_command_id a \<mapsto>
           delivery_replace (ca_state a) (empty_none (ca_error_code a)) (empty_none (ca_detail a)) None r)"
proof -
  have key: "dv_session_id r = ca_command_id a" by (rule get_key[OF assms(1,3)])
  obtain r' where "dv_edge_id r = e" "ca_state a \<in> ACK_STATES"
    "update (ca_command_id a) (ca_state a) (empty_none (ca_error_code a)) (empty_none (ca_detail a)) None s = Inr (r', s')"
    using assms(2,3) key by (auto simp: delivery_accept_edge_message_def split: if_splits sum.splits)
  then show ?thesis using update_sound[OF assms(1), of "ca_command_id a"] assms(3) by fastforce
qed

lemma accept_accepts:
  assumes "inv s" "get s (ca_command_id a) = Some r" "dv_edge_id r = e" "ca_state a \<in> ACK_STATES"
  shows "is_ok (delivery_accept_edge_message update get e \<lparr>ec_sequence = n, ec_body = Some (Command_ack a)\<rparr> s)"
proof -
  obtain r' s' where "update (ca_command_id a) (ca_state a) (empty_none (ca_error_code a)) (empty_none (ca_detail a)) None s = Inr (r', s')"
    using update_accepts[OF assms(1,2), of None "ca_state a" "empty_none (ca_error_code a)" "empty_none (ca_detail a)"]
    by (auto simp: sql_opt_def is_ok_iff)
  then show ?thesis using assms get_key[OF assms(1,2)] by (simp add: delivery_accept_edge_message_def)
qed

end

subsection \<open>Properties\<close>

text \<open>
  A delivered debug grant is recorded, queued and bound once: when the delivery returns, the SQLite
  store holds the record in state QUEUED with the sorted capabilities of the request, all allowed and
  not expired, and the digest of the token; the hub has queued, for the edge of the request, the grant with
  that token. The same request presented again is refused and changes neither store, relay nor hub.
\<close>

theorem grant_delivered_once:
  assumes "sqld_inv (dh_store h)"
    and "delivery_queue sqld_create sqld_update append_cloud digest random_token now q h = (Inr r, h')"
  shows "sqld_get (dh_store h') = (sqld_get (dh_store h))(gq_session_id q \<mapsto> r) \<and> dv_state r = ''QUEUED'' \<and>
         set (dv_capabilities r) = set (gq_capabilities q) \<and> sorted (dv_capabilities r) \<and> distinct (dv_capabilities r) \<and>
         set (dv_capabilities r) \<subseteq> ALLOWED_DEBUG_CAPABILITIES \<and> now < dv_expires_at r \<and>
         (\<exists>m token. append_cloud (gq_edge_id q) (grant_message r token) (dh_hub h) = Inr (m, dh_hub h') \<and>
            dv_relay_token_digest r = Some (digest token)) \<and>
         (\<exists>err. delivery_queue sqld_create sqld_update append_cloud digest token' now' q h' = (Inl err, h'))"
proof -
  let ?t = "default_text (gq_relay_token q) random_token"
  obtain m where m: "append_cloud (gq_edge_id q) (grant_message (pending_delivery digest q ?t) ?t) (dh_hub h) = Inr (m, dh_hub h')"
    "r = delivery_replace ''QUEUED'' None None (Some (ce_sequence m)) (pending_delivery digest q ?t)"
    "sqld_inv (dh_store h')" "sqld_get (dh_store h') = (sqld_get (dh_store h))(gq_session_id q \<mapsto> r)"
    "set (gq_capabilities q) \<subseteq> ALLOWED_DEBUG_CAPABILITIES" "now < gq_expires_at q"
    using sqld.queue_success[OF assms] by blast
  have "grant_message r ?t = grant_message (pending_delivery digest q ?t) ?t"
    by (simp add: m(2) grant_message_def delivery_replace_def)
  then have "append_cloud (gq_edge_id q) (grant_message r ?t) (dh_hub h) = Inr (m, dh_hub h')" using m(1) by simp
  moreover have "\<exists>err. delivery_queue sqld_create sqld_update append_cloud digest token' now' q h' = (Inl err, h')"
    by (rule sqld.queue_again[OF m(3), of q r]) (simp_all add: m(4) m(2))
  moreover have "dv_relay_token_digest r = Some (digest ?t)" "dv_state r = ''QUEUED''"
    "dv_capabilities r = sorted_capabilities (gq_capabilities q)" "dv_expires_at r = gq_expires_at q"
    by (simp_all add: m(2)) (simp_all add: pending_delivery_def)
  ultimately show ?thesis
    using m(4-6) by (intro conjI) (auto simp: sorted_capabilities_def)
qed

definition demo_request :: grant_request where
  "demo_request = \<lparr>gq_session_id = ''s'', gq_edge_id = ''e'', gq_device_id = ''d'', gq_capabilities = [''view.frame'', ''input.tap''],
     gq_expires_at = 100, gq_relay_token = Some (replicate 40 CHR ''t''), gq_lease_id = None, gq_fencing_token = None\<rparr>"

theorem grant_delivered_once_witness:
  "\<exists>r h'. delivery_queue sqld_create sqld_update mem_append_cloud (\<lambda>x. x) [] 5 demo_request
             \<lparr>dh_store = [], dh_router = Some router_init, dh_hub = mem_init\<rparr> = (Inr r, h') \<and>
          sqld_get (dh_store h') ''s'' = Some r \<and> dv_state r = ''QUEUED''"
proof -
  let ?h = "\<lparr>dh_store = [], dh_router = Some router_init, dh_hub = mem_init\<rparr>"
  let ?q = "delivery_queue sqld_create sqld_update mem_append_cloud (\<lambda>x. x) [] 5 demo_request ?h"
  have "\<exists>r h'. ?q = (Inr r, h')"
    by (simp add: delivery_queue_def demo_request_def ALLOWED_DEBUG_CAPABILITIES_def default_text_def default_int_def
        pending_delivery_def sorted_capabilities_def sqld_create_def sql_opt_def sqlite_int_def register_grant_def
        relay_grant_from_token_def router_register_def RELAY_CAPABILITIES_def router_init_def hub_queue_def
        grant_message_def mem_append_cloud_def mem_init_def empty_edge_state_def sqld_update_def sqld_get_def
        record_row_def row_record_def delivery_replace_def Let_def)
  then obtain r h' where q: "?q = (Inr r, h')" by blast
  have "sqld_inv (dh_store ?h)" by (simp add: sqld_inv_def)
  from grant_delivered_once[OF this q]
  have "sqld_get (dh_store h') = (sqld_get (dh_store ?h))(gq_session_id demo_request \<mapsto> r)" "dv_state r = ''QUEUED''"
    by blast+
  then show ?thesis using q by (intro exI[of _ r] exI[of _ h']) (simp add: demo_request_def)
qed

text \<open>
  A revocation event takes effect at the cloud at once: when it returns, the relay has the session's
  grant revoked and no connection for it, the hub has queued the revocation for the edge, and a recorded
  delivery is in state REVOKED. The state of the delivery is not final: a later acknowledgement of that
  edge under the session's id puts the record back into the acknowledged state.
\<close>

theorem revocation_event_effect:
  assumes "sqld_inv (dh_store h)" "dget payload ''sessionId'' = Some (JStr sid)" "dh_router h = Some rt"
    and "revoke_from_event sqld_update sqld_get append_cloud repr payload h = (Inr m, h')"
  shows "dh_router h' = Some (router_revoke sid rt) \<and> rt_connections (router_revoke sid rt) sid = None \<and>
         (\<exists>e d. append_cloud e \<lparr>ce_sequence = 0, ce_body = Some (Debug_revoke \<lparr>dr_session_id = sid,
                  dr_device_id = d, dr_reason = revoke_reason repr payload\<rparr>)\<rparr> (dh_hub h) = Inr (m, dh_hub h')) \<and>
         (\<forall>r. sqld_get (dh_store h) sid = Some r \<longrightarrow>
            (\<exists>r'. sqld_get (dh_store h') sid = Some r' \<and> dv_state r' = ''REVOKED'' \<and>
               (a \<in> ACK_STATES \<longrightarrow>
                 (\<exists>s''. delivery_accept_edge_message sqld_update sqld_get (dv_edge_id r)
                          \<lparr>ec_sequence = n, ec_body = Some (Command_ack \<lparr>ca_command_id = sid, ca_state = a,
                             ca_error_code = [], ca_detail = []\<rparr>)\<rparr> (dh_store h') = Inr ((), s'') \<and>
                        (\<exists>r''. sqld_get s'' sid = Some r'' \<and> dv_state r'' = a)))))"
proof (intro conjI allI impI)
  from assms(2-4) obtain d e where "sid \<noteq> []" and d: "dget payload ''deviceId'' = Some d" "py_str repr d \<noteq> []"
    "dget payload ''edgeId'' = Some e" and router: "dh_router h' = Some (router_revoke sid rt)"
    and queued: "hub_queue append_cloud (py_str repr e) \<lparr>ce_sequence = 0, ce_body = Some (Debug_revoke \<lparr>dr_session_id = sid,
                  dr_device_id = py_str repr d, dr_reason = revoke_reason repr payload\<rparr>)\<rparr> (dh_hub h) = Inr (m, dh_hub h')"
    and store: "case sqld_get (dh_store h) sid of None \<Rightarrow> dh_store h' = dh_store h
      | Some _ \<Rightarrow> \<exists>r'. sqld_update sid ''REVOKED'' (Some ''REVOKED'') (Some (revoke_reason repr payload))
          (Some (ce_sequence m)) (dh_store h) = Inr (r', dh_store h')"
    by (auto simp: revoke_from_event_def Let_def split: option.splits if_splits sum.splits prod.splits)
  show "dh_router h' = Some (router_revoke sid rt)" by (rule router)
  show "rt_connections (router_revoke sid rt) sid = None"
    by (auto simp: router_revoke_def Let_def split: option.splits)
  show "\<exists>e d. append_cloud e \<lparr>ce_sequence = 0, ce_body = Some (Debug_revoke \<lparr>dr_session_id = sid,
      dr_device_id = d, dr_reason = revoke_reason repr payload\<rparr>)\<rparr> (dh_hub h) = Inr (m, dh_hub h')"
    using queued by (auto simp: hub_queue_def split: if_splits)
  fix r assume r: "sqld_get (dh_store h) sid = Some r"
  then obtain r' where u: "sqld_update sid ''REVOKED'' (Some ''REVOKED'') (Some (revoke_reason repr payload))
      (Some (ce_sequence m)) (dh_store h) = Inr (r', dh_store h')" using store by auto
  note law = sqld_update_law[OF assms(1) u]
  have r': "sqld_get (dh_store h') sid = Some r'" "dv_state r' = ''REVOKED''" "dv_edge_id r' = dv_edge_id r"
    using law r by auto
  let ?ack = "\<lparr>ca_command_id = sid, ca_state = a, ca_error_code = [], ca_detail = []\<rparr>"
  have "\<exists>s''. delivery_accept_edge_message sqld_update sqld_get (dv_edge_id r) \<lparr>ec_sequence = n, ec_body = Some (Command_ack ?ack)\<rparr>
      (dh_store h') = Inr ((), s'') \<and> (\<exists>r''. sqld_get s'' sid = Some r'' \<and> dv_state r'' = a)" if "a \<in> ACK_STATES"
  proof -
    have "is_ok (delivery_accept_edge_message sqld_update sqld_get (dv_edge_id r) \<lparr>ec_sequence = n, ec_body = Some (Command_ack ?ack)\<rparr> (dh_store h'))"
      using law r' that by (intro sqld.accept_accepts[of _ _ r']) auto
    then obtain s'' where s'': "delivery_accept_edge_message sqld_update sqld_get (dv_edge_id r)
        \<lparr>ec_sequence = n, ec_body = Some (Command_ack ?ack)\<rparr> (dh_store h') = Inr ((), s'')" by (auto simp: is_ok_iff)
    show ?thesis using sqld.accept_sound[OF conjunct1[OF law] s''] r' s'' by auto
  qed
  then show "\<exists>r'. sqld_get (dh_store h') sid = Some r' \<and> dv_state r' = ''REVOKED'' \<and>
      (a \<in> ACK_STATES \<longrightarrow> (\<exists>s''. delivery_accept_edge_message sqld_update sqld_get (dv_edge_id r)
          \<lparr>ec_sequence = n, ec_body = Some (Command_ack ?ack)\<rparr> (dh_store h') = Inr ((), s'') \<and>
        (\<exists>r''. sqld_get s'' sid = Some r'' \<and> dv_state r'' = a)))"
    using r' by blast
qed

theorem revocation_event_effect_witness:
  "\<exists>m h'. revoke_from_event sqld_update sqld_get mem_append_cloud (\<lambda>_. [])
            [(''sessionId'', JStr ''s''), (''deviceId'', JStr ''d''), (''edgeId'', JStr ''e'')]
            \<lparr>dh_store = [], dh_router = Some demo_router, dh_hub = mem_init\<rparr> = (Inr m, h') \<and>
          dh_router h' = Some (router_revoke ''s'' demo_router)"
proof -
  let ?p = "[(''sessionId'', JStr ''s''), (''deviceId'', JStr ''d''), (''edgeId'', JStr ''e'')]"
  let ?h = "\<lparr>dh_store = [], dh_router = Some demo_router, dh_hub = mem_init\<rparr>"
  obtain m h' where r: "revoke_from_event sqld_update sqld_get mem_append_cloud (\<lambda>_. []) ?p ?h = (Inr m, h')"
    by (simp add: revoke_from_event_def hub_queue_def mem_append_cloud_def Let_def sqld_get_def)
  have "sqld_inv (dh_store ?h)" "dget ?p ''sessionId'' = Some (JStr ''s'')" "dh_router ?h = Some demo_router"
    by (simp_all add: sqld_inv_def)
  from conjunct1[OF revocation_event_effect[OF this r]] show ?thesis using r by auto
qed

end
