(* ===== verification/Debug_Relay.thy ===== *)
theory Debug_Relay
  imports Debug_Delivery Debug_Sessions
begin

text \<open>
  The browser ingress of a debug session (\<open>debug_relay.py\<close>): the limits of its configuration, the
  admission and authentication of a WebSocket, the loop that turns browser messages into relay frames
  on the hub, the publication of edge events to the browsers of the session that asked, and the
  bookkeeping that ends with a connection. WebSockets are numbers. Text is its UTF-8 bytes, so a length
  is a number of bytes; clocks are microseconds; \<open>loads\<close> and \<open>dumps\<close> are the JSON functions with the
  settings of the module (\<open>loads\<close> gives \<open>None\<close> when it raises).
\<close>

datatype browser_error =
    BinaryUnsupported
  | MessageNotJson
  | MessageNotObject
  | MessageTooLarge
  | FirstNotAuth
  | AuthFieldsRequired
  | InvalidDebugSession
  | ExpiredOrRevoked
  | MessageTypeNotAllowed
  | MessageSessionMismatch
  | MessageCapability
  | OutboundTooLarge
  | OutboundBudget
  | NoRelayMapping
  | IngressHubError session_error
  | IdleTimeout

definition AUTH_TYPE :: string where
  "AUTH_TYPE = ''debug.auth''"

definition ALLOWED_EDGE_EVENT_TYPES :: "string set" where
  "ALLOWED_EDGE_EVENT_TYPES = {''frame'', ''layout'', ''evidence'', ''debug.ack''}"

record relay_config =
  cg_origins :: "string list"
  cg_max_connections :: int
  cg_max_message_bytes :: int
  cg_max_inbound_bytes :: int
  cg_max_outbound_bytes :: int
  cg_max_messages_per_second :: int
  cg_idle_timeout :: int

datatype config_error = OriginsRequired | OriginForbidden | RelayLimitsInvalid | RelayRateInvalid

definition mk_relay_config :: "relay_config \<Rightarrow> config_error + relay_config" where
  "mk_relay_config cg =
     (if cg_origins cg = [] then Inl OriginsRequired
      else if \<exists>origin \<in> set (cg_origins cg). origin = [] \<or> origin = ''*'' then Inl OriginForbidden
      else if cg_max_connections cg < 1 \<or> cg_max_message_bytes cg < 1024 then Inl RelayLimitsInvalid
      else if cg_max_messages_per_second cg < 1 \<or> cg_idle_timeout cg \<le> 0 then Inl RelayRateInvalid
      else Inr cg)"

record ingress_grant =
  ig_session_id :: string
  ig_device_id :: string
  ig_edge_id :: string
  ig_capabilities :: "string set"
  ig_expires_at :: int
  ig_token_digest :: string
  ig_lease_id :: string
  ig_fencing_token :: int

text \<open>The relay's own state, and what it has written to each WebSocket.\<close>

record ingress =
  in_free :: int
  in_sessions :: "string \<rightharpoonup> nat list"
  in_command_sessions :: "string \<rightharpoonup> string"
  in_outbound_bytes :: "nat \<rightharpoonup> int"
  in_sent :: "(nat \<times> string) list"

definition ingress_init :: "relay_config \<Rightarrow> ingress" where
  "ingress_init cg = \<lparr>in_free = cg_max_connections cg, in_sessions = Map.empty, in_command_sessions = Map.empty,
     in_outbound_bytes = Map.empty, in_sent = []\<rparr>"

subsection \<open>Sending\<close>

definition outbound_of :: "ingress \<Rightarrow> nat \<Rightarrow> int" where
  "outbound_of st ws = (case in_outbound_bytes st ws of Some n \<Rightarrow> n | None \<Rightarrow> 0)"

definition send_text :: "relay_config \<Rightarrow> nat \<Rightarrow> string \<Rightarrow> ingress \<Rightarrow> (browser_error + unit) \<times> ingress" where
  "send_text cg ws encoded st =
     (let size = int (length encoded) in
      if cg_max_message_bytes cg < size then (Inl OutboundTooLarge, st)
      else let total = outbound_of st ws + size in
           if cg_max_outbound_bytes cg < total then (Inl OutboundBudget, st)
           else let st1 = st\<lparr>in_outbound_bytes := (in_outbound_bytes st)(ws \<mapsto> total)\<rparr> in
                if cg_max_outbound_bytes cg < size then (Inl OutboundBudget, st1)
                else (Inr (), st1\<lparr>in_sent := in_sent st1 @ [(ws, encoded)]\<rparr>))"

definition send_json :: "relay_config \<Rightarrow> (json \<Rightarrow> string) \<Rightarrow> nat \<Rightarrow> dict \<Rightarrow> ingress \<Rightarrow> (browser_error + unit) \<times> ingress" where
  "send_json cg dumps ws value st = send_text cg ws (dumps (JObj value)) st"

fun send_peers :: "relay_config \<Rightarrow> string \<Rightarrow> nat list \<Rightarrow> ingress \<Rightarrow> (browser_error + unit) \<times> ingress" where
  "send_peers cg encoded [] st = (Inr (), st)"
| "send_peers cg encoded (peer # peers) st =
     (case send_text cg peer encoded st of
        (Inl err, st') \<Rightarrow> (Inl err, st')
      | (Inr _, st') \<Rightarrow> send_peers cg encoded peers st')"

definition publish_edge_event ::
  "relay_config \<Rightarrow> (json \<Rightarrow> string) \<Rightarrow> string \<Rightarrow> dict \<Rightarrow> ingress \<Rightarrow> (browser_error + unit) \<times> ingress" where
  "publish_edge_event cg dumps command_id event st =
     (case in_command_sessions st command_id of
        None \<Rightarrow> (Inr (), st)
      | Some session_id \<Rightarrow>
          (case dget event ''type'' of
             Some (JStr event_type) \<Rightarrow>
               if event_type \<notin> ALLOWED_EDGE_EVENT_TYPES then (Inr (), st)
               else if cg_max_message_bytes cg < int (length (dumps (JObj event))) then (Inr (), st)
               else send_peers cg (dumps (JObj event)) (case in_sessions st session_id of Some ps \<Rightarrow> ps | None \<Rightarrow> []) st
           | _ \<Rightarrow> (Inr (), st)))"

definition event_wire_type :: "string \<Rightarrow> string option" where
  "event_wire_type capability =
     (if capability = ''view.frame'' then Some ''frame''
      else if capability = ''view.layout'' then Some ''layout''
      else if capability = ''evidence.capture'' then Some ''evidence''
      else if capability = ''debug.ack'' then Some ''debug.ack''
      else None)"

definition ingress_accept_edge_message ::
  "relay_config \<Rightarrow> (string \<Rightarrow> json option) \<Rightarrow> (json \<Rightarrow> string) \<Rightarrow> string \<Rightarrow> edge_to_cloud \<Rightarrow> ingress \<Rightarrow>
   (browser_error + unit) \<times> ingress" where
  "ingress_accept_edge_message cg loads dumps edge_id message st =
     (case ec_body message of
        Some (Edge_relay_frame frame) \<Rightarrow>
          (case (loads (rf_payload frame), event_wire_type (rf_capability frame)) of
             (Some (JObj payload), Some wire_type) \<Rightarrow>
               publish_edge_event cg dumps (rf_request_id frame)
                 (dupdate payload [(''type'', JStr wire_type), (''commandId'', JStr (rf_request_id frame))]) st
           | _ \<Rightarrow> (Inr (), st))
      | Some (Command_ack ack) \<Rightarrow>
          publish_edge_event cg dumps (ca_command_id ack)
            [(''type'', JStr ''debug.ack''), (''commandId'', JStr (ca_command_id ack)), (''state'', JStr (ca_state ack)),
             (''errorCode'', JStr (ca_error_code ack)), (''detail'', JStr (ca_detail ack))] st
      | Some (Evidence_ready ev) \<Rightarrow>
          publish_edge_event cg dumps (er_command_id ev)
            [(''type'', JStr ''evidence''), (''commandId'', JStr (er_command_id ev)), (''evidenceId'', JStr (er_evidence_id ev)),
             (''kind'', JStr (er_kind ev)), (''sha256'', JStr (er_sha256 ev)), (''size'', JInt (er_size ev))] st
      | _ \<Rightarrow> (Inr (), st))"

subsection \<open>Receiving\<close>

datatype raw_message = RawText string | RawBytes string

fun raw_size :: "raw_message \<Rightarrow> int" where
  "raw_size (RawText s) = int (length s)"
| "raw_size (RawBytes b) = int (length b)"

fun parse_message :: "(string \<Rightarrow> json option) \<Rightarrow> raw_message \<Rightarrow> browser_error + dict" where
  "parse_message loads (RawBytes b) = Inl BinaryUnsupported"
| "parse_message loads (RawText s) =
     (case loads s of
        None \<Rightarrow> Inl MessageNotJson
      | Some (JObj d) \<Rightarrow> Inr d
      | Some _ \<Rightarrow> Inl MessageNotObject)"

definition origin_allowed :: "relay_config \<Rightarrow> string option \<Rightarrow> bool" where
  "origin_allowed cg origin = (case origin of Some v \<Rightarrow> v \<in> set (cg_origins cg) | None \<Rightarrow> False)"

text \<open>\<open>_try_acquire\<close>: a semaphore with no free slot refuses.\<close>

definition try_acquire :: "ingress \<Rightarrow> bool \<times> ingress" where
  "try_acquire st = (if in_free st \<le> 0 then (False, st) else (True, st\<lparr>in_free := in_free st - 1\<rparr>))"

definition recv_json :: "relay_config \<Rightarrow> (string \<Rightarrow> json option) \<Rightarrow> raw_message \<Rightarrow> browser_error + dict" where
  "recv_json cg loads raw =
     (if cg_max_message_bytes cg < raw_size raw then Inl MessageTooLarge
      else case parse_message loads raw of
             Inl err \<Rightarrow> Inl err
           | Inr message \<Rightarrow> if dget message ''type'' \<noteq> Some (JStr AUTH_TYPE) then Inl FirstNotAuth else Inr message)"

definition authenticate ::
  "('d \<Rightarrow> string \<Rightarrow> delivery option) \<Rightarrow> (string \<Rightarrow> string) \<Rightarrow> int \<Rightarrow> dict \<Rightarrow> 'd \<Rightarrow> browser_error + ingress_grant" where
  "authenticate get digest now message s =
     (if dget message ''type'' \<noteq> Some (JStr AUTH_TYPE) then Inl FirstNotAuth
      else case (dget message ''sessionId'', dget message ''token'') of
             (Some (JStr session_id), Some (JStr token)) \<Rightarrow>
               if session_id = [] then Inl AuthFieldsRequired
               else (case get s session_id of
                       None \<Rightarrow> Inl InvalidDebugSession
                     | Some record \<Rightarrow>
                         (case dv_relay_token_digest record of
                            None \<Rightarrow> Inl InvalidDebugSession
                          | Some stored \<Rightarrow>
                              if stored \<noteq> digest token then Inl InvalidDebugSession
                              else if dv_state record \<in> {''REVOKED'', ''EXPIRED'', ''FAILED''} \<or> dv_expires_at record \<le> now
                              then Inl ExpiredOrRevoked
                              else Inr \<lparr>ig_session_id = dv_session_id record, ig_device_id = dv_device_id record,
                                     ig_edge_id = dv_edge_id record, ig_capabilities = set (dv_capabilities record),
                                     ig_expires_at = dv_expires_at record, ig_token_digest = stored,
                                     ig_lease_id = default_text (dv_lease_id record) [],
                                     ig_fencing_token = default_int (dv_fencing_token record) 0\<rparr>))
           | _ \<Rightarrow> Inl AuthFieldsRequired)"

definition capability_kind :: "string \<Rightarrow> string option" where
  "capability_kind capability =
     map_of [(''input.tap'', ''tap''), (''input.swipe'', ''swipe''), (''input.text'', ''text''), (''view.frame'', ''frame''),
       (''view.layout'', ''layout''), (''evidence.capture'', ''evidence.request''), (''debug.steps'', ''steps''),
       (''debug.variables'', ''variables'')] capability"

definition command_frame :: "(json \<Rightarrow> string) \<Rightarrow> string \<Rightarrow> string \<Rightarrow> string \<Rightarrow> string \<Rightarrow> string \<Rightarrow> dict \<Rightarrow> debug_relay_frame" where
  "command_frame dumps command_id session_id device_id kind capability payload =
     \<lparr>rf_session_id = session_id, rf_request_id = command_id, rf_capability = capability, rf_kind = kind,
      rf_payload = dumps (JObj payload), rf_end = False, rf_device_id = device_id\<rparr>"

definition send_command ::
  "(string \<Rightarrow> cloud_to_edge \<Rightarrow> 'st \<Rightarrow> session_error + cloud_to_edge \<times> 'st) \<Rightarrow> (json \<Rightarrow> string) \<Rightarrow> string \<Rightarrow> ingress_grant \<Rightarrow>
   string \<Rightarrow> dict \<Rightarrow> 'st \<Rightarrow> browser_error + string \<times> 'st" where
  "send_command append_cloud dumps nonce grant capability payload hub =
     (let command_id = ''debug/'' @ ig_session_id grant @ ''/'' @ nonce in
      case capability_kind capability of
        None \<Rightarrow> Inl NoRelayMapping
      | Some kind \<Rightarrow>
          (case hub_queue append_cloud (ig_edge_id grant)
                  \<lparr>ce_sequence = 0, ce_body = Some (Cloud_relay_frame
                     (command_frame dumps command_id (ig_session_id grant) (ig_device_id grant) kind capability payload))\<rparr> hub of
             Inl err \<Rightarrow> Inl (IngressHubError err)
           | Inr (_, hub') \<Rightarrow> Inr (command_id, hub')))"

subsection \<open>The message loop\<close>

record loop_state =
  lp_window_start :: int
  lp_count :: int
  lp_inbound :: int

datatype loop_result = Continue | CloseWith int string | Raise browser_error

definition message_payload :: "dict \<Rightarrow> dict" where
  "message_payload message = filter (\<lambda>(key, _). key \<noteq> ''type'' \<and> key \<noteq> ''sessionId'') message"

text \<open>
  One iteration of \<open>_run_messages\<close> for a received message: \<open>tick\<close> is the monotonic clock, \<open>now\<close> the wall
  clock and \<open>nonce\<close> the random part of the command id.
\<close>

definition run_message ::
  "relay_config \<Rightarrow> (string \<Rightarrow> json option) \<Rightarrow> (json \<Rightarrow> string) \<Rightarrow>
   (string \<Rightarrow> cloud_to_edge \<Rightarrow> 'st \<Rightarrow> session_error + cloud_to_edge \<times> 'st) \<Rightarrow> nat \<Rightarrow> ingress_grant \<Rightarrow>
   raw_message \<Rightarrow> int \<Rightarrow> int \<Rightarrow> string \<Rightarrow> loop_state \<Rightarrow> ingress \<Rightarrow> 'st \<Rightarrow> loop_result \<times> loop_state \<times> ingress \<times> 'st" where
  "run_message cg loads dumps append_cloud ws grant raw tick now nonce lp st hub =
     (let size = raw_size raw in
      if cg_max_message_bytes cg < size then (CloseWith 1009 ''message too large'', lp, st, hub)
      else let lp1 = lp\<lparr>lp_inbound := lp_inbound lp + size\<rparr> in
      if cg_max_inbound_bytes cg < lp_inbound lp1 then (CloseWith 4408 ''inbound budget exceeded'', lp1, st, hub)
      else let lp2 = (if 1000000 \<le> tick - lp_window_start lp1 then lp1\<lparr>lp_window_start := tick, lp_count := 0\<rparr> else lp1);
               lp3 = lp2\<lparr>lp_count := lp_count lp2 + 1\<rparr> in
      if cg_max_messages_per_second cg < lp_count lp3 then (CloseWith 4408 ''rate limit exceeded'', lp3, st, hub)
      else case parse_message loads raw of
             Inl err \<Rightarrow> (Raise err, lp3, st, hub)
           | Inr message \<Rightarrow>
               if ig_expires_at grant \<le> now then (Raise ExpiredOrRevoked, lp3, st, hub)
               else (case dget message ''type'' of
                       Some (JStr message_type) \<Rightarrow>
                         if message_type \<notin> ALLOWED_DEBUG_CAPABILITIES then (Raise MessageTypeNotAllowed, lp3, st, hub)
                         else if dget_or message ''sessionId'' (JStr (ig_session_id grant)) \<noteq> JStr (ig_session_id grant)
                         then (Raise MessageSessionMismatch, lp3, st, hub)
                         else if message_type \<notin> ig_capabilities grant then (Raise MessageCapability, lp3, st, hub)
                         else (case send_command append_cloud dumps nonce grant message_type (message_payload message) hub of
                                 Inl err \<Rightarrow> (Raise err, lp3, st, hub)
                               | Inr (command_id, hub') \<Rightarrow>
                                   (let st1 = st\<lparr>in_command_sessions := (in_command_sessions st)(command_id \<mapsto> ig_session_id grant)\<rparr> in
                                    case send_json cg dumps ws [(''type'', JStr ''debug.accepted''), (''commandId'', JStr command_id)] st1 of
                                      (Inl err, st2) \<Rightarrow> (Raise err, lp3, st2, hub')
                                    | (Inr _, st2) \<Rightarrow> (Continue, lp3, st2, hub')))
                     | _ \<Rightarrow> (Raise MessageTypeNotAllowed, lp3, st, hub)))"

subsection \<open>The life of a connection\<close>

text \<open>How \<open>handle_connection\<close> ends on each error: the close code and reason it sends, if any.\<close>

definition close_of :: "(browser_error \<Rightarrow> string) \<Rightarrow> browser_error \<Rightarrow> (int \<times> string) option" where
  "close_of text err =
     (case err of
        IdleTimeout \<Rightarrow> Some (4408, ''idle timeout'')
      | IngressHubError _ \<Rightarrow> None
      | NoRelayMapping \<Rightarrow> None
      | _ \<Rightarrow> Some (4401, text err))"

definition admit_connection ::
  "relay_config \<Rightarrow> string \<Rightarrow> string option \<Rightarrow> ingress \<Rightarrow> (int \<times> string) option \<times> ingress" where
  "admit_connection cg path origin st =
     (if path \<noteq> ''/debug'' then (Some (4408, ''debug endpoint required''), st)
      else if \<not> origin_allowed cg origin then (Some (4403, ''origin not allowed''), st)
      else case try_acquire st of
             (False, st') \<Rightarrow> (Some (4408, ''connection limit reached''), st')
           | (True, st') \<Rightarrow> (None, st'))"

definition join_session :: "string \<Rightarrow> nat \<Rightarrow> ingress \<Rightarrow> ingress" where
  "join_session session_id ws st =
     (let ps = (case in_sessions st session_id of Some ps \<Rightarrow> ps | None \<Rightarrow> [])
      in st\<lparr>in_sessions := (in_sessions st)(session_id \<mapsto> (if ws \<in> set ps then ps else ps @ [ws]))\<rparr>)"

definition start_session ::
  "relay_config \<Rightarrow> (string \<Rightarrow> json option) \<Rightarrow> (json \<Rightarrow> string) \<Rightarrow> ('d \<Rightarrow> string \<Rightarrow> delivery option) \<Rightarrow> (string \<Rightarrow> string) \<Rightarrow>
   int \<Rightarrow> nat \<Rightarrow> raw_message \<Rightarrow> 'd \<Rightarrow> ingress \<Rightarrow> (browser_error + ingress_grant) \<times> string option \<times> ingress" where
  "start_session cg loads dumps get digest now ws raw s st =
     (case recv_json cg loads raw of
        Inl err \<Rightarrow> (Inl err, None, st)
      | Inr message \<Rightarrow>
          (case authenticate get digest now message s of
             Inl err \<Rightarrow> (Inl err, None, st)
           | Inr grant \<Rightarrow>
               (case send_json cg dumps ws [(''type'', JStr ''ready''), (''sessionId'', JStr (ig_session_id grant))]
                       (join_session (ig_session_id grant) ws st) of
                  (Inl err, st') \<Rightarrow> (Inl err, Some (ig_session_id grant), st')
                | (Inr _, st') \<Rightarrow> (Inr grant, Some (ig_session_id grant), st'))))"

text \<open>The \<open>finally\<close> block.\<close>

definition leave_connection :: "nat \<Rightarrow> string option \<Rightarrow> ingress \<Rightarrow> ingress" where
  "leave_connection ws session_id st =
     (let st1 = st\<lparr>in_outbound_bytes := (in_outbound_bytes st)(ws := None)\<rparr>;
          st2 = (case session_id of
                   None \<Rightarrow> st1
                 | Some sid \<Rightarrow>
                     (case in_sessions st1 sid of
                        None \<Rightarrow> st1
                      | Some peers \<Rightarrow>
                          let rest = filter (\<lambda>p. p \<noteq> ws) peers in
                          st1\<lparr>in_sessions := (in_sessions st1)(sid := (if rest = [] then None else Some rest))\<rparr>))
      in st2\<lparr>in_free := in_free st2 + 1\<rparr>)"

subsection \<open>Runs of the ingress\<close>

datatype phase = Opening | Serving ingress_grant loop_state

record 'st ingress_world =
  iw_state :: ingress
  iw_live :: "nat \<rightharpoonup> phase"
  iw_hub :: 'st

definition world_init :: "relay_config \<Rightarrow> 'st \<Rightarrow> 'st ingress_world" where
  "world_init cg hub = \<lparr>iw_state = ingress_init cg, iw_live = Map.empty, iw_hub = hub\<rparr>"

definition fresh_loop :: "int \<Rightarrow> loop_state" where
  "fresh_loop tick = \<lparr>lp_window_start = tick, lp_count = 0, lp_inbound = 0\<rparr>"

text \<open>
  The steps of all connections, interleaved with each other, with events from the edges and with
  changes of the hub by others: a connection is admitted or refused, authenticates and joins its session
  or leaves, processes a message, or leaves after an error, a close or a timeout.
\<close>

inductive ingress_step ::
  "relay_config \<Rightarrow> (string \<Rightarrow> json option) \<Rightarrow> (json \<Rightarrow> string) \<Rightarrow> ('d \<Rightarrow> string \<Rightarrow> delivery option) \<Rightarrow> (string \<Rightarrow> string) \<Rightarrow>
   (string \<Rightarrow> cloud_to_edge \<Rightarrow> 'st \<Rightarrow> session_error + cloud_to_edge \<times> 'st) \<Rightarrow> 'st ingress_world \<Rightarrow> 'st ingress_world \<Rightarrow> bool"
  for cg loads dumps get digest append_cloud where
  is_admit: "admit_connection cg path origin (iw_state w) = (None, st') \<Longrightarrow> iw_live w ws = None \<Longrightarrow>
    ingress_step cg loads dumps get digest append_cloud w (w\<lparr>iw_state := st', iw_live := (iw_live w)(ws \<mapsto> Opening)\<rparr>)"
| is_start: "iw_live w ws = Some Opening \<Longrightarrow>
    start_session cg loads dumps get digest now ws raw s (iw_state w) = (Inr g, sid, st') \<Longrightarrow>
    ingress_step cg loads dumps get digest append_cloud w
      (w\<lparr>iw_state := st', iw_live := (iw_live w)(ws \<mapsto> Serving g (fresh_loop tick))\<rparr>)"
| is_start_fails: "iw_live w ws = Some Opening \<Longrightarrow>
    start_session cg loads dumps get digest now ws raw s (iw_state w) = (Inl err, sid, st') \<Longrightarrow>
    ingress_step cg loads dumps get digest append_cloud w
      (w\<lparr>iw_state := leave_connection ws sid st', iw_live := (iw_live w)(ws := None)\<rparr>)"
| is_open_ends: "iw_live w ws = Some Opening \<Longrightarrow>
    ingress_step cg loads dumps get digest append_cloud w
      (w\<lparr>iw_state := leave_connection ws None (iw_state w), iw_live := (iw_live w)(ws := None)\<rparr>)"
| is_message: "iw_live w ws = Some (Serving g lp) \<Longrightarrow>
    run_message cg loads dumps append_cloud ws g raw tick now nonce lp (iw_state w) (iw_hub w) = (Continue, lp', st', hub') \<Longrightarrow>
    ingress_step cg loads dumps get digest append_cloud w
      (w\<lparr>iw_state := st', iw_live := (iw_live w)(ws \<mapsto> Serving g lp'), iw_hub := hub'\<rparr>)"
| is_message_ends: "iw_live w ws = Some (Serving g lp) \<Longrightarrow>
    run_message cg loads dumps append_cloud ws g raw tick now nonce lp (iw_state w) (iw_hub w) = (r, lp', st', hub') \<Longrightarrow>
    r \<noteq> Continue \<Longrightarrow>
    ingress_step cg loads dumps get digest append_cloud w
      (w\<lparr>iw_state := leave_connection ws (Some (ig_session_id g)) st', iw_live := (iw_live w)(ws := None), iw_hub := hub'\<rparr>)"
| is_ends: "iw_live w ws = Some (Serving g lp) \<Longrightarrow>
    ingress_step cg loads dumps get digest append_cloud w
      (w\<lparr>iw_state := leave_connection ws (Some (ig_session_id g)) (iw_state w), iw_live := (iw_live w)(ws := None)\<rparr>)"
| is_edge: "ingress_accept_edge_message cg loads dumps e m (iw_state w) = (r, st') \<Longrightarrow>
    ingress_step cg loads dumps get digest append_cloud w (w\<lparr>iw_state := st'\<rparr>)"
| is_hub: "ingress_step cg loads dumps get digest append_cloud w (w\<lparr>iw_hub := hub'\<rparr>)"

inductive ingress_reachable for cg loads dumps get digest append_cloud where
  ir_init: "ingress_reachable cg loads dumps get digest append_cloud (world_init cg hub)"
| ir_step: "ingress_reachable cg loads dumps get digest append_cloud w \<Longrightarrow>
    ingress_step cg loads dumps get digest append_cloud w w' \<Longrightarrow>
    ingress_reachable cg loads dumps get digest append_cloud w'"

text \<open>
  The invariant: the free slots and the live connections add up to the limit, the browsers filed under a
  session are exactly the live connections that serve it, and no budget is exceeded.
\<close>

definition serves :: "(nat \<rightharpoonup> phase) \<Rightarrow> string \<Rightarrow> nat \<Rightarrow> bool" where
  "serves live sid ws \<longleftrightarrow> (\<exists>g lp. live ws = Some (Serving g lp) \<and> ig_session_id g = sid)"

definition peers :: "ingress \<Rightarrow> string \<Rightarrow> nat set" where
  "peers st sid = (case in_sessions st sid of Some ps \<Rightarrow> set ps | None \<Rightarrow> {})"

definition loops_ok :: "relay_config \<Rightarrow> (nat \<rightharpoonup> phase) \<Rightarrow> bool" where
  "loops_ok cg live \<longleftrightarrow> (\<forall>ws g lp. live ws = Some (Serving g lp) \<longrightarrow>
     lp_inbound lp \<le> max 0 (cg_max_inbound_bytes cg) \<and> lp_count lp \<le> max 0 (cg_max_messages_per_second cg))"

definition budgets_ok :: "relay_config \<Rightarrow> ingress \<Rightarrow> bool" where
  "budgets_ok cg st \<longleftrightarrow> (\<forall>ws n. in_outbound_bytes st ws = Some n \<longrightarrow> n \<le> cg_max_outbound_bytes cg)"

definition slots_ok :: "relay_config \<Rightarrow> ingress \<Rightarrow> (nat \<rightharpoonup> phase) \<Rightarrow> bool" where
  "slots_ok cg st live \<longleftrightarrow> finite (dom live) \<and> in_free st + int (card (dom live)) = cg_max_connections cg \<and>
     (cg_max_connections cg \<ge> 0 \<longrightarrow> in_free st \<ge> 0)"

definition peers_ok :: "ingress \<Rightarrow> (nat \<rightharpoonup> phase) \<Rightarrow> bool" where
  "peers_ok st live \<longleftrightarrow> (\<forall>sid. peers st sid = {ws. serves live sid ws})"

definition world_ok :: "relay_config \<Rightarrow> 'st ingress_world \<Rightarrow> bool" where
  "world_ok cg w \<longleftrightarrow> slots_ok cg (iw_state w) (iw_live w) \<and> peers_ok (iw_state w) (iw_live w) \<and>
     budgets_ok cg (iw_state w) \<and> loops_ok cg (iw_live w)"

text \<open>What sending keeps: everything but the byte counters and the log.\<close>

definition only_sends :: "relay_config \<Rightarrow> nat set \<Rightarrow> ingress \<Rightarrow> ingress \<Rightarrow> bool" where
  "only_sends cg to st st' \<longleftrightarrow> in_free st' = in_free st \<and> in_sessions st' = in_sessions st \<and>
     (budgets_ok cg st \<longrightarrow> budgets_ok cg st') \<and>
     (\<exists>es. in_sent st' = in_sent st @ es \<and> (\<forall>(ws, t) \<in> set es. ws \<in> to \<and> int (length t) \<le> cg_max_message_bytes cg))"

lemma only_sendsI:
  assumes "in_free st' = in_free st" "in_sessions st' = in_sessions st" "budgets_ok cg st \<Longrightarrow> budgets_ok cg st'"
    and "in_sent st' = in_sent st @ es" "\<And>ws t. (ws, t) \<in> set es \<Longrightarrow> ws \<in> to \<and> int (length t) \<le> cg_max_message_bytes cg"
  shows "only_sends cg to st st'"
  using assms by (auto simp: only_sends_def)

lemma only_sends_refl [simp]: "only_sends cg to st st"
  by (rule only_sendsI[where es = "[]"]) auto

lemma only_sends_trans:
  assumes "only_sends cg a st st'" "only_sends cg b st' st''"
  shows "only_sends cg (a \<union> b) st st''"
proof -
  from assms obtain es es' where e: "in_sent st' = in_sent st @ es" "in_sent st'' = in_sent st' @ es'"
    "\<forall>(ws, t) \<in> set es. ws \<in> a \<and> int (length t) \<le> cg_max_message_bytes cg"
    "\<forall>(ws, t) \<in> set es'. ws \<in> b \<and> int (length t) \<le> cg_max_message_bytes cg" by (auto simp: only_sends_def)
  show ?thesis by (rule only_sendsI[where es = "es @ es'"]) (use assms e in \<open>auto simp: only_sends_def\<close>)
qed

lemma only_sends_mono: "only_sends cg a st st' \<Longrightarrow> a \<subseteq> b \<Longrightarrow> only_sends cg b st st'"
  unfolding only_sends_def by (elim conjE exE) (intro conjI exI, auto)

lemma send_text_only: "send_text cg ws t st = (r, st') \<Longrightarrow> only_sends cg {ws} st st'"
  unfolding send_text_def Let_def
  by (rule only_sendsI[where es = "if r = Inr () then [(ws, t)] else []"])
     (auto simp: budgets_ok_def split: if_splits)

lemma send_peers_only: "send_peers cg t ps st = (r, st') \<Longrightarrow> only_sends cg (set ps) st st'"
proof (induction ps arbitrary: st)
  case (Cons p ps)
  obtain r1 st1 where s: "send_text cg p t st = (r1, st1)" by (cases "send_text cg p t st")
  note one = send_text_only[OF s]
  show ?case
  proof (cases r1)
    case (Inl err)
    then show ?thesis using Cons.prems s one by (auto intro: only_sends_mono)
  next
    case (Inr u)
    then have "send_peers cg t ps st1 = (r, st')" using Cons.prems s by simp
    from only_sends_trans[OF one Cons.IH[OF this]] show ?thesis by simp
  qed
qed simp

text \<open>The browsers an event may go to: those of the session that issued the command it answers.\<close>

definition command_audience :: "ingress \<Rightarrow> string \<Rightarrow> nat set" where
  "command_audience st cid = (case in_command_sessions st cid of Some sid \<Rightarrow> peers st sid | None \<Rightarrow> {})"

definition event_audience :: "ingress \<Rightarrow> edge_to_cloud \<Rightarrow> nat set" where
  "event_audience st m =
     (case ec_body m of
        Some (Edge_relay_frame f) \<Rightarrow> command_audience st (rf_request_id f)
      | Some (Command_ack a) \<Rightarrow> command_audience st (ca_command_id a)
      | Some (Evidence_ready ev) \<Rightarrow> command_audience st (er_command_id ev)
      | _ \<Rightarrow> {})"

lemma publish_only: "publish_edge_event cg dumps cid ev st = (r, st') \<Longrightarrow> only_sends cg (command_audience st cid) st st'"
  by (auto simp: publish_edge_event_def peers_def command_audience_def dest!: send_peers_only
      split: option.splits json.splits if_splits)

lemma accept_only: "ingress_accept_edge_message cg loads dumps e m st = (r, st') \<Longrightarrow> only_sends cg (event_audience st m) st st'"
  by (auto simp: ingress_accept_edge_message_def event_audience_def dest!: publish_only
      split: option.splits edge_body.splits json.splits)

text \<open>An iteration of the loop sends only to its own browser, and forwards only what the grant allows.\<close>

lemma run_message_keeps:
  assumes "run_message cg loads dumps append_cloud ws g raw tick now nonce lp st hub = (r, lp', st', hub')"
  shows "only_sends cg {ws} st st'"
    and "r = Continue \<Longrightarrow> lp_inbound lp' \<le> cg_max_inbound_bytes cg \<and> lp_count lp' \<le> cg_max_messages_per_second cg"
proof -
  have reg: "only_sends cg {ws} st st'" if "only_sends cg {ws} (st\<lparr>in_command_sessions := m\<rparr>) st'" for m
    using that by (auto simp: only_sends_def budgets_ok_def)
  show "only_sends cg {ws} st st'"
    using assms by (auto simp: run_message_def send_json_def Let_def dest!: send_text_only intro: reg
        split: if_splits sum.splits option.splits json.splits prod.splits)
  show "lp_inbound lp' \<le> cg_max_inbound_bytes cg \<and> lp_count lp' \<le> cg_max_messages_per_second cg" if "r = Continue"
    using assms that by (auto simp: run_message_def Let_def split: if_splits sum.splits option.splits json.splits prod.splits)
qed

lemma send_text_commands: "send_text cg ws t st = (r, st') \<Longrightarrow> in_command_sessions st' = in_command_sessions st"
  by (auto simp: send_text_def Let_def split: if_splits)

lemma send_command_frame:
  assumes "send_command append_cloud dumps nonce g cap payload hub = Inr (cid, hub')"
  shows "\<exists>f m. append_cloud (ig_edge_id g) \<lparr>ce_sequence = 0, ce_body = Some (Cloud_relay_frame f)\<rparr> hub = Inr (m, hub') \<and>
           rf_session_id f = ig_session_id g \<and> rf_device_id f = ig_device_id g \<and> rf_capability f = cap \<and> rf_request_id f = cid"
  using assms
  by (auto simp: send_command_def hub_queue_def command_frame_def Let_def split: option.splits sum.splits prod.splits if_splits)

lemma run_message_forwards:
  assumes "run_message cg loads dumps append_cloud ws g raw tick now nonce lp st hub = (r, lp', st', hub')" "hub' \<noteq> hub"
  shows "\<exists>f m. append_cloud (ig_edge_id g) \<lparr>ce_sequence = 0, ce_body = Some (Cloud_relay_frame f)\<rparr> hub = Inr (m, hub') \<and>
           rf_session_id f = ig_session_id g \<and> rf_device_id f = ig_device_id g \<and> rf_capability f \<in> ig_capabilities g \<and>
           rf_capability f \<in> ALLOWED_DEBUG_CAPABILITIES \<and> now < ig_expires_at g \<and>
           raw_size raw \<le> cg_max_message_bytes cg \<and> lp_inbound lp + raw_size raw \<le> cg_max_inbound_bytes cg \<and>
           lp_count lp' \<le> cg_max_messages_per_second cg \<and>
           in_command_sessions st' (rf_request_id f) = Some (ig_session_id g)"
proof -
  obtain cap payload cid where c: "send_command append_cloud dumps nonce g cap payload hub = Inr (cid, hub')"
    and g: "cap \<in> ig_capabilities g" "cap \<in> ALLOWED_DEBUG_CAPABILITIES" "now < ig_expires_at g"
      "raw_size raw \<le> cg_max_message_bytes cg" "lp_inbound lp + raw_size raw \<le> cg_max_inbound_bytes cg"
      "lp_count lp' \<le> cg_max_messages_per_second cg"
    and st: "in_command_sessions st' cid = Some (ig_session_id g)"
    using assms by (auto simp: run_message_def send_json_def Let_def dest!: send_text_commands
        split: if_splits sum.splits option.splits json.splits prod.splits)
  from send_command_frame[OF c] g st show ?thesis by blast
qed

text \<open>Joining, leaving and the invariant.\<close>

lemma world_ok_sends:
  assumes "only_sends cg to st st'" "slots_ok cg st live" "peers_ok st live" "budgets_ok cg st"
  shows "slots_ok cg st' live" "peers_ok st' live" "budgets_ok cg st'"
  using assms by (auto simp: only_sends_def slots_ok_def peers_ok_def peers_def)

lemma join_peers: "peers (join_session sid ws st) sid' = (if sid' = sid then insert ws (peers st sid) else peers st sid')"
  by (auto simp: join_session_def peers_def Let_def split: option.splits)

lemma join_frame [simp]: "in_free (join_session sid ws st) = in_free st" "in_sent (join_session sid ws st) = in_sent st"
  "budgets_ok cg (join_session sid ws st) = budgets_ok cg st"
  by (simp_all add: join_session_def Let_def budgets_ok_def)

lemma leave_peers: "peers (leave_connection ws (Some sid) st) sid' = (if sid' = sid then peers st sid - {ws} else peers st sid')"
  by (auto simp: leave_connection_def peers_def Let_def filter_empty_conv split: option.splits)

lemma leave_peers_None: "peers (leave_connection ws None st) sid' = peers st sid'"
  by (simp add: leave_connection_def peers_def Let_def)

lemma leave_frame: "in_free (leave_connection ws sid st) = in_free st + 1"
  "budgets_ok cg st \<Longrightarrow> budgets_ok cg (leave_connection ws sid st)"
  by (auto simp: leave_connection_def Let_def budgets_ok_def split: option.splits if_splits)

lemma serves_update: "serves (live(ws := p)) sid ws' \<longleftrightarrow>
    (if ws' = ws then (\<exists>g lp. p = Some (Serving g lp) \<and> ig_session_id g = sid) else serves live sid ws')"
  by (auto simp: serves_def)

lemma slots_leave:
  assumes "slots_ok cg st live" "live ws \<noteq> None"
  shows "slots_ok cg (leave_connection ws sid st) (live(ws := None))"
proof -
  have "ws \<in> dom live" "finite (dom live)" using assms by (auto simp: slots_ok_def)
  then have "card (dom live) = Suc (card (dom live - {ws}))" by (rule card.remove[rotated])
  then have "int (card (dom live)) = int (card (dom (live(ws := None)))) + 1" by (simp add: dom_fun_upd)
  moreover have "finite (dom (live(ws := None)))" using \<open>finite (dom live)\<close> by simp
  ultimately show ?thesis using assms(1) unfolding slots_ok_def leave_frame by linarith
qed

lemma loops_update: "loops_ok cg live \<Longrightarrow>
    (\<And>g lp. p = Some (Serving g lp) \<Longrightarrow>
       lp_inbound lp \<le> max 0 (cg_max_inbound_bytes cg) \<and> lp_count lp \<le> max 0 (cg_max_messages_per_second cg)) \<Longrightarrow>
    loops_ok cg (live(ws := p))"
  by (auto simp: loops_ok_def)

text \<open>Leaving a connection that serves a session, or one that serves none.\<close>

lemma leave_serving_ok:
  assumes "slots_ok cg st live" "peers_ok st live" "budgets_ok cg st" "loops_ok cg live" "live ws = Some (Serving g lp)"
  shows "world_ok cg \<lparr>iw_state = leave_connection ws (Some (ig_session_id g)) st, iw_live = live(ws := None), iw_hub = hub\<rparr>"
  using assms slots_leave[OF assms(1)]
  by (auto simp: world_ok_def peers_ok_def leave_peers serves_update leave_frame serves_def intro: loops_update)

lemma leave_opening_ok:
  assumes "slots_ok cg st live" "peers_ok st live" "budgets_ok cg st" "loops_ok cg live" "live ws = Some Opening"
  shows "world_ok cg \<lparr>iw_state = leave_connection ws None st, iw_live = live(ws := None), iw_hub = hub\<rparr>"
  using assms slots_leave[OF assms(1)]
  by (auto simp: world_ok_def peers_ok_def leave_peers_None serves_update leave_frame serves_def intro: loops_update)

lemma start_session_joined:
  assumes "start_session cg loads dumps get digest now ws raw s st = (r, Some i, st')"
  shows "\<exists>g :: ingress_grant. i = ig_session_id g \<and> only_sends cg {ws} (join_session (ig_session_id g) ws st) st'"
proof -
  obtain msg where m: "recv_json cg loads raw = Inr msg"
    using assms by (cases "recv_json cg loads raw") (auto simp: start_session_def)
  obtain g where g: "authenticate get digest now msg s = Inr g"
    using assms m by (cases "authenticate get digest now msg s") (auto simp: start_session_def)
  obtain r' st1 where t: "send_json cg dumps ws [(''type'', JStr ''ready''), (''sessionId'', JStr (ig_session_id g))]
      (join_session (ig_session_id g) ws st) = (r', st1)" by fastforce
  have "i = ig_session_id g \<and> st' = st1" using assms m g t by (cases r') (auto simp: start_session_def)
  then show ?thesis using send_text_only[OF t[unfolded send_json_def]] by blast
qed

lemma start_session_ok:
  assumes "start_session cg loads dumps get digest now ws raw s st = (r, sid, st')" "peers_ok st live"
    and "slots_ok cg st live" "budgets_ok cg st" "loops_ok cg live" "live ws = Some Opening"
  shows "r = Inr g \<Longrightarrow> world_ok cg \<lparr>iw_state = st', iw_live = live(ws \<mapsto> Serving g (fresh_loop t)), iw_hub = hub\<rparr>"
    and "r = Inl err \<Longrightarrow> world_ok cg \<lparr>iw_state = leave_connection ws sid st', iw_live = live(ws := None), iw_hub = hub\<rparr>"
proof -
  have joined: "slots_ok cg st' (live(ws \<mapsto> Serving g (fresh_loop t))) \<and> peers_ok st' (live(ws \<mapsto> Serving g (fresh_loop t))) \<and>
      budgets_ok cg st'" if "only_sends cg to (join_session (ig_session_id g) ws st) st'" for g to t
  proof -
    have "slots_ok cg (join_session (ig_session_id g) ws st) (live(ws \<mapsto> Serving g (fresh_loop t)))"
      using assms(3,6) by (simp add: slots_ok_def insert_absorb domI)
    moreover have "peers_ok (join_session (ig_session_id g) ws st) (live(ws \<mapsto> Serving g (fresh_loop t)))"
      using assms(2,6) by (auto simp: peers_ok_def join_peers serves_update serves_def)
    moreover have "budgets_ok cg (join_session (ig_session_id g) ws st)" using assms(4) by simp
    ultimately show ?thesis using world_ok_sends[OF that] by blast
  qed
  have loops: "loops_ok cg (live(ws \<mapsto> Serving g (fresh_loop t)))" for g t
    using assms(5) by (auto simp: fresh_loop_def intro!: loops_update)
  show "world_ok cg \<lparr>iw_state = st', iw_live = live(ws \<mapsto> Serving g (fresh_loop t)), iw_hub = hub\<rparr>" if "r = Inr g"
    using assms(1) that loops
    by (auto simp: start_session_def send_json_def world_ok_def dest!: send_text_only joined[of _ g t]
        split: sum.splits prod.splits)
  show "world_ok cg \<lparr>iw_state = leave_connection ws sid st', iw_live = live(ws := None), iw_hub = hub\<rparr>" if "r = Inl err"
  proof (cases sid)
    case None
    then have "st' = st" using assms(1) that by (auto simp: start_session_def split: sum.splits prod.splits)
    then show ?thesis using None leave_opening_ok[OF assms(3,2,4-6)] by simp
  next
    case (Some i)
    then obtain g :: ingress_grant where g: "i = ig_session_id g" "only_sends cg {ws} (join_session (ig_session_id g) ws st) st'"
      using start_session_joined[OF assms(1)[unfolded Some]] by blast
    from joined[OF g(2), of t] have "world_ok cg \<lparr>iw_state = leave_connection ws (Some (ig_session_id g)) st',
        iw_live = (live(ws \<mapsto> Serving g (fresh_loop t)))(ws := None), iw_hub = hub\<rparr>"
      by (intro leave_serving_ok[OF _ _ _ loops]) auto
    then show ?thesis using Some g(1) by simp
  qed
qed

lemma admit_ok:
  assumes "admit_connection cg path origin st = (None, st')" "slots_ok cg st live" "live ws = None" "peers_ok st live"
    and "budgets_ok cg st" "loops_ok cg live"
  shows "world_ok cg \<lparr>iw_state = st', iw_live = live(ws \<mapsto> Opening), iw_hub = hub\<rparr>"
proof -
  have st': "st' = st\<lparr>in_free := in_free st - 1\<rparr>" "0 < in_free st"
    using assms(1) by (auto simp: admit_connection_def try_acquire_def split: if_splits)
  have "ws \<notin> dom live" using assms(3) by auto
  then have "slots_ok cg st' (live(ws \<mapsto> Opening))" using assms(2) st' by (auto simp: slots_ok_def)
  moreover have "peers_ok st' (live(ws \<mapsto> Opening))" "budgets_ok cg st'" "loops_ok cg (live(ws \<mapsto> Opening))"
    using assms(3-6) st' by (auto simp: peers_ok_def peers_def serves_update serves_def budgets_ok_def intro: loops_update)
  ultimately show ?thesis by (simp add: world_ok_def)
qed

lemma world_okI: "slots_ok cg st live \<Longrightarrow> peers_ok st live \<Longrightarrow> budgets_ok cg st \<Longrightarrow> loops_ok cg live \<Longrightarrow>
    world_ok cg \<lparr>iw_state = st, iw_live = live, iw_hub = hub\<rparr>"
  by (simp add: world_ok_def)

lemma world_okD:
  assumes "world_ok cg w"
  shows "slots_ok cg (iw_state w) (iw_live w)" "peers_ok (iw_state w) (iw_live w)" "budgets_ok cg (iw_state w)"
    "loops_ok cg (iw_live w)"
  using assms by (simp_all add: world_ok_def)

lemma message_ok:
  assumes "run_message cg loads dumps append_cloud ws g raw tick now nonce lp (iw_state w) (iw_hub w) = (r, lp', st', hub')"
    and "world_ok cg w" "iw_live w ws = Some (Serving g lp)"
  shows "r = Continue \<Longrightarrow> world_ok cg \<lparr>iw_state = st', iw_live = (iw_live w)(ws \<mapsto> Serving g lp'), iw_hub = h\<rparr>"
    and "world_ok cg \<lparr>iw_state = leave_connection ws (Some (ig_session_id g)) st', iw_live = (iw_live w)(ws := None), iw_hub = h\<rparr>"
proof -
  note ok = world_ok_sends[OF run_message_keeps(1)[OF assms(1)] world_okD(1-3)[OF assms(2)]]
  show "world_ok cg \<lparr>iw_state = leave_connection ws (Some (ig_session_id g)) st', iw_live = (iw_live w)(ws := None), iw_hub = h\<rparr>"
    by (rule leave_serving_ok[OF ok world_okD(4)[OF assms(2)] assms(3)])
  assume "r = Continue"
  from run_message_keeps(2)[OF assms(1) this]
  have "loops_ok cg ((iw_live w)(ws \<mapsto> Serving g lp'))" using world_okD(4)[OF assms(2)] by (auto intro!: loops_update)
  moreover have "dom ((iw_live w)(ws \<mapsto> Serving g lp')) = dom (iw_live w)" using assms(3) by auto
  then have "slots_ok cg st' ((iw_live w)(ws \<mapsto> Serving g lp'))" using ok(1) by (simp add: slots_ok_def)
  moreover have "peers_ok st' ((iw_live w)(ws \<mapsto> Serving g lp'))"
    using ok(2) assms(3) by (auto simp: peers_ok_def serves_update serves_def)
  ultimately show "world_ok cg \<lparr>iw_state = st', iw_live = (iw_live w)(ws \<mapsto> Serving g lp'), iw_hub = h\<rparr>"
    using ok(3) by (intro world_okI)
qed

lemma ingress_step_ok:
  assumes "ingress_step cg loads dumps get digest append_cloud w w'" "world_ok cg w"
  shows "world_ok cg w'"
  using assms(1)
proof cases
  case (is_admit path origin st' ws)
  from admit_ok[OF is_admit(2) world_okD(1)[OF assms(2)], of ws] show ?thesis
    using is_admit(1,3) world_okD[OF assms(2)] by (simp add: world_ok_def)
next
  case (is_start ws now raw s g sid st' tick)
  then show ?thesis
    using start_session_ok(1)[OF is_start(3) world_okD(2,1,3,4)[OF assms(2)] is_start(2) refl] by (simp add: world_ok_def)
next
  case (is_start_fails ws now raw s err sid st')
  then show ?thesis
    using start_session_ok(2)[OF is_start_fails(3) world_okD(2,1,3,4)[OF assms(2)] is_start_fails(2) refl]
    by (simp add: world_ok_def)
next
  case (is_open_ends ws)
  then show ?thesis using leave_opening_ok[OF world_okD[OF assms(2)]] by (simp add: world_ok_def)
next
  case (is_message ws g lp raw tick now nonce lp' st' hub')
  then show ?thesis using message_ok(1)[OF is_message(3) assms(2) is_message(2) refl] by (simp add: world_ok_def)
next
  case (is_message_ends ws g lp raw tick now nonce r lp' st' hub')
  then show ?thesis
    using message_ok(2)[OF is_message_ends(3) assms(2) is_message_ends(2)] by (simp add: world_ok_def)
next
  case (is_ends ws g lp)
  then show ?thesis using leave_serving_ok[OF world_okD[OF assms(2)]] by (simp add: world_ok_def)
next
  case (is_edge e m r st')
  then show ?thesis
    using world_ok_sends[OF accept_only[OF is_edge(2)] world_okD(1-3)[OF assms(2)]] world_okD(4)[OF assms(2)]
    by (simp add: world_ok_def)
next
  case (is_hub hub')
  then show ?thesis using assms(2) by (simp add: world_ok_def)
qed

lemma world_ok_init: "world_ok cg (world_init cg hub)"
  by (auto simp: world_init_def world_ok_def ingress_init_def slots_ok_def peers_ok_def peers_def serves_def budgets_ok_def loops_ok_def)

lemma ingress_reachable_ok: "ingress_reachable cg loads dumps get digest append_cloud w \<Longrightarrow> world_ok cg w"
  by (induction rule: ingress_reachable.induct) (auto intro: world_ok_init ingress_step_ok)

subsection \<open>Properties\<close>

text \<open>
  The limits of the ingress hold at every moment: never more live connections than the configured
  number, per connection no more inbound bytes, messages per second and outbound bytes than configured;
  and an event from an edge is written only to browsers that are live in the session that issued the
  command it answers, in texts no longer than the message limit.
\<close>

theorem ingress_limits:
  assumes "ingress_reachable cg loads dumps get digest append_cloud w" "mk_relay_config cg' = Inr cg"
  shows "int (card (dom (iw_live w))) \<le> cg_max_connections cg \<and>
         (iw_live w ws = Some (Serving g lp) \<longrightarrow>
            lp_inbound lp \<le> max 0 (cg_max_inbound_bytes cg) \<and> lp_count lp \<le> cg_max_messages_per_second cg) \<and>
         (in_outbound_bytes (iw_state w) ws = Some n \<longrightarrow> n \<le> cg_max_outbound_bytes cg) \<and>
         (\<exists>es. in_sent (snd (ingress_accept_edge_message cg loads dumps e m (iw_state w))) = in_sent (iw_state w) @ es \<and>
            (\<forall>(peer, t) \<in> set es. int (length t) \<le> cg_max_message_bytes cg \<and>
               (\<exists>cid sid. in_command_sessions (iw_state w) cid = Some sid \<and> serves (iw_live w) sid peer)))"
proof -
  have ok: "world_ok cg w" by (rule ingress_reachable_ok[OF assms(1)])
  note d = world_okD[OF ok]
  have cg: "1 \<le> cg_max_connections cg" "1 \<le> cg_max_messages_per_second cg"
    using assms(2) by (auto simp: mk_relay_config_def split: if_splits)
  obtain r st' where r: "ingress_accept_edge_message cg loads dumps e m (iw_state w) = (r, st')" by fastforce
  have aud: "\<exists>cid sid. in_command_sessions (iw_state w) cid = Some sid \<and> serves (iw_live w) sid peer"
    if "peer \<in> event_audience (iw_state w) m" for peer
    using that d(2) by (auto simp: event_audience_def command_audience_def peers_ok_def split: option.splits edge_body.splits)
  from accept_only[OF r] obtain es where "in_sent st' = in_sent (iw_state w) @ es"
    "\<forall>(ws, t) \<in> set es. ws \<in> event_audience (iw_state w) m \<and> int (length t) \<le> cg_max_message_bytes cg"
    by (auto simp: only_sends_def)
  then have "\<exists>es. in_sent (snd (ingress_accept_edge_message cg loads dumps e m (iw_state w))) = in_sent (iw_state w) @ es \<and>
      (\<forall>(peer, t) \<in> set es. int (length t) \<le> cg_max_message_bytes cg \<and>
        (\<exists>cid sid. in_command_sessions (iw_state w) cid = Some sid \<and> serves (iw_live w) sid peer))"
    using r aud by (intro exI[of _ es]) auto
  moreover have "int (card (dom (iw_live w))) \<le> cg_max_connections cg" using d(1) cg by (simp add: slots_ok_def)
  moreover have "lp_inbound lp \<le> max 0 (cg_max_inbound_bytes cg) \<and> lp_count lp \<le> cg_max_messages_per_second cg"
    if "iw_live w ws = Some (Serving g lp)" using d(4) that cg by (force simp: loops_ok_def)
  moreover have "n \<le> cg_max_outbound_bytes cg" if "in_outbound_bytes (iw_state w) ws = Some n"
    using d(3) that by (simp add: budgets_ok_def)
  ultimately show ?thesis by blast
qed

definition demo_relay_config :: relay_config where
  "demo_relay_config = \<lparr>cg_origins = [''https://studio''], cg_max_connections = 32, cg_max_message_bytes = 262144,
     cg_max_inbound_bytes = 4194304, cg_max_outbound_bytes = 16777216, cg_max_messages_per_second = 20,
     cg_idle_timeout = 90000000\<rparr>"

theorem ingress_limits_witness:
  "int (card (dom (iw_live (world_init demo_relay_config mem_init)))) \<le> 32"
proof -
  have "mk_relay_config demo_relay_config = Inr demo_relay_config"
    by (simp add: mk_relay_config_def demo_relay_config_def)
  from conjunct1[OF ingress_limits[OF ir_init this]]
  show ?thesis by (simp add: demo_relay_config_def)
qed


definition demo_loads :: "string \<Rightarrow> json option" where
  "demo_loads t = (if t = ''auth'' then Some (JObj [(''type'', JStr ''debug.auth''), (''sessionId'', JStr ''s''), (''token'', JStr ''t'')])
     else Some (JObj [(''type'', JStr ''input.tap''), (''x'', JInt 3)]))"

definition demo_delivery :: delivery where
  "demo_delivery = \<lparr>dv_session_id = ''s'', dv_edge_id = ''e'', dv_device_id = ''d'', dv_capabilities = [''input.tap''],
     dv_expires_at = 100, dv_state = ''QUEUED'', dv_error_code = None, dv_detail = None, dv_cloud_sequence = Some 1,
     dv_lease_id = Some ''l'', dv_fencing_token = Some 1, dv_relay_token_digest = Some ''t''\<rparr>"


text \<open>
  The step and variable inspection capabilities never reach a device: the frame the ingress builds
  for them has a kind that the gateway's session manager refuses, whatever sessions it holds.
\<close>

theorem debug_steps_refused_by_gateway:
  assumes "capability \<in> {''debug.steps'', ''debug.variables''}" "capability_kind capability = Some kind"
  shows "\<not> is_ok (fst (validate_frame (command_frame dumps cid sid did kind capability payload) did now ss)) \<and>
         capability \<in> ALLOWED_DEBUG_CAPABILITIES \<and> capability \<in> DEBUG_CAPABILITIES \<and> capability \<notin> RELAY_CAPABILITIES"
proof -
  have "kind \<notin> frame_kinds" using assms by (auto simp: capability_kind_def frame_kinds_def)
  then have "\<not> is_ok (fst (validate_frame (command_frame dumps cid sid did kind capability payload) did now ss))"
    by (simp add: validate_frame_def command_frame_def split: option.splits)
  then show ?thesis
    using assms(1) by (auto simp: ALLOWED_DEBUG_CAPABILITIES_def DEBUG_CAPABILITIES_def RELAY_CAPABILITIES_def)
qed

theorem debug_steps_refused_by_gateway_witness:
  "\<not> is_ok (fst (validate_frame (command_frame (\<lambda>_. ''{}'') ''c'' ''s'' ''d'' ''steps'' ''debug.steps'' []) ''d'' 5 []))"
proof -
  have "capability_kind ''debug.steps'' = Some ''steps''" by (simp add: capability_kind_def)
  from conjunct1[OF debug_steps_refused_by_gateway[OF _ this]] show ?thesis by simp
qed

end
