(* ===== verification/Control_Db.thy ===== *)
theory Control_Db
  imports Domain
begin

text \<open>
  The relational state of the Control API (\<open>services/control-api\<close>): the rows of \<open>db.py\<close> that devices,
  accounts, publishing and the outbox use, a database as a record of tables, and the tenant-scoped
  repository of \<open>repository.py\<close>. An operation of a service is a transaction (\<open>unit_of_work\<close>): a function
  from the database to an error, which rolls everything back, or a result and the new database.

  The environment gives what the code takes from outside: the identifiers of \<open>new_uuid7\<close>, the canonical
  hash and the clock, one instant per call, in microseconds. A state column holds the value of the
  enumeration; the model leaves the enumeration. JSON columns are JSON values. The rows that the modelled
  operations create have all their columns; a schedule, a product, a content revision, an automation
  version, a mobile task and a message keep the columns that these operations read or write.
\<close>

subsection \<open>Transactions\<close>

definition treturn :: "'a \<Rightarrow> ('s, 'e, 'a) tx" where
  "treturn a s = Inr (a, s)"

definition tfail :: "'e \<Rightarrow> ('s, 'e, 'a) tx" where
  "tfail e s = Inl e"

definition tbind :: "('s, 'e, 'a) tx \<Rightarrow> ('a \<Rightarrow> ('s, 'e, 'b) tx) \<Rightarrow> ('s, 'e, 'b) tx" where
  "tbind f g s = (case f s of Inl e \<Rightarrow> Inl e | Inr (a, s') \<Rightarrow> g a s')"

definition tread :: "('s \<Rightarrow> 'a) \<Rightarrow> ('s, 'e, 'a) tx" where
  "tread f s = Inr (f s, s)"

definition tmodify :: "('s \<Rightarrow> 's) \<Rightarrow> ('s, 'e, unit) tx" where
  "tmodify f s = Inr ((), f s)"

definition tguard :: "bool \<Rightarrow> 'e \<Rightarrow> ('s, 'e, unit) tx" where
  "tguard b e s = (if b then Inr ((), s) else Inl e)"

definition tlift :: "'e + 'a \<Rightarrow> ('s, 'e, 'a) tx" where
  "tlift r s = (case r of Inl e \<Rightarrow> Inl e | Inr a \<Rightarrow> Inr (a, s))"

definition tsome :: "('s \<Rightarrow> 'a option) \<Rightarrow> 'e \<Rightarrow> ('s, 'e, 'a) tx" where
  "tsome f e s = (case f s of None \<Rightarrow> Inl e | Some a \<Rightarrow> Inr (a, s))"

definition twhen :: "bool \<Rightarrow> ('s, 'e, unit) tx \<Rightarrow> ('s, 'e, unit) tx" where
  "twhen b f = (if b then f else treturn ())"

fun tmap :: "('a \<Rightarrow> ('s, 'e, 'b) tx) \<Rightarrow> 'a list \<Rightarrow> ('s, 'e, 'b list) tx" where
  "tmap f [] = treturn []"
| "tmap f (x # xs) = tbind (f x) (\<lambda>y. tbind (tmap f xs) (\<lambda>ys. treturn (y # ys)))"

lemma tx_Inr [simp]:
  "treturn a s = Inr (b, s') \<longleftrightarrow> b = a \<and> s' = s"
  "tfail e s = Inr (c, s') \<longleftrightarrow> False"
  "tbind f g s = Inr (d, s') \<longleftrightarrow> (\<exists>x s1. f s = Inr (x, s1) \<and> g x s1 = Inr (d, s'))"
  "tread h s = Inr (y, s') \<longleftrightarrow> y = h s \<and> s' = s"
  "tmodify k s = Inr (u, s') \<longleftrightarrow> s' = k s"
  "tguard p e s = Inr (u, s') \<longleftrightarrow> p \<and> s' = s"
  "tlift r s = Inr (z, s') \<longleftrightarrow> r = Inr z \<and> s' = s"
  "tsome l e s = Inr (w, s') \<longleftrightarrow> l s = Some w \<and> s' = s"
  by (auto simp: treturn_def tfail_def tbind_def tread_def tmodify_def tguard_def tlift_def tsome_def split: sum.splits option.splits)

lemma tx_run:
  "tbind f g s = (case f s of Inl e \<Rightarrow> Inl e | Inr (a, s') \<Rightarrow> g a s')"
  "treturn a s = Inr (a, s)" "tfail e s = Inl e" "tread h s = Inr (h s, s)" "tmodify k s = Inr ((), k s)"
  "tguard p e s = (if p then Inr ((), s) else Inl e)"
  "tlift r s = (case r of Inl e \<Rightarrow> Inl e | Inr z \<Rightarrow> Inr (z, s))"
  "tsome l e s = (case l s of None \<Rightarrow> Inl e | Some w \<Rightarrow> Inr (w, s))"
  by (simp_all add: treturn_def tfail_def tbind_def tread_def tmodify_def tguard_def tlift_def tsome_def)

text \<open>
  What a successful run leaves alone: \<open>leaves T f\<close> says that \<open>f\<close> never changes the part \<open>T\<close> of the state. The
  rules follow the structure of an operation, so that an operation is shown to keep a part by
  resolution alone.
\<close>

definition leaves :: "('s \<Rightarrow> 'p) \<Rightarrow> ('s, 'e, 'a) tx \<Rightarrow> bool" where
  "leaves T f \<longleftrightarrow> (\<forall>s a s'. f s = Inr (a, s') \<longrightarrow> T s' = T s)"

named_theorems keeps_intros "structural rules for \<open>leaves\<close>"

lemma keepsD: "leaves T f \<Longrightarrow> f s = Inr (a, s') \<Longrightarrow> T s' = T s"
  by (simp add: leaves_def)

lemma keeps_pure [keeps_intros]:
  "leaves T (treturn a)" "leaves T (tfail e)" "leaves T (tread h)" "leaves T (tguard p e)" "leaves T (tlift r)" "leaves T (tsome l e)"
  by (auto simp: leaves_def)

lemma keeps_bind [keeps_intros]: "leaves T f \<Longrightarrow> (\<And>a. leaves T (g a)) \<Longrightarrow> leaves T (tbind f g)"
  unfolding leaves_def tx_Inr by metis

lemma keeps_when [keeps_intros]: "leaves T f \<Longrightarrow> leaves T (twhen b f)"
  by (simp add: twhen_def keeps_pure)

lemma keeps_map [keeps_intros]: "(\<And>x. leaves T (f x)) \<Longrightarrow> leaves T (tmap f xs)"
  by (induction xs) (auto intro!: keeps_bind keeps_pure)

lemma keeps_case_option [keeps_intros]:
  "leaves T f \<Longrightarrow> (\<And>y. leaves T (g y)) \<Longrightarrow> leaves T (case x of None \<Rightarrow> f | Some y \<Rightarrow> g y)"
  by (cases x) auto

lemma keeps_case_prod [keeps_intros]: "(\<And>u v. leaves T (g u v)) \<Longrightarrow> leaves T (case x of (u, v) \<Rightarrow> g u v)"
  by (cases x) auto

lemma keeps_if [keeps_intros]: "leaves T f \<Longrightarrow> leaves T g \<Longrightarrow> leaves T (if b then f else g)"
  by simp

lemma keeps_let [keeps_intros]: "(\<And>y. leaves T (f y)) \<Longrightarrow> leaves T (let y = x in f y)"
  by (simp add: Let_def)

lemma keeps_modify [keeps_intros]: "(\<And>s. T (k s) = T s) \<Longrightarrow> leaves T (tmodify k)"
  by (simp add: leaves_def)

text \<open>More generally, a preorder between the state before and after that every successful run obeys.\<close>

definition obeys :: "('s \<Rightarrow> 's \<Rightarrow> bool) \<Rightarrow> ('s, 'e, 'a) tx \<Rightarrow> bool" where
  "obeys R f \<longleftrightarrow> (\<forall>s a s'. f s = Inr (a, s') \<longrightarrow> R s s')"

lemma obeysD: "obeys R f \<Longrightarrow> f s = Inr (a, s') \<Longrightarrow> R s s'"
  by (simp add: obeys_def)

lemma obeys_pure:
  "reflp R \<Longrightarrow> obeys R (treturn a)" "reflp R \<Longrightarrow> obeys R (tfail e)" "reflp R \<Longrightarrow> obeys R (tread h)"
  "reflp R \<Longrightarrow> obeys R (tguard p e)" "reflp R \<Longrightarrow> obeys R (tlift r)" "reflp R \<Longrightarrow> obeys R (tsome l e)"
  by (auto simp: obeys_def reflp_def)

lemma obeys_bind: "transp R \<Longrightarrow> obeys R f \<Longrightarrow> (\<And>a. obeys R (g a)) \<Longrightarrow> obeys R (tbind f g)"
  unfolding obeys_def transp_def tx_Inr by blast

lemma obeys_when: "reflp R \<Longrightarrow> obeys R f \<Longrightarrow> obeys R (twhen b f)"
  by (simp add: twhen_def obeys_pure)

lemma obeys_case_option: "obeys R f \<Longrightarrow> (\<And>y. obeys R (g y)) \<Longrightarrow> obeys R (case x of None \<Rightarrow> f | Some y \<Rightarrow> g y)"
  by (cases x) auto

lemma obeys_let: "(\<And>y. obeys R (f y)) \<Longrightarrow> obeys R (let y = x in f y)"
  by (simp add: Let_def)

lemma obeys_modify: "(\<And>s. R s (k s)) \<Longrightarrow> obeys R (tmodify k)"
  by (simp add: obeys_def)

lemma keeps_obeys: "leaves T f \<Longrightarrow> (\<And>s s'. T s' = T s \<Longrightarrow> R s s') \<Longrightarrow> obeys R f"
  by (auto simp: leaves_def obeys_def)

lemmas obeys_intros = obeys_bind obeys_pure obeys_when obeys_case_option obeys_let obeys_modify

subsection \<open>Rows\<close>

datatype api_error = Api domain_error | IntegrityError

record env =
  ev_id :: "nat \<Rightarrow> string"
  ev_hash :: "json \<Rightarrow> string"
  ev_now :: int

record tenant_row =
  tn_id :: string
  tn_name :: string
  tn_created_at :: int

record user_row =
  us_id :: string
  us_tenant_id :: string
  us_oidc_subject :: string
  us_roles :: "role list"
  us_disabled :: bool
  us_created_at :: int

record edge_node_row =
  eg_id :: string
  eg_tenant_id :: string
  eg_logical_name :: string
  eg_certificate_fingerprint :: string
  eg_state :: string
  eg_last_seen_at :: "int option"
  eg_created_at :: int

record device_row =
  de_id :: string
  de_tenant_id :: string
  de_edge_id :: "string option"
  de_logical_name :: string
  de_android_version :: "string option"
  de_lamda_version :: "string option"
  de_target_app_versions :: json
  de_capabilities :: json
  de_labels :: "string list"
  de_state :: string
  de_maintenance :: bool
  de_last_seen_at :: "int option"
  de_version :: int
  de_fencing_counter :: int
  de_control_epoch :: int
  de_active_binding_id :: "string option"
  de_created_at :: int

record account_row =
  ac_id :: string
  ac_tenant_id :: string
  ac_platform :: string
  ac_external_subject_ref :: string
  ac_display_label :: string
  ac_secret_ref :: string
  ac_authorization_basis :: string
  ac_status :: string
  ac_expires_at :: "int option"
  ac_last_checked_at :: "int option"
  ac_revoked_at :: "int option"
  ac_version :: int
  ac_created_at :: int

record account_binding_row =
  ab_id :: string
  ab_tenant_id :: string
  ab_account_id :: string
  ab_device_id :: string
  ab_status :: string
  ab_confirmed_by :: string
  ab_confirmation_note :: string
  ab_bound_at :: int
  ab_unbound_at :: "int option"
  ab_binding_version :: int
  ab_platform :: string
  ab_created_at :: int

record task_schedule_row =
  ts_id :: string
  ts_tenant_id :: string
  ts_account_id :: string
  ts_enabled :: bool
  ts_paused_reason :: "string option"

record product_row =
  pr_id :: string
  pr_tenant_id :: string
  pr_status :: string

record revision_row =
  rv_id :: string
  rv_tenant_id :: string
  rv_payload :: json
  rv_payload_sha256 :: string

record automation_row =
  au_id :: string
  au_tenant_id :: string
  au_name :: string
  au_version :: string
  au_artifact_sha256 :: string
  au_production_qualified :: bool

record plan_row =
  pl_id :: string
  pl_tenant_id :: string
  pl_idempotency_key :: string
  pl_request_sha256 :: string
  pl_creator_id :: string
  pl_content_revision_id :: string
  pl_product_id :: "string option"
  pl_automation_package_version_id :: string
  pl_platform :: string
  pl_schedule :: dict
  pl_execution :: dict
  pl_approval_policy :: string
  pl_targets :: "dict list"
  pl_state :: publish_state
  pl_cancel_requested :: bool
  pl_workflow_id :: "string option"
  pl_version :: int
  pl_created_at :: int

record snapshot_row =
  sn_id :: string
  sn_tenant_id :: string
  sn_plan_id :: string
  sn_content_revision_id :: string
  sn_automation_package_version_id :: string
  sn_payload :: json
  sn_payload_sha256 :: string
  sn_created_at :: int

record target_row =
  tg_id :: string
  tg_tenant_id :: string
  tg_plan_id :: string
  tg_snapshot_id :: string
  tg_account_id :: string
  tg_device_id :: "string option"
  tg_binding_version :: "int option"
  tg_device_id_at_execution :: "string option"
  tg_state :: publish_state
  tg_result_detail :: "string option"
  tg_cancel_requested :: bool
  tg_created_at :: int

record approval_row =
  ap_id :: string
  ap_tenant_id :: string
  ap_plan_id :: string
  ap_creator_id :: string
  ap_approver_id :: string
  ap_decision :: string
  ap_reason :: "string option"
  ap_created_at :: int

record lease_row =
  le_device_id :: string
  le_tenant_id :: string
  le_lease_id :: string
  le_owner_workflow_id :: string
  le_fencing_token :: int
  le_expires_at :: int
  le_canceled_at :: "int option"
  le_owner_type :: string
  le_created_at :: int

record intent_row =
  in_id :: string
  in_tenant_id :: string
  in_target_id :: string
  in_attempt_no :: int
  in_fencing_token :: int
  in_before_commit_evidence_id :: string
  in_created_at :: int

record mobile_task_row =
  mt_id :: string
  mt_tenant_id :: string
  mt_device_id :: string
  mt_account_id :: "string option"
  mt_binding_version :: "int option"
  mt_device_id_at_execution :: "string option"
  mt_status :: string
  mt_business_state :: string
  mt_error_code :: "string option"
  mt_detail :: "string option"
  mt_completed_at :: "int option"
  mt_lease_id :: "string option"
  mt_lease_expires_at :: "int option"
  mt_created_at :: int

record im_message_row =
  im_id :: string
  im_tenant_id :: string
  im_reply_task_id :: "string option"
  im_delivery_state :: string

record outbox_row =
  ob_id :: string
  ob_tenant_id :: string
  ob_aggregate_type :: string
  ob_aggregate_id :: string
  ob_event_type :: string
  ob_payload :: dict
  ob_occurred_at :: int
  ob_published_at :: "int option"
  ob_claimed_at :: "int option"
  ob_claim_owner :: "string option"
  ob_attempts :: int
  ob_last_error :: "string option"

record audit_row =
  ad_id :: string
  ad_tenant_id :: string
  ad_actor_type :: string
  ad_actor_id :: string
  ad_action :: string
  ad_resource_type :: string
  ad_resource_id :: string
  ad_request_id :: string
  ad_workflow_id :: "string option"
  ad_device_id :: "string option"
  ad_edge_id :: "string option"
  ad_before_hash :: "string option"
  ad_after_hash :: "string option"
  ad_result :: string
  ad_metadata :: dict
  ad_occurred_at :: int

record cdb =
  db_next :: nat
  db_tenants :: "tenant_row list"
  db_users :: "user_row list"
  db_edges :: "edge_node_row list"
  db_devices :: "device_row list"
  db_accounts :: "account_row list"
  db_bindings :: "account_binding_row list"
  db_schedules :: "task_schedule_row list"
  db_products :: "product_row list"
  db_revisions :: "revision_row list"
  db_automations :: "automation_row list"
  db_plans :: "plan_row list"
  db_snapshots :: "snapshot_row list"
  db_targets :: "target_row list"
  db_approvals :: "approval_row list"
  db_leases :: "lease_row list"
  db_intents :: "intent_row list"
  db_mobile_tasks :: "mobile_task_row list"
  db_im_messages :: "im_message_row list"
  db_outbox :: "outbox_row list"
  db_audit :: "audit_row list"

type_synonym 'a op = "(cdb, api_error, 'a) tx"

definition empty_db :: cdb where
  "empty_db = \<lparr>db_next = 0, db_tenants = [], db_users = [], db_edges = [], db_devices = [], db_accounts = [],
     db_bindings = [], db_schedules = [], db_products = [], db_revisions = [], db_automations = [], db_plans = [],
     db_snapshots = [], db_targets = [], db_approvals = [], db_leases = [], db_intents = [], db_mobile_tasks = [],
     db_im_messages = [], db_outbox = [], db_audit = []\<rparr>"

subsection \<open>The repository\<close>

abbreviation tenant_of :: "actor \<Rightarrow> string" where
  "tenant_of a \<equiv> actor_tenant_id a"

definition new_id :: "env \<Rightarrow> string op" where
  "new_id ev db = Inr (ev_id ev (db_next db), db\<lparr>db_next := db_next db + 1\<rparr>)"

definition require :: "actor \<Rightarrow> permission \<Rightarrow> unit op" where
  "require a p = tlift (case require_permissions (actor_roles a) [p] of Inl e \<Rightarrow> Inl (Api e) | Inr u \<Rightarrow> Inr u)"

definition not_found :: "string \<Rightarrow> api_error" where
  "not_found resource = Api (NotFoundError (resource @ '' was not found''))"

definition repo_tenant :: "string \<Rightarrow> cdb \<Rightarrow> tenant_row option" where
  "repo_tenant t db = find_row (\<lambda>r. tn_id r = t) (db_tenants db)"

definition repo_user :: "actor \<Rightarrow> string \<Rightarrow> user_row op" where
  "repo_user a i = tsome (\<lambda>db. find_row (\<lambda>r. us_id r = i \<and> us_tenant_id r = tenant_of a) (db_users db)) (not_found ''user'')"

definition repo_edge :: "actor \<Rightarrow> string \<Rightarrow> edge_node_row op" where
  "repo_edge a i = tsome (\<lambda>db. find_row (\<lambda>r. eg_id r = i \<and> eg_tenant_id r = tenant_of a) (db_edges db)) (not_found ''edge'')"

definition repo_device :: "actor \<Rightarrow> string \<Rightarrow> device_row op" where
  "repo_device a i = tsome (\<lambda>db. find_row (\<lambda>r. de_id r = i \<and> de_tenant_id r = tenant_of a) (db_devices db)) (not_found ''device'')"

definition repo_devices :: "actor \<Rightarrow> cdb \<Rightarrow> device_row list" where
  "repo_devices a db = sort_key de_id (filter (\<lambda>r. de_tenant_id r = tenant_of a) (db_devices db))"

definition repo_content_revision :: "actor \<Rightarrow> string \<Rightarrow> revision_row op" where
  "repo_content_revision a i = tsome (\<lambda>db. find_row (\<lambda>r. rv_id r = i \<and> rv_tenant_id r = tenant_of a) (db_revisions db))
     (not_found ''content revision'')"

definition repo_automation_version :: "actor \<Rightarrow> string \<Rightarrow> automation_row op" where
  "repo_automation_version a i = tsome (\<lambda>db. find_row (\<lambda>r. au_id r = i \<and> au_tenant_id r = tenant_of a) (db_automations db))
     (not_found ''automation package version'')"

definition find_product :: "actor \<Rightarrow> string \<Rightarrow> cdb \<Rightarrow> product_row option" where
  "find_product a i db = find_row (\<lambda>r. pr_id r = i \<and> pr_tenant_id r = tenant_of a) (db_products db)"

definition repo_plan_by_idempotency :: "actor \<Rightarrow> string \<Rightarrow> cdb \<Rightarrow> plan_row option" where
  "repo_plan_by_idempotency a k db = find_row (\<lambda>r. pl_tenant_id r = tenant_of a \<and> pl_idempotency_key r = k) (db_plans db)"

definition repo_plan :: "actor \<Rightarrow> string \<Rightarrow> plan_row op" where
  "repo_plan a i = tsome (\<lambda>db. find_row (\<lambda>r. pl_id r = i \<and> pl_tenant_id r = tenant_of a) (db_plans db)) (not_found ''publish plan'')"

definition repo_snapshot_for_plan :: "actor \<Rightarrow> string \<Rightarrow> cdb \<Rightarrow> snapshot_row option" where
  "repo_snapshot_for_plan a i db = find_row (\<lambda>r. sn_plan_id r = i \<and> sn_tenant_id r = tenant_of a) (db_snapshots db)"

definition repo_targets_for_plan :: "actor \<Rightarrow> string \<Rightarrow> cdb \<Rightarrow> target_row list" where
  "repo_targets_for_plan a i db = filter (\<lambda>r. tg_plan_id r = i \<and> tg_tenant_id r = tenant_of a) (db_targets db)"

definition repo_target :: "actor \<Rightarrow> string \<Rightarrow> target_row op" where
  "repo_target a i = tsome (\<lambda>db. find_row (\<lambda>r. tg_id r = i \<and> tg_tenant_id r = tenant_of a) (db_targets db)) (not_found ''publish target'')"

definition repo_lease_for_device :: "actor \<Rightarrow> string \<Rightarrow> cdb \<Rightarrow> lease_row option" where
  "repo_lease_for_device a i db = find_row (\<lambda>r. le_device_id r = i \<and> le_tenant_id r = tenant_of a) (db_leases db)"

definition repo_intent_for_target :: "actor \<Rightarrow> string \<Rightarrow> cdb \<Rightarrow> intent_row option" where
  "repo_intent_for_target a i db =
     find_row (\<lambda>r. in_target_id r = i \<and> in_tenant_id r = tenant_of a \<and> in_attempt_no r = 1) (db_intents db)"

definition repo_events :: "actor \<Rightarrow> string option \<Rightarrow> nat \<Rightarrow> cdb \<Rightarrow> outbox_row list" where
  "repo_events a after limit db =
     take limit (sort_key ob_id (filter (\<lambda>r. ob_tenant_id r = tenant_of a \<and>
       (case after of None \<Rightarrow> True | Some i \<Rightarrow> i = [] \<or> i < ob_id r)) (db_outbox db)))"

definition repo_audit_events :: "actor \<Rightarrow> nat \<Rightarrow> cdb \<Rightarrow> audit_row list" where
  "repo_audit_events a limit db =
     take limit (rev (sort_key ad_id (filter (\<lambda>r. ad_tenant_id r = tenant_of a) (db_audit db))))"

definition outbox_entry :: "env \<Rightarrow> actor \<Rightarrow> nat \<Rightarrow> string \<Rightarrow> string \<Rightarrow> string \<Rightarrow> dict \<Rightarrow> outbox_row" where
  "outbox_entry ev a n aggregate_type aggregate_id event_type payload =
     \<lparr>ob_id = ev_id ev n, ob_tenant_id = tenant_of a, ob_aggregate_type = aggregate_type, ob_aggregate_id = aggregate_id,
      ob_event_type = event_type, ob_payload = payload, ob_occurred_at = ev_now ev, ob_published_at = None,
      ob_claimed_at = None, ob_claim_owner = None, ob_attempts = 0, ob_last_error = None\<rparr>"

definition emit :: "env \<Rightarrow> actor \<Rightarrow> string \<Rightarrow> string \<Rightarrow> string \<Rightarrow> dict \<Rightarrow> unit op" where
  "emit ev a aggregate_type aggregate_id event_type payload =
     tmodify (\<lambda>db. db\<lparr>db_next := db_next db + 1,
       db_outbox := db_outbox db @ [outbox_entry ev a (db_next db) aggregate_type aggregate_id event_type payload]\<rparr>)"

record audit_info =
  ai_before :: "json option"
  ai_after :: "json option"
  ai_metadata :: dict
  ai_workflow_id :: "string option"
  ai_device_id :: "string option"
  ai_edge_id :: "string option"

definition plain_audit :: audit_info where
  "plain_audit = \<lparr>ai_before = None, ai_after = None, ai_metadata = [], ai_workflow_id = None, ai_device_id = None, ai_edge_id = None\<rparr>"

definition audit_entry :: "env \<Rightarrow> actor \<Rightarrow> nat \<Rightarrow> string \<Rightarrow> string \<Rightarrow> string \<Rightarrow> audit_info \<Rightarrow> audit_row" where
  "audit_entry ev a n action resource_type resource_id info =
     \<lparr>ad_id = ev_id ev n, ad_tenant_id = tenant_of a,
      ad_actor_type = (if SYSTEM_SERVICE \<in> set (actor_roles a) then ''service'' else ''user''),
      ad_actor_id = actor_user_id a, ad_action = action, ad_resource_type = resource_type, ad_resource_id = resource_id,
      ad_request_id = actor_request_id a, ad_workflow_id = ai_workflow_id info, ad_device_id = ai_device_id info,
      ad_edge_id = ai_edge_id info, ad_before_hash = map_option (ev_hash ev) (ai_before info),
      ad_after_hash = map_option (ev_hash ev) (ai_after info), ad_result = ''SUCCEEDED'',
      ad_metadata = ai_metadata info, ad_occurred_at = ev_now ev\<rparr>"

definition audit :: "env \<Rightarrow> actor \<Rightarrow> string \<Rightarrow> string \<Rightarrow> string \<Rightarrow> audit_info \<Rightarrow> unit op" where
  "audit ev a action resource_type resource_id info =
     tmodify (\<lambda>db. db\<lparr>db_next := db_next db + 1,
       db_audit := db_audit db @ [audit_entry ev a (db_next db) action resource_type resource_id info]\<rparr>)"

lemma entry_Inr [simp]:
  "new_id ev db = Inr (i, db') \<longleftrightarrow> i = ev_id ev (db_next db) \<and> db' = db\<lparr>db_next := db_next db + 1\<rparr>"
  "emit ev a g gi t pl db = Inr (u, db') \<longleftrightarrow>
     db' = db\<lparr>db_next := db_next db + 1, db_outbox := db_outbox db @ [outbox_entry ev a (db_next db) g gi t pl]\<rparr>"
  "audit ev a act r ri info db = Inr (u, db') \<longleftrightarrow>
     db' = db\<lparr>db_next := db_next db + 1, db_audit := db_audit db @ [audit_entry ev a (db_next db) act r ri info]\<rparr>"
  by (auto simp: new_id_def emit_def audit_def)

lemma keeps_case_json [keeps_intros]:
  "leaves T f1 \<Longrightarrow> (\<And>b. leaves T (f2 b)) \<Longrightarrow> (\<And>n. leaves T (f3 n)) \<Longrightarrow> (\<And>r. leaves T (f4 r)) \<Longrightarrow> (\<And>v. leaves T (f5 v)) \<Longrightarrow>
   (\<And>l. leaves T (f6 l)) \<Longrightarrow> (\<And>d. leaves T (f7 d)) \<Longrightarrow>
   leaves T (case x of JNull \<Rightarrow> f1 | JBool b \<Rightarrow> f2 b | JInt n \<Rightarrow> f3 n | JFloat r \<Rightarrow> f4 r | JStr v \<Rightarrow> f5 v | JList l \<Rightarrow> f6 l | JObj d \<Rightarrow> f7 d)"
  by (cases x) auto

lemma keeps_repo [keeps_intros]:
  "leaves T (require a p)" "leaves T (repo_user a i)" "leaves T (repo_edge a i)" "leaves T (repo_device a i)"
  "leaves T (repo_content_revision a i)" "leaves T (repo_automation_version a i)" "leaves T (repo_plan a i)" "leaves T (repo_target a i)"
  unfolding require_def repo_user_def repo_edge_def repo_device_def repo_content_revision_def repo_automation_version_def
    repo_plan_def repo_target_def
  by (rule keeps_pure)+

lemma keeps_new_id [keeps_intros]: "(\<And>s n. T (s\<lparr>db_next := n\<rparr>) = T s) \<Longrightarrow> leaves T (new_id ev)"
  by (auto simp: leaves_def new_id_def)

lemma keeps_emit [keeps_intros]:
  "(\<And>s. T (s\<lparr>db_next := db_next s + 1, db_outbox := db_outbox s @ [outbox_entry ev a (db_next s) r i t pl]\<rparr>) = T s) \<Longrightarrow> leaves T (emit ev a r i t pl)"
  unfolding emit_def by (intro keeps_intros)

lemma keeps_audit [keeps_intros]:
  "(\<And>s. T (s\<lparr>db_next := db_next s + 1, db_audit := db_audit s @ [audit_entry ev a (db_next s) act r i info]\<rparr>) = T s) \<Longrightarrow> leaves T (audit ev a act r i info)"
  unfolding audit_def by (intro keeps_intros)

lemmas repo_defs = require_def repo_user_def repo_edge_def repo_device_def repo_content_revision_def
  repo_automation_version_def repo_plan_def repo_target_def

lemma require_Inr [simp]: "require a p db = Inr (u, db') \<longleftrightarrow> p \<in> effective_permissions (actor_roles a) \<and> db' = db"
  using require_permissions_ok[of "actor_roles a" "[p]"] by (auto simp: require_def tlift_def split: sum.splits)

lemma repo_Inr [simp]:
  "repo_edge a i db = Inr (r1, db') \<longleftrightarrow> find_row (\<lambda>r. eg_id r = i \<and> eg_tenant_id r = tenant_of a) (db_edges db) = Some r1 \<and> db' = db"
  "repo_device a i db = Inr (r2, db') \<longleftrightarrow> find_row (\<lambda>r. de_id r = i \<and> de_tenant_id r = tenant_of a) (db_devices db) = Some r2 \<and> db' = db"
  "repo_plan a i db = Inr (r3, db') \<longleftrightarrow> find_row (\<lambda>r. pl_id r = i \<and> pl_tenant_id r = tenant_of a) (db_plans db) = Some r3 \<and> db' = db"
  "repo_target a i db = Inr (r4, db') \<longleftrightarrow> find_row (\<lambda>r. tg_id r = i \<and> tg_tenant_id r = tenant_of a) (db_targets db) = Some r4 \<and> db' = db"
  "repo_content_revision a i db = Inr (r5, db') \<longleftrightarrow>
     find_row (\<lambda>r. rv_id r = i \<and> rv_tenant_id r = tenant_of a) (db_revisions db) = Some r5 \<and> db' = db"
  "repo_automation_version a i db = Inr (r6, db') \<longleftrightarrow>
     find_row (\<lambda>r. au_id r = i \<and> au_tenant_id r = tenant_of a) (db_automations db) = Some r6 \<and> db' = db"
  "repo_user a i db = Inr (r7, db') \<longleftrightarrow> find_row (\<lambda>r. us_id r = i \<and> us_tenant_id r = tenant_of a) (db_users db) = Some r7 \<and> db' = db"
  by (simp_all add: repo_defs)

lemma repo_lease_SomeD:
  "repo_lease_for_device a d db = Some l \<Longrightarrow> l \<in> set (db_leases db) \<and> le_device_id l = d \<and> le_tenant_id l = tenant_of a"
  by (auto simp: repo_lease_for_device_def dest: find_row_SomeD)

end
