(* ===== verification/Publishing.thy ===== *)
theory Publishing
  imports Control_Db
begin

text \<open>
  Publishing in the Control API (\<open>services.py\<close> of \<open>services/control-api\<close>): publish plans and their
  immutable snapshots, approval, cancellation, device leases with fencing tokens, commit intents and the
  state of publish targets. One definition per method of \<open>ControlService\<close>, with its checks in order.
\<close>

subsection \<open>Plans\<close>

record plan_request =
  pq_content_revision_id :: string
  pq_product_id :: "string option"
  pq_platform :: string
  pq_targets :: "dict list"
  pq_schedule :: dict
  pq_execution :: dict
  pq_approval_policy :: string
  pq_automation_package_version_id :: string

definition opt_json :: "string option \<Rightarrow> json" where
  "opt_json v = (case v of None \<Rightarrow> JNull | Some t \<Rightarrow> JStr t)"

text \<open>\<open>request.model_dump(mode="json", by_alias=True)\<close>.\<close>

definition request_json :: "plan_request \<Rightarrow> json" where
  "request_json q = JObj [(''contentRevisionId'', JStr (pq_content_revision_id q)), (''productId'', opt_json (pq_product_id q)),
     (''platform'', JStr (pq_platform q)), (''targets'', JList (map JObj (pq_targets q))), (''schedule'', JObj (pq_schedule q)),
     (''execution'', JObj (pq_execution q)), (''approvalPolicy'', JStr (pq_approval_policy q)),
     (''automationPackageVersionId'', JStr (pq_automation_package_version_id q))]"

text \<open>The response of a plan, \<open>_plan_view\<close>; an operation returns the row that its view shows.\<close>

definition plan_view :: "plan_row \<Rightarrow> json" where
  "plan_view p = JObj [(''id'', JStr (pl_id p)), (''tenant_id'', JStr (pl_tenant_id p)), (''creator_id'', JStr (pl_creator_id p)),
     (''request_sha256'', JStr (pl_request_sha256 p)), (''content_revision_id'', JStr (pl_content_revision_id p)),
     (''product_id'', opt_json (pl_product_id p)),
     (''automation_package_version_id'', JStr (pl_automation_package_version_id p)), (''platform'', JStr (pl_platform p)),
     (''schedule'', JObj (pl_schedule p)), (''execution'', JObj (pl_execution p)), (''approval_policy'', JStr (pl_approval_policy p)),
     (''targets'', JList (map JObj (pl_targets p))), (''state'', JStr (publish_state_name (pl_state p))),
     (''cancel_requested'', JBool (pl_cancel_requested p)), (''workflow_id'', opt_json (pl_workflow_id p)),
     (''version'', JInt (pl_version p)), (''created_at'', JInt (pl_created_at p))]"

definition find_account :: "string \<Rightarrow> string \<Rightarrow> cdb \<Rightarrow> account_row option" where
  "find_account tenant i db = find_row (\<lambda>r. ac_id r = i \<and> ac_tenant_id r = tenant) (db_accounts db)"

definition the_account :: "string \<Rightarrow> string \<Rightarrow> account_row op" where
  "the_account tenant i = tsome (find_account tenant i) (not_found ''platform account'')"

definition live_binding :: "string \<Rightarrow> string \<Rightarrow> string \<Rightarrow> cdb \<Rightarrow> account_binding_row option" where
  "live_binding tenant account_id device_id db =
     find_row (\<lambda>b. ab_tenant_id b = tenant \<and> ab_account_id b = account_id \<and> ab_device_id b = device_id \<and> ab_status b = ''BOUND'')
       (db_bindings db)"

definition expired :: "int \<Rightarrow> int option \<Rightarrow> bool" where
  "expired now limit = (case limit of None \<Rightarrow> False | Some t \<Rightarrow> t \<le> now)"

definition validate_publish_target :: "env \<Rightarrow> string \<Rightarrow> string \<Rightarrow> dict \<Rightarrow> unit op" where
  "validate_publish_target ev tenant platform target =
     (case dget target ''accountId'' of
        Some (JStr account_id) \<Rightarrow>
          if account_id = [] then tfail (Api (ValidationError ''every publish target requires accountId''))
          else tbind (the_account tenant account_id) (\<lambda>account.
               tbind (tguard (ac_platform account = platform) (Api (ValidationError ''publish target account platform does not match plan''))) (\<lambda>_.
               tbind (tguard (ac_status account = ''AUTHORIZED'') (Api (ConflictError ''publish target account is not authorized''))) (\<lambda>_.
               tbind (tguard (\<not> expired (ev_now ev) (ac_expires_at account)) (Api (ConflictError ''publish target account authorization has expired''))) (\<lambda>_.
               case dget target ''deviceId'' of
                 None \<Rightarrow> treturn ()
               | Some JNull \<Rightarrow> treturn ()
               | Some (JStr device_id) \<Rightarrow>
                   if device_id = [] then tfail (Api (ValidationError ''deviceId must be a non-empty string''))
                   else tbind (tsome (live_binding tenant (ac_id account) device_id)
                          (Api (ConflictError ''publish target account is not bound to the selected device''))) (\<lambda>_. treturn ())
               | Some _ \<Rightarrow> tfail (Api (ValidationError ''deviceId must be a non-empty string''))))))
      | _ \<Rightarrow> tfail (Api (ValidationError ''every publish target requires accountId'')))"

definition validate_publish_targets :: "env \<Rightarrow> string \<Rightarrow> string \<Rightarrow> dict list \<Rightarrow> unit op" where
  "validate_publish_targets ev tenant platform targets =
     tbind (tmap (validate_publish_target ev tenant platform) targets) (\<lambda>_. treturn ())"

text \<open>
  An insert that breaks a key of its table is an \<open>IntegrityError\<close>; the unique key (tenant, idempotency key)
  of plans is met because the key was just looked up.
\<close>

definition create_plan :: "env \<Rightarrow> actor \<Rightarrow> string \<Rightarrow> plan_request \<Rightarrow> (plan_row \<times> bool) op" where
  "create_plan ev a idempotency_key q =
     tbind (require a PUBLISH_CREATE) (\<lambda>_.
     tbind (tguard (idempotency_key \<noteq> [] \<and> length idempotency_key \<le> 128)
       (Api (ValidationError ''a valid Idempotency-Key header is required''))) (\<lambda>_.
     let request_sha256 = ev_hash ev (request_json q) in
     tbind (tread (repo_plan_by_idempotency a idempotency_key)) (\<lambda>existing.
     case existing of
       Some p \<Rightarrow>
         if pl_request_sha256 p \<noteq> request_sha256
         then tfail (Api (ConflictError ''Idempotency-Key was already used for a different request''))
         else treturn (p, False)
     | None \<Rightarrow>
         tbind (repo_content_revision a (pq_content_revision_id q)) (\<lambda>_.
         tbind (case pq_product_id q of
                  None \<Rightarrow> treturn ()
                | Some i \<Rightarrow> tbind (tsome (find_product a i) (not_found ''product'')) (\<lambda>product.
                    tguard (pr_status product = ''ACTIVE'') (Api (ConflictError ''archived product cannot receive a publish plan'')))) (\<lambda>_.
         tbind (repo_automation_version a (pq_automation_package_version_id q)) (\<lambda>automation.
         tbind (tguard (au_production_qualified automation)
           (Api (ValidationError ''automation package version is not production qualified''))) (\<lambda>_.
         tbind (validate_publish_targets ev (tenant_of a) (pq_platform q) (pq_targets q)) (\<lambda>_.
         tbind (new_id ev) (\<lambda>i.
         let plan = \<lparr>pl_id = i, pl_tenant_id = tenant_of a, pl_idempotency_key = idempotency_key,
               pl_request_sha256 = request_sha256, pl_creator_id = actor_user_id a,
               pl_content_revision_id = pq_content_revision_id q, pl_product_id = pq_product_id q,
               pl_automation_package_version_id = pq_automation_package_version_id q, pl_platform = pq_platform q,
               pl_schedule = pq_schedule q, pl_execution = pq_execution q, pl_approval_policy = pq_approval_policy q,
               pl_targets = pq_targets q, pl_state = DRAFT, pl_cancel_requested = False, pl_workflow_id = None, pl_version = 0,
               pl_created_at = ev_now ev\<rparr> in
         tbind (tread (\<lambda>db. \<exists>p \<in> set (db_plans db). pl_id p = i)) (\<lambda>duplicate.
         tbind (tguard (\<not> duplicate) IntegrityError) (\<lambda>_.
         tbind (tmodify (\<lambda>db. db\<lparr>db_plans := db_plans db @ [plan]\<rparr>)) (\<lambda>_.
         tbind (audit ev a ''publish.plan.created'' ''publish_plan'' i (plain_audit\<lparr>ai_after := Some (plan_view plan)\<rparr>)) (\<lambda>_.
         tbind (emit ev a ''publish_plan'' i ''publish.plan.created'' [(''planId'', JStr i)]) (\<lambda>_.
         treturn (plan, True)))))))))))))))"

text \<open>Assignments to the attributes of a loaded row: the row the tenant-scoped lookup found.\<close>

definition set_plan :: "actor \<Rightarrow> string \<Rightarrow> (plan_row \<Rightarrow> plan_row) \<Rightarrow> unit op" where
  "set_plan a i f = tmodify (\<lambda>db. db\<lparr>db_plans := upd_where (\<lambda>p. pl_id p = i \<and> pl_tenant_id p = tenant_of a) f (db_plans db)\<rparr>)"

definition set_targets :: "actor \<Rightarrow> (target_row \<Rightarrow> bool) \<Rightarrow> (target_row \<Rightarrow> target_row) \<Rightarrow> unit op" where
  "set_targets a p f = tmodify (\<lambda>db. db\<lparr>db_targets := upd_where (\<lambda>t. tg_tenant_id t = tenant_of a \<and> p t) f (db_targets db)\<rparr>)"

definition snapshot_payload :: "plan_row \<Rightarrow> revision_row \<Rightarrow> automation_row \<Rightarrow> json" where
  "snapshot_payload plan revision automation = JObj
     [(''platform'', JStr (pl_platform plan)),
      (''contentRevision'', JObj [(''id'', JStr (rv_id revision)), (''payload'', rv_payload revision), (''sha256'', JStr (rv_payload_sha256 revision))]),
      (''automationPackage'', JObj [(''id'', JStr (au_id automation)), (''name'', JStr (au_name automation)),
         (''version'', JStr (au_version automation)), (''sha256'', JStr (au_artifact_sha256 automation))]),
      (''schedule'', JObj (pl_schedule plan)), (''execution'', JObj (pl_execution plan)),
      (''targets'', JList (map JObj (pl_targets plan))), (''approvalPolicy'', JStr (pl_approval_policy plan))]"

text \<open>The row of one target: the binding of its account to the chosen device is frozen.\<close>

definition submit_target :: "env \<Rightarrow> actor \<Rightarrow> string \<Rightarrow> string \<Rightarrow> publish_state \<Rightarrow> dict \<Rightarrow> target_row op" where
  "submit_target ev a plan_id snapshot_id state payload =
     (case dget payload ''accountId'' of
        Some (JStr account_id) \<Rightarrow>
          if account_id = [] then tfail (Api (ValidationError ''every target requires accountId''))
          else
            let device_id = (case dget payload ''deviceId'' of Some (JStr d) \<Rightarrow> Some d | _ \<Rightarrow> None) in
            tbind (case device_id of
                     Some d \<Rightarrow>
                       if d = [] then treturn None
                       else tbind (tsome (live_binding (tenant_of a) account_id d)
                              (Api (ConflictError ''publish target account is not bound to the selected device'')))
                              (\<lambda>b. treturn (Some (ab_binding_version b)))
                   | None \<Rightarrow> treturn None) (\<lambda>frozen.
            tbind (new_id ev) (\<lambda>i.
            let target = \<lparr>tg_id = i, tg_tenant_id = tenant_of a, tg_plan_id = plan_id, tg_snapshot_id = snapshot_id,
                  tg_account_id = account_id, tg_device_id = device_id, tg_binding_version = frozen,
                  tg_device_id_at_execution = None, tg_state = state, tg_result_detail = None, tg_cancel_requested = False,
                  tg_created_at = ev_now ev\<rparr> in
            tbind (tread (\<lambda>db. \<exists>t \<in> set (db_targets db). tg_id t = i)) (\<lambda>duplicate.
            tbind (tguard (\<not> duplicate) IntegrityError) (\<lambda>_.
            tbind (tmodify (\<lambda>db. db\<lparr>db_targets := db_targets db @ [target]\<rparr>)) (\<lambda>_. treturn target)))))
      | _ \<Rightarrow> tfail (Api (ValidationError ''every target requires accountId'')))"

definition check_transition :: "publish_state \<Rightarrow> publish_state \<Rightarrow> unit op" where
  "check_transition current requested =
     tlift (case assert_publish_transition current requested of Inl e \<Rightarrow> Inl (Api e) | Inr u \<Rightarrow> Inr u)"

lemma check_transition_Inr [simp]:
  "check_transition s t db = Inr (u, db') \<longleftrightarrow> t \<in> ALLOWED_TRANSITIONS s \<and> db' = db"
  by (cases "t \<in> ALLOWED_TRANSITIONS s") (simp_all add: check_transition_def assert_publish_transition_def)

lemma keeps_check_transition [keeps_intros]: "leaves T (check_transition s t)"
  unfolding check_transition_def by (rule keeps_pure)

text \<open>The first submission: the snapshot, the rows of the targets and the start of the workflow.\<close>

definition freeze_plan :: "env \<Rightarrow> actor \<Rightarrow> plan_row \<Rightarrow> (snapshot_row \<times> target_row list) op" where
  "freeze_plan ev a plan =
     tbind (tguard (pl_state plan = DRAFT) (Api (ConflictError ''only a DRAFT plan can be submitted''))) (\<lambda>_.
     tbind (repo_content_revision a (pl_content_revision_id plan)) (\<lambda>revision.
     tbind (repo_automation_version a (pl_automation_package_version_id plan)) (\<lambda>automation.
     tbind (new_id ev) (\<lambda>i.
     let payload = snapshot_payload plan revision automation;
         snapshot = \<lparr>sn_id = i, sn_tenant_id = tenant_of a, sn_plan_id = pl_id plan, sn_content_revision_id = rv_id revision,
           sn_automation_package_version_id = au_id automation, sn_payload = payload, sn_payload_sha256 = ev_hash ev payload,
           sn_created_at = ev_now ev\<rparr>;
         state = (if pl_approval_policy plan \<noteq> ''NONE'' then AWAITING_APPROVAL else SCHEDULED);
         workflow_id = ''publish-plan/'' @ pl_id plan in
     tbind (tread (\<lambda>db. \<exists>s \<in> set (db_snapshots db). sn_plan_id s = pl_id plan)) (\<lambda>duplicate.
     tbind (tguard (\<not> duplicate) IntegrityError) (\<lambda>_.
     tbind (tmodify (\<lambda>db. db\<lparr>db_snapshots := db_snapshots db @ [snapshot]\<rparr>)) (\<lambda>_.
     tbind (check_transition DRAFT state) (\<lambda>_.
     tbind (set_plan a (pl_id plan) (\<lambda>p. p\<lparr>pl_state := state, pl_workflow_id := Some workflow_id, pl_version := pl_version p + 1\<rparr>)) (\<lambda>_.
     tbind (tmap (submit_target ev a (pl_id plan) i state) (pl_targets plan)) (\<lambda>targets.
     tbind (audit ev a ''publish.plan.submitted'' ''publish_plan'' (pl_id plan)
       (plain_audit\<lparr>ai_after := Some (JObj [(''snapshot_sha256'', JStr (sn_payload_sha256 snapshot)), (''state'', JStr (publish_state_name state))]),
         ai_workflow_id := Some workflow_id\<rparr>)) (\<lambda>_.
     tbind (emit ev a ''publish_plan'' (pl_id plan) ''publish.plan.submitted''
       [(''planId'', JStr (pl_id plan)), (''workflowId'', JStr workflow_id), (''snapshotId'', JStr i),
        (''requiresApproval'', JBool (pl_approval_policy plan \<noteq> ''NONE''))]) (\<lambda>_.
     treturn (snapshot, targets)))))))))))))"

definition submit_plan :: "env \<Rightarrow> actor \<Rightarrow> string \<Rightarrow> (snapshot_row \<times> target_row list) op" where
  "submit_plan ev a plan_id =
     tbind (require a PUBLISH_CREATE) (\<lambda>_.
     tbind (repo_plan a plan_id) (\<lambda>plan.
     tbind (case pl_product_id plan of
              None \<Rightarrow> treturn ()
            | Some i \<Rightarrow> tbind (tread (find_product a i)) (\<lambda>product.
                tguard (case product of None \<Rightarrow> False | Some p \<Rightarrow> pr_status p = ''ACTIVE'')
                  (Api (ConflictError ''publish plan references an archived product'')))) (\<lambda>_.
     tbind (tread (\<lambda>db. (repo_snapshot_for_plan a (pl_id plan) db, repo_targets_for_plan a (pl_id plan) db))) (\<lambda>(existing, old).
     case existing of
       Some snapshot \<Rightarrow> treturn (snapshot, old)
     | None \<Rightarrow> freeze_plan ev a plan))))"

definition decide_approval :: "env \<Rightarrow> actor \<Rightarrow> string \<Rightarrow> string \<Rightarrow> string option \<Rightarrow> plan_row op" where
  "decide_approval ev a plan_id decision reason =
     tbind (require a PUBLISH_APPROVE) (\<lambda>_.
     tbind (tguard (actor_mfa a) (Api (ForbiddenError ''MFA is required for publish approval''))) (\<lambda>_.
     tbind (repo_plan a plan_id) (\<lambda>plan.
     tbind (tguard (pl_creator_id plan \<noteq> actor_user_id a) (Api (ForbiddenError ''creator cannot approve their own publish plan''))) (\<lambda>_.
     tbind (tguard (pl_state plan = AWAITING_APPROVAL) (Api (ConflictError ''plan is not awaiting approval''))) (\<lambda>_.
     tbind (new_id ev) (\<lambda>i.
     let state = (if decision = ''APPROVED'' then SCHEDULED else FAILED) in
     tbind (tmodify (\<lambda>db. db\<lparr>db_approvals := db_approvals db @
       [\<lparr>ap_id = i, ap_tenant_id = tenant_of a, ap_plan_id = pl_id plan, ap_creator_id = pl_creator_id plan,
         ap_approver_id = actor_user_id a, ap_decision = decision, ap_reason = reason,
         ap_created_at = ev_now ev\<rparr>]\<rparr>)) (\<lambda>_.
     tbind (check_transition AWAITING_APPROVAL state) (\<lambda>_.
     tbind (set_plan a (pl_id plan) (\<lambda>p. p\<lparr>pl_state := state, pl_version := pl_version p + 1\<rparr>)) (\<lambda>_.
     tbind (set_targets a (\<lambda>t. tg_plan_id t = pl_id plan)
       (\<lambda>t. t\<lparr>tg_state := state, tg_result_detail := (if state = FAILED then Some ''approval rejected'' else tg_result_detail t)\<rparr>)) (\<lambda>_.
     tbind (audit ev a ''publish.approval.decided'' ''publish_plan'' (pl_id plan)
       (plain_audit\<lparr>ai_after := Some (JObj [(''decision'', JStr decision), (''state'', JStr (publish_state_name state))]),
         ai_metadata := (case reason of Some r \<Rightarrow> if r = [] then [] else [(''reason'', JStr r)] | None \<Rightarrow> []),
         ai_workflow_id := pl_workflow_id plan\<rparr>)) (\<lambda>_.
     tbind (emit ev a ''publish_plan'' (pl_id plan) ''publish.plan.approval_decided''
       [(''planId'', JStr (pl_id plan)), (''decision'', JStr decision), (''state'', JStr (publish_state_name state))]) (\<lambda>_.
     treturn (plan\<lparr>pl_state := state, pl_version := pl_version plan + 1\<rparr>)))))))))))))"

definition UNSAFE_STATES :: "publish_state set" where
  "UNSAFE_STATES = {COMMITTING, RECONCILING, SUCCEEDED, UNKNOWN}"

definition cancel_plan :: "env \<Rightarrow> actor \<Rightarrow> string \<Rightarrow> plan_row op" where
  "cancel_plan ev a plan_id =
     tbind (require a PUBLISH_CREATE) (\<lambda>_.
     tbind (repo_plan a plan_id) (\<lambda>plan.
     tbind (tread (repo_targets_for_plan a (pl_id plan))) (\<lambda>targets.
     let has_unsafe_target = (\<exists>t \<in> set targets. tg_state t \<in> UNSAFE_STATES) in
     tbind (set_plan a (pl_id plan) (\<lambda>p. p\<lparr>pl_cancel_requested := True, pl_version := pl_version p + 1\<rparr>)) (\<lambda>_.
     tbind (if has_unsafe_target then treturn ()
            else tbind (tlift (case assert_safe_cancel (pl_state plan) of Inl e \<Rightarrow> Inl (Api e) | Inr u \<Rightarrow> Inr u)) (\<lambda>_.
                 set_plan a (pl_id plan) (\<lambda>p. p\<lparr>pl_state := CANCELED\<rparr>))) (\<lambda>_.
     tbind (set_targets a (\<lambda>t. tg_plan_id t = pl_id plan \<and> tg_state t \<notin> UNSAFE_STATES \<union> {FAILED})
       (\<lambda>t. t\<lparr>tg_cancel_requested := True, tg_state := CANCELED\<rparr>)) (\<lambda>_.
     tbind (audit ev a ''publish.plan.cancel_requested'' ''publish_plan'' (pl_id plan)
       (plain_audit\<lparr>ai_after := Some (JObj [(''state'', JStr (publish_state_name (if has_unsafe_target then pl_state plan else CANCELED))),
         (''cancel_requested'', JBool True), (''deferred'', JBool has_unsafe_target)]), ai_workflow_id := pl_workflow_id plan\<rparr>)) (\<lambda>_.
     tbind (emit ev a ''publish_plan'' (pl_id plan) ''publish.plan.cancel_requested''
       [(''planId'', JStr (pl_id plan)), (''deferred'', JBool has_unsafe_target)]) (\<lambda>_.
     treturn (plan\<lparr>pl_state := (if has_unsafe_target then pl_state plan else CANCELED), pl_cancel_requested := True,
       pl_version := pl_version plan + 1\<rparr>)))))))))"

definition get_plan :: "actor \<Rightarrow> string \<Rightarrow> (plan_row \<times> snapshot_row option \<times> target_row list) op" where
  "get_plan a plan_id =
     tbind (require a PUBLISH_READ) (\<lambda>_.
     tbind (repo_plan a plan_id) (\<lambda>plan.
     tread (\<lambda>db. (plan, repo_snapshot_for_plan a (pl_id plan) db, repo_targets_for_plan a (pl_id plan) db))))"

subsection \<open>Leases\<close>

definition lease_live :: "int \<Rightarrow> lease_row \<Rightarrow> bool" where
  "lease_live now l \<longleftrightarrow> le_canceled_at l = None \<and> now < le_expires_at l"

definition acquire_lease :: "env \<Rightarrow> actor \<Rightarrow> string \<Rightarrow> string \<Rightarrow> int \<Rightarrow> lease_row op" where
  "acquire_lease ev a device_id owner_workflow_id ttl_seconds =
     tbind (require a DEVICE_MAINTAIN) (\<lambda>_.
     tbind (repo_device a device_id) (\<lambda>device.
     tbind (tguard (\<not> de_maintenance device) (Api (ConflictError ''device is in maintenance mode''))) (\<lambda>_.
     tbind (tread (repo_lease_for_device a (de_id device))) (\<lambda>existing.
     if (case existing of Some l \<Rightarrow> lease_live (ev_now ev) l \<and> le_owner_workflow_id l \<noteq> owner_workflow_id | None \<Rightarrow> False)
     then tfail (Api (ConflictError ''device is leased by another workflow''))
     else if (case existing of Some l \<Rightarrow> lease_live (ev_now ev) l \<and> le_owner_workflow_id l = owner_workflow_id | None \<Rightarrow> False)
     then treturn (the existing)
     else
       let token = de_fencing_counter device + 1 in
       tbind (tmodify (\<lambda>db. db\<lparr>db_devices := upd_where (\<lambda>d. de_id d = de_id device \<and> de_tenant_id d = tenant_of a) (\<lambda>d. d\<lparr>de_fencing_counter := token\<rparr>) (db_devices db)\<rparr>)) (\<lambda>_.
       tbind (twhen (existing \<noteq> None)
         (tmodify (\<lambda>db. db\<lparr>db_leases := filter (\<lambda>l. le_device_id l \<noteq> de_id device) (db_leases db)\<rparr>))) (\<lambda>_.
       tbind (new_id ev) (\<lambda>i.
       let lease = \<lparr>le_device_id = de_id device, le_tenant_id = tenant_of a, le_lease_id = i, le_owner_workflow_id = owner_workflow_id,
             le_fencing_token = token, le_expires_at = ev_now ev + ttl_seconds * 1000000, le_canceled_at = None,
             le_owner_type = ''AUTO'', le_created_at = ev_now ev\<rparr> in
       tbind (tread (\<lambda>db. \<exists>l \<in> set (db_leases db). le_device_id l = de_id device)) (\<lambda>duplicate.
       tbind (tguard (\<not> duplicate) IntegrityError) (\<lambda>_.
       tbind (tmodify (\<lambda>db. db\<lparr>db_leases := db_leases db @ [lease]\<rparr>)) (\<lambda>_.
       tbind (audit ev a ''device.lease.acquired'' ''device_lease'' i
         (plain_audit\<lparr>ai_after := Some (JObj [(''device_id'', JStr (de_id device)), (''fencing_token'', JInt token),
            (''expires_at'', JInt (le_expires_at lease))]), ai_workflow_id := Some owner_workflow_id,
          ai_device_id := Some (de_id device), ai_edge_id := de_edge_id device\<rparr>)) (\<lambda>_.
       treturn lease)))))))))))"

definition release_lease :: "env \<Rightarrow> actor \<Rightarrow> string \<Rightarrow> string \<Rightarrow> unit op" where
  "release_lease ev a device_id lease_id =
     tbind (require a DEVICE_MAINTAIN) (\<lambda>_.
     tbind (repo_device a device_id) (\<lambda>device.
     tbind (tread (repo_lease_for_device a device_id)) (\<lambda>lease.
     case lease of
       None \<Rightarrow> tfail (Api (ConflictError ''lease does not match the active device lease''))
     | Some l \<Rightarrow>
         tbind (tguard (le_lease_id l = lease_id) (Api (ConflictError ''lease does not match the active device lease''))) (\<lambda>_.
         tbind (tmodify (\<lambda>db. db\<lparr>db_leases := upd_where (\<lambda>r. le_device_id r = device_id \<and> le_tenant_id r = tenant_of a)
           (\<lambda>r. r\<lparr>le_canceled_at := Some (ev_now ev)\<rparr>) (db_leases db)\<rparr>)) (\<lambda>_.
         audit ev a ''device.lease.released'' ''device_lease'' (le_lease_id l)
           (plain_audit\<lparr>ai_device_id := Some (de_id device), ai_edge_id := de_edge_id device,
             ai_workflow_id := Some (le_owner_workflow_id l)\<rparr>))))))"

subsection \<open>Commit intents and target states\<close>

definition create_commit_intent :: "env \<Rightarrow> actor \<Rightarrow> string \<Rightarrow> int \<Rightarrow> string \<Rightarrow> intent_row op" where
  "create_commit_intent ev a target_id fencing_token before_commit_evidence_id =
     tbind (require a PUBLISH_CREATE) (\<lambda>_.
     tbind (repo_target a target_id) (\<lambda>target.
     tbind (tread (repo_intent_for_target a (tg_id target))) (\<lambda>existing.
     case existing of
       Some i \<Rightarrow>
         if in_fencing_token i \<noteq> fencing_token \<or> in_before_commit_evidence_id i \<noteq> before_commit_evidence_id
         then tfail (Api (ConflictError ''commit intent already exists with different immutable input''))
         else treturn i
     | None \<Rightarrow>
         (case tg_device_id target of
            None \<Rightarrow> tfail (Api (ConflictError ''publish target has no assigned device''))
          | Some device_id \<Rightarrow>
              tbind (tread (repo_lease_for_device a device_id)) (\<lambda>lease.
              tbind (tguard (case lease of None \<Rightarrow> False | Some l \<Rightarrow> lease_live (ev_now ev) l \<and> le_fencing_token l = fencing_token)
                (Api (ConflictError ''active fencing lease does not match commit intent''))) (\<lambda>_.
              tbind (tguard (tg_state target \<in> {RUNNING, WAITING_CONFIRMATION})
                (Api (ConflictError (''cannot create commit intent while target is '' @ publish_state_name (tg_state target))))) (\<lambda>_.
              tbind (check_transition (tg_state target) COMMITTING) (\<lambda>_.
              tbind (new_id ev) (\<lambda>i.
              let intent = \<lparr>in_id = i, in_tenant_id = tenant_of a, in_target_id = tg_id target, in_attempt_no = 1,
                    in_fencing_token = fencing_token, in_before_commit_evidence_id = before_commit_evidence_id,
                    in_created_at = ev_now ev\<rparr> in
              tbind (tread (\<lambda>db. \<exists>r \<in> set (db_intents db). in_target_id r = tg_id target \<and> in_attempt_no r = 1)) (\<lambda>duplicate.
              tbind (tguard (\<not> duplicate) IntegrityError) (\<lambda>_.
              tbind (tmodify (\<lambda>db. db\<lparr>db_intents := db_intents db @ [intent]\<rparr>)) (\<lambda>_.
              tbind (set_targets a (\<lambda>t. tg_id t = tg_id target) (\<lambda>t. t\<lparr>tg_state := COMMITTING\<rparr>)) (\<lambda>_.
              tbind (audit ev a ''publish.commit_intent.created'' ''commit_intent'' i
                (plain_audit\<lparr>ai_after := Some (JObj [(''target_id'', JStr (tg_id target)), (''fencing_token'', JInt fencing_token),
                   (''attempt_no'', JInt 1), (''before_commit_evidence_id'', JStr before_commit_evidence_id)]),
                 ai_device_id := tg_device_id target, ai_workflow_id := map_option le_owner_workflow_id lease\<rparr>)) (\<lambda>_.
              tbind (emit ev a ''publish_target'' (tg_id target) ''publish.target.commit_intent_created''
                [(''targetId'', JStr (tg_id target)), (''commitIntentId'', JStr i)]) (\<lambda>_.
              treturn intent)))))))))))))))"

definition update_target_state :: "env \<Rightarrow> actor \<Rightarrow> string \<Rightarrow> publish_state \<Rightarrow> string option \<Rightarrow> target_row op" where
  "update_target_state ev a target_id requested detail =
     tbind (require a PUBLISH_CREATE) (\<lambda>_.
     tbind (repo_target a target_id) (\<lambda>target.
     let current = tg_state target in
     if requested = current then treturn target
     else
       tbind (check_transition current requested) (\<lambda>_.
       tbind (tguard (\<not> (current = COMMITTING \<and> requested \<noteq> RECONCILING))
         (Api (ConflictError ''COMMITTING can only advance to RECONCILING''))) (\<lambda>_.
       tbind (set_targets a (\<lambda>t. tg_id t = tg_id target) (\<lambda>t. t\<lparr>tg_state := requested, tg_result_detail := detail\<rparr>)) (\<lambda>_.
       tbind (audit ev a ''publish.target.state_changed'' ''publish_target'' (tg_id target)
         (plain_audit\<lparr>ai_before := Some (JObj [(''state'', JStr (publish_state_name current))]),
          ai_after := Some (JObj [(''state'', JStr (publish_state_name requested)), (''detail'', opt_json detail)]),
          ai_device_id := tg_device_id target\<rparr>)) (\<lambda>_.
       tbind (emit ev a ''publish_target'' (tg_id target) ''publish.target.updated''
         [(''targetId'', JStr (tg_id target)), (''state'', JStr (publish_state_name requested)), (''detail'', opt_json detail)]) (\<lambda>_.
       treturn (target\<lparr>tg_state := requested, tg_result_detail := detail\<rparr>))))))))"

subsection \<open>The audit trail and the event feed\<close>

definition audit_events :: "actor \<Rightarrow> nat \<Rightarrow> audit_row list op" where
  "audit_events a limit = tbind (require a AUDIT_READ) (\<lambda>_. tread (repo_audit_events a limit))"

definition events :: "actor \<Rightarrow> string option \<Rightarrow> nat \<Rightarrow> outbox_row list op" where
  "events a after limit = tbind (require a PUBLISH_READ) (\<lambda>_. tread (repo_events a after limit))"

end
