(* ===== verification/Accounts.thy ===== *)
theory Accounts
  imports Publishing
begin

text \<open>
  Tenants, users, edges, devices and platform accounts of the Control API (\<open>services.py\<close> of
  \<open>services/control-api\<close>): their registration, the maintenance flag, and the binding of an account to a
  device, which displaces the other accounts of the same platform on that device and blocks their
  queued work. A constraint of the database that an insert breaks is the error \<open>IntegrityError\<close>.
\<close>

subsection \<open>Tenants, users, edges and devices\<close>

fun role_value :: "role \<Rightarrow> string" where
  "role_value VIEWER = ''viewer''"
| "role_value CONTENT_EDITOR = ''content_editor''"
| "role_value PUBLISHER = ''publisher''"
| "role_value APPROVER = ''approver''"
| "role_value AUTOMATION_DEVELOPER = ''automation_developer''"
| "role_value DEVICE_OPERATOR = ''device_operator''"
| "role_value SECURITY_ADMIN = ''security_admin''"
| "role_value SYSTEM_SERVICE = ''system_service''"

definition all_roles :: "role list" where
  "all_roles = [VIEWER, CONTENT_EDITOR, PUBLISHER, APPROVER, AUTOMATION_DEVELOPER, DEVICE_OPERATOR, SECURITY_ADMIN, SYSTEM_SERVICE]"

definition role_of_value :: "string \<Rightarrow> role option" where
  "role_of_value v = find_row (\<lambda>r. role_value r = v) all_roles"

definition parse_roles :: "string list \<Rightarrow> role list op" where
  "parse_roles vs = (if (\<exists>v \<in> set vs. role_of_value v = None) then tfail (Api (ValidationError ''unknown role''))
     else treturn (map (the \<circ> role_of_value) vs))"

definition roles_json :: "role list \<Rightarrow> json" where
  "roles_json rs = JList (map (JStr \<circ> role_value) rs)"

definition add_tenant :: "tenant_row \<Rightarrow> unit op" where
  "add_tenant t = tbind (tread (\<lambda>db. \<exists>r \<in> set (db_tenants db). tn_name r = tn_name t)) (\<lambda>duplicate.
     tbind (tguard (\<not> duplicate) IntegrityError) (\<lambda>_.
     tmodify (\<lambda>db. db\<lparr>db_tenants := db_tenants db @ [t]\<rparr>)))"

definition create_tenant :: "env \<Rightarrow> actor \<Rightarrow> string \<Rightarrow> tenant_row op" where
  "create_tenant ev a name =
     tbind (require a TENANT_ADMIN) (\<lambda>_.
     tbind (new_id ev) (\<lambda>i.
     let tenant = \<lparr>tn_id = i, tn_name = name, tn_created_at = ev_now ev\<rparr> in
     tbind (add_tenant tenant) (\<lambda>_.
     tbind (audit ev a ''tenant.created'' ''tenant'' i (plain_audit\<lparr>ai_after := Some (JObj [(''name'', JStr name)])\<rparr>)) (\<lambda>_.
     treturn tenant))))"

definition create_user :: "env \<Rightarrow> actor \<Rightarrow> string \<Rightarrow> string list \<Rightarrow> user_row op" where
  "create_user ev a oidc_subject role_names =
     tbind (require a TENANT_ADMIN) (\<lambda>_.
     tbind (parse_roles role_names) (\<lambda>roles.
     tbind (tread (repo_tenant (tenant_of a))) (\<lambda>tenant.
     tbind (twhen (tenant = None)
       (add_tenant \<lparr>tn_id = tenant_of a, tn_name = ''tenant-'' @ tenant_of a, tn_created_at = ev_now ev\<rparr>)) (\<lambda>_.
     tbind (new_id ev) (\<lambda>i.
     let user = \<lparr>us_id = i, us_tenant_id = tenant_of a, us_oidc_subject = oidc_subject, us_roles = roles, us_disabled = False,
           us_created_at = ev_now ev\<rparr> in
     tbind (tread (\<lambda>db. \<exists>u \<in> set (db_users db). us_tenant_id u = tenant_of a \<and> us_oidc_subject u = oidc_subject)) (\<lambda>duplicate.
     tbind (tguard (\<not> duplicate) IntegrityError) (\<lambda>_.
     tbind (tmodify (\<lambda>db. db\<lparr>db_users := db_users db @ [user]\<rparr>)) (\<lambda>_.
     tbind (audit ev a ''identity.user.created'' ''user'' i
       (plain_audit\<lparr>ai_after := Some (JObj [(''roles'', roles_json roles), (''oidc_subject_hash'', JStr (ev_hash ev (JStr oidc_subject)))])\<rparr>)) (\<lambda>_.
     treturn user)))))))))"

definition update_user_roles :: "env \<Rightarrow> actor \<Rightarrow> string \<Rightarrow> string list \<Rightarrow> user_row op" where
  "update_user_roles ev a user_id role_names =
     tbind (require a TENANT_ADMIN) (\<lambda>_.
     tbind (parse_roles role_names) (\<lambda>roles.
     tbind (repo_user a user_id) (\<lambda>user.
     tbind (tmodify (\<lambda>db. db\<lparr>db_users := upd_where (\<lambda>u. us_id u = us_id user \<and> us_tenant_id u = tenant_of a)
       (\<lambda>u. u\<lparr>us_roles := roles\<rparr>) (db_users db)\<rparr>)) (\<lambda>_.
     tbind (audit ev a ''identity.user.roles_updated'' ''user'' (us_id user)
       (plain_audit\<lparr>ai_before := Some (JObj [(''roles'', roles_json (us_roles user))]),
        ai_after := Some (JObj [(''roles'', roles_json roles)])\<rparr>)) (\<lambda>_.
     tbind (emit ev a ''user'' (us_id user) ''identity.user.roles_updated'' [(''userId'', JStr (us_id user))]) (\<lambda>_.
     treturn (user\<lparr>us_roles := roles\<rparr>)))))))"

definition create_edge :: "env \<Rightarrow> actor \<Rightarrow> string \<Rightarrow> string \<Rightarrow> edge_node_row op" where
  "create_edge ev a logical_name fingerprint =
     tbind (require a DEVICE_MAINTAIN) (\<lambda>_.
     tbind (new_id ev) (\<lambda>i.
     let edge = \<lparr>eg_id = i, eg_tenant_id = tenant_of a, eg_logical_name = logical_name, eg_certificate_fingerprint = fingerprint,
           eg_state = ''REGISTERED'', eg_last_seen_at = None, eg_created_at = ev_now ev\<rparr> in
     tbind (tread (\<lambda>db. \<exists>e \<in> set (db_edges db). eg_tenant_id e = tenant_of a \<and> eg_logical_name e = logical_name)) (\<lambda>duplicate.
     tbind (tguard (\<not> duplicate) IntegrityError) (\<lambda>_.
     tbind (tmodify (\<lambda>db. db\<lparr>db_edges := db_edges db @ [edge]\<rparr>)) (\<lambda>_.
     tbind (audit ev a ''edge.registered'' ''edge'' i
       (plain_audit\<lparr>ai_after := Some (JObj [(''logical_name'', JStr logical_name), (''fingerprint'', JStr fingerprint)])\<rparr>)) (\<lambda>_.
     tbind (emit ev a ''edge'' i ''edge.registered'' [(''edgeId'', JStr i)]) (\<lambda>_.
     treturn edge)))))))"

record device_request =
  dq_edge_id :: string
  dq_logical_name :: string
  dq_android_version :: "string option"
  dq_lamda_version :: "string option"
  dq_target_app_versions :: json
  dq_capabilities :: json
  dq_labels :: "string list"

definition create_device :: "env \<Rightarrow> actor \<Rightarrow> device_request \<Rightarrow> device_row op" where
  "create_device ev a q =
     tbind (require a DEVICE_MAINTAIN) (\<lambda>_.
     tbind (repo_edge a (dq_edge_id q)) (\<lambda>_.
     tbind (new_id ev) (\<lambda>i.
     let device = \<lparr>de_id = i, de_tenant_id = tenant_of a, de_edge_id = Some (dq_edge_id q), de_logical_name = dq_logical_name q,
           de_android_version = dq_android_version q, de_lamda_version = dq_lamda_version q,
           de_target_app_versions = dq_target_app_versions q, de_capabilities = dq_capabilities q, de_labels = dq_labels q,
           de_state = ''REGISTERED'', de_maintenance = False, de_last_seen_at = None, de_version = 0, de_fencing_counter = 0,
           de_control_epoch = 0, de_active_binding_id = None, de_created_at = ev_now ev\<rparr> in
     tbind (tread (\<lambda>db. \<exists>d \<in> set (db_devices db). de_id d = i \<or> de_tenant_id d = tenant_of a \<and> de_logical_name d = dq_logical_name q)) (\<lambda>duplicate.
     tbind (tguard (\<not> duplicate) IntegrityError) (\<lambda>_.
     tbind (tmodify (\<lambda>db. db\<lparr>db_devices := db_devices db @ [device]\<rparr>)) (\<lambda>_.
     tbind (audit ev a ''device.registered'' ''device'' i
       (plain_audit\<lparr>ai_after := Some (JObj [(''edge_id'', JStr (dq_edge_id q)), (''logical_name'', JStr (dq_logical_name q))]),
        ai_device_id := Some i, ai_edge_id := Some (dq_edge_id q)\<rparr>)) (\<lambda>_.
     tbind (emit ev a ''device'' i ''device.registered'' [(''deviceId'', JStr i)]) (\<lambda>_.
     treturn device))))))))"

definition list_devices :: "actor \<Rightarrow> device_row list op" where
  "list_devices a = tbind (require a DEVICE_READ) (\<lambda>_. tread (repo_devices a))"

definition set_maintenance :: "env \<Rightarrow> actor \<Rightarrow> string \<Rightarrow> bool \<Rightarrow> string \<Rightarrow> int option \<Rightarrow> device_row op" where
  "set_maintenance ev a device_id enabled reason expected_version =
     tbind (require a DEVICE_MAINTAIN) (\<lambda>_.
     tbind (repo_device a device_id) (\<lambda>device.
     tbind (tread (repo_lease_for_device a (de_id device))) (\<lambda>lease.
     tbind (tguard (case lease of None \<Rightarrow> True | Some l \<Rightarrow> \<not> lease_live (ev_now ev) l)
       (Api (ConflictError ''device maintenance cannot change while a lease is active''))) (\<lambda>_.
     tbind (tguard (case expected_version of None \<Rightarrow> True | Some v \<Rightarrow> v = de_version device)
       (Api (ConflictError ''device version does not match If-Match expectation''))) (\<lambda>_.
     tbind (tmodify (\<lambda>db. db\<lparr>db_devices := upd_where (\<lambda>d. de_id d = de_id device \<and> de_tenant_id d = tenant_of a)
       (\<lambda>d. d\<lparr>de_maintenance := enabled, de_version := de_version d + 1\<rparr>) (db_devices db)\<rparr>)) (\<lambda>_.
     tbind (audit ev a ''device.maintenance.changed'' ''device'' (de_id device)
       (plain_audit\<lparr>ai_before := Some (JObj [(''maintenance'', JBool (de_maintenance device)), (''version'', JInt (de_version device))]),
        ai_after := Some (JObj [(''maintenance'', JBool enabled), (''version'', JInt (de_version device + 1))]),
        ai_metadata := [(''reason'', JStr reason)], ai_device_id := Some (de_id device), ai_edge_id := de_edge_id device\<rparr>)) (\<lambda>_.
     tbind (emit ev a ''device'' (de_id device) ''device.maintenance.updated''
       [(''deviceId'', JStr (de_id device)), (''enabled'', JBool enabled)]) (\<lambda>_.
     treturn (device\<lparr>de_maintenance := enabled, de_version := de_version device + 1\<rparr>)))))))))"

subsection \<open>Platform accounts\<close>

record account_request =
  aq_platform :: string
  aq_external_subject_ref :: string
  aq_display_label :: string
  aq_secret_ref :: string
  aq_authorization_basis :: string
  aq_expires_at :: "int option"

definition create_platform_account :: "env \<Rightarrow> actor \<Rightarrow> account_request \<Rightarrow> account_row op" where
  "create_platform_account ev a q =
     tbind (require a DEVICE_MAINTAIN) (\<lambda>_.
     tbind (tguard (\<not> expired (ev_now ev) (aq_expires_at q))
       (Api (ValidationError ''account authorization expiry must be in the future''))) (\<lambda>_.
     tbind (tread (\<lambda>db. \<exists>r \<in> set (db_accounts db). ac_tenant_id r = tenant_of a \<and> ac_platform r = aq_platform q \<and>
       ac_external_subject_ref r = aq_external_subject_ref q)) (\<lambda>existing.
     tbind (tguard (\<not> existing) (Api (ConflictError ''platform account authorization already exists''))) (\<lambda>_.
     tbind (new_id ev) (\<lambda>i.
     let account = \<lparr>ac_id = i, ac_tenant_id = tenant_of a, ac_platform = aq_platform q,
           ac_external_subject_ref = aq_external_subject_ref q, ac_display_label = aq_display_label q,
           ac_secret_ref = aq_secret_ref q, ac_authorization_basis = aq_authorization_basis q, ac_status = ''AUTHORIZED'',
           ac_expires_at = aq_expires_at q, ac_last_checked_at = Some (ev_now ev), ac_revoked_at = None, ac_version = 0,
           ac_created_at = ev_now ev\<rparr> in
     tbind (tread (\<lambda>db. \<exists>r \<in> set (db_accounts db). ac_id r = i)) (\<lambda>duplicate.
     tbind (tguard (\<not> duplicate) IntegrityError) (\<lambda>_.
     tbind (tmodify (\<lambda>db. db\<lparr>db_accounts := db_accounts db @ [account]\<rparr>)) (\<lambda>_.
     tbind (audit ev a ''account.authorization.created'' ''platform_account'' i
       (plain_audit\<lparr>ai_after := Some (JObj [(''platform'', JStr (aq_platform q)), (''status'', JStr ''AUTHORIZED''),
          (''subject_ref_hash'', JStr (ev_hash ev (JStr (aq_external_subject_ref q)))),
          (''secret_ref_hash'', JStr (ev_hash ev (JStr (aq_secret_ref q))))])\<rparr>)) (\<lambda>_.
     tbind (emit ev a ''platform_account'' i ''account.authorization.created''
       [(''accountId'', JStr i), (''platform'', JStr (aq_platform q))]) (\<lambda>_.
     treturn account))))))))))"

definition list_platform_accounts :: "actor \<Rightarrow> (account_row \<times> account_binding_row list) list op" where
  "list_platform_accounts a =
     tbind (require a DEVICE_READ) (\<lambda>_. tread (\<lambda>db.
       let accounts = sort_key ac_id (filter (\<lambda>r. ac_tenant_id r = tenant_of a) (db_accounts db));
           bindings = sort_key (\<lambda>b. - ab_bound_at b) (filter (\<lambda>b. ab_tenant_id b = tenant_of a) (db_bindings db)) in
       map (\<lambda>r. (r, filter (\<lambda>b. ab_account_id b = ac_id r) bindings)) accounts))"

record ownership =
  ow_account :: account_row
  ow_bindings :: "account_binding_row list"
  ow_unbound :: bool
  ow_tasks :: "mobile_task_row list"
  ow_targets :: "target_row list"

definition get_account_ownership :: "actor \<Rightarrow> string \<Rightarrow> ownership op" where
  "get_account_ownership a account_id =
     tbind (require a DEVICE_READ) (\<lambda>_.
     tbind (the_account (tenant_of a) account_id) (\<lambda>account.
     tread (\<lambda>db.
       let bindings = sort_key (\<lambda>b. - ab_bound_at b)
             (filter (\<lambda>b. ab_tenant_id b = tenant_of a \<and> ab_account_id b = ac_id account) (db_bindings db)) in
       \<lparr>ow_account = account, ow_bindings = bindings, ow_unbound = (\<not> (\<exists>b \<in> set bindings. ab_status b = ''BOUND'')),
        ow_tasks = sort_key (\<lambda>t. - mt_created_at t)
          (filter (\<lambda>t. mt_tenant_id t = tenant_of a \<and> mt_account_id t = Some (ac_id account)) (db_mobile_tasks db)),
        ow_targets = sort_key (\<lambda>t. - tg_created_at t)
          (filter (\<lambda>t. tg_tenant_id t = tenant_of a \<and> tg_account_id t = ac_id account) (db_targets db))\<rparr>)))"

definition TASK_TERMINAL_DELIVERY :: "string \<Rightarrow> string option" where
  "TASK_TERMINAL_DELIVERY = [''SUCCEEDED'' \<mapsto> ''DELIVERED'', ''FAILED'' \<mapsto> ''FAILED'', ''CANCELLED'' \<mapsto> ''FAILED'',
     ''CANCELED'' \<mapsto> ''FAILED'', ''EXPIRED'' \<mapsto> ''FAILED'']"

definition settle_reply_delivery :: "string \<Rightarrow> string \<Rightarrow> cdb \<Rightarrow> cdb" where
  "settle_reply_delivery task_id business_state db =
     (case TASK_TERMINAL_DELIVERY business_state of
        None \<Rightarrow> db
      | Some target \<Rightarrow> db\<lparr>db_im_messages :=
          upd_where (\<lambda>m. im_reply_task_id m = Some task_id \<and> im_delivery_state m \<noteq> ''DELIVERED'')
            (\<lambda>m. m\<lparr>im_delivery_state := target\<rparr>) (db_im_messages db)\<rparr>)"

definition OPEN_PLAN_STATES :: "publish_state set" where
  "OPEN_PLAN_STATES = {DRAFT, AWAITING_APPROVAL, SCHEDULED, QUEUED}"

definition stale_task :: "string \<Rightarrow> string \<Rightarrow> string list \<Rightarrow> mobile_task_row \<Rightarrow> bool" where
  "stale_task tenant device_id account_ids t \<longleftrightarrow>
     mt_tenant_id t = tenant \<and> mt_device_id t = device_id \<and> mt_status t = ''QUEUED'' \<and>
     (case mt_account_id t of None \<Rightarrow> False | Some i \<Rightarrow> i \<in> set account_ids)"

definition stale_target :: "string \<Rightarrow> string list \<Rightarrow> dict \<Rightarrow> bool" where
  "stale_target device_id account_ids target \<longleftrightarrow>
     (case dget target ''accountId'' of Some (JStr i) \<Rightarrow> i \<in> set account_ids | _ \<Rightarrow> False) \<and>
     dget_or target ''deviceId'' JNull \<in> {JNull, JStr device_id}"

definition stale_plan :: "string \<Rightarrow> string \<Rightarrow> string list \<Rightarrow> plan_row \<Rightarrow> bool" where
  "stale_plan tenant device_id account_ids p \<longleftrightarrow>
     pl_tenant_id p = tenant \<and> pl_state p \<in> OPEN_PLAN_STATES \<and> (\<exists>t \<in> set (pl_targets p). stale_target device_id account_ids t)"

definition block_stale_account_work :: "env \<Rightarrow> string \<Rightarrow> string \<Rightarrow> string list \<Rightarrow> string \<Rightarrow> cdb \<Rightarrow> cdb" where
  "block_stale_account_work ev tenant device_id account_ids reason db =
     (if account_ids = [] then db
      else
        let queued = filter (stale_task tenant device_id account_ids) (db_mobile_tasks db);
            db1 = db\<lparr>db_mobile_tasks := upd_where (stale_task tenant device_id account_ids)
              (\<lambda>t. t\<lparr>mt_status := ''FAILED'', mt_business_state := ''FAILED'', mt_error_code := Some reason,
                     mt_detail := Some ''account binding changed before execution'', mt_completed_at := Some (ev_now ev),
                     mt_lease_id := None, mt_lease_expires_at := None\<rparr>) (db_mobile_tasks db)\<rparr>;
            db2 = fold (\<lambda>t. settle_reply_delivery (mt_id t) ''FAILED'') queued db1
        in db2\<lparr>db_plans := upd_where (stale_plan tenant device_id account_ids)
             (\<lambda>p. p\<lparr>pl_state := CANCELED, pl_cancel_requested := True, pl_version := pl_version p + 1,
                    pl_execution := dupdate (pl_execution p) [(''pausedReason'', JStr reason), (''pausedAt'', JInt (ev_now ev))]\<rparr>)
             (db_plans db2)\<rparr>)"

subsection \<open>Bindings of accounts to devices\<close>

text \<open>The bound rows of the device whose account, joined by its id, is on the platform.\<close>

definition same_platform_bound :: "actor \<Rightarrow> string \<Rightarrow> string \<Rightarrow> cdb \<Rightarrow> account_binding_row \<Rightarrow> bool" where
  "same_platform_bound a device_id platform db b \<longleftrightarrow>
     ab_tenant_id b = tenant_of a \<and> ab_device_id b = device_id \<and> ab_status b = ''BOUND'' \<and>
     (\<exists>r \<in> set (db_accounts db). ac_id r = ab_account_id b \<and> ac_platform r = platform)"

definition unbind_row :: "env \<Rightarrow> account_binding_row \<Rightarrow> account_binding_row" where
  "unbind_row ev b = b\<lparr>ab_status := ''UNBOUND'', ab_unbound_at := Some (ev_now ev)\<rparr>"

definition displace :: "env \<Rightarrow> actor \<Rightarrow> string \<Rightarrow> account_row \<Rightarrow> string list op" where
  "displace ev a device_id account db =
     (let hit = (\<lambda>b. same_platform_bound a device_id (ac_platform account) db b \<and> ab_account_id b \<noteq> ac_id account);
          ids = map ab_account_id (filter hit (db_bindings db));
          db1 = db\<lparr>db_bindings := upd_where hit (unbind_row ev) (db_bindings db)\<rparr>
      in if ids = [] then Inr (ids, db1)
         else
           let db2 = block_stale_account_work ev (tenant_of a) device_id ids ''ACCOUNT_CHANGED'' db1
           in Inr (ids, db2\<lparr>db_schedules := upd_where
                (\<lambda>s. ts_tenant_id s = tenant_of a \<and> ts_account_id s \<in> set ids \<and> ts_enabled s)
                (\<lambda>s. s\<lparr>ts_enabled := False, ts_paused_reason := Some ''ACCOUNT_CHANGED''\<rparr>) (db_schedules db2)\<rparr>))"

definition find_binding :: "string \<Rightarrow> string \<Rightarrow> string \<Rightarrow> cdb \<Rightarrow> account_binding_row option" where
  "find_binding tenant account_id device_id db =
     find_row (\<lambda>b. ab_tenant_id b = tenant \<and> ab_account_id b = account_id \<and> ab_device_id b = device_id) (db_bindings db)"

definition rebind :: "env \<Rightarrow> actor \<Rightarrow> string \<Rightarrow> account_row \<Rightarrow> account_binding_row \<Rightarrow> account_binding_row" where
  "rebind ev a note account b =
     (let next_version = ab_binding_version b + (if ab_status b \<noteq> ''BOUND'' then 1 else 0) in
      b\<lparr>ab_status := ''BOUND'', ab_confirmed_by := actor_user_id a, ab_confirmation_note := note, ab_bound_at := ev_now ev,
        ab_unbound_at := None, ab_binding_version := (if next_version = 0 then 1 else next_version),
        ab_platform := ac_platform account\<rparr>)"

text \<open>The unique constraint (account, device) and the partial unique index (device, platform) of bound rows.\<close>

definition bindings_unique :: "cdb \<Rightarrow> bool" where
  "bindings_unique db \<longleftrightarrow> distinct (map (\<lambda>b. (ab_account_id b, ab_device_id b)) (db_bindings db)) \<and>
     distinct (map (\<lambda>b. (ab_device_id b, ab_platform b)) (filter (\<lambda>b. ab_status b = ''BOUND'') (db_bindings db)))"

definition set_account :: "string \<Rightarrow> string \<Rightarrow> (account_row \<Rightarrow> account_row) \<Rightarrow> unit op" where
  "set_account tenant i f =
     tmodify (\<lambda>db. db\<lparr>db_accounts := upd_where (\<lambda>r. ac_id r = i \<and> ac_tenant_id r = tenant) f (db_accounts db)\<rparr>)"

definition put_binding :: "env \<Rightarrow> actor \<Rightarrow> string \<Rightarrow> account_row \<Rightarrow> string \<Rightarrow> account_binding_row op" where
  "put_binding ev a note account device_id =
     tbind (tread (find_binding (tenant_of a) (ac_id account) device_id)) (\<lambda>existing.
     tbind (case existing of
              None \<Rightarrow>
                tbind (new_id ev) (\<lambda>i.
                let binding = \<lparr>ab_id = i, ab_tenant_id = tenant_of a, ab_account_id = ac_id account, ab_device_id = device_id,
                      ab_status = ''BOUND'', ab_confirmed_by = actor_user_id a, ab_confirmation_note = note,
                      ab_bound_at = ev_now ev, ab_unbound_at = None, ab_binding_version = 1, ab_platform = ac_platform account,
                      ab_created_at = ev_now ev\<rparr> in
                tbind (tmodify (\<lambda>db. db\<lparr>db_bindings := db_bindings db @ [binding]\<rparr>)) (\<lambda>_. treturn binding))
            | Some b \<Rightarrow>
                tbind (tmodify (\<lambda>db. db\<lparr>db_bindings := upd_where
                  (\<lambda>r. ab_tenant_id r = tenant_of a \<and> ab_account_id r = ac_id account \<and> ab_device_id r = device_id)
                  (rebind ev a note account) (db_bindings db)\<rparr>)) (\<lambda>_. treturn (rebind ev a note account b))) (\<lambda>binding.
     tbind (tread bindings_unique) (\<lambda>unique.
     tbind (tguard unique IntegrityError) (\<lambda>_.
     treturn binding))))"

definition bind_account_device :: "env \<Rightarrow> actor \<Rightarrow> string \<Rightarrow> string \<Rightarrow> string \<Rightarrow> account_binding_row op" where
  "bind_account_device ev a account_id device_id note =
     tbind (require a DEVICE_MAINTAIN) (\<lambda>_.
     tbind (the_account (tenant_of a) account_id) (\<lambda>account.
     tbind (repo_device a device_id) (\<lambda>device.
     tbind (tguard (ac_status account = ''AUTHORIZED'') (Api (ConflictError ''only an authorized account can be bound''))) (\<lambda>_.
     tbind (tguard (\<not> expired (ev_now ev) (ac_expires_at account)) (Api (ConflictError ''account authorization has expired''))) (\<lambda>_.
     tbind (displace ev a (de_id device) account) (\<lambda>displaced.
     tbind (put_binding ev a note account (de_id device)) (\<lambda>binding.
     tbind (set_account (tenant_of a) (ac_id account) (\<lambda>r. r\<lparr>ac_version := ac_version r + 1\<rparr>)) (\<lambda>_.
     tbind (audit ev a ''account.device.bound'' ''platform_account'' (ac_id account)
       (plain_audit\<lparr>ai_after := Some (JObj [(''device_id'', JStr (de_id device)), (''binding_id'', JStr (ab_id binding)),
          (''binding_version'', JInt (ab_binding_version binding)), (''displaced_account_ids'', JList (map JStr displaced))]),
        ai_device_id := Some (de_id device), ai_edge_id := de_edge_id device\<rparr>)) (\<lambda>_.
     treturn binding)))))))))"

definition unbind_account_device :: "env \<Rightarrow> actor \<Rightarrow> string \<Rightarrow> string \<Rightarrow> unit op" where
  "unbind_account_device ev a account_id device_id =
     tbind (require a DEVICE_MAINTAIN) (\<lambda>_.
     tbind (the_account (tenant_of a) account_id) (\<lambda>account.
     tbind (repo_device a device_id) (\<lambda>_.
     tbind (tread (find_binding (tenant_of a) (ac_id account) device_id)) (\<lambda>existing.
     case existing of
       None \<Rightarrow> tfail (Api (ConflictError ''account is not actively bound to this device''))
     | Some b \<Rightarrow>
         tbind (tguard (ab_status b = ''BOUND'') (Api (ConflictError ''account is not actively bound to this device''))) (\<lambda>_.
         tbind (tmodify (\<lambda>db. db\<lparr>db_bindings := upd_where
           (\<lambda>r. ab_tenant_id r = tenant_of a \<and> ab_account_id r = ac_id account \<and> ab_device_id r = device_id)
           (unbind_row ev) (db_bindings db)\<rparr>)) (\<lambda>_.
         tbind (set_account (tenant_of a) (ac_id account) (\<lambda>r. r\<lparr>ac_version := ac_version r + 1\<rparr>)) (\<lambda>_.
         tbind (tmodify (block_stale_account_work ev (tenant_of a) device_id [ac_id account] ''ACCOUNT_CHANGED'')) (\<lambda>_.
         audit ev a ''account.device.unbound'' ''platform_account'' (ac_id account)
           (plain_audit\<lparr>ai_before := Some (JObj [(''binding_id'', JStr (ab_id b)), (''status'', JStr ''BOUND'')]),
            ai_after := Some (JObj [(''binding_id'', JStr (ab_id b)), (''status'', JStr ''UNBOUND'')]),
            ai_device_id := Some device_id\<rparr>)))))))))"

definition update_account_status :: "env \<Rightarrow> actor \<Rightarrow> string \<Rightarrow> string \<Rightarrow> string \<Rightarrow> int option \<Rightarrow> account_row op" where
  "update_account_status ev a account_id new_status reason expected_version =
     tbind (require a DEVICE_MAINTAIN) (\<lambda>_.
     tbind (the_account (tenant_of a) account_id) (\<lambda>account.
     tbind (tguard (case expected_version of None \<Rightarrow> True | Some v \<Rightarrow> v = ac_version account)
       (Api (ConflictError ''account version does not match expectedVersion''))) (\<lambda>_.
     let upd = (\<lambda>r. r\<lparr>ac_status := new_status, ac_revoked_at := (if new_status = ''REVOKED'' then Some (ev_now ev) else None),
           ac_last_checked_at := Some (ev_now ev), ac_version := ac_version r + 1\<rparr>);
         hit = (\<lambda>b. ab_account_id b = ac_id account \<and> ab_tenant_id b = tenant_of a \<and> ab_status b = ''BOUND'') in
     tbind (set_account (tenant_of a) (ac_id account) upd) (\<lambda>_.
     tbind (twhen (new_status \<noteq> ''AUTHORIZED'') (tmodify (\<lambda>db.
       fold (\<lambda>b. block_stale_account_work ev (tenant_of a) (ab_device_id b) [ac_id account] ''ACCOUNT_CHANGED'')
         (filter hit (db_bindings db))
         (db\<lparr>db_bindings := upd_where hit (unbind_row ev) (db_bindings db)\<rparr>)))) (\<lambda>_.
     tbind (audit ev a ''account.authorization.status_changed'' ''platform_account'' (ac_id account)
       (plain_audit\<lparr>ai_before := Some (JObj [(''status'', JStr (ac_status account)), (''version'', JInt (ac_version account))]),
        ai_after := Some (JObj [(''status'', JStr new_status), (''version'', JInt (ac_version account + 1))]),
        ai_metadata := [(''reason'', JStr reason)]\<rparr>)) (\<lambda>_.
     treturn (upd account)))))))"

end
