(* ===== verification/Control_System.thy ===== *)
theory Control_System
  imports Accounts
begin

text \<open>
  The Control API as a state machine: every operation of the modelled services is a call, a step runs one
  call in its transaction (a call that raises rolls back and is no step), or changes a table that these
  services only read. The laws of publishing are invariants of the reachable databases: leases and
  their fencing tokens, commit intents, approvals and the bindings of accounts to devices.
\<close>

subsection \<open>Calls and steps\<close>

datatype api_call =
    Create_Tenant string
  | Create_User string "string list"
  | Update_User_Roles string "string list"
  | Create_Edge string string
  | Create_Device device_request
  | Set_Maintenance string bool string "int option"
  | Create_Platform_Account account_request
  | Bind_Account_Device string string string
  | Unbind_Account_Device string string
  | Update_Account_Status string string string "int option"
  | Create_Plan string plan_request
  | Submit_Plan string
  | Decide_Approval string string "string option"
  | Cancel_Plan string
  | Acquire_Lease string string int
  | Release_Lease string string
  | Create_Commit_Intent string int string
  | Update_Target_State string publish_state "string option"

definition done_with :: "'a op \<Rightarrow> unit op" where
  "done_with f = tbind f (\<lambda>_. treturn ())"

fun perform :: "env \<Rightarrow> actor \<Rightarrow> api_call \<Rightarrow> unit op" where
  "perform ev a (Create_Tenant n) = done_with (create_tenant ev a n)"
| "perform ev a (Create_User s rs) = done_with (create_user ev a s rs)"
| "perform ev a (Update_User_Roles u rs) = done_with (update_user_roles ev a u rs)"
| "perform ev a (Create_Edge n f) = done_with (create_edge ev a n f)"
| "perform ev a (Create_Device q) = done_with (create_device ev a q)"
| "perform ev a (Set_Maintenance d b r v) = done_with (set_maintenance ev a d b r v)"
| "perform ev a (Create_Platform_Account q) = done_with (create_platform_account ev a q)"
| "perform ev a (Bind_Account_Device i d n) = done_with (bind_account_device ev a i d n)"
| "perform ev a (Unbind_Account_Device i d) = done_with (unbind_account_device ev a i d)"
| "perform ev a (Update_Account_Status i s r v) = done_with (update_account_status ev a i s r v)"
| "perform ev a (Create_Plan k q) = done_with (create_plan ev a k q)"
| "perform ev a (Submit_Plan i) = done_with (submit_plan ev a i)"
| "perform ev a (Decide_Approval i d r) = done_with (decide_approval ev a i d r)"
| "perform ev a (Cancel_Plan i) = done_with (cancel_plan ev a i)"
| "perform ev a (Acquire_Lease d w t) = done_with (acquire_lease ev a d w t)"
| "perform ev a (Release_Lease d l) = done_with (release_lease ev a d l)"
| "perform ev a (Create_Commit_Intent t k e) = done_with (create_commit_intent ev a t k e)"
| "perform ev a (Update_Target_State t s d) = done_with (update_target_state ev a t s d)"

inductive api_step :: "cdb \<Rightarrow> cdb \<Rightarrow> bool" where
  call: "perform ev a c db = Inr ((), db') \<Longrightarrow> api_step db db'"
| elsewhere: "api_step db (db\<lparr>db_products := ps, db_revisions := rs, db_automations := us, db_schedules := ss,
     db_mobile_tasks := ts, db_im_messages := ms, db_outbox := os\<rparr>)"

abbreviation api_steps :: "cdb \<Rightarrow> cdb \<Rightarrow> bool" where
  "api_steps \<equiv> api_step\<^sup>*\<^sup>*"

lemma keeps_done [keeps_intros]: "leaves T f \<Longrightarrow> leaves T (done_with f)"
  unfolding done_with_def by (intro keeps_intros)

lemma done_with_Inr [simp]: "done_with f db = Inr (u, db') \<longleftrightarrow> (\<exists>r. f db = Inr (r, db'))"
  by (simp add: done_with_def)

lemma keeps_the_account [keeps_intros]: "leaves T (the_account t i)"
  unfolding the_account_def by (rule keeps_pure)

lemma keeps_parse_roles [keeps_intros]: "leaves T (parse_roles vs)"
  unfolding parse_roles_def by (intro keeps_intros)

lemma keeps_validate [keeps_intros]: "leaves T (validate_publish_targets ev t p ts)"
  unfolding validate_publish_targets_def validate_publish_target_def by (intro keeps_intros)

lemmas keeps_unfold = create_tenant_def create_user_def update_user_roles_def create_edge_def create_device_def set_maintenance_def
  create_platform_account_def unbind_account_device_def update_account_status_def bind_account_device_def put_binding_def
  create_plan_def submit_plan_def freeze_plan_def submit_target_def decide_approval_def cancel_plan_def acquire_lease_def release_lease_def
  create_commit_intent_def update_target_state_def add_tenant_def set_plan_def set_targets_def set_account_def

subsection \<open>Leases\<close>

definition device_part :: "cdb \<Rightarrow> (string \<times> string \<times> int) list" where
  "device_part db = map (\<lambda>d. (de_id d, de_tenant_id d, de_fencing_counter d)) (db_devices db)"

definition lease_part :: "cdb \<Rightarrow> (string \<times> string \<times> int) list \<times> lease_row list" where
  "lease_part db = (device_part db, db_leases db)"

lemma settle_shape: "\<exists>ms. settle_reply_delivery i st db = db\<lparr>db_im_messages := ms\<rparr>"
proof (cases "TASK_TERMINAL_DELIVERY st")
  case None
  then have "settle_reply_delivery i st db = db\<lparr>db_im_messages := db_im_messages db\<rparr>" by (simp add: settle_reply_delivery_def)
  then show ?thesis ..
next
  case (Some t)
  then have "settle_reply_delivery i st db = db\<lparr>db_im_messages :=  upd_where (\<lambda>m. im_reply_task_id m = Some i \<and> im_delivery_state m \<noteq> ''DELIVERED'')
            (\<lambda>m. m\<lparr>im_delivery_state := t\<rparr>) (db_im_messages db)\<rparr>" by (simp only: settle_reply_delivery_def option.case)
  then show ?thesis ..
qed

lemma fold_settle: "\<exists>ms. fold (\<lambda>t. settle_reply_delivery (f t) st) xs db = db\<lparr>db_im_messages := ms\<rparr>"
proof (induction xs arbitrary: db)
  case Nil
  have "fold (\<lambda>t. settle_reply_delivery (f t) st) [] db = db\<lparr>db_im_messages := db_im_messages db\<rparr>" by simp
  then show ?case ..
next
  case (Cons x xs)
  obtain ms where "settle_reply_delivery (f x) st db = db\<lparr>db_im_messages := ms\<rparr>" using settle_shape by blast
  with Cons[of "db\<lparr>db_im_messages := ms\<rparr>"] show ?case by simp
qed

definition cancel_stale_plan :: "env \<Rightarrow> string \<Rightarrow> plan_row \<Rightarrow> plan_row" where
  "cancel_stale_plan ev r p = p\<lparr>pl_state := CANCELED, pl_cancel_requested := True, pl_version := pl_version p + 1,
     pl_execution := dupdate (pl_execution p) [(''pausedReason'', JStr r), (''pausedAt'', JInt (ev_now ev))]\<rparr>"

lemma block_stale_Nil [simp]: "block_stale_account_work ev t d [] r db = db"
  by (simp add: block_stale_account_work_def)

definition fail_stale_task :: "env \<Rightarrow> string \<Rightarrow> mobile_task_row \<Rightarrow> mobile_task_row" where
  "fail_stale_task ev r t = t\<lparr>mt_status := ''FAILED'', mt_business_state := ''FAILED'', mt_error_code := Some r,
     mt_detail := Some ''account binding changed before execution'', mt_completed_at := Some (ev_now ev),
     mt_lease_id := None, mt_lease_expires_at := None\<rparr>"

lemma block_stale_shape:
  assumes "is \<noteq> []"
  obtains ms where "block_stale_account_work ev t d is r db = db\<lparr>
     db_mobile_tasks := upd_where (stale_task t d is) (fail_stale_task ev r) (db_mobile_tasks db), db_im_messages := ms,
     db_plans := upd_where (stale_plan t d is) (cancel_stale_plan ev r) (db_plans db)\<rparr>"
proof -
  let ?ts = "upd_where (stale_task t d is) (fail_stale_task ev r) (db_mobile_tasks db)"
  obtain ms where ms: "fold (\<lambda>t. settle_reply_delivery (mt_id t) ''FAILED'') (filter (stale_task t d is) (db_mobile_tasks db))
      (db\<lparr>db_mobile_tasks := ?ts\<rparr>) = db\<lparr>db_mobile_tasks := ?ts\<rparr>\<lparr>db_im_messages := ms\<rparr>"
    using fold_settle by blast
  have "block_stale_account_work ev t d is r db = db\<lparr>db_mobile_tasks := ?ts, db_im_messages := ms,
     db_plans := upd_where (stale_plan t d is) (cancel_stale_plan ev r) (db_plans db)\<rparr>"
    unfolding block_stale_account_work_def Let_def ms[unfolded fail_stale_task_def[abs_def]] if_not_P[OF assms]
      fail_stale_task_def[abs_def] cancel_stale_plan_def[abs_def] by simp
  then show ?thesis by (rule that)
qed

lemma block_stale_keeps:
  assumes "\<And>s x y z. T (s\<lparr>db_mobile_tasks := x, db_im_messages := y, db_plans := z\<rparr>) = T s"
  shows "T (block_stale_account_work ev t d is r db) = T db"
proof (cases "is = []")
  case False
  then show ?thesis by (rule block_stale_shape[of "is" ev t d r db]) (simp only: assms)
qed simp

lemma fold_block_stale_keeps:
  assumes "\<And>s x y z. T (s\<lparr>db_mobile_tasks := x, db_im_messages := y, db_plans := z\<rparr>) = T s"
  shows "T (fold (\<lambda>b. block_stale_account_work ev t (f b) is r) bs db) = T db"
  by (induction bs arbitrary: db) (simp_all add: block_stale_keeps[of T, OF assms])

lemma keeps_displace [keeps_intros]:
  assumes "\<And>s x y z. T (s\<lparr>db_mobile_tasks := x, db_im_messages := y, db_plans := z\<rparr>) = T s"
    and "\<And>s x. T (s\<lparr>db_bindings := x\<rparr>) = T s" and "\<And>s x. T (s\<lparr>db_schedules := x\<rparr>) = T s"
  shows "leaves T (displace ev a d ac)"
  unfolding leaves_def displace_def Let_def
  by (auto simp: assms(2,3) block_stale_keeps[of T, OF assms(1)] split: if_splits)

lemma block_stale_simps [simp]:
  "db_devices (block_stale_account_work ev t d is r db) = db_devices db"
  "db_leases (block_stale_account_work ev t d is r db) = db_leases db"
  "db_intents (block_stale_account_work ev t d is r db) = db_intents db"
  "db_targets (block_stale_account_work ev t d is r db) = db_targets db"
  "db_accounts (block_stale_account_work ev t d is r db) = db_accounts db"
  "db_bindings (block_stale_account_work ev t d is r db) = db_bindings db"
  "db_approvals (block_stale_account_work ev t d is r db) = db_approvals db"
  "db_snapshots (block_stale_account_work ev t d is r db) = db_snapshots db"
  "db_audit (block_stale_account_work ev t d is r db) = db_audit db"
  "db_outbox (block_stale_account_work ev t d is r db) = db_outbox db"
  "db_tenants (block_stale_account_work ev t d is r db) = db_tenants db"
  "db_users (block_stale_account_work ev t d is r db) = db_users db"
  "db_edges (block_stale_account_work ev t d is r db) = db_edges db"
  "db_schedules (block_stale_account_work ev t d is r db) = db_schedules db"
  "db_products (block_stale_account_work ev t d is r db) = db_products db"
  "db_revisions (block_stale_account_work ev t d is r db) = db_revisions db"
  "db_automations (block_stale_account_work ev t d is r db) = db_automations db"
  "db_next (block_stale_account_work ev t d is r db) = db_next db"
  by (rule block_stale_keeps, simp)+

lemma fold_block_stale_simps [simp]:
  "db_devices (fold (\<lambda>b. block_stale_account_work ev t (f b) is r) bs db) = db_devices db"
  "db_leases (fold (\<lambda>b. block_stale_account_work ev t (f b) is r) bs db) = db_leases db"
  "db_intents (fold (\<lambda>b. block_stale_account_work ev t (f b) is r) bs db) = db_intents db"
  "db_targets (fold (\<lambda>b. block_stale_account_work ev t (f b) is r) bs db) = db_targets db"
  "db_accounts (fold (\<lambda>b. block_stale_account_work ev t (f b) is r) bs db) = db_accounts db"
  "db_bindings (fold (\<lambda>b. block_stale_account_work ev t (f b) is r) bs db) = db_bindings db"
  "db_approvals (fold (\<lambda>b. block_stale_account_work ev t (f b) is r) bs db) = db_approvals db"
  "db_snapshots (fold (\<lambda>b. block_stale_account_work ev t (f b) is r) bs db) = db_snapshots db"
  "db_audit (fold (\<lambda>b. block_stale_account_work ev t (f b) is r) bs db) = db_audit db"
  "db_outbox (fold (\<lambda>b. block_stale_account_work ev t (f b) is r) bs db) = db_outbox db"
  "db_tenants (fold (\<lambda>b. block_stale_account_work ev t (f b) is r) bs db) = db_tenants db"
  "db_users (fold (\<lambda>b. block_stale_account_work ev t (f b) is r) bs db) = db_users db"
  "db_edges (fold (\<lambda>b. block_stale_account_work ev t (f b) is r) bs db) = db_edges db"
  "db_schedules (fold (\<lambda>b. block_stale_account_work ev t (f b) is r) bs db) = db_schedules db"
  "db_products (fold (\<lambda>b. block_stale_account_work ev t (f b) is r) bs db) = db_products db"
  "db_revisions (fold (\<lambda>b. block_stale_account_work ev t (f b) is r) bs db) = db_revisions db"
  "db_automations (fold (\<lambda>b. block_stale_account_work ev t (f b) is r) bs db) = db_automations db"
  "db_next (fold (\<lambda>b. block_stale_account_work ev t (f b) is r) bs db) = db_next db"
  by (rule fold_block_stale_keeps, simp)+

lemmas part_defs = lease_part_def device_part_def map_upd_where_key

lemma keeps_lease_part [keeps_intros]:
  "leaves lease_part (create_tenant ev a n)" "leaves lease_part (create_user ev a n rs)" "leaves lease_part (update_user_roles ev a n rs)"
  "leaves lease_part (create_edge ev a n f)" "leaves lease_part (create_platform_account ev a q)" "leaves lease_part (set_maintenance ev a d b r v)"
  "leaves lease_part (unbind_account_device ev a i d)" "leaves lease_part (bind_account_device ev a i d n)"
  "leaves lease_part (update_account_status ev a i n r v)" "leaves lease_part (create_plan ev a k pq)" "leaves lease_part (submit_plan ev a i)"
  "leaves lease_part (decide_approval ev a i r rn)" "leaves lease_part (cancel_plan ev a i)"
  "leaves lease_part (create_commit_intent ev a i ft e)" "leaves lease_part (update_target_state ev a i st dt)"
  unfolding keeps_unfold
  by (intro keeps_intros; simp add: part_defs)+

definition lease_inv :: "cdb \<Rightarrow> bool" where
  "lease_inv db \<longleftrightarrow> distinct (map fst (device_part db)) \<and> distinct (map le_device_id (db_leases db)) \<and>
     (\<forall>l \<in> set (db_leases db). \<exists>c. (le_device_id l, le_tenant_id l, c) \<in> set (device_part db) \<and> le_fencing_token l \<le> c)"

text \<open>What may follow a lease on its device: itself, possibly released, or one with a greater token.\<close>

definition lease_follows :: "lease_row \<Rightarrow> lease_row \<Rightarrow> bool" where
  "lease_follows l l' \<longleftrightarrow> le_device_id l' = le_device_id l \<and> le_tenant_id l' = le_tenant_id l \<and>
     (le_fencing_token l < le_fencing_token l' \<or>
      le_fencing_token l' = le_fencing_token l \<and> le_lease_id l' = le_lease_id l \<and>
      le_owner_workflow_id l' = le_owner_workflow_id l \<and> le_expires_at l' = le_expires_at l)"

definition leases_follow :: "cdb \<Rightarrow> cdb \<Rightarrow> bool" where
  "leases_follow db db' \<longleftrightarrow> (\<forall>l \<in> set (db_leases db). \<exists>l' \<in> set (db_leases db'). lease_follows l l')"

lemma lease_inv_part: "lease_part db' = lease_part db \<Longrightarrow> lease_inv db' = lease_inv db"
  by (simp add: lease_inv_def lease_part_def)

lemma lease_invD:
  "lease_inv db \<Longrightarrow> l \<in> set (db_leases db) \<Longrightarrow> \<exists>c. (le_device_id l, le_tenant_id l, c) \<in> set (device_part db) \<and> le_fencing_token l \<le> c"
  by (simp only: lease_inv_def)

lemma map_fst_device_part [simp]: "map fst (device_part db) = map de_id (db_devices db)"
  by (simp add: device_part_def)

lemma lease_follows_refl: "lease_follows l l"
  by (simp add: lease_follows_def)

lemma leases_follow_refl: "db_leases db' = db_leases db \<Longrightarrow> leases_follow db db'"
  unfolding leases_follow_def
  by (intro ballI, rule bexI, rule lease_follows_refl) simp

lemma lease_follows_trans: "lease_follows l m \<Longrightarrow> lease_follows m n \<Longrightarrow> lease_follows l n"
  by (auto simp: lease_follows_def)

lemma leases_follow_trans: "leases_follow db db1 \<Longrightarrow> leases_follow db1 db2 \<Longrightarrow> leases_follow db db2"
  unfolding leases_follow_def by (meson lease_follows_trans)

lemma acquire_lease_Inr:
  assumes "acquire_lease ev a d w ttl db = Inr (l, db')"
  obtains (kept) "db' = db" "l \<in> set (db_leases db)" "le_device_id l = d" "le_tenant_id l = tenant_of a" "lease_live (ev_now ev) l"
      "le_owner_workflow_id l = w"
    | (fresh) dev where "dev \<in> set (db_devices db)" "de_id dev = d" "de_tenant_id dev = tenant_of a" "\<not> de_maintenance dev"
      "\<forall>m. repo_lease_for_device a d db = Some m \<longrightarrow> \<not> lease_live (ev_now ev) m"
      "device_part db' = map (\<lambda>(i, t, c). (i, t, if i = d \<and> t = tenant_of a then de_fencing_counter dev + 1 else c)) (device_part db)"
      "db_leases db' = filter (\<lambda>m. le_device_id m \<noteq> d) (db_leases db) @ [l]"
      "le_device_id l = d" "le_tenant_id l = tenant_of a" "le_owner_workflow_id l = w" "le_fencing_token l = de_fencing_counter dev + 1"
      "le_expires_at l = ev_now ev + ttl * 1000000" "le_canceled_at l = None"
proof -
  have no_other: "filter (\<lambda>m. le_device_id m \<noteq> d) (db_leases db) = db_leases db" if "\<not> (\<exists>m \<in> set (db_leases db). le_device_id m = d)"
    using that by (auto simp: filter_id_conv)
  show ?thesis
    using assms
    by (auto simp: acquire_lease_def repo_device_def twhen_def Let_def no_other upd_where_def device_part_def
        intro: kept fresh dest!: find_row_SomeD dest: repo_lease_SomeD split: if_splits option.splits)
qed

lemma create_device_Inr:
  assumes "create_device ev a q db = Inr (d, db')"
  shows "device_part db' = device_part db @ [(de_id d, tenant_of a, 0)]" "db_leases db' = db_leases db"
    "de_id d \<notin> de_id ` set (db_devices db)"
  using assms by (auto simp: create_device_def Let_def device_part_def)

lemma release_lease_Inr:
  assumes "release_lease ev a d i db = Inr (u, db')"
  shows "device_part db' = device_part db"
    "db_leases db' = upd_where (\<lambda>l. le_device_id l = d \<and> le_tenant_id l = tenant_of a) (\<lambda>l. l\<lparr>le_canceled_at := Some (ev_now ev)\<rparr>) (db_leases db)"
  using assms by (auto simp: release_lease_def Let_def device_part_def split: option.splits)

lemma lease_inv_device:
  assumes "lease_inv db" and "l \<in> set (db_leases db)" and "dev \<in> set (db_devices db)" and "de_id dev = le_device_id l"
  shows "le_tenant_id l = de_tenant_id dev" "le_fencing_token l \<le> de_fencing_counter dev"
proof -
  obtain e where e: "e \<in> set (db_devices db)" "de_id e = le_device_id l" "de_tenant_id e = le_tenant_id l" "le_fencing_token l \<le> de_fencing_counter e"
    using assms(1,2) by (fastforce simp: lease_inv_def device_part_def)
  have "e = dev"
    using assms e inj_onD[of de_id "set (db_devices db)" e dev] by (auto simp: lease_inv_def distinct_map)
  with e show "le_tenant_id l = de_tenant_id dev" "le_fencing_token l \<le> de_fencing_counter dev" by auto
qed

lemma lease_inv_unique: "lease_inv db \<Longrightarrow> l \<in> set (db_leases db) \<Longrightarrow> m \<in> set (db_leases db) \<Longrightarrow> le_device_id l = le_device_id m \<Longrightarrow> l = m"
  by (auto simp: lease_inv_def distinct_map dest: inj_onD)

lemma repo_lease_eq:
  assumes "lease_inv db" and "l \<in> set (db_leases db)" and "le_tenant_id l = tenant_of a"
  shows "repo_lease_for_device a (le_device_id l) db = Some l"
proof (cases "repo_lease_for_device a (le_device_id l) db")
  case None
  then show ?thesis using assms by (auto simp: repo_lease_for_device_def find_row_None)
next
  case (Some m)
  then show ?thesis using lease_inv_unique[OF assms(1), of m l] repo_lease_SomeD[OF Some] assms by auto
qed

lemma create_device_lease_inv:
  assumes "lease_inv db" and "create_device ev a q db = Inr (d, db')"
  shows "lease_inv db'"
  using assms(1) create_device_Inr[OF assms(2)]
  by (auto simp: lease_inv_def simp flip: map_fst_device_part) (auto simp: device_part_def)

lemma release_lease_inv:
  assumes "lease_inv db" and "release_lease ev a d i db = Inr (u, db')"
  shows "lease_inv db'" "leases_follow db db'"
proof -
  note r = release_lease_Inr[OF assms(2)]
  show "lease_inv db'"
    using assms(1) lease_invD[OF assms(1)] unfolding lease_inv_def r by (fastforce simp: map_upd_where_key)
  show "leases_follow db db'"
    unfolding leases_follow_def r
    by (intro ballI bexI[OF _ upd_where_mem]) (auto simp: lease_follows_def)
qed

lemma acquire_lease_inv:
  assumes "lease_inv db" and "acquire_lease ev a d w ttl db = Inr (l, db')"
  shows "lease_inv db' \<and> leases_follow db db'"
  using assms(2)
proof (cases rule: acquire_lease_Inr)
  case kept
  then show ?thesis using assms(1) leases_follow_refl by auto
next
  case (fresh dev)
  let ?g = "\<lambda>(i, t, c). (i, t, if i = d \<and> t = tenant_of a then de_fencing_counter dev + 1 else c)"
  have ids: "map fst (device_part db') = map fst (device_part db)"
    unfolding fresh by (auto simp: comp_def split_beta)
  have in_part: "(d, tenant_of a, de_fencing_counter dev + 1) \<in> set (device_part db')"
    unfolding fresh using fresh(1-3) by (force simp: device_part_def)
  have "\<exists>c. (le_device_id m, le_tenant_id m, c) \<in> set (device_part db') \<and> le_fencing_token m \<le> c"
    if m: "m \<in> set (db_leases db)" "le_device_id m \<noteq> d" for m
  proof -
    obtain c where "(le_device_id m, le_tenant_id m, c) \<in> set (device_part db)" "le_fencing_token m \<le> c"
      using lease_invD[OF assms(1) m(1)] by blast
    then show ?thesis unfolding fresh using m(2) by (force intro!: exI[of _ c])
  qed
  moreover have "\<exists>c. (le_device_id l, le_tenant_id l, c) \<in> set (device_part db') \<and> le_fencing_token l \<le> c"
    using in_part fresh(8,9,11) by auto
  moreover have "distinct (map le_device_id (db_leases db'))"
    using assms(1) fresh(8) unfolding lease_inv_def fresh(7) by (auto simp: distinct_map_filter)
  ultimately have inv: "lease_inv db'"
    using assms(1) unfolding lease_inv_def ids fresh(7) by auto
  have "\<exists>l' \<in> set (db_leases db'). lease_follows m l'" if m: "m \<in> set (db_leases db)" for m
  proof (cases "le_device_id m = d")
    case True
    then have "lease_follows m l" using lease_inv_device[OF assms(1) m fresh(1)] fresh by (auto simp: lease_follows_def)
    then show ?thesis unfolding fresh(7) by auto
  next
    case False
    then show ?thesis unfolding fresh(7) using m lease_follows_refl by auto
  qed
  with inv show ?thesis by (simp add: leases_follow_def)
qed

lemma perform_lease:
  assumes "lease_inv db" and "perform ev a c db = Inr ((), db')"
  shows "lease_inv db' \<and> leases_follow db db'"
proof (cases "\<exists>q. c = Create_Device q \<or> (\<exists>d w t. c = Acquire_Lease d w t) \<or> (\<exists>d i. c = Release_Lease d i)")
  case True
  then consider (dev) q where "c = Create_Device q" | (acq) d w t where "c = Acquire_Lease d w t" | (rel) d i where "c = Release_Lease d i"
    by blast
  then show ?thesis
  proof cases
    case dev
    then obtain r where "create_device ev a q db = Inr (r, db')" using assms(2) by auto
    with assms(1) show ?thesis using create_device_lease_inv create_device_Inr(2) leases_follow_refl by blast
  next
    case acq
    then obtain r where "acquire_lease ev a d w t db = Inr (r, db')" using assms(2) by auto
    with assms(1) show ?thesis by (rule acquire_lease_inv)
  next
    case rel
    then obtain r where "release_lease ev a d i db = Inr (r, db')" using assms(2) by auto
    with assms(1) show ?thesis using release_lease_inv by blast
  qed
next
  case False
  then have "leaves lease_part (perform ev a c)"
    by (cases c) (auto intro: keeps_intros)
  then have "lease_part db' = lease_part db" using assms(2) by (rule keepsD)
  then show ?thesis using assms(1) lease_inv_part[of db' db] leases_follow_refl[of db' db] by (simp add: lease_part_def)
qed

lemma step_lease: "api_step db db' \<Longrightarrow> lease_inv db \<Longrightarrow> lease_inv db' \<and> leases_follow db db'"
proof (induction rule: api_step.induct)
  case (call ev a c db db')
  from call(2,1) show ?case by (rule perform_lease)
next
  case (elsewhere db ps rs us ss ts ms os)
  then show ?case by (intro conjI leases_follow_refl) (simp_all add: lease_inv_def device_part_def)
qed

lemma steps_lease: "api_steps db db' \<Longrightarrow> lease_inv db \<Longrightarrow> lease_inv db' \<and> leases_follow db db'"
  by (induction rule: rtranclp_induct) (auto intro: leases_follow_refl leases_follow_trans dest: step_lease)

end
