(* ===== verification/Publish_Laws.thy ===== *)
theory Publish_Laws
  imports Control_System
begin

text \<open>
  Laws of publish targets and plans over the calls of the Control API: commit intents are unique, permanent
  and made only under the live lease of the device; a committed target is never canceled; a plan is
  scheduled only with a decision of someone other than its creator; snapshots never change.
\<close>

subsection \<open>Targets and commit intents\<close>

definition target_part :: "cdb \<Rightarrow> target_row list \<times> intent_row list" where
  "target_part db = (db_targets db, db_intents db)"

lemma keeps_target_part [keeps_intros]:
  "leaves target_part (create_tenant ev a n)" "leaves target_part (create_user ev a n rs)" "leaves target_part (update_user_roles ev a n rs)"
  "leaves target_part (create_edge ev a n f)" "leaves target_part (create_device ev a dq)" "leaves target_part (create_platform_account ev a q)"
  "leaves target_part (set_maintenance ev a d b r v)" "leaves target_part (unbind_account_device ev a i d)"
  "leaves target_part (bind_account_device ev a i d n)" "leaves target_part (update_account_status ev a i n r v)"
  "leaves target_part (create_plan ev a k pq)" "leaves target_part (acquire_lease ev a d w ttl)" "leaves target_part (release_lease ev a d n)"
  unfolding keeps_unfold
  by (intro keeps_intros; simp add: target_part_def)+

definition intent_inv :: "cdb \<Rightarrow> bool" where
  "intent_inv db \<longleftrightarrow> distinct (map tg_id (db_targets db)) \<and> distinct (map in_target_id (db_intents db)) \<and>
     (\<forall>i \<in> set (db_intents db). in_attempt_no i = 1 \<and> in_target_id i \<in> tg_id ` set (db_targets db))"

definition COMMITTED :: "publish_state set" where
  "COMMITTED = {COMMITTING, RECONCILING, SUCCEEDED, UNKNOWN, FAILED}"

definition targets_committed :: "cdb \<Rightarrow> bool" where
  "targets_committed db \<longleftrightarrow>
     (\<forall>i \<in> set (db_intents db). \<forall>t \<in> set (db_targets db). tg_id t = in_target_id i \<longrightarrow> tg_state t \<in> COMMITTED)"

lemma submit_target_Inr:
  assumes "submit_target ev a p sn st d db = Inr (t, db')"
  shows "db_targets db' = db_targets db @ [t]" "db_intents db' = db_intents db" "tg_id t \<notin> tg_id ` set (db_targets db)"
    "tg_plan_id t = p" "tg_tenant_id t = tenant_of a" "tg_state t = st" "db_plans db' = db_plans db" "db_approvals db' = db_approvals db"
    "db_snapshots db' = db_snapshots db"
  using assms by (auto simp: submit_target_def Let_def split: option.splits json.splits if_splits)

lemma submit_targets_Inr:
  assumes "tmap (submit_target ev a p sn st) ds db = Inr (ts, db')"
  shows "db_targets db' = db_targets db @ ts \<and> db_intents db' = db_intents db \<and>
     db_plans db' = db_plans db \<and> db_approvals db' = db_approvals db \<and> db_snapshots db' = db_snapshots db \<and>
     (distinct (map tg_id (db_targets db)) \<longrightarrow> distinct (map tg_id (db_targets db'))) \<and>
     tg_id ` set ts \<inter> tg_id ` set (db_targets db) = {}"
  using assms
proof (induction ds arbitrary: db ts)
  case (Cons d ds)
  then obtain t s1 ts' where t: "submit_target ev a p sn st d db = Inr (t, s1)" and r: "tmap (submit_target ev a p sn st) ds s1 = Inr (ts', db')"
    and ts: "ts = t # ts'" by auto
  show ?case using Cons.IH[OF r] submit_target_Inr[OF t] ts by auto
qed auto

lemma freeze_plan_Inr:
  assumes "freeze_plan ev a p db = Inr ((sn, ts), db')"
  defines "st \<equiv> (if pl_approval_policy p \<noteq> ''NONE'' then AWAITING_APPROVAL else SCHEDULED)"
  shows "pl_state p = DRAFT"
    "db_plans db' = upd_where (\<lambda>q. pl_id q = pl_id p \<and> pl_tenant_id q = tenant_of a)
       (\<lambda>q. q\<lparr>pl_state := st, pl_workflow_id := Some (''publish-plan/'' @ pl_id p), pl_version := pl_version q + 1\<rparr>) (db_plans db)"
    "db_targets db' = db_targets db @ ts" "db_intents db' = db_intents db" "db_approvals db' = db_approvals db"
    "distinct (map tg_id (db_targets db)) \<Longrightarrow> distinct (map tg_id (db_targets db'))"
    "tg_id ` set ts \<inter> tg_id ` set (db_targets db) = {}"
    "db_snapshots db' = db_snapshots db @ [sn]" "sn_plan_id sn = pl_id p" "sn_tenant_id sn = tenant_of a"
    "sn_payload_sha256 sn = ev_hash ev (sn_payload sn)" "\<forall>s \<in> set (db_snapshots db). sn_plan_id s \<noteq> pl_id p"
  using assms(1) unfolding st_def
  by (auto simp: freeze_plan_def set_plan_def Let_def dest!: submit_targets_Inr)

lemma submit_plan_Inr:
  assumes "submit_plan ev a i db = Inr (r, db')"
  obtains (again) p sn where "db' = db" "find_row (\<lambda>r. pl_id r = i \<and> pl_tenant_id r = tenant_of a) (db_plans db) = Some p"
      "repo_snapshot_for_plan a i db = Some sn" "r = (sn, repo_targets_for_plan a i db)"
    | (submitted) p where "find_row (\<lambda>r. pl_id r = i \<and> pl_tenant_id r = tenant_of a) (db_plans db) = Some p"
      "freeze_plan ev a p db = Inr (r, db')"
proof -
  obtain p where p: "find_row (\<lambda>r. pl_id r = i \<and> pl_tenant_id r = tenant_of a) (db_plans db) = Some p"
    and rest: "(case repo_snapshot_for_plan a (pl_id p) db of Some sn \<Rightarrow> treturn (sn, repo_targets_for_plan a (pl_id p) db)
      | None \<Rightarrow> freeze_plan ev a p) db = Inr (r, db')"
    using assms by (fastforce simp: submit_plan_def split: option.splits)
  have "pl_id p = i" using find_row_SomeD[OF p] by simp
  with p rest show ?thesis by (cases "repo_snapshot_for_plan a i db") (auto intro: again submitted)
qed

lemma decide_approval_Inr:
  assumes "decide_approval ev a i dec reason db = Inr (q, db')"
  defines "st \<equiv> (if dec = ''APPROVED'' then SCHEDULED else FAILED)"
  shows "actor_mfa a" "PUBLISH_APPROVE \<in> effective_permissions (actor_roles a)" "pl_creator_id q \<noteq> actor_user_id a"
    "\<exists>p \<in> set (db_plans db). pl_id p = i \<and> pl_tenant_id p = tenant_of a \<and> pl_state p = AWAITING_APPROVAL \<and>
       q = p\<lparr>pl_state := st, pl_version := pl_version p + 1\<rparr>"
    "db_plans db' = upd_where (\<lambda>p. pl_id p = i \<and> pl_tenant_id p = tenant_of a)
       (\<lambda>p. p\<lparr>pl_state := st, pl_version := pl_version p + 1\<rparr>) (db_plans db)"
    "db_targets db' = upd_where (\<lambda>t. tg_tenant_id t = tenant_of a \<and> tg_plan_id t = i)
       (\<lambda>t. t\<lparr>tg_state := st, tg_result_detail := (if st = FAILED then Some ''approval rejected'' else tg_result_detail t)\<rparr>) (db_targets db)"
    "db_intents db' = db_intents db" "db_snapshots db' = db_snapshots db"
    "\<exists>n. db_approvals db' = db_approvals db @ [\<lparr>ap_id = ev_id ev n, ap_tenant_id = tenant_of a, ap_plan_id = i,
       ap_creator_id = pl_creator_id q, ap_approver_id = actor_user_id a, ap_decision = dec, ap_reason = reason, ap_created_at = ev_now ev\<rparr>]"
  using assms(1) unfolding st_def
  by (auto simp: decide_approval_def set_plan_def set_targets_def Let_def dest!: find_row_SomeD)

lemma cancel_plan_Inr:
  assumes "cancel_plan ev a i db = Inr (q, db')"
  defines "unsafe \<equiv> \<exists>t \<in> set (repo_targets_for_plan a i db). tg_state t \<in> UNSAFE_STATES"
  shows "pl_cancel_requested q" "unsafe \<or> pl_state q = CANCELED"
    "db_plans db' = upd_where (\<lambda>p. pl_id p = i \<and> pl_tenant_id p = tenant_of a)
       (\<lambda>p. if unsafe then p\<lparr>pl_cancel_requested := True, pl_version := pl_version p + 1\<rparr>
         else p\<lparr>pl_cancel_requested := True, pl_version := pl_version p + 1, pl_state := CANCELED\<rparr>) (db_plans db)"
    "db_targets db' = upd_where (\<lambda>t. tg_tenant_id t = tenant_of a \<and> tg_plan_id t = i \<and> tg_state t \<notin> UNSAFE_STATES \<union> {FAILED})
       (\<lambda>t. t\<lparr>tg_cancel_requested := True, tg_state := CANCELED\<rparr>) (db_targets db)"
    "db_intents db' = db_intents db" "db_snapshots db' = db_snapshots db" "db_approvals db' = db_approvals db"
proof -
  obtain p where p: "find_row (\<lambda>r. pl_id r = i \<and> pl_tenant_id r = tenant_of a) (db_plans db) = Some p"
    using assms(1) by (auto simp: cancel_plan_def)
  then have p': "pl_id p = i" using find_row_SomeD by fastforce
  note run = assms(1)[unfolded cancel_plan_def Let_def]
  show "db_plans db' = upd_where (\<lambda>p. pl_id p = i \<and> pl_tenant_id p = tenant_of a)
       (\<lambda>p. if unsafe then p\<lparr>pl_cancel_requested := True, pl_version := pl_version p + 1\<rparr>
         else p\<lparr>pl_cancel_requested := True, pl_version := pl_version p + 1, pl_state := CANCELED\<rparr>) (db_plans db)"
  proof (cases unsafe)
    case True
    with run p p' show ?thesis by (auto simp: unsafe_def set_plan_def set_targets_def)
  next
    case False
    with run p p' show ?thesis by (auto simp: unsafe_def set_plan_def set_targets_def upd_where_twice)
  qed
qed (use assms(1) in \<open>auto simp: unsafe_def cancel_plan_def set_plan_def set_targets_def Let_def dest!: find_row_SomeD split: if_splits\<close>)

lemma update_target_state_Inr:
  assumes "update_target_state ev a i st det db = Inr (q, db')"
  obtains (same) "db' = db" "q \<in> set (db_targets db)" "tg_state q = st"
    | (moved) t where "t \<in> set (db_targets db)" "tg_id t = i" "tg_tenant_id t = tenant_of a" "st \<in> ALLOWED_TRANSITIONS (tg_state t)"
      "db_targets db' = upd_where (\<lambda>t. tg_tenant_id t = tenant_of a \<and> tg_id t = i) (\<lambda>t. t\<lparr>tg_state := st, tg_result_detail := det\<rparr>) (db_targets db)"
      "db_intents db' = db_intents db"
proof -
  obtain t where t: "find_row (\<lambda>r. tg_id r = i \<and> tg_tenant_id r = tenant_of a) (db_targets db) = Some t"
    using assms by (auto simp: update_target_state_def)
  note t' = find_row_SomeD[OF t]
  show ?thesis
  proof (cases "st = tg_state t")
    case True
    with assms t have "db' = db" "q = t" by (auto simp: update_target_state_def)
    with t' True show ?thesis using same by simp
  next
    case False
    have "st \<in> ALLOWED_TRANSITIONS (tg_state t)" "db_intents db' = db_intents db"
      "db_targets db' = upd_where (\<lambda>t. tg_tenant_id t = tenant_of a \<and> tg_id t = i) (\<lambda>t. t\<lparr>tg_state := st, tg_result_detail := det\<rparr>) (db_targets db)"
      using False assms t t' by (auto simp: update_target_state_def set_targets_def Let_def)
    with t' show ?thesis using moved by blast
  qed
qed

lemma create_commit_intent_Inr:
  assumes "create_commit_intent ev a i tok evi db = Inr (c, db')"
  obtains (again) "db' = db" "c \<in> set (db_intents db)" "in_target_id c = i" "in_fencing_token c = tok" "in_before_commit_evidence_id c = evi"
    | (fresh) t d l where "t \<in> set (db_targets db)" "tg_id t = i" "tg_tenant_id t = tenant_of a"
      "tg_device_id t = Some d" "repo_lease_for_device a d db = Some l" "lease_live (ev_now ev) l" "le_fencing_token l = tok"
      "tg_state t \<in> {RUNNING, WAITING_CONFIRMATION}" "\<forall>r \<in> set (db_intents db). in_target_id r = i \<longrightarrow> in_attempt_no r \<noteq> 1"
      "db_intents db' = db_intents db @ [c]" "in_target_id c = i" "in_attempt_no c = 1" "in_fencing_token c = tok"
      "in_before_commit_evidence_id c = evi"
      "db_targets db' = upd_where (\<lambda>t. tg_tenant_id t = tenant_of a \<and> tg_id t = i) (\<lambda>t. t\<lparr>tg_state := COMMITTING\<rparr>) (db_targets db)"
proof -
  obtain t where t: "find_row (\<lambda>r. tg_id r = i \<and> tg_tenant_id r = tenant_of a) (db_targets db) = Some t"
    using assms by (auto simp: create_commit_intent_def)
  note t' = find_row_SomeD[OF t]
  show ?thesis
  proof (cases "repo_intent_for_target a (tg_id t) db")
    case (Some j)
    with assms t have "db' = db" "c = j" "in_fencing_token j = tok" "in_before_commit_evidence_id j = evi"
      by (auto simp: create_commit_intent_def split: if_splits)
    moreover from Some have "j \<in> set (db_intents db)" "in_target_id j = tg_id t"
      by (auto simp: repo_intent_for_target_def dest: find_row_SomeD)
    ultimately show ?thesis using t' again by simp
  next
    case None
    note run = assms[unfolded create_commit_intent_def]
    obtain d where d: "tg_device_id t = Some d" using run None t by (auto split: option.splits)
    obtain l where l: "repo_lease_for_device a d db = Some l" using run None t d by (auto split: option.splits)
    have "lease_live (ev_now ev) l" "le_fencing_token l = tok" "tg_state t \<in> {RUNNING, WAITING_CONFIRMATION}"
      "\<forall>r \<in> set (db_intents db). in_target_id r = i \<longrightarrow> in_attempt_no r \<noteq> 1"
      "db_intents db' = db_intents db @ [c]" "in_target_id c = i" "in_attempt_no c = 1" "in_fencing_token c = tok"
      "in_before_commit_evidence_id c = evi"
      "db_targets db' = upd_where (\<lambda>t. tg_tenant_id t = tenant_of a \<and> tg_id t = i) (\<lambda>t. t\<lparr>tg_state := COMMITTING\<rparr>) (db_targets db)"
      using run None t d l t' by (auto simp: set_targets_def Let_def)
    with t' d l show ?thesis using fresh by blast
  qed
qed

lemma map_eq_image: "map f xs = map f ys \<Longrightarrow> f ` set xs = f ` set ys"
  by (metis list.set_map)

lemma intent_invI:
  assumes "intent_inv db" and "map tg_id (db_targets db') = map tg_id (db_targets db)" and "db_intents db' = db_intents db"
  shows "intent_inv db'"
  using assms map_eq_image[OF assms(2)] by (simp add: intent_inv_def)

lemma targets_committedI:
  assumes "targets_committed db" and "db_intents db' = db_intents db" and "db_targets db' = upd_where p f (db_targets db)"
    and "\<And>t. tg_id (f t) = tg_id t" and "\<And>t. t \<in> set (db_targets db) \<Longrightarrow> p t \<Longrightarrow> tg_state t \<in> COMMITTED \<Longrightarrow> tg_state (f t) \<in> COMMITTED"
  shows "targets_committed db'"
  using assms by (auto simp: targets_committed_def)

text \<open>The states of committed targets are closed under the table, so only a decision on the plan leaves them.\<close>

lemma COMMITTED_closed: "s \<in> COMMITTED \<Longrightarrow> t \<in> ALLOWED_TRANSITIONS s \<Longrightarrow> t \<in> COMMITTED"
  by (cases s) (auto simp: COMMITTED_def)

definition is_decision :: "api_call \<Rightarrow> bool" where
  "is_decision c = (case c of Decide_Approval i d r \<Rightarrow> True | _ \<Rightarrow> False)"

definition intents_kept :: "cdb \<Rightarrow> cdb \<Rightarrow> bool" where
  "intents_kept db db' \<longleftrightarrow> (\<exists>new. db_intents db' = db_intents db @ new)"

lemma submit_targets_law:
  assumes "intent_inv db" and "submit_plan ev a i db = Inr (r, db')"
  shows "intent_inv db' \<and> intents_kept db db' \<and> (targets_committed db \<longrightarrow> targets_committed db')"
  using assms(2)
proof (cases rule: submit_plan_Inr)
  case again
  then show ?thesis using assms(1) by (simp add: intents_kept_def)
next
  case (submitted p)
  obtain sn ts where r: "freeze_plan ev a p db = Inr ((sn, ts), db')" using submitted by (cases r) auto
  note f = freeze_plan_Inr[OF r]
  have "intent_inv db'" using assms(1) f(3,4,6) by (auto simp: intent_inv_def)
  moreover have "targets_committed db'" if "targets_committed db"
    using that assms(1) f(3,4,7) unfolding targets_committed_def intent_inv_def by fastforce
  ultimately show ?thesis using f(4) by (simp add: intents_kept_def)
qed

lemma commit_targets_law:
  assumes "intent_inv db" and "create_commit_intent ev a i tok evi db = Inr (c, db')"
  shows "intent_inv db' \<and> intents_kept db db' \<and> (targets_committed db \<longrightarrow> targets_committed db')"
  using assms(2)
proof (cases rule: create_commit_intent_Inr)
  case again
  then show ?thesis using assms(1) by (simp add: intents_kept_def)
next
  case (fresh t d l)
  have ids: "map tg_id (db_targets db') = map tg_id (db_targets db)" unfolding fresh by (simp add: map_upd_where_key)
  have "i \<notin> in_target_id ` set (db_intents db)" using assms(1) fresh(9) by (auto simp: intent_inv_def)
  then have "intent_inv db'"
    using assms(1) fresh(1,2,11,12) ids map_eq_image[OF ids] unfolding intent_inv_def fresh(10) by auto
  moreover have same: "t' = t" if "t' \<in> set (db_targets db)" "tg_id t' = i" for t'
    using that fresh(1,2) assms(1) by (auto simp: intent_inv_def distinct_map dest: inj_onD)
  have "targets_committed db'" if "targets_committed db"
    unfolding targets_committed_def
  proof (intro ballI impI)
    fix j u assume j: "j \<in> set (db_intents db')" and u: "u \<in> set (db_targets db')" and e: "tg_id u = in_target_id j"
    from u[unfolded fresh(15)] show "tg_state u \<in> COMMITTED"
    proof (rule in_upd_whereE)
      fix u' assume "u = u'\<lparr>tg_state := COMMITTING\<rparr>"
      then show ?thesis by (simp add: COMMITTED_def)
    next
      assume o: "u \<in> set (db_targets db)" "\<not> (tg_tenant_id u = tenant_of a \<and> tg_id u = i)"
      then have "tg_id u \<noteq> i" using same fresh(3) by blast
      then have "j \<in> set (db_intents db)" using j e fresh(10,11) by auto
      then show ?thesis using \<open>targets_committed db\<close> o(1) e by (auto simp: targets_committed_def)
    qed
  qed
  ultimately show ?thesis using fresh(10) by (simp add: intents_kept_def)
qed

lemma perform_targets:
  assumes "intent_inv db" and "perform ev a c db = Inr ((), db')"
  shows "intent_inv db' \<and> intents_kept db db' \<and> (targets_committed db \<and> \<not> is_decision c \<longrightarrow> targets_committed db')"
proof -
  have kept: "intent_inv db' \<and> intents_kept db db' \<and> (targets_committed db \<longrightarrow> targets_committed db')"
    if "leaves target_part (perform ev a c)"
    using keepsD[OF that assms(2)] assms(1) by (simp add: target_part_def intent_inv_def intents_kept_def targets_committed_def)
  show ?thesis
  proof (cases c)
    case (Submit_Plan i)
    then show ?thesis using assms submit_targets_law by auto
  next
    case (Decide_Approval i d r)
    then obtain q where q: "decide_approval ev a i d r db = Inr (q, db')" using assms(2) by auto
    then show ?thesis using Decide_Approval assms(1) decide_approval_Inr(6,7)[OF q]
      by (auto intro!: intent_invI[of db] simp: is_decision_def intents_kept_def map_upd_where_key)
  next
    case (Cancel_Plan i)
    then obtain q where q: "cancel_plan ev a i db = Inr (q, db')" using assms(2) by auto
    note e = cancel_plan_Inr(4,5)[OF q]
    have "targets_committed db'" if "targets_committed db"
      by (rule targets_committedI[OF that e(2,1)]) (auto simp: COMMITTED_def UNSAFE_STATES_def)
    then show ?thesis using assms(1) e intent_invI[of db db'] by (simp add: intents_kept_def map_upd_where_key)
  next
    case (Create_Commit_Intent i t e)
    then show ?thesis using assms commit_targets_law by auto
  next
    case (Update_Target_State i s d)
    then obtain q where q: "update_target_state ev a i s d db = Inr (q, db')" using assms(2) by auto
    then show ?thesis
    proof (cases rule: update_target_state_Inr)
      case same
      then show ?thesis using assms(1) by (simp add: intents_kept_def)
    next
      case (moved t)
      have same: "t' = t" if "t' \<in> set (db_targets db)" "tg_id t' = i" for t'
        using that moved(1,2) assms(1) by (auto simp: intent_inv_def distinct_map dest: inj_onD)
      have "targets_committed db'" if "targets_committed db"
        by (rule targets_committedI[OF that moved(6,5)]) (use same moved(4) COMMITTED_closed in auto)
      then show ?thesis using assms(1) moved intent_invI[of db db'] by (simp add: intents_kept_def map_upd_where_key)
    qed
  qed (use kept in \<open>auto intro: keeps_intros\<close>)
qed

end
