(* ===== verification/Plan_Laws.thy ===== *)
theory Plan_Laws
  imports Publish_Laws
begin

text \<open>
  Laws of publish plans over the calls of the Control API: which states a plan takes, that a scheduled
  plan was approved by someone other than its creator, that it has its snapshot, and that snapshots and
  approvals are never changed or removed.
\<close>

subsection \<open>Work that a change of account cancels\<close>

definition canceled_or_same :: "plan_row \<Rightarrow> plan_row \<Rightarrow> bool" where
  "canceled_or_same p p' \<longleftrightarrow> p' = p \<or> pl_id p' = pl_id p \<and> pl_state p' = CANCELED"

definition only_cancels :: "cdb \<Rightarrow> cdb \<Rightarrow> bool" where
  "only_cancels db db' \<longleftrightarrow> list_all2 canceled_or_same (db_plans db) (db_plans db') \<and>
     db_approvals db' = db_approvals db \<and> db_snapshots db' = db_snapshots db"

lemma canceled_or_same_refl [simp]: "canceled_or_same p p"
  by (simp add: canceled_or_same_def)

lemma only_cancels_preorder: "reflp only_cancels" "transp only_cancels"
proof -
  have t: "canceled_or_same p r" if "canceled_or_same p q" "canceled_or_same q r" for p q r
    using that by (auto simp: canceled_or_same_def)
  show "reflp only_cancels" by (auto simp: reflp_def only_cancels_def intro: list.rel_refl)
  show "transp only_cancels"
    using list_all2_trans[of canceled_or_same canceled_or_same canceled_or_same, OF t] by (auto simp: transp_def only_cancels_def)
qed

lemma canceled_upd_where:
  "(\<And>p. P p \<Longrightarrow> pl_id (f p) = pl_id p \<and> pl_state (f p) = CANCELED) \<Longrightarrow> list_all2 canceled_or_same rows (upd_where P f rows)"
  by (induction rows) (auto simp: canceled_or_same_def)

lemma only_cancels_same:
  "db_plans db' = db_plans db \<Longrightarrow> db_approvals db' = db_approvals db \<Longrightarrow> db_snapshots db' = db_snapshots db \<Longrightarrow> only_cancels db db'"
  by (simp add: only_cancels_def list.rel_refl)

lemma block_stale_only_cancels: "only_cancels db (block_stale_account_work ev t d is r db)"
proof (cases "is = []")
  case True
  then show ?thesis using only_cancels_preorder(1) by (simp add: reflpD)
next
  case False
  then obtain ms where "block_stale_account_work ev t d is r db = db\<lparr>
     db_mobile_tasks := upd_where (stale_task t d is) (fail_stale_task ev r) (db_mobile_tasks db), db_im_messages := ms,
     db_plans := upd_where (stale_plan t d is) (cancel_stale_plan ev r) (db_plans db)\<rparr>"
    by (rule block_stale_shape)
  then show ?thesis by (auto simp: only_cancels_def cancel_stale_plan_def intro: canceled_upd_where)
qed

lemma only_cancels_trans: "only_cancels db1 db2 \<Longrightarrow> only_cancels db2 db3 \<Longrightarrow> only_cancels db1 db3"
  using only_cancels_preorder(2) by (rule transpD)

lemma fold_block_stale_only_cancels: "only_cancels db (fold (\<lambda>b. block_stale_account_work ev t (f b) is r) bs db)"
proof (induction bs arbitrary: db)
  case Nil
  then show ?case by (simp add: only_cancels_same)
next
  case (Cons b bs)
  show ?case using only_cancels_trans[OF block_stale_only_cancels Cons.IH] by simp
qed

definition plan_part :: "cdb \<Rightarrow> plan_row list \<times> approval_row list \<times> snapshot_row list" where
  "plan_part db = (db_plans db, db_approvals db, db_snapshots db)"

lemma keeps_only_cancels: "leaves plan_part f \<Longrightarrow> obeys only_cancels f"
  by (erule keeps_obeys) (simp add: plan_part_def only_cancels_same)

lemma only_cancels_cong:
  assumes "only_cancels db db1" and "plan_part db2 = plan_part db1"
  shows "only_cancels db db2"
  using assms by (simp add: only_cancels_def plan_part_def)

lemma obeys_displace: "obeys only_cancels (displace ev a d ac)"
proof -
  have "only_cancels db (block_stale_account_work ev t d' is r (db\<lparr>db_bindings := bs\<rparr>)\<lparr>db_schedules := ss\<rparr>)" for db t d' "is" r bs ss
    by (rule only_cancels_cong[of db "block_stale_account_work ev t d' is r (db\<lparr>db_bindings := bs\<rparr>)"])
       (simp_all add: plan_part_def only_cancels_trans[OF only_cancels_same block_stale_only_cancels])
  then show ?thesis
    unfolding obeys_def displace_def Let_def by (auto simp: only_cancels_same split: if_splits)
qed

lemma obeys_block_stale:
  "obeys only_cancels (tmodify (block_stale_account_work ev t d is r))"
  "obeys only_cancels (tmodify (\<lambda>db. fold (\<lambda>b. block_stale_account_work ev t (f b) is r) (bs db) (db\<lparr>db_bindings := cs db\<rparr>)))"
  by (intro obeys_modify block_stale_only_cancels)
     (intro obeys_modify only_cancels_trans[OF only_cancels_same fold_block_stale_only_cancels]; simp)

lemma obeys_only_cancels:
  "obeys only_cancels (unbind_account_device ev a i d)" "obeys only_cancels (bind_account_device ev a i d n)"
  "obeys only_cancels (update_account_status ev a i n r v)"
  unfolding unbind_account_device_def bind_account_device_def put_binding_def update_account_status_def set_account_def
  by (rule obeys_displace obeys_block_stale obeys_bind[OF only_cancels_preorder(2)] obeys_case_option obeys_let
        obeys_when[OF only_cancels_preorder(1)]
      | rule keeps_only_cancels, (rule keeps_intros | simp add: plan_part_def; fail)+)+

subsection \<open>The invariant of plans\<close>

definition was_decided :: "cdb \<Rightarrow> plan_row \<Rightarrow> bool \<Rightarrow> bool" where
  "was_decided db p approved \<longleftrightarrow> (\<exists>ap \<in> set (db_approvals db). ap_plan_id ap = pl_id p \<and> ap_tenant_id ap = pl_tenant_id p \<and>
     (ap_decision ap = ''APPROVED'') = approved \<and> ap_approver_id ap \<noteq> pl_creator_id p)"

definition was_frozen :: "cdb \<Rightarrow> plan_row \<Rightarrow> bool" where
  "was_frozen db p \<longleftrightarrow> (\<exists>sn \<in> set (db_snapshots db). sn_plan_id sn = pl_id p \<and> sn_tenant_id sn = pl_tenant_id p)"

definition plan_ok :: "cdb \<Rightarrow> plan_row \<Rightarrow> bool" where
  "plan_ok db p \<longleftrightarrow>
     (case pl_state p of
        DRAFT \<Rightarrow> True
      | AWAITING_APPROVAL \<Rightarrow> was_frozen db p \<and> pl_approval_policy p \<noteq> ''NONE''
      | SCHEDULED \<Rightarrow> was_frozen db p \<and> (pl_approval_policy p \<noteq> ''NONE'' \<longrightarrow> was_decided db p True)
      | FAILED \<Rightarrow> was_frozen db p \<and> was_decided db p False
      | CANCELED \<Rightarrow> True
      | _ \<Rightarrow> False)"

definition plan_inv :: "cdb \<Rightarrow> bool" where
  "plan_inv db \<longleftrightarrow> distinct (map pl_id (db_plans db)) \<and> (\<forall>p \<in> set (db_plans db). plan_ok db p)"

definition records_kept :: "cdb \<Rightarrow> cdb \<Rightarrow> bool" where
  "records_kept db db' \<longleftrightarrow> (\<exists>sns. db_snapshots db' = db_snapshots db @ sns) \<and> (\<exists>aps. db_approvals db' = db_approvals db @ aps)"

lemma records_keptI: "db_snapshots db' = db_snapshots db @ sns \<Longrightarrow> db_approvals db' = db_approvals db @ aps \<Longrightarrow> records_kept db db'"
  by (simp add: records_kept_def)

lemma records_kept_same: "db_snapshots db' = db_snapshots db \<Longrightarrow> db_approvals db' = db_approvals db \<Longrightarrow> records_kept db db'"
  by (rule records_keptI[where sns="[]" and aps="[]"]) simp_all

lemma plan_ok_mono:
  assumes "plan_ok db p" and "records_kept db db'"
  shows "plan_ok db' p"
  using assms by (auto simp: plan_ok_def was_frozen_def was_decided_def records_kept_def split: publish_state.splits)

lemma plan_ok_canceled: "pl_state p = CANCELED \<Longrightarrow> plan_ok db p"
  by (simp add: plan_ok_def)

lemma plan_invI:
  assumes "plan_inv db" and "records_kept db db'" and "db_plans db' = upd_where P f (db_plans db)" and "\<And>p. pl_id (f p) = pl_id p"
    and "\<And>p. p \<in> set (db_plans db) \<Longrightarrow> P p \<Longrightarrow> plan_ok db' (f p)"
  shows "plan_inv db'"
  using assms(1,5) plan_ok_mono[OF _ assms(2)] unfolding plan_inv_def assms(3)
  by (auto simp: map_upd_where_key[of pl_id, OF assms(4)])

lemma plan_inv_unique:
  "plan_inv db \<Longrightarrow> p \<in> set (db_plans db) \<Longrightarrow> q \<in> set (db_plans db) \<Longrightarrow> pl_id p = pl_id q \<Longrightarrow> p = q"
  by (auto simp: plan_inv_def distinct_map dest: inj_onD)

lemma list_all2_mem: "list_all2 R xs ys \<Longrightarrow> y \<in> set ys \<Longrightarrow> \<exists>x \<in> set xs. R x y"
  by (induction rule: list_all2_induct) auto

lemma only_cancels_plan_inv:
  assumes "plan_inv db" and "only_cancels db db'"
  shows "plan_inv db' \<and> records_kept db db'"
proof -
  have l: "list_all2 canceled_or_same (db_plans db) (db_plans db')" and r: "records_kept db db'"
    using assms(2) by (simp_all add: only_cancels_def records_kept_same)
  have ids: "map pl_id ys = map pl_id xs" if "list_all2 canceled_or_same xs ys" for xs ys
    using that by (induction rule: list_all2_induct) (auto simp: canceled_or_same_def)
  have "plan_ok db' p'" if m: "p' \<in> set (db_plans db')" for p'
  proof -
    obtain p where p: "p \<in> set (db_plans db)" "canceled_or_same p p'"
      using list_all2_mem[OF l m] by blast
    then have "p' = p \<or> pl_state p' = CANCELED" by (auto simp: canceled_or_same_def)
    moreover have "plan_ok db p" using assms(1) p(1) by (simp add: plan_inv_def)
    ultimately show ?thesis using plan_ok_mono[OF _ r] plan_ok_canceled by blast
  qed
  then show ?thesis using assms(1) r ids[OF l] by (simp add: plan_inv_def)
qed

lemma create_plan_Inr:
  assumes "create_plan ev a k q db = Inr ((p, new), db')"
  shows "(\<not> new \<and> db' = db \<and> repo_plan_by_idempotency a k db = Some p \<and> pl_request_sha256 p = ev_hash ev (request_json q)) \<or>
    (new \<and> repo_plan_by_idempotency a k db = None \<and> db_plans db' = db_plans db @ [p] \<and> pl_state p = DRAFT \<and>
     pl_idempotency_key p = k \<and> pl_tenant_id p = tenant_of a \<and> pl_request_sha256 p = ev_hash ev (request_json q) \<and>
     pl_creator_id p = actor_user_id a \<and>
     pl_id p \<notin> pl_id ` set (db_plans db) \<and> db_snapshots db' = db_snapshots db \<and> db_approvals db' = db_approvals db)"
proof (cases "repo_plan_by_idempotency a k db")
  case None
  define V where "V = validate_publish_targets ev (tenant_of a) (pq_platform q) (pq_targets q)"
  have v: "V s = Inr (u, s') \<Longrightarrow> s' = s" for s u s'
    unfolding V_def using keepsD[OF keeps_validate[of "\<lambda>s. s"]] by fastforce
  define C where "C = (case pq_product_id q of None \<Rightarrow> treturn ()
     | Some i \<Rightarrow> tbind (tsome (find_product a i) (not_found ''product'')) (\<lambda>product.
         tguard (pr_status product = ''ACTIVE'') (Api (ConflictError ''archived product cannot receive a publish plan''))))"
  have c: "C s = Inr (u, s') \<Longrightarrow> s' = s" for s u s'
    unfolding C_def by (auto split: option.splits)
  show ?thesis using assms None unfolding create_plan_def V_def[symmetric] C_def[symmetric]
    by (auto simp: Let_def dest!: v c)
next
  case (Some e)
  then show ?thesis using assms unfolding create_plan_def by (auto simp: Let_def split: if_splits)
qed

lemma create_plan_law:
  assumes "plan_inv db" and "create_plan ev a k q db = Inr ((p, new), db')"
  shows "plan_inv db' \<and> records_kept db db'"
  using create_plan_Inr[OF assms(2)]
proof (elim disjE conjE)
  assume e: "db_plans db' = db_plans db @ [p]" "pl_state p = DRAFT" "pl_id p \<notin> pl_id ` set (db_plans db)"
    "db_snapshots db' = db_snapshots db" "db_approvals db' = db_approvals db"
  have r: "records_kept db db'" using e by (simp add: records_kept_same)
  have "plan_ok db' x" if "x \<in> set (db_plans db)" for x using assms(1) that plan_ok_mono[OF _ r] by (simp add: plan_inv_def)
  moreover have "plan_ok db' p" using e(2) by (simp add: plan_ok_def)
  ultimately show ?thesis using assms(1) e(1,3) r by (auto simp: plan_inv_def)
qed (use assms(1) in \<open>simp add: records_kept_same\<close>)

lemma submit_plan_law:
  assumes "plan_inv db" and "submit_plan ev a i db = Inr (r, db')"
  shows "plan_inv db' \<and> records_kept db db'"
  using assms(2)
proof (cases rule: submit_plan_Inr)
  case again
  then show ?thesis using assms(1) by (simp add: records_kept_same)
next
  case (submitted p)
  obtain sn ts where "freeze_plan ev a p db = Inr ((sn, ts), db')" using submitted by (cases r) auto
  note f = freeze_plan_Inr[OF this]
  have p: "p \<in> set (db_plans db)" "pl_id p = i" "pl_tenant_id p = tenant_of a" using find_row_SomeD[OF submitted(1)] by auto
  have kept: "records_kept db db'" using f(5,8) by (intro records_keptI[where aps="[]"]) auto
  have "plan_inv db'"
  proof (rule plan_invI[OF assms(1) kept f(2)])
    fix x assume x: "x \<in> set (db_plans db)" "pl_id x = pl_id p \<and> pl_tenant_id x = tenant_of a"
    then have "x = p" using plan_inv_unique[OF assms(1)] p by blast
    then show "plan_ok db' (x\<lparr>pl_state := if pl_approval_policy p \<noteq> ''NONE'' then AWAITING_APPROVAL else SCHEDULED,
        pl_workflow_id := Some (''publish-plan/'' @ pl_id p), pl_version := pl_version x + 1\<rparr>)"
      using f(8-10) p by (auto simp: plan_ok_def was_frozen_def)
  qed simp
  with kept show ?thesis by simp
qed

lemma decide_approval_law:
  assumes "plan_inv db" and "decide_approval ev a i dec reason db = Inr (q, db')"
  shows "plan_inv db' \<and> records_kept db db'"
proof -
  note d = decide_approval_Inr[OF assms(2)]
  obtain p where p: "p \<in> set (db_plans db)" "pl_id p = i" "pl_tenant_id p = tenant_of a" "pl_state p = AWAITING_APPROVAL"
      "q = p\<lparr>pl_state := (if dec = ''APPROVED'' then SCHEDULED else FAILED), pl_version := pl_version p + 1\<rparr>"
    using d(4) by blast
  have kept: "records_kept db db'" using d(8,9) by (auto simp: records_kept_def)
  have frozen: "was_frozen db' p"
    using assms(1) p(1,4) plan_ok_mono[OF _ kept, of p] by (auto simp: plan_inv_def plan_ok_def)
  have decided: "was_decided db' p (dec = ''APPROVED'')"
    using d(3,9) p by (auto simp: was_decided_def)
  have "plan_inv db'"
  proof (rule plan_invI[OF assms(1) kept d(5)])
    fix x assume x: "x \<in> set (db_plans db)" "pl_id x = i \<and> pl_tenant_id x = tenant_of a"
    then have "x = p" using plan_inv_unique[OF assms(1)] p by blast
    then show "plan_ok db' (x\<lparr>pl_state := if dec = ''APPROVED'' then SCHEDULED else FAILED, pl_version := pl_version x + 1\<rparr>)"
      using frozen decided by (auto simp: plan_ok_def was_frozen_def was_decided_def)
  qed simp
  with kept show ?thesis by simp
qed

lemma cancel_plan_law:
  assumes "plan_inv db" and "cancel_plan ev a i db = Inr (q, db')"
  shows "plan_inv db' \<and> records_kept db db'"
proof -
  note c = cancel_plan_Inr[OF assms(2)]
  have kept: "records_kept db db'" using c(6,7) by (rule records_kept_same)
  have same: "plan_ok db' (x\<lparr>pl_cancel_requested := True, pl_version := v\<rparr>) = plan_ok db' x" for x v
    by (simp add: plan_ok_def was_frozen_def was_decided_def split: publish_state.split)
  have "plan_inv db'"
    by (rule plan_invI[OF assms(1) kept c(3)])
       (use assms(1) plan_ok_mono[OF _ kept] in \<open>auto simp: plan_inv_def same plan_ok_canceled\<close>)
  with kept show ?thesis by simp
qed

lemma keeps_plan_part [keeps_intros]:
  "leaves plan_part (create_tenant ev a n)" "leaves plan_part (create_user ev a n rs)" "leaves plan_part (update_user_roles ev a n rs)"
  "leaves plan_part (create_edge ev a n f)" "leaves plan_part (create_device ev a dq)" "leaves plan_part (create_platform_account ev a q)"
  "leaves plan_part (set_maintenance ev a d b r v)" "leaves plan_part (acquire_lease ev a d w ttl)" "leaves plan_part (release_lease ev a d n)"
  "leaves plan_part (create_commit_intent ev a i ft e)" "leaves plan_part (update_target_state ev a i st dt)"
  unfolding keeps_unfold
  by (intro keeps_intros; simp add: plan_part_def)+

lemma perform_plans:
  assumes "plan_inv db" and "perform ev a c db = Inr ((), db')"
  shows "plan_inv db' \<and> records_kept db db'"
proof -
  have kept: "plan_inv db' \<and> records_kept db db'" if "leaves plan_part (perform ev a c)"
    using only_cancels_plan_inv[OF assms(1) obeysD[OF keeps_only_cancels[OF that] assms(2)]] .
  show ?thesis
  proof (cases c)
    case (Create_Plan k q)
    then obtain p new where "create_plan ev a k q db = Inr ((p, new), db')" using assms(2) by auto
    with assms(1) show ?thesis by (rule create_plan_law)
  next
    case (Bind_Account_Device i d n)
    then show ?thesis using assms only_cancels_plan_inv obeysD[OF obeys_only_cancels(2)] by fastforce
  next
    case (Unbind_Account_Device i d)
    then show ?thesis using assms only_cancels_plan_inv obeysD[OF obeys_only_cancels(1)] by fastforce
  next
    case (Update_Account_Status i s r v)
    then show ?thesis using assms only_cancels_plan_inv obeysD[OF obeys_only_cancels(3)] by fastforce
  next
    case (Submit_Plan i)
    then show ?thesis using assms submit_plan_law by auto
  next
    case (Decide_Approval i d r)
    then show ?thesis using assms decide_approval_law by auto
  next
    case (Cancel_Plan i)
    then show ?thesis using assms cancel_plan_law by auto
  qed (use kept in \<open>auto intro: keeps_intros\<close>)
qed

end
