(* ===== verification/Account_Laws.thy ===== *)
theory Account_Laws
  imports Control_System
begin

text \<open>
  Laws of accounts and their bindings over the calls of the Control API: a device has at most one bound
  account per platform, which the displacement of the other accounts establishes before the index of
  the table could refuse it, and a binding that is unbound and bound again has a greater version.
\<close>

subsection \<open>Two keys of one list\<close>

lemma distinct_map_filter_iff:
  assumes "distinct (map k xs)"
  shows "distinct (map g (filter P xs)) \<longleftrightarrow> (\<forall>x \<in> set xs. \<forall>y \<in> set xs. P x \<and> P y \<and> g x = g y \<longrightarrow> k x = k y)"
  using assms by (auto simp: distinct_map inj_on_def)

lemma distinct_map_eq: "distinct (map f xs) \<Longrightarrow> x \<in> set xs \<Longrightarrow> y \<in> set xs \<Longrightarrow> f x = f y \<Longrightarrow> x = y"
  by (auto simp: distinct_map dest: inj_onD)

lemma tx_Inl:
  "treturn a s = Inl e \<longleftrightarrow> False"
  "tfail e1 s = Inl e \<longleftrightarrow> e1 = e"
  "tbind f g s = Inl e \<longleftrightarrow> f s = Inl e \<or> (\<exists>x s1. f s = Inr (x, s1) \<and> g x s1 = Inl e)"
  "tread h s = Inl e \<longleftrightarrow> False"
  "tmodify k s = Inl e \<longleftrightarrow> False"
  "tguard p e1 s = Inl e \<longleftrightarrow> \<not> p \<and> e1 = e"
  "tlift r s = Inl e \<longleftrightarrow> r = Inl e"
  "tsome l e1 s = Inl e \<longleftrightarrow> l s = None \<and> e1 = e"
  by (auto simp: treturn_def tfail_def tbind_def tread_def tmodify_def tguard_def tlift_def tsome_def split: sum.splits option.splits)

subsection \<open>The invariant of bindings\<close>

abbreviation bound :: "account_binding_row \<Rightarrow> bool" where
  "bound b \<equiv> ab_status b = ''BOUND''"

definition binding_key :: "account_binding_row \<Rightarrow> string \<times> string" where
  "binding_key b = (ab_account_id b, ab_device_id b)"

definition account_part :: "cdb \<Rightarrow> (string \<times> string \<times> string) list" where
  "account_part db = map (\<lambda>r. (ac_id r, ac_tenant_id r, ac_platform r)) (db_accounts db)"

definition owner_part :: "cdb \<Rightarrow> (string \<times> string) list" where
  "owner_part db = map (\<lambda>d. (de_id d, de_tenant_id d)) (db_devices db)"

definition binding_part :: "cdb \<Rightarrow> (string \<times> string \<times> string) list \<times> (string \<times> string) list \<times> account_binding_row list" where
  "binding_part db = (account_part db, owner_part db, db_bindings db)"

definition binding_inv :: "cdb \<Rightarrow> bool" where
  "binding_inv db \<longleftrightarrow> distinct (map fst (account_part db)) \<and> distinct (map fst (owner_part db)) \<and> bindings_unique db \<and>
     (\<forall>b \<in> set (db_bindings db). (ab_account_id b, ab_tenant_id b, ab_platform b) \<in> set (account_part db) \<and>
        (ab_device_id b, ab_tenant_id b) \<in> set (owner_part db) \<and> 1 \<le> ab_binding_version b)"

lemma bindings_unique_iff:
  "bindings_unique db \<longleftrightarrow> distinct (map binding_key (db_bindings db)) \<and>
     (\<forall>b \<in> set (db_bindings db). \<forall>c \<in> set (db_bindings db).
        bound b \<and> bound c \<and> ab_device_id b = ab_device_id c \<and> ab_platform b = ab_platform c \<longrightarrow> binding_key b = binding_key c)"
  using distinct_map_filter_iff[of binding_key "db_bindings db" "\<lambda>b. (ab_device_id b, ab_platform b)" bound]
  by (auto simp: bindings_unique_def binding_key_def[abs_def])

lemma fst_parts [simp]:
  "map fst (account_part db) = map ac_id (db_accounts db)" "map fst (owner_part db) = map de_id (db_devices db)"
  by (simp_all add: account_part_def owner_part_def)

lemma binding_inv_account:
  assumes "binding_inv db" and "b \<in> set (db_bindings db)" and "r \<in> set (db_accounts db)" and "ac_id r = ab_account_id b"
  shows "ab_tenant_id b = ac_tenant_id r" "ab_platform b = ac_platform r"
proof -
  obtain s where s: "s \<in> set (db_accounts db)" "ac_id s = ab_account_id b" "ac_tenant_id s = ab_tenant_id b" "ac_platform s = ab_platform b"
    using assms(1,2) by (fastforce simp: binding_inv_def account_part_def)
  have "s = r" by (rule distinct_map_eq[of ac_id "db_accounts db"]) (use assms s in \<open>simp_all add: binding_inv_def\<close>)
  with s show "ab_tenant_id b = ac_tenant_id r" "ab_platform b = ac_platform r" by auto
qed

lemma binding_inv_device:
  assumes "binding_inv db" and "b \<in> set (db_bindings db)" and "d \<in> set (db_devices db)" and "de_id d = ab_device_id b"
  shows "ab_tenant_id b = de_tenant_id d"
proof -
  obtain e where e: "e \<in> set (db_devices db)" "de_id e = ab_device_id b" "de_tenant_id e = ab_tenant_id b"
    using assms(1,2) by (fastforce simp: binding_inv_def owner_part_def)
  have "e = d" by (rule distinct_map_eq[of de_id "db_devices db"]) (use assms e in \<open>simp_all add: binding_inv_def\<close>)
  with e show ?thesis by auto
qed

text \<open>The bindings after the displacement of the other accounts, and after the new binding.\<close>

definition displaced_hit :: "actor \<Rightarrow> string \<Rightarrow> account_row \<Rightarrow> cdb \<Rightarrow> account_binding_row \<Rightarrow> bool" where
  "displaced_hit a d r db b \<longleftrightarrow> same_platform_bound a d (ac_platform r) db b \<and> ab_account_id b \<noteq> ac_id r"

definition displaced_bindings :: "env \<Rightarrow> actor \<Rightarrow> string \<Rightarrow> account_row \<Rightarrow> cdb \<Rightarrow> account_binding_row list" where
  "displaced_bindings ev a d r db = upd_where (displaced_hit a d r db) (unbind_row ev) (db_bindings db)"

lemma displace_Inr:
  assumes "displace ev a d r db = Inr (ids, db')"
  shows "db_bindings db' = displaced_bindings ev a d r db" "db_accounts db' = db_accounts db" "db_devices db' = db_devices db"
  using assms
  by (auto simp: displace_def displaced_bindings_def displaced_hit_def[abs_def] Let_def split: if_splits)

lemma displaced_only_same:
  assumes "binding_inv db" and "r \<in> set (db_accounts db)" and "ac_tenant_id r = tenant_of a"
    and "dev \<in> set (db_devices db)" and "de_id dev = d" and "de_tenant_id dev = tenant_of a"
    and "b \<in> set (displaced_bindings ev a d r db)" and "bound b" and "ab_device_id b = d" and "ab_platform b = ac_platform r"
  shows "ab_account_id b = ac_id r"
proof -
  have b: "b \<in> set (db_bindings db)" "\<not> displaced_hit a d r db b"
    using assms(7,8) by (auto simp: displaced_bindings_def unbind_row_def)
  have "ab_tenant_id b = tenant_of a" using binding_inv_device[OF assms(1) b(1) assms(4)] assms(5,6,9) by simp
  moreover have "\<exists>s \<in> set (db_accounts db). ac_id s = ab_account_id b \<and> ac_platform s = ac_platform r"
    using assms(1,10) b(1) by (fastforce simp: binding_inv_def account_part_def)
  ultimately have "same_platform_bound a d (ac_platform r) db b"
    using assms(8,9) by (auto simp: same_platform_bound_def)
  then show ?thesis using b(2) by (simp add: displaced_hit_def)
qed

text \<open>The table after a binding, and the row that is bound.\<close>

definition new_binding :: "env \<Rightarrow> actor \<Rightarrow> nat \<Rightarrow> string \<Rightarrow> account_row \<Rightarrow> string \<Rightarrow> account_binding_row" where
  "new_binding ev a i note r d = \<lparr>ab_id = ev_id ev i, ab_tenant_id = tenant_of a, ab_account_id = ac_id r, ab_device_id = d,
     ab_status = ''BOUND'', ab_confirmed_by = actor_user_id a, ab_confirmation_note = note, ab_bound_at = ev_now ev,
     ab_unbound_at = None, ab_binding_version = 1, ab_platform = ac_platform r, ab_created_at = ev_now ev\<rparr>"

definition bound_bindings :: "env \<Rightarrow> actor \<Rightarrow> nat \<Rightarrow> string \<Rightarrow> account_row \<Rightarrow> string \<Rightarrow> account_binding_row list \<Rightarrow> account_binding_row list" where
  "bound_bindings ev a i note r d bs =
     (if \<exists>b \<in> set bs. ab_tenant_id b = tenant_of a \<and> ab_account_id b = ac_id r \<and> ab_device_id b = d
      then upd_where (\<lambda>b. ab_tenant_id b = tenant_of a \<and> ab_account_id b = ac_id r \<and> ab_device_id b = d) (rebind ev a note r) bs
      else bs @ [new_binding ev a i note r d])"

lemma rebind_simps [simp]:
  "ab_account_id (rebind ev a n r b) = ab_account_id b" "ab_device_id (rebind ev a n r b) = ab_device_id b"
  "ab_tenant_id (rebind ev a n r b) = ab_tenant_id b" "ab_platform (rebind ev a n r b) = ac_platform r" "ab_id (rebind ev a n r b) = ab_id b"
  "ab_status (rebind ev a n r b) = ''BOUND''"
  by (simp_all add: rebind_def Let_def)

lemma unbind_simps [simp]:
  "ab_account_id (unbind_row ev b) = ab_account_id b" "ab_device_id (unbind_row ev b) = ab_device_id b"
  "ab_tenant_id (unbind_row ev b) = ab_tenant_id b" "ab_platform (unbind_row ev b) = ab_platform b" "ab_id (unbind_row ev b) = ab_id b"
  "ab_status (unbind_row ev b) = ''UNBOUND''" "ab_binding_version (unbind_row ev b) = ab_binding_version b"
  by (simp_all add: unbind_row_def)

lemma new_binding_simps [simp]:
  "ab_account_id (new_binding ev a i n r d) = ac_id r" "ab_device_id (new_binding ev a i n r d) = d"
  "ab_tenant_id (new_binding ev a i n r d) = tenant_of a" "ab_platform (new_binding ev a i n r d) = ac_platform r"
  "ab_status (new_binding ev a i n r d) = ''BOUND''" "ab_binding_version (new_binding ev a i n r d) = 1"
  by (simp_all add: new_binding_def)

lemma displaced_keys [simp]: "map binding_key (displaced_bindings ev a d r db) = map binding_key (db_bindings db)"
  by (simp add: displaced_bindings_def map_upd_where_key binding_key_def)

lemma displaced_row:
  "b \<in> set (displaced_bindings ev a d r db) \<Longrightarrow>
   \<exists>c \<in> set (db_bindings db). binding_key b = binding_key c \<and> ab_tenant_id b = ab_tenant_id c \<and> ab_platform b = ab_platform c \<and>
     ab_binding_version b = ab_binding_version c \<and> (bound b \<longrightarrow> bound c)"
  by (auto simp: displaced_bindings_def binding_key_def)

text \<open>What makes the table right, for any list of bindings.\<close>

definition unique_list :: "account_binding_row list \<Rightarrow> bool" where
  "unique_list bs \<longleftrightarrow> distinct (map binding_key bs) \<and>
     (\<forall>b \<in> set bs. \<forall>c \<in> set bs. bound b \<and> bound c \<and> ab_device_id b = ab_device_id c \<and> ab_platform b = ab_platform c \<longrightarrow>
        binding_key b = binding_key c)"

lemma bindings_unique_list: "bindings_unique db \<longleftrightarrow> unique_list (db_bindings db)"
  by (simp add: bindings_unique_iff unique_list_def)

lemma unique_listD:
  "unique_list bs \<Longrightarrow> b \<in> set bs \<Longrightarrow> c \<in> set bs \<Longrightarrow> bound b \<Longrightarrow> bound c \<Longrightarrow> ab_device_id b = ab_device_id c \<Longrightarrow>
   ab_platform b = ab_platform c \<Longrightarrow> binding_key b = binding_key c"
  unfolding unique_list_def by blast

lemma unique_listI:
  assumes "distinct (map binding_key bs)"
    and "\<And>b c. b \<in> set bs \<Longrightarrow> c \<in> set bs \<Longrightarrow> bound b \<Longrightarrow> bound c \<Longrightarrow> ab_device_id b = ab_device_id c \<Longrightarrow>
      ab_platform b = ab_platform c \<Longrightarrow> binding_key b = binding_key c"
  shows "unique_list bs"
  using assms unfolding unique_list_def by blast

lemma displaced_bound: "b \<in> set (displaced_bindings ev a d r db) \<Longrightarrow> bound b \<Longrightarrow> b \<in> set (db_bindings db)"
  by (auto simp: displaced_bindings_def)

lemma unique_displaced: "unique_list (db_bindings db) \<Longrightarrow> unique_list (displaced_bindings ev a d r db)"
  by (rule unique_listI) (simp add: unique_list_def, blast intro: unique_listD displaced_bound)

lemma unique_bound:
  assumes u: "unique_list bs"
    and alone: "\<And>b. b \<in> set bs \<Longrightarrow> bound b \<Longrightarrow> ab_device_id b = d \<Longrightarrow> ab_platform b = ac_platform r \<Longrightarrow> ab_account_id b = ac_id r"
    and tenant: "\<And>b. b \<in> set bs \<Longrightarrow> ab_account_id b = ac_id r \<Longrightarrow> ab_tenant_id b = tenant_of a"
  shows "unique_list (bound_bindings ev a i n r d bs)"
proof (cases "\<exists>b \<in> set bs. ab_account_id b = ac_id r \<and> ab_device_id b = d")
  case True
  then have e: "bound_bindings ev a i n r d bs = upd_where (\<lambda>b. ab_tenant_id b = tenant_of a \<and> ab_account_id b = ac_id r \<and> ab_device_id b = d) (rebind ev a n r) bs"
    using tenant by (auto simp: bound_bindings_def)
  have row: "(binding_key b = (ac_id r, d) \<and> ab_platform b = ac_platform r) \<or> (b \<in> set bs \<and> binding_key b \<noteq> (ac_id r, d))"
    if "b \<in> set (bound_bindings ev a i n r d bs)" for b
    using that[unfolded e] by (rule in_upd_whereE) (use tenant in \<open>auto simp: binding_key_def\<close>)
  show ?thesis
  proof (rule unique_listI)
    show "distinct (map binding_key (bound_bindings ev a i n r d bs))"
      using u unfolding e by (simp add: map_upd_where_key binding_key_def unique_list_def)
  next
    fix b c assume b: "b \<in> set (bound_bindings ev a i n r d bs)" "bound b" and c: "c \<in> set (bound_bindings ev a i n r d bs)" "bound c"
      and same: "ab_device_id b = ab_device_id c" "ab_platform b = ab_platform c"
    have no: False if "x \<in> set bs" "binding_key x \<noteq> (ac_id r, d)" "bound x" "binding_key y = (ac_id r, d)"
        "ab_platform y = ac_platform r" "ab_device_id x = ab_device_id y" "ab_platform x = ab_platform y" for x y
      using alone[of x] that by (auto simp: binding_key_def)
    show "binding_key b = binding_key c"
      using row[OF b(1)] row[OF c(1)] no[of b c] no[of c b] unique_listD[OF u _ _ b(2) c(2) same] b(2) c(2) same by metis
  qed
next
  case False
  then have e: "bound_bindings ev a i n r d bs = bs @ [new_binding ev a i n r d]"
    by (auto simp: bound_bindings_def)
  have no: False if "x \<in> set bs" "bound x" "ab_device_id x = d" "ab_platform x = ac_platform r" for x
    using alone[OF that] that(1,3) False by blast
  show ?thesis
  proof (rule unique_listI)
    show "distinct (map binding_key (bound_bindings ev a i n r d bs))"
      using u False unfolding e by (auto simp: unique_list_def binding_key_def)
  next
    fix b c assume m: "b \<in> set (bound_bindings ev a i n r d bs)" "c \<in> set (bound_bindings ev a i n r d bs)"
      and h: "bound b" "bound c" "ab_device_id b = ab_device_id c" "ab_platform b = ab_platform c"
    let ?new = "new_binding ev a i n r d"
    have "b = ?new \<or> b \<in> set bs" "c = ?new \<or> c \<in> set bs" using m unfolding e by auto
    then show "binding_key b = binding_key c"
    proof (elim disjE)
      assume "b \<in> set bs" "c \<in> set bs"
      then show ?thesis using h by (rule unique_listD[OF u])
    next
      assume n: "b = ?new" "c \<in> set bs"
      then have False using no[OF n(2) h(2)] h(3,4) by simp
      then show ?thesis ..
    next
      assume n: "b \<in> set bs" "c = ?new"
      then have False using no[OF n(1) h(1)] h(3,4) by simp
      then show ?thesis ..
    qed simp
  qed
qed

subsection \<open>The operations\<close>

lemma the_account_Inr [simp]: "the_account t i db = Inr (r, db') \<longleftrightarrow> find_account t i db = Some r \<and> db' = db"
  by (simp add: the_account_def)

lemma find_accountD: "find_account t i db = Some r \<Longrightarrow> r \<in> set (db_accounts db) \<and> ac_id r = i \<and> ac_tenant_id r = t"
  by (auto simp: find_account_def dest: find_row_SomeD)

lemma find_binding_None:
  "find_binding t i d db = None \<longleftrightarrow> \<not> (\<exists>b \<in> set (db_bindings db). ab_tenant_id b = t \<and> ab_account_id b = i \<and> ab_device_id b = d)"
  by (auto simp: find_binding_def find_row_None)

lemma find_bindingD:
  "find_binding t i d db = Some b \<Longrightarrow> b \<in> set (db_bindings db) \<and> ab_tenant_id b = t \<and> ab_account_id b = i \<and> ab_device_id b = d"
  by (auto simp: find_binding_def dest: find_row_SomeD)

lemma put_binding_run:
  "put_binding ev a n r d db =
     (let db' = db\<lparr>db_bindings := bound_bindings ev a (db_next db) n r d (db_bindings db),
                   db_next := db_next db + (if find_binding (tenant_of a) (ac_id r) d db = None then 1 else 0)\<rparr> in
      if unique_list (db_bindings db')
      then Inr (case find_binding (tenant_of a) (ac_id r) d db of None \<Rightarrow> new_binding ev a (db_next db) n r d | Some b \<Rightarrow> rebind ev a n r b, db')
      else Inl IntegrityError)"
proof (cases "find_binding (tenant_of a) (ac_id r) d db")
  case None
  then have "bound_bindings ev a (db_next db) n r d (db_bindings db) = db_bindings db @ [new_binding ev a (db_next db) n r d]"
    by (auto simp: find_binding_None bound_bindings_def)
  then show ?thesis using None
    by (simp add: put_binding_def tx_run new_id_def bindings_unique_list new_binding_def Let_def)
next
  case (Some b)
  then have "bound_bindings ev a (db_next db) n r d (db_bindings db) = upd_where (\<lambda>b. ab_tenant_id b = tenant_of a \<and>
      ab_account_id b = ac_id r \<and> ab_device_id b = d) (rebind ev a n r) (db_bindings db)"
    by (auto simp: bound_bindings_def dest: find_bindingD)
  then show ?thesis using Some
    by (simp add: put_binding_def tx_run bindings_unique_list)
qed

lemma bound_after_displace:
  assumes inv: "binding_inv db" and r: "find_account (tenant_of a) i db = Some r"
    and dev: "find_row (\<lambda>x. de_id x = d \<and> de_tenant_id x = tenant_of a) (db_devices db) = Some dev"
  shows "unique_list (bound_bindings ev a k n r d (displaced_bindings ev a d r db))"
proof (rule unique_bound)
  note r' = find_accountD[OF r] and dev' = find_row_SomeD[OF dev]
  show "unique_list (displaced_bindings ev a d r db)"
    using inv by (simp add: binding_inv_def bindings_unique_list unique_displaced)
  show "ab_account_id b = ac_id r" if "b \<in> set (displaced_bindings ev a d r db)" "bound b" "ab_device_id b = d" "ab_platform b = ac_platform r" for b
    by (rule displaced_only_same[OF inv _ _ _ _ _ that]) (use r' dev' in auto)
  show "ab_tenant_id b = tenant_of a" if "b \<in> set (displaced_bindings ev a d r db)" "ab_account_id b = ac_id r" for b
    using displaced_row[OF that(1)] that(2) binding_inv_account(1)[OF inv] r' by (auto simp: binding_key_def)
qed

lemma bind_no_integrity:
  assumes "binding_inv db"
  shows "bind_account_device ev a i d n db \<noteq> Inl IntegrityError"
proof
  assume e: "bind_account_device ev a i d n db = Inl IntegrityError"
  have p: "require a q s \<noteq> Inl IntegrityError" for q s by (auto simp: require_def tlift_def split: sum.splits)
  have dis: "displace ev a d' r s \<noteq> Inl e" for d' r s e by (auto simp: displace_def Let_def)
  have au: "audit ev a x y z w s \<noteq> Inl e" for x y z w s e by (simp add: audit_def tx_Inl)
  obtain r dev where r: "find_account (tenant_of a) i db = Some r"
    and dev: "find_row (\<lambda>x. de_id x = d \<and> de_tenant_id x = tenant_of a) (db_devices db) = Some dev"
    and run: "\<exists>ids s1. displace ev a (de_id dev) r db = Inr (ids, s1) \<and> put_binding ev a n r (de_id dev) s1 = Inl IntegrityError"
    using e p dis au
    by (auto simp: bind_account_device_def tx_Inl the_account_def repo_device_def not_found_def set_account_def)
  then obtain ids s1 where s1: "displace ev a d r db = Inr (ids, s1)" and "put_binding ev a n r d s1 = Inl IntegrityError"
    using find_row_SomeD[OF dev] by auto
  then show False
    using bound_after_displace[OF assms r dev] displace_Inr(1)[OF s1] by (auto simp: put_binding_run Let_def split: if_splits)
qed

subsection \<open>Versions of a binding\<close>

definition binding_follows :: "account_binding_row \<Rightarrow> account_binding_row \<Rightarrow> bool" where
  "binding_follows b b' \<longleftrightarrow> ab_id b' = ab_id b \<and> binding_key b' = binding_key b \<and>
     (ab_binding_version b < ab_binding_version b' \<or> ab_binding_version b' = ab_binding_version b \<and> (bound b' \<longrightarrow> bound b))"

definition lists_follow :: "account_binding_row list \<Rightarrow> account_binding_row list \<Rightarrow> bool" where
  "lists_follow bs bs' \<longleftrightarrow> (\<forall>b \<in> set bs. \<exists>b' \<in> set bs'. binding_follows b b')"

lemma lists_followI: "(\<And>b. b \<in> set bs \<Longrightarrow> \<exists>b' \<in> set bs'. binding_follows b b') \<Longrightarrow> lists_follow bs bs'"
  by (simp add: lists_follow_def)

lemma binding_follows_refl [simp]: "binding_follows b b"
  by (simp add: binding_follows_def)

lemma lists_follow_mono: "set bs \<subseteq> set bs' \<Longrightarrow> lists_follow bs bs'"
  by (rule lists_followI, rule bexI, rule binding_follows_refl) blast

lemma lists_follow_refl [simp]: "lists_follow bs bs"
  by (rule lists_follow_mono) simp

lemma binding_follows_trans: "binding_follows b c \<Longrightarrow> binding_follows c d \<Longrightarrow> binding_follows b d"
  by (auto simp: binding_follows_def)

lemma lists_follow_trans: "lists_follow bs cs \<Longrightarrow> lists_follow cs ds \<Longrightarrow> lists_follow bs ds"
  unfolding lists_follow_def by (meson binding_follows_trans)

lemma lists_follow_upd:
  assumes "\<And>b. b \<in> set bs \<Longrightarrow> p b \<Longrightarrow> binding_follows b (f b)"
  shows "lists_follow bs (upd_where p f bs)"
proof (rule lists_followI)
  fix b assume b: "b \<in> set bs"
  show "\<exists>b' \<in> set (upd_where p f bs). binding_follows b b'"
    by (rule bexI[OF _ upd_where_mem[OF b, of p f]]) (use assms[OF b] in auto)
qed

lemma unbind_follows: "binding_follows b (unbind_row ev b)"
  by (simp add: binding_follows_def binding_key_def)

lemma rebind_follows: "1 \<le> ab_binding_version b \<Longrightarrow> binding_follows b (rebind ev a n r b)"
  by (simp add: binding_follows_def binding_key_def rebind_def Let_def)

lemma rebind_version: "1 \<le> ab_binding_version b \<Longrightarrow> 1 \<le> ab_binding_version (rebind ev a n r b)"
  by (simp add: rebind_def Let_def)

definition rows_ok :: "cdb \<Rightarrow> account_binding_row list \<Rightarrow> bool" where
  "rows_ok db bs \<longleftrightarrow> (\<forall>b \<in> set bs. (ab_account_id b, ab_tenant_id b, ab_platform b) \<in> set (account_part db) \<and>
        (ab_device_id b, ab_tenant_id b) \<in> set (owner_part db) \<and> 1 \<le> ab_binding_version b)"

lemma binding_inv_rows:
  "binding_inv db \<longleftrightarrow> distinct (map fst (account_part db)) \<and> distinct (map fst (owner_part db)) \<and> unique_list (db_bindings db) \<and>
     rows_ok db (db_bindings db)"
  by (simp add: binding_inv_def rows_ok_def bindings_unique_list)

lemma rows_okD:
  "rows_ok db bs \<Longrightarrow> b \<in> set bs \<Longrightarrow> (ab_account_id b, ab_tenant_id b, ab_platform b) \<in> set (account_part db) \<and>
        (ab_device_id b, ab_tenant_id b) \<in> set (owner_part db) \<and> 1 \<le> ab_binding_version b"
  unfolding rows_ok_def by blast

lemma rows_okI:
  assumes "\<And>b. b \<in> set bs \<Longrightarrow> (ab_account_id b, ab_tenant_id b, ab_platform b) \<in> set (account_part db) \<and>
        (ab_device_id b, ab_tenant_id b) \<in> set (owner_part db) \<and> 1 \<le> ab_binding_version b"
  shows "rows_ok db bs"
  using assms unfolding rows_ok_def by blast

lemma rows_ok_unbind: "rows_ok db bs \<Longrightarrow> rows_ok db (upd_where p (unbind_row ev) bs)"
  by (rule rows_okI, erule in_upd_whereE) (simp_all add: rows_okD)

lemma unique_unbind:
  assumes "unique_list bs"
  shows "unique_list (upd_where p (unbind_row ev) bs)"
proof (rule unique_listI)
  show "distinct (map binding_key (upd_where p (unbind_row ev) bs))"
    using assms by (simp add: unique_list_def map_upd_where_key binding_key_def)
  fix b c assume h: "b \<in> set (upd_where p (unbind_row ev) bs)" "c \<in> set (upd_where p (unbind_row ev) bs)" "bound b" "bound c"
    "ab_device_id b = ab_device_id c" "ab_platform b = ab_platform c"
  have "b \<in> set bs" "c \<in> set bs" using h(1-4) by auto
  then show "binding_key b = binding_key c" using h(3-) by (rule unique_listD[OF assms])
qed

lemma binding_inv_unbind:
  assumes "binding_inv db" and "account_part db' = account_part db" and "owner_part db' = owner_part db"
    and "db_bindings db' = upd_where p (unbind_row ev) (db_bindings db)"
  shows "binding_inv db' \<and> lists_follow (db_bindings db) (db_bindings db')"
  using assms unique_unbind rows_ok_unbind[of db "db_bindings db"] lists_follow_upd[of "db_bindings db" p "unbind_row ev"] unbind_follows
  by (simp add: binding_inv_rows rows_ok_def)

lemma rows_ok_bound:
  assumes "rows_ok db bs" and "r \<in> set (db_accounts db)" and "ac_tenant_id r = tenant_of a" and "(d, tenant_of a) \<in> set (owner_part db)"
  shows "rows_ok db (bound_bindings ev a k n r d bs)"
proof (rule rows_okI)
  have acc: "(ac_id r, tenant_of a, ac_platform r) \<in> set (account_part db)"
    using assms(2,3) by (force simp: account_part_def)
  fix b assume "b \<in> set (bound_bindings ev a k n r d bs)"
  then consider "b \<in> set bs" | "b = new_binding ev a k n r d"
    | c where "c \<in> set bs" "ab_tenant_id c = tenant_of a \<and> ab_account_id c = ac_id r \<and> ab_device_id c = d" "b = rebind ev a n r c"
    by (auto simp: bound_bindings_def split: if_splits)
  then show "(ab_account_id b, ab_tenant_id b, ab_platform b) \<in> set (account_part db) \<and>
        (ab_device_id b, ab_tenant_id b) \<in> set (owner_part db) \<and> 1 \<le> ab_binding_version b"
  proof cases
    case 1
    then show ?thesis by (rule rows_okD[OF assms(1)])
  next
    case 2
    then show ?thesis using acc assms(4) by simp
  next
    case 3
    then show ?thesis using acc assms(4) rebind_version rows_okD[OF assms(1)] by simp
  qed
qed

lemma bound_follow:
  assumes "rows_ok db bs"
  shows "lists_follow bs (bound_bindings ev a k n r d bs)"
proof -
  have "lists_follow bs (bs @ [x])" for x
    by (rule lists_follow_mono) auto
  then show ?thesis
    unfolding bound_bindings_def by (auto intro!: lists_follow_upd rebind_follows simp: rows_okD[OF assms])
qed

lemma bind_account_device_Inr:
  assumes "bind_account_device ev a i d n db = Inr (b, db')"
  obtains r dev ids s1 s2 where "find_account (tenant_of a) i db = Some r" "ac_status r = ''AUTHORIZED''"
    "\<not> expired (ev_now ev) (ac_expires_at r)"
    "find_row (\<lambda>x. de_id x = d \<and> de_tenant_id x = tenant_of a) (db_devices db) = Some dev" "displace ev a d r db = Inr (ids, s1)"
    "put_binding ev a n r d s1 = Inr (b, s2)" "db_bindings db' = db_bindings s2" "account_part db' = account_part s2"
    "db_devices db' = db_devices s2"
proof -
  obtain r dev where r: "find_account (tenant_of a) i db = Some r" "ac_status r = ''AUTHORIZED''" "\<not> expired (ev_now ev) (ac_expires_at r)"
    and dev: "find_row (\<lambda>x. de_id x = d \<and> de_tenant_id x = tenant_of a) (db_devices db) = Some dev"
    and run: "\<exists>ids s1 s2. displace ev a (de_id dev) r db = Inr (ids, s1) \<and> put_binding ev a n r (de_id dev) s1 = Inr (b, s2) \<and>
      db_bindings db' = db_bindings s2 \<and> account_part db' = account_part s2 \<and> db_devices db' = db_devices s2"
    using assms by (auto simp: bind_account_device_def set_account_def account_part_def map_upd_where_key)
  then show ?thesis using that find_row_SomeD[OF dev] by auto
qed

lemma bind_law:
  assumes inv: "binding_inv db" and run: "bind_account_device ev a i d n db = Inr (b, db')"
  shows "binding_inv db' \<and> lists_follow (db_bindings db) (db_bindings db') \<and> b \<in> set (db_bindings db') \<and> bound b"
  using run
proof (rule bind_account_device_Inr)
  fix r dev ids s1 s2
  assume r: "find_account (tenant_of a) i db = Some r"
    and dev: "find_row (\<lambda>x. de_id x = d \<and> de_tenant_id x = tenant_of a) (db_devices db) = Some dev"
    and s1: "displace ev a d r db = Inr (ids, s1)" and put: "put_binding ev a n r d s1 = Inr (b, s2)"
    and e: "db_bindings db' = db_bindings s2" "account_part db' = account_part s2" "db_devices db' = db_devices s2"
  note d1 = displace_Inr[OF s1] and r' = find_accountD[OF r] and dev' = find_row_SomeD[OF dev]
  have parts1: "account_part s1 = account_part db" "owner_part s1 = owner_part db"
    using d1 by (simp_all add: account_part_def owner_part_def)
  have inv1: "binding_inv s1" "lists_follow (db_bindings db) (db_bindings s1)"
    using binding_inv_unbind[OF inv parts1] d1(1) unfolding displaced_bindings_def by auto
  let ?B = "bound_bindings ev a (db_next s1) n r d (db_bindings s1)"
  have s2: "db_bindings s2 = ?B" "account_part s2 = account_part s1" "db_devices s2 = db_devices s1" and u: "unique_list ?B"
    using put by (auto simp: put_binding_run Let_def account_part_def split: if_splits)
  have rows: "rows_ok s1 (db_bindings s1)" using inv1(1) by (simp add: binding_inv_rows)
  have own: "(d, tenant_of a) \<in> set (owner_part s1)" using dev' d1(3) by (force simp: owner_part_def)
  have "rows_ok s1 ?B" using rows_ok_bound[OF rows _ _ own] r' d1(2) by simp
  moreover have "owner_part db' = owner_part s1" using e(3) s2(3) by (simp add: owner_part_def)
  ultimately have "binding_inv db'"
    using inv1(1) u e(1,2) s2 by (simp add: binding_inv_rows rows_ok_def)
  moreover have "lists_follow (db_bindings db) (db_bindings db')"
    using lists_follow_trans[OF inv1(2) bound_follow[OF rows]] e(1) s2(1) by simp
  moreover have "b \<in> set ?B \<and> bound b"
  proof (cases "find_binding (tenant_of a) (ac_id r) d s1")
    case None
    then have "b = new_binding ev a (db_next s1) n r d" using put by (auto simp: put_binding_run Let_def split: if_splits)
    then show ?thesis using None by (auto simp: bound_bindings_def find_binding_None)
  next
    case (Some c)
    note c = find_bindingD[OF this]
    have "b = rebind ev a n r c" using put Some by (auto simp: put_binding_run Let_def split: if_splits)
    then show ?thesis
      using upd_where_mem[of c "db_bindings s1" "\<lambda>b. ab_tenant_id b = tenant_of a \<and> ab_account_id b = ac_id r \<and> ab_device_id b = d" "rebind ev a n r"] c
      by (auto simp: bound_bindings_def)
  qed
  ultimately show ?thesis using e(1) s2(1) by simp
qed

definition account_owner_part :: "cdb \<Rightarrow> (string \<times> string \<times> string) list \<times> (string \<times> string) list" where
  "account_owner_part db = (account_part db, owner_part db)"

lemma keeps_account_owner:
  "leaves account_owner_part (unbind_account_device ev a i d)" "leaves account_owner_part (update_account_status ev a i st r v)"
  unfolding keeps_unfold Let_def
  by (intro keeps_intros; simp add: account_owner_part_def account_part_def owner_part_def map_upd_where_key)+

lemma unbind_law:
  assumes "binding_inv db" and "unbind_account_device ev a i d db = Inr (u, db')"
  shows "binding_inv db' \<and> lists_follow (db_bindings db) (db_bindings db')"
proof (rule binding_inv_unbind[OF assms(1)])
  show "account_part db' = account_part db" "owner_part db' = owner_part db"
    using keepsD[OF keeps_account_owner(1) assms(2)] by (simp_all add: account_owner_part_def)
  show "db_bindings db' = upd_where (\<lambda>r. ab_tenant_id r = tenant_of a \<and> ab_account_id r = i \<and> ab_device_id r = d) (unbind_row ev) (db_bindings db)"
    using assms(2) by (auto simp: unbind_account_device_def set_account_def dest: find_accountD split: option.splits)
qed

lemma status_law:
  assumes "binding_inv db" and "update_account_status ev a i st r v db = Inr (u, db')"
  shows "binding_inv db' \<and> lists_follow (db_bindings db) (db_bindings db')"
proof -
  have parts: "account_part db' = account_part db" "owner_part db' = owner_part db"
    using keepsD[OF keeps_account_owner(2) assms(2)] by (simp_all add: account_owner_part_def)
  show ?thesis
  proof (cases "st = ''AUTHORIZED''")
    case True
    then have "db_bindings db' = db_bindings db"
      using assms(2) by (auto simp: update_account_status_def set_account_def twhen_def Let_def)
    then show ?thesis using assms(1) parts by (simp add: binding_inv_rows rows_ok_def)
  next
    case False
    then have "db_bindings db' = upd_where (\<lambda>b. ab_account_id b = i \<and> ab_tenant_id b = tenant_of a \<and> bound b) (unbind_row ev) (db_bindings db)"
      using assms(2) by (auto simp: update_account_status_def set_account_def twhen_def Let_def dest!: find_accountD)
    then show ?thesis by (rule binding_inv_unbind[OF assms(1) parts])
  qed
qed

lemma keeps_binding_part [keeps_intros]:
  "leaves binding_part (create_tenant ev a n)" "leaves binding_part (create_user ev a n rs)" "leaves binding_part (update_user_roles ev a n rs)"
  "leaves binding_part (create_edge ev a n f)" "leaves binding_part (set_maintenance ev a d b r v)"
  "leaves binding_part (create_plan ev a k pq)" "leaves binding_part (submit_plan ev a i)"
  "leaves binding_part (decide_approval ev a i r rn)" "leaves binding_part (cancel_plan ev a i)" "leaves binding_part (acquire_lease ev a d w ttl)"
  "leaves binding_part (release_lease ev a d n)" "leaves binding_part (create_commit_intent ev a i ft e)"
  "leaves binding_part (update_target_state ev a i st dt)"
  unfolding keeps_unfold
  by (intro keeps_intros; simp add: binding_part_def account_part_def owner_part_def map_upd_where_key)+

lemma perform_bindings:
  assumes "binding_inv db" and "perform ev a c db = Inr ((), db')"
  shows "binding_inv db' \<and> lists_follow (db_bindings db) (db_bindings db')"
proof -
  have kept: "binding_inv db' \<and> lists_follow (db_bindings db) (db_bindings db')" if "leaves binding_part (perform ev a c)"
    using keepsD[OF that assms(2)] assms(1) by (simp add: binding_part_def binding_inv_rows rows_ok_def)
  show ?thesis
  proof (cases c)
    case (Create_Device q)
    then obtain x where x: "create_device ev a q db = Inr (x, db')" using assms(2) by auto
    have "db_bindings db' = db_bindings db" "account_part db' = account_part db" "owner_part db' = owner_part db @ [(de_id x, tenant_of a)]"
      using x by (auto simp: create_device_def Let_def account_part_def owner_part_def)
    then show ?thesis using assms(1) create_device_Inr(3)[OF x] by (auto simp: binding_inv_rows rows_ok_def simp flip: fst_parts) (auto simp: owner_part_def)
  next
    case (Create_Platform_Account q)
    then obtain x where x: "create_platform_account ev a q db = Inr (x, db')" using assms(2) by auto
    have "db_bindings db' = db_bindings db" "owner_part db' = owner_part db" "account_part db' = account_part db @ [(ac_id x, tenant_of a, ac_platform x)]"
      "ac_id x \<notin> ac_id ` set (db_accounts db)"
      using x by (auto simp: create_platform_account_def Let_def account_part_def owner_part_def)
    then show ?thesis using assms(1) by (auto simp: binding_inv_rows rows_ok_def simp flip: fst_parts) (auto simp: account_part_def)
  next
    case (Bind_Account_Device i d n)
    then show ?thesis using assms bind_law by auto
  next
    case (Unbind_Account_Device i d)
    then show ?thesis using assms unbind_law by auto
  next
    case (Update_Account_Status i s r v)
    then show ?thesis using assms status_law by auto
  qed (use kept in \<open>auto intro: keeps_intros\<close>)
qed

end
