(* ===== verification/Tenancy.thy ===== *)
theory Tenancy
  imports Control_System
begin

text \<open>
  Isolation of tenants in the Control API: a call of an actor changes no row of another tenant, and a query
  returns rows of the actor's own tenant only.
\<close>

record tenant_slice =
  sl_users :: "user_row list"
  sl_edges :: "edge_node_row list"
  sl_devices :: "device_row list"
  sl_accounts :: "account_row list"
  sl_bindings :: "account_binding_row list"
  sl_schedules :: "task_schedule_row list"
  sl_plans :: "plan_row list"
  sl_snapshots :: "snapshot_row list"
  sl_targets :: "target_row list"
  sl_approvals :: "approval_row list"
  sl_intents :: "intent_row list"
  sl_mobile_tasks :: "mobile_task_row list"
  sl_outbox :: "outbox_row list"
  sl_audit :: "audit_row list"

text \<open>The rows of a tenant, without the leases, which one statement deletes by the device alone.\<close>

definition tenant_rest :: "string \<Rightarrow> cdb \<Rightarrow> tenant_slice" where
  "tenant_rest u db = \<lparr>
     sl_users = filter (\<lambda>r. us_tenant_id r = u) (db_users db), sl_edges = filter (\<lambda>r. eg_tenant_id r = u) (db_edges db),
     sl_devices = filter (\<lambda>r. de_tenant_id r = u) (db_devices db), sl_accounts = filter (\<lambda>r. ac_tenant_id r = u) (db_accounts db),
     sl_bindings = filter (\<lambda>r. ab_tenant_id r = u) (db_bindings db), sl_schedules = filter (\<lambda>r. ts_tenant_id r = u) (db_schedules db),
     sl_plans = filter (\<lambda>r. pl_tenant_id r = u) (db_plans db), sl_snapshots = filter (\<lambda>r. sn_tenant_id r = u) (db_snapshots db),
     sl_targets = filter (\<lambda>r. tg_tenant_id r = u) (db_targets db), sl_approvals = filter (\<lambda>r. ap_tenant_id r = u) (db_approvals db),
     sl_intents = filter (\<lambda>r. in_tenant_id r = u) (db_intents db),
     sl_mobile_tasks = filter (\<lambda>r. mt_tenant_id r = u) (db_mobile_tasks db),
     sl_outbox = filter (\<lambda>r. ob_tenant_id r = u) (db_outbox db), sl_audit = filter (\<lambda>r. ad_tenant_id r = u) (db_audit db)\<rparr>"

definition tenant_leases :: "string \<Rightarrow> cdb \<Rightarrow> lease_row list" where
  "tenant_leases u db = filter (\<lambda>l. le_tenant_id l = u) (db_leases db)"

lemma filter_upd_where_other:
  "\<forall>r. p r \<longrightarrow> \<not> q r \<Longrightarrow> \<forall>r. q (f r) = q r \<Longrightarrow> filter q (upd_where p f rows) = filter q rows"
  by (induction rows) auto

lemma entry_tenants [simp]:
  "ob_tenant_id (outbox_entry ev a n g i t pl) = tenant_of a" "ad_tenant_id (audit_entry ev a n act r i info) = tenant_of a"
  by (simp_all add: outbox_entry_def audit_entry_def)

lemma stale_rows:
  assumes "u \<noteq> t"
  shows "filter (\<lambda>r. mt_tenant_id r = u) (db_mobile_tasks (block_stale_account_work ev t d is r db)) =
           filter (\<lambda>r. mt_tenant_id r = u) (db_mobile_tasks db) \<and>
         filter (\<lambda>r. pl_tenant_id r = u) (db_plans (block_stale_account_work ev t d is r db)) =
           filter (\<lambda>r. pl_tenant_id r = u) (db_plans db)"
proof (cases "is = []")
  case False
  obtain ms where e: "block_stale_account_work ev t d is r db = db\<lparr>
     db_mobile_tasks := upd_where (stale_task t d is) (fail_stale_task ev r) (db_mobile_tasks db), db_im_messages := ms,
     db_plans := upd_where (stale_plan t d is) (cancel_stale_plan ev r) (db_plans db)\<rparr>"
    by (rule block_stale_shape[OF False])
  show ?thesis using assms[symmetric] unfolding e
    by (simp add: stale_task_def fail_stale_task_def stale_plan_def cancel_stale_plan_def filter_upd_where_other)
qed simp

lemma fold_stale_rows:
  assumes "u \<noteq> t"
  shows "filter (\<lambda>r. mt_tenant_id r = u) (db_mobile_tasks (fold (\<lambda>b. block_stale_account_work ev t (f b) is r) bs db)) =
           filter (\<lambda>r. mt_tenant_id r = u) (db_mobile_tasks db)"
    and "filter (\<lambda>r. pl_tenant_id r = u) (db_plans (fold (\<lambda>b. block_stale_account_work ev t (f b) is r) bs db)) =
           filter (\<lambda>r. pl_tenant_id r = u) (db_plans db)"
  by (induction bs arbitrary: db) (simp_all add: stale_rows[OF assms])

lemma displace_tenant:
  assumes "u \<noteq> tenant_of a"
  shows "leaves (tenant_rest u) (displace ev a d r)"
  using assms[symmetric] unfolding leaves_def displace_def Let_def
  by (auto simp: tenant_rest_def stale_rows[OF assms] filter_upd_where_other same_platform_bound_def unbind_row_def split: if_splits)

lemma submit_target_tenant:
  assumes "u \<noteq> tenant_of a"
  shows "leaves (tenant_rest u) (submit_target ev a p sn st d)"
  unfolding submit_target_def Let_def
  by (intro keeps_intros; simp add: tenant_rest_def assms assms[symmetric])

lemma perform_tenant_rest:
  assumes u: "u \<noteq> tenant_of a"
  shows "leaves (tenant_rest u) (perform ev a c)"
proof -
  note other = filter_upd_where_other stale_rows[OF u] fold_stale_rows[OF u] u u[symmetric] unbind_row_def rebind_def
  show ?thesis
  proof (cases "\<exists>i d n. c = Bind_Account_Device i d n")
    case True
    then obtain i d n where c: "c = Bind_Account_Device i d n" by blast
    show ?thesis
      unfolding c perform.simps bind_account_device_def put_binding_def set_account_def done_with_def Let_def
      by (rule displace_tenant[OF u] keeps_intros | simp add: tenant_rest_def other Let_def; fail)+
  next
    case False
    then show ?thesis
      by (cases c; simp only: perform.simps keeps_unfold Let_def done_with_def;
          (intro keeps_intros submit_target_tenant[OF u]; simp add: tenant_rest_def other Let_def)?)
  qed
qed

lemma perform_tenant_leases:
  assumes u: "u \<noteq> tenant_of a" and inv: "lease_inv db" and run: "perform ev a c db = Inr ((), db')"
  shows "tenant_leases u db' = tenant_leases u db"
proof (cases "(\<exists>q. c = Create_Device q) \<or> (\<exists>d w t. c = Acquire_Lease d w t) \<or> (\<exists>d i. c = Release_Lease d i)")
  case True
  then consider (dev) q where "c = Create_Device q" | (acq) d w t where "c = Acquire_Lease d w t" | (rel) d i where "c = Release_Lease d i"
    by blast
  then show ?thesis
  proof cases
    case dev
    then show ?thesis using run create_device_Inr(2) by (auto simp: tenant_leases_def)
  next
    case acq
    then obtain l where "acquire_lease ev a d w t db = Inr (l, db')" using run by auto
    then show ?thesis
    proof (cases rule: acquire_lease_Inr)
      case (fresh dev)
      have "le_tenant_id m = tenant_of a" if "m \<in> set (db_leases db)" "le_device_id m = d" for m
        using lease_inv_device(1)[OF inv that(1) fresh(1)] fresh(2,3) that(2) by simp
      then have "filter (\<lambda>l. le_tenant_id l = u) (filter (\<lambda>m. le_device_id m \<noteq> d) (db_leases db)) = filter (\<lambda>l. le_tenant_id l = u) (db_leases db)"
        using u by (auto intro!: filter_cong)
      then show ?thesis using u fresh(9) unfolding tenant_leases_def fresh(7) by simp
    qed simp
  next
    case rel
    then show ?thesis using run release_lease_Inr(2) u
      by (fastforce simp: tenant_leases_def intro!: filter_upd_where_other)
  qed
next
  case False
  then have "leaves lease_part (perform ev a c)"
    by (cases c) (auto intro: keeps_intros)
  from keepsD[OF this run] show ?thesis by (simp add: lease_part_def tenant_leases_def)
qed

end
