(* ===== verification/Control_Props.thy ===== *)
theory Control_Props
  imports Plan_Laws Account_Laws Tenancy
begin

text \<open>
  The properties of the Control API over all its reachable databases: the invariants of the four groups of
  laws together, runs of calls as lists, and the statements that a caller relies on.
\<close>

subsection \<open>Reachable databases\<close>

definition api_inv :: "cdb \<Rightarrow> bool" where
  "api_inv db \<longleftrightarrow> lease_inv db \<and> intent_inv db \<and> plan_inv db \<and> binding_inv db"

definition api_follows :: "cdb \<Rightarrow> cdb \<Rightarrow> bool" where
  "api_follows db db' \<longleftrightarrow> leases_follow db db' \<and> intents_kept db db' \<and> records_kept db db' \<and>
     lists_follow (db_bindings db) (db_bindings db')"

lemma api_inv_empty: "api_inv empty_db"
  by (simp add: api_inv_def lease_inv_def intent_inv_def plan_inv_def binding_inv_rows unique_list_def rows_ok_def empty_db_def
      device_part_def account_part_def owner_part_def)

lemma perform_api:
  assumes "api_inv db" and "perform ev a c db = Inr ((), db')"
  shows "api_inv db' \<and> api_follows db db'"
  using perform_lease[OF _ assms(2)] perform_targets[OF _ assms(2)] perform_plans[OF _ assms(2)] perform_bindings[OF _ assms(2)] assms(1)
  by (simp add: api_inv_def api_follows_def)

lemma api_follows_refl: "api_follows db db"
  by (simp add: api_follows_def leases_follow_refl intents_kept_def records_kept_same)

lemma api_follows_trans: "api_follows db db1 \<Longrightarrow> api_follows db1 db2 \<Longrightarrow> api_follows db db2"
  using leases_follow_trans lists_follow_trans by (fastforce simp: api_follows_def intents_kept_def records_kept_def)

lemma step_api: "api_step db db' \<Longrightarrow> api_inv db \<Longrightarrow> api_inv db' \<and> api_follows db db'"
proof (induction rule: api_step.induct)
  case (call ev a c db db')
  from call(2,1) show ?case by (rule perform_api)
next
  case (elsewhere db os ms ts ss us rs ps)
  let ?db' = "db\<lparr>db_products := ps, db_revisions := rs, db_automations := us, db_schedules := ss,
     db_mobile_tasks := ts, db_im_messages := ms, db_outbox := os\<rparr>"
  have "plan_ok ?db' p = plan_ok db p" for p
    by (simp add: plan_ok_def was_frozen_def was_decided_def split: publish_state.split)
  moreover have "leases_follow db ?db'" by (rule leases_follow_refl) simp
  moreover have "records_kept db ?db'" by (rule records_kept_same) simp_all
  ultimately show ?case using elsewhere
    by (simp add: api_inv_def api_follows_def lease_inv_def intent_inv_def plan_inv_def binding_inv_rows rows_ok_def
        device_part_def account_part_def owner_part_def intents_kept_def)
qed

lemma steps_api: "api_steps db db' \<Longrightarrow> api_inv db \<Longrightarrow> api_inv db' \<and> api_follows db db'"
proof (induction rule: rtranclp_induct)
  case base
  then show ?case by (simp add: api_follows_refl)
next
  case (step db1 db2)
  then show ?case using step_api api_follows_trans by blast
qed

lemma reachable_api: "api_steps empty_db db \<Longrightarrow> api_inv db"
  using steps_api api_inv_empty by blast

text \<open>A run of calls, each in its own transaction: a call that raises leaves the database as it was.\<close>

fun run_calls :: "(env \<times> actor \<times> api_call) list \<Rightarrow> cdb \<Rightarrow> cdb" where
  "run_calls [] db = db"
| "run_calls ((ev, a, c) # cs) db = run_calls cs (snd (run_tx (perform ev a c) db))"

lemma run_calls_steps: "api_steps db (run_calls cs db)"
proof (induction cs db rule: run_calls.induct)
  case (2 ev a c cs db)
  have "api_steps db (snd (run_tx (perform ev a c) db))"
  proof (cases "perform ev a c db")
    case (Inr r)
    then have "perform ev a c db = Inr ((), snd r)" by (cases r) simp
    then have "api_step db (snd r)" by (rule api_step.call)
    with Inr show ?thesis by (cases r) simp
  qed simp
  then show ?case using 2 by (simp add: rtranclp_trans)
qed simp

text \<open>A small tenant: an edge, a device, an account bound to it, and a qualified automation.\<close>

definition demo_env :: env where
  "demo_env = \<lparr>ev_id = (\<lambda>n. ''id-'' @ dec_nat n), ev_hash = (\<lambda>j. ''hash''), ev_now = 0\<rparr>"

definition later :: "int \<Rightarrow> env" where
  "later t = demo_env\<lparr>ev_now := t\<rparr>"

definition demo_actor :: actor where
  "demo_actor = \<lparr>actor_tenant_id = ''tenant'', actor_user_id = ''alice'', actor_roles = [SECURITY_ADMIN], actor_mfa = True,
     actor_request_id = ''req'', actor_ip = None, actor_user_agent = None\<rparr>"

definition demo_lease_calls :: "(env \<times> actor \<times> api_call) list" where
  "demo_lease_calls = [(demo_env, demo_actor, Create_Edge ''edge'' ''fingerprint''),
     (demo_env, demo_actor, Create_Device \<lparr>dq_edge_id = ''id-0'', dq_logical_name = ''phone'', dq_android_version = None,
        dq_lamda_version = None, dq_target_app_versions = JObj [], dq_capabilities = JObj [], dq_labels = []\<rparr>),
     (demo_env, demo_actor, Acquire_Lease ''id-3'' ''workflow-1'' 60)]"

definition demo_leased :: cdb where
  "demo_leased = run_calls demo_lease_calls empty_db"

lemma demo_leased_reachable: "api_steps empty_db demo_leased"
  unfolding demo_leased_def by (rule run_calls_steps)

lemma demo_leased_rows:
  "map le_device_id (db_leases demo_leased) = [''id-3''] \<and> map le_fencing_token (db_leases demo_leased) = [1]"
  by code_simp

definition demo_base :: cdb where
  "demo_base = empty_db\<lparr>db_revisions := [\<lparr>rv_id = ''rev'', rv_tenant_id = ''tenant'', rv_payload = JObj [], rv_payload_sha256 = ''sha''\<rparr>],
     db_automations := [\<lparr>au_id = ''auto'', au_tenant_id = ''tenant'', au_name = ''publish'', au_version = ''1'', au_artifact_sha256 = ''sha'',
       au_production_qualified = True\<rparr>]\<rparr>"

definition demo_plan_request :: plan_request where
  "demo_plan_request = \<lparr>pq_content_revision_id = ''rev'', pq_product_id = None, pq_platform = ''shop'',
     pq_targets = [[(''accountId'', JStr ''id-6''), (''deviceId'', JStr ''id-3'')]], pq_schedule = [], pq_execution = [],
     pq_approval_policy = ''BEFORE_START'', pq_automation_package_version_id = ''auto''\<rparr>"

definition demo_plan_calls :: "(env \<times> actor \<times> api_call) list" where
  "demo_plan_calls = map (\<lambda>c. (demo_env, demo_actor, c))
     [Create_Edge ''edge'' ''fingerprint'',
      Create_Device \<lparr>dq_edge_id = ''id-0'', dq_logical_name = ''phone'', dq_android_version = None,
        dq_lamda_version = None, dq_target_app_versions = JObj [], dq_capabilities = JObj [], dq_labels = []\<rparr>,
      Create_Platform_Account \<lparr>aq_platform = ''shop'', aq_external_subject_ref = ''subject'', aq_display_label = ''shop'',
        aq_secret_ref = ''vault://x'', aq_authorization_basis = ''contract'', aq_expires_at = None\<rparr>,
      Bind_Account_Device ''id-6'' ''id-3'' ''note'',
      Create_Plan ''key'' demo_plan_request, Submit_Plan ''id-11'']"

definition demo_commit_calls :: "(env \<times> actor \<times> api_call) list" where
  "demo_commit_calls = map (\<lambda>c. (demo_env, demo_actor, c))
     [Update_Target_State ''id-15'' SCHEDULED None, Update_Target_State ''id-15'' QUEUED None, Update_Target_State ''id-15'' RUNNING None,
      Acquire_Lease ''id-3'' ''workflow-1'' 60]"

definition demo_submitted :: cdb where
  "demo_submitted = run_calls demo_plan_calls demo_base"

definition demo_running :: cdb where
  "demo_running = run_calls demo_commit_calls demo_submitted"

definition demo_committed :: cdb where
  "demo_committed = run_calls [(demo_env, demo_actor, Create_Commit_Intent ''id-15'' 1 ''evidence'')] demo_running"

lemma demo_base_reachable: "api_steps empty_db demo_base"
proof -
  have "demo_base = empty_db\<lparr>db_products := [], db_revisions := db_revisions demo_base, db_automations := db_automations demo_base,
      db_schedules := [], db_mobile_tasks := [], db_im_messages := [], db_outbox := []\<rparr>"
    by (simp add: demo_base_def empty_db_def)
  then show ?thesis using api_step.elsewhere[of empty_db] by (metis r_into_rtranclp)
qed

lemma demo_plan_reachable:
  "api_steps empty_db demo_submitted" "api_steps demo_submitted demo_running" "api_steps empty_db demo_running"
  "api_steps demo_running demo_committed" "api_steps empty_db demo_committed"
proof -
  show s: "api_steps empty_db demo_submitted"
    unfolding demo_submitted_def by (rule rtranclp_trans[OF demo_base_reachable run_calls_steps])
  show r: "api_steps demo_submitted demo_running" unfolding demo_running_def by (rule run_calls_steps)
  show sr: "api_steps empty_db demo_running" by (rule rtranclp_trans[OF s r])
  show c: "api_steps demo_running demo_committed" unfolding demo_committed_def by (rule run_calls_steps)
  show "api_steps empty_db demo_committed" by (rule rtranclp_trans[OF sr c])
qed

definition demo_bob :: actor where
  "demo_bob = demo_actor\<lparr>actor_user_id := ''bob''\<rparr>"

definition demo_decided :: cdb where
  "demo_decided = run_calls [(demo_env, demo_bob, Decide_Approval ''id-11'' ''APPROVED'' None)] demo_committed"

definition demo_stolen :: cdb where
  "demo_stolen = run_calls [(later 100000000, demo_actor, Acquire_Lease ''id-3'' ''workflow-2'' 60)] demo_running"

definition demo_canceled :: cdb where
  "demo_canceled = run_calls [(demo_env, demo_actor, Cancel_Plan ''id-11'')] demo_committed"

text \<open>What the witnesses read from a database, evaluated once for each of the databases above.\<close>

definition shown :: "cdb \<Rightarrow> (string \<times> string \<times> string \<times> string option \<times> publish_state) list \<times> string list \<times> (string \<times> int \<times> string) list" where
  "shown db = (map (\<lambda>t. (tg_id t, tg_plan_id t, tg_tenant_id t, tg_device_id t, tg_state t)) (db_targets db), map in_target_id (db_intents db),
     map (\<lambda>l. (le_device_id l, le_fencing_token l, le_lease_id l)) (db_leases db))"

lemma demo_shown:
  "shown demo_running = ([(''id-15'', ''id-11'', ''tenant'', Some ''id-3'', RUNNING)], [], [(''id-3'', 1, ''id-24'')])"
  "shown demo_stolen = ([(''id-15'', ''id-11'', ''tenant'', Some ''id-3'', RUNNING)], [], [(''id-3'', 2, ''id-26'')])"
  "shown demo_committed = ([(''id-15'', ''id-11'', ''tenant'', Some ''id-3'', COMMITTING)], [''id-15''], [(''id-3'', 1, ''id-24'')])"
  "shown demo_canceled = ([(''id-15'', ''id-11'', ''tenant'', Some ''id-3'', COMMITTING)], [''id-15''], [(''id-3'', 1, ''id-24'')])"
  "shown demo_decided = ([(''id-15'', ''id-11'', ''tenant'', Some ''id-3'', SCHEDULED)], [''id-15''], [(''id-3'', 1, ''id-24'')])"
  by code_simp+

lemma shown_one:
  assumes "shown db = ([(i, p, u, d, st)], js, ls)"
  shows "hd (db_targets db) \<in> set (db_targets db)" "tg_id (hd (db_targets db)) = i" "tg_plan_id (hd (db_targets db)) = p"
    "tg_tenant_id (hd (db_targets db)) = u" "tg_device_id (hd (db_targets db)) = d" "tg_state (hd (db_targets db)) = st"
    "map in_target_id (db_intents db) = js" "map (\<lambda>l. (le_device_id l, le_fencing_token l, le_lease_id l)) (db_leases db) = ls"
  using assms by (cases "db_targets db"; auto simp: shown_def)+

lemma one_lease:
  assumes "map (\<lambda>l. (le_device_id l, le_fencing_token l, le_lease_id l)) (db_leases db) = [(d, t, i)]"
  shows "hd (db_leases db) \<in> set (db_leases db)" "le_device_id (hd (db_leases db)) = d" "le_fencing_token (hd (db_leases db)) = t"
    "le_lease_id (hd (db_leases db)) = i"
  using assms by (cases "db_leases db"; auto)+

lemma one_intent:
  assumes "map in_target_id (db_intents db) = [i]"
  shows "hd (db_intents db) \<in> set (db_intents db)" "in_target_id (hd (db_intents db)) = i"
  using assms by (cases "db_intents db"; auto)+

subsection \<open>Leases and commit intents\<close>

lemma lease_successor:
  assumes "api_steps empty_db db" and "l \<in> set (db_leases db)" and "api_steps db db1" and "m \<in> set (db_leases db1)"
    and "le_device_id m = le_device_id l"
  shows "lease_follows l m"
proof -
  have inv: "api_inv db" "api_inv db1" "api_follows db db1"
    using reachable_api[OF assms(1)] steps_api[OF assms(3)] by auto
  then obtain m' where m': "m' \<in> set (db_leases db1)" "lease_follows l m'"
    using assms(2) by (auto simp: api_follows_def leases_follow_def)
  have "m' = m"
    using inv(2) m' assms(4,5) by (intro lease_inv_unique[of db1]) (auto simp: api_inv_def lease_follows_def)
  with m' show ?thesis by simp
qed

text \<open>
  C3. A lease that is acquired after another lease of its device, by whatever calls in between, is either the
  same lease, still live and owned by the caller, or has a strictly greater fencing token; and it is only given
  when no other workflow holds a live lease of the device at that time.
\<close>

theorem fencing_tokens_increase:
  assumes "api_steps empty_db db" and "l \<in> set (db_leases db)" and "api_steps db db1"
    and "acquire_lease ev a (le_device_id l) w ttl db1 = Inr (l', db2)"
  shows "((le_lease_id l' = le_lease_id l \<and> le_fencing_token l' = le_fencing_token l \<and> le_owner_workflow_id l = w \<and> lease_live (ev_now ev) l') \<or>
         le_fencing_token l < le_fencing_token l') \<and>
    (\<forall>m \<in> set (db_leases db1). le_device_id m = le_device_id l \<and> lease_live (ev_now ev) m \<longrightarrow> le_owner_workflow_id m = w)"
proof -
  have inv1: "lease_inv db1"
    using reachable_api[OF rtranclp_trans[OF assms(1,3)]] by (simp add: api_inv_def)
  obtain m where m: "m \<in> set (db_leases db1)" "lease_follows l m"
    using steps_api[OF assms(3) reachable_api[OF assms(1)]] assms(2) by (auto simp: api_follows_def leases_follow_def)
  then have dm: "le_device_id m = le_device_id l" by (simp add: lease_follows_def)
  have both: "((le_lease_id l' = le_lease_id l \<and> le_fencing_token l' = le_fencing_token l \<and> le_owner_workflow_id l = w \<and> lease_live (ev_now ev) l') \<or>
         le_fencing_token l < le_fencing_token l') \<and> (lease_live (ev_now ev) m \<longrightarrow> le_owner_workflow_id m = w)"
    using assms(4)
  proof (cases rule: acquire_lease_Inr)
    case kept
    then have "l' = m" using lease_inv_unique[OF inv1] m(1) dm by auto
    then show ?thesis using m(2) kept by (auto simp: lease_follows_def)
  next
    case (fresh dev)
    have t: "le_tenant_id m = tenant_of a" "le_fencing_token m \<le> de_fencing_counter dev"
      using lease_inv_device[OF inv1 m(1) fresh(1)] fresh(2,3) dm by auto
    have "repo_lease_for_device a (le_device_id l) db1 = Some m" using repo_lease_eq[OF inv1 m(1) t(1)] dm by simp
    then show ?thesis using fresh(5,11) t(2) m(2) by (auto simp: lease_follows_def)
  qed
  then show ?thesis using lease_inv_unique[OF inv1 _ m(1)] dm by auto
qed

definition demo_lease :: lease_row where
  "demo_lease = hd (db_leases demo_leased)"

lemma demo_lease_facts:
  "demo_lease \<in> set (db_leases demo_leased)" "le_device_id demo_lease = ''id-3''" "le_fencing_token demo_lease = 1"
  "le_owner_workflow_id demo_lease = ''workflow-1''" "le_lease_id demo_lease = ''id-6''"
  by code_simp+

theorem fencing_tokens_increase_witness:
  "\<exists>l db. acquire_lease (later 100000000) demo_actor ''id-3'' ''workflow-2'' 60 demo_leased = Inr (l, db) \<and> 1 < le_fencing_token l"
proof -
  have "is_ok (acquire_lease (later 100000000) demo_actor ''id-3'' ''workflow-2'' 60 demo_leased)" by code_simp
  then obtain r where r: "acquire_lease (later 100000000) demo_actor ''id-3'' ''workflow-2'' 60 demo_leased = Inr r"
    by (auto simp: is_ok_iff)
  then have "acquire_lease (later 100000000) demo_actor (le_device_id demo_lease) ''workflow-2'' 60 demo_leased = Inr (fst r, snd r)"
    by (simp add: demo_lease_facts)
  from fencing_tokens_increase[OF demo_leased_reachable demo_lease_facts(1) rtranclp.rtrancl_refl this]
  have "1 < le_fencing_token (fst r)" by (simp add: demo_lease_facts)
  with r show ?thesis by (cases r) auto
qed

text \<open>
  C2. A workflow whose lease has been replaced can commit nothing more: once the device carries another lease,
  a commit intent with the token of the old one is refused for every target of the device that has none yet,
  whatever the clock says.
\<close>

theorem superseded_owner_cannot_commit:
  assumes "api_steps empty_db db" and "l \<in> set (db_leases db)" and "api_steps db db1"
    and "l' \<in> set (db_leases db1)" and "le_device_id l' = le_device_id l" and "le_lease_id l' \<noteq> le_lease_id l"
    and "t \<in> set (db_targets db1)" and "tg_device_id t = Some (le_device_id l)" and "\<forall>c \<in> set (db_intents db1). in_target_id c \<noteq> tg_id t"
  shows "\<exists>e. create_commit_intent ev a (tg_id t) (le_fencing_token l) evidence db1 = Inl e"
proof (cases "create_commit_intent ev a (tg_id t) (le_fencing_token l) evidence db1")
  case (Inr r)
  have inv: "lease_inv db1" "intent_inv db1"
    using reachable_api[OF rtranclp_trans[OF assms(1,3)]] by (simp_all add: api_inv_def)
  have "le_fencing_token l < le_fencing_token l'"
    using lease_successor[OF assms(1-5)] assms(6) by (auto simp: lease_follows_def)
  from Inr have "create_commit_intent ev a (tg_id t) (le_fencing_token l) evidence db1 = Inr (fst r, snd r)" by simp
  then have False
  proof (cases rule: create_commit_intent_Inr)
    case again
    then show ?thesis using assms(9) by auto
  next
    case (fresh u d m)
    have "u = t" using inv(2) fresh(1,2) assms(7) by (auto simp: intent_inv_def distinct_map dest: inj_onD)
    then have "m \<in> set (db_leases db1)" "le_device_id m = le_device_id l'"
      using repo_lease_SomeD[OF fresh(5)] fresh(4) assms(5,8) by auto
    then have "m = l'" using lease_inv_unique[OF inv(1) _ assms(4)] by simp
    then show ?thesis using fresh(7) \<open>le_fencing_token l < le_fencing_token l'\<close> by simp
  qed
  then show ?thesis ..
qed blast

theorem superseded_owner_cannot_commit_witness:
  "\<exists>e. create_commit_intent (later 100000000) demo_actor ''id-15'' 1 ''evidence'' demo_stolen = Inl e"
proof -
  note r = shown_one[OF demo_shown(1)] and q = shown_one[OF demo_shown(2)]
  note l = one_lease[OF r(8)] and m = one_lease[OF q(8)]
  have none: "db_intents demo_stolen = []" using q(7) by simp
  have "api_steps demo_running demo_stolen" unfolding demo_stolen_def by (rule run_calls_steps)
  from superseded_owner_cannot_commit[OF demo_plan_reachable(3) l(1) this m(1) _ _ q(1)] show ?thesis
    using l m q none by simp
qed

text \<open>
  C23. A commit intent is permanent and alone: after any further calls it is still there, unchanged, and it is the
  only one of its target.
\<close>

theorem commit_intent_permanent:
  assumes "api_steps empty_db db" and "c \<in> set (db_intents db)" and "api_steps db db1"
  shows "c \<in> set (db_intents db1) \<and> (\<forall>c' \<in> set (db_intents db1). in_target_id c' = in_target_id c \<longrightarrow> c' = c)"
proof -
  have "api_inv db1" "c \<in> set (db_intents db1)"
    using steps_api[OF assms(3) reachable_api[OF assms(1)]] assms(2) by (auto simp: api_follows_def intents_kept_def)
  then show ?thesis by (auto simp: api_inv_def intent_inv_def distinct_map dest: inj_onD)
qed

theorem commit_intent_permanent_witness:
  "hd (db_intents demo_committed) \<in> set (db_intents demo_canceled)"
proof -
  have "api_steps demo_committed demo_canceled" unfolding demo_canceled_def by (rule run_calls_steps)
  from commit_intent_permanent[OF demo_plan_reachable(5) one_intent(1)[OF shown_one(7)[OF demo_shown(3)]] this] show ?thesis ..
qed

lemma run_calls_committed:
  assumes "api_inv db" and "targets_committed db" and "\<forall>(ev, a, c) \<in> set cs. \<not> is_decision c"
  shows "targets_committed (run_calls cs db)"
  using assms
proof (induction cs db rule: run_calls.induct)
  case (2 ev a c cs db)
  let ?db = "snd (run_tx (perform ev a c) db)"
  have "api_inv ?db \<and> targets_committed ?db"
  proof (cases "perform ev a c db")
    case (Inr r)
    then have run: "perform ev a c db = Inr ((), snd r)" by (cases r) simp
    have "targets_committed (snd r)"
      using perform_targets[OF _ run] 2(2-4) by (simp add: api_inv_def)
    then show ?thesis using perform_api[OF 2(2) run] Inr by (cases r) simp
  qed (use 2 in simp)
  then show ?case using 2 by simp
qed simp



text \<open>
  C38. A decision on a plan overwrites the state of every target of the plan, whatever it is: also of a target
  that is already being committed, which an update of its state can bring about before the plan is decided.
\<close>

theorem decision_overwrites_targets:
  assumes "decide_approval ev a i decision reason db = Inr (q, db')" and "t \<in> set (db_targets db')"
    and "tg_plan_id t = i" and "tg_tenant_id t = tenant_of a"
  shows "tg_state t = (if decision = ''APPROVED'' then SCHEDULED else FAILED)"
  using assms(2)[unfolded decide_approval_Inr(6)[OF assms(1)]] by (rule in_upd_whereE) (use assms(3,4) in auto)

theorem decision_overwrites_targets_witness:
  "tg_state (hd (db_targets demo_committed)) = COMMITTING \<and> tg_state (hd (db_targets demo_decided)) = SCHEDULED \<and>
   in_target_id (hd (db_intents demo_decided)) = tg_id (hd (db_targets demo_decided))"
proof -
  note c = shown_one[OF demo_shown(3)] and d = shown_one[OF demo_shown(5)]
  have "demo_decided \<noteq> demo_committed" using c(6) d(6) by auto
  then obtain r where "perform demo_env demo_bob (Decide_Approval ''id-11'' ''APPROVED'' None) demo_committed = Inr r" "demo_decided = snd r"
    by (cases "perform demo_env demo_bob (Decide_Approval ''id-11'' ''APPROVED'' None) demo_committed") (auto simp: demo_decided_def)
  then obtain q where "decide_approval demo_env demo_bob ''id-11'' ''APPROVED'' None demo_committed = Inr (q, demo_decided)"
    by (cases r) auto
  from decision_overwrites_targets[OF this d(1)] show ?thesis
    using c(6) d one_intent(2)[OF d(7)] by (simp add: demo_bob_def demo_actor_def)
qed

end
