(* ===== verification/Plan_Props.thy ===== *)
theory Plan_Props
  imports Control_Props
begin

text \<open>
  Properties of plans, snapshots, bindings and tenants over the reachable databases of the Control API.
\<close>

subsection \<open>Plans\<close>


lemma demo_plan_shown:
  "map (\<lambda>p. (pl_id p, pl_state p, pl_approval_policy p)) (db_plans demo_decided) = [(''id-11'', SCHEDULED, ''BEFORE_START'')]"
  by code_simp

lemma demo_decided_reachable: "api_steps empty_db demo_decided"
  unfolding demo_decided_def by (rule rtranclp_trans[OF demo_plan_reachable(5) run_calls_steps])


lemma find_row_kept: "find_row P xs = Some r \<Longrightarrow> find_row P (xs @ ys) = Some r"
  by (simp add: find_row_append)

text \<open>
  Submission is idempotent and its snapshot is immutable: whatever calls follow a successful submission, the
  plan leaves exactly that snapshot, and a further submission that succeeds returns it and changes nothing.
\<close>

theorem snapshot_immutable:
  assumes "api_steps empty_db db" and "submit_plan ev a i db = Inr ((sn, ts), db1)" and "api_steps db1 db2"
  shows "repo_snapshot_for_plan a i db2 = Some sn \<and>
    (\<forall>ev' r db3. submit_plan ev' a i db2 = Inr (r, db3) \<longrightarrow> fst r = sn \<and> db3 = db2)"
proof -
  have "perform ev a (Submit_Plan i) db = Inr ((), db1)" using assms(2) by simp
  then have "api_step db db1" by (rule api_step.call)
  then have r1: "api_steps empty_db db1" using assms(1) by (meson rtranclp.rtrancl_into_rtrancl)
  have s1: "repo_snapshot_for_plan a i db1 = Some sn"
    using assms(2)
  proof (cases rule: submit_plan_Inr)
    case (submitted p)
    have p: "pl_id p = i" using find_row_SomeD[OF submitted(1)] by simp
    note f = freeze_plan_Inr[OF submitted(2)]
    have "find_row (\<lambda>r. sn_plan_id r = i \<and> sn_tenant_id r = tenant_of a) (db_snapshots db) = None"
      using f(12) p by (auto simp: find_row_None)
    then show ?thesis using f(8-10) p by (simp add: repo_snapshot_for_plan_def find_row_append)
  qed simp
  have "records_kept db1 db2" using steps_api[OF assms(3) reachable_api[OF r1]] by (simp add: api_follows_def)
  then have s2: "repo_snapshot_for_plan a i db2 = Some sn"
    using s1 by (auto simp: records_kept_def repo_snapshot_for_plan_def find_row_kept)
  have "fst r = sn \<and> db3 = db2" if run: "submit_plan ev' a i db2 = Inr (r, db3)" for ev' r db3
    using run
  proof (cases rule: submit_plan_Inr)
    case again
    then show ?thesis using s2 by simp
  next
    case (submitted p)
    then have "\<forall>s \<in> set (db_snapshots db2). sn_plan_id s \<noteq> i"
      using freeze_plan_Inr(12)[of ev' a p db2 "fst r" "snd r" db3] find_row_SomeD[OF submitted(1)] by simp
    then show ?thesis using s2 by (auto simp: repo_snapshot_for_plan_def dest: find_row_SomeD)
  qed
  with s2 show ?thesis by blast
qed

definition demo_draft :: cdb where
  "demo_draft = run_calls (take 5 demo_plan_calls) demo_base"

lemma demo_draft_reachable: "api_steps empty_db demo_draft"
  unfolding demo_draft_def by (rule rtranclp_trans[OF demo_base_reachable run_calls_steps])

theorem snapshot_immutable_witness:
  "\<exists>sn. sn_plan_id sn = ''id-11'' \<and> repo_snapshot_for_plan demo_actor ''id-11'' demo_decided = Some sn"
proof -
  have ok: "is_ok (submit_plan demo_env demo_actor ''id-11'' demo_draft)" by code_simp
  then obtain sn ts db1 where s: "submit_plan demo_env demo_actor ''id-11'' demo_draft = Inr ((sn, ts), db1)"
    by (auto simp: is_ok_iff)
  define cs where "cs = demo_commit_calls @ [(demo_env, demo_actor, Create_Commit_Intent ''id-15'' 1 ''evidence''),
      (demo_env, demo_bob, Decide_Approval ''id-11'' ''APPROVED'' None)]"
  have app: "run_calls (xs @ ys) db = run_calls ys (run_calls xs db)" for xs ys db
    by (induction xs db rule: run_calls.induct) simp_all
  have "demo_submitted = run_calls (take 5 demo_plan_calls @ [(demo_env, demo_actor, Submit_Plan ''id-11'')]) demo_base"
    by (simp add: demo_submitted_def demo_plan_calls_def)
  then have "demo_submitted = db1" using s by (simp add: app demo_draft_def)
  then have "demo_decided = run_calls cs db1"
    by (simp add: cs_def app demo_decided_def demo_committed_def demo_running_def)
  then have "repo_snapshot_for_plan demo_actor ''id-11'' demo_decided = Some sn"
    using conjunct1[OF snapshot_immutable[OF demo_draft_reachable s run_calls_steps[of db1 cs]]] by (rule ssubst)
  then show ?thesis by (auto simp: repo_snapshot_for_plan_def dest: find_row_SomeD)
qed

subsection \<open>Idempotency keys\<close>

definition key_part :: "cdb \<Rightarrow> (string \<times> string \<times> string \<times> string) list" where
  "key_part db = map (\<lambda>p. (pl_id p, pl_tenant_id p, pl_idempotency_key p, pl_request_sha256 p)) (db_plans db)"

definition keys_grow :: "cdb \<Rightarrow> cdb \<Rightarrow> bool" where
  "keys_grow db db' \<longleftrightarrow> (\<exists>x. key_part db' = key_part db @ x)"

lemma block_stale_keys [simp]: "key_part (block_stale_account_work ev t d is r db) = key_part db"
proof (cases "is = []")
  case False
  obtain ms where "block_stale_account_work ev t d is r db = db\<lparr>
     db_mobile_tasks := upd_where (stale_task t d is) (fail_stale_task ev r) (db_mobile_tasks db), db_im_messages := ms,
     db_plans := upd_where (stale_plan t d is) (cancel_stale_plan ev r) (db_plans db)\<rparr>"
    by (rule block_stale_shape[OF False])
  then show ?thesis by (simp add: key_part_def map_upd_where_key cancel_stale_plan_def)
qed simp

lemma fold_stale_keys [simp]: "key_part (fold (\<lambda>b. block_stale_account_work ev t (f b) is r) bs db) = key_part db"
  by (induction bs arbitrary: db) simp_all

lemma keys_insensitive [simp]:
  "key_part (s\<lparr>db_bindings := x1\<rparr>) = key_part s" "key_part (s\<lparr>db_schedules := x2\<rparr>) = key_part s"
  by (simp_all add: key_part_def)

lemma displace_keys: "leaves key_part (displace ev a d r)"
  unfolding leaves_def displace_def Let_def by (auto split: if_splits)

lemma submit_target_keys: "leaves key_part (submit_target ev a p sn st d)"
  unfolding submit_target_def Let_def
  by (intro keeps_intros; simp add: key_part_def)

lemma keeps_key_part:
  assumes "\<nexists>k q. c = Create_Plan k q"
  shows "leaves key_part (perform ev a c)"
proof (cases "\<exists>i d n. c = Bind_Account_Device i d n")
  case True
  then obtain i d n where c: "c = Bind_Account_Device i d n" by blast
  show ?thesis
    unfolding c perform.simps bind_account_device_def put_binding_def set_account_def done_with_def Let_def
    by (rule displace_keys keeps_intros | simp add: key_part_def; fail)+
next
  case False
  then show ?thesis using assms
    by (cases c; simp only: perform.simps keeps_unfold Let_def done_with_def;
        (intro keeps_intros submit_target_keys;
         simp add: key_part_def map_upd_where_key block_stale_keys[unfolded key_part_def] fold_stale_keys[unfolded key_part_def])?)
qed

lemma keys_grow_refl [simp]: "key_part db' = key_part db \<Longrightarrow> keys_grow db db'"
  by (simp add: keys_grow_def)

lemma step_keys: "api_step db db' \<Longrightarrow> keys_grow db db'"
proof (induction rule: api_step.induct)
  case (call ev a c db db')
  show ?case
  proof (cases "\<exists>k q. c = Create_Plan k q")
    case True
    then obtain k q p new where "create_plan ev a k q db = Inr ((p, new), db')" using call by auto
    from create_plan_Inr[OF this] show ?thesis by (auto simp: keys_grow_def key_part_def)
  next
    case False
    then show ?thesis using keepsD[OF keeps_key_part call] by auto
  qed
qed (simp add: key_part_def)

lemma steps_keys: "api_steps db db' \<Longrightarrow> keys_grow db db'"
proof (induction rule: rtranclp_induct)
  case (step db1 db2)
  then show ?case using step_keys[of db1 db2] by (auto simp: keys_grow_def)
qed simp

lemma find_row_map: "find_row Q (map g xs) = map_option g (find_row (\<lambda>x. Q (g x)) xs)"
  by (induction xs) auto

definition idem_key :: "plan_row \<Rightarrow> string \<times> string \<times> string \<times> string" where
  "idem_key p = (pl_id p, pl_tenant_id p, pl_idempotency_key p, pl_request_sha256 p)"

lemma by_idempotency_map:
  "map_option idem_key (repo_plan_by_idempotency a k db) = find_row (\<lambda>(i, t, k', h). t = tenant_of a \<and> k' = k) (key_part db)"
proof -
  have "key_part db = map idem_key (db_plans db)" by (simp add: key_part_def idem_key_def[abs_def])
  then show ?thesis by (simp add: repo_plan_by_idempotency_def find_row_map idem_key_def)
qed

lemma by_idempotency_kept:
  assumes "repo_plan_by_idempotency a k db = Some p" and "keys_grow db db'"
  shows "\<exists>p'. repo_plan_by_idempotency a k db' = Some p' \<and> idem_key p' = idem_key p"
proof -
  obtain x where x: "key_part db' = key_part db @ x" using assms(2) by (auto simp: keys_grow_def)
  have "map_option idem_key (repo_plan_by_idempotency a k db') = Some (idem_key p)"
    unfolding by_idempotency_map x
    by (rule find_row_kept) (simp only: assms(1) option.map flip: by_idempotency_map)
  then show ?thesis by simp
qed

lemma create_plan_guards:
  "create_plan ev a k q db = Inr (r, db') \<Longrightarrow> PUBLISH_CREATE \<in> effective_permissions (actor_roles a) \<and> k \<noteq> [] \<and> length k \<le> 128"
  by (auto simp: create_plan_def)

lemma require_run: "p \<in> effective_permissions (actor_roles a) \<Longrightarrow> require a p db = Inr ((), db)"
  by simp

text \<open>
  C29. Creating a plan is idempotent under its key: after a successful creation and whatever calls follow, the same
  actor creating under the same key gets the same plan back and changes nothing when the canonical hash of the
  request is the same, and a conflict otherwise.
\<close>

theorem create_plan_idempotent:
  assumes "create_plan ev a k q db = Inr ((p, new), db1)" and "api_steps db1 db2" and "ev_hash ev' = ev_hash ev"
  shows "\<exists>p'. pl_id p' = pl_id p \<and> p' \<in> set (db_plans db2) \<and> (\<forall>q'. create_plan ev' a k q' db2 =
    (if ev_hash ev (request_json q') = ev_hash ev (request_json q) then Inr ((p', False), db2)
     else Inl (Api (ConflictError ''Idempotency-Key was already used for a different request''))))"
proof -
  have p: "repo_plan_by_idempotency a k db1 = Some p" "pl_request_sha256 p = ev_hash ev (request_json q)"
    using create_plan_Inr[OF assms(1)] by (auto simp: repo_plan_by_idempotency_def find_row_append)
  obtain p' where p': "repo_plan_by_idempotency a k db2 = Some p'" "idem_key p' = idem_key p"
    using by_idempotency_kept[OF p(1) steps_keys[OF assms(2)]] by blast
  note g = create_plan_guards[OF assms(1)]
  have "create_plan ev' a k q' db2 =
    (if ev_hash ev (request_json q') = ev_hash ev (request_json q) then Inr ((p', False), db2)
     else Inl (Api (ConflictError ''Idempotency-Key was already used for a different request'')))" for q'
    using p' p(2) g assms(3)
    by (simp add: create_plan_def tx_run Let_def idem_key_def require_run[OF conjunct1[OF g]])
  moreover have "p' \<in> set (db_plans db2)" using p'(1) by (auto simp: repo_plan_by_idempotency_def dest: find_row_SomeD)
  ultimately show ?thesis using p'(2) by (auto simp: idem_key_def)
qed

theorem create_plan_idempotent_witness:
  "\<exists>p'. create_plan (later 5) demo_actor ''key'' demo_plan_request demo_decided = Inr ((p', False), demo_decided)"
proof -
  define db where "db = run_calls (take 4 demo_plan_calls) demo_base"
  have "is_ok (create_plan demo_env demo_actor ''key'' demo_plan_request db)" unfolding db_def by code_simp
  then obtain p new db1 where c: "create_plan demo_env demo_actor ''key'' demo_plan_request db = Inr ((p, new), db1)"
    by (auto simp: is_ok_iff)
  have app: "run_calls (xs @ ys) db = run_calls ys (run_calls xs db)" for xs ys db
    by (induction xs db rule: run_calls.induct) simp_all
  have "demo_draft = run_calls (take 4 demo_plan_calls @ [(demo_env, demo_actor, Create_Plan ''key'' demo_plan_request)]) demo_base"
    by (simp add: demo_draft_def demo_plan_calls_def)
  then have "demo_draft = db1" using c by (simp add: app db_def)
  moreover have "demo_submitted = run_calls (take 5 demo_plan_calls @ [(demo_env, demo_actor, Submit_Plan ''id-11'')]) demo_base"
    by (simp add: demo_submitted_def demo_plan_calls_def)
  then have "demo_submitted = run_calls [(demo_env, demo_actor, Submit_Plan ''id-11'')] demo_draft"
    by (simp only: app demo_draft_def)
  ultimately have "api_steps db1 demo_submitted" using run_calls_steps by metis
  then have "api_steps db1 demo_decided"
    using demo_plan_reachable(2,4) run_calls_steps unfolding demo_decided_def by (meson rtranclp_trans)
  from create_plan_idempotent[OF c this, of "later 5"] show ?thesis by (auto simp: later_def)
qed

end
