(* ===== verification/Tenant_Props.thy ===== *)
theory Tenant_Props
  imports Control_Props
begin

text \<open>
  Properties of account bindings and of the isolation of tenants over the reachable databases of the Control API.
\<close>

subsection \<open>Bindings\<close>

text \<open>
  C27. A device has at most one bound account per platform, in every reachable database, and binding an account
  never runs into the index of the table that enforces it: the displacement of the other accounts comes first.
\<close>

theorem one_account_per_platform:
  assumes "api_steps empty_db db" and "b \<in> set (db_bindings db)" and "c \<in> set (db_bindings db)"
    and "ab_status b = ''BOUND''" and "ab_status c = ''BOUND''" and "ab_device_id b = ab_device_id c"
    and "r \<in> set (db_accounts db)" and "ac_id r = ab_account_id b" and "s \<in> set (db_accounts db)" and "ac_id s = ab_account_id c"
    and "ac_platform r = ac_platform s"
  shows "b = c \<and> (\<forall>ev a i d note. bind_account_device ev a i d note db \<noteq> Inl IntegrityError)"
proof -
  have inv: "binding_inv db" using reachable_api[OF assms(1)] by (simp add: api_inv_def)
  then have u: "unique_list (db_bindings db)" by (simp add: binding_inv_rows)
  have "ab_platform b = ab_platform c"
    using binding_inv_account(2)[OF inv assms(2,7,8)] binding_inv_account(2)[OF inv assms(3,9,10)] assms(11) by simp
  then have "binding_key b = binding_key c" by (rule unique_listD[OF u assms(2-6)])
  moreover have "distinct (map binding_key (db_bindings db))" using u by (simp add: unique_list_def)
  ultimately have "b = c" using assms(2,3) by (intro distinct_map_eq[of binding_key "db_bindings db"])
  then show ?thesis using bind_no_integrity[OF inv] by (intro conjI allI) assumption+
qed

lemma demo_binding_shown:
  "map (\<lambda>b. (ab_account_id b, ab_device_id b, ab_status b, ab_binding_version b)) (db_bindings demo_submitted) = [(''id-6'', ''id-3'', ''BOUND'', 1)]"
  "map ac_id (db_accounts demo_submitted) = [''id-6'']"
  by code_simp+

theorem one_account_per_platform_witness:
  "bind_account_device demo_env demo_actor ''id-6'' ''id-3'' ''again'' demo_submitted \<noteq> Inl IntegrityError"
proof -
  obtain b where b: "b \<in> set (db_bindings demo_submitted)" "ab_status b = ''BOUND''" "ab_account_id b = ''id-6''"
    using demo_binding_shown(1) by (cases "db_bindings demo_submitted") auto
  obtain r where r: "r \<in> set (db_accounts demo_submitted)" "ac_id r = ''id-6''"
    using demo_binding_shown(2) by (cases "db_accounts demo_submitted") auto
  from one_account_per_platform[OF demo_plan_reachable(1) b(1) b(1) b(2) b(2) refl r(1) _ r(1)] b(3) r(2) show ?thesis by simp
qed

lemma binding_successor:
  assumes "api_steps empty_db db" and "b \<in> set (db_bindings db)" and "api_steps db db1" and "c \<in> set (db_bindings db1)"
    and "ab_account_id c = ab_account_id b" and "ab_device_id c = ab_device_id b"
  shows "binding_follows b c"
proof -
  have inv: "api_inv db1" "api_follows db db1" using steps_api[OF assms(3) reachable_api[OF assms(1)]] by auto
  then obtain c' where c': "c' \<in> set (db_bindings db1)" "binding_follows b c'"
    using assms(2) by (auto simp: api_follows_def lists_follow_def)
  have "distinct (map binding_key (db_bindings db1))"
    using inv(1) by (simp add: api_inv_def binding_inv_rows unique_list_def)
  then have "c' = c" using c' assms(4-6) distinct_map_eq[of binding_key _ c' c] by (auto simp: binding_follows_def binding_key_def)
  with c' show ?thesis by simp
qed

text \<open>
  C28. The version of a binding that a target freezes identifies one uninterrupted binding: if the account is bound
  to the device with the same version now as before, it was bound at every moment in between.
\<close>

theorem frozen_version_uninterrupted:
  assumes "api_steps empty_db db" and "b \<in> set (db_bindings db)"
    and "api_steps db db1" and "m \<in> set (db_bindings db1)" and "ab_account_id m = ab_account_id b" and "ab_device_id m = ab_device_id b"
    and "api_steps db1 db2" and "c \<in> set (db_bindings db2)" and "ab_account_id c = ab_account_id b" and "ab_device_id c = ab_device_id b"
    and "ab_binding_version c = ab_binding_version b" and "ab_status c = ''BOUND''"
  shows "ab_status m = ''BOUND'' \<and> ab_binding_version m = ab_binding_version b"
proof -
  have "binding_follows b m" by (rule binding_successor[OF assms(1-6)])
  moreover have "binding_follows m c"
    using binding_successor[OF rtranclp_trans[OF assms(1,3)] assms(4,7,8)] assms(5,6,9,10) by simp
  ultimately show ?thesis using assms(11,12) by (auto simp: binding_follows_def)
qed

theorem frozen_version_uninterrupted_witness:
  "ab_status (hd (db_bindings demo_submitted)) = ''BOUND''"
proof -
  define b where "b = hd (db_bindings demo_submitted)"
  have b: "b \<in> set (db_bindings demo_submitted)" "ab_status b = ''BOUND''"
    using demo_binding_shown(1) unfolding b_def by (cases "db_bindings demo_submitted"; auto)+
  from frozen_version_uninterrupted[OF demo_plan_reachable(1) b(1) rtranclp.rtrancl_refl b(1) refl refl rtranclp.rtrancl_refl b(1) refl refl refl b(2)]
  show ?thesis by (simp add: b_def)
qed

subsection \<open>Tenants\<close>


definition demo_other :: actor where
  "demo_other = demo_actor\<lparr>actor_tenant_id := ''other''\<rparr>"


text \<open>
  Queries answer from the actor's own tenant: a plan with its snapshot and targets, the devices, the accounts with
  their bindings, the ownership of an account, the audit trail and the event feed.
\<close>

theorem queries_within_tenant:
  "(get_plan a i db = Inr ((p, sn, ts), db1) \<longrightarrow>
      pl_tenant_id p = actor_tenant_id a \<and> (\<forall>x \<in> set_option sn. sn_tenant_id x = actor_tenant_id a \<and> sn_plan_id x = i) \<and>
      (\<forall>t \<in> set ts. tg_tenant_id t = actor_tenant_id a \<and> tg_plan_id t = i)) \<and>
   (list_devices a db = Inr (ds, db2) \<longrightarrow> sorted (map de_id ds) \<and> set ds = {d \<in> set (db_devices db). de_tenant_id d = actor_tenant_id a}) \<and>
   (list_platform_accounts a db = Inr (xs, db3) \<longrightarrow>
      map fst xs = sort_key ac_id (filter (\<lambda>r. ac_tenant_id r = actor_tenant_id a) (db_accounts db)) \<and>
      (\<forall>(r, bs) \<in> set xs. \<forall>b \<in> set bs. ab_tenant_id b = actor_tenant_id a \<and> ab_account_id b = ac_id r)) \<and>
   (get_account_ownership a j db = Inr (ow, db4) \<longrightarrow>
      ac_tenant_id (ow_account ow) = actor_tenant_id a \<and> (\<forall>b \<in> set (ow_bindings ow). ab_tenant_id b = actor_tenant_id a \<and> ab_account_id b = j) \<and>
      (\<forall>t \<in> set (ow_tasks ow). mt_tenant_id t = actor_tenant_id a) \<and> (\<forall>t \<in> set (ow_targets ow). tg_tenant_id t = actor_tenant_id a)) \<and>
   (audit_events a n db = Inr (au, db5) \<longrightarrow> length au \<le> n \<and> (\<forall>x \<in> set au. ad_tenant_id x = actor_tenant_id a)) \<and>
   (events a after n db = Inr (evs, db6) \<longrightarrow> length evs \<le> n \<and> (\<forall>x \<in> set evs. ob_tenant_id x = actor_tenant_id a \<and>
      (\<forall>i. after = Some i \<and> i \<noteq> [] \<longrightarrow> i < ob_id x)))"
  (is "?P \<and> ?D \<and> ?A \<and> ?O \<and> ?U \<and> ?E")
proof (intro conjI)
  show ?P by (auto simp: get_plan_def repo_snapshot_for_plan_def repo_targets_for_plan_def dest!: find_row_SomeD)
  show ?D by (auto simp: list_devices_def repo_devices_def)
  show ?A by (auto simp: list_platform_accounts_def Let_def comp_def)
  show ?O by (auto simp: get_account_ownership_def Let_def dest: find_accountD)
  show ?U by (auto simp: audit_events_def repo_audit_events_def dest!: in_set_takeD)
  show ?E by (auto simp: events_def repo_events_def dest!: in_set_takeD)
qed

theorem queries_within_tenant_witness:
  "\<exists>ds. list_devices demo_actor demo_submitted = Inr (ds, demo_submitted) \<and> sorted (map de_id ds) \<and>
     set ds = {d \<in> set (db_devices demo_submitted). de_tenant_id d = ''tenant''}"
proof -
  have "require demo_actor DEVICE_READ demo_submitted = Inr ((), demo_submitted)"
    by (simp add: demo_actor_def all_permissions_def)
  then have run: "list_devices demo_actor demo_submitted = Inr (repo_devices demo_actor demo_submitted, demo_submitted)"
    by (auto simp: list_devices_def)
  with queries_within_tenant[of demo_actor "[]" demo_submitted] show ?thesis
    by (auto simp: demo_actor_def)
qed

end
