(* ===== verification/Workflow.thy ===== *)
theory Workflow
  imports Prelude
begin

text \<open>
  Temporal workflows as programs: a workflow calls activities, reads and changes its own fields, waits for a
  condition on them, returns or fails with an \<open>ActivityError\<close>. The step relation runs a program against
  a backend: an activity is attempted up to the number of its retry policy, an attempt may fail before or
  after it took effect, signals set fields at any time, and the world changes between the steps. \<open>meets\<close>
  computes what has to be proved so that every call satisfies a precondition on the calls before it and every
  result a postcondition; it is sound for the step relation.
\<close>

subsection \<open>Programs\<close>

datatype ('act, 'ans, 'w, 'a) wf =
    Ret 'a
  | Fail
  | Call 'act "'ans option \<Rightarrow> ('act, 'ans, 'w, 'a) wf"
  | Look "'w \<Rightarrow> ('act, 'ans, 'w, 'a) wf"
  | Assign "'w \<Rightarrow> 'w" "('act, 'ans, 'w, 'a) wf"
  | Await "'w \<Rightarrow> bool" "('act, 'ans, 'w, 'a) wf"

text \<open>An answer \<open>None\<close> is the \<open>ActivityError\<close> after the last attempt. \<open>activity\<close> raises it.\<close>

definition activity :: "'act \<Rightarrow> ('ans \<Rightarrow> ('act, 'ans, 'w, 'a) wf) \<Rightarrow> ('act, 'ans, 'w, 'a) wf" where
  "activity a k = Call a (\<lambda>r. case r of None \<Rightarrow> Fail | Some x \<Rightarrow> k x)"

text \<open>\<open>try: m except ActivityError: h\<close>, and \<open>try: m finally: c\<close>.\<close>

primrec catch :: "('act, 'ans, 'w, 'a) wf \<Rightarrow> ('act, 'ans, 'w, 'a) wf \<Rightarrow> ('act, 'ans, 'w, 'a) wf" where
  "catch (Ret x) h = Ret x"
| "catch Fail h = h"
| "catch (Call a k) h = Call a (\<lambda>r. catch (k r) h)"
| "catch (Look k) h = Look (\<lambda>w. catch (k w) h)"
| "catch (Assign f m) h = Assign f (catch m h)"
| "catch (Await p m) h = Await p (catch m h)"

primrec andthen :: "('act, 'ans, 'w, unit) wf \<Rightarrow> ('act, 'ans, 'w, 'a) wf \<Rightarrow> ('act, 'ans, 'w, 'a) wf" where
  "andthen (Ret x) n = n"
| "andthen Fail n = Fail"
| "andthen (Call a k) n = Call a (\<lambda>r. andthen (k r) n)"
| "andthen (Look k) n = Look (\<lambda>w. andthen (k w) n)"
| "andthen (Assign f m) n = Assign f (andthen m n)"
| "andthen (Await p m) n = Await p (andthen m n)"

primrec finally_do :: "('act, 'ans, 'w, 'a) wf \<Rightarrow> ('act, 'ans, 'w, unit) wf \<Rightarrow> ('act, 'ans, 'w, 'a) wf" where
  "finally_do (Ret x) c = andthen c (Ret x)"
| "finally_do Fail c = andthen c Fail"
| "finally_do (Call a k) c = Call a (\<lambda>r. finally_do (k r) c)"
| "finally_do (Look k) c = Look (\<lambda>w. finally_do (k w) c)"
| "finally_do (Assign f m) c = Assign f (finally_do m c)"
| "finally_do (Await p m) c = Await p (finally_do m c)"

subsection \<open>Runs\<close>

text \<open>
  The attempts of an activity against the backend \<open>exec\<close>, which answers (\<open>None\<close>: it raises) and changes
  the world: an attempt fails when the backend raises, when the request or when the reply is lost.
\<close>

inductive attempts :: "('act \<Rightarrow> 's \<Rightarrow> 'ans option \<times> 's) \<Rightarrow> ('s \<Rightarrow> 's \<Rightarrow> bool) \<Rightarrow> nat \<Rightarrow> 'act \<Rightarrow> 's \<Rightarrow> 'ans option \<Rightarrow> 's \<Rightarrow> nat \<Rightarrow> bool"
  for exec env where
  success: "exec a s = (Some x, s') \<Longrightarrow> attempts exec env (Suc n) a s (Some x) s' 1"
| exhausted: "attempts exec env 0 a s None s 0"
| again: "s1 = s \<or> s1 = snd (exec a s) \<Longrightarrow> env\<^sup>*\<^sup>* s1 s2 \<Longrightarrow> attempts exec env n a s2 r s' j \<Longrightarrow>
    attempts exec env (Suc n) a s r s' (Suc j)"

type_synonym ('act, 'ans) call_log = "('act \<times> 'ans option) list"
type_synonym ('act, 'ans, 'w, 'a, 's) wf_config = "('act, 'ans, 'w, 'a) wf \<times> 'w \<times> 's \<times> ('act, 'ans) call_log"

text \<open>One step of the workflow itself; \<open>limit\<close> is the number of attempts of the retry policy.\<close>

inductive wf_step :: "('act \<Rightarrow> 's \<Rightarrow> 'ans option \<times> 's) \<Rightarrow> ('s \<Rightarrow> 's \<Rightarrow> bool) \<Rightarrow> ('act \<Rightarrow> nat) \<Rightarrow>
    ('act, 'ans, 'w, 'a, 's) wf_config \<Rightarrow> ('act, 'ans, 'w, 'a, 's) wf_config \<Rightarrow> bool"
  for exec env limit where
  call: "attempts exec env (limit a) a s r s' j \<Longrightarrow> wf_step exec env limit (Call a k, w, s, t) (k r, w, s', t @ [(a, r)])"
| look: "wf_step exec env limit (Look k, w, s, t) (k w, w, s, t)"
| assign: "wf_step exec env limit (Assign f m, w, s, t) (m, f w, s, t)"
| await: "p w \<Longrightarrow> wf_step exec env limit (Await p m, w, s, t) (m, w, s, t)"

text \<open>A step of the whole system: of the workflow, a signal, or a change of the world.\<close>

inductive run_step :: "('act \<Rightarrow> 's \<Rightarrow> 'ans option \<times> 's) \<Rightarrow> ('s \<Rightarrow> 's \<Rightarrow> bool) \<Rightarrow> ('act \<Rightarrow> nat) \<Rightarrow> ('w \<Rightarrow> 'w \<Rightarrow> bool) \<Rightarrow>
    ('act, 'ans, 'w, 'a, 's) wf_config \<Rightarrow> ('act, 'ans, 'w, 'a, 's) wf_config \<Rightarrow> bool"
  for exec env limit signal where
  own: "wf_step exec env limit c c' \<Longrightarrow> run_step exec env limit signal c c'"
| signal: "signal w w' \<Longrightarrow> run_step exec env limit signal (m, w, s, t) (m, w', s, t)"
| world: "env s s' \<Longrightarrow> run_step exec env limit signal (m, w, s, t) (m, w, s', t)"

inductive_cases wf_step_cases:
  "wf_step exec env limit (Ret x, w, s, t) c" "wf_step exec env limit (Fail, w, s, t) c"
  "wf_step exec env limit (Call a k, w, s, t) c" "wf_step exec env limit (Look k, w, s, t) c"
  "wf_step exec env limit (Assign f m, w, s, t) c" "wf_step exec env limit (Await p m, w, s, t) c"

lemma attempts_bound: "attempts exec env n a s r s' j \<Longrightarrow> j \<le> n"
  by (induction rule: attempts.induct) auto

text \<open>Every workflow terminates: the steps of a program, signals and the world aside, are well-founded.\<close>

lemma wf_step_terminates:
  "Wellfounded.accp (\<lambda>c' c. wf_step exec env limit c c') (m, w, s, t)"
proof (induction m arbitrary: w s t)
  case (Call a k)
  show ?case by (rule accp.intros) (auto elim!: wf_step_cases intro: Call)
next
  case (Look k)
  show ?case by (rule accp.intros) (auto elim!: wf_step_cases intro: Look)
next
  case (Assign f m)
  show ?case by (rule accp.intros) (auto elim!: wf_step_cases intro: Assign)
next
  case (Await p m)
  show ?case by (rule accp.intros) (auto elim!: wf_step_cases intro: Await)
qed (rule accp.intros, auto elim: wf_step_cases)+

text \<open>A program is stuck only when it has ended or waits for its condition.\<close>

lemma attempts_exist: "\<exists>r s' j. attempts exec env n a s r s' j"
proof (induction n arbitrary: s)
  case 0
  show ?case by (intro exI) (rule attempts.exhausted)
next
  case (Suc n)
  obtain r s' j where "attempts exec env n a s r s' j" using Suc by metis
  then have "attempts exec env (Suc n) a s r s' (Suc j)" by (intro attempts.again[of s]) simp_all
  then show ?case by (intro exI)
qed

lemma wf_step_progress:
  "(\<exists>x. m = Ret x) \<or> m = Fail \<or> (\<exists>p n. m = Await p n \<and> \<not> p w) \<or> (\<exists>c. wf_step exec env limit (m, w, s, t) c)"
proof (cases m)
  case (Call a k)
  obtain r s' j where "attempts exec env (limit a) a s r s' j"
    using attempts_exist[of exec env "limit a" a s] by metis
  then show ?thesis using Call wf_step.call[of exec env limit a s r s' j k w t] by blast
qed (metis wf_step.look wf_step.assign wf_step.await)+

text \<open>A run in which every first attempt counts: how far \<open>n\<close> steps of the workflow itself come.\<close>

fun drive :: "('act \<Rightarrow> 's \<Rightarrow> 'ans option \<times> 's) \<Rightarrow> nat \<Rightarrow> ('act, 'ans, 'w, 'a, 's) wf_config \<Rightarrow> ('act, 'ans, 'w, 'a, 's) wf_config" where
  "drive exec 0 c = c"
| "drive exec (Suc n) (Call a k, w, s, t) = (case exec a s of
     (Some x, s') \<Rightarrow> drive exec n (k (Some x), w, s', t @ [(a, Some x)])
   | (None, s') \<Rightarrow> (Call a k, w, s, t))"
| "drive exec (Suc n) (Look k, w, s, t) = drive exec n (k w, w, s, t)"
| "drive exec (Suc n) (Assign f m, w, s, t) = drive exec n (m, f w, s, t)"
| "drive exec (Suc n) (Await p m, w, s, t) = (if p w then drive exec n (m, w, s, t) else (Await p m, w, s, t))"
| "drive exec (Suc n) (m, w, s, t) = (m, w, s, t)"

lemma drive_run:
  assumes "\<And>a. limit a \<noteq> 0"
  shows "(run_step exec env limit sg)\<^sup>*\<^sup>* c (drive exec n c)"
proof (induction exec n c rule: drive.induct)
  case (2 exec n a k w s t)
  show ?case
  proof (cases "exec a s")
    case (Pair r s')
    show ?thesis
    proof (cases r)
      case (Some x)
      obtain l where "limit a = Suc l" using assms[of a] by (cases "limit a") auto
      then have "run_step exec env limit sg (Call a k, w, s, t) (k (Some x), w, s', t @ [(a, Some x)])"
        using Pair Some by (auto intro!: run_step.own wf_step.call attempts.success)
      then show ?thesis using 2 Pair Some by (auto intro: converse_rtranclp_into_rtranclp)
    qed (use Pair in simp)
  qed
next
  case (3 exec n k w s t)
  have "run_step exec env limit sg (Look k, w, s, t) (k w, w, s, t)" by (intro run_step.own wf_step.look)
  with 3 show ?case by (auto intro: converse_rtranclp_into_rtranclp)
next
  case (4 exec n f m w s t)
  have "run_step exec env limit sg (Assign f m, w, s, t) (m, f w, s, t)" by (intro run_step.own wf_step.assign)
  with 4 show ?case by (auto intro: converse_rtranclp_into_rtranclp)
next
  case (5 exec n p m w s t)
  have "p w \<Longrightarrow> run_step exec env limit sg (Await p m, w, s, t) (m, w, s, t)" by (intro run_step.own wf_step.await)
  with 5 show ?case by (auto intro: converse_rtranclp_into_rtranclp)
qed simp_all

subsection \<open>Proof obligations of a program\<close>

text \<open>
  \<open>sig\<close> relates the fields before and after any number of signals, \<open>fits\<close> an activity to its possible
  answers; \<open>C\<close> is the precondition of a call, \<open>Q\<close> the postcondition of a result.
\<close>

primrec meets :: "('act, 'ans, 'w, 'a) wf \<Rightarrow> ('w \<Rightarrow> 'w \<Rightarrow> bool) \<Rightarrow> ('act \<Rightarrow> 'ans \<Rightarrow> bool) \<Rightarrow> (('act, 'ans) call_log \<Rightarrow> 'w \<Rightarrow> 'act \<Rightarrow> bool) \<Rightarrow>
    (('act, 'ans) call_log \<Rightarrow> 'w \<Rightarrow> 'a option \<Rightarrow> bool) \<Rightarrow> 'w \<Rightarrow> ('act, 'ans) call_log \<Rightarrow> bool" where
  "meets (Ret x) sig fits C Q w t = (\<forall>w'. sig w w' \<longrightarrow> Q t w' (Some x))"
| "meets Fail sig fits C Q w t = (\<forall>w'. sig w w' \<longrightarrow> Q t w' None)"
| "meets (Call a k) sig fits C Q w t =
     (\<forall>w'. sig w w' \<longrightarrow> C t w' a \<and> (\<forall>r. (\<forall>x. r = Some x \<longrightarrow> fits a x) \<longrightarrow> meets (k r) sig fits C Q w' (t @ [(a, r)])))"
| "meets (Look k) sig fits C Q w t = (\<forall>w'. sig w w' \<longrightarrow> meets (k w') sig fits C Q w' t)"
| "meets (Assign f m) sig fits C Q w t = (\<forall>w'. sig w w' \<longrightarrow> meets m sig fits C Q (f w') t)"
| "meets (Await p m) sig fits C Q w t = (\<forall>w'. sig w w' \<and> p w' \<longrightarrow> meets m sig fits C Q w' t)"

definition preorder_on_vars :: "('w \<Rightarrow> 'w \<Rightarrow> bool) \<Rightarrow> bool" where
  "preorder_on_vars sig \<longleftrightarrow> (\<forall>u. sig u u) \<and> (\<forall>u v x. sig u v \<longrightarrow> sig v x \<longrightarrow> sig u x)"

lemma meets_signal:
  assumes "meets m sig fits C Q w t" "sig w w'" "preorder_on_vars sig"
  shows "meets m sig fits C Q w' t"
  using assms by (cases m) (simp_all add: preorder_on_vars_def; blast)+

text \<open>The rules of the three compositions, and the rule of an activity.\<close>

lemma meets_catch:
  assumes "meets m sig fits C (\<lambda>t w r. case r of None \<Rightarrow> meets h sig fits C Q w t | Some x \<Rightarrow> Q t w (Some x)) w t"
    and "preorder_on_vars sig"
  shows "meets (catch m h) sig fits C Q w t"
  using assms(1) by (induction m arbitrary: w t) (use assms(2) in \<open>auto simp: preorder_on_vars_def\<close>)

lemma meets_andthen:
  assumes "meets m sig fits C (\<lambda>t w r. case r of None \<Rightarrow> Q t w None | Some u \<Rightarrow> meets n sig fits C Q w t) w t"
    and "preorder_on_vars sig"
  shows "meets (andthen m n) sig fits C Q w t"
  using assms(1) by (induction m arbitrary: w t) (use assms(2) in \<open>auto simp: preorder_on_vars_def\<close>)

lemma meets_finally:
  assumes "meets m sig fits C (\<lambda>t w r. meets c sig fits C (\<lambda>t' w' u. Q t' w' (case u of None \<Rightarrow> None | Some _ \<Rightarrow> r)) w t) w t"
    and "preorder_on_vars sig"
  shows "meets (finally_do m c) sig fits C Q w t"
proof -
  have done_now: "meets (andthen c n) sig fits C Q w t"
    if "meets c sig fits C (\<lambda>t' w' u. Q t' w' (case u of None \<Rightarrow> None | Some _ \<Rightarrow> r)) w t"
      and "\<And>t w. (\<And>w'. sig w w' \<Longrightarrow> Q t w' r) \<Longrightarrow> meets n sig fits C Q w t" for n r w t
    using that(1) by (induction c arbitrary: w t) (use that(2) assms(2) in \<open>auto simp: preorder_on_vars_def\<close>)
  show ?thesis
    using assms(1)
    by (induction m arbitrary: w t) (use done_now assms(2) in \<open>auto simp: preorder_on_vars_def\<close>)
qed

lemma meets_activity [simp]:
  "meets (activity a k) sig fits C Q w t \<longleftrightarrow> (\<forall>w'. sig w w' \<longrightarrow> C t w' a \<and>
     meets Fail sig fits C Q w' (t @ [(a, None)]) \<and> (\<forall>x. fits a x \<longrightarrow> meets (k x) sig fits C Q w' (t @ [(a, Some x)])))"
  by (auto simp: activity_def split: option.split)

lemma meets_mono:
  "meets m sig fits C Q w t \<Longrightarrow> (\<And>t w r. Q t w r \<Longrightarrow> Q' t w r) \<Longrightarrow> meets m sig fits C Q' w t"
  by (induction m arbitrary: w t) auto

text \<open>What holds of a configuration: every call so far was allowed by the calls before it, and the rest will be.\<close>

definition calls_ok :: "(('act, 'ans) call_log \<Rightarrow> 'w \<Rightarrow> 'act \<Rightarrow> bool) \<Rightarrow> ('act, 'ans) call_log \<Rightarrow> bool" where
  "calls_ok C t = (\<forall>i < length t. \<exists>w. C (take i t) w (fst (t ! i)))"

lemma calls_ok_Nil [simp]: "calls_ok C []"
  by (simp add: calls_ok_def)

lemma calls_ok_snoc [simp]: "calls_ok C (t @ [(a, r)]) \<longleftrightarrow> calls_ok C t \<and> (\<exists>w. C t w a)"
  by (auto simp: calls_ok_def nth_append less_Suc_eq)

lemma attempts_answer:
  "attempts exec env n a s r s' j \<Longrightarrow> r = Some x \<Longrightarrow> \<exists>s0 s1. exec a s0 = (Some x, s1)"
  by (induction rule: attempts.induct) auto

lemma run_step_meets:
  assumes "run_step exec env limit sg (m, w, s, t) (m', w', s', t')"
    and "meets m sig fits C Q w t" "calls_ok C t"
    and sig: "preorder_on_vars sig" "\<And>u v. sg u v \<Longrightarrow> sig u v"
    and fits: "\<And>a x u v. exec a u = (Some x, v) \<Longrightarrow> fits a x"
  shows "meets m' sig fits C Q w' t' \<and> calls_ok C t'"
  using assms(1)
proof (cases rule: run_step.cases)
  case own
  have "sig w w" using sig(1) by (simp add: preorder_on_vars_def)
  with own show ?thesis using assms(2,3)
  proof (cases rule: wf_step.cases)
    case (call a r j k)
    have "fits a x" if "r = Some x" for x using attempts_answer[OF call(5) that] fits by blast
    then show ?thesis using assms(2,3) call \<open>sig w w\<close> by auto
  qed (use \<open>sig w w\<close> in \<open>simp_all\<close>)
next
  case signal
  then show ?thesis using meets_signal[OF assms(2) sig(2) sig(1)] assms(3) by simp
qed (use assms(2,3) in simp)

text \<open>
  Soundness: in every configuration a run reaches from the start of a program, the calls satisfy their
  precondition, and so does the call that is next; at the end the calls and the result satisfy the postcondition.
\<close>

lemma meets_sound:
  assumes "(run_step exec env limit sg)\<^sup>*\<^sup>* (m0, w0, s0, []) (m, w, s, t)"
    and "meets m0 sig fits C Q w0 []"
    and sig: "preorder_on_vars sig" "\<And>u v. sg u v \<Longrightarrow> sig u v"
    and fits: "\<And>a x u v. exec a u = (Some x, v) \<Longrightarrow> fits a x"
  shows "calls_ok C t \<and> (\<forall>a k. m = Call a k \<longrightarrow> C t w a) \<and> (\<forall>x. m = Ret x \<longrightarrow> Q t w (Some x)) \<and> (m = Fail \<longrightarrow> Q t w None)"
proof -
  have "meets m sig fits C Q w t \<and> calls_ok C t"
    using assms(1)
  proof (induction "(m, w, s, t)" arbitrary: m w s t rule: rtranclp_induct)
    case base
    then show ?case using assms(2) by simp
  next
    case (step c)
    obtain m1 w1 s1 t1 where c: "c = (m1, w1, s1, t1)" by (cases c)
    show ?case
      by (rule run_step_meets[OF step(2)[unfolded c]]) (use step(3)[OF c] sig fits in blast)+
  qed
  moreover have "sig w w" using sig(1) by (simp add: preorder_on_vars_def)
  ultimately show ?thesis by auto
qed

text \<open>Every wait of a program is for the same condition.\<close>

primrec waits_for :: "('w \<Rightarrow> bool) \<Rightarrow> ('act, 'ans, 'w, 'a) wf \<Rightarrow> bool" where
  "waits_for c (Ret x) = True"
| "waits_for c Fail = True"
| "waits_for c (Call a k) = (\<forall>r. waits_for c (k r))"
| "waits_for c (Look k) = (\<forall>w. waits_for c (k w))"
| "waits_for c (Assign f m) = waits_for c m"
| "waits_for c (Await p m) = (p = c \<and> waits_for c m)"

lemma run_step_waits:
  assumes "run_step exec env limit sg (m, w, s, t) (m', w', s', t')" and "waits_for c m"
  shows "waits_for c m'"
  using assms(1)
proof (cases rule: run_step.cases)
  case own
  then show ?thesis using assms(2) by (cases rule: wf_step.cases) auto
qed (use assms(2) in simp_all)

lemma run_waits:
  assumes "(run_step exec env limit sg)\<^sup>*\<^sup>* (m0, w0, s0, t0) (m, w, s, t)" and "waits_for c m0"
  shows "waits_for c m"
  using assms
proof (induction "(m, w, s, t)" arbitrary: m w s t rule: rtranclp_induct)
  case (step d)
  obtain m1 w1 s1 t1 where d: "d = (m1, w1, s1, t1)" by (cases d)
  show ?case by (rule run_step_waits[OF step(2)[unfolded d] step(3)[OF d step(4)]])
qed simp

subsection \<open>Effects that last\<close>

text \<open>
  The contract between a workflow and a backend: \<open>holds a x s\<close> says that in the state \<open>s\<close> the effect of the
  activity \<open>a\<close>, answered with \<open>x\<close>, is there. In the states that satisfy the invariant \<open>ok\<close> of the backend,
  an activity that answers establishes it, and neither an activity nor the rest of the world undoes it.
\<close>

locale lasting =
  fixes exec :: "'act \<Rightarrow> 's \<Rightarrow> 'ans option \<times> 's"
    and env :: "'s \<Rightarrow> 's \<Rightarrow> bool"
    and ok :: "'s \<Rightarrow> bool"
    and holds :: "'act \<Rightarrow> 'ans \<Rightarrow> 's \<Rightarrow> bool"
  assumes exec_ok: "ok s \<Longrightarrow> ok (snd (exec b s))"
    and env_ok: "ok s \<Longrightarrow> env s s' \<Longrightarrow> ok s'"
    and established: "ok s \<Longrightarrow> exec a s = (Some x, s') \<Longrightarrow> holds a x s'"
    and exec_preserves: "ok s \<Longrightarrow> holds a x s \<Longrightarrow> holds a x (snd (exec b s))"
    and env_preserves: "ok s \<Longrightarrow> env s s' \<Longrightarrow> holds a x s \<Longrightarrow> holds a x s'"
begin

lemma env_star: "env\<^sup>*\<^sup>* s s' \<Longrightarrow> ok s \<Longrightarrow> ok s' \<and> (holds a x s \<longrightarrow> holds a x s')"
  by (induction rule: rtranclp_induct) (auto intro: env_preserves env_ok)

lemma attempts_preserve:
  "attempts exec env n b s r s' j \<Longrightarrow> ok s \<Longrightarrow> ok s' \<and> (holds a x s \<longrightarrow> holds a x s') \<and> (\<forall>y. r = Some y \<longrightarrow> holds b y s')"
proof (induction rule: attempts.induct)
  case (success b s y s' n)
  then show ?case using exec_preserves[of s a x b] exec_ok[of s b] established[of s b y s'] by simp
next
  case (again s1 s b s2 n r s' j)
  then have "ok s1 \<and> (holds a x s \<longrightarrow> holds a x s1)" using exec_preserves[of s a x b] exec_ok[of s b] by auto
  then show ?case using again(2,4) env_star[of s1 s2] by blast
qed simp

lemma run_step_holds:
  assumes "run_step exec env limit sg (m, w, s, t) (m', w', s', t')" "ok s" "\<forall>(a, r) \<in> set t. \<forall>x. r = Some x \<longrightarrow> holds a x s"
  shows "ok s' \<and> (\<forall>(a, r) \<in> set t'. \<forall>x. r = Some x \<longrightarrow> holds a x s')"
  using assms(1)
proof (cases rule: run_step.cases)
  case own
  then show ?thesis
  proof (cases rule: wf_step.cases)
    case (call b r j k)
    then show ?thesis using attempts_preserve[OF call(5) assms(2)] assms(3) by fastforce
  qed (use assms in auto)
next
  case world
  then show ?thesis using assms env_preserves env_ok by fastforce
qed (use assms in simp)

text \<open>Whatever an activity answered in the course of a run is still so.\<close>

lemma run_holds:
  assumes "(run_step exec env limit sg)\<^sup>*\<^sup>* (m0, w0, s0, []) (m, w, s, t)" and "ok s0"
  shows "ok s \<and> (\<forall>(a, r) \<in> set t. \<forall>x. r = Some x \<longrightarrow> holds a x s)"
  using assms
proof (induction "(m, w, s, t)" arbitrary: m w s t rule: rtranclp_induct)
  case (step c)
  obtain m1 w1 s1 t1 where c: "c = (m1, w1, s1, t1)" by (cases c)
  show ?case
    by (rule run_step_holds[OF step(2)[unfolded c]]) (use step(3)[OF c step(4)] in blast)+
qed simp

end

subsection \<open>Effects that are counted\<close>

text \<open>
  The contract of a backend with a counter: only the activities \<open>counts\<close> raise it, by at most one, and they are
  not retried; then the calls bound the counter.
\<close>

locale counted =
  fixes exec :: "'act \<Rightarrow> 's \<Rightarrow> 'ans option \<times> 's"
    and env :: "'s \<Rightarrow> 's \<Rightarrow> bool"
    and limit :: "'act \<Rightarrow> nat"
    and counts :: "'act \<Rightarrow> bool"
    and counter :: "'s \<Rightarrow> nat"
  assumes counted_once: "counter (snd (exec a s)) \<le> counter s + (if counts a then 1 else 0)"
    and env_counter: "env s s' \<Longrightarrow> counter s' = counter s"
    and no_retry: "counts a \<Longrightarrow> limit a \<le> 1"
begin

lemma env_star_counter: "env\<^sup>*\<^sup>* s s' \<Longrightarrow> counter s' = counter s"
  by (induction rule: rtranclp_induct) (auto simp: env_counter)

lemma attempts_counter:
  "attempts exec env n a s r s' j \<Longrightarrow> counter s' \<le> counter s + (if counts a then j else 0)"
proof (induction rule: attempts.induct)
  case (success a s x s' n)
  then show ?case using counted_once[of a s] by auto
next
  case (again s1 s a s2 n r s' j)
  then show ?case using counted_once[of a s] env_star_counter[of s1 s2] by (auto split: if_splits)
qed simp

lemma run_step_counter:
  assumes "run_step exec env limit sg (m, w, s, t) (m', w', s', t')" "counter s \<le> c0 + length (filter (\<lambda>c. counts (fst c)) t)"
  shows "counter s' \<le> c0 + length (filter (\<lambda>c. counts (fst c)) t')"
  using assms(1)
proof (cases rule: run_step.cases)
  case own
  then show ?thesis
  proof (cases rule: wf_step.cases)
    case (call a r j k)
    have "counter s' \<le> counter s + (if counts a then j else 0)" "j \<le> limit a"
      using attempts_counter[OF call(5)] attempts_bound[OF call(5)] by auto
    then show ?thesis using call assms(2) no_retry[of a] by (auto split: if_splits)
  qed (use assms in auto)
qed (use assms env_counter in auto)

lemma run_counter:
  assumes "(run_step exec env limit sg)\<^sup>*\<^sup>* (m0, w0, s0, []) (m, w, s, t)"
  shows "counter s \<le> counter s0 + length (filter (\<lambda>c. counts (fst c)) t)"
  using assms
proof (induction "(m, w, s, t)" arbitrary: m w s t rule: rtranclp_induct)
  case (step c)
  obtain m1 w1 s1 t1 where c: "c = (m1, w1, s1, t1)" by (cases c)
  show ?case by (rule run_step_counter[OF step(2)[unfolded c] step(3)[OF c]])
qed simp

end

end
