(* ===== verification/Publish_Workflow.thy ===== *)
theory Publish_Workflow
  imports Workflow Control_Props
begin

text \<open>
  The Temporal worker (\<open>services/temporal-worker\<close>): the contracts of \<open>contracts.py\<close>, the workflows of a
  publish target and of a publish plan (\<open>workflows.py\<close>) as programs, and the two backends of \<open>backend.py\<close>:
  the one that persists through the Control API, whose edge executor is a parameter, and the stateful
  in-memory one.
\<close>

subsection \<open>Contracts\<close>

record publish_target_input =
  ti_tenant_id :: string
  ti_plan_id :: string
  ti_target_id :: string
  ti_snapshot_id :: string
  ti_device_id :: string
  ti_requires_human_confirmation :: bool

record wf_lease =
  wl_device_id :: string
  wl_lease_id :: string
  wl_owner_workflow_id :: string
  wl_fencing_token :: int
  wl_expires_at :: string

record wf_commit_intent =
  ci_id :: string
  ci_target_id :: string
  ci_fencing_token :: int
  ci_before_commit_evidence_id :: string

record reconcile_observation =
  ob_state :: string
  ob_detail :: "string option"
  ob_evidence_ids :: "string list"

record target_outcome =
  to_target_id :: string
  to_state :: publish_state
  to_detail :: "string option"
  to_evidence_ids :: "string list"

record publish_plan_input =
  pi_plan_id :: string
  pi_targets :: "publish_target_input list"
  pi_page_size :: nat

record publish_plan_outcome =
  po_plan_id :: string
  po_targets :: "target_outcome list"

subsection \<open>Activities\<close>

datatype activity =
    Validate_Snapshot publish_target_input
  | Acquire_Device_Lease publish_target_input string
  | Edge_Preflight publish_target_input wf_lease
  | Stage_Media publish_target_input wf_lease
  | Run_Prepare_Steps publish_target_input wf_lease
  | Write_Commit_Intent publish_target_input wf_lease string
  | Commit_Once publish_target_input wf_lease wf_commit_intent
  | Reconcile_Result publish_target_input wf_lease
  | Mark_Target_State publish_target_input publish_state "string option"
  | Cleanup publish_target_input "wf_lease option"
  | Release_Device_Lease publish_target_input wf_lease

datatype answer =
    Done
  | Leased (leased: wf_lease)
  | Evidence (evidence: string)
  | Intent (intent: wf_commit_intent)
  | Observed (observed: reconcile_observation)

text \<open>The types of the answers.\<close>

fun answers :: "activity \<Rightarrow> answer \<Rightarrow> bool" where
  "answers (Acquire_Device_Lease i w) x = (case x of Leased l \<Rightarrow> True | _ \<Rightarrow> False)"
| "answers (Run_Prepare_Steps i l) x = (case x of Evidence e \<Rightarrow> True | _ \<Rightarrow> False)"
| "answers (Write_Commit_Intent i l e) x = (case x of Intent c \<Rightarrow> True | _ \<Rightarrow> False)"
| "answers (Reconcile_Result i l) x = (case x of Observed ob \<Rightarrow> True | _ \<Rightarrow> False)"
| "answers a x = (x = Done)"

text \<open>The retry policies.\<close>

definition READ_RETRY :: nat where
  "READ_RETRY = 5"

definition IDEMPOTENT_WRITE_RETRY :: nat where
  "IDEMPOTENT_WRITE_RETRY = 8"

definition COMMIT_ONCE_RETRY :: nat where
  "COMMIT_ONCE_RETRY = 1"

fun attempts_of :: "activity \<Rightarrow> nat" where
  "attempts_of (Validate_Snapshot i) = READ_RETRY"
| "attempts_of (Edge_Preflight i l) = READ_RETRY"
| "attempts_of (Run_Prepare_Steps i l) = READ_RETRY"
| "attempts_of (Reconcile_Result i l) = READ_RETRY"
| "attempts_of (Commit_Once i l c) = COMMIT_ONCE_RETRY"
| "attempts_of (Acquire_Device_Lease i w) = IDEMPOTENT_WRITE_RETRY"
| "attempts_of (Stage_Media i l) = IDEMPOTENT_WRITE_RETRY"
| "attempts_of (Write_Commit_Intent i l e) = IDEMPOTENT_WRITE_RETRY"
| "attempts_of (Mark_Target_State i st d) = IDEMPOTENT_WRITE_RETRY"
| "attempts_of (Cleanup i l) = IDEMPOTENT_WRITE_RETRY"
| "attempts_of (Release_Device_Lease i l) = IDEMPOTENT_WRITE_RETRY"

subsection \<open>The workflow of a target\<close>

text \<open>The fields of the workflow object, and the local variables of \<open>run\<close> that its handlers read.\<close>

record target_vars =
  v_approved :: bool
  v_cancel_requested :: bool
  v_phase :: string
  v_lease :: "wf_lease option"
  v_commit_intent_written :: bool

definition init_vars :: target_vars where
  "init_vars = \<lparr>v_approved = False, v_cancel_requested = False, v_phase = ''CREATED'', v_lease = None,
     v_commit_intent_written = False\<rparr>"

inductive target_signal :: "target_vars \<Rightarrow> target_vars \<Rightarrow> bool" where
  approve_commit: "target_signal v (v\<lparr>v_approved := True\<rparr>)"
| request_cancel: "target_signal v (v\<lparr>v_cancel_requested := True\<rparr>)"

type_synonym 'a target_wf = "(activity, answer, target_vars, 'a) wf"

definition phase :: "string \<Rightarrow> 'a target_wf \<Rightarrow> 'a target_wf" where
  "phase p m = Assign (\<lambda>v. v\<lparr>v_phase := p\<rparr>) m"

definition mark :: "publish_target_input \<Rightarrow> publish_state \<Rightarrow> string option \<Rightarrow> 'a target_wf \<Rightarrow> 'a target_wf" where
  "mark i st detail m = activity (Mark_Target_State i st detail) (\<lambda>_. m)"

definition SAFE_POINT :: string where
  "SAFE_POINT = ''canceled at a pre-commit safe point''"

definition cancel_at_safe_point :: "publish_target_input \<Rightarrow> target_outcome target_wf" where
  "cancel_at_safe_point i =
     mark i CANCELED (Some SAFE_POINT)
     (phase ''CANCELED''
     (Ret \<lparr>to_target_id = ti_target_id i, to_state = CANCELED, to_detail = Some SAFE_POINT, to_evidence_ids = []\<rparr>))"

definition unless_canceled :: "publish_target_input \<Rightarrow> target_outcome target_wf \<Rightarrow> target_outcome target_wf" where
  "unless_canceled i m = Look (\<lambda>v. if v_cancel_requested v then cancel_at_safe_point i else m)"

definition UNCERTAIN :: string where
  "UNCERTAIN = ''commit transport result is uncertain; reconciling without retry''"

text \<open>\<open>observation.detail or commit_detail\<close>.\<close>

definition or_else :: "string option \<Rightarrow> string option \<Rightarrow> string option" where
  "or_else a b = (case a of Some x \<Rightarrow> if x = [] then b else a | None \<Rightarrow> b)"

definition observed_state :: "reconcile_observation \<Rightarrow> publish_state" where
  "observed_state ob = (if ob_state ob = ''SUCCEEDED'' then SUCCEEDED else if ob_state ob = ''FAILED'' then FAILED else UNKNOWN)"

definition reconcile_target :: "publish_target_input \<Rightarrow> wf_lease \<Rightarrow> string option \<Rightarrow> target_outcome target_wf" where
  "reconcile_target i l commit_detail =
     phase ''RECONCILING''
     (mark i RECONCILING commit_detail
     (activity (Reconcile_Result i l) (\<lambda>x.
        let observation = observed x; state = observed_state observation; detail = or_else (ob_detail observation) commit_detail in
        mark i state detail
        (phase (publish_state_name state)
        (Ret \<lparr>to_target_id = ti_target_id i, to_state = state, to_detail = detail, to_evidence_ids = ob_evidence_ids observation\<rparr>)))))"

text \<open>From the commit intent on; the \<open>try\<close> around \<open>commit_once\<close> is its own.\<close>

definition commit_target :: "publish_target_input \<Rightarrow> wf_lease \<Rightarrow> string \<Rightarrow> target_outcome target_wf" where
  "commit_target i l before_commit_evidence_id =
     phase ''WRITING_COMMIT_INTENT''
     (activity (Write_Commit_Intent i l before_commit_evidence_id) (\<lambda>x.
      Assign (\<lambda>v. v\<lparr>v_commit_intent_written := True\<rparr>)
     (phase ''COMMITTING''
     (Call (Commit_Once i l (intent x)) (\<lambda>r.
        reconcile_target i l (case r of None \<Rightarrow> Some UNCERTAIN | Some _ \<Rightarrow> None))))))"

definition confirmed_or_canceled :: "target_vars \<Rightarrow> bool" where
  "confirmed_or_canceled v \<longleftrightarrow> v_approved v \<or> v_cancel_requested v"

definition confirm_target :: "publish_target_input \<Rightarrow> target_outcome target_wf \<Rightarrow> target_outcome target_wf" where
  "confirm_target i m =
     (if ti_requires_human_confirmation i
      then phase ''WAITING_CONFIRMATION''
          (mark i WAITING_CONFIRMATION None
          (Await confirmed_or_canceled
          (unless_canceled i m)))
      else m)"

definition prepare_target :: "publish_target_input \<Rightarrow> wf_lease \<Rightarrow> target_outcome target_wf" where
  "prepare_target i l =
     phase ''PREFLIGHT''
     (activity (Edge_Preflight i l) (\<lambda>_.
      unless_canceled i
     (phase ''PREPARING''
     (activity (Stage_Media i l) (\<lambda>_.
      activity (Run_Prepare_Steps i l) (\<lambda>x.
      unless_canceled i
     (confirm_target i (commit_target i l (evidence x)))))))))"

text \<open>The body of the \<open>try\<close>, its \<open>except\<close> and its \<open>finally\<close>.\<close>

definition try_publish :: "publish_target_input \<Rightarrow> string \<Rightarrow> target_outcome target_wf" where
  "try_publish i workflow_id =
     phase ''VALIDATING''
     (activity (Validate_Snapshot i) (\<lambda>_.
      unless_canceled i
     (phase ''ACQUIRING_LEASE''
     (mark i QUEUED None
     (activity (Acquire_Device_Lease i workflow_id) (\<lambda>x.
      Assign (\<lambda>v. v\<lparr>v_lease := Some (leased x)\<rparr>)
     (mark i RUNNING None
     (prepare_target i (leased x)))))))))"

definition AFTER_INTENT :: string where
  "AFTER_INTENT = ''activity failed after commit intent; manual reconciliation required''"

definition BEFORE_COMMIT :: string where
  "BEFORE_COMMIT = ''activity failed before commit: ActivityError''"

definition on_activity_error :: "publish_target_input \<Rightarrow> target_outcome target_wf" where
  "on_activity_error i = Look (\<lambda>v.
     let state = (if v_commit_intent_written v then UNKNOWN else FAILED);
         detail = (if v_commit_intent_written v then AFTER_INTENT else BEFORE_COMMIT) in
     mark i state (Some detail)
     (phase (publish_state_name state)
     (Ret \<lparr>to_target_id = ti_target_id i, to_state = state, to_detail = Some detail, to_evidence_ids = []\<rparr>)))"

definition FINAL_PHASES :: "string list" where
  "FINAL_PHASES = [''SUCCEEDED'', ''FAILED'', ''UNKNOWN'', ''CANCELED'']"

definition clean_up :: "publish_target_input \<Rightarrow> unit target_wf" where
  "clean_up i =
     Assign (\<lambda>v. v\<lparr>v_phase := (if v_phase v \<notin> set FINAL_PHASES then ''CLEANUP'' else v_phase v)\<rparr>)
     (Look (\<lambda>v. activity (Cleanup i (v_lease v)) (\<lambda>_.
        case v_lease v of
          Some l \<Rightarrow> activity (Release_Device_Lease i l) (\<lambda>_. Ret ())
        | None \<Rightarrow> Ret ())))"

definition publish_target :: "publish_target_input \<Rightarrow> string \<Rightarrow> target_outcome target_wf" where
  "publish_target i workflow_id = finally_do (catch (try_publish i workflow_id) (on_activity_error i)) (clean_up i)"

lemmas target_defs = publish_target_def try_publish_def on_activity_error_def clean_up_def prepare_target_def confirm_target_def
  commit_target_def reconcile_target_def cancel_at_safe_point_def unless_canceled_def mark_def phase_def Let_def

subsection \<open>The workflow of a plan\<close>

text \<open>
  A child workflow is a call that answers with its outcome, or raises. \<open>index % page_size\<close> raises on a page size of
  zero, which fails the workflow task and is retried for ever; the \<open>sleep\<close> between pages is no step of its own.
\<close>

datatype plan_activity = Run_Target publish_target_input string

definition target_workflow_id :: "publish_target_input \<Rightarrow> string" where
  "target_workflow_id i = ''publish-target/'' @ ti_target_id i"

primrec plan_loop :: "nat \<Rightarrow> nat \<Rightarrow> publish_target_input list \<Rightarrow> target_outcome list \<Rightarrow>
    (plan_activity, target_outcome, unit, target_outcome list) wf" where
  "plan_loop page_size index [] results = Ret results"
| "plan_loop page_size index (i # targets) results =
     activity (Run_Target i (target_workflow_id i)) (\<lambda>x.
       if index \<noteq> 0 \<and> page_size = 0 then Await (\<lambda>_. False) Fail
       else plan_loop page_size (Suc index) targets (results @ [x]))"

definition publish_plan :: "publish_plan_input \<Rightarrow> (plan_activity, target_outcome, unit, target_outcome list) wf" where
  "publish_plan p = plan_loop (pi_page_size p) 0 (pi_targets p) []"

definition plan_outcome :: "publish_plan_input \<Rightarrow> target_outcome list \<Rightarrow> publish_plan_outcome" where
  "plan_outcome p results = \<lparr>po_plan_id = pi_plan_id p, po_targets = results\<rparr>"

subsection \<open>The contract of the workflow\<close>

text \<open>What signals leave unchanged.\<close>

definition same_locals :: "target_vars \<Rightarrow> target_vars \<Rightarrow> bool" where
  "same_locals v v' \<longleftrightarrow> v_lease v' = v_lease v \<and> v_commit_intent_written v' = v_commit_intent_written v \<and> v_phase v' = v_phase v \<and>
     (v_approved v \<longrightarrow> v_approved v') \<and> (v_cancel_requested v \<longrightarrow> v_cancel_requested v')"

lemma same_locals_preorder: "preorder_on_vars same_locals"
  by (simp add: preorder_on_vars_def same_locals_def)

lemma target_signal_locals: "target_signal v v' \<Longrightarrow> same_locals v v'"
  by (induction rule: target_signal.induct) (simp_all add: same_locals_def)

definition is_commit :: "activity \<Rightarrow> bool" where
  "is_commit a = (case a of Commit_Once i l c \<Rightarrow> True | _ \<Rightarrow> False)"

lemma is_commit_simps [simp]:
  "is_commit (Commit_Once i l c)" "\<not> is_commit (Validate_Snapshot i)" "\<not> is_commit (Acquire_Device_Lease i wid)"
  "\<not> is_commit (Edge_Preflight i l)" "\<not> is_commit (Stage_Media i l)" "\<not> is_commit (Run_Prepare_Steps i l)"
  "\<not> is_commit (Write_Commit_Intent i l e)" "\<not> is_commit (Reconcile_Result i l)" "\<not> is_commit (Mark_Target_State i st d)"
  "\<not> is_commit (Cleanup i ol)" "\<not> is_commit (Release_Device_Lease i l)"
  by (simp_all add: is_commit_def)

type_synonym target_log = "(activity, answer) call_log"

definition committed :: "target_log \<Rightarrow> bool" where
  "committed t = list_ex (\<lambda>c. is_commit (fst c)) t"

text \<open>The precondition of a call: the commit comes first and only once, under the intent and the lease that were answered.\<close>

definition may_call :: "publish_target_input \<Rightarrow> target_log \<Rightarrow> target_vars \<Rightarrow> activity \<Rightarrow> bool" where
  "may_call i t v a = (length t < 16 \<and> (case a of
     Commit_Once j l c \<Rightarrow> j = i \<and> \<not> committed t \<and> (ti_requires_human_confirmation i \<longrightarrow> v_approved v) \<and>
       (\<exists>e. (Write_Commit_Intent i l e, Some (Intent c)) \<in> set t) \<and>
       (\<exists>w. (Acquire_Device_Lease i w, Some (Leased l)) \<in> set t)
   | _ \<Rightarrow> True))"

text \<open>The outcome against the calls: its state was marked, and it is what was observed once the commit was called.\<close>

definition outcome_ok :: "publish_target_input \<Rightarrow> target_log \<Rightarrow> target_outcome \<Rightarrow> bool" where
  "outcome_ok i t x \<longleftrightarrow> to_target_id x = ti_target_id i \<and>
     (Mark_Target_State i (to_state x) (to_detail x), Some Done) \<in> set t \<and>
     (if committed t
      then to_state x = UNKNOWN \<or>
           (\<exists>l ob. (Reconcile_Result i l, Some (Observed ob)) \<in> set t \<and> to_state x = observed_state ob \<and> to_evidence_ids x = ob_evidence_ids ob)
      else to_state x \<in> {FAILED, CANCELED})"

text \<open>After the body of the \<open>try\<close>, after its handler, and at the end.\<close>

definition leases_known :: "publish_target_input \<Rightarrow> target_log \<Rightarrow> target_vars \<Rightarrow> bool" where
  "leases_known i t v \<longleftrightarrow> (\<forall>w l. (Acquire_Device_Lease i w, Some (Leased l)) \<in> set t \<longrightarrow> v_lease v = Some l)"

definition after_try :: "publish_target_input \<Rightarrow> target_log \<Rightarrow> target_vars \<Rightarrow> target_outcome option \<Rightarrow> bool" where
  "after_try i t v r \<longleftrightarrow> length t \<le> 13 \<and> leases_known i t v \<and>
     (case r of None \<Rightarrow> v_commit_intent_written v = committed t | Some x \<Rightarrow> outcome_ok i t x \<and> v_phase v = publish_state_name (to_state x))"

definition after_handler :: "publish_target_input \<Rightarrow> target_log \<Rightarrow> target_vars \<Rightarrow> target_outcome option \<Rightarrow> bool" where
  "after_handler i t v r \<longleftrightarrow> length t \<le> 14 \<and> leases_known i t v \<and>
     (case r of None \<Rightarrow> \<exists>st d. (Mark_Target_State i st d, None) \<in> set t | Some x \<Rightarrow> outcome_ok i t x \<and> v_phase v = publish_state_name (to_state x))"

definition released :: "publish_target_input \<Rightarrow> target_log \<Rightarrow> bool" where
  "released i t \<longleftrightarrow> (\<forall>w l. (Acquire_Device_Lease i w, Some (Leased l)) \<in> set t \<longrightarrow> last t = (Release_Device_Lease i l, Some Done))"

definition at_end :: "publish_target_input \<Rightarrow> target_log \<Rightarrow> target_vars \<Rightarrow> target_outcome option \<Rightarrow> bool" where
  "at_end i t v r \<longleftrightarrow> length t \<le> 16 \<and>
     (case r of None \<Rightarrow> (\<exists>st d. (Mark_Target_State i st d, None) \<in> set t) \<or>
        (\<exists>l. last t = (Cleanup i l, None)) \<or> (\<exists>l. last t = (Release_Device_Lease i l, None))
      | Some x \<Rightarrow> outcome_ok i t x \<and> v_phase v = publish_state_name (to_state x) \<and> released i t)"

lemma may_call_other [simp]: "\<not> is_commit a \<Longrightarrow> may_call i t v a \<longleftrightarrow> length t < 16"
  by (cases a) (simp_all add: may_call_def)

lemma committed_simps [simp]: "\<not> committed []" "committed (c # t) \<longleftrightarrow> is_commit (fst c) \<or> committed t"
  "committed (t @ u) \<longleftrightarrow> committed t \<or> committed u"
  by (simp_all add: committed_def)

lemma outcome_ok_snoc: "outcome_ok i t x \<Longrightarrow> \<not> is_commit (fst c) \<Longrightarrow> outcome_ok i (t @ [c]) x"
  unfolding outcome_ok_def by (auto split: if_splits)

lemma at_end_failed:
  "after_handler i t v r \<Longrightarrow> at_end i (t @ [(Cleanup i l, None)]) u None"
  "after_handler i t v r \<Longrightarrow> at_end i (t @ [(Cleanup i l, Some Done), (Release_Device_Lease i k, None)]) u None"
  by (simp_all add: after_handler_def at_end_def)

lemma at_end_returned:
  assumes "after_handler i t v r" and "v_phase u = v_phase v \<or> r = None" and "\<forall>l. v_lease v = Some l \<longrightarrow> cs = [(Release_Device_Lease i l, Some Done)]"
    and "v_lease v = None \<longrightarrow> cs = []"
  shows "at_end i (t @ (Cleanup i (v_lease v), Some Done) # cs) u r"
proof -
  have cs: "\<forall>c \<in> set cs. fst c \<noteq> Acquire_Device_Lease i w \<and> \<not> is_commit (fst c)" for w
    using assms(3,4) by (cases "v_lease v") auto
  have "released i (t @ (Cleanup i (v_lease v), Some Done) # cs)"
    using assms(1,3) cs unfolding released_def after_handler_def leases_known_def by fastforce
  moreover have "length cs \<le> 1" using assms(3,4) by (cases "v_lease v") auto
  moreover have "outcome_ok i (t @ (Cleanup i (v_lease v), Some Done) # cs) x" if "outcome_ok i t x" for x
    using outcome_ok_snoc[OF that, of "(Cleanup i (v_lease v), Some Done)"] assms(3,4)
      outcome_ok_snoc[of i "t @ [(Cleanup i (v_lease v), Some Done)]" x]
    by (cases "v_lease v") auto
  ultimately show ?thesis using assms(1,2) unfolding at_end_def after_handler_def by (auto split: option.splits)
qed

lemma final_phase: "after_handler i t v (Some x) \<Longrightarrow> v_phase v \<in> set FINAL_PHASES"
  by (auto simp: after_handler_def outcome_ok_def observed_state_def FINAL_PHASES_def split: if_splits)

lemma clean_up_meets:
  assumes "after_handler i t v r"
  shows "meets (clean_up i) same_locals answers (may_call i)
    (\<lambda>t' v' u. at_end i t' v' (case u of None \<Rightarrow> None | Some _ \<Rightarrow> r)) v t"
proof -
  note failed = at_end_failed[OF assms] and returned = at_end_returned[OF assms]
  have "v_phase v \<notin> set FINAL_PHASES \<Longrightarrow> r = None" using assms final_phase by (cases r) blast+
  moreover have "length t < 15" using assms by (simp add: after_handler_def)
  ultimately  show ?thesis
    by (cases "v_lease v")
      (use returned[of _ "[]"] returned[of _ "[(Release_Device_Lease i (the (v_lease v)), Some Done)]"] failed in
       \<open>simp_all add: clean_up_def same_locals_def\<close>)
qed

lemma handler_meets:
  assumes "after_try i t v r"
  shows "case r of None \<Rightarrow> meets (on_activity_error i) same_locals answers (may_call i) (after_handler i) v t
    | Some x \<Rightarrow> after_handler i t v (Some x)"
proof (cases r)
  case None
  have "outcome_ok i (t @ [(Mark_Target_State i st d, Some Done)]) \<lparr>to_target_id = ti_target_id i, to_state = st, to_detail = d, to_evidence_ids = []\<rparr>"
    if "st = (if committed t then UNKNOWN else FAILED)" for st d
    using that by (simp add: outcome_ok_def)
  then show ?thesis
    using None assms by (auto simp: on_activity_error_def mark_def phase_def same_locals_def after_try_def after_handler_def leases_known_def Let_def)
next
  case (Some x)
  then show ?thesis using assms by (simp add: after_try_def after_handler_def)
qed

text \<open>
  The body of the \<open>try\<close>, from its last part to its first. \<open>mid\<close> is what holds in the middle of it: the flag
  tells whether the commit was called, and the lease is known.
\<close>

definition mid :: "publish_target_input \<Rightarrow> bool \<Rightarrow> wf_lease option \<Rightarrow> target_vars \<Rightarrow> target_log \<Rightarrow> bool" where
  "mid i b ol v t \<longleftrightarrow> committed t = b \<and> v_commit_intent_written v = b \<and> v_lease v = ol \<and>
     (\<forall>w l. (Acquire_Device_Lease i w, Some (Leased l)) \<in> set t \<longrightarrow> ol = Some l) \<and>
     (\<forall>l. ol = Some l \<longrightarrow> (\<exists>w. (Acquire_Device_Lease i w, Some (Leased l)) \<in> set t))"

definition plain :: "activity \<Rightarrow> bool" where
  "plain a = (case a of Commit_Once i l c \<Rightarrow> False | Acquire_Device_Lease i w \<Rightarrow> False | _ \<Rightarrow> True)"

lemma plain_simps [simp]:
  "plain (Validate_Snapshot i)" "plain (Edge_Preflight i l)" "plain (Stage_Media i l)" "plain (Run_Prepare_Steps i l)"
  "plain (Write_Commit_Intent i l e)" "plain (Reconcile_Result i l)" "plain (Mark_Target_State i st d)"
  by (simp_all add: plain_def)

lemma mid_same: "mid i b ol v t \<Longrightarrow> same_locals v u \<Longrightarrow> mid i b ol u t"
  by (simp add: mid_def same_locals_def)

lemma mid_phase [simp]: "mid i b ol (v\<lparr>v_phase := p\<rparr>) t = mid i b ol v t"
  by (simp add: mid_def)

lemma mid_snoc: "mid i b ol v t \<Longrightarrow> plain a \<Longrightarrow> mid i b ol v (t @ [(a, r)])"
proof -
  assume m: "mid i b ol v t" and p: "plain a"
  then have "\<not> is_commit a" "\<forall>j w. Acquire_Device_Lease j w \<noteq> a" by (auto simp: plain_def is_commit_def split: activity.splits)
  with m show ?thesis by (simp add: mid_def)
qed

lemma mid_failed: "mid i b ol v t \<Longrightarrow> length t \<le> 13 \<Longrightarrow> after_try i t v None"
  by (auto simp: mid_def after_try_def leases_known_def)

lemma mid_returned:
  "mid i b ol v t \<Longrightarrow> length t \<le> 13 \<Longrightarrow> outcome_ok i t x \<Longrightarrow> v_phase v = publish_state_name (to_state x) \<Longrightarrow> after_try i t v (Some x)"
  by (auto simp: mid_def after_try_def leases_known_def)

abbreviation obliged :: "publish_target_input \<Rightarrow> target_outcome target_wf \<Rightarrow> target_vars \<Rightarrow> target_log \<Rightarrow> bool" where
  "obliged i m v t \<equiv> meets m same_locals answers (may_call i) (after_try i) v t"

lemma obliged_phase: "(\<And>u. same_locals v u \<Longrightarrow> obliged i m (u\<lparr>v_phase := p\<rparr>) t) \<Longrightarrow> obliged i (phase p m) v t"
  by (simp add: phase_def)

lemma obliged_activity:
  assumes "mid i b ol v t" "length t \<le> 12" "plain a"
    and "\<And>u x. same_locals v u \<Longrightarrow> answers a x \<Longrightarrow> mid i b ol u (t @ [(a, Some x)]) \<Longrightarrow> obliged i (k x) u (t @ [(a, Some x)])"
  shows "obliged i (activity a k) v t"
proof -
  have trans: "same_locals v u \<Longrightarrow> same_locals u u' \<Longrightarrow> same_locals v u'" for u u'
    using same_locals_preorder unfolding preorder_on_vars_def by blast
  have m: "mid i b ol u (t @ [(a, r)])" if "same_locals v u" for u r
    using mid_snoc[OF mid_same[OF assms(1) that] assms(3)] .
  have "after_try i (t @ [(a, None)]) u None" if "same_locals v u" for u
    using mid_failed[OF m[OF that]] assms(2) by simp
  moreover have "\<not> is_commit a" using assms(3) by (cases a) (simp_all add: plain_def)
  ultimately show ?thesis using assms(2,4) m trans by simp
qed

lemma obliged_mark:
  assumes "mid i b ol v t" "length t \<le> 12"
    and "\<And>u. same_locals v u \<Longrightarrow> mid i b ol u (t @ [(Mark_Target_State i st d, Some Done)]) \<Longrightarrow>
      obliged i m u (t @ [(Mark_Target_State i st d, Some Done)])"
  shows "obliged i (mark i st d m) v t"
  unfolding mark_def by (rule obliged_activity[OF assms(1,2)]) (use assms(3) in simp_all)

lemma obliged_ret:
  assumes "mid i b ol v t" "length t \<le> 13" "outcome_ok i t x" "v_phase v = publish_state_name (to_state x)"
  shows "obliged i (Ret x) v t"
  using assms(4) mid_returned[OF mid_same[OF assms(1)] assms(2,3)] by (simp add: same_locals_def)

lemma obliged_cancel:
  assumes "mid i False ol v t" "length t \<le> 12"
  shows "obliged i (cancel_at_safe_point i) v t"
  unfolding cancel_at_safe_point_def
proof (rule obliged_mark[OF assms], rule obliged_phase, rule obliged_ret)
  fix u u' assume m: "mid i False ol u (t @ [(Mark_Target_State i CANCELED (Some SAFE_POINT), Some Done)])" "same_locals u u'"
  show "mid i False ol (u'\<lparr>v_phase := ''CANCELED''\<rparr>) (t @ [(Mark_Target_State i CANCELED (Some SAFE_POINT), Some Done)])"
    using mid_same[OF m] by simp
  show "outcome_ok i (t @ [(Mark_Target_State i CANCELED (Some SAFE_POINT), Some Done)])
      \<lparr>to_target_id = ti_target_id i, to_state = CANCELED, to_detail = Some SAFE_POINT, to_evidence_ids = []\<rparr>"
    using assms(1) by (simp add: outcome_ok_def mid_def)
qed (use assms(2) in simp_all)

lemma obliged_unless_canceled:
  assumes "mid i False ol v t" "length t \<le> 12" and "\<And>u. same_locals v u \<Longrightarrow> mid i False ol u t \<Longrightarrow> obliged i m u t"
  shows "obliged i (unless_canceled i m) v t"
  using obliged_cancel[OF mid_same[OF assms(1)] assms(2)] assms(3) mid_same[OF assms(1)] by (simp add: unless_canceled_def)

lemma obliged_reconcile:
  assumes "mid i True ol v t" "length t \<le> 10"
  shows "obliged i (reconcile_target i l d) v t"
  unfolding reconcile_target_def Let_def
proof (rule obliged_phase)
  fix u assume "same_locals v u"
  with assms(1) have "mid i True ol (u\<lparr>v_phase := ''RECONCILING''\<rparr>) t" by (simp add: mid_same)
  then show "obliged i (mark i RECONCILING d (activity (Reconcile_Result i l) (\<lambda>x.
     mark i (observed_state (observed x)) (or_else (ob_detail (observed x)) d)
       (phase (publish_state_name (observed_state (observed x)))
       (Ret \<lparr>to_target_id = ti_target_id i, to_state = observed_state (observed x), to_detail = or_else (ob_detail (observed x)) d,
          to_evidence_ids = ob_evidence_ids (observed x)\<rparr>))))) (u\<lparr>v_phase := ''RECONCILING''\<rparr>) t"
  proof (rule obliged_mark)
    let ?t1 = "t @ [(Mark_Target_State i RECONCILING d, Some Done)]"
    fix u1 assume "mid i True ol u1 ?t1"
    then show "obliged i (activity (Reconcile_Result i l) (\<lambda>x.
       mark i (observed_state (observed x)) (or_else (ob_detail (observed x)) d)
         (phase (publish_state_name (observed_state (observed x)))
         (Ret \<lparr>to_target_id = ti_target_id i, to_state = observed_state (observed x), to_detail = or_else (ob_detail (observed x)) d,
            to_evidence_ids = ob_evidence_ids (observed x)\<rparr>)))) u1 ?t1"
    proof (rule obliged_activity)
      fix u2 x assume x: "answers (Reconcile_Result i l) x" and m: "mid i True ol u2 (?t1 @ [(Reconcile_Result i l, Some x)])"
      let ?st = "observed_state (observed x)" and ?d = "or_else (ob_detail (observed x)) d"
      let ?x = "\<lparr>to_target_id = ti_target_id i, to_state = ?st, to_detail = ?d, to_evidence_ids = ob_evidence_ids (observed x)\<rparr>"
      obtain ob where ob: "x = Observed ob" using x by (auto split: answer.splits)
      from m show "obliged i (mark i ?st ?d (phase (publish_state_name ?st) (Ret ?x))) u2 (?t1 @ [(Reconcile_Result i l, Some x)])"
      proof (rule obliged_mark)
        let ?t3 = "(?t1 @ [(Reconcile_Result i l, Some x)]) @ [(Mark_Target_State i ?st ?d, Some Done)]"
        fix u3 assume m3: "mid i True ol u3 ?t3"
        have ok: "outcome_ok i ?t3 ?x" using m3 ob by (auto simp: outcome_ok_def mid_def)
        show "obliged i (phase (publish_state_name ?st) (Ret ?x)) u3 ?t3"
          by (rule obliged_phase, rule obliged_ret[of _ True ol, OF _ _ ok]) (use m3 mid_same assms(2) in simp_all)
      qed (use assms(2) in simp)
    qed (use assms(2) in simp_all)
  qed (use assms(2) in simp)
qed

lemma obliged_commit:
  assumes "mid i False (Some l) v t" "length t \<le> 8" "ti_requires_human_confirmation i \<longrightarrow> v_approved v"
  shows "obliged i (commit_target i l e) v t"
  unfolding commit_target_def
proof (rule obliged_phase)
  let ?k = "\<lambda>x. Assign (\<lambda>v. v\<lparr>v_commit_intent_written := True\<rparr>)
     (phase ''COMMITTING'' (Call (Commit_Once i l (intent x)) (\<lambda>r. reconcile_target i l (case r of None \<Rightarrow> Some UNCERTAIN | Some _ \<Rightarrow> None))))"
  fix u assume u: "same_locals v u"
  with assms(1) have "mid i False (Some l) (u\<lparr>v_phase := ''WRITING_COMMIT_INTENT''\<rparr>) t" by (simp add: mid_same)
  then show "obliged i (activity (Write_Commit_Intent i l e) ?k) (u\<lparr>v_phase := ''WRITING_COMMIT_INTENT''\<rparr>) t"
  proof (rule obliged_activity)
    fix u' x assume u': "same_locals (u\<lparr>v_phase := ''WRITING_COMMIT_INTENT''\<rparr>) u'" and x: "answers (Write_Commit_Intent i l e) x"
      and m: "mid i False (Some l) u' (t @ [(Write_Commit_Intent i l e, Some x)])"
    let ?t = "t @ [(Write_Commit_Intent i l e, Some x)]"
    obtain c where c: "x = Intent c" using x by (auto split: answer.splits)
    have "\<not> committed ?t" "\<exists>w. (Acquire_Device_Lease i w, Some (Leased l)) \<in> set ?t" using m by (simp_all add: mid_def)
    then have C: "may_call i ?t z (Commit_Once i l (intent x))" if "v_approved u' \<longrightarrow> v_approved z" for z
      using u u' assms(2,3) that c unfolding may_call_def same_locals_def by auto
    have R: "obliged i (reconcile_target i l d) z (?t @ [(Commit_Once i l (intent x), r)])"
      if "v_lease z = v_lease u'" "v_commit_intent_written z" for z r d
      by (rule obliged_reconcile[of _ "Some l"]) (use m assms(2) that in \<open>auto simp: mid_def\<close>)
    show "obliged i (?k x) u' ?t" using C R by (auto simp: phase_def same_locals_def)
  qed (use assms(2) in simp_all)
qed

lemma obliged_confirm:
  assumes "mid i False ol v t" "length t \<le> 7"
    and "\<And>u t'. mid i False ol u t' \<Longrightarrow> length t' \<le> 8 \<Longrightarrow> (ti_requires_human_confirmation i \<longrightarrow> v_approved u) \<Longrightarrow> obliged i m u t'"
  shows "obliged i (confirm_target i m) v t"
proof (cases "ti_requires_human_confirmation i")
  case True
  let ?a = "Mark_Target_State i WAITING_CONFIRMATION None"
  let ?t = "t @ [(?a, Some Done)]"
  have look: "obliged i (unless_canceled i m) u ?t" if u: "mid i False ol u ?t" "confirmed_or_canceled u" for u
  proof -
    have "obliged i (if v_cancel_requested w then cancel_at_safe_point i else m) w ?t" if w: "same_locals u w" for w
    proof (cases "v_cancel_requested w")
      case False
      with u(2) w have "v_approved w" by (auto simp: confirmed_or_canceled_def same_locals_def)
      then show ?thesis using False assms(2,3) mid_same[OF u(1) w] by simp
    qed (use obliged_cancel[OF mid_same[OF u(1) w]] assms(2) in simp)
    then show ?thesis by (simp add: unless_canceled_def)
  qed
  have "obliged i (mark i WAITING_CONFIRMATION None (Await confirmed_or_canceled (unless_canceled i m))) (u\<lparr>v_phase := ''WAITING_CONFIRMATION''\<rparr>) t"
    if "same_locals v u" for u
  proof (rule obliged_mark)
    show "mid i False ol (u\<lparr>v_phase := ''WAITING_CONFIRMATION''\<rparr>) t" using mid_same[OF assms(1) that] by simp
    fix u1 assume "mid i False ol u1 ?t"
    then show "obliged i (Await confirmed_or_canceled (unless_canceled i m)) u1 ?t" using look mid_same by simp
  qed (use assms(2) in simp)
  then show ?thesis using True by (simp add: confirm_target_def obliged_phase)
next
  case False
  then show ?thesis using assms by (simp add: confirm_target_def)
qed

lemma obliged_prepare:
  assumes "mid i False (Some l) v t" "length t \<le> 4"
  shows "obliged i (prepare_target i l) v t"
proof -
  let ?run = "\<lambda>x. unless_canceled i (confirm_target i (commit_target i l (evidence x)))"
  let ?stage = "activity (Stage_Media i l) (\<lambda>_. activity (Run_Prepare_Steps i l) ?run)"
  have run: "obliged i (?run x) u t'" if "mid i False (Some l) u t'" "length t' \<le> 7" for x u t'
    by (rule obliged_unless_canceled[OF that(1)]) (use that in \<open>auto intro!: obliged_confirm obliged_commit\<close>)
  have steps: "obliged i (activity (Run_Prepare_Steps i l) ?run) u t'" if "mid i False (Some l) u t'" "length t' \<le> 6" for u t'
    by (rule obliged_activity[OF that(1)]) (use that run in simp_all)
  have stage: "obliged i ?stage u t'" if "mid i False (Some l) u t'" "length t' \<le> 5" for u t'
    by (rule obliged_activity[OF that(1)]) (use that steps in \<open>simp_all del: meets_activity\<close>)
  have pre: "obliged i (unless_canceled i (phase ''PREPARING'' ?stage)) u t'" if "mid i False (Some l) u t'" "length t' \<le> 5" for u t'
  proof (rule obliged_unless_canceled[OF that(1)])
    fix z assume m: "mid i False (Some l) z t'"
    show "obliged i (phase ''PREPARING'' ?stage) z t'"
      by (rule obliged_phase, rule stage) (use mid_same[OF m] that(2) in simp_all)
  qed (use that(2) in simp)
  show ?thesis
    unfolding prepare_target_def
    by (rule obliged_phase, rule obliged_activity[of i False "Some l"]) (use assms mid_same pre in simp_all)
qed

lemma obliged_try:
  "obliged i (try_publish i wid) init_vars []"
proof -
  let ?lease = "\<lambda>x. Assign (\<lambda>v. v\<lparr>v_lease := Some (leased x)\<rparr>) (mark i RUNNING None (prepare_target i (leased x)))"
  let ?acquire = "activity (Acquire_Device_Lease i wid) ?lease"
  have acquire: "obliged i ?acquire u t" if m: "mid i False None u t" and n: "length t \<le> 2" for u t
  proof -
    have "after_try i (t @ [(Acquire_Device_Lease i wid, None)]) z None" if "same_locals u z" for z
      using mid_same[OF m that] n by (auto simp: mid_def after_try_def leases_known_def)
    moreover have "obliged i (mark i RUNNING None (prepare_target i l)) (z\<lparr>v_lease := Some l\<rparr>) (t @ [(Acquire_Device_Lease i wid, Some (Leased l))])"
      if "same_locals u z" for z l
    proof (rule obliged_mark)
      show "mid i False (Some l) (z\<lparr>v_lease := Some l\<rparr>) (t @ [(Acquire_Device_Lease i wid, Some (Leased l))])"
        using mid_same[OF m that] by (auto simp: mid_def)
    qed (use n in \<open>auto intro: obliged_prepare\<close>)
    moreover have trans: "same_locals u z \<Longrightarrow> same_locals z z' \<Longrightarrow> same_locals u z'" for z z'
      using same_locals_preorder unfolding preorder_on_vars_def by blast
    ultimately show ?thesis using n by (auto split: answer.splits)
  qed
  have mark: "obliged i (phase ''ACQUIRING_LEASE'' (mark i QUEUED None ?acquire)) u t" if m: "mid i False None u t" and n: "length t \<le> 1" for u t
  proof (rule obliged_phase)
    fix z assume "same_locals u z"
    then have "mid i False None (z\<lparr>v_phase := ''ACQUIRING_LEASE''\<rparr>) t" using mid_same[OF m] by simp
    then show "obliged i (mark i QUEUED None ?acquire) (z\<lparr>v_phase := ''ACQUIRING_LEASE''\<rparr>) t"
      by (rule obliged_mark) (use n acquire in \<open>simp_all del: meets_activity\<close>)
  qed
  have queued: "obliged i (unless_canceled i (phase ''ACQUIRING_LEASE'' (mark i QUEUED None ?acquire))) u t"
    if "mid i False None u t" "length t \<le> 1" for u t
    by (rule obliged_unless_canceled[OF that(1)]) (use that mark in simp_all)
  have "mid i False None u []" if "same_locals init_vars u" for u
    using that by (simp add: mid_def init_vars_def same_locals_def)
  then show ?thesis
    unfolding try_publish_def by (intro obliged_phase obliged_activity[of i False None]) (simp_all add: queued)
qed

lemma publish_target_meets: "meets (publish_target i wid) same_locals answers (may_call i) (at_end i) init_vars []"
proof -
  have "meets (catch (try_publish i wid) (on_activity_error i)) same_locals answers (may_call i) (after_handler i) init_vars []"
    by (rule meets_catch[OF meets_mono[OF obliged_try] same_locals_preorder]) (rule handler_meets)
  then show ?thesis
    unfolding publish_target_def
    by (intro meets_finally[OF _ same_locals_preorder]) (rule meets_mono, assumption, rule clean_up_meets)
qed

lemma publish_target_waits: "waits_for confirmed_or_canceled (publish_target i wid)"
proof -
  have catch: "waits_for c m \<Longrightarrow> waits_for c h \<Longrightarrow> waits_for c (catch m h)" for c m and h :: "'a target_wf"
    by (induction m) auto
  have andthen: "waits_for c m \<Longrightarrow> waits_for c n \<Longrightarrow> waits_for c (andthen m n)" for c m and n :: "'a target_wf"
    by (induction m) auto
  have fin: "waits_for c m \<Longrightarrow> waits_for c f \<Longrightarrow> waits_for c (finally_do m f)" for c f and m :: "'a target_wf"
    by (induction m) (auto intro: andthen)
  have act: "waits_for c (activity a k) \<longleftrightarrow> (\<forall>x. waits_for c (k x))" for c a and k :: "answer \<Rightarrow> 'a target_wf"
    by (auto simp: activity_def split: option.splits)
  show ?thesis unfolding publish_target_def
    by (rule fin, rule catch)
      (simp_all add: act try_publish_def prepare_target_def confirm_target_def commit_target_def reconcile_target_def
        cancel_at_safe_point_def unless_canceled_def on_activity_error_def clean_up_def mark_def phase_def Let_def split: option.split)
qed

text \<open>The runs of the workflow of a target, and what is known at any time of one.\<close>

abbreviation target_run :: "(activity \<Rightarrow> 's \<Rightarrow> answer option \<times> 's) \<Rightarrow> ('s \<Rightarrow> 's \<Rightarrow> bool) \<Rightarrow> publish_target_input \<Rightarrow> string \<Rightarrow> 's \<Rightarrow>
    target_outcome target_wf \<Rightarrow> target_vars \<Rightarrow> 's \<Rightarrow> target_log \<Rightarrow> bool" where
  "target_run exec env i wid s0 m v s t \<equiv>
     (run_step exec env attempts_of target_signal)\<^sup>*\<^sup>* (publish_target i wid, init_vars, s0, []) (m, v, s, t)"

definition typed_backend :: "(activity \<Rightarrow> 's \<Rightarrow> answer option \<times> 's) \<Rightarrow> bool" where
  "typed_backend exec \<longleftrightarrow> (\<forall>a u x u'. exec a u = (Some x, u') \<longrightarrow> answers a x)"

lemma typed_backendD: "typed_backend exec \<Longrightarrow> exec a u = (Some x, u') \<Longrightarrow> answers a x"
  unfolding typed_backend_def by blast

lemma target_run_ok:
  assumes "target_run exec env i wid s0 m v s t" and "typed_backend exec"
  shows "calls_ok (may_call i) t" "m = Call a k \<Longrightarrow> may_call i t v a" "m = Ret x \<Longrightarrow> at_end i t v (Some x)"
    "m = Fail \<Longrightarrow> at_end i t v None"
proof -
  have "calls_ok (may_call i) t \<and> (\<forall>a k. m = Call a k \<longrightarrow> may_call i t v a) \<and> (\<forall>x. m = Ret x \<longrightarrow> at_end i t v (Some x)) \<and>
      (m = Fail \<longrightarrow> at_end i t v None)"
    by (rule meets_sound[OF assms(1) publish_target_meets same_locals_preorder target_signal_locals typed_backendD[OF assms(2)]])
  then show "calls_ok (may_call i) t" "m = Call a k \<Longrightarrow> may_call i t v a" "m = Ret x \<Longrightarrow> at_end i t v (Some x)"
    "m = Fail \<Longrightarrow> at_end i t v None"
    by blast+
qed

end
