(* ===== verification/Publish_Backends.thy ===== *)
theory Publish_Backends
  imports Publish_Workflow
begin

text \<open>
  The backends of \<open>backend.py\<close>. \<open>ControlPlaneBackend\<close> calls the Control API over HTTP, so that its
  activities are operations of the model of the API, and hands the work on the device to an edge executor,
  which is a parameter. \<open>InMemoryActivityBackend\<close> keeps its own state and counts the commits. The contracts
  \<open>lasting\<close> and \<open>counted\<close> of the workflow are discharged for them; then the properties of the publish workflow.
\<close>

subsection \<open>The backend on the Control API\<close>

text \<open>The injected \<open>EdgeExecutor\<close>: each operation succeeds or raises, and changes a state of its own.\<close>

record 'e edge_executor =
  ex_preflight :: "publish_target_input \<Rightarrow> wf_lease \<Rightarrow> 'e \<Rightarrow> bool \<times> 'e"
  ex_stage_media :: "publish_target_input \<Rightarrow> wf_lease \<Rightarrow> 'e \<Rightarrow> bool \<times> 'e"
  ex_prepare :: "publish_target_input \<Rightarrow> wf_lease \<Rightarrow> 'e \<Rightarrow> string option \<times> 'e"
  ex_commit_once :: "publish_target_input \<Rightarrow> wf_lease \<Rightarrow> wf_commit_intent \<Rightarrow> 'e \<Rightarrow> bool \<times> 'e"
  ex_reconcile :: "publish_target_input \<Rightarrow> wf_lease \<Rightarrow> 'e \<Rightarrow> reconcile_observation option \<times> 'e"
  ex_cleanup :: "publish_target_input \<Rightarrow> wf_lease option \<Rightarrow> 'e \<Rightarrow> bool \<times> 'e"

text \<open>The actor of the service headers, the rendering of times in JSON, and the executor.\<close>

record 'e control_plane =
  cp_actor :: actor
  cp_time :: "int \<Rightarrow> string"
  cp_edge :: "'e edge_executor"

text \<open>The world of the backend: the database, the clock and the other parameters of the API, the edge.\<close>

record 'e plane =
  pw_db :: cdb
  pw_env :: env
  pw_edge :: 'e

text \<open>A request and \<open>raise_for_status\<close>: an operation that raises rolls back and is answered with an error status.\<close>

definition request :: "(env \<Rightarrow> 'a op) \<Rightarrow> ('a \<Rightarrow> answer option) \<Rightarrow> 'e plane \<Rightarrow> answer option \<times> 'e plane" where
  "request f view s = (case f (pw_env s) (pw_db s) of
     Inl e \<Rightarrow> (None, s)
   | Inr (r, db) \<Rightarrow> (view r, s\<lparr>pw_db := db\<rparr>))"

definition on_edge :: "('e \<Rightarrow> 'a \<times> 'e) \<Rightarrow> ('a \<Rightarrow> answer option) \<Rightarrow> 'e plane \<Rightarrow> answer option \<times> 'e plane" where
  "on_edge f view s = (case f (pw_edge s) of (r, e) \<Rightarrow> (view r, s\<lparr>pw_edge := e\<rparr>))"

definition succeeded :: "bool \<Rightarrow> answer option" where
  "succeeded b = (if b then Some Done else None)"

definition snapshot_matches :: "publish_target_input \<Rightarrow> plan_row \<times> snapshot_row option \<times> target_row list \<Rightarrow> answer option" where
  "snapshot_matches i = (\<lambda>(plan, snapshot, targets). case snapshot of
     None \<Rightarrow> None
   | Some sn \<Rightarrow> succeeded (sn_id sn = ti_snapshot_id i))"

definition lease_view :: "(int \<Rightarrow> string) \<Rightarrow> lease_row \<Rightarrow> wf_lease" where
  "lease_view render l = \<lparr>wl_device_id = le_device_id l, wl_lease_id = le_lease_id l, wl_owner_workflow_id = le_owner_workflow_id l,
     wl_fencing_token = le_fencing_token l, wl_expires_at = render (le_expires_at l)\<rparr>"

definition intent_view :: "intent_row \<Rightarrow> wf_commit_intent" where
  "intent_view r = \<lparr>ci_id = in_id r, ci_target_id = in_target_id r, ci_fencing_token = in_fencing_token r,
     ci_before_commit_evidence_id = in_before_commit_evidence_id r\<rparr>"

fun control_plane_exec :: "'e control_plane \<Rightarrow> activity \<Rightarrow> 'e plane \<Rightarrow> answer option \<times> 'e plane" where
  "control_plane_exec cp (Validate_Snapshot i) = request (\<lambda>ev. get_plan (cp_actor cp) (ti_plan_id i)) (snapshot_matches i)"
| "control_plane_exec cp (Acquire_Device_Lease i w) =
     request (\<lambda>ev. acquire_lease ev (cp_actor cp) (ti_device_id i) w 60) (\<lambda>l. Some (Leased (lease_view (cp_time cp) l)))"
| "control_plane_exec cp (Edge_Preflight i l) = on_edge (ex_preflight (cp_edge cp) i l) succeeded"
| "control_plane_exec cp (Stage_Media i l) = on_edge (ex_stage_media (cp_edge cp) i l) succeeded"
| "control_plane_exec cp (Run_Prepare_Steps i l) = on_edge (ex_prepare (cp_edge cp) i l) (map_option Evidence)"
| "control_plane_exec cp (Write_Commit_Intent i l e) =
     request (\<lambda>ev. create_commit_intent ev (cp_actor cp) (ti_target_id i) (wl_fencing_token l) e) (\<lambda>r. Some (Intent (intent_view r)))"
| "control_plane_exec cp (Commit_Once i l c) = on_edge (ex_commit_once (cp_edge cp) i l c) succeeded"
| "control_plane_exec cp (Reconcile_Result i l) = on_edge (ex_reconcile (cp_edge cp) i l) (map_option Observed)"
| "control_plane_exec cp (Mark_Target_State i st d) =
     request (\<lambda>ev. update_target_state ev (cp_actor cp) (ti_target_id i) st d) (\<lambda>_. Some Done)"
| "control_plane_exec cp (Cleanup i ol) = on_edge (ex_cleanup (cp_edge cp) i ol) succeeded"
| "control_plane_exec cp (Release_Device_Lease i l) =
     request (\<lambda>ev. release_lease ev (cp_actor cp) (ti_device_id i) (wl_lease_id l)) (\<lambda>_. Some Done)"

text \<open>What else happens: calls of the API by anybody, work on the edge, and time.\<close>

inductive plane_world :: "'e plane \<Rightarrow> 'e plane \<Rightarrow> bool" where
  api: "api_step (pw_db s) db \<Longrightarrow> plane_world s (s\<lparr>pw_db := db\<rparr>)"
| edge: "plane_world s (s\<lparr>pw_edge := e\<rparr>)"
| clock: "plane_world s (s\<lparr>pw_env := ev\<rparr>)"

lemma control_plane_typed: "typed_backend (control_plane_exec cp)"
  unfolding typed_backend_def
  by (intro allI, case_tac a) (auto simp: request_def on_edge_def succeeded_def snapshot_matches_def split: sum.splits prod.splits option.splits if_splits)

lemma get_plan_db: "get_plan a i db = Inr (r, db') \<Longrightarrow> db' = db"
  by (auto simp: get_plan_def)

lemma request_db: "f (pw_env s) (pw_db s) = Inr (r, db) \<Longrightarrow> pw_db (snd (request f v s)) = db"
  "f (pw_env s) (pw_db s) = Inl e \<Longrightarrow> pw_db (snd (request f v s)) = pw_db s"
  by (simp_all add: request_def)

lemma on_edge_db [simp]: "pw_db (snd (on_edge f v s)) = pw_db s"
  by (simp add: on_edge_def split: prod.split)

text \<open>An activity is a step of the API, or leaves the database alone.\<close>

lemma control_plane_steps: "api_steps (pw_db s) (pw_db (snd (control_plane_exec cp a s)))"
proof -
  have req: "api_steps (pw_db s) (pw_db (snd (request f v s)))"
    if c: "\<And>r db. f (pw_env s) (pw_db s) = Inr (r, db) \<Longrightarrow> api_steps (pw_db s) db" for f :: "env \<Rightarrow> 'r op" and v
    using c by (cases "f (pw_env s) (pw_db s)") (auto simp: request_db)
  have call: "api_steps (pw_db s) db" if "perform ev b c (pw_db s) = Inr ((), db)" for ev b c db
    using api_step.call[OF that] by (rule r_into_rtranclp)
  show ?thesis
  proof (cases a)
    case (Validate_Snapshot i)
    show ?thesis unfolding Validate_Snapshot control_plane_exec.simps by (rule req) (auto dest: get_plan_db)
  next
    case (Acquire_Device_Lease i w)
    then show ?thesis using call[of _ _ "Acquire_Lease (ti_device_id i) w 60"] by (auto intro!: req)
  next
    case (Write_Commit_Intent i l e)
    then show ?thesis using call[of _ _ "Create_Commit_Intent (ti_target_id i) (wl_fencing_token l) e"] by (auto intro!: req)
  next
    case (Mark_Target_State i st d)
    then show ?thesis using call[of _ _ "Update_Target_State (ti_target_id i) st d"] by (auto intro!: req)
  next
    case (Release_Device_Lease i l)
    then show ?thesis using call[of _ _ "Release_Lease (ti_device_id i) (wl_lease_id l)"] by (auto intro!: req)
  qed simp_all
qed

text \<open>What an answered activity leaves behind: a commit intent is a row of the database, with its immutable input.\<close>

definition intent_stored :: "activity \<Rightarrow> answer \<Rightarrow> 'e plane \<Rightarrow> bool" where
  "intent_stored a x s = (case (a, x) of
     (Write_Commit_Intent i l e, Intent c) \<Rightarrow> \<exists>r \<in> set (db_intents (pw_db s)). intent_view r = c \<and>
        in_target_id r = ti_target_id i \<and> in_fencing_token r = wl_fencing_token l \<and> in_before_commit_evidence_id r = e
   | _ \<Rightarrow> True)"

definition plane_ok :: "'e plane \<Rightarrow> bool" where
  "plane_ok s = api_inv (pw_db s)"

lemma intent_stored_kept: "intent_stored a x s \<Longrightarrow> intents_kept (pw_db s) (pw_db s') \<Longrightarrow> intent_stored a x s'"
  by (auto simp: intent_stored_def intents_kept_def split: activity.splits answer.splits)

lemma plane_steps:
  assumes "plane_ok s" "api_steps (pw_db s) (pw_db s')"
  shows "plane_ok s' \<and> intents_kept (pw_db s) (pw_db s')"
  using steps_api[OF assms(2)] assms(1) by (simp add: plane_ok_def api_follows_def)

lemma plane_world_steps: "plane_world s s' \<Longrightarrow> api_steps (pw_db s) (pw_db s')"
  by (induction rule: plane_world.induct) auto

lemma intent_established:
  assumes "control_plane_exec cp a s = (Some x, s')"
  shows "intent_stored a x s'"
proof (cases a)
  case (Write_Commit_Intent i l e)
  then obtain r where r: "create_commit_intent (pw_env s) (cp_actor cp) (ti_target_id i) (wl_fencing_token l) e (pw_db s) = Inr (r, pw_db s')"
      and x: "x = Intent (intent_view r)"
    using assms by (auto simp: request_def split: sum.splits)
  have "r \<in> set (db_intents (pw_db s'))" "in_target_id r = ti_target_id i" "in_fencing_token r = wl_fencing_token l"
    "in_before_commit_evidence_id r = e"
    using r by (cases rule: create_commit_intent_Inr; simp)+
  then show ?thesis using Write_Commit_Intent x by (auto simp: intent_stored_def)
qed (simp_all add: intent_stored_def)

interpretation plane: lasting "control_plane_exec cp" plane_world plane_ok intent_stored for cp
proof unfold_locales
  fix s s' :: "'a plane" and a b x
  show "plane_ok s \<Longrightarrow> plane_ok (snd (control_plane_exec cp b s))" using plane_steps[OF _ control_plane_steps] by blast
  show "plane_ok s \<Longrightarrow> plane_world s s' \<Longrightarrow> plane_ok s'" using plane_steps[OF _ plane_world_steps] by blast
  show "plane_ok s \<Longrightarrow> control_plane_exec cp a s = (Some x, s') \<Longrightarrow> intent_stored a x s'" using intent_established by blast
  show "plane_ok s \<Longrightarrow> intent_stored a x s \<Longrightarrow> intent_stored a x (snd (control_plane_exec cp b s))"
    using plane_steps[OF _ control_plane_steps] intent_stored_kept by blast
  show "plane_ok s \<Longrightarrow> plane_world s s' \<Longrightarrow> intent_stored a x s \<Longrightarrow> intent_stored a x s'"
    using plane_steps[OF _ plane_world_steps] intent_stored_kept by blast
qed

subsection \<open>The in-memory backend\<close>

record memory =
  mm_reconciliation :: reconcile_observation
  mm_states :: "publish_state list"
  mm_commit_calls :: "string \<Rightarrow> nat"
  mm_released :: "string set"
  mm_next :: nat

definition init_memory :: "reconcile_observation \<Rightarrow> memory" where
  "init_memory ob = \<lparr>mm_reconciliation = ob, mm_states = [], mm_commit_calls = (\<lambda>_. 0), mm_released = {}, mm_next = 0\<rparr>"

definition valid_lease :: "publish_target_input \<Rightarrow> wf_lease \<Rightarrow> bool" where
  "valid_lease i l \<longleftrightarrow> wl_device_id l = ti_device_id i \<and> \<not> wl_fencing_token l < 1"

text \<open>\<open>uuid n\<close> is the \<open>n\<close>-th value of \<open>uuid4\<close>.\<close>

fun memory_exec :: "(nat \<Rightarrow> string) \<Rightarrow> activity \<Rightarrow> memory \<Rightarrow> answer option \<times> memory" where
  "memory_exec uuid (Validate_Snapshot i) s =
     (if ti_snapshot_id i = [] \<or> ti_target_id i = [] \<or> ti_device_id i = [] then (None, s) else (Some Done, s))"
| "memory_exec uuid (Acquire_Device_Lease i w) s =
     (Some (Leased \<lparr>wl_device_id = ti_device_id i, wl_lease_id = uuid (mm_next s), wl_owner_workflow_id = w, wl_fencing_token = 1,
        wl_expires_at = ''2099-01-01T00:00:00Z''\<rparr>), s\<lparr>mm_next := Suc (mm_next s)\<rparr>)"
| "memory_exec uuid (Edge_Preflight i l) s = (if valid_lease i l then Some Done else None, s)"
| "memory_exec uuid (Stage_Media i l) s = (if valid_lease i l then Some Done else None, s)"
| "memory_exec uuid (Run_Prepare_Steps i l) s =
     (if valid_lease i l then (Some (Evidence (uuid (mm_next s))), s\<lparr>mm_next := Suc (mm_next s)\<rparr>) else (None, s))"
| "memory_exec uuid (Write_Commit_Intent i l e) s =
     (if valid_lease i l
      then (Some (Intent \<lparr>ci_id = uuid (mm_next s), ci_target_id = ti_target_id i, ci_fencing_token = wl_fencing_token l,
              ci_before_commit_evidence_id = e\<rparr>), s\<lparr>mm_next := Suc (mm_next s)\<rparr>)
      else (None, s))"
| "memory_exec uuid (Commit_Once i l c) s =
     (if \<not> valid_lease i l then (None, s)
      else if ci_fencing_token c \<noteq> wl_fencing_token l then (None, s)
      else
        let calls = mm_commit_calls s (ti_target_id i) + 1 in
        (if calls > 1 then None else Some Done, s\<lparr>mm_commit_calls := (mm_commit_calls s)(ti_target_id i := calls)\<rparr>))"
| "memory_exec uuid (Reconcile_Result i l) s = (if valid_lease i l then Some (Observed (mm_reconciliation s)) else None, s)"
| "memory_exec uuid (Mark_Target_State i st d) s = (Some Done, s\<lparr>mm_states := mm_states s @ [st]\<rparr>)"
| "memory_exec uuid (Cleanup i ol) s = (Some Done, s)"
| "memory_exec uuid (Release_Device_Lease i l) s = (Some Done, s\<lparr>mm_released := insert (wl_lease_id l) (mm_released s)\<rparr>)"

lemma memory_typed: "typed_backend (memory_exec uuid)"
  unfolding typed_backend_def
  by (intro allI, case_tac a) (auto simp: Let_def split: if_splits)

text \<open>The rest of the world: the workflows of other targets, which do not commit this one.\<close>

definition other_targets :: "string \<Rightarrow> memory \<Rightarrow> memory \<Rightarrow> bool" where
  "other_targets target s s' \<longleftrightarrow> mm_commit_calls s' target = mm_commit_calls s target"

definition commits_target :: "string \<Rightarrow> activity \<Rightarrow> bool" where
  "commits_target target a = (case a of Commit_Once i l c \<Rightarrow> ti_target_id i = target | _ \<Rightarrow> False)"

interpretation memory: counted "memory_exec uuid" "other_targets target" attempts_of "commits_target target"
  "\<lambda>s. mm_commit_calls s target" for uuid target
proof unfold_locales
  fix a s s'
  show "mm_commit_calls (snd (memory_exec uuid a s)) target \<le> mm_commit_calls s target + (if commits_target target a then 1 else 0)"
    by (cases a) (auto simp: commits_target_def Let_def)
  show "other_targets target s s' \<Longrightarrow> mm_commit_calls s' target = mm_commit_calls s target" by (simp add: other_targets_def)
  show "commits_target target a \<Longrightarrow> attempts_of a \<le> 1"
    by (cases a) (simp_all add: commits_target_def COMMIT_ONCE_RETRY_def)
qed

text \<open>A workflow calls the commit at most once.\<close>

lemma calls_ok_commits:
  assumes "calls_ok (may_call i) t"
  shows "length (filter (\<lambda>c. is_commit (fst c)) t) \<le> 1"
  using assms
proof (induction t rule: rev_induct)
  case (snoc c t)
  have none: "filter (\<lambda>c. is_commit (fst c)) t = []" if "\<not> committed t"
    using that by (auto simp: committed_def list_ex_iff filter_empty_conv)
  obtain a r where c: "c = (a, r)" by (cases c)
  with snoc show ?case using none by (cases a) (auto simp: may_call_def)
qed simp

lemma calls_ok_length: "calls_ok (may_call i) t \<Longrightarrow> length t \<le> 16"
  by (cases t rule: rev_cases) (auto simp: may_call_def)

end
