(* ===== verification/Publish_Props.thy ===== *)
theory Publish_Props
  imports Publish_Backends
begin

text \<open>
  The properties of the publish workflow on its backends: the commit is called once and under a stored intent,
  every run ends, the outcome agrees with the calls, the lease is released, and where the handler of the
  workflow and the state machine of the Control API disagree. Then the workflow of a plan.
\<close>

subsection \<open>Concrete runs\<close>

definition demo_input :: "bool \<Rightarrow> publish_target_input" where
  "demo_input confirm = \<lparr>ti_tenant_id = ''tenant'', ti_plan_id = ''id-11'', ti_target_id = ''id-15'', ti_snapshot_id = ''id-14'',
     ti_device_id = ''id-3'', ti_requires_human_confirmation = confirm\<rparr>"

definition demo_observation :: reconcile_observation where
  "demo_observation = \<lparr>ob_state = ''SUCCEEDED'', ob_detail = None, ob_evidence_ids = [''after'']\<rparr>"

definition demo_memory_run :: "nat \<Rightarrow> (activity, answer, target_vars, target_outcome, memory) wf_config" where
  "demo_memory_run n = drive (memory_exec dec_nat) n (publish_target (demo_input False) ''workflow-1'', init_vars, init_memory demo_observation, [])"

definition demo_executor :: "unit edge_executor" where
  "demo_executor = \<lparr>ex_preflight = (\<lambda>i l e. (True, e)), ex_stage_media = (\<lambda>i l e. (True, e)), ex_prepare = (\<lambda>i l e. (Some ''before'', e)),
     ex_commit_once = (\<lambda>i l c e. (True, e)), ex_reconcile = (\<lambda>i l e. (Some demo_observation, e)), ex_cleanup = (\<lambda>i ol e. (True, e))\<rparr>"

definition demo_plane :: "unit control_plane" where
  "demo_plane = \<lparr>cp_actor = demo_actor, cp_time = (\<lambda>_. ''2026-01-01T00:00:00Z''), cp_edge = demo_executor\<rparr>"

definition demo_approved :: cdb where
  "demo_approved = run_calls [(demo_env, demo_bob, Decide_Approval ''id-11'' ''APPROVED'' None)] demo_submitted"

definition demo_plane_run :: "nat \<Rightarrow> (activity, answer, target_vars, target_outcome, unit plane) wf_config" where
  "demo_plane_run n = drive (control_plane_exec demo_plane) n (publish_target (demo_input False) ''workflow-1'', init_vars,
     \<lparr>pw_db = demo_approved, pw_env = demo_env, pw_edge = ()\<rparr>, [])"

lemma attempts_of_positive: "attempts_of a \<noteq> 0"
  by (cases a) (simp_all add: READ_RETRY_def IDEMPOTENT_WRITE_RETRY_def COMMIT_ONCE_RETRY_def)

lemma demo_memory_reached:
  "demo_memory_run n = (m, v, s, t) \<Longrightarrow> target_run (memory_exec dec_nat) env (demo_input False) ''workflow-1'' (init_memory demo_observation) m v s t"
  unfolding demo_memory_run_def using drive_run[of attempts_of, OF attempts_of_positive] by metis

lemma demo_plane_reached:
  "demo_plane_run n = (m, v, s, t) \<Longrightarrow> target_run (control_plane_exec demo_plane) env (demo_input False) ''workflow-1''
     \<lparr>pw_db = demo_approved, pw_env = demo_env, pw_edge = ()\<rparr> m v s t"
  unfolding demo_plane_run_def using drive_run[of attempts_of, OF attempts_of_positive] by metis

definition demo_wf_lease :: wf_lease where
  "demo_wf_lease = \<lparr>wl_device_id = ''id-3'', wl_lease_id = ''0'', wl_owner_workflow_id = ''workflow-1'', wl_fencing_token = 1,
     wl_expires_at = ''2099-01-01T00:00:00Z''\<rparr>"

lemma demo_memory_end: "case demo_memory_run 40 of (Ret x, v, s, t) \<Rightarrow> to_state x = SUCCEEDED \<and> to_evidence_ids x = [''after''] \<and> committed t \<and>
    t ! 2 = (Acquire_Device_Lease (demo_input False) ''workflow-1'', Some (Leased demo_wf_lease)) \<and> length t = 14 | _ \<Rightarrow> False"
  by code_simp

lemma demo_memory_endE:
  obtains x v s t where "demo_memory_run 40 = (Ret x, v, s, t)" "to_state x = SUCCEEDED" "to_evidence_ids x = [''after'']" "committed t"
    "(Acquire_Device_Lease (demo_input False) ''workflow-1'', Some (Leased demo_wf_lease)) \<in> set t"
proof -
  obtain m v s t where r: "demo_memory_run 40 = (m, v, s, t)" by (cases "demo_memory_run 40")
  then obtain x where x: "m = Ret x" using demo_memory_end by (cases m) auto
  have "(Acquire_Device_Lease (demo_input False) ''workflow-1'', Some (Leased demo_wf_lease)) \<in> set t"
    using demo_memory_end r x nth_mem[of 2 t] by simp
  then show ?thesis using demo_memory_end r x by (intro that[of x v s t]) simp_all
qed

lemma demo_plane_commits: "case demo_plane_run 19 of (Call (Commit_Once j l c) k, v, s, t) \<Rightarrow> j = demo_input False \<and> wl_fencing_token l = 1 | _ \<Rightarrow> False"
  by code_simp

lemma demo_approved_reachable: "api_steps empty_db demo_approved"
  unfolding demo_approved_def by (rule rtranclp_trans[OF demo_plan_reachable(1) run_calls_steps])

subsection \<open>The commit\<close>

text \<open>
  C1. On the Control API, whatever attempts fail, whatever replies are lost and whatever else happens to the
  database, the edge and the clock: when the workflow of a target is about to call \<open>commit_once\<close>, it is for its
  own target and has not called it before, the call will not be retried, it was approved if the target requires
  a human confirmation, a lease was acquired, and the database holds a commit intent of this target under the
  fencing token of that lease.
\<close>

theorem commit_after_stored_intent:
  assumes "target_run (control_plane_exec cp) plane_world i wid s0 (Call (Commit_Once j l c) k) v s t"
    and "api_steps empty_db (pw_db s0)"
  shows "j = i \<and> \<not> committed t \<and> attempts_of (Commit_Once j l c) = 1 \<and> (ti_requires_human_confirmation i \<longrightarrow> v_approved v) \<and>
    (\<exists>w. (Acquire_Device_Lease i w, Some (Leased l)) \<in> set t) \<and>
    (\<exists>r \<in> set (db_intents (pw_db s)). intent_view r = c \<and> in_target_id r = ti_target_id i \<and> in_fencing_token r = wl_fencing_token l)"
proof -
  have pre: "may_call i t v (Commit_Once j l c)"
    by (rule target_run_ok(2)[OF assms(1) control_plane_typed]) simp
  then obtain e where e: "(Write_Commit_Intent i l e, Some (Intent c)) \<in> set t" by (auto simp: may_call_def)
  have "plane_ok s0" using reachable_api[OF assms(2)] by (simp add: plane_ok_def)
  from plane.run_holds[OF assms(1) this] e have "intent_stored (Write_Commit_Intent i l e) (Intent c) s" by fastforce
  with pre show ?thesis by (auto simp: intent_stored_def may_call_def COMMIT_ONCE_RETRY_def)
qed

theorem commit_after_stored_intent_witness:
  "\<exists>l c k v s t. demo_plane_run 19 = (Call (Commit_Once (demo_input False) l c) k, v, s, t) \<and> \<not> committed t \<and>
     (\<exists>r \<in> set (db_intents (pw_db s)). intent_view r = c \<and> in_target_id r = ''id-15'' \<and> in_fencing_token r = wl_fencing_token l)"
proof -
  obtain l c k v s t where r: "demo_plane_run 19 = (Call (Commit_Once (demo_input False) l c) k, v, s, t)"
    using demo_plane_commits by (cases "demo_plane_run 19") (auto split: wf.splits activity.splits)
  show ?thesis
    using commit_after_stored_intent[OF demo_plane_reached[OF r]] demo_approved_reachable r by (fastforce simp: demo_input_def)
qed

text \<open>
  On the in-memory backend, whatever attempts fail and whatever replies are lost, and as long as no other workflow
  commits the same target, \<open>commit_calls\<close> of the target never exceeds one, so that the backend never raises
  \<open>commit_once called more than once\<close>.
\<close>

theorem commit_counted_once:
  assumes "target_run (memory_exec uuid) (other_targets (ti_target_id i)) i wid s0 m v s t"
    and "mm_commit_calls s0 (ti_target_id i) = 0"
  shows "mm_commit_calls s (ti_target_id i) \<le> 1"
proof -
  have "calls_ok (may_call i) t" by (rule target_run_ok(1)[OF assms(1) memory_typed])
  then have "length (filter (\<lambda>c. is_commit (fst c)) t) \<le> 1" by (rule calls_ok_commits)
  moreover have "length (filter (\<lambda>c. commits_target (ti_target_id i) (fst c)) t) \<le> length (filter (\<lambda>c. is_commit (fst c)) t)"
    by (induction t) (auto simp: commits_target_def is_commit_def split: activity.splits)
  ultimately show ?thesis using memory.run_counter[OF assms(1)] assms(2) by simp
qed

theorem commit_counted_once_witness: "case demo_memory_run 40 of (m, v, s, t) \<Rightarrow> mm_commit_calls s ''id-15'' \<le> 1"
proof -
  obtain m v s t where r: "demo_memory_run 40 = (m, v, s, t)" by (cases "demo_memory_run 40")
  show ?thesis
    using commit_counted_once[OF demo_memory_reached[OF r]] r by (simp add: demo_input_def init_memory_def)
qed

subsection \<open>Termination, the outcome and the lease\<close>

text \<open>
  C26. The workflow of a target ends: its own steps are well-founded, a run has at most 16 activity calls, and at any
  time of a run it has ended, can take a step of its own, or waits for the confirmation of an operator with
  neither an approval nor a cancellation requested.
\<close>

theorem publish_target_terminates:
  assumes "target_run exec env i wid s0 m v s t" and "typed_backend exec"
  shows "Wellfounded.accp (\<lambda>d c. wf_step exec env attempts_of c d) (m, v, s, t) \<and> length t \<le> 16 \<and>
    ((\<exists>x. m = Ret x) \<or> m = Fail \<or> (\<exists>d. wf_step exec env attempts_of (m, v, s, t) d) \<or> \<not> (v_approved v \<or> v_cancel_requested v))"
proof -
  have "waits_for confirmed_or_canceled m" by (rule run_waits[OF assms(1) publish_target_waits])
  then have "(\<exists>p n. m = Await p n \<and> \<not> p v) \<longrightarrow> \<not> (v_approved v \<or> v_cancel_requested v)" by (auto simp: confirmed_or_canceled_def)
  then show ?thesis
    using wf_step_terminates[of exec env attempts_of m v s t] calls_ok_length[OF target_run_ok(1)[OF assms]] wf_step_progress[of m v exec env attempts_of s t] by blast
qed

theorem publish_target_terminates_witness: "case demo_memory_run 40 of (m, v, s, t) \<Rightarrow> length t \<le> 16"
proof -
  obtain m v s t where r: "demo_memory_run 40 = (m, v, s, t)" by (cases "demo_memory_run 40")
  show ?thesis using publish_target_terminates[OF demo_memory_reached[OF r] memory_typed] r by auto
qed

text \<open>
  C25. What the workflow returns agrees with its calls: the state of the outcome was marked on the target and is the
  phase that a query shows; if the commit was never called it is FAILED or CANCELED; if it was called, it is UNKNOWN,
  or what an answered reconciliation observed, with its evidence.
\<close>

theorem publish_outcome_agrees:
  assumes "target_run exec env i wid s0 (Ret x) v s t" and "typed_backend exec"
  shows "to_target_id x = ti_target_id i \<and> (Mark_Target_State i (to_state x) (to_detail x), Some Done) \<in> set t \<and>
    v_phase v = publish_state_name (to_state x) \<and>
    (if committed t
     then to_state x = UNKNOWN \<or> (\<exists>l ob. (Reconcile_Result i l, Some (Observed ob)) \<in> set t \<and> to_state x = observed_state ob \<and>
            to_evidence_ids x = ob_evidence_ids ob)
     else to_state x \<in> {FAILED, CANCELED})"
  using target_run_ok(3)[OF assms refl] unfolding at_end_def outcome_ok_def option.case by blast

theorem publish_outcome_agrees_witness:
  "\<exists>x v s t. demo_memory_run 40 = (Ret x, v, s, t) \<and> to_state x = SUCCEEDED \<and> v_phase v = ''SUCCEEDED'' \<and>
     (\<exists>l ob. (Reconcile_Result (demo_input False) l, Some (Observed ob)) \<in> set t \<and> ob_evidence_ids ob = [''after''])"
proof (rule demo_memory_endE)
  fix x v s t
  assume r: "demo_memory_run 40 = (Ret x, v, s, t)" and x: "to_state x = SUCCEEDED" "to_evidence_ids x = [''after'']" "committed t"
  show ?thesis
    using publish_outcome_agrees[OF demo_memory_reached[OF r] memory_typed] r x by (fastforce simp: demo_input_def)
qed

text \<open>
  A workflow that returns an outcome has released the lease it acquired, as its last call, so that it is the
  last one to act on the device under this lease.
\<close>

theorem publish_releases_lease:
  assumes "target_run exec env i wid s0 (Ret x) v s t" and "typed_backend exec"
    and "(Acquire_Device_Lease i w, Some (Leased l)) \<in> set t"
  shows "last t = (Release_Device_Lease i l, Some Done)"
  using target_run_ok(3)[OF assms(1,2)] assms(3) by (auto simp: at_end_def released_def)

theorem publish_releases_lease_witness:
  "\<exists>x v s t. demo_memory_run 40 = (Ret x, v, s, t) \<and> last t = (Release_Device_Lease (demo_input False) demo_wf_lease, Some Done)"
proof (rule demo_memory_endE)
  fix x v s t
  assume r: "demo_memory_run 40 = (Ret x, v, s, t)"
    and l: "(Acquire_Device_Lease (demo_input False) ''workflow-1'', Some (Leased demo_wf_lease)) \<in> set t"
  show ?thesis using publish_releases_lease[OF demo_memory_reached[OF r] memory_typed l] r by blast
qed

subsection \<open>Where the handler and the Control API disagree\<close>

text \<open>
  C37. The handler of \<open>ActivityError\<close> marks FAILED before the commit intent and UNKNOWN after it. The Control API
  refuses the first while the target is still SCHEDULED (the validation failed) and the second while it is
  COMMITTING (the mark RECONCILING failed), and changes nothing; the states RUNNING and RECONCILING accept them.
\<close>

theorem handler_marks_refused:
  assumes "repo_target (cp_actor cp) (ti_target_id i) (pw_db s) = Inr (r, pw_db s)"
    and "require (cp_actor cp) PUBLISH_CREATE (pw_db s) = Inr ((), pw_db s)"
  shows "(tg_state r = SCHEDULED \<longrightarrow> control_plane_exec cp (Mark_Target_State i FAILED d) s = (None, s)) \<and>
    (tg_state r = COMMITTING \<longrightarrow> control_plane_exec cp (Mark_Target_State i UNKNOWN d) s = (None, s)) \<and>
    (tg_state r = RUNNING \<longrightarrow> fst (control_plane_exec cp (Mark_Target_State i FAILED d) s) = Some Done) \<and>
    (tg_state r = RECONCILING \<longrightarrow> fst (control_plane_exec cp (Mark_Target_State i UNKNOWN d) s) = Some Done)"
proof -
  have c: "check_transition cur st db = (if st \<in> ALLOWED_TRANSITIONS cur then Inr ((), db) else
      Inl (Api (ConflictError (''invalid publish transition: '' @ publish_state_name cur @ '' -> '' @ publish_state_name st))))" for cur st db
    by (simp add: check_transition_def assert_publish_transition_def tx_run)
  have no: "update_target_state (pw_env s) (cp_actor cp) (ti_target_id i) st d (pw_db s) = Inl e"
    if "tg_state r = cur" "st \<noteq> cur" "check_transition cur st (pw_db s) = Inl e" for st cur e
    unfolding update_target_state_def tx_run assms sum.case prod.case Let_def using that by simp
  have yes: "\<exists>r'. update_target_state (pw_env s) (cp_actor cp) (ti_target_id i) st d (pw_db s) = Inr r'"
    if "tg_state r = cur" "st \<noteq> cur" "st \<in> ALLOWED_TRANSITIONS cur" "cur \<noteq> COMMITTING" for st cur
    unfolding update_target_state_def tx_run assms sum.case prod.case Let_def
    using that by (simp add: c tx_run set_targets_def audit_def emit_def)
  have "control_plane_exec cp (Mark_Target_State i FAILED d) s = (None, s)" if "tg_state r = SCHEDULED"
    using no[OF that, of FAILED] by (simp add: c request_def)
  moreover have "control_plane_exec cp (Mark_Target_State i UNKNOWN d) s = (None, s)" if "tg_state r = COMMITTING"
    using no[OF that, of UNKNOWN] by (simp add: c request_def)
  moreover have "fst (control_plane_exec cp (Mark_Target_State i FAILED d) s) = Some Done" if "tg_state r = RUNNING"
    using yes[OF that, of FAILED] by (auto simp: c request_def)
  moreover have "fst (control_plane_exec cp (Mark_Target_State i UNKNOWN d) s) = Some Done" if "tg_state r = RECONCILING"
    using yes[OF that, of UNKNOWN] by (auto simp: c request_def)
  ultimately show ?thesis by blast
qed

theorem handler_marks_refused_witness:
  "control_plane_exec demo_plane (Mark_Target_State (demo_input False) FAILED None) \<lparr>pw_db = demo_approved, pw_env = demo_env, pw_edge = ()\<rparr> =
     (None, \<lparr>pw_db = demo_approved, pw_env = demo_env, pw_edge = ()\<rparr>)"
proof -
  let ?s = "\<lparr>pw_db = demo_approved, pw_env = demo_env, pw_edge = ()\<rparr>"
  have sh: "shown demo_approved = ([(''id-15'', ''id-11'', ''tenant'', Some ''id-3'', SCHEDULED)], [], [])" by code_simp
  obtain r where r: "db_targets demo_approved = [r]" "tg_id r = ''id-15''" "tg_tenant_id r = ''tenant''" "tg_state r = SCHEDULED"
    using sh by (auto simp: shown_def)
  have "repo_target (cp_actor demo_plane) (ti_target_id (demo_input False)) (pw_db ?s) = Inr (r, pw_db ?s)"
    using r by (simp add: demo_plane_def demo_input_def demo_actor_def find_row_def)
  moreover have "require (cp_actor demo_plane) PUBLISH_CREATE (pw_db ?s) = Inr ((), pw_db ?s)"
    by (simp add: demo_plane_def demo_actor_def)
  ultimately show ?thesis using handler_marks_refused r(4) by blast
qed

subsection \<open>Plans\<close>

text \<open>
  The workflow of a plan runs the targets one after the other, each as the child workflow named after it: at
  any time its calls are a prefix of the targets. It returns the outcomes of all targets in order, and fails at
  the first child that fails, after which no further target is started.
\<close>

definition plan_called :: "publish_target_input list \<Rightarrow> (plan_activity, target_outcome) call_log \<Rightarrow> bool" where
  "plan_called targets t \<longleftrightarrow> map fst t = map (\<lambda>i. Run_Target i (target_workflow_id i)) (take (length t) targets)"

definition plan_result :: "publish_target_input list \<Rightarrow> (plan_activity, target_outcome) call_log \<Rightarrow> unit \<Rightarrow> target_outcome list option \<Rightarrow> bool" where
  "plan_result targets t u r \<longleftrightarrow> plan_called targets t \<and> (case r of
     Some xs \<Rightarrow> map snd t = map Some xs \<and> length t = length targets
   | None \<Rightarrow> \<exists>t' a ys. t = t' @ [(a, None)] \<and> map snd t' = map Some ys)"

lemma plan_loop_meets:
  assumes "map fst t = map (\<lambda>i. Run_Target i (target_workflow_id i)) front" and "map snd t = map Some results"
  shows "meets (plan_loop n k targets results) (\<lambda>_ _. True) (\<lambda>_ _. True)
    (\<lambda>t' _ a. plan_called (front @ targets) (t' @ [(a, None)])) (plan_result (front @ targets)) () t"
  using assms
proof (induction targets arbitrary: k t results front)
  case Nil
  then have "length t = length front" by (metis length_map)
  then show ?case using Nil by (simp add: plan_called_def plan_result_def)
next
  case (Cons i targets)
  let ?a = "Run_Target i (target_workflow_id i)"
  have l: "length t = length front" using Cons(2) by (metis length_map)
  have p: "plan_called (front @ i # targets) (t @ [(?a, r)])" for r using Cons(2) l by (simp add: plan_called_def)
  have "meets (plan_loop n (Suc k) targets (results @ [x])) (\<lambda>_ _. True) (\<lambda>_ _. True)
    (\<lambda>t' _ a. plan_called (front @ i # targets) (t' @ [(a, None)])) (plan_result (front @ i # targets)) () (t @ [(?a, Some x)])" for x
    using Cons(1)[of "t @ [(?a, Some x)]" "front @ [i]" "results @ [x]" "Suc k"] Cons(2,3) by simp
  moreover have "plan_result (front @ i # targets) (t @ [(?a, None)]) u None" for u
    using p Cons(3) by (auto simp: plan_result_def)
  ultimately show ?case using p by auto
qed

abbreviation plan_run :: "(plan_activity \<Rightarrow> 's \<Rightarrow> target_outcome option \<times> 's) \<Rightarrow> ('s \<Rightarrow> 's \<Rightarrow> bool) \<Rightarrow> publish_plan_input \<Rightarrow> 's \<Rightarrow>
    (plan_activity, target_outcome, unit, target_outcome list) wf \<Rightarrow> 's \<Rightarrow> (plan_activity, target_outcome) call_log \<Rightarrow> bool" where
  "plan_run exec env p s0 m s t \<equiv>
     (run_step exec env (\<lambda>_. 1) (\<lambda>_ _. False))\<^sup>*\<^sup>* (publish_plan p, (), s0, []) (m, (), s, t)"

lemma plan_called_take: "plan_called targets (t @ [c]) \<Longrightarrow> plan_called targets t"
proof -
  assume a: "plan_called targets (t @ [c])"
  have "map fst t = take (length t) (map fst (t @ [c]))" by simp
  also have "\<dots> = map (\<lambda>i. Run_Target i (target_workflow_id i)) (take (length t) targets)"
    using a unfolding plan_called_def by (simp only: take_map take_take) (simp add: min_def)
  finally show ?thesis by (simp add: plan_called_def)
qed

theorem publish_plan_in_order:
  assumes "plan_run exec env p s0 m s t"
  shows "map fst t = map (\<lambda>i. Run_Target i (target_workflow_id i)) (take (length t) (pi_targets p)) \<and>
    (\<forall>xs. m = Ret xs \<longrightarrow> map snd t = map Some (po_targets (plan_outcome p xs)) \<and> length t = length (pi_targets p)) \<and>
    (m = Fail \<longrightarrow> (\<exists>u a ys. t = u @ [(a, None)] \<and> map snd u = map Some ys))"
proof -
  have "meets (publish_plan p) (\<lambda>_ _. True) (\<lambda>_ _. True) (\<lambda>t' _ a. plan_called (pi_targets p) (t' @ [(a, None)])) (plan_result (pi_targets p)) () []"
    using plan_loop_meets[of "[]" "[]" "[]"] by (simp add: publish_plan_def)
  from meets_sound[OF assms this] have ok: "calls_ok (\<lambda>t' (_ :: unit) a. plan_called (pi_targets p) (t' @ [(a, None)])) t"
      "\<forall>xs. m = Ret xs \<longrightarrow> plan_result (pi_targets p) t () (Some xs)" "m = Fail \<longrightarrow> plan_result (pi_targets p) t () None"
    by (auto simp: preorder_on_vars_def)
  have "plan_called (pi_targets p) t"
    using ok(1) by (cases t rule: rev_cases) (auto simp: plan_called_def)
  with ok(2,3) show ?thesis by (auto simp: plan_called_def plan_result_def plan_outcome_def)
qed

theorem publish_plan_in_order_witness:
  "\<exists>(xs :: target_outcome list) t. map snd t = map Some xs \<and> map fst t = [Run_Target (demo_input False) ''publish-target/id-15'', Run_Target (demo_input True) ''publish-target/id-15'']"
proof -
  define p where "p = \<lparr>pi_plan_id = ''id-11'', pi_targets = [demo_input False, demo_input True], pi_page_size = 1\<rparr>"
  define x where "x = \<lparr>to_target_id = ''id-15'', to_state = SUCCEEDED, to_detail = None, to_evidence_ids = []\<rparr>"
  let ?exec = "\<lambda>(a :: plan_activity) (s :: unit). (Some x, s)"
  have d: "drive ?exec 9 (publish_plan p, (), (), []) = (Ret [x, x], (), (), [(Run_Target (demo_input False) ''publish-target/id-15'', Some x),
      (Run_Target (demo_input True) ''publish-target/id-15'', Some x)])"
    by (simp add: publish_plan_def p_def activity_def target_workflow_id_def demo_input_def numeral_eq_Suc)
  let ?t = "[(Run_Target (demo_input False) ''publish-target/id-15'', Some x), (Run_Target (demo_input True) ''publish-target/id-15'', Some x)]"
  have "plan_run ?exec (\<lambda>_ _. False) p () (Ret [x, x]) () ?t"
    unfolding d[symmetric] by (rule drive_run) simp
  from publish_plan_in_order[OF this] have "map snd ?t = map Some [x, x]" by (simp add: plan_outcome_def)
  then show ?thesis by - (rule exI[of _ "[x, x]"], rule exI[of _ ?t], simp)
qed

end
