(* ===== verification/Publish_Start.thy ===== *)
theory Publish_Start
  imports Outbox Publish_Workflow
begin

text \<open>
  The start of publish workflows from outbox events (\<open>temporal_sink.py\<close>): which events start one, the loader that
  builds the input of the plan workflow from the Control API, and the sink. The Temporal server is a parameter.
\<close>

definition starts_workflow :: "event_envelope \<Rightarrow> bool" where
  "starts_workflow e =
     (if en_event_type e = ''publish.plan.submitted'' then \<not> truthy (dget_or (en_payload e) ''requiresApproval'' JNull)
      else en_event_type e = ''publish.plan.approval_decided'' \<and> dget (en_payload e) ''decision'' = Some (JStr ''APPROVED''))"

text \<open>\<open>None\<close> is an exception: no device, or no snapshot.\<close>

definition load_target :: "string \<Rightarrow> string \<Rightarrow> snapshot_row option \<Rightarrow> target_row \<Rightarrow> publish_target_input option" where
  "load_target tenant plan_id snapshot t = (case tg_device_id t of
     None \<Rightarrow> None
   | Some d \<Rightarrow> if d = [] then None else (case snapshot of
         None \<Rightarrow> None
       | Some sn \<Rightarrow> Some \<lparr>ti_tenant_id = tenant, ti_plan_id = plan_id, ti_target_id = tg_id t, ti_snapshot_id = sn_id sn,
           ti_device_id = d, ti_requires_human_confirmation = False\<rparr>))"

primrec load_targets :: "string \<Rightarrow> string \<Rightarrow> snapshot_row option \<Rightarrow> target_row list \<Rightarrow> publish_target_input list option" where
  "load_targets tenant plan_id snapshot [] = Some []"
| "load_targets tenant plan_id snapshot (t # ts) = (case load_target tenant plan_id snapshot t of
     None \<Rightarrow> None
   | Some i \<Rightarrow> map_option (Cons i) (load_targets tenant plan_id snapshot ts))"

definition load_plan :: "actor \<Rightarrow> string \<Rightarrow> string \<Rightarrow> cdb \<Rightarrow> publish_plan_input option" where
  "load_plan a tenant plan_id db = (case get_plan a plan_id db of
     Inl e \<Rightarrow> None
   | Inr ((plan, snapshot, targets), _) \<Rightarrow>
       map_option (\<lambda>is. \<lparr>pi_plan_id = plan_id, pi_targets = is, pi_page_size = 50\<rparr>) (load_targets tenant plan_id snapshot targets))"

datatype workflow_status = WF_RUNNING | WF_COMPLETED | WF_OTHER

datatype start_result = Started | Already_Started workflow_status | Start_Failed string

definition publish_workflow_id :: "string \<Rightarrow> string" where
  "publish_workflow_id plan_id = ''publish-plan/'' @ plan_id"

definition temporal_publish :: "(string \<Rightarrow> string \<Rightarrow> publish_plan_input option) \<Rightarrow>
    (string \<Rightarrow> publish_plan_input \<Rightarrow> 's \<Rightarrow> start_result \<times> 's) \<Rightarrow> 's sink" where
  "temporal_publish load start e s =
     (if \<not> starts_workflow e then (None, s)
      else (case load (en_tenant_id e) (en_aggregate_id e) of
          None \<Rightarrow> (Some ''ValueError'', s)
        | Some input \<Rightarrow> (case start (publish_workflow_id (en_aggregate_id e)) input s of
              (Started, s') \<Rightarrow> (None, s')
            | (Start_Failed x, s') \<Rightarrow> (Some x, s')
            | (Already_Started st, s') \<Rightarrow> (if st \<in> {WF_RUNNING, WF_COMPLETED} then None else Some ''WorkflowAlreadyStartedError'', s'))))"

text \<open>The input names every target of the plan, in order, under the id that the plan carries.\<close>

lemma load_targets_Some:
  "load_targets tenant p sn ts = Some is \<Longrightarrow> map ti_target_id is = map tg_id ts \<and>
     (\<forall>i \<in> set is. ti_plan_id i = p \<and> \<not> ti_requires_human_confirmation i \<and> Some (ti_snapshot_id i) = map_option sn_id sn)"
  by (induction ts arbitrary: "is") (auto simp: load_target_def split: option.splits if_splits)

text \<open>
  The sink starts the workflow of a plan for exactly two events, a submission that needs no approval and an
  approval; it does so under the workflow identifier that the submission wrote to the plan, with the
  targets of the plan in order, its snapshot, and never with a human confirmation.
\<close>

lemma plan_start_input:
  assumes "load_plan a tenant plan_id db = Some input"
  shows "pi_plan_id input = plan_id \<and> map ti_target_id (pi_targets input) = map tg_id (repo_targets_for_plan a plan_id db) \<and>
    (\<forall>i \<in> set (pi_targets input). \<not> ti_requires_human_confirmation i \<and>
       Some (ti_snapshot_id i) = map_option sn_id (repo_snapshot_for_plan a plan_id db)) \<and>
    (\<forall>e s start. en_tenant_id e = tenant \<and> en_aggregate_id e = plan_id \<longrightarrow>
       snd (temporal_publish (\<lambda>t p. load_plan a t p db) start e s) =
         (if (en_event_type e = ''publish.plan.submitted'' \<and> \<not> truthy (dget_or (en_payload e) ''requiresApproval'' JNull)) \<or>
             (en_event_type e = ''publish.plan.approval_decided'' \<and> dget (en_payload e) ''decision'' = Some (JStr ''APPROVED''))
          then snd (start (''publish-plan/'' @ plan_id) input s) else (s :: 's)))"
proof -
  obtain plan snapshot targets db' ins where g: "get_plan a plan_id db = Inr ((plan, snapshot, targets), db')"
      and l: "load_targets tenant plan_id snapshot targets = Some ins" and i: "input = \<lparr>pi_plan_id = plan_id, pi_targets = ins, pi_page_size = 50\<rparr>"
    using assms by (auto simp: load_plan_def split: sum.splits)
  have "pl_id plan = plan_id" "snapshot = repo_snapshot_for_plan a (pl_id plan) db" "targets = repo_targets_for_plan a (pl_id plan) db"
    using g by (auto simp: get_plan_def dest: find_row_SomeD)
  then have r: "snapshot = repo_snapshot_for_plan a plan_id db" "targets = repo_targets_for_plan a plan_id db" by simp_all
  have "snd (temporal_publish (\<lambda>t p. load_plan a t p db) start e s) =
         (if starts_workflow e then snd (start (''publish-plan/'' @ plan_id) input s) else s)"
    if "en_tenant_id e = tenant" "en_aggregate_id e = plan_id" for e s and start :: "string \<Rightarrow> publish_plan_input \<Rightarrow> 's \<Rightarrow> start_result \<times> 's"
    using assms that by (simp add: temporal_publish_def publish_workflow_id_def split: prod.split start_result.split)
  then show ?thesis using load_targets_Some[OF l] r i by (auto simp: starts_workflow_def)
qed

end
