(* ===== verification/Outbox_Delivery.thy ===== *)
theory Outbox_Delivery
  imports Outbox "HOL-Library.Multiset"
begin

text \<open>
  Several dispatchers on one outbox: each claims a batch, hands its events to a sink and records the result,
  and may crash at any point; new events arrive and time passes. The invariant of the reachable states, the
  properties of delivery, and the dispatch of one dispatcher alone.
\<close>

subsection \<open>Dispatchers at work\<close>

datatype delivery_phase = Delivering | Accepted | Refused string

type_synonym delivery = "event_envelope \<times> int \<times> delivery_phase"

record delivery_system =
  dy_rows :: "outbox_row list"
  dy_now :: int
  dy_work :: "string \<Rightarrow> delivery list"
  dy_accepted :: "(string \<times> event_envelope) list"

definition init_delivery :: delivery_system where
  "init_delivery = \<lparr>dy_rows = [], dy_now = 0, dy_work = (\<lambda>_. []), dy_accepted = []\<rparr>"

definition start_work :: "int \<Rightarrow> outbox_row list \<Rightarrow> delivery list" where
  "start_work now batch = map (\<lambda>r. (envelope r, now, Delivering)) batch"

text \<open>The sink may take an event and still raise, when its reply is lost.\<close>

inductive outbox_step :: "delivery_system \<Rightarrow> delivery_system \<Rightarrow> bool" where
  claimed: "dy_work s d = [] \<Longrightarrow> claim locked (dy_now s) d n (dy_rows s) = (batch, rows) \<Longrightarrow>
    outbox_step s (s\<lparr>dy_rows := rows, dy_work := (dy_work s)(d := start_work (dy_now s) batch)\<rparr>)"
| accepted: "dy_work s d = (e, t, Delivering) # es \<Longrightarrow>
    outbox_step s (s\<lparr>dy_accepted := dy_accepted s @ [(d, e)], dy_work := (dy_work s)(d := (e, t, Accepted) # es)\<rparr>)"
| refused: "dy_work s d = (e, t, Delivering) # es \<Longrightarrow> acc = dy_accepted s \<or> acc = dy_accepted s @ [(d, e)] \<Longrightarrow>
    outbox_step s (s\<lparr>dy_accepted := acc, dy_work := (dy_work s)(d := (e, t, Refused x) # es)\<rparr>)"
| recorded: "dy_work s d = (e, t, Accepted) # es \<Longrightarrow>
    outbox_step s (s\<lparr>dy_rows := snd (mark_published (dy_now s) (en_id e) d (dy_rows s)), dy_work := (dy_work s)(d := es)\<rparr>)"
| released: "dy_work s d = (e, t, Refused x) # es \<Longrightarrow>
    outbox_step s (s\<lparr>dy_rows := snd (mark_failed (en_id e) d x (dy_rows s)), dy_work := (dy_work s)(d := es)\<rparr>)"
| crashed: "outbox_step s (s\<lparr>dy_work := (dy_work s)(d := [])\<rparr>)"
| emitted: "ob_id r \<notin> ob_id ` set (dy_rows s) \<Longrightarrow> ob_published_at r = None \<Longrightarrow> ob_claimed_at r = None \<Longrightarrow> ob_claim_owner r = None \<Longrightarrow>
    outbox_step s (s\<lparr>dy_rows := dy_rows s @ [r]\<rparr>)"
| time: "dy_now s \<le> t \<Longrightarrow> outbox_step s (s\<lparr>dy_now := t\<rparr>)"

subsection \<open>The invariant\<close>

text \<open>What holds of a delivery: its row is there, and belongs to its dispatcher while the claim has not expired.\<close>

definition delivery_ok :: "outbox_row list \<Rightarrow> int \<Rightarrow> (string \<times> event_envelope) list \<Rightarrow> string \<Rightarrow> delivery \<Rightarrow> bool" where
  "delivery_ok rows now acc d w = (case w of (e, t, ph) \<Rightarrow> t \<le> now \<and> (ph = Accepted \<longrightarrow> (d, e) \<in> set acc) \<and>
     (\<exists>r \<in> set rows. envelope r = e \<and> (now \<le> t + CLAIM_TTL \<longrightarrow> owns_claim d r \<and> ob_claimed_at r = Some t)))"

definition rows_delivered :: "outbox_row list \<Rightarrow> (string \<times> event_envelope) list \<Rightarrow> bool" where
  "rows_delivered rows acc \<longleftrightarrow> (\<forall>r \<in> set rows. ob_published_at r \<noteq> None \<longrightarrow> (\<exists>d. (d, envelope r) \<in> set acc))"

definition delivery_inv :: "delivery_system \<Rightarrow> bool" where
  "delivery_inv s \<longleftrightarrow> ids_distinct (dy_rows s) \<and> rows_delivered (dy_rows s) (dy_accepted s) \<and>
     (\<forall>d. distinct (map (en_id \<circ> fst) (dy_work s d)) \<and>
        (\<forall>w \<in> set (dy_work s d). delivery_ok (dy_rows s) (dy_now s) (dy_accepted s) d w))"

lemma delivery_ok_log: "delivery_ok rows now acc d w \<Longrightarrow> set acc \<subseteq> set acc' \<Longrightarrow> delivery_ok rows now acc' d w"
  by (auto simp: delivery_ok_def split: prod.splits)

lemma rows_delivered_log: "rows_delivered rows acc \<Longrightarrow> set acc \<subseteq> set acc' \<Longrightarrow> rows_delivered rows acc'"
  unfolding rows_delivered_def by blast

lemma delivery_invI:
  assumes "ids_distinct (dy_rows s)" and "rows_delivered (dy_rows s) (dy_accepted s)"
    and "\<And>d. distinct (map (en_id \<circ> fst) (dy_work s d))"
    and "\<And>d w. w \<in> set (dy_work s d) \<Longrightarrow> delivery_ok (dy_rows s) (dy_now s) (dy_accepted s) d w"
  shows "delivery_inv s"
  using assms by (simp add: delivery_inv_def)

lemma delivery_invD:
  assumes "delivery_inv s"
  shows "ids_distinct (dy_rows s)" "rows_delivered (dy_rows s) (dy_accepted s)" "distinct (map (en_id \<circ> fst) (dy_work s d))"
    "w \<in> set (dy_work s d) \<Longrightarrow> delivery_ok (dy_rows s) (dy_now s) (dy_accepted s) d w"
  using assms by (simp_all add: delivery_inv_def)

text \<open>
  An update of the rows of one event, by a mark or by a claim: the envelope and the identifier stay, and a row
  whose claim is not the marker's, or is unexpired, stays as it is.
\<close>

lemma delivery_ok_upd:
  assumes "delivery_ok rows now acc d w" and "\<And>r. envelope (f r) = envelope r"
    and "\<And>r e t ph. w = (e, t, ph) \<Longrightarrow> r \<in> set rows \<Longrightarrow> envelope r = e \<Longrightarrow> p r \<Longrightarrow> now \<le> t + CLAIM_TTL \<Longrightarrow>
      owns_claim d r \<Longrightarrow> ob_claimed_at r = Some t \<Longrightarrow> False"
  shows "delivery_ok (upd_where p f rows) now acc d w"
proof -
  obtain e t ph where w: "w = (e, t, ph)" by (cases w)
  with assms(1) obtain r where r: "r \<in> set rows" "envelope r = e" "now \<le> t + CLAIM_TTL \<longrightarrow> owns_claim d r \<and> ob_claimed_at r = Some t"
      and o: "t \<le> now" "ph = Accepted \<longrightarrow> (d, e) \<in> set acc"
    by (auto simp: delivery_ok_def)
  let ?r = "if p r then f r else r"
  have "?r \<in> set (upd_where p f rows)" using r(1) by (auto simp: set_upd_where)
  moreover have "envelope ?r = e" using assms(2) r(2) by simp
  moreover have "now \<le> t + CLAIM_TTL \<longrightarrow> owns_claim d ?r \<and> ob_claimed_at ?r = Some t" using r assms(3)[OF w r(1,2)] by auto
  ultimately have "\<exists>r \<in> set (upd_where p f rows). envelope r = e \<and> (now \<le> t + CLAIM_TTL \<longrightarrow> owns_claim d r \<and> ob_claimed_at r = Some t)"
    by (intro bexI[of _ ?r] conjI)
  then show ?thesis using o unfolding w delivery_ok_def prod.case by (intro conjI)
qed

lemma envelope_id: "envelope r = e \<Longrightarrow> ob_id r = en_id e"
  by (auto simp: envelope_def)

text \<open>A mark by the owner of a claim: other dispatchers have no unexpired delivery of that event.\<close>

lemma mark_shape:
  assumes "ids_distinct rows"
  obtains (no) "snd (mark_published now i d rows) = rows" "snd (mark_failed i d x rows) = rows"
  | (yes) r where "r \<in> set rows" "ob_id r = i" "owns_claim d r"
    "snd (mark_published now i d rows) = upd_where (\<lambda>r. ob_id r = i)
       (\<lambda>r. r\<lparr>ob_published_at := Some now, ob_claimed_at := None, ob_claim_owner := None, ob_last_error := None\<rparr>) rows"
    "snd (mark_failed i d x rows) = upd_where (\<lambda>r. ob_id r = i)
       (\<lambda>r. r\<lparr>ob_claimed_at := None, ob_claim_owner := None, ob_last_error := Some (take 2000 x)\<rparr>) rows"
proof (cases "find_row (\<lambda>r. ob_id r = i) rows")
  case None
  then show ?thesis by (intro no) (simp_all add: mark_published_def mark_failed_def)
next
  case (Some r)
  note r = find_row_SomeD[OF Some]
  show ?thesis
  proof (cases "owns_claim d r")
    case True
    then show ?thesis using r Some by (intro yes[of r]) (simp_all add: mark_published_def mark_failed_def)
  next
    case False
    then show ?thesis using Some by (intro no) (simp_all add: mark_published_def mark_failed_def)
  qed
qed

lemma mark_keeps_delivery:
  assumes "ids_distinct rows" "delivery_ok rows now acc d' w" "en_id (fst w) \<noteq> i \<or> d' \<noteq> d"
  shows "delivery_ok (snd (mark_published now i d rows)) now acc d' w" "delivery_ok (snd (mark_failed i d x rows)) now acc d' w"
proof -
  have both: "delivery_ok (upd_where (\<lambda>r. ob_id r = i) f rows) now acc d' w"
    if "q \<in> set rows" "ob_id q = i" "owns_claim d q" "\<And>r. envelope (f r) = envelope r" for q f
  proof (rule delivery_ok_upd[OF assms(2) that(4)])
    fix r e t ph assume w: "w = (e, t, ph)" and r: "r \<in> set rows" "envelope r = e" "ob_id r = i" "owns_claim d' r"
    then have "d' \<noteq> d" using assms(3) envelope_id[OF r(2)] by auto
    moreover have "r = q" using ids_distinct_eq[OF assms(1) r(1) that(1)] r(3) that(2) by simp
    ultimately show False using r(4) that(3) by (simp add: owns_claim_def)
  qed
  show "delivery_ok (snd (mark_published now i d rows)) now acc d' w"
  proof (rule mark_shape[OF assms(1), of now i d x])
    fix q assume q: "q \<in> set rows" "ob_id q = i" "owns_claim d q"
      and u: "snd (mark_published now i d rows) = upd_where (\<lambda>r. ob_id r = i) (\<lambda>r. r\<lparr>ob_published_at := Some now, ob_claimed_at := None, ob_claim_owner := None, ob_last_error := None\<rparr>) rows"
    show ?thesis unfolding u by (rule both[OF q]) (simp add: envelope_def)
  qed (use assms(2) in simp)
  show "delivery_ok (snd (mark_failed i d x rows)) now acc d' w"
  proof (rule mark_shape[OF assms(1), of now i d x])
    fix q assume q: "q \<in> set rows" "ob_id q = i" "owns_claim d q"
      and u: "snd (mark_failed i d x rows) = upd_where (\<lambda>r. ob_id r = i) (\<lambda>r. r\<lparr>ob_claimed_at := None, ob_claim_owner := None, ob_last_error := Some (take 2000 x)\<rparr>) rows"
    show ?thesis unfolding u by (rule both[OF q]) (simp add: envelope_def)
  qed (use assms(2) in simp)
qed

lemma upd_where_delivered:
  assumes "rows_delivered rows acc" "\<And>r. envelope (f r) = envelope r" "\<And>r. ob_published_at (f r) = ob_published_at r"
  shows "rows_delivered (upd_where p f rows) acc"
  using assms by (auto simp: rows_delivered_def set_upd_where)

lemma mark_keeps_delivered:
  assumes "ids_distinct rows" "rows_delivered rows acc"
  shows "rows_delivered (snd (mark_failed i d x rows)) acc"
    "r \<in> set rows \<Longrightarrow> ob_id r = i \<Longrightarrow> (d, envelope r) \<in> set acc \<Longrightarrow> rows_delivered (snd (mark_published now i d rows)) acc"
proof -
  show "rows_delivered (snd (mark_failed i d x rows)) acc"
  proof (rule mark_shape[OF assms(1), of now i d x])
    assume q: "snd (mark_failed i d x rows) = upd_where (\<lambda>r. ob_id r = i)
       (\<lambda>r. r\<lparr>ob_claimed_at := None, ob_claim_owner := None, ob_last_error := Some (take 2000 x)\<rparr>) rows"
    show ?thesis unfolding q by (rule upd_where_delivered[OF assms(2)]) (simp_all add: envelope_def)
  qed (use assms(2) in simp)
  show "rows_delivered (snd (mark_published now i d rows)) acc" if r: "r \<in> set rows" "ob_id r = i" and l: "(d, envelope r) \<in> set acc"
  proof (rule mark_shape[OF assms(1), of now i d x])
    let ?f = "\<lambda>r. r\<lparr>ob_published_at := Some now, ob_claimed_at := None, ob_claim_owner := None, ob_last_error := None\<rparr>"
    assume q: "snd (mark_published now i d rows) = upd_where (\<lambda>r. ob_id r = i) ?f rows"
    show ?thesis
      unfolding q rows_delivered_def
    proof (intro ballI impI)
      fix u assume "u \<in> set (upd_where (\<lambda>r. ob_id r = i) ?f rows)" and p: "ob_published_at u \<noteq> None"
      then obtain v where v: "v \<in> set rows" "u = (if ob_id v = i then ?f v else v)" by (auto simp: set_upd_where)
      show "\<exists>d. (d, envelope u) \<in> set acc"
      proof (cases "ob_id v = i")
        case True
        then have "v = r" using ids_distinct_eq[OF assms(1) v(1) r(1)] r(2) by simp
        then have "envelope u = envelope r" using v(2) True by (simp add: envelope_def)
        then show ?thesis using l by auto
      next
        case False
        then show ?thesis using v p assms(2) by (simp add: rows_delivered_def)
      qed
    qed
  qed (use assms(2) in simp)
qed

lemma claim_result:
  assumes "claim locked now d n rows = (batch, rows')"
  shows "batch = map (claim_row now d) (claim_batch locked now n rows)"
    "rows' = upd_where (\<lambda>r. ob_id r \<in> ob_id ` set (claim_batch locked now n rows)) (claim_row now d) rows"
  using assms by (simp_all add: claim_def Let_def)

lemma distinct_outbox_order: "distinct (map ob_id (outbox_order rows)) \<longleftrightarrow> distinct (map ob_id rows)"
proof -
  have "mset (outbox_order rows) = mset rows" by (simp add: outbox_order_def)
  then show ?thesis by (metis mset_map mset_eq_imp_distinct_iff)
qed

lemma claim_batch_distinct: "ids_distinct rows \<Longrightarrow> distinct (map ob_id (claim_batch locked now n rows))"
proof -
  assume "ids_distinct rows"
  then have "distinct (map ob_id (outbox_order (filter (claimable locked now) rows)))"
    by (simp add: distinct_outbox_order ids_distinct_def distinct_map_filter)
  then show ?thesis by (simp add: claim_batch_def take_map[symmetric])
qed

text \<open>A claim leaves the unexpired deliveries of the others alone, and starts deliveries of its own.\<close>

lemma claim_keeps_delivery:
  assumes "ids_distinct rows" "claim locked now d n rows = (batch, rows')" "delivery_ok rows now acc d' w"
  shows "delivery_ok rows' now acc d' w"
  unfolding claim_result(2)[OF assms(2)]
proof (rule delivery_ok_upd[OF assms(3)])
  fix r e t ph assume r: "r \<in> set rows" "ob_id r \<in> ob_id ` set (claim_batch locked now n rows)" "now \<le> t + CLAIM_TTL" "ob_claimed_at r = Some t"
  from r(2) obtain q where b: "q \<in> set (claim_batch locked now n rows)" "ob_id q = ob_id r" by (elim imageE) simp
  then have q: "q \<in> set rows" "claimable locked now q" "ob_id q = ob_id r" using claim_batch_subset[OF b(1)] by simp_all
  then have "q = r" using ids_distinct_eq[OF assms(1) q(1) r(1)] by simp
  then show False using q(2) r(3,4) by (simp add: claimable_def)
qed simp

lemma claim_starts_delivery:
  assumes "ids_distinct rows" "claim locked now d n rows = (batch, rows')" "w \<in> set (start_work now batch)"
  shows "delivery_ok rows' now acc d w"
proof -
  obtain q where q: "q \<in> set (claim_batch locked now n rows)" "w = (envelope q, now, Delivering)"
    using assms(3) claim_result(1)[OF assms(2)] by (auto simp: start_work_def)
  have "claim_row now d q \<in> set rows'"
    unfolding claim_result(2)[OF assms(2)] set_upd_where using q(1) claim_batch_subset[OF q(1)] by force
  moreover have "owns_claim d (claim_row now d q)"
    using claim_batch_subset[OF q(1)] by (simp add: owns_claim_def claimable_def)
  ultimately have "\<exists>r \<in> set rows'. envelope r = envelope q \<and> (now \<le> now + CLAIM_TTL \<longrightarrow> owns_claim d r \<and> ob_claimed_at r = Some now)"
    by (intro bexI[of _ "claim_row now d q"]) simp_all
  then show ?thesis unfolding q(2) delivery_ok_def prod.case by simp
qed

lemma head_id: "distinct (map (en_id \<circ> fst) ((e, t, ph) # es)) \<Longrightarrow> w \<in> set es \<Longrightarrow> en_id (fst w) \<noteq> en_id e"
  by (metis (no_types, lifting) comp_apply distinct.simps(2) fst_conv image_eqI list.simps(9) list.set_map)

lemma outbox_step_inv: "outbox_step s s' \<Longrightarrow> delivery_inv s \<Longrightarrow> delivery_inv s'"
proof (induction rule: outbox_step.induct)
  case (claimed s d locked n batch rows)
  note inv = delivery_invD[OF claimed(3)]
  note c = claim_result[OF claimed(2)]
  have ids: "distinct (map (en_id \<circ> fst) (start_work (dy_now s) batch))"
    using claim_batch_distinct[OF inv(1), of locked "dy_now s" n] unfolding c(1) start_work_def
    by (simp add: comp_def envelope_def)
  show ?case
  proof (rule delivery_invI)
    show "ids_distinct (dy_rows (s\<lparr>dy_rows := rows, dy_work := (dy_work s)(d := start_work (dy_now s) batch)\<rparr>))"
      using claim_ids[OF inv(1), of locked "dy_now s" d n] claimed(2) by simp
    show "rows_delivered (dy_rows (s\<lparr>dy_rows := rows, dy_work := (dy_work s)(d := start_work (dy_now s) batch)\<rparr>))
        (dy_accepted (s\<lparr>dy_rows := rows, dy_work := (dy_work s)(d := start_work (dy_now s) batch)\<rparr>))"
      using upd_where_delivered[OF inv(2)] c(2) by simp
  qed (use ids inv(3,4) claim_keeps_delivery[OF inv(1) claimed(2)] claim_starts_delivery[OF inv(1) claimed(2)] in \<open>auto split: if_splits\<close>)
next
  case (accepted s d e t es)
  note inv = delivery_invD[OF accepted(2)]
  have first: "delivery_ok (dy_rows s) (dy_now s) (dy_accepted s @ [(d, e)]) d (e, t, Accepted)"
    using inv(4)[of "(e, t, Delivering)" d] accepted(1) by (auto simp: delivery_ok_def)
  have others: "delivery_ok (dy_rows s) (dy_now s) (dy_accepted s @ [(d, e)]) d' w" if "w \<in> set (dy_work s d')" for d' w
    by (rule delivery_ok_log[OF inv(4)[OF that]]) auto
  show ?case
    by (rule delivery_invI)
      (use inv(1,3) first others[of _ d] others accepted(1) rows_delivered_log[OF inv(2), of "dy_accepted s @ [(d, e)]"] inv(3)[of d] in \<open>auto split: if_splits\<close>)
next
  case (refused s d e t es acc x)
  note inv = delivery_invD[OF refused(3)]
  have sub: "set (dy_accepted s) \<subseteq> set acc" using refused(2) by auto
  have first: "delivery_ok (dy_rows s) (dy_now s) acc d (e, t, Refused x)"
    using inv(4)[of "(e, t, Delivering)" d] refused(1) by (auto simp: delivery_ok_def)
  have others: "delivery_ok (dy_rows s) (dy_now s) acc d' w" if "w \<in> set (dy_work s d')" for d' w
    by (rule delivery_ok_log[OF inv(4)[OF that] sub])
  show ?case
    by (rule delivery_invI)
      (use inv(1,3) first others[of _ d] others refused(1) rows_delivered_log[OF inv(2) sub] inv(3)[of d] in \<open>auto split: if_splits\<close>)
next
  case (recorded s d e t es)
  note inv = delivery_invD[OF recorded(2)]
  let ?rows = "snd (mark_published (dy_now s) (en_id e) d (dy_rows s))"
  have w: "delivery_ok (dy_rows s) (dy_now s) (dy_accepted s) d (e, t, Accepted)" by (rule inv(4)) (simp add: recorded(1))
  then obtain r where r: "r \<in> set (dy_rows s)" "envelope r = e" and acc: "(d, e) \<in> set (dy_accepted s)"
    by (auto simp: delivery_ok_def)
  have del: "rows_delivered ?rows (dy_accepted s)"
    by (rule mark_keeps_delivered(2)[OF inv(1,2) r(1) envelope_id[OF r(2)]]) (simp add: r(2) acc)
  have others: "delivery_ok ?rows (dy_now s) (dy_accepted s) d' w" if "w \<in> set (if d' = d then es else dy_work s d')" for d' w
  proof (rule mark_keeps_delivery(1)[OF inv(1)])
    show "delivery_ok (dy_rows s) (dy_now s) (dy_accepted s) d' w"
      by (rule inv(4)) (use that recorded(1) in \<open>auto split: if_splits\<close>)
    show "en_id (fst w) \<noteq> en_id e \<or> d' \<noteq> d"
      using head_id[OF inv(3)[of d, unfolded recorded(1)], of w] that by (cases "d' = d") simp_all
  qed
  show ?case
    by (rule delivery_invI) (use mark_published_ids[OF inv(1)] del others inv(3)[of d] inv(3) recorded(1) in \<open>auto split: if_splits\<close>)
next
  case (released s d e t x es)
  note inv = delivery_invD[OF released(2)]
  let ?rows = "snd (mark_failed (en_id e) d x (dy_rows s))"
  have others: "delivery_ok ?rows (dy_now s) (dy_accepted s) d' w" if "w \<in> set (if d' = d then es else dy_work s d')" for d' w
  proof (rule mark_keeps_delivery(2)[OF inv(1)])
    show "delivery_ok (dy_rows s) (dy_now s) (dy_accepted s) d' w"
      by (rule inv(4)) (use that released(1) in \<open>auto split: if_splits\<close>)
    show "en_id (fst w) \<noteq> en_id e \<or> d' \<noteq> d"
      using head_id[OF inv(3)[of d, unfolded released(1)], of w] that by (cases "d' = d") simp_all
  qed
  show ?case
    by (rule delivery_invI)
      (use mark_failed_ids[OF inv(1)] mark_keeps_delivered(1)[OF inv(1,2)] others inv(3)[of d] inv(3) released(1) in \<open>auto split: if_splits\<close>)
next
  case (crashed s d)
  note inv = delivery_invD[OF crashed]
  show ?case by (rule delivery_invI) (use inv in \<open>auto split: if_splits\<close>)
next
  case (emitted r s)
  note inv = delivery_invD[OF emitted(5)]
  have "delivery_ok (dy_rows s @ [r]) (dy_now s) (dy_accepted s) d w" if "w \<in> set (dy_work s d)" for d w
    using inv(4)[OF that] by (auto simp: delivery_ok_def)
  moreover have "rows_delivered (dy_rows s @ [r]) (dy_accepted s)" using inv(2) emitted(2) by (auto simp: rows_delivered_def)
  moreover have "ids_distinct (dy_rows s @ [r])" using inv(1) emitted(1) by (auto simp: ids_distinct_def)
  ultimately show ?case by (intro delivery_invI) (use inv(3) in simp_all)
next
  case (time s t)
  note inv = delivery_invD[OF time(2)]
  have "delivery_ok (dy_rows s) t (dy_accepted s) d w" if "w \<in> set (dy_work s d)" for d w
    using inv(4)[OF that] time(1) by (fastforce simp: delivery_ok_def)
  then show ?case by (intro delivery_invI) (use inv in simp_all)
qed

lemma outbox_reachable_inv: "outbox_step\<^sup>*\<^sup>* init_delivery s \<Longrightarrow> delivery_inv s"
proof (induction rule: rtranclp_induct)
  case base
  show ?case by (simp add: init_delivery_def delivery_inv_def ids_distinct_def rows_delivered_def)
next
  case (step s s')
  then show ?case by (blast intro: outbox_step_inv)
qed

subsection \<open>What delivery guarantees\<close>

lemma delivery_ownerD:
  assumes "delivery_inv s" "w \<in> set (dy_work s d)" "dy_now s \<le> fst (snd w) + CLAIM_TTL"
  obtains r where "r \<in> set (dy_rows s)" "envelope r = fst w" "owns_claim d r" "ob_claimed_at r = Some (fst (snd w))"
  using delivery_invD(4)[OF assms(1,2)] assms(3) by (cases w) (auto simp: delivery_ok_def)

text \<open>
  C12. Whatever dispatchers claim, deliver, record, release or crash, and however sinks fail: an event that is marked
  as published was accepted by the sink, for the same envelope, under some dispatcher; two deliveries of one event
  whose claims have not expired are one delivery of one dispatcher; and its row is still unpublished and claimed
  by that dispatcher at the time of the delivery.
\<close>

theorem outbox_delivery_safe:
  assumes "outbox_step\<^sup>*\<^sup>* init_delivery s"
  shows "(\<forall>r \<in> set (dy_rows s). ob_published_at r \<noteq> None \<longrightarrow> (\<exists>d. (d, envelope r) \<in> set (dy_accepted s))) \<and>
    (\<forall>d d'. \<forall>w \<in> set (dy_work s d). \<forall>w' \<in> set (dy_work s d').
       en_id (fst w) = en_id (fst w') \<and> dy_now s \<le> fst (snd w) + CLAIM_TTL \<and> dy_now s \<le> fst (snd w') + CLAIM_TTL \<longrightarrow> d = d' \<and> w = w') \<and>
    (\<forall>d. \<forall>w \<in> set (dy_work s d). dy_now s \<le> fst (snd w) + CLAIM_TTL \<longrightarrow>
       (\<exists>r \<in> set (dy_rows s). envelope r = fst w \<and> owns_claim d r \<and> ob_claimed_at r = Some (fst (snd w))))"
proof (intro conjI ballI allI impI)
  have inv: "delivery_inv s" by (rule outbox_reachable_inv[OF assms])
  show "\<exists>d. (d, envelope r) \<in> set (dy_accepted s)" if "r \<in> set (dy_rows s)" "ob_published_at r \<noteq> None" for r
    using delivery_invD(2)[OF inv] that by (auto simp: rows_delivered_def)
  show "\<exists>r \<in> set (dy_rows s). envelope r = fst w \<and> owns_claim d r \<and> ob_claimed_at r = Some (fst (snd w))"
    if "w \<in> set (dy_work s d)" "dy_now s \<le> fst (snd w) + CLAIM_TTL" for w d
    by (rule delivery_ownerD[OF inv that]) blast
  fix d d' w w'
  assume w: "w \<in> set (dy_work s d)" and w': "w' \<in> set (dy_work s d')"
    and c: "en_id (fst w) = en_id (fst w') \<and> dy_now s \<le> fst (snd w) + CLAIM_TTL \<and> dy_now s \<le> fst (snd w') + CLAIM_TTL"
  obtain r where r: "r \<in> set (dy_rows s)" "envelope r = fst w" "owns_claim d r" using delivery_ownerD[OF inv w] c by blast
  obtain r' where r': "r' \<in> set (dy_rows s)" "envelope r' = fst w'" "owns_claim d' r'" using delivery_ownerD[OF inv w'] c by blast
  have "r = r'"
    using ids_distinct_eq[OF delivery_invD(1)[OF inv] r(1) r'(1)] envelope_id[OF r(2)] envelope_id[OF r'(2)] c by simp
  then show d: "d = d'" using r(3) r'(3) by (simp add: owns_claim_def)
  have "inj_on (en_id \<circ> fst) (set (dy_work s d))" using delivery_invD(3)[OF inv] by (simp add: distinct_map)
  then show "w = w'" by (rule inj_onD) (use w w' c d in simp_all)
qed

definition demo_event :: outbox_row where
  "demo_event = \<lparr>ob_id = ''e1'', ob_tenant_id = ''tenant'', ob_aggregate_type = ''publish_plan'', ob_aggregate_id = ''p1'',
     ob_event_type = ''publish.plan.submitted'', ob_payload = [], ob_occurred_at = 0, ob_published_at = None, ob_claimed_at = None,
     ob_claim_owner = None, ob_attempts = 0, ob_last_error = None\<rparr>"

theorem outbox_delivery_safe_witness:
  "\<exists>s. outbox_step\<^sup>*\<^sup>* init_delivery s \<and> (\<exists>r \<in> set (dy_rows s). ob_published_at r \<noteq> None \<and> (\<exists>d. (d, envelope r) \<in> set (dy_accepted s)))"
proof -
  let ?rows = "snd (claim {} 0 ''d'' 100 [demo_event])"
  let ?e = "envelope demo_event"
  define s1 where "s1 = init_delivery\<lparr>dy_rows := [demo_event]\<rparr>"
  define s2 where "s2 = s1\<lparr>dy_rows := ?rows, dy_work := (dy_work s1)(''d'' := [(?e, 0, Delivering)])\<rparr>"
  define s3 where "s3 = s2\<lparr>dy_accepted := [(''d'', ?e)], dy_work := (dy_work s2)(''d'' := [(?e, 0, Accepted)])\<rparr>"
  define s4 where "s4 = s3\<lparr>dy_rows := snd (mark_published 0 ''e1'' ''d'' ?rows), dy_work := (dy_work s3)(''d'' := [])\<rparr>"
  have st1: "outbox_step init_delivery s1"
    using outbox_step.emitted[of demo_event init_delivery] by (simp add: s1_def demo_event_def init_delivery_def)
  have st2: "outbox_step s1 s2"
    using outbox_step.claimed[of s1 "''d''" "{}" 100]
    by (simp add: s1_def s2_def init_delivery_def claim_def Let_def start_work_def claim_batch_def claimable_def demo_event_def outbox_order_def)
  have st3: "outbox_step s2 s3" using outbox_step.accepted[of s2 "''d''" ?e 0 "[]"] by (simp add: s3_def s2_def s1_def init_delivery_def)
  have st4: "outbox_step s3 s4"
    using outbox_step.recorded[of s3 "''d''" ?e 0 "[]"] by (simp add: s4_def s3_def s2_def s1_def init_delivery_def envelope_def demo_event_def)
  have run: "outbox_step\<^sup>*\<^sup>* init_delivery s4"
    by (rule rtranclp_trans[OF _ r_into_rtranclp[of outbox_step, OF st4]], rule rtranclp_trans[OF _ r_into_rtranclp[of outbox_step, OF st3]],
        rule rtranclp_trans[OF r_into_rtranclp[of outbox_step, OF st1] r_into_rtranclp[of outbox_step, OF st2]])
  have "\<exists>r \<in> set (snd (mark_published 0 ''e1'' ''d'' ?rows)). ob_published_at r \<noteq> None" by code_simp
  moreover have "dy_rows s4 = snd (mark_published 0 ''e1'' ''d'' ?rows)" unfolding s4_def by simp
  ultimately have "\<exists>r \<in> set (dy_rows s4). ob_published_at r \<noteq> None" by (simp only:)
  with outbox_delivery_safe[OF run] run show ?thesis by blast
qed

subsection \<open>One dispatcher\<close>

text \<open>Rows that differ in their claims and attempts only.\<close>

definition same_event :: "outbox_row \<Rightarrow> outbox_row \<Rightarrow> bool" where
  "same_event r r' \<longleftrightarrow> envelope r' = envelope r \<and> ob_published_at r' = ob_published_at r"

definition all_free :: "outbox_row list \<Rightarrow> bool" where
  "all_free rows \<longleftrightarrow> (\<forall>r \<in> set rows. ob_published_at r = None \<longrightarrow> ob_claimed_at r = None)"

lemma same_events_upd:
  "(\<And>r. same_event r (f r)) \<Longrightarrow> list_all2 same_event rows (upd_where p f rows)"
  by (simp add: upd_where_def list.rel_map same_event_def list.rel_refl)

lemma same_events_trans:
  "list_all2 same_event xs ys \<Longrightarrow> list_all2 same_event ys zs \<Longrightarrow> list_all2 same_event xs zs"
  by (rule list_all2_trans) (auto simp: same_event_def)

lemma map_insort_key: "map f (insort_key (\<lambda>x. g (f x)) x xs) = insort_key g (f x) (map f xs)"
  by (induction xs) auto

lemma map_sort_key: "map f (sort_key (\<lambda>x. g (f x)) xs) = sort_key g (map f xs)"
  by (induction xs) (simp_all add: map_insort_key)

definition event_order :: "event_envelope list \<Rightarrow> event_envelope list" where
  "event_order es = sort_key en_occurred_at (sort_key en_id es)"

lemma map_outbox_order: "map envelope (outbox_order rows) = event_order (map envelope rows)"
proof -
  have k: "ob_occurred_at = (\<lambda>r. en_occurred_at (envelope r))" "ob_id = (\<lambda>r. en_id (envelope r))"
    by (simp_all add: envelope_def fun_eq_iff)
  show ?thesis unfolding outbox_order_def event_order_def k map_sort_key ..
qed

lemma batch_events:
  assumes "all_free rows"
  shows "map envelope (claim_batch {} now n rows) =
    take n (event_order (map envelope (filter (\<lambda>r. ob_published_at r = None) rows)))"
proof -
  have "filter (claimable {} now) rows = filter (\<lambda>r. ob_published_at r = None) rows"
    using assms by (intro filter_cong) (auto simp: claimable_def all_free_def)
  then show ?thesis by (simp add: claim_batch_def take_map[symmetric] map_outbox_order)
qed

lemma same_events_unpublished:
  "list_all2 same_event rows rows' \<Longrightarrow> map envelope (filter (\<lambda>r. ob_published_at r = None) rows') =
     map envelope (filter (\<lambda>r. ob_published_at r = None) rows)"
  by (induction rule: list_all2_induct) (auto simp: same_event_def)

definition refuses :: "'s sink \<Rightarrow> event_envelope set \<Rightarrow> bool" where
  "refuses sink es \<longleftrightarrow> (\<forall>e \<in> es. \<forall>s. fst (sink e s) \<noteq> None)"

text \<open>Before and while a batch is refused: what is claimed is of the batch and ours.\<close>

definition claimed_by :: "string \<Rightarrow> outbox_row list \<Rightarrow> outbox_row list \<Rightarrow> bool" where
  "claimed_by owner batch rows \<longleftrightarrow> (\<forall>r \<in> set rows. ob_published_at r = None \<and> ob_claimed_at r \<noteq> None \<longrightarrow>
     ob_id r \<in> ob_id ` set batch \<and> owns_claim owner r)"

lemma claimed_by_Nil: "claimed_by owner [] rows \<longleftrightarrow> all_free rows"
  by (auto simp: claimed_by_def all_free_def)

lemma mark_failed_free:
  assumes "claimed_by owner (q # batch) rows" "ids_distinct rows"
  shows "claimed_by owner batch (snd (mark_failed (ob_id q) owner x rows))"
    "list_all2 same_event rows (snd (mark_failed (ob_id q) owner x rows))"
proof -
  let ?rows = "snd (mark_failed (ob_id q) owner x rows)"
  show "list_all2 same_event rows ?rows"
    unfolding mark_failed_def
    by (auto intro!: same_events_upd split: option.split simp: same_event_def envelope_def list.rel_refl)
  show "claimed_by owner batch ?rows"
    unfolding claimed_by_def
  proof (intro ballI impI)
    fix u assume u: "u \<in> set ?rows" "ob_published_at u = None \<and> ob_claimed_at u \<noteq> None"
    show "ob_id u \<in> ob_id ` set batch \<and> owns_claim owner u"
    proof (cases "find_row (\<lambda>r. ob_id r = ob_id q) rows")
      case None
      then have "u \<in> set rows" using u by (simp add: mark_failed_def)
      moreover have "ob_id u \<noteq> ob_id q" using None calculation by (simp add: find_row_None)
      ultimately show ?thesis using assms(1) u(2) by (auto simp: claimed_by_def)
    next
      case (Some r)
      note r = find_row_SomeD[OF Some]
      show ?thesis
      proof (cases "owns_claim owner r")
        case True
        then obtain v where "v \<in> set rows" "u = (if ob_id v = ob_id q
            then v\<lparr>ob_claimed_at := None, ob_claim_owner := None, ob_last_error := Some (take 2000 x)\<rparr> else v)"
          using u(1) Some by (auto simp: mark_failed_def set_upd_where)
        then have "u \<in> set rows \<and> ob_id u \<noteq> ob_id q" using u(2) by (cases "ob_id v = ob_id q") simp_all
        then show ?thesis using assms(1) u(2) by (auto simp: claimed_by_def)
      next
        case False
        then have m: "u \<in> set rows" using u Some by (simp add: mark_failed_def)
        then have "owns_claim owner u" "ob_id u \<in> ob_id ` set (q # batch)" using assms(1) u(2) by (auto simp: claimed_by_def)
        moreover have "ob_id u \<noteq> ob_id q" using ids_distinct_eq[OF assms(2) m, of r] r False calculation(1) by auto
        ultimately show ?thesis by auto
      qed
    qed
  qed
qed

lemma deliver_refused:
  assumes "claimed_by owner batch rows" "ids_distinct rows" "refuses sink (envelope ` set batch)"
  shows "fst (deliver_rows sink now owner batch rows s) = 0 \<and>
    list_all2 same_event rows (fst (snd (deliver_rows sink now owner batch rows s))) \<and>
    all_free (fst (snd (deliver_rows sink now owner batch rows s))) \<and> ids_distinct (fst (snd (deliver_rows sink now owner batch rows s)))"
  using assms
proof (induction batch arbitrary: rows s)
  case Nil
  then show ?case by (simp add: claimed_by_Nil list.rel_refl same_event_def)
next
  case (Cons q batch)
  have "fst (sink (envelope q) s) \<noteq> None" using Cons(4) by (simp add: refuses_def)
  then obtain x s' where x: "sink (envelope q) s = (Some x, s')" by (cases "sink (envelope q) s") auto
  note m = mark_failed_free[OF Cons(2,3), of x]
  have "refuses sink (envelope ` set batch)" using Cons(4) by (simp add: refuses_def)
  from Cons(1)[OF m(1) mark_failed_ids[OF Cons(3)] this] show ?case using x same_events_trans[OF m(2)] by simp
qed

lemma dispatch_refused:
  assumes "all_free rows" "ids_distinct rows" "refuses sink (envelope ` set (claim_batch {} now n rows))"
  shows "fst (dispatch_once sink now owner n rows s) = 0 \<and>
    list_all2 same_event rows (fst (snd (dispatch_once sink now owner n rows s))) \<and>
    all_free (fst (snd (dispatch_once sink now owner n rows s))) \<and> ids_distinct (fst (snd (dispatch_once sink now owner n rows s)))"
proof -
  obtain batch rows' where c: "claim {} now owner n rows = (batch, rows')" by (cases "claim {} now owner n rows")
  note b = claim_result[OF c]
  have "claimed_by owner batch rows'"
    using assms(1) claim_batch_subset[of _ "{}" now n rows] unfolding b claimed_by_def set_upd_where
    by (auto simp: all_free_def owns_claim_def image_image split: if_splits)
  moreover have "ids_distinct rows'" using claim_ids[OF assms(2), of "{}" now owner n] c by simp
  moreover have "refuses sink (envelope ` set batch)" using assms(3) by (auto simp: b(1) refuses_def)
  moreover have "list_all2 same_event rows rows'" unfolding b by (rule same_events_upd) (simp add: same_event_def)
  ultimately show ?thesis using deliver_refused[of owner batch rows' sink now s] same_events_trans c by (auto simp: dispatch_once_def)
qed

text \<open>Rounds of the loop of \<open>run\<close>, at the times of its polls.\<close>

primrec dispatch_rounds :: "'s sink \<Rightarrow> string \<Rightarrow> nat \<Rightarrow> int list \<Rightarrow> outbox_row list \<Rightarrow> 's \<Rightarrow> nat \<times> outbox_row list \<times> 's" where
  "dispatch_rounds sink owner n [] rows s = (0, rows, s)"
| "dispatch_rounds sink owner n (now # polls) rows s =
     (case dispatch_once sink now owner n rows s of (k, rows', s') \<Rightarrow>
      case dispatch_rounds sink owner n polls rows' s' of (j, rows'', s'') \<Rightarrow> (k + j, rows'', s''))"

text \<open>
  C40. A full batch of events that a sink keeps refusing starves every later event: a refused event is released at once
  and is again among the oldest, so that in any number of rounds of one dispatcher nothing is delivered and no
  row becomes published.
\<close>

theorem refused_batch_starves:
  assumes "all_free rows" and "ids_distinct rows" and "refuses sink (envelope ` set (claim_batch {} now n rows))"
  shows "fst (dispatch_rounds sink owner n polls rows s) = 0 \<and>
    map ob_published_at (fst (snd (dispatch_rounds sink owner n polls rows s))) = map ob_published_at rows"
  using assms
proof (induction polls arbitrary: rows s)
  case (Cons t polls)
  have b: "map envelope (claim_batch {} t' n rows') = map envelope (claim_batch {} now n rows)"
    if "all_free rows'" "list_all2 same_event rows rows'" for rows' t'
    using batch_events[OF that(1)] batch_events[OF Cons(2)] same_events_unpublished[OF that(2)] by simp
  have r: "refuses sink (envelope ` set (claim_batch {} t n rows))"
    using Cons(4) arg_cong[OF b[OF Cons(2)], of set t] by (simp add: list.rel_refl same_event_def)
  obtain k rows' s' where d: "dispatch_once sink t owner n rows s = (k, rows', s')" by (cases "dispatch_once sink t owner n rows s")
  have step: "k = 0" "list_all2 same_event rows rows'" "all_free rows'" "ids_distinct rows'"
    using dispatch_refused[OF Cons(2,3) r, of owner s] d by simp_all
  have "refuses sink (envelope ` set (claim_batch {} now n rows'))"
    using Cons(4) arg_cong[OF b[OF step(3,2)], of set now] by simp
  from Cons(1)[OF step(3,4) this, of s'] have ih: "fst (dispatch_rounds sink owner n polls rows' s') = 0 \<and>
    map ob_published_at (fst (snd (dispatch_rounds sink owner n polls rows' s'))) = map ob_published_at rows'" .
  have "map ob_published_at rows' = map ob_published_at rows"
    using step(2) by (induction rule: list_all2_induct) (simp_all add: same_event_def)
  with ih show ?case using d step(1) by (simp split: prod.split)
qed simp

theorem refused_batch_starves_witness:
  "map ob_published_at (fst (snd (dispatch_rounds (\<lambda>e s. (if en_id e = ''e1'' then Some ''RuntimeError'' else None, s)) ''d'' 1 [0, 1, 2]
     [demo_event, demo_event\<lparr>ob_id := ''e2'', ob_occurred_at := 1\<rparr>] ()))) = [None, None]"
proof -
  let ?rows = "[demo_event, demo_event\<lparr>ob_id := ''e2'', ob_occurred_at := 1\<rparr>]"
  have "all_free ?rows" "ids_distinct ?rows" by (simp_all add: all_free_def ids_distinct_def demo_event_def)
  moreover have "claim_batch {} 0 1 ?rows = [demo_event]"
    by (simp add: claim_batch_def claimable_def outbox_order_def demo_event_def)
  then have "refuses (\<lambda>e s. (if en_id e = ''e1'' then Some ''RuntimeError'' else None, s)) (envelope ` set (claim_batch {} 0 1 ?rows))"
    by (simp add: refuses_def envelope_def demo_event_def)
  ultimately have "map ob_published_at (fst (snd (dispatch_rounds (\<lambda>e s. (if en_id e = ''e1'' then Some ''RuntimeError'' else None, s)) ''d'' 1
      [0, 1, 2] ?rows ()))) = map ob_published_at ?rows"
    by (intro conjunct2[OF refused_batch_starves])
  then show ?thesis by (simp add: demo_event_def)
qed

end
