(* ===== verification/Operation_Catalog.thy ===== *)
theory Operation_Catalog
  imports Domain
begin

text \<open>
  The operation catalog of the Control API (\<open>operation_catalog.py\<close>): the registered operations with the permission,
  parameters and risk they declare, the mapping of product features to operations, and the availability ledger of
  the 31 \<open>xy-tasks\<close> actions with its transition gate. Descriptions and reasons, which are text for the
  operator, and the feature inventory with its titles are left out; the checks that the module makes at import
  are a theorem.
\<close>

subsection \<open>Operations\<close>

datatype operation_risk = Standard | Approval

datatype availability = Executable | Contract_Only | Pending_Device_Verification

record operation_definition =
  op_key :: string
  op_module :: string
  op_resource_type :: string
  op_permission :: permission
  op_batch_allowed :: bool
  op_allowed_parameters :: "string list"
  op_risk :: operation_risk
  op_result_type :: string
  op_catalog_id :: "string option"
  op_availability :: availability

definition operation :: "string \<Rightarrow> string \<Rightarrow> string \<Rightarrow> permission \<Rightarrow> bool \<Rightarrow> string list \<Rightarrow> operation_risk \<Rightarrow> string \<Rightarrow>
    string option \<Rightarrow> availability \<Rightarrow> operation_definition" where
  "operation k m r p b ps risk result cid av = \<lparr>op_key = k, op_module = m, op_resource_type = r, op_permission = p,
     op_batch_allowed = b, op_allowed_parameters = ps, op_risk = risk, op_result_type = result, op_catalog_id = cid, op_availability = av\<rparr>"

definition BASE_OPERATIONS_1 :: "operation_definition list" where
  "BASE_OPERATIONS_1 =
    [operation ''accounts.authorization.health_check'' ''accounts'' ''account'' DEVICE_MAINTAIN True [''checks''] Standard ''AccountHealthReportResult'' None Executable,
     operation ''devices.capabilities.refresh'' ''devices'' ''device'' DEVICE_MAINTAIN True [''includeApps''] Standard ''DeviceCapabilityInventoryResult'' None Executable,
     operation ''groups.membership.reindex'' ''groups'' ''content_group'' CONTENT_WRITE True [''dryRun''] Standard ''GroupMembershipIndexResult'' None Executable,
     operation ''media.derivative.generate'' ''media'' ''media_asset'' CONTENT_WRITE True [''derivativeProfileId''] Standard ''MediaDerivativeGeneratedResult'' None Executable,
     operation ''watermarks.preview.render'' ''watermarks'' ''media_asset'' CONTENT_WRITE True [''ruleVersionId''] Standard ''WatermarkPreviewRenderedResult'' None Executable,
     operation ''works.revision.validate'' ''works'' ''content_revision'' CONTENT_WRITE True [''policyVersion''] Standard ''WorkRevisionValidatedResult'' None Executable,
     operation ''publish_plans.snapshot.validate'' ''publish_plans'' ''publish_plan'' PUBLISH_CREATE True [''strict''] Approval ''PublishSnapshotValidatedResult'' None Executable,
     operation ''xianyu.listing.publish'' ''xy_tasks'' ''device'' DEVICE_MAINTAIN False [''listingBody'', ''mediaAssetIds'', ''price'', ''productId''] Standard ''XianyuPublishListingResult'' (Some ''xy-tasks-01'') Executable,
     operation ''task_runs.evidence.export'' ''task_runs'' ''task_run'' PUBLISH_READ True [''format'', ''redact''] Standard ''TaskEvidenceExportResult'' None Executable,
     operation ''automation_packages.qualification.run'' ''automation_packages'' ''automation_package_version'' AUTOMATION_MANAGE True [''matrixProfile''] Standard ''QualificationRunReportResult'' None Executable,
     operation ''debug_sessions.evidence.export'' ''debug_sessions'' ''debug_session'' DEVICE_MAINTAIN True [''format''] Standard ''DebugEvidenceExportResult'' None Executable,
     operation ''apk_artifacts.analysis.run'' ''apk_artifacts'' ''apk_artifact'' APK_MANAGE True [''scanners''] Standard ''ApkArtifactAnalysisResult'' None Executable,
     operation ''apk_rollouts.health_check'' ''apk_rollouts'' ''apk_rollout'' APK_MANAGE True [''observationWindowSeconds''] Standard ''ApkRolloutHealthReportResult'' None Executable,
     operation ''security_policies.export'' ''security_policies'' ''security_policy'' TENANT_ADMIN False [''format''] Standard ''SecurityPolicyExportResult'' None Executable]"

definition BASE_OPERATIONS_2 :: "operation_definition list" where
  "BASE_OPERATIONS_2 =
    [operation ''users_roles.access_review.generate'' ''users_roles'' ''user'' TENANT_ADMIN True [''scope''] Standard ''AccessReviewReportResult'' None Executable,
     operation ''audit_exports.generate'' ''audit_exports'' ''audit_event'' AUDIT_READ False [''format'', ''from'', ''to''] Standard ''AuditExportResult'' None Executable]"

definition XY_OPERATIONS_1 :: "operation_definition list" where
  "XY_OPERATIONS_1 =
    [operation ''xianyu.publish_post'' ''xy_tasks'' ''device'' DEVICE_MAINTAIN False [] Approval ''XianyuPublishPostResult'' (Some ''xy-tasks-02'') Pending_Device_Verification,
     operation ''xianyu.polish_goods'' ''xy_tasks'' ''device'' DEVICE_MAINTAIN True [''intervalSeconds'', ''schedule''] Approval ''XianyuPolishGoodsResult'' (Some ''xy-tasks-03'') Contract_Only,
     operation ''xianyu.shelf_up'' ''xy_tasks'' ''device'' DEVICE_MAINTAIN True [''intervalSeconds''] Approval ''XianyuShelfUpResult'' (Some ''xy-tasks-04'') Contract_Only,
     operation ''xianyu.shelf_down'' ''xy_tasks'' ''device'' DEVICE_MAINTAIN True [''exposure'', ''keyword'', ''views'', ''wants''] Approval ''XianyuShelfDownResult'' (Some ''xy-tasks-05'') Contract_Only,
     operation ''xianyu.delete_goods'' ''xy_tasks'' ''device'' DEVICE_MAINTAIN True [''target''] Approval ''XianyuGoodsDeletedResult'' (Some ''xy-tasks-06'') Contract_Only,
     operation ''xianyu.delete_post'' ''xy_tasks'' ''device'' DEVICE_MAINTAIN True [] Approval ''XianyuPostDeletedResult'' (Some ''xy-tasks-07'') Pending_Device_Verification,
     operation ''xianyu.bind_account'' ''xy_tasks'' ''device'' DEVICE_MAINTAIN True [''memberName''] Approval ''XianyuAccountBoundResult'' (Some ''xy-tasks-08'') Contract_Only,
     operation ''xianyu.checkin_coins'' ''xy_tasks'' ''device'' DEVICE_MAINTAIN True [''jumpTask''] Approval ''XianyuCoinCheckinResult'' (Some ''xy-tasks-09'') Contract_Only,
     operation ''xianyu.coin_discount'' ''xy_tasks'' ''device'' DEVICE_MAINTAIN True [''dikouTarget'', ''dikouType'', ''intervalSeconds''] Approval ''XianyuCoinDiscountAppliedResult'' (Some ''xy-tasks-10'') Contract_Only]"

definition XY_OPERATIONS_2 :: "operation_definition list" where
  "XY_OPERATIONS_2 =
    [operation ''xianyu.coin_promote'' ''xy_tasks'' ''device'' DEVICE_MAINTAIN True [''promoteItem'', ''promotePackage''] Approval ''XianyuCoinPromoteStartedResult'' (Some ''xy-tasks-11'') Contract_Only,
     operation ''xianyu.bargain'' ''xy_tasks'' ''device'' DEVICE_MAINTAIN True [''privateMessage'', ''xiaodaoType''] Approval ''XianyuBargainOfferedResult'' (Some ''xy-tasks-12'') Contract_Only,
     operation ''xianyu.price_cut'' ''xy_tasks'' ''device'' DEVICE_MAINTAIN True [''amountCut'', ''percentCut'', ''target''] Approval ''XianyuPriceUpdatedResult'' (Some ''xy-tasks-13'') Contract_Only,
     operation ''xianyu.review'' ''xy_tasks'' ''device'' DEVICE_MAINTAIN True [''reviewBody'', ''reviewTarget''] Approval ''XianyuReviewPostedResult'' (Some ''xy-tasks-14'') Contract_Only,
     operation ''xianyu.restart_app'' ''xy_tasks'' ''device'' DEVICE_MAINTAIN True [] Approval ''XianyuAppRestartedResult'' (Some ''xy-tasks-15'') Contract_Only,
     operation ''xianyu.delete_feed'' ''xy_tasks'' ''device'' DEVICE_MAINTAIN True [''quantity''] Approval ''XianyuFeedDeletedResult'' (Some ''xy-tasks-16'') Contract_Only,
     operation ''xianyu.delete_message'' ''xy_tasks'' ''device'' DEVICE_MAINTAIN True [''messageAction''] Approval ''XianyuMessageDeletedResult'' (Some ''xy-tasks-17'') Contract_Only,
     operation ''xianyu.delete_comment'' ''xy_tasks'' ''device'' DEVICE_MAINTAIN True [''quantity''] Approval ''XianyuCommentDeletedResult'' (Some ''xy-tasks-18'') Contract_Only,
     operation ''xianyu.draft_publish'' ''xy_tasks'' ''device'' DEVICE_MAINTAIN True [] Approval ''XianyuDraftRelistedResult'' (Some ''xy-tasks-19'') Contract_Only]"

definition XY_OPERATIONS_3 :: "operation_definition list" where
  "XY_OPERATIONS_3 =
    [operation ''xianyu.reedit'' ''xy_tasks'' ''device'' DEVICE_MAINTAIN True [''addressPool'', ''intervalSeconds''] Approval ''XianyuReeditRelistedResult'' (Some ''xy-tasks-20'') Contract_Only,
     operation ''xianyu.wuyoumai'' ''xy_tasks'' ''device'' DEVICE_MAINTAIN True [''wuyoumaiType''] Approval ''XianyuWuyoumaiEnabledResult'' (Some ''xy-tasks-21'') Contract_Only,
     operation ''xianyu.fast_reedit'' ''xy_tasks'' ''device'' DEVICE_MAINTAIN True [''autoShortTitle''] Approval ''XianyuFastReeditRelistedResult'' (Some ''xy-tasks-22'') Contract_Only,
     operation ''xianyu.fast_shelf_down'' ''xy_tasks'' ''device'' DEVICE_MAINTAIN True [] Approval ''XianyuFastShelfDownResult'' (Some ''xy-tasks-23'') Contract_Only,
     operation ''xianyu.collect_listings'' ''xy_tasks'' ''device'' DEVICE_MAINTAIN True [] Standard ''XianyuListingsCollectedResult'' (Some ''xy-tasks-24'') Contract_Only,
     operation ''xianyu.shared.generic_address_pool'' ''xy_tasks'' ''address_pool'' CONTENT_WRITE True [] Standard ''GenericAddressPoolUpdatedResult'' (Some ''xy-tasks-25'') Contract_Only,
     operation ''xianyu.shared.device_address_pool'' ''xy_tasks'' ''address_pool'' CONTENT_WRITE True [] Standard ''DeviceAddressPoolUpdatedResult'' (Some ''xy-tasks-26'') Contract_Only,
     operation ''xianyu.shared.description_pool'' ''xy_tasks'' ''description_pool'' CONTENT_WRITE True [] Standard ''DescriptionPoolUpdatedResult'' (Some ''xy-tasks-27'') Contract_Only,
     operation ''xianyu.shared.tag_pool'' ''xy_tasks'' ''tag_pool'' CONTENT_WRITE True [] Standard ''TagPoolUpdatedResult'' (Some ''xy-tasks-28'') Contract_Only]"

definition XY_OPERATIONS_4 :: "operation_definition list" where
  "XY_OPERATIONS_4 =
    [operation ''xianyu.shared.watermark'' ''xy_tasks'' ''media_asset'' CONTENT_WRITE True [''ruleVersionId''] Standard ''XianyuWatermarkRenderedResult'' (Some ''xy-tasks-29'') Contract_Only,
     operation ''content.forbidden_words.scan'' ''xy_tasks'' ''content_revision'' CONTENT_WRITE True [''policyVersion''] Standard ''ForbiddenWordsScanResult'' (Some ''xy-tasks-30'') Contract_Only,
     operation ''xianyu.guide.videos'' ''xy_tasks'' ''feature_guide'' CONTENT_READ False [] Standard ''VideoGuideContentResult'' (Some ''xy-tasks-31'') Contract_Only]"

definition XY_TASK_DEFINITIONS :: "operation_definition list" where
  "XY_TASK_DEFINITIONS = XY_OPERATIONS_1 @ XY_OPERATIONS_2 @ XY_OPERATIONS_3 @ XY_OPERATIONS_4"

definition DEFINITIONS :: "operation_definition list" where
  "DEFINITIONS = BASE_OPERATIONS_1 @ BASE_OPERATIONS_2 @ XY_TASK_DEFINITIONS"

text \<open>The lookups; a dictionary comprehension keeps the last of equal keys, and the keys are distinct.\<close>

definition by_key :: "string \<Rightarrow> operation_definition option" where
  "by_key k = find_row (\<lambda>d. op_key d = k) (rev DEFINITIONS)"

definition by_catalog_id :: "string \<Rightarrow> operation_definition option" where
  "by_catalog_id i = find_row (\<lambda>d. op_catalog_id d = Some i) (rev DEFINITIONS)"

text \<open>\<open>f"{module}-{index:02d}"\<close> for \<open>index\<close> from 1.\<close>

definition two_digits :: "nat \<Rightarrow> string" where
  "two_digits n = (if n < 10 then ''0'' @ dec_nat n else dec_nat n)"

definition feature_id :: "string \<Rightarrow> nat \<Rightarrow> string" where
  "feature_id m n = m @ ''-'' @ two_digits n"

definition XY_TASK_CATALOG_IDS :: "string list" where
  "XY_TASK_CATALOG_IDS = map (feature_id ''xy-tasks'') [1..<32]"

subsection \<open>Features\<close>

definition FEATURE_MODULE_COUNTS :: "(string \<times> nat) list" where
  "FEATURE_MODULE_COUNTS = [(''system-home'', 10), (''task-queue'', 1), (''product-editor'', 10), (''collection'', 14), (''product-management'', 10), (''post-management'', 9), (''orders'', 5), (''analytics'', 3), (''xy-tasks'', 31), (''zz-tasks'', 9), (''red-tasks'', 4), (''creative'', 4), (''chat'', 11), (''assets'', 8), (''profile'', 5)]"

definition FEATURE_OPERATIONS :: "(string \<times> string) list" where
  "FEATURE_OPERATIONS =
    [(''system-home-02'', ''devices.capabilities.refresh''),
     (''system-home-03'', ''accounts.authorization.health_check''),
     (''task-queue-01'', ''task_runs.evidence.export''),
     (''product-editor-03'', ''watermarks.preview.render''),
     (''product-management-03'', ''groups.membership.reindex''),
     (''product-management-05'', ''publish_plans.snapshot.validate''),
     (''product-management-09'', ''works.revision.validate''),
     (''post-management-05'', ''watermarks.preview.render''),
     (''post-management-07'', ''publish_plans.snapshot.validate''),
     (''post-management-08'', ''publish_plans.snapshot.validate''),
     (''zz-tasks-01'', ''publish_plans.snapshot.validate''),
     (''red-tasks-01'', ''publish_plans.snapshot.validate''),
     (''assets-01'', ''watermarks.preview.render''),
     (''assets-02'', ''media.derivative.generate'')]"

definition FEATURE_IDS :: "string list" where
  "FEATURE_IDS = concat (map (\<lambda>(m, n). map (feature_id m) [1..<Suc n]) FEATURE_MODULE_COUNTS)"

text \<open>\<open>FEATURE_OPERATION_MAP\<close>: \<open>None\<close> is an unknown feature, \<open>Some None\<close> one without an operation.\<close>

definition feature_operation :: "string \<Rightarrow> string option option" where
  "feature_operation i =
     (if i \<in> set XY_TASK_CATALOG_IDS then Some (map_option op_key (by_catalog_id i))
      else case map_of FEATURE_OPERATIONS i of
        Some k \<Rightarrow> Some (Some k)
      | None \<Rightarrow> if i \<in> set FEATURE_IDS then Some None else None)"

definition BLOCKED_FEATURE_IDS :: "string list" where
  "BLOCKED_FEATURE_IDS = map (feature_id ''collection'') [1..<13] @
     [''orders-02'', ''orders-03'', ''xy-tasks-09'', ''xy-tasks-10'', ''xy-tasks-11'', ''xy-tasks-14'', ''zz-tasks-06'', ''zz-tasks-07'',
      ''red-tasks-03'', ''red-tasks-04'']"

subsection \<open>The availability ledger\<close>

datatype ledger_state = Enabled | Pending | Policy_Blocked | Out_Of_Scope

definition LEDGER_EVIDENCE_KEYS :: "string list" where
  "LEDGER_EVIDENCE_KEYS = [''command_v1_lane'', ''t102_verification'', ''budget_cap'', ''target_authorization'',
     ''platform_entry_evidence'', ''scan_executor_wiring'']"

definition XY_PENDING_DEVICE_VERIFICATION_IDS :: "string list" where
  "XY_PENDING_DEVICE_VERIFICATION_IDS = filter (\<lambda>i. case by_catalog_id i of
     Some d \<Rightarrow> op_availability d = Pending_Device_Verification | None \<Rightarrow> False) XY_TASK_CATALOG_IDS"

definition XY_OUT_OF_SCOPE_IDS :: "string list" where
  "XY_OUT_OF_SCOPE_IDS = [''xy-tasks-25'', ''xy-tasks-26'', ''xy-tasks-27'', ''xy-tasks-28'', ''xy-tasks-29'', ''xy-tasks-31'']"

definition XY_SENSITIVE_IDS :: "string list" where
  "XY_SENSITIVE_IDS = [''xy-tasks-09'', ''xy-tasks-10'', ''xy-tasks-11'', ''xy-tasks-14'', ''xy-tasks-16'', ''xy-tasks-17'', ''xy-tasks-18'']"

definition XY_POLICY_BLOCKED_IDS :: "string list" where
  "XY_POLICY_BLOCKED_IDS = filter (\<lambda>i. i \<in> set BLOCKED_FEATURE_IDS) XY_TASK_CATALOG_IDS"

definition X11_PACKAGES :: "string list" where
  "X11_PACKAGES = [''P29'', ''P31'', ''P33'', ''P35'', ''P37'']"

definition X10_PACKAGES :: "string list" where
  "X10_PACKAGES = [''P30'', ''P32'', ''P34'', ''P36'', ''P38'', ''P39'']"

definition ALL_DEVICE_PACKAGES :: "string list" where
  "ALL_DEVICE_PACKAGES = map (\<lambda>n. ''P'' @ two_digits n) [29..<40]"

definition SHARED_SERVICE_PACKAGES :: "string list" where
  "SHARED_SERVICE_PACKAGES = [''P46'', ''P49'']"

definition DELETION_IDS :: "string list" where
  "DELETION_IDS = [''xy-tasks-06'', ''xy-tasks-07'', ''xy-tasks-16'', ''xy-tasks-17'', ''xy-tasks-18'']"

definition ledger_refs :: "string \<Rightarrow> string list \<times> string list" where
  "ledger_refs i =
     (if i \<in> set XY_POLICY_BLOCKED_IDS then ([''X12''], ALL_DEVICE_PACKAGES)
      else if i \<in> set XY_OUT_OF_SCOPE_IDS then ([''X12''], SHARED_SERVICE_PACKAGES)
      else if i = ''xy-tasks-30'' then ([''X12''], [''P46''])
      else if i = ''xy-tasks-01'' then ([''A05'', ''X11'', ''X12''], X11_PACKAGES)
      else ((if i \<in> set DELETION_IDS then ''X10'' else ''X11'') #
            (if i \<in> set XY_PENDING_DEVICE_VERIFICATION_IDS then [''T102''] else []) @ [''X12''],
            if i \<in> set DELETION_IDS then X10_PACKAGES else X11_PACKAGES))"

definition ledger_state_of :: "string \<Rightarrow> ledger_state" where
  "ledger_state_of i =
     (if i \<in> set XY_POLICY_BLOCKED_IDS then Policy_Blocked
      else if i \<in> set XY_OUT_OF_SCOPE_IDS then Out_Of_Scope
      else if map_option op_availability (by_catalog_id i) = Some Executable then Enabled
      else Pending)"

definition ledger_enable_requires :: "string \<Rightarrow> string list" where
  "ledger_enable_requires i =
     (if ledger_state_of i \<in> {Policy_Blocked, Out_Of_Scope, Enabled} then []
      else
        let requires = (if i \<in> set XY_PENDING_DEVICE_VERIFICATION_IDS then [''t102_verification'', ''command_v1_lane''] else [''command_v1_lane'']) in
        if i = ''xy-tasks-30'' then [''scan_executor_wiring'']
        else if i \<in> set XY_SENSITIVE_IDS
        then requires @ [''target_authorization'', ''platform_entry_evidence''] @ (if i \<in> {''xy-tasks-16'', ''xy-tasks-18''} then [''budget_cap''] else [])
        else requires)"

text \<open>\<open>lg_sensitive\<close> is whether the row carries a discipline record, whose texts are left out.\<close>

record ledger_entry =
  lg_catalog_id :: string
  lg_operation_key :: string
  lg_state :: ledger_state
  lg_task_refs :: "string list"
  lg_package_refs :: "string list"
  lg_enable_requires :: "string list"
  lg_sensitive :: bool

definition LEDGER_SENSITIVE :: "string list" where
  "LEDGER_SENSITIVE = [''xy-tasks-09'', ''xy-tasks-10'', ''xy-tasks-11'', ''xy-tasks-14'', ''xy-tasks-16'', ''xy-tasks-17'', ''xy-tasks-18'']"

definition ledger_entry_of :: "string \<Rightarrow> ledger_entry" where
  "ledger_entry_of i = \<lparr>lg_catalog_id = i, lg_operation_key = (case by_catalog_id i of Some d \<Rightarrow> op_key d | None \<Rightarrow> []),
     lg_state = ledger_state_of i, lg_task_refs = fst (ledger_refs i), lg_package_refs = snd (ledger_refs i),
     lg_enable_requires = ledger_enable_requires i, lg_sensitive = (i \<in> set LEDGER_SENSITIVE)\<rparr>"

definition XY_AVAILABILITY_LEDGER :: "ledger_entry list" where
  "XY_AVAILABILITY_LEDGER = map ledger_entry_of XY_TASK_CATALOG_IDS"

definition evaluate_ledger_transition :: "ledger_entry \<Rightarrow> (string \<times> bool) list \<Rightarrow> bool \<Rightarrow> ledger_state" where
  "evaluate_ledger_transition entry evidence executor_available =
     (case lg_state entry of
        Policy_Blocked \<Rightarrow> Policy_Blocked
      | Out_Of_Scope \<Rightarrow> Out_Of_Scope
      | Enabled \<Rightarrow> Enabled
      | Pending \<Rightarrow>
          (if filter (\<lambda>k. map_of evidence k \<noteq> Some True) (lg_enable_requires entry) \<noteq> [] \<or> \<not> executor_available then Pending
           else Enabled))"

subsection \<open>The checks at import\<close>

definition ledger_row_ok :: "ledger_entry \<Rightarrow> bool" where
  "ledger_row_ok e \<longleftrightarrow>
     (lg_state e = Enabled \<longrightarrow> map_option op_availability (by_catalog_id (lg_catalog_id e)) = Some Executable) \<and>
     (lg_state e = Policy_Blocked \<longrightarrow> lg_catalog_id e \<in> set BLOCKED_FEATURE_IDS) \<and>
     (lg_state e = Out_Of_Scope \<longrightarrow> lg_catalog_id e \<in> set XY_OUT_OF_SCOPE_IDS) \<and>
     \<not> (lg_catalog_id e \<in> set XY_SENSITIVE_IDS \<and> lg_state e = Enabled) \<and>
     \<not> (lg_enable_requires e = [] \<and> lg_state e = Pending) \<and>
     \<not> (lg_enable_requires e \<noteq> [] \<and> lg_state e \<noteq> Pending) \<and>
     set (lg_enable_requires e) \<subseteq> set LEDGER_EVIDENCE_KEYS \<and>
     ''X12'' \<in> set (lg_task_refs e) \<and> lg_package_refs e \<noteq> [] \<and>
     (lg_catalog_id e \<in> set XY_SENSITIVE_IDS \<longrightarrow> lg_sensitive e)"

lemma catalog_keys_distinct: "distinct (map op_key DEFINITIONS) \<and> (\<forall>d \<in> set DEFINITIONS. op_result_type d \<noteq> [])"
  by code_simp

lemma catalog_ids_complete: "set XY_TASK_CATALOG_IDS = set (List.map_filter op_catalog_id DEFINITIONS)"
  by code_simp

lemma sensitive_not_executable:
  "i \<in> {''xy-tasks-16'', ''xy-tasks-17'', ''xy-tasks-18''} \<Longrightarrow> map_option op_availability (by_catalog_id i) \<noteq> Some Executable"
  unfolding by_catalog_id_def DEFINITIONS_def XY_TASK_DEFINITIONS_def rev_append
  by (elim insertE emptyE) (simp_all add: operation_def XY_OPERATIONS_1_def XY_OPERATIONS_2_def XY_OPERATIONS_3_def XY_OPERATIONS_4_def)

lemma XY_TASK_CATALOG_IDS_values:
  "XY_TASK_CATALOG_IDS = [''xy-tasks-01'', ''xy-tasks-02'', ''xy-tasks-03'', ''xy-tasks-04'', ''xy-tasks-05'', ''xy-tasks-06'', ''xy-tasks-07'',
     ''xy-tasks-08'', ''xy-tasks-09'', ''xy-tasks-10'', ''xy-tasks-11'', ''xy-tasks-12'', ''xy-tasks-13'', ''xy-tasks-14'', ''xy-tasks-15'',
     ''xy-tasks-16'', ''xy-tasks-17'', ''xy-tasks-18'', ''xy-tasks-19'', ''xy-tasks-20'', ''xy-tasks-21'', ''xy-tasks-22'', ''xy-tasks-23'',
     ''xy-tasks-24'', ''xy-tasks-25'', ''xy-tasks-26'', ''xy-tasks-27'', ''xy-tasks-28'', ''xy-tasks-29'', ''xy-tasks-30'', ''xy-tasks-31'']"
  by code_simp

lemma sensitive_ids:
  "i \<in> set XY_SENSITIVE_IDS \<Longrightarrow> i \<in> set XY_POLICY_BLOCKED_IDS \<or> i \<in> {''xy-tasks-16'', ''xy-tasks-17'', ''xy-tasks-18''}"
proof -
  have "list_all (\<lambda>i. i \<in> set XY_POLICY_BLOCKED_IDS) [''xy-tasks-09'', ''xy-tasks-10'', ''xy-tasks-11'', ''xy-tasks-14'']"
    by (simp add: XY_POLICY_BLOCKED_IDS_def XY_TASK_CATALOG_IDS_values BLOCKED_FEATURE_IDS_def)
  then show "i \<in> set XY_SENSITIVE_IDS \<Longrightarrow> i \<in> set XY_POLICY_BLOCKED_IDS \<or> i \<in> {''xy-tasks-16'', ''xy-tasks-17'', ''xy-tasks-18''}"
    unfolding XY_SENSITIVE_IDS_def list.pred_inject list.set insert_iff empty_iff by metis
qed

text \<open>A sensitive action is blocked by policy, or pending.\<close>

lemma sensitive_state: "i \<in> set XY_SENSITIVE_IDS \<Longrightarrow> ledger_state_of i \<noteq> Enabled"
  using sensitive_ids[of i] sensitive_not_executable[of i] by (auto simp only: ledger_state_of_def split: if_splits)

lemma packages_nonempty:
  "ALL_DEVICE_PACKAGES \<noteq> []" "SHARED_SERVICE_PACKAGES \<noteq> []" "X11_PACKAGES \<noteq> []" "X10_PACKAGES \<noteq> []"
  by (simp_all add: ALL_DEVICE_PACKAGES_def SHARED_SERVICE_PACKAGES_def X11_PACKAGES_def X10_PACKAGES_def)

lemma ledger_state_cases:
  "ledger_state_of i = Enabled \<Longrightarrow> map_option op_availability (by_catalog_id i) = Some Executable"
  "ledger_state_of i = Policy_Blocked \<Longrightarrow> i \<in> set BLOCKED_FEATURE_IDS"
  "ledger_state_of i = Out_Of_Scope \<Longrightarrow> i \<in> set XY_OUT_OF_SCOPE_IDS"
  by (simp_all only: ledger_state_of_def XY_POLICY_BLOCKED_IDS_def set_filter mem_Collect_eq ledger_state.distinct split: if_splits)

lemma ledger_refs_ok: "''X12'' \<in> set (fst (ledger_refs i)) \<and> snd (ledger_refs i) \<noteq> []"
  unfolding ledger_refs_def using packages_nonempty by simp

lemma ledger_requires_ok:
  "(ledger_enable_requires i = [] \<longleftrightarrow> ledger_state_of i \<noteq> Pending) \<and> set (ledger_enable_requires i) \<subseteq> set LEDGER_EVIDENCE_KEYS"
  unfolding ledger_enable_requires_def Let_def LEDGER_EVIDENCE_KEYS_def by (cases "ledger_state_of i") auto

lemma ledger_rows_ok: "ledger_row_ok (ledger_entry_of i)"
proof -
  have "i \<in> set XY_SENSITIVE_IDS \<Longrightarrow> i \<in> set LEDGER_SENSITIVE"
    unfolding XY_SENSITIVE_IDS_def LEDGER_SENSITIVE_def by auto
  then show ?thesis
    unfolding ledger_row_ok_def ledger_entry_of_def ledger_entry.simps
    using ledger_state_cases[of i] ledger_refs_ok[of i] ledger_requires_ok[of i] sensitive_state[of i] by blast
qed

text \<open>
  The transition gate: a row that is not enabled becomes enabled only from pending, with a deployed executor and
  every piece of evidence it requires; a sensitive action requires the authorization of its target and
  the evidence of its platform entry.
\<close>

lemma ledger_gate:
  assumes "evaluate_ledger_transition (ledger_entry_of i) evidence executor_available = Enabled" and "ledger_state_of i \<noteq> Enabled"
  shows "ledger_state_of i = Pending \<and> executor_available \<and> ledger_enable_requires i \<noteq> [] \<and>
    (\<forall>k \<in> set (ledger_enable_requires i). map_of evidence k = Some True) \<and>
    (i \<in> set XY_SENSITIVE_IDS \<longrightarrow> i \<notin> set BLOCKED_FEATURE_IDS \<and>
       map_of evidence ''target_authorization'' = Some True \<and> map_of evidence ''platform_entry_evidence'' = Some True)"
proof -
  have p: "ledger_state_of i = Pending" "executor_available" "\<forall>k \<in> set (ledger_enable_requires i). map_of evidence k = Some True"
    using assms by (auto simp: evaluate_ledger_transition_def ledger_entry_of_def filter_empty_conv split: ledger_state.splits if_splits)
  have "i \<notin> set XY_POLICY_BLOCKED_IDS" using p(1) by (auto simp only: ledger_state_of_def split: if_splits)
  then have s: "i \<in> set XY_SENSITIVE_IDS \<Longrightarrow> i \<in> {''xy-tasks-16'', ''xy-tasks-17'', ''xy-tasks-18''}" using sensitive_ids by blast
  have "''target_authorization'' \<in> set (ledger_enable_requires i) \<and> ''platform_entry_evidence'' \<in> set (ledger_enable_requires i)"
    if "i \<in> set XY_SENSITIVE_IDS"
    using s[OF that] p(1) that unfolding ledger_enable_requires_def Let_def by auto
  moreover have "i \<notin> set BLOCKED_FEATURE_IDS" if "i \<in> set XY_SENSITIVE_IDS"
    using s[OF that] unfolding BLOCKED_FEATURE_IDS_def by (auto simp: feature_id_def)
  ultimately show ?thesis using p ledger_requires_ok[of i] by blast
qed

lemma by_key_some: "d \<in> set DEFINITIONS \<Longrightarrow> by_key (op_key d) = Some d"
  using catalog_keys_distinct unfolding by_key_def by (intro find_row_unique) (simp_all add: rev_map[symmetric])

lemma by_key_Some: "by_key k = Some d \<Longrightarrow> op_key d = k \<and> d \<in> set DEFINITIONS"
  by (auto simp: by_key_def dest: find_row_SomeD)

end
