(* ===== verification/Operation_Config.thy ===== *)
theory Operation_Config
  imports Domain
begin

text \<open>
  The validation of feature configurations (\<open>validate_feature_configuration\<close> of \<open>operation_schemas.py\<close>): the
  traversal with its counter of nodes as the code has it, and what it accepts, stated without a traversal order.
\<close>

subsection \<open>The traversal\<close>

definition MAX_FEATURE_CONFIG_BYTES :: nat where "MAX_FEATURE_CONFIG_BYTES = 65536"

definition MAX_FEATURE_CONFIG_DEPTH :: nat where "MAX_FEATURE_CONFIG_DEPTH = 8"

definition MAX_FEATURE_CONFIG_NODES :: nat where "MAX_FEATURE_CONFIG_NODES = 2048"

definition MAX_FEATURE_CONFIG_ITEMS :: nat where "MAX_FEATURE_CONFIG_ITEMS = 256"

definition MAX_FEATURE_CONFIG_KEY_LENGTH :: nat where "MAX_FEATURE_CONFIG_KEY_LENGTH = 128"

definition MAX_FEATURE_CONFIG_STRING_LENGTH :: nat where "MAX_FEATURE_CONFIG_STRING_LENGTH = 8192"

definition DANGEROUS_FEATURE_CONFIG_KEYS :: "string list" where
  "DANGEROUS_FEATURE_CONFIG_KEYS = [''allowed'', ''captcha'', ''command'', ''constructor'', ''executable'', ''executionstate'', ''frida'',
     ''mitm'', ''operationkey'', ''policy'', ''proto'', ''prototype'', ''proxy'', ''risk'', ''script'', ''shell'', ''where'']"

definition DANGEROUS_FEATURE_CONFIG_PREFIXES :: "string list" where
  "DANGEROUS_FEATURE_CONFIG_PREFIXES = [''adb'', ''captcha'', ''command'', ''frida'', ''mitm'', ''proxy'', ''script'', ''shell'']"

definition DANGEROUS_FEATURE_CONFIG_SUFFIXES :: "string list" where
  "DANGEROUS_FEATURE_CONFIG_SUFFIXES = [''credential'', ''password'', ''pem'', ''privatekey'', ''secret'', ''token'']"

definition config_letter :: "char \<Rightarrow> bool" where
  "config_letter c \<longleftrightarrow> CHR ''a'' \<le> c \<and> c \<le> CHR ''z'' \<or> CHR ''0'' \<le> c \<and> c \<le> CHR ''9''"

definition normalized_config_key :: "string \<Rightarrow> string" where
  "normalized_config_key k = filter config_letter (str_lower k)"

definition starts_like :: "string \<Rightarrow> string \<Rightarrow> bool" where
  "starts_like p s \<longleftrightarrow> take (length p) s = p"

definition dangerous_key :: "string \<Rightarrow> bool" where
  "dangerous_key k \<longleftrightarrow> normalized_config_key k \<in> set DANGEROUS_FEATURE_CONFIG_KEYS \<or>
     list_ex (\<lambda>p. starts_like p (normalized_config_key k)) DANGEROUS_FEATURE_CONFIG_PREFIXES \<or>
     list_ex (\<lambda>p. starts_like (rev p) (rev (normalized_config_key k))) DANGEROUS_FEATURE_CONFIG_SUFFIXES"

definition check_key :: "string \<Rightarrow> string + unit" where
  "check_key k =
     (if k = [] \<or> length k > MAX_FEATURE_CONFIG_KEY_LENGTH then Inl ''configuration keys must contain 1 to 128 characters''
      else if \<exists>c \<in> set k. (of_char c :: nat) < 32 then Inl ''configuration keys cannot contain control characters''
      else if dangerous_key k then Inl (''dangerous configuration key is prohibited: '' @ k)
      else Inr ())"

text \<open>The counter of the nodes goes through the traversal; a JSON value has only finite numbers.\<close>

fun inspect_config :: "nat \<Rightarrow> nat \<Rightarrow> json \<Rightarrow> string + nat"
  and inspect_config_list :: "nat \<Rightarrow> nat \<Rightarrow> json list \<Rightarrow> string + nat"
  and inspect_config_object :: "nat \<Rightarrow> nat \<Rightarrow> (string \<times> json) list \<Rightarrow> string + nat" where
  "inspect_config count depth v =
     (if count + 1 > MAX_FEATURE_CONFIG_NODES then Inl ''configuration exceeds the node limit''
      else if depth > MAX_FEATURE_CONFIG_DEPTH then Inl ''configuration exceeds the maximum nesting depth''
      else (case v of
          JObj d \<Rightarrow> if length d > MAX_FEATURE_CONFIG_ITEMS then Inl ''configuration object exceeds the item limit''
            else inspect_config_object (count + 1) depth d
        | JList vs \<Rightarrow> if length vs > MAX_FEATURE_CONFIG_ITEMS then Inl ''configuration array exceeds the item limit''
            else inspect_config_list (count + 1) depth vs
        | JStr s \<Rightarrow> if length s > MAX_FEATURE_CONFIG_STRING_LENGTH then Inl ''configuration string exceeds 8192 characters'' else Inr (count + 1)
        | _ \<Rightarrow> Inr (count + 1)))"
| "inspect_config_list count depth [] = Inr count"
| "inspect_config_list count depth (v # vs) =
     (case inspect_config count (depth + 1) v of Inl e \<Rightarrow> Inl e | Inr n \<Rightarrow> inspect_config_list n depth vs)"
| "inspect_config_object count depth [] = Inr count"
| "inspect_config_object count depth ((k, v) # d) = (case check_key k of
     Inl e \<Rightarrow> Inl e
   | Inr _ \<Rightarrow> (case inspect_config count (depth + 1) v of Inl e \<Rightarrow> Inl e | Inr n \<Rightarrow> inspect_config_object n depth d))"

text \<open>\<open>encoded_size\<close> gives the length of the UTF-8 encoding, or \<open>None\<close> where the encoder raises.\<close>

definition validate_feature_configuration :: "(dict \<Rightarrow> nat option) \<Rightarrow> dict \<Rightarrow> string + dict" where
  "validate_feature_configuration encoded_size d = (case encoded_size d of
     None \<Rightarrow> Inl ''configuration must contain finite JSON values''
   | Some n \<Rightarrow>
       if n > MAX_FEATURE_CONFIG_BYTES then Inl ''configuration exceeds 64 KiB''
       else (case inspect_config 0 1 (JObj d) of Inl e \<Rightarrow> Inl e | Inr _ \<Rightarrow> Inr d))"

subsection \<open>What it accepts\<close>

text \<open>The nodes of a value, the nesting of its innermost node, and a local condition on every node.\<close>

fun node_count :: "json \<Rightarrow> nat" where
  "node_count JNull = 1"
| "node_count (JBool b) = 1"
| "node_count (JInt i) = 1"
| "node_count (JFloat r) = 1"
| "node_count (JStr s) = 1"
| "node_count (JList vs) = Suc (sum_list (map node_count vs))"
| "node_count (JObj d) = Suc (sum_list (map (\<lambda>(k, v). node_count v) d))"

inductive nested_in :: "json \<Rightarrow> nat \<Rightarrow> json \<Rightarrow> bool" where
  here: "nested_in v (Suc 0) v"
| item: "w \<in> set vs \<Longrightarrow> nested_in w n u \<Longrightarrow> nested_in (JList vs) (Suc n) u"
| field: "(k, w) \<in> set d \<Longrightarrow> nested_in w n u \<Longrightarrow> nested_in (JObj d) (Suc n) u"

definition node_fits :: "json \<Rightarrow> bool" where
  "node_fits v \<longleftrightarrow> (case v of
     JObj d \<Rightarrow> length d \<le> MAX_FEATURE_CONFIG_ITEMS \<and> (\<forall>k \<in> fst ` set d. check_key k = Inr ())
   | JList vs \<Rightarrow> length vs \<le> MAX_FEATURE_CONFIG_ITEMS
   | JStr s \<Rightarrow> length s \<le> MAX_FEATURE_CONFIG_STRING_LENGTH
   | _ \<Rightarrow> True)"

definition config_fits :: "nat \<Rightarrow> json \<Rightarrow> bool" where
  "config_fits depth v \<longleftrightarrow> (\<forall>n u. nested_in v n u \<longrightarrow> depth + n \<le> Suc MAX_FEATURE_CONFIG_DEPTH \<and> node_fits u)"

inductive_simps nested_list: "nested_in (JList vs) n u"
inductive_simps nested_object: "nested_in (JObj d) n u"

lemma nested_leaf:
  "nested_in JNull n u \<longleftrightarrow> n = Suc 0 \<and> u = JNull" "nested_in (JBool b) n u \<longleftrightarrow> n = Suc 0 \<and> u = JBool b"
  "nested_in (JInt i) n u \<longleftrightarrow> n = Suc 0 \<and> u = JInt i" "nested_in (JFloat r) n u \<longleftrightarrow> n = Suc 0 \<and> u = JFloat r"
  "nested_in (JStr s) n u \<longleftrightarrow> n = Suc 0 \<and> u = JStr s"
  by (auto elim: nested_in.cases intro: nested_in.here)

lemma nested_all_list:
  "(\<forall>n u. nested_in (JList vs) n u \<longrightarrow> P n u) \<longleftrightarrow> P (Suc 0) (JList vs) \<and> (\<forall>w \<in> set vs. \<forall>n u. nested_in w n u \<longrightarrow> P (Suc n) u)"
  unfolding nested_list by blast

lemma nested_all_object:
  "(\<forall>n u. nested_in (JObj d) n u \<longrightarrow> P n u) \<longleftrightarrow> P (Suc 0) (JObj d) \<and> (\<forall>(k, w) \<in> set d. \<forall>n u. nested_in w n u \<longrightarrow> P (Suc n) u)"
  unfolding nested_object by blast

lemma config_fits_leaf:
  "config_fits depth JNull \<longleftrightarrow> depth \<le> MAX_FEATURE_CONFIG_DEPTH" "config_fits depth (JBool b) \<longleftrightarrow> depth \<le> MAX_FEATURE_CONFIG_DEPTH"
  "config_fits depth (JInt i) \<longleftrightarrow> depth \<le> MAX_FEATURE_CONFIG_DEPTH" "config_fits depth (JFloat r) \<longleftrightarrow> depth \<le> MAX_FEATURE_CONFIG_DEPTH"
  "config_fits depth (JStr s) \<longleftrightarrow> depth \<le> MAX_FEATURE_CONFIG_DEPTH \<and> length s \<le> MAX_FEATURE_CONFIG_STRING_LENGTH"
  by (simp_all add: config_fits_def nested_leaf node_fits_def)

lemma config_fits_list:
  "config_fits depth (JList vs) \<longleftrightarrow> depth \<le> MAX_FEATURE_CONFIG_DEPTH \<and> length vs \<le> MAX_FEATURE_CONFIG_ITEMS \<and>
     (\<forall>v \<in> set vs. config_fits (Suc depth) v)"
  by (simp add: config_fits_def nested_all_list node_fits_def)

lemma config_fits_object:
  "config_fits depth (JObj d) \<longleftrightarrow> depth \<le> MAX_FEATURE_CONFIG_DEPTH \<and> length d \<le> MAX_FEATURE_CONFIG_ITEMS \<and>
     (\<forall>(k, v) \<in> set d. check_key k = Inr () \<and> config_fits (Suc depth) v)"
  by (auto simp add: config_fits_def nested_all_object node_fits_def)

lemma node_count_pos: "1 \<le> node_count v"
  by (cases v) simp_all

declare inspect_config.simps [simp del]

lemma inspect_config_Inr:
  "inspect_config count depth v = Inr n \<longleftrightarrow> config_fits depth v \<and> count + node_count v \<le> MAX_FEATURE_CONFIG_NODES \<and> n = count + node_count v"
  "count \<le> MAX_FEATURE_CONFIG_NODES \<Longrightarrow> inspect_config_list count depth vs = Inr n \<longleftrightarrow>
     (\<forall>v \<in> set vs. config_fits (Suc depth) v) \<and> count + sum_list (map node_count vs) \<le> MAX_FEATURE_CONFIG_NODES \<and>
     n = count + sum_list (map node_count vs)"
  "count \<le> MAX_FEATURE_CONFIG_NODES \<Longrightarrow> inspect_config_object count depth d = Inr n \<longleftrightarrow>
     (\<forall>(k, v) \<in> set d. check_key k = Inr () \<and> config_fits (Suc depth) v) \<and>
     count + sum_list (map (\<lambda>(k, v). node_count v) d) \<le> MAX_FEATURE_CONFIG_NODES \<and> n = count + sum_list (map (\<lambda>(k, v). node_count v) d)"
proof (induction count depth v and count depth vs and count depth d arbitrary: n and n and n
    rule: inspect_config_inspect_config_list_inspect_config_object.induct)
  case (1 count depth v)
  then show ?case
    unfolding inspect_config.simps[of count depth v]
    by (cases v) (auto simp: config_fits_leaf config_fits_list config_fits_object)
next
  case (3 count depth v vs)
  show ?case
  proof (cases "inspect_config count (depth + 1) v")
    case (Inl e)
    then have "\<not> (config_fits (Suc depth) v \<and> count + node_count v \<le> MAX_FEATURE_CONFIG_NODES)"
      using 3(1)[of "count + node_count v"] by simp
    then show ?thesis using Inl by auto
  next
    case (Inr m)
    then show ?thesis using 3(1)[of m] 3(2)[OF Inr, of n] by auto
  qed
next
  case (5 count depth k v d)
  show ?case
  proof (cases "check_key k")
    case (Inr u)
    show ?thesis
    proof (cases "inspect_config count (depth + 1) v")
      case (Inl e)
      then have "\<not> (config_fits (Suc depth) v \<and> count + node_count v \<le> MAX_FEATURE_CONFIG_NODES)"
        using 5(1)[OF Inr, of "count + node_count v"] by simp
      then show ?thesis using Inl Inr by auto
    next
      case m: (Inr m)
      then show ?thesis using 5(1)[OF Inr, of m] 5(2)[OF Inr m, of n] Inr by auto
    qed
  qed simp
qed auto



end
