(* ===== verification/Operations.thy ===== *)
theory Operations
  imports Control_Db Operation_Catalog Operation_Config
begin

text \<open>
  Operation tasks of the Control API: the rows of \<open>db.py\<close> for tasks, their items and the drafts of feature
  configurations, and the repository of \<open>operation_repository.py\<close> with the recalculation of a task from its items. A
  status column holds the value of its enumeration. The pydantic schemas of the parameters and the encoding of JSON
  are parameters.
\<close>

subsection \<open>Rows\<close>

datatype task_status =
    Task_Pending_Approval | Task_Queued | Task_Running | Task_Succeeded | Task_Partial | Task_Failed | Task_Canceled | Task_Rejected

datatype item_status = Item_Queued | Item_Running | Item_Succeeded | Item_Failed | Item_Blocked | Item_Canceled

definition TERMINAL_TASK_STATES :: "task_status set" where
  "TERMINAL_TASK_STATES = {Task_Succeeded, Task_Partial, Task_Failed, Task_Canceled, Task_Rejected}"

definition TERMINAL_ITEM_STATES :: "item_status set" where
  "TERMINAL_ITEM_STATES = {Item_Succeeded, Item_Failed, Item_Blocked, Item_Canceled}"

fun task_status_name :: "task_status \<Rightarrow> string" where
  "task_status_name Task_Pending_Approval = ''PENDING_APPROVAL''"
| "task_status_name Task_Queued = ''QUEUED''"
| "task_status_name Task_Running = ''RUNNING''"
| "task_status_name Task_Succeeded = ''SUCCEEDED''"
| "task_status_name Task_Partial = ''PARTIAL''"
| "task_status_name Task_Failed = ''FAILED''"
| "task_status_name Task_Canceled = ''CANCELED''"
| "task_status_name Task_Rejected = ''REJECTED''"

fun item_status_name :: "item_status \<Rightarrow> string" where
  "item_status_name Item_Queued = ''QUEUED''"
| "item_status_name Item_Running = ''RUNNING''"
| "item_status_name Item_Succeeded = ''SUCCEEDED''"
| "item_status_name Item_Failed = ''FAILED''"
| "item_status_name Item_Blocked = ''BLOCKED''"
| "item_status_name Item_Canceled = ''CANCELED''"

record operation_task_row =
  ot_id :: string
  ot_tenant_id :: string
  ot_operation_key :: string
  ot_feature_id :: "string option"
  ot_module :: string
  ot_idempotency_key :: string
  ot_request_sha256 :: string
  ot_requested_by :: string
  ot_status :: task_status
  ot_parameters :: dict
  ot_context :: dict
  ot_total_count :: nat
  ot_succeeded_count :: nat
  ot_failed_count :: nat
  ot_blocked_count :: nat
  ot_canceled_count :: nat
  ot_cancel_requested :: bool
  ot_result_summary :: dict
  ot_started_at :: "int option"
  ot_completed_at :: "int option"
  ot_approval_decision :: "string option"
  ot_approval_reason :: "string option"
  ot_approved_by :: "string option"
  ot_decided_at :: "int option"
  ot_created_at :: int

record operation_item_row =
  oi_id :: string
  oi_tenant_id :: string
  oi_task_id :: string
  oi_resource_id :: string
  oi_status :: item_status
  oi_error_code :: "string option"
  oi_detail :: "string option"
  oi_evidence_refs :: "string list"
  oi_updated_at :: int

record draft_row =
  dr_id :: string
  dr_tenant_id :: string
  dr_feature_id :: string
  dr_configuration :: dict
  dr_configuration_sha256 :: string
  dr_version :: nat
  dr_updated_by :: string
  dr_updated_at :: int
  dr_created_at :: int

text \<open>The database of the operations, with the tables of the rest of the Control API in \<open>od_core\<close>.\<close>

record odb =
  od_core :: cdb
  od_tasks :: "operation_task_row list"
  od_items :: "operation_item_row list"
  od_drafts :: "draft_row list"

type_synonym 'a oop = "(odb, api_error, 'a) tx"

definition on_core :: "'a op \<Rightarrow> 'a oop" where
  "on_core f db = (case f (od_core db) of Inl e \<Rightarrow> Inl e | Inr (r, core) \<Rightarrow> Inr (r, db\<lparr>od_core := core\<rparr>))"

subsection \<open>The repository\<close>

definition orepo_task_by_idempotency :: "actor \<Rightarrow> string \<Rightarrow> odb \<Rightarrow> operation_task_row option" where
  "orepo_task_by_idempotency a k db = find_row (\<lambda>t. ot_tenant_id t = tenant_of a \<and> ot_idempotency_key t = k) (od_tasks db)"

definition find_task :: "string \<Rightarrow> string \<Rightarrow> odb \<Rightarrow> operation_task_row option" where
  "find_task tenant i db = find_row (\<lambda>t. ot_id t = i \<and> ot_tenant_id t = tenant) (od_tasks db)"

definition orepo_task :: "actor \<Rightarrow> string \<Rightarrow> operation_task_row oop" where
  "orepo_task a i = tsome (find_task (tenant_of a) i) (Api (NotFoundError ''operation task was not found''))"

definition items_of :: "string \<Rightarrow> string \<Rightarrow> odb \<Rightarrow> operation_item_row list" where
  "items_of tenant i db = filter (\<lambda>r. oi_task_id r = i \<and> oi_tenant_id r = tenant) (od_items db)"

definition orepo_items :: "actor \<Rightarrow> string \<Rightarrow> odb \<Rightarrow> operation_item_row list" where
  "orepo_items a i db = sort_key oi_resource_id (items_of (tenant_of a) i db)"

definition orepo_item :: "actor \<Rightarrow> string \<Rightarrow> string \<Rightarrow> operation_item_row oop" where
  "orepo_item a i resource = tsome (\<lambda>db. find_row (\<lambda>r. oi_task_id r = i \<and> oi_resource_id r = resource \<and> oi_tenant_id r = tenant_of a) (od_items db))
     (Api (NotFoundError ''operation item was not found''))"

definition set_task :: "string \<Rightarrow> string \<Rightarrow> (operation_task_row \<Rightarrow> operation_task_row) \<Rightarrow> odb \<Rightarrow> odb" where
  "set_task tenant i f db = db\<lparr>od_tasks := upd_where (\<lambda>t. ot_id t = i \<and> ot_tenant_id t = tenant) f (od_tasks db)\<rparr>"

definition orepo_draft :: "actor \<Rightarrow> string \<Rightarrow> odb \<Rightarrow> draft_row option" where
  "orepo_draft a feature db = find_row (\<lambda>r. dr_tenant_id r = tenant_of a \<and> dr_feature_id r = feature) (od_drafts db)"

text \<open>The update compares the version in its statement; its result tells whether a row was hit.\<close>

definition orepo_update_draft :: "actor \<Rightarrow> string \<Rightarrow> nat \<Rightarrow> dict \<Rightarrow> string \<Rightarrow> string \<Rightarrow> int \<Rightarrow> bool oop" where
  "orepo_update_draft a row_id expected configuration sha256 user now =
     (let hit = (\<lambda>r. dr_id r = row_id \<and> dr_tenant_id r = tenant_of a \<and> dr_version r = expected) in
      tbind (tread (\<lambda>db. \<exists>r \<in> set (od_drafts db). hit r)) (\<lambda>found.
      tbind (tmodify (\<lambda>db. db\<lparr>od_drafts := upd_where hit (\<lambda>r. r\<lparr>dr_configuration := configuration, dr_configuration_sha256 := sha256,
        dr_version := expected + 1, dr_updated_by := user, dr_updated_at := now\<rparr>) (od_drafts db)\<rparr>)) (\<lambda>_.
      treturn found)))"

definition set_items :: "(operation_item_row \<Rightarrow> bool) \<Rightarrow> (operation_item_row \<Rightarrow> operation_item_row) \<Rightarrow> odb \<Rightarrow> odb" where
  "set_items p f db = db\<lparr>od_items := upd_where p f (od_items db)\<rparr>"

definition audit_result :: "env \<Rightarrow> actor \<Rightarrow> string \<Rightarrow> string \<Rightarrow> dict \<Rightarrow> string \<Rightarrow> dict \<Rightarrow> unit oop" where
  "audit_result ev a action task_id after result metadata = on_core (tmodify (\<lambda>db. db\<lparr>db_next := db_next db + 1,
     db_audit := db_audit db @ [(audit_entry ev a (db_next db) action ''operation_task'' task_id
       (plain_audit\<lparr>ai_after := Some (JObj after), ai_metadata := metadata\<rparr>))\<lparr>ad_result := result\<rparr>]\<rparr>))"

subsection \<open>Recalculation\<close>

definition count_status :: "item_status \<Rightarrow> operation_item_row list \<Rightarrow> nat" where
  "count_status st items = length (filter (\<lambda>r. oi_status r = st) items)"

definition recount :: "operation_item_row list \<Rightarrow> operation_task_row \<Rightarrow> operation_task_row" where
  "recount items t = t\<lparr>ot_succeeded_count := count_status Item_Succeeded items, ot_failed_count := count_status Item_Failed items,
     ot_blocked_count := count_status Item_Blocked items, ot_canceled_count := count_status Item_Canceled items,
     ot_result_summary :=
       [(''succeeded'', JInt (int (count_status Item_Succeeded items))), (''failed'', JInt (int (count_status Item_Failed items))),
        (''blocked'', JInt (int (count_status Item_Blocked items))), (''canceled'', JInt (int (count_status Item_Canceled items))),
        (''pending'', JInt (int (count_status Item_Queued items))), (''running'', JInt (int (count_status Item_Running items)))]\<rparr>"

definition recalculate :: "int \<Rightarrow> bool \<Rightarrow> operation_item_row list \<Rightarrow> operation_task_row \<Rightarrow> operation_task_row" where
  "recalculate now preserve_status items t =
     (let t' = recount items t in
      if preserve_status then t'
      else if count_status Item_Queued items \<noteq> 0 \<or> count_status Item_Running items \<noteq> 0 then t'\<lparr>ot_status := Task_Running\<rparr>
      else t'\<lparr>ot_completed_at := Some now, ot_status :=
        (if ot_succeeded_count t' = ot_total_count t' then Task_Succeeded else if ot_succeeded_count t' = 0 then Task_Failed else Task_Partial)\<rparr>)"

subsection \<open>Validation\<close>

definition UNSAFE_PARAMETER_FRAGMENTS :: "string list" where
  "UNSAFE_PARAMETER_FRAGMENTS = [''adb'', ''captcha'', ''command'', ''credential'', ''frida'', ''mitm'', ''password'', ''pem'', ''privatekey'',
     ''proxy'', ''script'', ''secret'', ''shell'', ''token'']"

definition UNSAFE_PARAMETER_VALUES :: "string list" where
  "UNSAFE_PARAMETER_VALUES = [''adb.remote'', ''captcha.bypass'', ''frida'', ''mitm'', ''proxy.mutate'', ''shell.arbitrary'']"

definition ALLOWED_CONTEXT_FIELDS :: "string list" where
  "ALLOWED_CONTEXT_FIELDS = [''deviceScope'', ''executionApp'', ''schedule'', ''snapshot'', ''reason'', ''source'', ''mode'', ''sourcePage'',
     ''sourceRoute'', ''pageParameters'']"

definition normalized_key :: "string \<Rightarrow> string" where
  "normalized_key k = filter (\<lambda>c. c \<noteq> CHR ''_'' \<and> c \<noteq> CHR ''-'') (str_lower k)"

definition unsafe_key :: "string \<Rightarrow> bool" where
  "unsafe_key k = list_ex (contains_sub (normalized_key k)) UNSAFE_PARAMETER_FRAGMENTS"

text \<open>\<open>inspect\<close> and \<open>_inspect_safe_json\<close>: the first unsafe key or value, in the order of the traversal.\<close>

fun inspect_json :: "string \<Rightarrow> string \<Rightarrow> json \<Rightarrow> domain_error option"
  and inspect_list :: "string \<Rightarrow> string \<Rightarrow> json list \<Rightarrow> domain_error option"
  and inspect_object :: "string \<Rightarrow> (string \<times> json) list \<Rightarrow> domain_error option" where
  "inspect_json what key v =
     (if unsafe_key key then Some (ValidationError (''unsafe operation '' @ what @ '' is prohibited: '' @ key))
      else (case v of
          JObj d \<Rightarrow> inspect_object what d
        | JList vs \<Rightarrow> inspect_list what key vs
        | JStr s \<Rightarrow> if str_lower s \<in> set UNSAFE_PARAMETER_VALUES then Some (ValidationError ''unsafe operation capability is prohibited'') else None
        | _ \<Rightarrow> None))"
| "inspect_list what key [] = None"
| "inspect_list what key (v # vs) = (case inspect_json what key v of Some e \<Rightarrow> Some e | None \<Rightarrow> inspect_list what key vs)"
| "inspect_object what [] = None"
| "inspect_object what ((k, v) # d) = (case inspect_json what k v of Some e \<Rightarrow> Some e | None \<Rightarrow> inspect_object what d)"

text \<open>
  What the service takes from elsewhere: the deployed executors, the sizes of the two encodings of a JSON object
  (\<open>None\<close>: not finite JSON), the parameter schemas, which give the message of their error, and the identity of the
  executing service.
\<close>

record operation_config =
  oc_executors :: "string list"
  oc_encoded_size :: "dict \<Rightarrow> nat option"
  oc_config_size :: "dict \<Rightarrow> nat option"
  oc_parameters :: "string \<Rightarrow> string option \<Rightarrow> dict \<Rightarrow> string + dict"
  oc_service_user_id :: string

definition BUILTIN_OPERATION_KEYS :: "string list" where
  "BUILTIN_OPERATION_KEYS = [''publish_plans.snapshot.validate'', ''works.revision.validate'', ''xianyu.listing.publish'']"

definition executor_available :: "operation_config \<Rightarrow> string \<Rightarrow> bool" where
  "executor_available cf k \<longleftrightarrow> k \<in> set BUILTIN_OPERATION_KEYS \<or> k \<in> set (oc_executors cf)"

definition invalid :: "string \<Rightarrow> api_error" where
  "invalid m = Api (ValidationError m)"

definition inspected :: "string \<Rightarrow> dict \<Rightarrow> unit oop" where
  "inspected what d = tlift (case inspect_json what [] (JObj d) of Some e \<Rightarrow> Inl (Api e) | None \<Rightarrow> Inr ())"

definition validate_parameters :: "operation_config \<Rightarrow> operation_definition \<Rightarrow> string option \<Rightarrow> dict \<Rightarrow> dict oop" where
  "validate_parameters cf d feature parameters =
     tbind (tguard (set (map fst parameters) \<subseteq> set (op_allowed_parameters d) \<union> {''pageParameters''})
       (invalid (''unsupported parameters for '' @ op_key d))) (\<lambda>_.
     tbind (tsome (\<lambda>_. oc_encoded_size cf parameters) (invalid ''operation parameters must be finite JSON values'')) (\<lambda>size.
     tbind (tguard (size \<le> 16384) (invalid ''operation parameters exceed 16 KiB'')) (\<lambda>_.
     tbind (case dget_or parameters ''pageParameters'' JNull of
              JNull \<Rightarrow> treturn ()
            | JObj page \<Rightarrow> tlift (case validate_feature_configuration (oc_config_size cf) page of Inl m \<Rightarrow> Inl (invalid m) | Inr _ \<Rightarrow> Inr ())
            | _ \<Rightarrow> tfail (invalid ''pageParameters must be an object'')) (\<lambda>_.
     tbind (inspected ''parameter'' parameters) (\<lambda>_.
     tlift (case oc_parameters cf (op_key d) feature parameters of Inl m \<Rightarrow> Inl (invalid m) | Inr p \<Rightarrow> Inr p))))))"

text \<open>A context that is not finite JSON raises outside the service errors; it does not reach the database either.\<close>

definition validate_context :: "operation_config \<Rightarrow> dict \<Rightarrow> unit oop" where
  "validate_context cf context =
     tbind (tguard (set (map fst context) \<subseteq> set ALLOWED_CONTEXT_FIELDS) (invalid ''unsupported operation context'')) (\<lambda>_.
     tbind (tsome (\<lambda>_. oc_encoded_size cf context) (Api (ValueError ''Out of range float values are not JSON compliant''))) (\<lambda>size.
     tbind (tguard (size \<le> 8192) (invalid ''operation context exceeds 8 KiB'')) (\<lambda>_.
     inspected ''field'' context)))"

definition validate_feature_mapping :: "string option \<Rightarrow> string \<Rightarrow> unit oop" where
  "validate_feature_mapping feature operation_key = (case feature of
     None \<Rightarrow> treturn ()
   | Some i \<Rightarrow>
       if i \<in> set BLOCKED_FEATURE_IDS then tfail (Api (ForbiddenError ''feature is blocked by production policy''))
       else (case feature_operation i of
           None \<Rightarrow> tfail (invalid ''unknown featureId'')
         | Some None \<Rightarrow> tfail (Api (ForbiddenError ''feature has no approved backend operation mapping''))
         | Some (Some k) \<Rightarrow> tguard (k = operation_key) (invalid ''featureId does not map to operationKey'')))"

definition orequire :: "actor \<Rightarrow> permission \<Rightarrow> unit oop" where
  "orequire a p = tlift (case require_permissions (actor_roles a) [p] of Inl e \<Rightarrow> Inl (Api e) | Inr u \<Rightarrow> Inr u)"

definition the_definition :: "actor \<Rightarrow> string \<Rightarrow> operation_definition oop" where
  "the_definition a k =
     tbind (tsome (\<lambda>_. by_key k) (invalid ''operation is not in the approved catalog'')) (\<lambda>d.
     tbind (orequire a (op_permission d)) (\<lambda>_. treturn d))"

end
