(* ===== verification/Operation_Service.thy ===== *)
theory Operation_Service
  imports Operations
begin

text \<open>
  The methods of \<open>OperationService\<close> (\<open>operation_service.py\<close>): the creation of a task with its checks and its
  idempotency key, reading, listing and the audit trail, cancellation and decision, and the drafts of feature
  configurations with their optimistic version.
\<close>

subsection \<open>The service\<close>

record task_request =
  rq_operation_key :: string
  rq_feature_id :: "string option"
  rq_resource_ids :: "string list"
  rq_parameters :: dict
  rq_context :: dict
  rq_is_batch :: bool

definition check_request :: "operation_config \<Rightarrow> actor \<Rightarrow> string \<Rightarrow> task_request \<Rightarrow> (operation_definition \<times> dict) oop" where
  "check_request cf a key q =
     tbind (validate_feature_mapping (rq_feature_id q) (rq_operation_key q)) (\<lambda>_.
     tbind (the_definition a (rq_operation_key q)) (\<lambda>d.
     tbind (tguard (executor_available cf (rq_operation_key q))
       (Api (ConflictError (''operation '' @ rq_operation_key q @ '' has no deployed executor'')))) (\<lambda>_.
     tbind (tguard (\<not> (rq_is_batch q \<and> \<not> op_batch_allowed d))
       (Api (ConflictError (''operation '' @ rq_operation_key q @ '' does not allow batch execution'')))) (\<lambda>_.
     tbind (tguard (key \<noteq> [] \<and> length key \<le> 128) (invalid ''a valid Idempotency-Key header is required'')) (\<lambda>_.
     tbind (tguard (rq_resource_ids q \<noteq> []) (invalid ''at least one resource ID is required'')) (\<lambda>_.
     tbind (tguard (length (rq_resource_ids q) \<le> 500) (invalid ''operation batches are limited to 500 resources'')) (\<lambda>_.
     tbind (tguard (distinct (rq_resource_ids q)) (invalid ''resource IDs must be unique'')) (\<lambda>_.
     tbind (validate_parameters cf d (rq_feature_id q) (rq_parameters q)) (\<lambda>parameters.
     tbind (validate_context cf (rq_context q)) (\<lambda>_. treturn (d, parameters)))))))))))"

definition opt_string :: "string option \<Rightarrow> json" where
  "opt_string v = (case v of None \<Rightarrow> JNull | Some s \<Rightarrow> JStr s)"

definition risk_name :: "operation_risk \<Rightarrow> string" where
  "risk_name r = (case r of Standard \<Rightarrow> ''standard'' | Approval \<Rightarrow> ''approval'')"

definition request_digest :: "env \<Rightarrow> task_request \<Rightarrow> dict \<Rightarrow> string" where
  "request_digest ev q parameters = ev_hash ev (JObj [(''operationKey'', JStr (rq_operation_key q)), (''featureId'', opt_string (rq_feature_id q)),
     (''resourceIds'', JList (map JStr (rq_resource_ids q))), (''parameters'', JObj parameters), (''context'', JObj (rq_context q)),
     (''batch'', JBool (rq_is_batch q))])"

definition new_task :: "env \<Rightarrow> actor \<Rightarrow> string \<Rightarrow> task_request \<Rightarrow> operation_definition \<Rightarrow> dict \<Rightarrow> string \<Rightarrow> operation_task_row" where
  "new_task ev a key q d parameters i =
     \<lparr>ot_id = i, ot_tenant_id = tenant_of a, ot_operation_key = op_key d, ot_feature_id = rq_feature_id q, ot_module = op_module d,
      ot_idempotency_key = key, ot_request_sha256 = request_digest ev q parameters, ot_requested_by = actor_user_id a,
      ot_status = (if op_risk d = Approval then Task_Pending_Approval else Task_Queued), ot_parameters = parameters,
      ot_context = rq_context q, ot_total_count = length (rq_resource_ids q), ot_succeeded_count = 0, ot_failed_count = 0,
      ot_blocked_count = 0, ot_canceled_count = 0, ot_cancel_requested = False, ot_result_summary = [], ot_started_at = None,
      ot_completed_at = None, ot_approval_decision = None, ot_approval_reason = None, ot_approved_by = None, ot_decided_at = None,
      ot_created_at = ev_now ev\<rparr>"

definition new_item :: "env \<Rightarrow> actor \<Rightarrow> string \<Rightarrow> string \<Rightarrow> string \<Rightarrow> operation_item_row" where
  "new_item ev a task_id resource i =
     \<lparr>oi_id = i, oi_tenant_id = tenant_of a, oi_task_id = task_id, oi_resource_id = resource, oi_status = Item_Queued,
      oi_error_code = None, oi_detail = None, oi_evidence_refs = [], oi_updated_at = ev_now ev\<rparr>"

definition add_item :: "env \<Rightarrow> actor \<Rightarrow> string \<Rightarrow> string \<Rightarrow> unit oop" where
  "add_item ev a task_id resource =
     tbind (on_core (new_id ev)) (\<lambda>i.
     tbind (tread (\<lambda>db. \<exists>r \<in> set (od_items db). oi_id r = i \<or> oi_task_id r = task_id \<and> oi_resource_id r = resource)) (\<lambda>duplicate.
     tbind (tguard (\<not> duplicate) IntegrityError) (\<lambda>_.
     tmodify (\<lambda>db. db\<lparr>od_items := od_items db @ [new_item ev a task_id resource i]\<rparr>))))"

definition emit_task :: "env \<Rightarrow> actor \<Rightarrow> string \<Rightarrow> string \<Rightarrow> dict \<Rightarrow> unit oop" where
  "emit_task ev a task_id event_type payload = on_core (emit ev a ''operation_task'' task_id event_type payload)"

text \<open>The second part of the result tells whether the task is new. The dispatch of a Xianyu listing to the mobile task service follows the transaction.\<close>

definition create_task :: "operation_config \<Rightarrow> env \<Rightarrow> actor \<Rightarrow> string \<Rightarrow> task_request \<Rightarrow> (operation_task_row \<times> bool) oop" where
  "create_task cf ev a key q =
     tbind (check_request cf a key q) (\<lambda>(d, parameters).
     tbind (tread (orepo_task_by_idempotency a key)) (\<lambda>existing.
     case existing of
       Some t \<Rightarrow>
         if ot_request_sha256 t \<noteq> request_digest ev q parameters
         then tfail (Api (ConflictError ''Idempotency-Key was already used for a different request''))
         else treturn (t, False)
     | None \<Rightarrow>
         tbind (on_core (new_id ev)) (\<lambda>i.
         tbind (tread (\<lambda>db. \<exists>t \<in> set (od_tasks db). ot_id t = i)) (\<lambda>duplicate.
         tbind (tguard (\<not> duplicate) IntegrityError) (\<lambda>_.
         tbind (tmodify (\<lambda>db. db\<lparr>od_tasks := od_tasks db @ [new_task ev a key q d parameters i]\<rparr>)) (\<lambda>_.
         tbind (tmap (add_item ev a i) (rq_resource_ids q)) (\<lambda>_.
         tbind (audit_result ev a ''operation.task.created'' i
           [(''operation_key'', JStr (op_key d)), (''feature_id'', opt_string (rq_feature_id q)), (''risk'', JStr (risk_name (op_risk d))),
            (''resource_count'', JInt (int (length (rq_resource_ids q)))), (''request_sha256'', JStr (request_digest ev q parameters))] ''SUCCEEDED'' []) (\<lambda>_.
         tbind (emit_task ev a i ''operation.task.created''
           [(''taskId'', JStr i), (''operationKey'', JStr (op_key d)), (''featureId'', opt_string (rq_feature_id q)),
            (''status'', JStr (task_status_name (ot_status (new_task ev a key q d parameters i)))),
            (''resourceCount'', JInt (int (length (rq_resource_ids q))))]) (\<lambda>_.
         treturn (new_task ev a key q d parameters i, True))))))))))"

definition get_task :: "actor \<Rightarrow> string \<Rightarrow> (operation_task_row \<times> operation_item_row list) oop" where
  "get_task a i =
     tbind (tguard (actor_roles a \<noteq> []) (Api (ForbiddenError ''an assigned tenant role is required''))) (\<lambda>_.
     tbind (orepo_task a i) (\<lambda>t.
     tbind (the_definition a (ot_operation_key t)) (\<lambda>_.
     tread (\<lambda>db. (t, orepo_items a (ot_id t) db)))))"

text \<open>\<open>OperationItemResultUpdate\<close>: only the three statuses of its schema.\<close>

record item_update =
  iu_status :: item_status
  iu_error_code :: "string option"
  iu_detail :: "string option"
  iu_evidence_refs :: "string list"

definition valid_update :: "item_update \<Rightarrow> bool" where
  "valid_update u \<longleftrightarrow> iu_status u \<in> {Item_Succeeded, Item_Failed, Item_Blocked} \<and>
     (iu_status u = Item_Succeeded \<longrightarrow> iu_error_code u = None) \<and> (iu_status u \<noteq> Item_Succeeded \<longrightarrow> iu_error_code u \<noteq> None)"

definition same_result :: "operation_item_row \<Rightarrow> item_update \<Rightarrow> bool" where
  "same_result r u \<longleftrightarrow> oi_status r = iu_status u \<and> oi_error_code r = iu_error_code u \<and> oi_detail r = iu_detail u \<and>
     oi_evidence_refs r = iu_evidence_refs u"

definition apply_update :: "env \<Rightarrow> item_update \<Rightarrow> operation_item_row \<Rightarrow> operation_item_row" where
  "apply_update ev u r = r\<lparr>oi_status := iu_status u, oi_error_code := iu_error_code u, oi_detail := iu_detail u,
     oi_evidence_refs := iu_evidence_refs u, oi_updated_at := ev_now ev\<rparr>"

text \<open>The item is written, the task recalculated over the items as they are then, and the result audited and emitted.\<close>

definition store_result :: "env \<Rightarrow> actor \<Rightarrow> operation_task_row \<Rightarrow> operation_item_row \<Rightarrow> (operation_task_row \<Rightarrow> operation_task_row) \<Rightarrow>
    item_update \<Rightarrow> dict \<Rightarrow> operation_task_row oop" where
  "store_result ev a t r start u metadata =
     tbind (tmodify (set_items (\<lambda>q. oi_id q = oi_id r) (apply_update ev u))) (\<lambda>_.
     tbind (tread (items_of (tenant_of a) (ot_id t))) (\<lambda>items.
     let f = recalculate (ev_now ev) False items \<circ> start in
     tbind (tmodify (set_task (tenant_of a) (ot_id t) f)) (\<lambda>_.
     tbind (audit_result ev a ''operation.item.result_recorded'' (ot_id t)
       [(''resource_id'', JStr (oi_resource_id r)), (''status'', JStr (item_status_name (iu_status u))), (''error_code'', opt_string (iu_error_code u)),
        (''evidence_count'', JInt (int (length (iu_evidence_refs u))))] (item_status_name (iu_status u)) metadata) (\<lambda>_.
     tbind (emit_task ev a (ot_id t) ''operation.task.updated''
       [(''taskId'', JStr (ot_id t)), (''status'', JStr (task_status_name (ot_status (f t)))), (''resourceId'', JStr (oi_resource_id r))]) (\<lambda>_.
     treturn (f t))))))"

definition record_item_result :: "env \<Rightarrow> actor \<Rightarrow> string \<Rightarrow> string \<Rightarrow> item_update \<Rightarrow> operation_task_row oop" where
  "record_item_result ev a task_id resource u =
     tbind (tguard (SYSTEM_SERVICE \<in> set (actor_roles a)) (Api (ForbiddenError ''only an authorized service may record operation results''))) (\<lambda>_.
     tbind (orepo_task a task_id) (\<lambda>t.
     tbind (orepo_item a (ot_id t) resource) (\<lambda>r.
     if oi_status r \<in> TERMINAL_ITEM_STATES then
       if same_result r u then treturn t
       else tfail (Api (ConflictError ''operation item already has an immutable terminal result''))
     else
       tbind (tguard (ot_status t \<noteq> Task_Pending_Approval) (Api (ConflictError ''operation task must be approved before execution''))) (\<lambda>_.
       tbind (tguard (ot_status t \<notin> TERMINAL_TASK_STATES)
         (Api (ConflictError (''operation task is already '' @ task_status_name (ot_status t))))) (\<lambda>_.
       store_result ev a t r
         (\<lambda>t. t\<lparr>ot_started_at := (if ot_started_at t = None then Some (ev_now ev) else ot_started_at t), ot_status := Task_Running\<rparr>) u [])))))"

definition canceled_item :: "env \<Rightarrow> operation_item_row \<Rightarrow> operation_item_row" where
  "canceled_item ev r = r\<lparr>oi_status := Item_Canceled, oi_detail := Some ''canceled before completion'', oi_updated_at := ev_now ev\<rparr>"

definition canceled_task :: "env \<Rightarrow> operation_item_row list \<Rightarrow> operation_task_row \<Rightarrow> operation_task_row" where
  "canceled_task ev items t =
     recalculate (ev_now ev) True items (t\<lparr>ot_cancel_requested := True, ot_status := Task_Canceled, ot_completed_at := Some (ev_now ev)\<rparr>)"

definition cancel_task :: "env \<Rightarrow> actor \<Rightarrow> string \<Rightarrow> string \<Rightarrow> operation_task_row oop" where
  "cancel_task ev a task_id reason =
     tbind (orepo_task a task_id) (\<lambda>t.
     tbind (tguard (ot_requested_by t = actor_user_id a \<or> SECURITY_ADMIN \<in> set (actor_roles a))
       (Api (ForbiddenError ''only the requester or SecurityAdmin may cancel this task''))) (\<lambda>_.
     tbind (the_definition a (ot_operation_key t)) (\<lambda>d.
     tbind (orequire a (op_permission d)) (\<lambda>_.
     tbind (tguard (ot_status t \<notin> TERMINAL_TASK_STATES)
       (Api (ConflictError (''operation task is already '' @ task_status_name (ot_status t))))) (\<lambda>_.
     tbind (tmodify (set_items (\<lambda>r. oi_task_id r = ot_id t \<and> oi_tenant_id r = tenant_of a \<and> oi_status r \<in> {Item_Queued, Item_Running})
       (canceled_item ev))) (\<lambda>_.
     tbind (tread (items_of (tenant_of a) (ot_id t))) (\<lambda>items.
     tbind (tmodify (set_task (tenant_of a) (ot_id t) (canceled_task ev items))) (\<lambda>_.
     tbind (audit_result ev a ''operation.task.canceled'' (ot_id t) [(''status'', JStr ''CANCELED''), (''cancel_requested'', JBool True)] ''SUCCEEDED''
       [(''reason'', JStr reason)]) (\<lambda>_.
     tbind (emit_task ev a (ot_id t) ''operation.task.canceled'' [(''taskId'', JStr (ot_id t))]) (\<lambda>_.
     treturn (canceled_task ev items t)))))))))))"

definition rejected_item :: "env \<Rightarrow> string \<Rightarrow> operation_item_row \<Rightarrow> operation_item_row" where
  "rejected_item ev reason r =
     r\<lparr>oi_status := Item_Blocked, oi_error_code := Some ''APPROVAL_REJECTED'', oi_detail := Some reason, oi_updated_at := ev_now ev\<rparr>"

definition decided_task :: "env \<Rightarrow> string \<Rightarrow> bool \<Rightarrow> string \<Rightarrow> operation_item_row list \<Rightarrow> operation_task_row \<Rightarrow> operation_task_row" where
  "decided_task ev user approved reason items t =
     (let t' = t\<lparr>ot_approval_decision := Some (if approved then ''APPROVED'' else ''REJECTED''), ot_approval_reason := Some reason,
           ot_approved_by := Some user, ot_decided_at := Some (ev_now ev)\<rparr> in
      if approved then t'\<lparr>ot_status := Task_Queued\<rparr>
      else recalculate (ev_now ev) True items (t'\<lparr>ot_status := Task_Rejected, ot_completed_at := Some (ev_now ev)\<rparr>))"

definition needs_approval :: "string \<Rightarrow> bool" where
  "needs_approval k \<longleftrightarrow> (case by_key k of None \<Rightarrow> False | Some d \<Rightarrow> op_risk d = Approval)"

definition decide_task :: "env \<Rightarrow> actor \<Rightarrow> string \<Rightarrow> bool \<Rightarrow> string \<Rightarrow> operation_task_row oop" where
  "decide_task ev a task_id approved reason =
     tbind (orequire a OPERATION_APPROVE) (\<lambda>_.
     tbind (tguard (actor_mfa a) (Api (ForbiddenError ''MFA is required for operation approval''))) (\<lambda>_.
     tbind (orepo_task a task_id) (\<lambda>t.
     tbind (tguard (needs_approval (ot_operation_key t)) (Api (ConflictError ''operation task does not require approval''))) (\<lambda>_.
     tbind (tguard (ot_status t = Task_Pending_Approval) (Api (ConflictError (''operation task is already '' @ task_status_name (ot_status t))))) (\<lambda>_.
     tbind (tguard (ot_requested_by t \<noteq> actor_user_id a) (Api (ForbiddenError ''creator and approver must be different users''))) (\<lambda>_.
     tbind (tmodify (set_items (\<lambda>r. \<not> approved \<and> oi_task_id r = ot_id t \<and> oi_tenant_id r = tenant_of a) (rejected_item ev reason))) (\<lambda>_.
     tbind (tread (items_of (tenant_of a) (ot_id t))) (\<lambda>items.
     let f = decided_task ev (actor_user_id a) approved reason items;
         action = (if approved then ''operation.task.approved'' else ''operation.task.rejected'') in
     tbind (tmodify (set_task (tenant_of a) (ot_id t) f)) (\<lambda>_.
     tbind (audit_result ev a action (ot_id t)
       [(''status'', JStr (task_status_name (ot_status (f t)))), (''decision'', JStr (if approved then ''APPROVED'' else ''REJECTED''))]
       (if approved then ''APPROVED'' else ''REJECTED'') [(''reason'', JStr reason)]) (\<lambda>_.
     tbind (emit_task ev a (ot_id t) action [(''taskId'', JStr (ot_id t)), (''status'', JStr (task_status_name (ot_status (f t))))]) (\<lambda>_.
     treturn (f t))))))))))))"

subsection \<open>Lists, audit trail and feature drafts\<close>

definition TASK_STATUS_NAMES :: "string list" where
  "TASK_STATUS_NAMES = [''QUEUED'', ''PENDING_APPROVAL'', ''RUNNING'', ''SUCCEEDED'', ''PARTIAL'', ''FAILED'', ''CANCELED'', ''REJECTED'']"

text \<open>An absent or empty filter does not filter.\<close>

definition given :: "string option \<Rightarrow> bool" where
  "given v \<longleftrightarrow> v \<noteq> None \<and> v \<noteq> Some []"

definition orepo_tasks :: "actor \<Rightarrow> string option \<Rightarrow> string option \<Rightarrow> string option \<Rightarrow> string list \<Rightarrow> nat \<Rightarrow> odb \<Rightarrow> operation_task_row list" where
  "orepo_tasks a module_name st after_id keys limit db = take limit (sort_key ot_id (filter (\<lambda>t.
     ot_tenant_id t = tenant_of a \<and> ot_operation_key t \<in> set keys \<and> (given module_name \<longrightarrow> Some (ot_module t) = module_name) \<and>
     (given st \<longrightarrow> Some (task_status_name (ot_status t)) = st) \<and> (given after_id \<longrightarrow> ot_id t > the after_id)) (od_tasks db)))"

definition list_tasks :: "actor \<Rightarrow> string option \<Rightarrow> string option \<Rightarrow> string option \<Rightarrow> nat \<Rightarrow> operation_task_row list oop" where
  "list_tasks a module_name st after_id limit =
     tbind (tguard (actor_roles a \<noteq> []) (Api (ForbiddenError ''an assigned tenant role is required''))) (\<lambda>_.
     tbind (tguard (given st \<longrightarrow> the st \<in> set TASK_STATUS_NAMES) (invalid ''unknown operation task status'')) (\<lambda>_.
     let keys = map op_key (filter (\<lambda>d. op_permission d \<in> effective_permissions (actor_roles a)) DEFINITIONS) in
     if keys = [] then treturn [] else tread (orepo_tasks a module_name st after_id keys limit)))"

definition orepo_audit_events :: "actor \<Rightarrow> string \<Rightarrow> odb \<Rightarrow> audit_row list" where
  "orepo_audit_events a i db = sort_key ad_id (filter (\<lambda>r. ad_tenant_id r = tenant_of a \<and> ad_resource_type r = ''operation_task'' \<and>
     ad_resource_id r = i) (db_audit (od_core db)))"

definition task_audit :: "actor \<Rightarrow> string \<Rightarrow> (operation_task_row \<times> operation_item_row list \<times> audit_row list) oop" where
  "task_audit a i =
     tbind (tguard (actor_roles a \<noteq> []) (Api (ForbiddenError ''an assigned tenant role is required''))) (\<lambda>_.
     tbind (orepo_task a i) (\<lambda>t.
     tbind (the_definition a (ot_operation_key t)) (\<lambda>_.
     tread (\<lambda>db. (t, orepo_items a (ot_id t) db, orepo_audit_events a (ot_id t) db)))))"

text \<open>The view of a draft, and its replacement under the version that the caller has read.\<close>

definition draft_view :: "draft_row option \<Rightarrow> dict \<times> nat \<times> bool" where
  "draft_view r = (case r of None \<Rightarrow> ([], 0, False) | Some d \<Rightarrow> (dr_configuration d, dr_version d, True))"

definition known_feature :: "string \<Rightarrow> unit oop" where
  "known_feature i = tguard (i \<in> set FEATURE_IDS) (Api (NotFoundError ''operation feature was not found''))"

definition get_draft :: "actor \<Rightarrow> string \<Rightarrow> (dict \<times> nat \<times> bool) oop" where
  "get_draft a feature =
     tbind (tguard (actor_roles a \<noteq> []) (Api (ForbiddenError ''an assigned tenant role is required''))) (\<lambda>_.
     tbind (known_feature feature) (\<lambda>_.
     tread (\<lambda>db. draft_view (orepo_draft a feature db))))"

definition draft_conflict :: api_error where
  "draft_conflict = Api (ConflictError ''feature config draft version does not match expectedVersion'')"

definition new_draft :: "env \<Rightarrow> actor \<Rightarrow> string \<Rightarrow> dict \<Rightarrow> string \<Rightarrow> draft_row" where
  "new_draft ev a feature configuration i = \<lparr>dr_id = i, dr_tenant_id = tenant_of a, dr_feature_id = feature, dr_configuration = configuration,
     dr_configuration_sha256 = ev_hash ev (JObj configuration), dr_version = 1, dr_updated_by = actor_user_id a, dr_updated_at = ev_now ev,
     dr_created_at = ev_now ev\<rparr>"

definition audit_draft :: "env \<Rightarrow> actor \<Rightarrow> string \<Rightarrow> string \<Rightarrow> draft_row option \<Rightarrow> string \<Rightarrow> nat \<Rightarrow> dict \<Rightarrow> unit oop" where
  "audit_draft ev a action feature before sha256 version metadata = on_core (audit ev a action ''operation_feature_config_draft'' feature
     (plain_audit\<lparr>ai_before := map_option (\<lambda>d. JObj [(''configurationSha256'', JStr (dr_configuration_sha256 d)), (''version'', JInt (int (dr_version d)))]) before,
        ai_after := Some (JObj [(''configurationSha256'', JStr sha256), (''version'', JInt (int version))]), ai_metadata := metadata\<rparr>))"

text \<open>The policy and the execution state of the feature, as the audit entry carries them.\<close>

definition draft_metadata :: "operation_config \<Rightarrow> string \<Rightarrow> dict" where
  "draft_metadata cf feature =
     (let policy = (if feature \<in> set BLOCKED_FEATURE_IDS then ''blocked'' else if feature_operation feature = Some None then ''unmapped'' else ''mapped'');
          state = (case feature_operation feature of
              Some (Some k) \<Rightarrow> if executor_available cf k then ''implemented'' else ''contract_only''
            | _ \<Rightarrow> if feature \<in> set BLOCKED_FEATURE_IDS then ''blocked'' else ''ui_only'')
      in [(''featureId'', JStr feature), (''featurePolicy'', JStr policy), (''featureExecutionState'', JStr state)])"

text \<open>The unique index on tenant and feature turns a concurrent creation into the same conflict.\<close>

definition put_draft :: "operation_config \<Rightarrow> env \<Rightarrow> actor \<Rightarrow> string \<Rightarrow> nat \<Rightarrow> dict \<Rightarrow> (dict \<times> nat \<times> bool) oop" where
  "put_draft cf ev a feature expected configuration =
     tbind (orequire a AUTOMATION_MANAGE) (\<lambda>_.
     tbind (known_feature feature) (\<lambda>_.
     tbind (tlift (case validate_feature_configuration (oc_config_size cf) configuration of Inl m \<Rightarrow> Inl (invalid m) | Inr d \<Rightarrow> Inr d)) (\<lambda>d.
     let sha256 = ev_hash ev (JObj d) in
     tbind (tread (orepo_draft a feature)) (\<lambda>existing. case existing of
       None \<Rightarrow>
         tbind (tguard (expected = 0) draft_conflict) (\<lambda>_.
         tbind (on_core (new_id ev)) (\<lambda>i.
         tbind (tread (\<lambda>db. \<exists>r \<in> set (od_drafts db). dr_id r = i)) (\<lambda>duplicate.
         tbind (tguard (\<not> duplicate) draft_conflict) (\<lambda>_.
         tbind (tmodify (\<lambda>db. db\<lparr>od_drafts := od_drafts db @ [new_draft ev a feature d i]\<rparr>)) (\<lambda>_.
         tbind (audit_draft ev a ''operation.feature_config_draft.created'' feature None sha256 1 (draft_metadata cf feature)) (\<lambda>_.
         treturn (d, 1, True)))))))
     | Some r \<Rightarrow>
         tbind (tguard (expected = dr_version r) draft_conflict) (\<lambda>_.
         tbind (orepo_update_draft a (dr_id r) expected d sha256 (actor_user_id a) (ev_now ev)) (\<lambda>updated.
         tbind (tguard updated draft_conflict) (\<lambda>_.
         tbind (audit_draft ev a ''operation.feature_config_draft.updated'' feature (Some r) sha256 (expected + 1) (draft_metadata cf feature)) (\<lambda>_.
         treturn (d, expected + 1, True)))))))))"

end
