(* ===== verification/Operation_Sink.thy ===== *)
theory Operation_Sink
  imports Operation_Service Outbox Publishing
begin

text \<open>
  The consumer of operation events (\<open>operation_sink.py\<close> of the outbox dispatcher): the transactions that claim an
  item, store a result or note a retry, the handlers that validate content revisions and publish snapshots, the HTTP
  handler over a transport, and the consumption of an event as the sink composes them.
\<close>

subsection \<open>Requests and handlers\<close>

record execution_request =
  xr_event_id :: string
  xr_tenant_id :: string
  xr_task_id :: string
  xr_item_id :: string
  xr_operation_key :: string
  xr_resource_id :: string
  xr_parameters :: dict
  xr_context :: dict

definition idempotency_key :: "execution_request \<Rightarrow> string" where
  "idempotency_key rq = xr_task_id rq @ '':'' @ xr_item_id rq"

text \<open>A handler answers with an update, or raises an exception of the named type.\<close>

type_synonym handler = "execution_request \<Rightarrow> odb \<Rightarrow> string + item_update"

definition answer :: "item_status \<Rightarrow> string option \<Rightarrow> string \<Rightarrow> string + item_update" where
  "answer st err msg = Inr \<lparr>iu_status = st, iu_error_code = err, iu_detail = Some msg, iu_evidence_refs = []\<rparr>"

text \<open>
  \<open>HttpOperationHandler\<close>: the transport takes the headers and the body and gives the status, the length of the
  content and its parse by the schema of the update.
\<close>

record http_reply =
  hr_status :: int
  hr_length :: nat
  hr_update :: "item_update option"

definition MAX_ADAPTER_RESPONSE_BYTES :: nat where
  "MAX_ADAPTER_RESPONSE_BYTES = 64 * 1024"

definition adapter_headers :: "string \<Rightarrow> execution_request \<Rightarrow> (string \<times> string) list" where
  "adapter_headers bearer rq = [(''Authorization'', ''Bearer '' @ bearer), (''Idempotency-Key'', idempotency_key rq), (''X-Request-Id'', xr_event_id rq)]"

definition adapter_body :: "execution_request \<Rightarrow> json" where
  "adapter_body rq = JObj [(''taskId'', JStr (xr_task_id rq)), (''itemId'', JStr (xr_item_id rq)), (''tenantId'', JStr (xr_tenant_id rq)),
     (''operationKey'', JStr (xr_operation_key rq)), (''resourceId'', JStr (xr_resource_id rq)), (''parameters'', JObj (xr_parameters rq)),
     (''context'', JObj (xr_context rq))]"

definition http_handler :: "((string \<times> string) list \<Rightarrow> json \<Rightarrow> string + http_reply) \<Rightarrow> string \<Rightarrow> handler" where
  "http_handler post bearer rq db = (case post (adapter_headers bearer rq) (adapter_body rq) of
     Inl e \<Rightarrow> Inl e
   | Inr r \<Rightarrow>
       if hr_status r \<noteq> 200 then Inl ''OperationAdapterError''
       else if hr_length r > MAX_ADAPTER_RESPONSE_BYTES then Inl ''OperationAdapterError''
       else (case hr_update r of
           None \<Rightarrow> Inl ''OperationAdapterError''
         | Some u \<Rightarrow> if valid_update u then Inr u else Inl ''OperationAdapterError''))"

text \<open>\<open>_first_prohibited_field\<close>: the path of the first key that contains a prohibited fragment.\<close>

definition index_path :: "string \<Rightarrow> nat \<Rightarrow> string" where
  "index_path path i = path @ ''['' @ dec_nat i @ '']''"

fun first_prohibited :: "string \<Rightarrow> json \<Rightarrow> string option"
  and first_prohibited_list :: "string \<Rightarrow> nat \<Rightarrow> json list \<Rightarrow> string option"
  and first_prohibited_object :: "string \<Rightarrow> (string \<times> json) list \<Rightarrow> string option" where
  "first_prohibited path v = (case v of
     JObj d \<Rightarrow> first_prohibited_object path d
   | JList vs \<Rightarrow> first_prohibited_list path 0 vs
   | _ \<Rightarrow> None)"
| "first_prohibited_list path i [] = None"
| "first_prohibited_list path i (v # vs) =
     (case first_prohibited (index_path path i) v of Some p \<Rightarrow> Some p | None \<Rightarrow> first_prohibited_list path (Suc i) vs)"
| "first_prohibited_object path [] = None"
| "first_prohibited_object path ((k, v) # d) =
     (if unsafe_key k then Some (path @ ''.'' @ k)
      else (case first_prohibited (path @ ''.'' @ k) v of Some p \<Rightarrow> Some p | None \<Rightarrow> first_prohibited_object path d))"

definition find_revision :: "string \<Rightarrow> string \<Rightarrow> cdb \<Rightarrow> revision_row option" where
  "find_revision tenant i db = find_row (\<lambda>r. rv_id r = i \<and> rv_tenant_id r = tenant) (db_revisions db)"

definition revision_handler :: "(json \<Rightarrow> string) \<Rightarrow> handler" where
  "revision_handler hash rq db =
     (if dget_or (xr_parameters rq) ''policyVersion'' (JStr ''baseline-v1'') \<noteq> JStr ''baseline-v1''
      then answer Item_Blocked (Some ''POLICY_VERSION_UNAVAILABLE'') ''only the deployed baseline-v1 content policy can be evaluated''
      else (case find_revision (xr_tenant_id rq) (xr_resource_id rq) (od_core db) of
          None \<Rightarrow> answer Item_Failed (Some ''REVISION_NOT_FOUND'') ''content revision does not exist in the operation tenant''
        | Some rv \<Rightarrow>
            if hash (rv_payload rv) \<noteq> rv_payload_sha256 rv
            then answer Item_Failed (Some ''REVISION_INTEGRITY_MISMATCH'') ''stored revision payload does not match its immutable digest''
            else (case first_prohibited ''payload'' (rv_payload rv) of
                Some p \<Rightarrow> answer Item_Blocked (Some ''CONTENT_POLICY_BLOCKED'') (''baseline content policy rejected field: '' @ p)
              | None \<Rightarrow> answer Item_Succeeded None ''revision integrity and baseline-v1 content policy validated'')))"

text \<open>Equality of dictionaries does not depend on the order of their keys.\<close>

primrec json_sorted :: "json \<Rightarrow> json" where
  "json_sorted JNull = JNull"
| "json_sorted (JBool b) = JBool b"
| "json_sorted (JInt i) = JInt i"
| "json_sorted (JFloat r) = JFloat r"
| "json_sorted (JStr s) = JStr s"
| "json_sorted (JList vs) = JList (map json_sorted vs)"
| "json_sorted (JObj d) = JObj (sort_key fst (map (map_prod id json_sorted) d))"

definition json_equal :: "json \<Rightarrow> json \<Rightarrow> bool" where
  "json_equal v w \<longleftrightarrow> json_sorted v = json_sorted w"

definition snapshot_handler :: "(json \<Rightarrow> string) \<Rightarrow> handler" where
  "snapshot_handler hash rq db =
     (case dget_or (xr_parameters rq) ''strict'' (JBool False) of
        JBool strict \<Rightarrow>
          (let core = od_core db; tenant = xr_tenant_id rq in
           case find_row (\<lambda>p. pl_id p = xr_resource_id rq \<and> pl_tenant_id p = tenant) (db_plans core) of
             None \<Rightarrow> answer Item_Failed (Some ''PUBLISH_PLAN_NOT_FOUND'') ''publish plan does not exist in the operation tenant''
           | Some plan \<Rightarrow>
               (case (find_row (\<lambda>s. sn_plan_id s = pl_id plan \<and> sn_tenant_id s = tenant) (db_snapshots core),
                      find_revision tenant (pl_content_revision_id plan) core,
                      find_row (\<lambda>u. au_id u = pl_automation_package_version_id plan \<and> au_tenant_id u = tenant) (db_automations core)) of
                  (Some snapshot, Some revision, Some automation) \<Rightarrow>
                    if hash (rv_payload revision) \<noteq> rv_payload_sha256 revision
                    then answer Item_Failed (Some ''REVISION_INTEGRITY_MISMATCH'') ''snapshot references a revision with an invalid digest''
                    else if hash (sn_payload snapshot) \<noteq> sn_payload_sha256 snapshot
                    then answer Item_Failed (Some ''SNAPSHOT_INTEGRITY_MISMATCH'') ''stored snapshot payload does not match its immutable digest''
                    else if sn_plan_id snapshot \<noteq> pl_id plan \<or> sn_content_revision_id snapshot \<noteq> rv_id revision \<or>
                      sn_automation_package_version_id snapshot \<noteq> au_id automation \<or>
                      \<not> json_equal (sn_payload snapshot) (snapshot_payload plan revision automation)
                    then answer Item_Failed (Some ''SNAPSHOT_REFERENCE_MISMATCH'') ''snapshot fields do not match the frozen publish plan references''
                    else if pl_cancel_requested plan
                    then answer Item_Blocked (Some ''PUBLISH_PLAN_CANCELED'') ''publish plan cancellation was requested''
                    else if strict \<and> \<not> au_production_qualified automation
                    then answer Item_Blocked (Some ''AUTOMATION_NOT_PRODUCTION_QUALIFIED'')
                      ''strict validation requires a production-qualified automation package''
                    else answer Item_Succeeded None ''publish snapshot integrity and frozen references validated''
                | _ \<Rightarrow> answer Item_Failed (Some ''SNAPSHOT_REFERENCE_MISSING'') ''snapshot, revision, or automation reference is missing''))
      | _ \<Rightarrow> answer Item_Failed (Some ''INVALID_STRICT_PARAMETER'') ''strict must be a boolean'')"

text \<open>The handlers of \<open>OperationExecutionSink\<close>: a configured endpoint replaces a built-in validation.\<close>

definition sink_handlers :: "(json \<Rightarrow> string) \<Rightarrow> (string \<Rightarrow> handler) \<Rightarrow> string list \<Rightarrow> string \<Rightarrow> handler option" where
  "sink_handlers hash endpoint configured k =
     (if k \<in> set configured then Some (endpoint k)
      else if k = ''works.revision.validate'' then Some (revision_handler hash)
      else if k = ''publish_plans.snapshot.validate'' then Some (snapshot_handler hash)
      else None)"

subsection \<open>Transactions\<close>

type_synonym 'a sink_tx = "(odb, string, 'a) tx"

definition service_actor :: "string \<Rightarrow> string \<Rightarrow> string \<Rightarrow> actor" where
  "service_actor service tenant request_id =
     \<lparr>actor_tenant_id = tenant, actor_user_id = service, actor_roles = [SYSTEM_SERVICE], actor_mfa = True,
      actor_request_id = request_id, actor_ip = None, actor_user_agent = None\<rparr>"

text \<open>An operation of the service within a transaction of the sink; its errors are those of the database.\<close>

definition as_sink :: "'a oop \<Rightarrow> 'a sink_tx" where
  "as_sink f db = (case f db of Inl e \<Rightarrow> Inl ''IntegrityError'' | Inr r \<Rightarrow> Inr r)"

definition find_item :: "string \<Rightarrow> string \<Rightarrow> odb \<Rightarrow> operation_item_row option" where
  "find_item tenant i db = find_row (\<lambda>r. oi_id r = i \<and> oi_tenant_id r = tenant) (od_items db)"

definition start_item :: "env \<Rightarrow> operation_item_row \<Rightarrow> operation_item_row" where
  "start_item ev r = (if oi_status r = Item_Queued then r\<lparr>oi_status := Item_Running, oi_updated_at := ev_now ev\<rparr> else r)"

definition start_task :: "env \<Rightarrow> operation_task_row \<Rightarrow> operation_task_row" where
  "start_task ev t = t\<lparr>ot_started_at := (if ot_started_at t = None then Some (ev_now ev) else ot_started_at t), ot_status := Task_Running\<rparr>"

definition request_of :: "event_envelope \<Rightarrow> operation_task_row \<Rightarrow> operation_item_row \<Rightarrow> execution_request" where
  "request_of e t r = \<lparr>xr_event_id = en_id e, xr_tenant_id = en_tenant_id e, xr_task_id = ot_id t, xr_item_id = oi_id r,
     xr_operation_key = ot_operation_key t, xr_resource_id = oi_resource_id r, xr_parameters = ot_parameters t, xr_context = ot_context t\<rparr>"

definition not_executable :: "operation_task_row \<Rightarrow> operation_item_row \<Rightarrow> bool" where
  "not_executable t r \<longleftrightarrow> ot_status t \<in> TERMINAL_TASK_STATES \<or> ot_status t = Task_Pending_Approval \<or> ot_cancel_requested t \<or>
     oi_status r \<in> TERMINAL_ITEM_STATES"

definition claim_item :: "operation_config \<Rightarrow> env \<Rightarrow> event_envelope \<Rightarrow> string \<Rightarrow> execution_request option sink_tx" where
  "claim_item cf ev e item_id =
     (let tenant = en_tenant_id e; a = service_actor (oc_service_user_id cf) tenant (en_id e) in
      tbind (tsome (find_task tenant (en_aggregate_id e)) ''RuntimeError'') (\<lambda>t.
      tbind (tsome (\<lambda>db. find_row (\<lambda>r. oi_id r = item_id \<and> oi_task_id r = en_aggregate_id e \<and> oi_tenant_id r = tenant) (od_items db))
        ''RuntimeError'') (\<lambda>r.
      if not_executable t r then treturn None
      else
        tbind (tmodify (set_items (\<lambda>q. oi_id q = oi_id r) (start_item ev))) (\<lambda>_.
        tbind (tmodify (set_task tenant (ot_id t) (start_task ev))) (\<lambda>_.
        tbind (as_sink (audit_result ev a
          (if oi_status r = Item_Queued then ''operation.item.execution_started'' else ''operation.item.execution_replayed'') (ot_id t)
          [(''resource_id'', JStr (oi_resource_id r)), (''status'', JStr ''RUNNING'')] ''RUNNING''
          [(''event_id'', JStr (en_id e)), (''operation_key'', JStr (ot_operation_key t))])) (\<lambda>_.
        treturn (Some (request_of e t r))))))))"

definition discarded :: "operation_config \<Rightarrow> env \<Rightarrow> execution_request \<Rightarrow> operation_task_row \<Rightarrow> operation_item_row \<Rightarrow> item_update \<Rightarrow>
    string \<Rightarrow> string \<Rightarrow> unit sink_tx" where
  "discarded cf ev rq t r u action result =
     as_sink (audit_result ev (service_actor (oc_service_user_id cf) (xr_tenant_id rq) (xr_event_id rq)) action (ot_id t)
       [(''resource_id'', JStr (oi_resource_id r)), (''discarded_status'', JStr (item_status_name (iu_status u)))] result
       [(''event_id'', JStr (xr_event_id rq))])"

definition record_result :: "operation_config \<Rightarrow> env \<Rightarrow> execution_request \<Rightarrow> item_update \<Rightarrow> unit sink_tx" where
  "record_result cf ev rq u =
     tbind (tsome (find_task (xr_tenant_id rq) (xr_task_id rq)) ''RuntimeError'') (\<lambda>t.
     tbind (tsome (find_item (xr_tenant_id rq) (xr_item_id rq)) ''RuntimeError'') (\<lambda>r.
     if ot_cancel_requested t \<or> ot_status t = Task_Canceled \<or> oi_status r = Item_Canceled
     then discarded cf ev rq t r u ''operation.item.late_result_discarded'' ''CANCELED''
     else if oi_status r \<in> TERMINAL_ITEM_STATES then
       if same_result r u then treturn ()
       else discarded cf ev rq t r u ''operation.item.conflicting_result_discarded'' ''FAILED''
     else
       tbind (as_sink (store_result ev (service_actor (oc_service_user_id cf) (xr_tenant_id rq) (xr_event_id rq)) t r id u
         [(''event_id'', JStr (xr_event_id rq)), (''executor'', JStr ''restricted_consumer'')])) (\<lambda>_. treturn ())))"

definition record_retry :: "operation_config \<Rightarrow> env \<Rightarrow> execution_request \<Rightarrow> string \<Rightarrow> unit sink_tx" where
  "record_retry cf ev rq x =
     tbind (tread (find_task (xr_tenant_id rq) (xr_task_id rq))) (\<lambda>found. case found of
       None \<Rightarrow> treturn ()
     | Some t \<Rightarrow> as_sink (audit_result ev (service_actor (oc_service_user_id cf) (xr_tenant_id rq) (xr_event_id rq))
         ''operation.item.execution_retry_scheduled'' (ot_id t)
         [(''resource_id'', JStr (xr_resource_id rq)), (''status'', JStr (task_status_name (ot_status t)))] ''FAILED''
         [(''event_id'', JStr (xr_event_id rq)), (''error_type'', JStr x)]))"

definition audit_unavailable :: "operation_config \<Rightarrow> env \<Rightarrow> event_envelope \<Rightarrow> string \<Rightarrow> unit sink_tx" where
  "audit_unavailable cf ev e k =
     as_sink (audit_result ev (service_actor (oc_service_user_id cf) (en_tenant_id e) (en_id e)) ''operation.task.executor_unavailable''
       (en_aggregate_id e) [(''operation_key'', JStr k)] ''FAILED'' [(''event_id'', JStr (en_id e))])"

subsection \<open>Consumption of an event\<close>

definition EXECUTION_EVENT_TYPES :: "string list" where
  "EXECUTION_EVENT_TYPES = [''operation.task.created'', ''operation.task.approved'']"

definition item_ids :: "event_envelope \<Rightarrow> odb \<Rightarrow> string list" where
  "item_ids e db = map oi_id (sort_key oi_resource_id (items_of (en_tenant_id e) (en_aggregate_id e) db))"

text \<open>The items in the order of their resources. The database stays as it was when a transaction raises.\<close>

primrec execute_items :: "operation_config \<Rightarrow> handler \<Rightarrow> env \<Rightarrow> event_envelope \<Rightarrow> string list \<Rightarrow> odb \<Rightarrow> string option \<times> odb" where
  "execute_items cf h ev e [] db = (None, db)"
| "execute_items cf h ev e (i # is) db = (case claim_item cf ev e i db of
     Inl x \<Rightarrow> (Some x, db)
   | Inr (None, db1) \<Rightarrow> execute_items cf h ev e is db1
   | Inr (Some rq, db1) \<Rightarrow> (case h rq db1 of
         Inl x \<Rightarrow> (case record_retry cf ev rq x db1 of Inl y \<Rightarrow> (Some y, db1) | Inr (_, db2) \<Rightarrow> (Some x, db2))
       | Inr u \<Rightarrow> (case record_result cf ev rq u db1 of Inl y \<Rightarrow> (Some y, db1) | Inr (_, db2) \<Rightarrow> execute_items cf h ev e is db2)))"

definition operation_publish :: "operation_config \<Rightarrow> (string \<Rightarrow> handler option) \<Rightarrow> env \<Rightarrow> odb sink" where
  "operation_publish cf handlers ev e db =
     (if en_event_type e \<notin> set EXECUTION_EVENT_TYPES then (None, db)
      else if en_aggregate_type e \<noteq> ''operation_task'' then (Some ''ValueError'', db)
      else if dget (en_payload e) ''taskId'' \<noteq> Some (JStr (en_aggregate_id e)) then (Some ''ValueError'', db)
      else (case find_task (en_tenant_id e) (en_aggregate_id e) db of
          None \<Rightarrow> (None, db)
        | Some t \<Rightarrow>
            if ot_status t \<in> TERMINAL_TASK_STATES \<or> ot_status t = Task_Pending_Approval then (None, db)
            else (case handlers (ot_operation_key t) of
                None \<Rightarrow> (case audit_unavailable cf ev e (ot_operation_key t) db of
                    Inl x \<Rightarrow> (Some x, db)
                  | Inr (_, db') \<Rightarrow> (Some ''OperationExecutorUnavailable'', db'))
              | Some h \<Rightarrow> execute_items cf h ev e (item_ids e db) db)))"

end
