(* ===== verification/Operation_Laws.thy ===== *)
theory Operation_Laws
  imports Operation_Sink
begin

text \<open>
  One operation task as a state machine: the steps of a task with its items, a well-formedness that they keep, what is
  final, and the proof that every transaction of the service and of the sink on the database is a step of one task.
\<close>

subsection \<open>The machine of one task\<close>

definition on_item :: "string \<Rightarrow> (operation_item_row \<Rightarrow> operation_item_row) \<Rightarrow> operation_item_row list \<Rightarrow> operation_item_row list" where
  "on_item i f its = upd_where (\<lambda>q. oi_id q = i) f its"

type_synonym task_state = "operation_task_row \<times> operation_item_row list"

inductive task_step :: "task_state \<Rightarrow> task_state \<Rightarrow> bool" where
  approved: "ot_status t = Task_Pending_Approval \<Longrightarrow> needs_approval (ot_operation_key t) \<Longrightarrow> ot_requested_by t \<noteq> user \<Longrightarrow>
    task_step (t, its) (decided_task ev user True reason its' t, its)"
| rejected: "ot_status t = Task_Pending_Approval \<Longrightarrow> needs_approval (ot_operation_key t) \<Longrightarrow> ot_requested_by t \<noteq> user \<Longrightarrow>
    its' = map (rejected_item ev reason) its \<Longrightarrow> task_step (t, its) (decided_task ev user False reason its' t, its')"
| canceled: "ot_status t \<notin> TERMINAL_TASK_STATES \<Longrightarrow>
    its' = upd_where (\<lambda>r. oi_status r \<in> {Item_Queued, Item_Running}) (canceled_item ev) its \<Longrightarrow>
    task_step (t, its) (canceled_task ev its' t, its')"
| started: "r \<in> set its \<Longrightarrow> \<not> not_executable t r \<Longrightarrow> task_step (t, its) (start_task ev t, on_item (oi_id r) (start_item ev) its)"
| finished: "r \<in> set its \<Longrightarrow> oi_status r \<notin> TERMINAL_ITEM_STATES \<Longrightarrow> ot_status t \<notin> TERMINAL_TASK_STATES \<Longrightarrow>
    ot_status t \<noteq> Task_Pending_Approval \<Longrightarrow> valid_update u \<Longrightarrow> its' = on_item (oi_id r) (apply_update ev u) its \<Longrightarrow> f \<in> {id, start_task ev} \<Longrightarrow>
    task_step (t, its) (recalculate (ev_now ev) False its' (f t), its')"

text \<open>The status of a task, its counts and its decision agree with its items.\<close>

definition all_in :: "item_status set \<Rightarrow> operation_item_row list \<Rightarrow> bool" where
  "all_in S its \<longleftrightarrow> (\<forall>r \<in> set its. oi_status r \<in> S)"

abbreviation OPEN_ITEM_STATES :: "item_status set" where
  "OPEN_ITEM_STATES \<equiv> {Item_Queued, Item_Running}"

definition status_agrees :: "task_status \<Rightarrow> operation_item_row list \<Rightarrow> bool" where
  "status_agrees st its \<longleftrightarrow> (case st of
     Task_Pending_Approval \<Rightarrow> all_in {Item_Queued} its
   | Task_Queued \<Rightarrow> all_in {Item_Queued} its
   | Task_Running \<Rightarrow> \<not> all_in TERMINAL_ITEM_STATES its
   | Task_Succeeded \<Rightarrow> all_in {Item_Succeeded} its
   | Task_Failed \<Rightarrow> all_in (TERMINAL_ITEM_STATES - {Item_Succeeded}) its
   | Task_Partial \<Rightarrow> all_in TERMINAL_ITEM_STATES its \<and> \<not> all_in {Item_Succeeded} its \<and> \<not> all_in (TERMINAL_ITEM_STATES - {Item_Succeeded}) its
   | Task_Canceled \<Rightarrow> all_in TERMINAL_ITEM_STATES its
   | Task_Rejected \<Rightarrow> all_in {Item_Blocked} its)"

definition counts_agree :: "operation_task_row \<Rightarrow> operation_item_row list \<Rightarrow> bool" where
  "counts_agree t its \<longleftrightarrow> its \<noteq> [] \<and> distinct (map oi_id its) \<and> ot_total_count t = length its \<and> ot_succeeded_count t = count_status Item_Succeeded its \<and>
     ot_failed_count t = count_status Item_Failed its \<and> ot_blocked_count t = count_status Item_Blocked its \<and>
     ot_canceled_count t = count_status Item_Canceled its"

definition decision_agrees :: "operation_task_row \<Rightarrow> bool" where
  "decision_agrees t \<longleftrightarrow>
     (ot_status t = Task_Pending_Approval \<longrightarrow> needs_approval (ot_operation_key t) \<and> ot_approval_decision t = None) \<and>
     (needs_approval (ot_operation_key t) \<longrightarrow> ot_status t \<notin> {Task_Pending_Approval, Task_Canceled, Task_Rejected} \<longrightarrow>
        ot_approval_decision t = Some ''APPROVED'') \<and>
     (ot_status t = Task_Rejected \<longrightarrow> ot_approval_decision t = Some ''REJECTED'') \<and>
     (ot_approval_decision t \<noteq> None \<longrightarrow> (\<exists>u. ot_approved_by t = Some u \<and> u \<noteq> ot_requested_by t))"

definition task_ok :: "task_state \<Rightarrow> bool" where
  "task_ok x \<longleftrightarrow> (case x of (t, its) \<Rightarrow> counts_agree t its \<and> status_agrees (ot_status t) its \<and> decision_agrees t \<and>
     (ot_cancel_requested t \<longleftrightarrow> ot_status t = Task_Canceled) \<and> (ot_completed_at t = None \<longleftrightarrow> ot_status t \<notin> TERMINAL_TASK_STATES))"

lemma terminal_status [simp]:
  "Task_Succeeded \<in> TERMINAL_TASK_STATES" "Task_Partial \<in> TERMINAL_TASK_STATES" "Task_Failed \<in> TERMINAL_TASK_STATES"
  "Task_Canceled \<in> TERMINAL_TASK_STATES" "Task_Rejected \<in> TERMINAL_TASK_STATES" "Task_Pending_Approval \<notin> TERMINAL_TASK_STATES"
  "Task_Queued \<notin> TERMINAL_TASK_STATES" "Task_Running \<notin> TERMINAL_TASK_STATES"
  by (simp_all add: TERMINAL_TASK_STATES_def)

lemma terminal_item [simp]:
  "Item_Succeeded \<in> TERMINAL_ITEM_STATES" "Item_Failed \<in> TERMINAL_ITEM_STATES" "Item_Blocked \<in> TERMINAL_ITEM_STATES"
  "Item_Canceled \<in> TERMINAL_ITEM_STATES" "Item_Queued \<notin> TERMINAL_ITEM_STATES" "Item_Running \<notin> TERMINAL_ITEM_STATES"
  by (simp_all add: TERMINAL_ITEM_STATES_def)

lemma open_item: "st \<notin> TERMINAL_ITEM_STATES \<longleftrightarrow> st = Item_Queued \<or> st = Item_Running"
  by (cases st) simp_all

lemma closed_item: "st \<in> TERMINAL_ITEM_STATES \<longleftrightarrow> st \<noteq> Item_Queued \<and> st \<noteq> Item_Running"
  by (cases st) simp_all

lemma open_status: "st \<notin> TERMINAL_TASK_STATES \<longleftrightarrow> st \<in> {Task_Pending_Approval, Task_Queued, Task_Running}"
  by (cases st) simp_all

lemma count_zero: "count_status st its = 0 \<longleftrightarrow> (\<forall>r \<in> set its. oi_status r \<noteq> st)"
  by (auto simp: count_status_def filter_empty_conv)

lemma count_all: "count_status st its = length its \<longleftrightarrow> all_in {st} its"
proof
  assume "count_status st its = length its"
  then show "all_in {st} its"
    by (auto simp: count_status_def all_in_def dest: length_filter_less[of _ its "\<lambda>r. oi_status r = st"])
next
  assume "all_in {st} its"
  then show "count_status st its = length its" by (simp add: count_status_def all_in_def)
qed

lemma count_map:
  "(\<And>r. r \<in> set its \<Longrightarrow> oi_status (f r) = st \<longleftrightarrow> oi_status r = st) \<Longrightarrow> count_status st (map f its) = count_status st its"
  by (simp add: count_status_def filter_map o_def cong: filter_cong)

lemma on_item_map: "on_item i f its = map (\<lambda>q. if oi_id q = i then f q else q) its"
  by (simp add: on_item_def upd_where_def)

lemma recalculate_fields [simp]:
  "ot_id (recalculate now p its t) = ot_id t" "ot_tenant_id (recalculate now p its t) = ot_tenant_id t"
  "ot_operation_key (recalculate now p its t) = ot_operation_key t" "ot_requested_by (recalculate now p its t) = ot_requested_by t"
  "ot_approval_decision (recalculate now p its t) = ot_approval_decision t" "ot_approved_by (recalculate now p its t) = ot_approved_by t"
  "ot_cancel_requested (recalculate now p its t) = ot_cancel_requested t" "ot_total_count (recalculate now p its t) = ot_total_count t"
  "ot_idempotency_key (recalculate now p its t) = ot_idempotency_key t"
  "ot_succeeded_count (recalculate now p its t) = count_status Item_Succeeded its" "ot_failed_count (recalculate now p its t) = count_status Item_Failed its"
  "ot_blocked_count (recalculate now p its t) = count_status Item_Blocked its" "ot_canceled_count (recalculate now p its t) = count_status Item_Canceled its"
  "ot_status (recalculate now True its t) = ot_status t" "ot_completed_at (recalculate now True its t) = ot_completed_at t"
  by (simp_all add: recalculate_def recount_def Let_def)

lemma start_task_fields [simp]:
  "ot_id (start_task ev t) = ot_id t" "ot_tenant_id (start_task ev t) = ot_tenant_id t" "ot_operation_key (start_task ev t) = ot_operation_key t"
  "ot_requested_by (start_task ev t) = ot_requested_by t" "ot_approval_decision (start_task ev t) = ot_approval_decision t"
  "ot_approved_by (start_task ev t) = ot_approved_by t" "ot_cancel_requested (start_task ev t) = ot_cancel_requested t"
  "ot_total_count (start_task ev t) = ot_total_count t" "ot_status (start_task ev t) = Task_Running"
  "ot_completed_at (start_task ev t) = ot_completed_at t" "ot_idempotency_key (start_task ev t) = ot_idempotency_key t"
  "ot_succeeded_count (start_task ev t) = ot_succeeded_count t" "ot_failed_count (start_task ev t) = ot_failed_count t"
  "ot_blocked_count (start_task ev t) = ot_blocked_count t" "ot_canceled_count (start_task ev t) = ot_canceled_count t"
  by (simp_all add: start_task_def)

lemma canceled_task_fields [simp]:
  "ot_id (canceled_task ev its t) = ot_id t" "ot_tenant_id (canceled_task ev its t) = ot_tenant_id t"
  "ot_operation_key (canceled_task ev its t) = ot_operation_key t" "ot_requested_by (canceled_task ev its t) = ot_requested_by t"
  "ot_approval_decision (canceled_task ev its t) = ot_approval_decision t" "ot_approved_by (canceled_task ev its t) = ot_approved_by t"
  "ot_cancel_requested (canceled_task ev its t)" "ot_total_count (canceled_task ev its t) = ot_total_count t"
  "ot_idempotency_key (canceled_task ev its t) = ot_idempotency_key t" "ot_status (canceled_task ev its t) = Task_Canceled"
  "ot_completed_at (canceled_task ev its t) = Some (ev_now ev)" "ot_succeeded_count (canceled_task ev its t) = count_status Item_Succeeded its"
  "ot_failed_count (canceled_task ev its t) = count_status Item_Failed its" "ot_blocked_count (canceled_task ev its t) = count_status Item_Blocked its"
  "ot_canceled_count (canceled_task ev its t) = count_status Item_Canceled its"
  by (simp_all add: canceled_task_def)

lemma decided_task_fields [simp]:
  "ot_id (decided_task ev u b m its t) = ot_id t" "ot_tenant_id (decided_task ev u b m its t) = ot_tenant_id t"
  "ot_operation_key (decided_task ev u b m its t) = ot_operation_key t" "ot_requested_by (decided_task ev u b m its t) = ot_requested_by t"
  "ot_approval_decision (decided_task ev u b m its t) = Some (if b then ''APPROVED'' else ''REJECTED'')"
  "ot_approved_by (decided_task ev u b m its t) = Some u" "ot_cancel_requested (decided_task ev u b m its t) = ot_cancel_requested t"
  "ot_total_count (decided_task ev u b m its t) = ot_total_count t" "ot_idempotency_key (decided_task ev u b m its t) = ot_idempotency_key t"
  "ot_status (decided_task ev u b m its t) = (if b then Task_Queued else Task_Rejected)"
  "ot_completed_at (decided_task ev u True m its t) = ot_completed_at t" "ot_completed_at (decided_task ev u False m its t) = Some (ev_now ev)"
  "ot_succeeded_count (decided_task ev u True m its t) = ot_succeeded_count t" "ot_failed_count (decided_task ev u True m its t) = ot_failed_count t"
  "ot_blocked_count (decided_task ev u True m its t) = ot_blocked_count t" "ot_canceled_count (decided_task ev u True m its t) = ot_canceled_count t"
  "ot_succeeded_count (decided_task ev u False m its t) = count_status Item_Succeeded its"
  "ot_failed_count (decided_task ev u False m its t) = count_status Item_Failed its"
  "ot_blocked_count (decided_task ev u False m its t) = count_status Item_Blocked its"
  "ot_canceled_count (decided_task ev u False m its t) = count_status Item_Canceled its"
  by (simp_all add: decided_task_def Let_def)

lemma item_fields [simp]:
  "oi_id (start_item ev r) = oi_id r" "oi_tenant_id (start_item ev r) = oi_tenant_id r" "oi_task_id (start_item ev r) = oi_task_id r"
  "oi_resource_id (start_item ev r) = oi_resource_id r" "oi_id (apply_update ev u r) = oi_id r" "oi_tenant_id (apply_update ev u r) = oi_tenant_id r"
  "oi_task_id (apply_update ev u r) = oi_task_id r" "oi_resource_id (apply_update ev u r) = oi_resource_id r"
  "oi_status (apply_update ev u r) = iu_status u" "oi_id (canceled_item ev r) = oi_id r" "oi_tenant_id (canceled_item ev r) = oi_tenant_id r"
  "oi_task_id (canceled_item ev r) = oi_task_id r" "oi_resource_id (canceled_item ev r) = oi_resource_id r"
  "oi_status (canceled_item ev r) = Item_Canceled" "oi_id (rejected_item ev m r) = oi_id r" "oi_tenant_id (rejected_item ev m r) = oi_tenant_id r"
  "oi_task_id (rejected_item ev m r) = oi_task_id r" "oi_resource_id (rejected_item ev m r) = oi_resource_id r"
  "oi_status (rejected_item ev m r) = Item_Blocked"
  by (simp_all add: start_item_def apply_update_def canceled_item_def rejected_item_def)

text \<open>The recalculated status, read off the items.\<close>

lemma recalculate_status:
  assumes "ot_total_count t = length its"
  shows "ot_status (recalculate now False its t) =
    (if \<not> all_in TERMINAL_ITEM_STATES its then Task_Running else if all_in {Item_Succeeded} its then Task_Succeeded
     else if all_in (TERMINAL_ITEM_STATES - {Item_Succeeded}) its then Task_Failed else Task_Partial)"
    and "ot_completed_at (recalculate now False its t) = (if \<not> all_in TERMINAL_ITEM_STATES its then ot_completed_at t else Some now)"
proof -
  have pending: "count_status Item_Queued its \<noteq> 0 \<or> count_status Item_Running its \<noteq> 0 \<longleftrightarrow> \<not> all_in TERMINAL_ITEM_STATES its"
    by (auto simp: count_zero all_in_def open_item)
  have failed: "count_status Item_Succeeded its = 0 \<longleftrightarrow> all_in (TERMINAL_ITEM_STATES - {Item_Succeeded}) its" if "all_in TERMINAL_ITEM_STATES its"
    using that by (auto simp: count_zero all_in_def)
  show "ot_status (recalculate now False its t) =
    (if \<not> all_in TERMINAL_ITEM_STATES its then Task_Running else if all_in {Item_Succeeded} its then Task_Succeeded
     else if all_in (TERMINAL_ITEM_STATES - {Item_Succeeded}) its then Task_Failed else Task_Partial)"
    "ot_completed_at (recalculate now False its t) = (if \<not> all_in TERMINAL_ITEM_STATES its then ot_completed_at t else Some now)"
    using failed assms count_all[of Item_Succeeded its] unfolding recalculate_def Let_def pending by (simp_all add: recount_def)
qed

lemma recalculate_agrees:
  assumes "ot_total_count t = length its"
  shows "status_agrees (ot_status (recalculate now False its t)) its"
  unfolding recalculate_status(1)[OF assms] by (simp add: status_agrees_def)

lemma valid_update_terminal: "valid_update u \<Longrightarrow> iu_status u \<in> TERMINAL_ITEM_STATES"
  by (auto simp: valid_update_def)

lemma open_items:
  "task_ok (t, its) \<Longrightarrow> r \<in> set its \<Longrightarrow> oi_status r \<notin> TERMINAL_ITEM_STATES \<Longrightarrow> ot_status t \<notin> TERMINAL_TASK_STATES"
  by (cases "ot_status t") (auto simp: task_ok_def status_agrees_def all_in_def)

lemma counts_started:
  "counts_agree t its \<Longrightarrow> counts_agree (start_task ev t) (on_item i (start_item ev) its)"
proof -
  assume a: "counts_agree t its"
  have "count_status st (on_item i (start_item ev) its) = count_status st its" if "st \<in> TERMINAL_ITEM_STATES" for st
    unfolding on_item_map by (rule count_map) (use that in \<open>auto simp: start_item_def\<close>)
  moreover have "map oi_id (on_item i (start_item ev) its) = map oi_id its" by (simp add: on_item_def map_upd_where_key)
  moreover from this have "length (on_item i (start_item ev) its) = length its" by (metis length_map)
  moreover from this have "on_item i (start_item ev) its = [] \<longleftrightarrow> its = []" by (metis length_0_conv)
  ultimately show ?thesis using a by (simp add: counts_agree_def)
qed

lemma counts_recalculated:
  "counts_agree t its \<Longrightarrow> its' = map f its \<Longrightarrow> (\<And>r. oi_id (f r) = oi_id r) \<Longrightarrow> ot_total_count t' = ot_total_count t \<Longrightarrow>
   counts_agree (recalculate now p its' t') its'"
  by (simp add: counts_agree_def o_def)

theorem task_step_ok: "task_step x y \<Longrightarrow> task_ok x \<Longrightarrow> task_ok y"
proof (induction rule: task_step.induct)
  case (approved t user its ev reason its')
  then show ?case by (auto simp: task_ok_def counts_agree_def status_agrees_def decision_agrees_def)
next
  case (rejected t user its' ev reason its)
  then have "counts_agree (decided_task ev user False reason its' t) its'" by (simp add: task_ok_def counts_agree_def o_def)
  moreover have "all_in {Item_Blocked} its'" using rejected by (auto simp: all_in_def)
  ultimately show ?case using rejected by (auto simp: task_ok_def status_agrees_def decision_agrees_def)
next
  case (canceled t its' ev its)
  have "counts_agree (canceled_task ev its' t) its'"
    using canceled(3) unfolding canceled(2) upd_where_def task_ok_def counts_agree_def by (simp add: o_def if_distrib cong: if_cong)
  moreover have "all_in TERMINAL_ITEM_STATES its'" using canceled(2) by (auto simp: all_in_def upd_where_def closed_item)
  ultimately show ?case using canceled(1,3) by (auto simp: task_ok_def status_agrees_def decision_agrees_def)
next
  case (started r its t ev)
  then have st: "ot_status t \<in> {Task_Queued, Task_Running}" "oi_status r \<notin> TERMINAL_ITEM_STATES" "\<not> ot_cancel_requested t"
    by (cases "ot_status t"; auto simp: not_executable_def)+
  have "start_item ev r \<in> set (on_item (oi_id r) (start_item ev) its)" using started(1) by (auto simp: on_item_map)
  moreover have "oi_status (start_item ev r) \<notin> TERMINAL_ITEM_STATES" using st(2) by (simp add: start_item_def)
  ultimately have "\<not> all_in TERMINAL_ITEM_STATES (on_item (oi_id r) (start_item ev) its)" by (auto simp: all_in_def)
  then show ?case using started(3) st counts_started[of t its ev "oi_id r"] by (auto simp: task_ok_def status_agrees_def decision_agrees_def)
next
  case (finished r its t u its' ev f)
  have t: "ot_status t \<in> {Task_Queued, Task_Running}" using finished(3,4) by (cases "ot_status t") simp_all
  have f: "ot_total_count (f t) = ot_total_count t" "ot_operation_key (f t) = ot_operation_key t" "ot_requested_by (f t) = ot_requested_by t"
      "ot_approval_decision (f t) = ot_approval_decision t" "ot_approved_by (f t) = ot_approved_by t"
      "ot_cancel_requested (f t) = ot_cancel_requested t" "ot_completed_at (f t) = ot_completed_at t"
    using finished(7) by auto
  let ?t = "recalculate (ev_now ev) False its' (f t)"
  have c: "counts_agree t its" "\<not> ot_cancel_requested t" "ot_completed_at t = None"
    using finished(8) t by (auto simp: task_ok_def)
  have "counts_agree ?t its'" by (rule counts_recalculated[OF c(1) finished(6)[unfolded on_item_map]]) (simp_all add: f)
  moreover from this have n: "ot_total_count (f t) = length its'" by (simp add: counts_agree_def)
  note status = recalculate_status[OF n, of "ev_now ev"]
  have "decision_agrees ?t" using finished(8) t unfolding decision_agrees_def task_ok_def prod.case recalculate_fields f status(1) by (auto split: if_splits)
  ultimately show ?case
    using recalculate_agrees[OF n, of "ev_now ev"] c(2,3) f(6,7) unfolding task_ok_def prod.case recalculate_fields status
    by (simp split: if_splits)
qed

text \<open>What no step changes, and what is final.\<close>

definition task_core :: "operation_task_row \<Rightarrow> string \<times> string \<times> string \<times> string \<times> string \<times> nat" where
  "task_core t = (ot_id t, ot_tenant_id t, ot_operation_key t, ot_requested_by t, ot_idempotency_key t, ot_total_count t)"

definition item_core :: "operation_item_row \<Rightarrow> string \<times> string \<times> string \<times> string" where
  "item_core r = (oi_id r, oi_tenant_id r, oi_task_id r, oi_resource_id r)"

inductive_cases task_stepE: "task_step (t, its) (t', its')"

lemma task_step_core: "task_step (t, its) (t', its') \<Longrightarrow> task_core t' = task_core t \<and> map item_core its' = map item_core its"
  by (erule task_stepE) (auto simp: task_core_def item_core_def on_item_def map_upd_where_key)

lemma task_step_open: "task_step (t, its) (t', its') \<Longrightarrow> ot_status t \<notin> TERMINAL_TASK_STATES \<and> ot_status t' \<noteq> Task_Pending_Approval"
  by (erule task_stepE) (auto simp: not_executable_def recalculate_def recount_def Let_def)

lemma task_step_decision:
  "task_step (t, its) (t', its') \<Longrightarrow> task_ok (t, its) \<Longrightarrow> ot_approval_decision t = Some d \<Longrightarrow>
   ot_approval_decision t' = Some d \<and> ot_approved_by t' = ot_approved_by t"
  by (erule task_stepE) (auto simp: task_ok_def decision_agrees_def)

lemma on_item_other: "r \<in> set its \<Longrightarrow> oi_id r \<noteq> i \<Longrightarrow> r \<in> set (on_item i f its)"
  by (force simp: on_item_map)

lemma distinct_ids: "distinct (map oi_id its) \<Longrightarrow> r \<in> set its \<Longrightarrow> r' \<in> set its \<Longrightarrow> oi_id r = oi_id r' \<Longrightarrow> r = r'"
  by (auto simp: distinct_map inj_on_def)

lemma task_step_item_final:
  assumes "task_step (t, its) (t', its')" and "task_ok (t, its)" and "r \<in> set its" and "oi_status r \<in> TERMINAL_ITEM_STATES"
  shows "r \<in> set its'"
  using assms(1)
proof (cases rule: task_step.cases)
  case (finished q u ev f)
  then have "oi_id r \<noteq> oi_id q" using assms distinct_ids[of its r q] by (auto simp: task_ok_def counts_agree_def)
  then show ?thesis using finished assms(3) on_item_other by simp
next
  case (started q ev)
  then have "oi_id r \<noteq> oi_id q" using assms distinct_ids[of its r q] by (auto simp: task_ok_def counts_agree_def not_executable_def)
  then show ?thesis using started assms(3) on_item_other by simp
next
  case (rejected user ev reason)
  then show ?thesis using assms(2-4) by (auto simp: task_ok_def status_agrees_def all_in_def)
next
  case (canceled ev)
  then show ?thesis using assms(3,4) by (force simp: upd_where_def closed_item)
qed (use assms in simp)

end
