(* ===== verification/Operation_Refinement.thy ===== *)
theory Operation_Refinement
  imports Operation_Laws
begin

text \<open>
  The transactions on operation tasks against the machine of one task: the invariant of the tables, what a successful
  transaction does to the rows, and that it moves every task by at most one step of its machine.
\<close>

subsection \<open>What the transactions do to the tables\<close>

definition core_audit :: "env \<Rightarrow> actor \<Rightarrow> string \<Rightarrow> string \<Rightarrow> dict \<Rightarrow> string \<Rightarrow> dict \<Rightarrow> cdb \<Rightarrow> cdb" where
  "core_audit ev a action task_id after result metadata db = db\<lparr>db_next := db_next db + 1,
     db_audit := db_audit db @ [(audit_entry ev a (db_next db) action ''operation_task'' task_id
       (plain_audit\<lparr>ai_after := Some (JObj after), ai_metadata := metadata\<rparr>))\<lparr>ad_result := result\<rparr>]\<rparr>"

definition core_emit :: "env \<Rightarrow> actor \<Rightarrow> string \<Rightarrow> string \<Rightarrow> dict \<Rightarrow> cdb \<Rightarrow> cdb" where
  "core_emit ev a task_id event_type payload db = db\<lparr>db_next := db_next db + 1,
     db_outbox := db_outbox db @ [outbox_entry ev a (db_next db) ''operation_task'' task_id event_type payload]\<rparr>"

lemma log_run [simp]:
  "audit_result ev a x i after res m db = Inr ((), db\<lparr>od_core := core_audit ev a x i after res m (od_core db)\<rparr>)"
  "emit_task ev a i x p db = Inr ((), db\<lparr>od_core := core_emit ev a i x p (od_core db)\<rparr>)"
  "on_core (new_id ev) db = Inr (ev_id ev (db_next (od_core db)), db\<lparr>od_core := (od_core db)\<lparr>db_next := db_next (od_core db) + 1\<rparr>\<rparr>)"
  by (simp_all add: audit_result_def emit_task_def on_core_def emit_def new_id_def core_audit_def core_emit_def tmodify_def)

lemma as_sink_Inr [simp]: "as_sink f db = Inr r \<longleftrightarrow> f db = Inr r"
  by (auto simp: as_sink_def split: sum.split)

lemma guard_Inr [simp]:
  "orepo_task a i db = Inr (t, db') \<longleftrightarrow> find_task (tenant_of a) i db = Some t \<and> db' = db"
  "orequire a p db = Inr (u, db') \<longleftrightarrow> (\<exists>v. require_permissions (actor_roles a) [p] = Inr v) \<and> db' = db"
  by (auto simp: orepo_task_def orequire_def split: sum.splits)

lemma the_definition_Inr:
  "the_definition a k db = Inr (d, db') \<Longrightarrow> by_key k = Some d \<and> db' = db"
  by (auto simp: the_definition_def)

abbreviation is_task :: "string \<Rightarrow> string \<Rightarrow> operation_task_row \<Rightarrow> bool" where
  "is_task tenant i \<equiv> (\<lambda>t. ot_id t = i \<and> ot_tenant_id t = tenant)"

abbreviation in_task :: "string \<Rightarrow> string \<Rightarrow> operation_item_row \<Rightarrow> bool" where
  "in_task tenant i \<equiv> (\<lambda>r. oi_task_id r = i \<and> oi_tenant_id r = tenant)"

text \<open>A transaction that updates one task and some of its items.\<close>

definition updates :: "string \<Rightarrow> string \<Rightarrow> (operation_task_row \<Rightarrow> operation_task_row) \<Rightarrow> (operation_item_row \<Rightarrow> bool) \<Rightarrow>
    (operation_item_row \<Rightarrow> operation_item_row) \<Rightarrow> odb \<Rightarrow> odb \<Rightarrow> bool" where
  "updates tenant i f p g db db' \<longleftrightarrow> od_tasks db' = upd_where (is_task tenant i) f (od_tasks db) \<and> od_items db' = upd_where p g (od_items db)"

lemma keeps_tables [keeps_intros]: "leaves (\<lambda>db. (od_tasks db, od_items db)) (on_core f)"
  by (auto simp: leaves_def on_core_def split: sum.splits)

lemma find_taskD: "find_task tenant i db = Some t \<Longrightarrow> t \<in> set (od_tasks db) \<and> ot_id t = i \<and> ot_tenant_id t = tenant"
  by (auto simp: find_task_def dest: find_row_SomeD)

lemma filter_upd_where_key:
  "(\<And>r. P (g r) = P r) \<Longrightarrow> filter P (upd_where p g xs) = upd_where p g (filter P xs)"
  by (induction xs) (auto simp: upd_where_def)

lemma cancel_task_Inr:
  assumes "cancel_task ev a i reason db = Inr (x, db')"
  shows "\<exists>t. find_task (tenant_of a) i db = Some t \<and> ot_status t \<notin> TERMINAL_TASK_STATES \<and>
    (let p = (\<lambda>r. in_task (tenant_of a) i r \<and> oi_status r \<in> OPEN_ITEM_STATES) in
     updates (tenant_of a) i (canceled_task ev (upd_where p (canceled_item ev) (items_of (tenant_of a) i db))) p (canceled_item ev) db db')"
proof -
  obtain t where t: "find_task (tenant_of a) i db = Some t" using assms by (auto simp: cancel_task_def)
  then have "ot_id t = i" by (simp add: find_taskD)
  with t show ?thesis using assms
    by (auto simp: cancel_task_def set_items_def set_task_def updates_def items_of_def filter_upd_where_key Let_def dest!: the_definition_Inr)
qed

lemma decide_task_Inr:
  assumes "decide_task ev a i b reason db = Inr (x, db')"
  shows "\<exists>t. find_task (tenant_of a) i db = Some t \<and> ot_status t = Task_Pending_Approval \<and> needs_approval (ot_operation_key t) \<and>
    ot_requested_by t \<noteq> actor_user_id a \<and> actor_mfa a \<and> (\<exists>v. require_permissions (actor_roles a) [OPERATION_APPROVE] = Inr v) \<and>
    (let p = (\<lambda>r. \<not> b \<and> in_task (tenant_of a) i r); its = upd_where p (rejected_item ev reason) (items_of (tenant_of a) i db) in
     updates (tenant_of a) i (decided_task ev (actor_user_id a) b reason its) p (rejected_item ev reason) db db')"
proof -
  obtain t where t: "find_task (tenant_of a) i db = Some t" using assms by (auto simp: decide_task_def)
  then have "ot_id t = i" by (simp add: find_taskD)
  with t show ?thesis using assms
    by (auto simp: decide_task_def set_items_def set_task_def updates_def items_of_def filter_upd_where_key Let_def)
qed

lemma store_result_Inr:
  assumes "store_result ev a t r start u m db = Inr (x, db')"
  shows "updates (tenant_of a) (ot_id t)
    (recalculate (ev_now ev) False (on_item (oi_id r) (apply_update ev u) (items_of (tenant_of a) (ot_id t) db)) \<circ> start)
    (\<lambda>q. oi_id q = oi_id r) (apply_update ev u) db db'"
  using assms
  by (auto simp: store_result_def set_items_def set_task_def updates_def items_of_def filter_upd_where_key on_item_def Let_def)

lemma find_itemD: "find_item tenant i db = Some r \<Longrightarrow> r \<in> set (od_items db) \<and> oi_id r = i \<and> oi_tenant_id r = tenant"
  by (auto simp: find_item_def dest: find_row_SomeD)

lemma record_item_result_Inr:
  assumes "record_item_result ev a i resource u db = Inr (x, db')"
  shows "db' = db \<or> (\<exists>t r. find_task (tenant_of a) i db = Some t \<and> r \<in> set (items_of (tenant_of a) i db) \<and> oi_status r \<notin> TERMINAL_ITEM_STATES \<and>
    ot_status t \<noteq> Task_Pending_Approval \<and> ot_status t \<notin> TERMINAL_TASK_STATES \<and>
    updates (tenant_of a) i (recalculate (ev_now ev) False (on_item (oi_id r) (apply_update ev u) (items_of (tenant_of a) i db)) \<circ> start_task ev)
      (\<lambda>q. oi_id q = oi_id r) (apply_update ev u) db db')"
proof -
  obtain t where t: "find_task (tenant_of a) i db = Some t" using assms by (auto simp: record_item_result_def)
  then have i: "ot_id t = i" by (simp add: find_taskD)
  obtain r where r: "find_row (\<lambda>r. oi_task_id r = i \<and> oi_resource_id r = resource \<and> oi_tenant_id r = tenant_of a) (od_items db) = Some r"
    using assms t i by (auto simp: record_item_result_def orepo_item_def)
  then have m: "r \<in> set (items_of (tenant_of a) i db)" by (auto simp: items_of_def dest: find_row_SomeD)
  have s: "start_task ev = (\<lambda>t. t\<lparr>ot_started_at := (if ot_started_at t = None then Some (ev_now ev) else ot_started_at t), ot_status := Task_Running\<rparr>)"
    by (rule ext) (simp add: start_task_def)
  show ?thesis
  proof (cases "oi_status r \<in> TERMINAL_ITEM_STATES")
    case True
    then show ?thesis using assms t i r by (auto simp: record_item_result_def orepo_item_def split: if_splits)
  next
    case False
    then have "ot_status t \<noteq> Task_Pending_Approval" "ot_status t \<notin> TERMINAL_TASK_STATES" "store_result ev a t r (start_task ev) u [] db = Inr (x, db')"
      unfolding s using assms t i r by (auto simp: record_item_result_def orepo_item_def)
    then show ?thesis using False t m store_result_Inr[of ev a t r "start_task ev" u "[]" db x db'] unfolding i by blast
  qed
qed

lemma service_tenant [simp]: "tenant_of (service_actor service tenant i) = tenant"
  by (simp add: service_actor_def)

lemma claim_item_Inr:
  assumes "claim_item cf ev e j db = Inr (x, db')"
  shows "x = None \<and> db' = db \<or> (\<exists>t r. find_task (en_tenant_id e) (en_aggregate_id e) db = Some t \<and>
    r \<in> set (items_of (en_tenant_id e) (en_aggregate_id e) db) \<and> oi_id r = j \<and> \<not> not_executable t r \<and> x = Some (request_of e t r) \<and>
    updates (en_tenant_id e) (en_aggregate_id e) (start_task ev) (\<lambda>q. oi_id q = oi_id r) (start_item ev) db db')"
proof -
  obtain t where t: "find_task (en_tenant_id e) (en_aggregate_id e) db = Some t" using assms by (auto simp: claim_item_def Let_def)
  then have i: "ot_id t = en_aggregate_id e" by (simp add: find_taskD)
  obtain r where r: "find_row (\<lambda>r. oi_id r = j \<and> oi_task_id r = en_aggregate_id e \<and> oi_tenant_id r = en_tenant_id e) (od_items db) = Some r"
    using assms t by (auto simp: claim_item_def Let_def)
  then have m: "r \<in> set (items_of (en_tenant_id e) (en_aggregate_id e) db)" "oi_id r = j" by (auto simp: items_of_def dest: find_row_SomeD)
  show ?thesis
  proof (cases "not_executable t r")
    case True
    then show ?thesis using assms t r by (auto simp: claim_item_def Let_def)
  next
    case False
    then have "x = Some (request_of e t r) \<and> updates (en_tenant_id e) (en_aggregate_id e) (start_task ev) (\<lambda>q. oi_id q = oi_id r) (start_item ev) db db'"
      using assms t i r by (auto simp: claim_item_def Let_def updates_def set_items_def set_task_def)
    then show ?thesis using False t m by blast
  qed
qed

lemma record_result_Inr:
  assumes "record_result cf ev rq u db = Inr (x, db')"
  shows "od_tasks db' = od_tasks db \<and> od_items db' = od_items db \<or>
    (\<exists>t r. find_task (xr_tenant_id rq) (xr_task_id rq) db = Some t \<and> find_item (xr_tenant_id rq) (xr_item_id rq) db = Some r \<and>
      oi_status r \<notin> TERMINAL_ITEM_STATES \<and>
      updates (xr_tenant_id rq) (xr_task_id rq)
        (recalculate (ev_now ev) False (on_item (oi_id r) (apply_update ev u) (items_of (xr_tenant_id rq) (xr_task_id rq) db)) \<circ> id)
        (\<lambda>q. oi_id q = oi_id r) (apply_update ev u) db db')"
proof -
  let ?a = "service_actor (oc_service_user_id cf) (xr_tenant_id rq) (xr_event_id rq)"
  obtain t r where t: "find_task (xr_tenant_id rq) (xr_task_id rq) db = Some t" and r: "find_item (xr_tenant_id rq) (xr_item_id rq) db = Some r"
    using assms by (auto simp: record_result_def)
  have i: "ot_id t = xr_task_id rq" using t by (simp add: find_taskD)
  show ?thesis
  proof (cases "ot_cancel_requested t \<or> ot_status t = Task_Canceled \<or> oi_status r = Item_Canceled \<or> oi_status r \<in> TERMINAL_ITEM_STATES")
    case True
    then show ?thesis using assms t r by (auto simp: record_result_def discarded_def split: if_splits)
  next
    case False
    then obtain y where "store_result ev ?a t r id u [(''event_id'', JStr (xr_event_id rq)), (''executor'', JStr ''restricted_consumer'')] db = Inr (y, db')"
      using assms t r by (auto simp: record_result_def)
    from store_result_Inr[OF this] show ?thesis using False t r unfolding i by auto
  qed
qed

subsection \<open>The invariant of the tables\<close>

definition task_view :: "odb \<Rightarrow> operation_task_row \<Rightarrow> task_state" where
  "task_view db t = (t, items_of (ot_tenant_id t) (ot_id t) db)"

definition ops_inv :: "odb \<Rightarrow> bool" where
  "ops_inv db \<longleftrightarrow> distinct (map ot_id (od_tasks db)) \<and> distinct (map oi_id (od_items db)) \<and>
     (\<forall>r \<in> set (od_items db). \<exists>t \<in> set (od_tasks db). ot_id t = oi_task_id r \<and> ot_tenant_id t = oi_tenant_id r) \<and>
     (\<forall>t \<in> set (od_tasks db). task_ok (task_view db t))"

text \<open>Every task of the first state is in the second, after at most one step of its machine.\<close>

definition moves :: "odb \<Rightarrow> odb \<Rightarrow> bool" where
  "moves db db' \<longleftrightarrow> (\<forall>t \<in> set (od_tasks db). \<exists>t' \<in> set (od_tasks db'). task_step\<^sup>=\<^sup>= (task_view db t) (task_view db' t'))"

lemma ops_invD:
  assumes "ops_inv db"
  shows "distinct (map ot_id (od_tasks db))" "distinct (map oi_id (od_items db))"
    "r \<in> set (od_items db) \<Longrightarrow> \<exists>t \<in> set (od_tasks db). ot_id t = oi_task_id r \<and> ot_tenant_id t = oi_tenant_id r"
    "t \<in> set (od_tasks db) \<Longrightarrow> task_ok (task_view db t)"
  using assms by (auto simp: ops_inv_def)

lemma task_eq: "ops_inv db \<Longrightarrow> t \<in> set (od_tasks db) \<Longrightarrow> t' \<in> set (od_tasks db) \<Longrightarrow> ot_id t = ot_id t' \<Longrightarrow> t = t'"
  using ops_invD(1) by (auto simp: distinct_map inj_on_def)

lemma item_eq: "ops_inv db \<Longrightarrow> r \<in> set (od_items db) \<Longrightarrow> r' \<in> set (od_items db) \<Longrightarrow> oi_id r = oi_id r' \<Longrightarrow> r = r'"
  using ops_invD(2) by (auto simp: distinct_map inj_on_def)

lemma view_cong: "od_items db' = od_items db \<Longrightarrow> task_view db' t = task_view db t"
  by (simp add: task_view_def items_of_def)

lemma same_tables: "ops_inv db \<Longrightarrow> od_tasks db' = od_tasks db \<Longrightarrow> od_items db' = od_items db \<Longrightarrow> ops_inv db' \<and> moves db db'"
proof
  assume a: "ops_inv db" "od_tasks db' = od_tasks db" "od_items db' = od_items db"
  have v: "task_view db' = task_view db" by (rule ext) (rule view_cong[OF a(3)])
  show "ops_inv db'" using a(1) unfolding ops_inv_def a(2,3) v .
  show "moves db db'" unfolding moves_def a(2) v by (intro ballI bexI sup2I2) simp_all
qed

lemma moved_ok: "task_step\<^sup>=\<^sup>= x y \<Longrightarrow> task_ok x \<Longrightarrow> task_ok y"
  by (erule sup2E) (rule task_step_ok, assumption+, simp)

lemma upd_where_none: "(\<And>r. r \<in> set xs \<Longrightarrow> \<not> p r) \<Longrightarrow> upd_where p f xs = xs"
  by (induction xs) auto

text \<open>One lemma for every transaction on one task: it is enough that the task and its items make a step.\<close>

lemma updates_law:
  assumes inv: "ops_inv db" and t: "find_task tenant i db = Some t" and upd: "updates tenant i f p g db db'"
    and p: "\<And>r. r \<in> set (od_items db) \<Longrightarrow> p r \<Longrightarrow> in_task tenant i r"
    and g: "\<And>r. item_core (g r) = item_core r" and f: "\<And>t. task_core (f t) = task_core t"
    and step: "task_step (t, items_of tenant i db) (f t, upd_where p g (items_of tenant i db))"
  shows "ops_inv db' \<and> moves db db'"
proof -
  note t = find_taskD[OF t]
  have core: "oi_id (g r) = oi_id r" "oi_task_id (g r) = oi_task_id r" "oi_tenant_id (g r) = oi_tenant_id r"
    "ot_id (f t) = ot_id t" "ot_tenant_id (f t) = ot_tenant_id t" for r t
    using g[of r] f[of t] by (simp_all add: item_core_def task_core_def)
  have items: "items_of n k db' = upd_where p g (items_of n k db)" for n k
    using upd unfolding updates_def items_of_def by (simp add: filter_upd_where_key core)
  have other: "upd_where p g (items_of n k db) = items_of n k db" if "(n, k) \<noteq> (tenant, i)" for n k
    using p that by (intro upd_where_none) (auto simp: items_of_def)
  have view: "task_step\<^sup>=\<^sup>= (task_view db q) (task_view db' (if is_task tenant i q then f q else q))" if "q \<in> set (od_tasks db)" for q
  proof (cases "is_task tenant i q")
    case True
    then have "q = t" using task_eq[OF inv that] t by simp
    then show ?thesis using step t by (simp add: task_view_def items core)
  next
    case False
    then show ?thesis using other[of "ot_tenant_id q" "ot_id q"] by (auto simp: task_view_def items)
  qed
  have tasks: "od_tasks db' = map (\<lambda>q. if is_task tenant i q then f q else q) (od_tasks db)"
    using upd by (simp add: updates_def upd_where_def)
  have ok: "task_ok (task_view db' (if is_task tenant i q then f q else q))" if "q \<in> set (od_tasks db)" for q
    by (rule moved_ok[OF view[OF that] ops_invD(4)[OF inv that]])
  have "map ot_id (od_tasks db') = map ot_id (od_tasks db)" using upd core by (simp add: updates_def map_upd_where_key)
  moreover have "map oi_id (od_items db') = map oi_id (od_items db)" using upd core by (simp add: updates_def map_upd_where_key)
  moreover have "\<exists>t \<in> set (od_tasks db'). ot_id t = oi_task_id r \<and> ot_tenant_id t = oi_tenant_id r" if "r \<in> set (od_items db')" for r
  proof -
    obtain q where "q \<in> set (od_items db)" "r = (if p q then g q else q)" using \<open>r \<in> set (od_items db')\<close> upd by (auto simp: updates_def upd_where_def)
    then have q: "q \<in> set (od_items db)" "oi_task_id r = oi_task_id q" "oi_tenant_id r = oi_tenant_id q" by (simp_all add: core)
    then obtain k where k: "k \<in> set (od_tasks db)" "ot_id k = oi_task_id q" "ot_tenant_id k = oi_tenant_id q" using ops_invD(3)[OF inv] by blast
    show ?thesis by (rule bexI[of _ "if is_task tenant i k then f k else k"]) (use k q core in \<open>simp_all add: tasks\<close>)
  qed
  moreover have "\<forall>t \<in> set (od_tasks db'). task_ok (task_view db' t)" unfolding tasks set_map using ok by blast
  ultimately have "ops_inv db'" using ops_invD(1,2)[OF inv] by (simp add: ops_inv_def)
  moreover have "moves db db'" unfolding moves_def
  proof
    fix q assume q: "q \<in> set (od_tasks db)"
    show "\<exists>t' \<in> set (od_tasks db'). task_step\<^sup>=\<^sup>= (task_view db q) (task_view db' t')"
      by (rule bexI[of _ "if is_task tenant i q then f q else q"]) (use view[OF q] q in \<open>simp_all add: tasks\<close>)
  qed
  ultimately show ?thesis ..
qed

lemma items_in_task: "r \<in> set (items_of tenant i db) \<Longrightarrow> r \<in> set (od_items db) \<and> in_task tenant i r"
  by (simp add: items_of_def)

lemma one_item:
  assumes "ops_inv db" and "r \<in> set (items_of tenant i db)" and "q \<in> set (od_items db)" and "oi_id q = oi_id r"
  shows "in_task tenant i q"
  using assms item_eq[of db q r] items_in_task by blast

lemma upd_where_cong: "(\<And>r. r \<in> set xs \<Longrightarrow> p r = q r) \<Longrightarrow> upd_where p f xs = upd_where q f xs"
  by (induction xs) auto

lemma cancel_task_law:
  assumes "ops_inv db" and "cancel_task ev a i reason db = Inr (x, db')"
  shows "ops_inv db' \<and> moves db db'"
proof -
  let ?p = "\<lambda>r. in_task (tenant_of a) i r \<and> oi_status r \<in> OPEN_ITEM_STATES"
  let ?its = "items_of (tenant_of a) i db"
  obtain t where t: "find_task (tenant_of a) i db = Some t" "ot_status t \<notin> TERMINAL_TASK_STATES"
      and u: "updates (tenant_of a) i (canceled_task ev (upd_where ?p (canceled_item ev) ?its)) ?p (canceled_item ev) db db'"
    using cancel_task_Inr[OF assms(2)] by (auto simp: Let_def)
  have "upd_where ?p (canceled_item ev) ?its = upd_where (\<lambda>r. oi_status r \<in> OPEN_ITEM_STATES) (canceled_item ev) ?its"
    by (rule upd_where_cong) (auto dest: items_in_task)
  from task_step.canceled[OF t(2) this] show ?thesis
    by (intro updates_law[OF assms(1) t(1) u]) (simp_all add: item_core_def task_core_def)
qed

lemma decide_task_law:
  assumes "ops_inv db" and "decide_task ev a i b reason db = Inr (x, db')"
  shows "ops_inv db' \<and> moves db db'"
proof -
  let ?p = "\<lambda>r. \<not> b \<and> in_task (tenant_of a) i r"
  let ?its = "items_of (tenant_of a) i db"
  obtain t where t: "find_task (tenant_of a) i db = Some t" "ot_status t = Task_Pending_Approval" "needs_approval (ot_operation_key t)"
        "ot_requested_by t \<noteq> actor_user_id a"
      and u: "updates (tenant_of a) i (decided_task ev (actor_user_id a) b reason (upd_where ?p (rejected_item ev reason) ?its)) ?p
        (rejected_item ev reason) db db'"
    using decide_task_Inr[OF assms(2)] by (auto simp: Let_def)
  have "upd_where ?p (rejected_item ev reason) ?its = (if b then ?its else map (rejected_item ev reason) ?its)"
    by (auto simp: upd_where_def items_of_def)
  then have "task_step (t, ?its) (decided_task ev (actor_user_id a) b reason (upd_where ?p (rejected_item ev reason) ?its) t,
      upd_where ?p (rejected_item ev reason) ?its)"
    using task_step.approved[OF t(2-4)] task_step.rejected[OF t(2-4)] by (cases b) auto
  then show ?thesis by (intro updates_law[OF assms(1) t(1) u]) (auto simp: item_core_def task_core_def)
qed

text \<open>The storing of a result, by the service or by the sink.\<close>

lemma stored_law:
  assumes "ops_inv db" and t: "find_task tenant i db = Some t" and r: "r \<in> set (items_of tenant i db)" "oi_status r \<notin> TERMINAL_ITEM_STATES"
    and "ot_status t \<noteq> Task_Pending_Approval" and "valid_update u" and f: "f \<in> {id, start_task ev}"
    and u: "updates tenant i (recalculate (ev_now ev) False (on_item (oi_id r) (apply_update ev u) (items_of tenant i db)) \<circ> f)
      (\<lambda>q. oi_id q = oi_id r) (apply_update ev u) db db'"
  shows "ops_inv db' \<and> moves db db'"
proof -
  have ok: "task_ok (t, items_of tenant i db)" using ops_invD(4)[OF assms(1)] find_taskD[OF t] by (auto simp: task_view_def)
  have "ot_status t \<notin> TERMINAL_TASK_STATES" using open_items[OF ok r] .
  from task_step.finished[OF r this assms(5,6) refl f]
  have "task_step (t, items_of tenant i db) ((recalculate (ev_now ev) False (on_item (oi_id r) (apply_update ev u) (items_of tenant i db)) \<circ> f) t,
      upd_where (\<lambda>q. oi_id q = oi_id r) (apply_update ev u) (items_of tenant i db))"
    by (simp add: on_item_def)
  then show ?thesis
    using f one_item[OF assms(1) r(1)] by (intro updates_law[OF assms(1) t u]) (auto simp: item_core_def task_core_def)
qed

lemma record_item_result_law:
  assumes "ops_inv db" and "record_item_result ev a i resource u db = Inr (x, db')" and "valid_update u"
  shows "ops_inv db' \<and> moves db db'"
  using record_item_result_Inr[OF assms(2)]
proof
  assume "db' = db"
  then show ?thesis using same_tables[OF assms(1)] by simp
next
  assume "\<exists>t r. find_task (tenant_of a) i db = Some t \<and> r \<in> set (items_of (tenant_of a) i db) \<and> oi_status r \<notin> TERMINAL_ITEM_STATES \<and>
    ot_status t \<noteq> Task_Pending_Approval \<and> ot_status t \<notin> TERMINAL_TASK_STATES \<and>
    updates (tenant_of a) i (recalculate (ev_now ev) False (on_item (oi_id r) (apply_update ev u) (items_of (tenant_of a) i db)) \<circ> start_task ev)
      (\<lambda>q. oi_id q = oi_id r) (apply_update ev u) db db'"
  then show ?thesis using stored_law[OF assms(1) _ _ _ _ assms(3)] by blast
qed

lemma claim_item_law:
  assumes "ops_inv db" and "claim_item cf ev e j db = Inr (x, db')"
  shows "ops_inv db' \<and> moves db db'"
  using claim_item_Inr[OF assms(2)]
proof (elim disjE exE conjE)
  fix t r
  assume t: "find_task (en_tenant_id e) (en_aggregate_id e) db = Some t" and r: "r \<in> set (items_of (en_tenant_id e) (en_aggregate_id e) db)"
    and x: "\<not> not_executable t r"
    and u: "updates (en_tenant_id e) (en_aggregate_id e) (start_task ev) (\<lambda>q. oi_id q = oi_id r) (start_item ev) db db'"
  show ?thesis
    using task_step.started[OF r x, of ev] one_item[OF assms(1) r]
    by (intro updates_law[OF assms(1) t u]) (auto simp: on_item_def item_core_def task_core_def)
qed (simp add: same_tables[OF assms(1)])

subsection \<open>Creation\<close>

lemma add_items:
  "tmap (add_item ev a i) rs db = Inr (u, db') \<Longrightarrow>
   \<exists>ids. length ids = length rs \<and> od_tasks db' = od_tasks db \<and>
     od_items db' = od_items db @ map (\<lambda>(j, r). new_item ev a i r j) (zip ids rs) \<and>
     (distinct (map oi_id (od_items db)) \<longrightarrow> distinct (map oi_id (od_items db')))"
proof (induction rs arbitrary: db u)
  case Nil
  then show ?case by simp
next
  case (Cons r rs)
  obtain db1 v where 1: "add_item ev a i r db = Inr ((), db1)" "tmap (add_item ev a i) rs db1 = Inr (v, db')" using Cons.prems by auto
  define j where "j = ev_id ev (db_next (od_core db))"
  have j: "od_items db1 = od_items db @ [new_item ev a i r j]" "od_tasks db1 = od_tasks db" "j \<notin> oi_id ` set (od_items db)"
    using 1(1) by (auto simp: add_item_def j_def)
  have d: "distinct (map oi_id (od_items db)) \<longrightarrow> distinct (map oi_id (od_items db1))" using j(1,3) by (simp add: new_item_def)
  from Cons.IH[OF 1(2)] obtain ids where ids: "length ids = length rs" "od_tasks db' = od_tasks db1"
      "od_items db' = od_items db1 @ map (\<lambda>(j, r). new_item ev a i r j) (zip ids rs)"
      "distinct (map oi_id (od_items db1)) \<longrightarrow> distinct (map oi_id (od_items db'))" by blast
  show ?case by (rule exI[of _ "j # ids"]) (use ids j d in simp)
qed

lemma keeps_checks [keeps_intros]:
  "leaves T (orequire a p)" "leaves T (inspected what c)" "leaves T (validate_feature_mapping feature k)"
  unfolding orequire_def inspected_def validate_feature_mapping_def by (intro keeps_intros)+

lemma keeps_validations [keeps_intros]:
  "leaves T (the_definition a k)" "leaves T (validate_context cf c)" "leaves T (validate_parameters cf d feature ps)"
  unfolding the_definition_def validate_context_def validate_parameters_def by (intro keeps_intros)+

lemma check_request_Inr:
  assumes "check_request cf a key q db = Inr ((d, p), db')"
  shows "db' = db \<and> by_key (rq_operation_key q) = Some d \<and> rq_resource_ids q \<noteq> [] \<and> distinct (rq_resource_ids q)"
proof -
  have "leaves (\<lambda>db. db) (check_request cf a key q)" unfolding check_request_def by (intro keeps_intros)
  then have "db' = db" using assms by (simp add: leaves_def)
  moreover have "by_key (rq_operation_key q) = Some d \<and> rq_resource_ids q \<noteq> [] \<and> distinct (rq_resource_ids q)"
    using assms by (auto simp: check_request_def dest: the_definition_Inr)
  ultimately show ?thesis by simp
qed

lemma create_task_cases:
  assumes "create_task cf ev a key q db = Inr ((t, fresh), db')"
  obtains (existing) "\<not> fresh" "db' = db" "orepo_task_by_idempotency a key db = Some t"
  | (fresh) d p i ids where "fresh" "by_key (rq_operation_key q) = Some d" "rq_resource_ids q \<noteq> []" "orepo_task_by_idempotency a key db = None"
      "t = new_task ev a key q d p i" "i \<notin> ot_id ` set (od_tasks db)" "od_tasks db' = od_tasks db @ [t]" "length ids = length (rq_resource_ids q)"
      "od_items db' = od_items db @ map (\<lambda>(j, r). new_item ev a i r j) (zip ids (rq_resource_ids q))"
      "distinct (map oi_id (od_items db)) \<Longrightarrow> distinct (map oi_id (od_items db'))"
proof -
  obtain d p where c: "check_request cf a key q db = Inr ((d, p), db)"
    using assms check_request_Inr by (fastforce simp: create_task_def)
  note q = check_request_Inr[OF c]
  show thesis
  proof (cases "orepo_task_by_idempotency a key db")
    case (Some t')
    then show ?thesis using assms c existing by (auto simp: create_task_def split: if_splits)
  next
    case None
    define i where "i = ev_id ev (db_next (od_core db))"
    define db1 where "db1 = db\<lparr>od_core := (od_core db)\<lparr>db_next := Suc (db_next (od_core db))\<rparr>, od_tasks := od_tasks db @ [new_task ev a key q d p i]\<rparr>"
    have r: "t = new_task ev a key q d p i" "fresh" "i \<notin> ot_id ` set (od_tasks db)"
      using assms c None by (auto simp: create_task_def i_def)
    obtain u db2 where m: "tmap (add_item ev a i) (rq_resource_ids q) db1 = Inr (u, db2)" "od_tasks db' = od_tasks db2" "od_items db' = od_items db2"
      using assms c None by (auto simp: create_task_def i_def db1_def)
    from add_items[OF m(1)] obtain ids where "length ids = length (rq_resource_ids q)" "od_tasks db2 = od_tasks db1"
        "od_items db2 = od_items db1 @ map (\<lambda>(j, r). new_item ev a i r j) (zip ids (rq_resource_ids q))"
        "distinct (map oi_id (od_items db1)) \<longrightarrow> distinct (map oi_id (od_items db2))" by blast
    then show ?thesis using fresh[of d p i ids] r q None m(2,3) by (simp add: db1_def)
  qed
qed

lemma create_task_law:
  assumes inv: "ops_inv db" and "create_task cf ev a key q db = Inr ((t, fresh), db')"
  shows "ops_inv db' \<and> moves db db'"
  using assms(2)
proof (cases rule: create_task_cases)
  case existing
  then show ?thesis using same_tables[OF inv] by simp
next
  case (fresh d p i ids)
  let ?new = "map (\<lambda>(j, r). new_item ev a i r j) (zip ids (rq_resource_ids q))"
  have new: "oi_task_id r = i \<and> oi_tenant_id r = tenant_of a \<and> oi_status r = Item_Queued" if "r \<in> set ?new" for r
    using that by (auto simp: new_item_def)
  have t: "ot_id t = i" "ot_tenant_id t = tenant_of a" "ot_total_count t = length ?new" "ot_operation_key t = op_key d"
    using fresh by (simp_all add: new_task_def)
  have old: "task_view db' q = task_view db q" if "q \<in> set (od_tasks db)" for q
    using that fresh(6) new unfolding task_view_def items_of_def fresh(9) filter_append by (auto simp: filter_empty_conv)
  have "filter (in_task (tenant_of a) i) (od_items db) = []"
    using ops_invD(3)[OF inv] fresh(6) by (force simp: filter_empty_conv)
  moreover have "filter (in_task (tenant_of a) i) ?new = ?new" using new by (intro filter_True) blast
  ultimately have its: "items_of (ot_tenant_id t) (ot_id t) db' = ?new" unfolding items_of_def fresh(9) filter_append t(1,2) by simp
  have ids: "distinct (map oi_id (od_items db'))" using fresh(10) ops_invD(2)[OF inv] by simp
  have z: "count_status st ?new = 0" if "st \<in> TERMINAL_ITEM_STATES" for st using new that by (force simp: count_zero)
  have "?new \<noteq> []" using fresh(3,8) by auto
  then have "counts_agree t ?new" using ids t(3) fresh(5) z by (simp add: counts_agree_def fresh(9) new_task_def)
  moreover have "all_in {Item_Queued} ?new" using new by (force simp: all_in_def)
  moreover have "needs_approval (ot_operation_key t) \<longleftrightarrow> op_risk d = Approval"
    using by_key_Some[OF fresh(2)] fresh(2) by (simp add: needs_approval_def t(4))
  ultimately have ok: "task_ok (task_view db' t)"
    unfolding task_view_def its using fresh(5) by (auto simp: task_ok_def status_agrees_def decision_agrees_def new_task_def)
  have "distinct (map ot_id (od_tasks db'))" using ops_invD(1)[OF inv] fresh(6) t(1) by (simp add: fresh(7))
  moreover have "\<exists>t' \<in> set (od_tasks db'). ot_id t' = oi_task_id r \<and> ot_tenant_id t' = oi_tenant_id r" if "r \<in> set (od_items db')" for r
    using that ops_invD(3)[OF inv, of r] t(1,2) unfolding fresh(7,9) set_append by (auto simp: new_item_def)
  moreover have "task_ok (task_view db' t')" if "t' \<in> set (od_tasks db')" for t'
    using that ok old ops_invD(4)[OF inv, of t'] unfolding fresh(7) by auto
  ultimately have "ops_inv db'" using ids by (simp add: ops_inv_def)
  moreover have "moves db db'" unfolding moves_def
  proof
    fix q assume q: "q \<in> set (od_tasks db)"
    show "\<exists>t' \<in> set (od_tasks db'). task_step\<^sup>=\<^sup>= (task_view db q) (task_view db' t')"
      by (rule bexI[of _ q]) (simp_all add: old[OF q] q fresh(7))
  qed
  ultimately show ?thesis ..
qed

end
