(* ===== verification/Operation_Demo.thy ===== *)
theory Operation_Demo
  imports Operation_Refinement
begin

text \<open>
  One operation, concretely: a snapshot validation that a publisher requests and an approver approves, its item claimed
  and its result stored. The witnesses of the properties of operations use it.
\<close>

definition opd_config :: operation_config where
  "opd_config = \<lparr>oc_executors = [], oc_encoded_size = (\<lambda>_. Some 2), oc_config_size = (\<lambda>_. Some 2), oc_parameters = (\<lambda>k f p. Inr p),
     oc_service_user_id = ''svc''\<rparr>"

definition opd_clock :: env where
  "opd_clock = \<lparr>ev_id = (\<lambda>n. replicate (Suc n) (CHR ''i'')), ev_hash = (\<lambda>v. ''h''), ev_now = 7\<rparr>"

definition opd_person :: "string \<Rightarrow> role \<Rightarrow> actor" where
  "opd_person u r = \<lparr>actor_tenant_id = ''t'', actor_user_id = u, actor_roles = [r], actor_mfa = True, actor_request_id = ''r'', actor_ip = None,
     actor_user_agent = None\<rparr>"

definition opd_request :: task_request where
  "opd_request = \<lparr>rq_operation_key = ''publish_plans.snapshot.validate'', rq_feature_id = None, rq_resource_ids = [''p1''], rq_parameters = [],
     rq_context = [], rq_is_batch = False\<rparr>"

definition empty_odb :: odb where
  "empty_odb = \<lparr>od_core = empty_db, od_tasks = [], od_items = [], od_drafts = []\<rparr>"

definition opd_definition :: operation_definition where
  "opd_definition = operation ''publish_plans.snapshot.validate'' ''publish_plans'' ''publish_plan'' PUBLISH_CREATE True [''strict''] Approval
     ''PublishSnapshotValidatedResult'' None Executable"

lemma opd_key: "by_key ''publish_plans.snapshot.validate'' = Some opd_definition"
proof -
  have "opd_definition \<in> set DEFINITIONS" unfolding DEFINITIONS_def BASE_OPERATIONS_1_def opd_definition_def set_append list.set by blast
  from by_key_some[OF this] show ?thesis by (simp add: opd_definition_def operation_def)
qed

lemma opd_checked:
  "check_request opd_config (opd_person ''u1'' PUBLISHER) ''k'' opd_request db = Inr ((opd_definition, []), db)"
proof -
  have "effective_permissions [PUBLISHER] = {CONTENT_READ, PUBLISH_READ, PUBLISH_CREATE, TASK_CREATE}" by simp
  then have "require_permissions [PUBLISHER] [PUBLISH_CREATE] = Inr ()" unfolding require_permissions_ok by simp
  moreover have "\<not> unsafe_key []" by code_simp
  ultimately show ?thesis
    by (simp add: check_request_def opd_request_def validate_feature_mapping_def the_definition_def opd_key opd_person_def orequire_def
        opd_definition_def operation_def executor_available_def BUILTIN_OPERATION_KEYS_def validate_parameters_def validate_context_def
        opd_config_def inspected_def dget_or_def)
qed

definition opd_item :: operation_item_row where
  "opd_item = new_item opd_clock (opd_person ''u1'' PUBLISHER) ''i'' ''p1'' ''ii''"

definition opd_task :: operation_task_row where
  "opd_task = new_task opd_clock (opd_person ''u1'' PUBLISHER) ''k'' opd_request opd_definition [] ''i''"

lemma opd_create:
  "\<exists>db. create_task opd_config opd_clock (opd_person ''u1'' PUBLISHER) ''k'' opd_request empty_odb = Inr ((opd_task, True), db) \<and>
     od_tasks db = [opd_task] \<and> od_items db = [opd_item]"
proof -
  have r: "rq_resource_ids opd_request = [''p1'']" by (simp add: opd_request_def)
  show ?thesis
    unfolding create_task_def
    by (simp add: opd_checked orepo_task_by_idempotency_def empty_odb_def r add_item_def opd_task_def opd_item_def opd_clock_def empty_db_def)
qed

definition opd_event :: event_envelope where
  "opd_event = \<lparr>en_id = ''e'', en_tenant_id = ''t'', en_aggregate_type = ''operation_task'', en_aggregate_id = ''i'',
     en_event_type = ''operation.task.approved'', en_payload = [(''taskId'', JStr ''i'')], en_occurred_at = 7\<rparr>"

definition opd_approved :: operation_task_row where
  "opd_approved = decided_task opd_clock ''u2'' True ''ok'' [opd_item] opd_task"

definition opd_update :: item_update where
  "opd_update = \<lparr>iu_status = Item_Succeeded, iu_error_code = None, iu_detail = None, iu_evidence_refs = []\<rparr>"

definition opd_execution :: execution_request where
  "opd_execution = request_of opd_event opd_approved opd_item"

lemma opd_fields:
  "ot_id opd_task = ''i''" "ot_tenant_id opd_task = ''t''" "ot_status opd_task = Task_Pending_Approval" "ot_requested_by opd_task = ''u1''"
  "ot_operation_key opd_task = ''publish_plans.snapshot.validate''" "ot_total_count opd_task = 1" "\<not> ot_cancel_requested opd_task"
  "oi_id opd_item = ''ii''" "oi_task_id opd_item = ''i''" "oi_tenant_id opd_item = ''t''" "oi_status opd_item = Item_Queued"
  by (simp_all add: opd_task_def new_task_def opd_definition_def operation_def opd_person_def opd_request_def opd_item_def new_item_def)

lemma opd_decide:
  assumes "od_tasks db = [opd_task]" "od_items db = [opd_item]"
  shows "\<exists>x db'. decide_task opd_clock (opd_person ''u2'' APPROVER) ''i'' True ''ok'' db = Inr (x, db') \<and>
    od_tasks db' = [opd_approved] \<and> od_items db' = [opd_item]"
proof -
  have "effective_permissions [APPROVER] = {PUBLISH_READ, PUBLISH_APPROVE, OPERATION_APPROVE, DEVICE_READ}" by simp
  then have "require_permissions [APPROVER] [OPERATION_APPROVE] = Inr ()" unfolding require_permissions_ok by simp
  moreover have "needs_approval ''publish_plans.snapshot.validate''" by (simp add: needs_approval_def opd_key opd_definition_def operation_def)
  ultimately show ?thesis
    using assms by (simp add: decide_task_def Let_def opd_person_def find_task_def opd_fields set_items_def set_task_def items_of_def opd_approved_def)
qed

lemma opd_claim:
  assumes "od_tasks db = [opd_approved]" "od_items db = [opd_item]"
  shows "\<exists>db'. claim_item opd_config opd_clock opd_event ''ii'' db = Inr (Some opd_execution, db') \<and>
    od_tasks db' = [start_task opd_clock opd_approved] \<and> od_items db' = [start_item opd_clock opd_item]"
proof -
  have f: "ot_id opd_approved = ''i''" "ot_tenant_id opd_approved = ''t''" "ot_status opd_approved = Task_Queued" "\<not> ot_cancel_requested opd_approved"
    by (simp_all add: opd_approved_def opd_fields)
  show ?thesis
    using assms by (simp add: claim_item_def Let_def find_task_def opd_event_def f opd_fields not_executable_def set_items_def set_task_def
        opd_execution_def)
qed

lemma opd_record:
  assumes "od_tasks db = [start_task opd_clock opd_approved]" "od_items db = [start_item opd_clock opd_item]"
  shows "\<exists>db' t'. record_result opd_config opd_clock opd_execution opd_update db = Inr ((), db') \<and>
    od_tasks db' = [t'] \<and> ot_status t' = Task_Succeeded \<and> od_items db' = [apply_update opd_clock opd_update (start_item opd_clock opd_item)]"
proof -
  have f: "ot_id opd_approved = ''i''" "ot_tenant_id opd_approved = ''t''" "ot_total_count opd_approved = 1" "\<not> ot_cancel_requested opd_approved"
    by (simp_all add: opd_approved_def opd_fields)
  have x: "xr_tenant_id opd_execution = ''t''" "xr_task_id opd_execution = ''i''" "xr_item_id opd_execution = ''ii''"
    by (simp_all add: opd_execution_def request_of_def f opd_fields opd_event_def)
  have s: "oi_status (start_item opd_clock opd_item) = Item_Running" by (simp add: start_item_def opd_fields)
  show ?thesis
    using assms by (simp add: record_result_def find_task_def find_item_def x f opd_fields s store_result_def Let_def set_items_def set_task_def
        items_of_def recalculate_status all_in_def opd_update_def)
qed

end
