(* ===== verification/Operation_Props.thy ===== *)
theory Operation_Props
  imports Operation_Demo
begin

text \<open>
  Operations end to end: users, the service and any number of consumers of the outbox at work on the tables, with
  requests in flight and results that come late, twice or never, and the properties of every reachable state.
\<close>

subsection \<open>The system\<close>

record op_system =
  sy_db :: odb
  sy_requests :: "execution_request list"
  sy_executed :: "execution_request list"
  sy_results :: "(execution_request \<times> item_update) list"

definition init_system :: op_system where
  "init_system = \<lparr>sy_db = empty_odb, sy_requests = [], sy_executed = [], sy_results = []\<rparr>"

text \<open>
  A claimed item may never be executed, an executed one may never answer, and an answer may be lost or stored more
  than once: nothing forces a step. A handler answers with what the schema of results admits.
\<close>

inductive op_step :: "op_system \<Rightarrow> op_system \<Rightarrow> bool" where
  created: "create_task cf ev a key q (sy_db s) = Inr (x, db) \<Longrightarrow> op_step s (s\<lparr>sy_db := db\<rparr>)"
| decided: "decide_task ev a i b reason (sy_db s) = Inr (x, db) \<Longrightarrow> op_step s (s\<lparr>sy_db := db\<rparr>)"
| canceled: "cancel_task ev a i reason (sy_db s) = Inr (x, db) \<Longrightarrow> op_step s (s\<lparr>sy_db := db\<rparr>)"
| reported: "record_item_result ev a i resource u (sy_db s) = Inr (x, db) \<Longrightarrow> valid_update u \<Longrightarrow> op_step s (s\<lparr>sy_db := db\<rparr>)"
| drafted: "put_draft cf ev a feature n d (sy_db s) = Inr (x, db) \<Longrightarrow> op_step s (s\<lparr>sy_db := db\<rparr>)"
| claimed: "claim_item cf ev e j (sy_db s) = Inr (Some rq, db) \<Longrightarrow> op_step s (s\<lparr>sy_db := db, sy_requests := rq # sy_requests s\<rparr>)"
| executed: "rq \<in> set (sy_requests s) \<Longrightarrow> op_step s (s\<lparr>sy_executed := rq # sy_executed s\<rparr>)"
| answered: "rq \<in> set (sy_executed s) \<Longrightarrow> valid_update u \<Longrightarrow> op_step s (s\<lparr>sy_results := (rq, u) # sy_results s\<rparr>)"
| recorded: "(rq, u) \<in> set (sy_results s) \<Longrightarrow> record_result cf ev rq u (sy_db s) = Inr (x, db) \<Longrightarrow> op_step s (s\<lparr>sy_db := db\<rparr>)"
| retried: "rq \<in> set (sy_requests s) \<Longrightarrow> record_retry cf ev rq err (sy_db s) = Inr (x, db) \<Longrightarrow> op_step s (s\<lparr>sy_db := db\<rparr>)"
| unavailable: "audit_unavailable cf ev e k (sy_db s) = Inr (x, db) \<Longrightarrow> op_step s (s\<lparr>sy_db := db\<rparr>)"
| elsewhere: "op_step s (s\<lparr>sy_db := (sy_db s)\<lparr>od_core := core\<rparr>\<rparr>)"

text \<open>A request stands for an item of a task that was released for execution.\<close>

definition released :: "operation_task_row \<Rightarrow> bool" where
  "released t \<longleftrightarrow> ot_status t \<noteq> Task_Pending_Approval \<and>
     (needs_approval (ot_operation_key t) \<longrightarrow> ot_approval_decision t = Some ''APPROVED'' \<and>
        (\<exists>u. ot_approved_by t = Some u \<and> u \<noteq> ot_requested_by t))"

definition request_ok :: "odb \<Rightarrow> execution_request \<Rightarrow> bool" where
  "request_ok db rq \<longleftrightarrow> (\<exists>t \<in> set (od_tasks db). ot_id t = xr_task_id rq \<and> ot_tenant_id t = xr_tenant_id rq \<and>
     ot_operation_key t = xr_operation_key rq \<and> released t \<and>
     (\<exists>r \<in> set (items_of (xr_tenant_id rq) (xr_task_id rq) db). oi_id r = xr_item_id rq \<and> oi_resource_id r = xr_resource_id rq))"

definition system_inv :: "op_system \<Rightarrow> bool" where
  "system_inv s \<longleftrightarrow> ops_inv (sy_db s) \<and> (\<forall>rq \<in> set (sy_requests s). request_ok (sy_db s) rq) \<and>
     set (sy_executed s) \<subseteq> set (sy_requests s) \<and> (\<forall>(rq, u) \<in> set (sy_results s). rq \<in> set (sy_executed s) \<and> valid_update u)"

lemma released_step: "task_step (t, its) (t', its') \<Longrightarrow> task_ok (t, its) \<Longrightarrow> released t \<Longrightarrow> released t'"
  using task_step_core[of t its t' its'] task_step_open[of t its t' its'] task_step_decision[of t its t' its' "''APPROVED''"]
  by (auto simp: released_def task_core_def)

lemma request_ok_moves:
  assumes "ops_inv db" and "moves db db'" and "request_ok db rq"
  shows "request_ok db' rq"
proof -
  obtain t r where t: "t \<in> set (od_tasks db)" "ot_id t = xr_task_id rq" "ot_tenant_id t = xr_tenant_id rq" "ot_operation_key t = xr_operation_key rq"
      "released t" and r: "r \<in> set (items_of (xr_tenant_id rq) (xr_task_id rq) db)" "oi_id r = xr_item_id rq" "oi_resource_id r = xr_resource_id rq"
    using assms(3) by (auto simp: request_ok_def)
  obtain t' where t': "t' \<in> set (od_tasks db')" "task_step\<^sup>=\<^sup>= (task_view db t) (task_view db' t')" using assms(2) t(1) by (auto simp: moves_def)
  let ?its = "items_of (ot_tenant_id t) (ot_id t) db" and ?its' = "items_of (ot_tenant_id t') (ot_id t') db'"
  have c: "task_core t' = task_core t \<and> map item_core ?its' = map item_core ?its \<and> released t'"
    using t'(2) task_step_core[of t ?its t' ?its'] released_step[of t ?its t' ?its'] ops_invD(4)[OF assms(1) t(1)] t(5)
    by (auto simp: task_view_def)
  have "item_core r \<in> set (map item_core ?its')" using c r(1) t(2,3) by (metis image_eqI list.set_map)
  then obtain r' where "r' \<in> set ?its'" "item_core r' = item_core r" by auto
  then have "\<exists>r' \<in> set (items_of (xr_tenant_id rq) (xr_task_id rq) db'). oi_id r' = xr_item_id rq \<and> oi_resource_id r' = xr_resource_id rq"
    using c t(2,3) r(2,3) by (auto simp: task_core_def item_core_def)
  then show ?thesis using t' t c by (auto simp: request_ok_def task_core_def)
qed

lemma released_open:
  "task_ok (t, its) \<Longrightarrow> ot_status t \<notin> TERMINAL_TASK_STATES \<Longrightarrow> ot_status t \<noteq> Task_Pending_Approval \<Longrightarrow> released t"
  by (cases "ot_status t") (auto simp: task_ok_def decision_agrees_def released_def)

lemma claimed_request_ok:
  assumes "ops_inv db" and "claim_item cf ev e j db = Inr (Some rq, db')"
  shows "request_ok db rq"
proof -
  obtain t r where t: "find_task (en_tenant_id e) (en_aggregate_id e) db = Some t" and r: "r \<in> set (items_of (en_tenant_id e) (en_aggregate_id e) db)"
      and x: "\<not> not_executable t r" "rq = request_of e t r"
    using claim_item_Inr[OF assms(2)] by auto
  note t = find_taskD[OF t]
  have "released t" using released_open ops_invD(4)[OF assms(1)] t x(1) by (auto simp: task_view_def not_executable_def)
  then show ?thesis using t r x(2) unfolding request_ok_def request_of_def by (intro bexI[of _ t]) auto
qed

lemma record_result_law:
  assumes "ops_inv db" and "record_result cf ev rq u db = Inr (x, db')" and "request_ok db rq" and "valid_update u"
  shows "ops_inv db' \<and> moves db db'"
  using record_result_Inr[OF assms(2)]
proof
  assume "od_tasks db' = od_tasks db \<and> od_items db' = od_items db"
  then show ?thesis using same_tables[OF assms(1)] by blast
next
  assume "\<exists>t r. find_task (xr_tenant_id rq) (xr_task_id rq) db = Some t \<and> find_item (xr_tenant_id rq) (xr_item_id rq) db = Some r \<and>
      oi_status r \<notin> TERMINAL_ITEM_STATES \<and>
      updates (xr_tenant_id rq) (xr_task_id rq)
        (recalculate (ev_now ev) False (on_item (oi_id r) (apply_update ev u) (items_of (xr_tenant_id rq) (xr_task_id rq) db)) \<circ> id)
        (\<lambda>q. oi_id q = oi_id r) (apply_update ev u) db db'"
  then obtain t r where t: "find_task (xr_tenant_id rq) (xr_task_id rq) db = Some t" and r: "find_item (xr_tenant_id rq) (xr_item_id rq) db = Some r"
      "oi_status r \<notin> TERMINAL_ITEM_STATES" and u: "updates (xr_tenant_id rq) (xr_task_id rq)
        (recalculate (ev_now ev) False (on_item (oi_id r) (apply_update ev u) (items_of (xr_tenant_id rq) (xr_task_id rq) db)) \<circ> id)
        (\<lambda>q. oi_id q = oi_id r) (apply_update ev u) db db'" by blast
  obtain t' r' where t': "t' \<in> set (od_tasks db)" "ot_id t' = xr_task_id rq" "released t'"
      and r': "r' \<in> set (items_of (xr_tenant_id rq) (xr_task_id rq) db)" "oi_id r' = xr_item_id rq"
    using assms(3) by (auto simp: request_ok_def)
  have "r = r'" using item_eq[OF assms(1)] find_itemD[OF r(1)] r' items_in_task by metis
  moreover have "t = t'" using task_eq[OF assms(1)] find_taskD[OF t] t' by metis
  ultimately show ?thesis
    using stored_law[OF assms(1) t _ r(2) _ assms(4) _ u] r'(1) t'(3) by (simp add: released_def)
qed

text \<open>Every step of the system keeps the invariant and moves every task by at most one step of its machine.\<close>

lemma db_step:
  assumes "system_inv s" and "ops_inv db" and "moves (sy_db s) db"
  shows "system_inv (s\<lparr>sy_db := db\<rparr>)"
  using assms request_ok_moves[of "sy_db s" db] by (auto simp: system_inv_def)

lemma op_step_law: "op_step s s' \<Longrightarrow> system_inv s \<Longrightarrow> system_inv s' \<and> moves (sy_db s) (sy_db s')"
proof (induction rule: op_step.induct)
  case (created cf ev a key q s x db)
  then have "ops_inv db \<and> moves (sy_db s) db" using create_task_law by (cases x) (auto simp: system_inv_def)
  then show ?case using db_step[OF created(2)] by simp
next
  case (decided ev a i b reason s x db)
  then have "ops_inv db \<and> moves (sy_db s) db" using decide_task_law by (auto simp: system_inv_def)
  then show ?case using db_step[OF decided(2)] by simp
next
  case (canceled ev a i reason s x db)
  then have "ops_inv db \<and> moves (sy_db s) db" using cancel_task_law by (auto simp: system_inv_def)
  then show ?case using db_step[OF canceled(2)] by simp
next
  case (reported ev a i resource u s x db)
  then have "ops_inv db \<and> moves (sy_db s) db" using record_item_result_law by (auto simp: system_inv_def)
  then show ?case using db_step[OF reported(3)] by simp
next
  case (drafted cf ev a feature n d s x db)
  have "leaves (\<lambda>db. (od_tasks db, od_items db)) (put_draft cf ev a feature n d)"
    unfolding put_draft_def audit_draft_def known_feature_def orepo_update_draft_def by (intro keeps_intros) simp_all
  from keepsD[OF this drafted(1)] have "ops_inv db \<and> moves (sy_db s) db"
    using drafted(2) same_tables[of "sy_db s" db] by (simp add: system_inv_def)
  then show ?case using db_step[OF drafted(2)] by simp
next
  case (claimed cf ev e j s rq db)
  then have inv: "ops_inv (sy_db s)" by (simp add: system_inv_def)
  have m: "ops_inv db \<and> moves (sy_db s) db" using claim_item_law[OF inv claimed(1)] .
  then have "request_ok db rq" using request_ok_moves[OF inv] claimed_request_ok[OF inv claimed(1)] by blast
  moreover have "system_inv (s\<lparr>sy_db := db\<rparr>)" using db_step[OF claimed(2)] m by blast
  ultimately show ?case using m by (auto simp: system_inv_def)
next
  case (recorded rq u s cf ev x db)
  then have "ops_inv db \<and> moves (sy_db s) db" using record_result_law by (fastforce simp: system_inv_def)
  then show ?case using db_step[OF recorded(3)] by simp
next
  case (retried rq s cf ev err x db)
  then have "ops_inv db \<and> moves (sy_db s) db"
    using same_tables[of "sy_db s" db] by (auto simp: record_retry_def system_inv_def split: option.splits)
  then show ?case using db_step[OF retried(3)] by simp
next
  case (unavailable cf ev e k s x db)
  then have "ops_inv db \<and> moves (sy_db s) db" using same_tables[of "sy_db s" db] by (auto simp: audit_unavailable_def system_inv_def)
  then show ?case using db_step[OF unavailable(2)] by simp
next
  case (elsewhere s core)
  then have "ops_inv ((sy_db s)\<lparr>od_core := core\<rparr>) \<and> moves (sy_db s) ((sy_db s)\<lparr>od_core := core\<rparr>)"
    using same_tables[of "sy_db s"] by (auto simp: system_inv_def)
  then show ?case using db_step[OF elsewhere] by simp
qed (auto simp: system_inv_def same_tables)

lemma system_inv_init: "system_inv init_system"
  by (simp add: system_inv_def init_system_def ops_inv_def empty_odb_def)

lemma reachable_inv: "op_step\<^sup>*\<^sup>* init_system s \<Longrightarrow> system_inv s"
  by (induction rule: rtranclp_induct) (use system_inv_init op_step_law in blast)+

text \<open>Over a run, a task goes on from where it was.\<close>

lemma moved_view:
  assumes "task_step\<^sup>=\<^sup>= (task_view db t) (task_view db' t')" and "task_ok (task_view db t)"
  shows "ot_id t' = ot_id t \<and> ot_tenant_id t' = ot_tenant_id t \<and>
    (ot_status t \<in> TERMINAL_TASK_STATES \<longrightarrow> task_view db' t' = task_view db t) \<and>
    (\<forall>r \<in> set (snd (task_view db t)). oi_status r \<in> TERMINAL_ITEM_STATES \<longrightarrow> r \<in> set (snd (task_view db' t')))"
proof (cases "task_view db t = task_view db' t'")
  case True
  then show ?thesis by (auto simp: task_view_def)
next
  case False
  then have st: "task_step (task_view db t) (task_view db' t')" using assms(1) by auto
  note st' = st[unfolded task_view_def]
  show ?thesis
    using task_step_core[OF st'] task_step_open[OF st'] task_step_item_final[OF st' assms(2)[unfolded task_view_def]]
    by (auto simp: task_view_def task_core_def)
qed

lemma steps_view:
  assumes "op_step\<^sup>*\<^sup>* s s'" and "system_inv s" and "t \<in> set (od_tasks (sy_db s))"
  shows "system_inv s' \<and> (\<exists>t' \<in> set (od_tasks (sy_db s')). ot_id t' = ot_id t \<and> ot_tenant_id t' = ot_tenant_id t \<and>
    (ot_status t \<in> TERMINAL_TASK_STATES \<longrightarrow> task_view (sy_db s') t' = task_view (sy_db s) t) \<and>
    (\<forall>r \<in> set (snd (task_view (sy_db s) t)). oi_status r \<in> TERMINAL_ITEM_STATES \<longrightarrow> r \<in> set (snd (task_view (sy_db s') t'))))"
  using assms(1)
proof (induction rule: rtranclp_induct)
  case base
  then show ?case using assms(2,3) by auto
next
  case (step y z)
  then obtain t1 where t1: "t1 \<in> set (od_tasks (sy_db y))" "ot_id t1 = ot_id t" "ot_tenant_id t1 = ot_tenant_id t"
      "ot_status t \<in> TERMINAL_TASK_STATES \<longrightarrow> task_view (sy_db y) t1 = task_view (sy_db s) t"
      "\<forall>r \<in> set (snd (task_view (sy_db s) t)). oi_status r \<in> TERMINAL_ITEM_STATES \<longrightarrow> r \<in> set (snd (task_view (sy_db y) t1))"
      and inv: "system_inv y" by blast
  have z: "system_inv z" "moves (sy_db y) (sy_db z)" using op_step_law[OF step(2) inv] by auto
  then obtain t2 where t2: "t2 \<in> set (od_tasks (sy_db z))" "task_step\<^sup>=\<^sup>= (task_view (sy_db y) t1) (task_view (sy_db z) t2)"
    using t1(1) unfolding moves_def by blast
  have ok: "task_ok (task_view (sy_db y) t1)" using inv t1(1) by (auto simp: system_inv_def ops_inv_def)
  note m = moved_view[OF t2(2) ok]
  have "ot_status t \<in> TERMINAL_TASK_STATES \<longrightarrow> task_view (sy_db z) t2 = task_view (sy_db s) t"
    using m t1(4) by (metis fst_conv task_view_def)
  then show ?case using z(1) t2(1) m t1(2,3,5) by (intro conjI bexI[of _ t2]) auto
qed

subsection \<open>A run\<close>

lemma opd_run:
  "\<exists>s1 s2 s. op_step\<^sup>*\<^sup>* init_system s1 \<and> op_step s1 s2 \<and> op_step\<^sup>*\<^sup>* s2 s \<and> od_tasks (sy_db s1) = [opd_task] \<and>
     od_tasks (sy_db s2) = [opd_approved] \<and> od_items (sy_db s2) = [opd_item] \<and> (\<exists>t. od_tasks (sy_db s) = [t] \<and> ot_status t = Task_Succeeded) \<and>
     od_items (sy_db s) = [apply_update opd_clock opd_update (start_item opd_clock opd_item)] \<and> opd_execution \<in> set (sy_executed s)"
proof -
  obtain db1 where 1: "create_task opd_config opd_clock (opd_person ''u1'' PUBLISHER) ''k'' opd_request (sy_db init_system) = Inr ((opd_task, True), db1)"
      "od_tasks db1 = [opd_task]" "od_items db1 = [opd_item]" using opd_create by (auto simp: init_system_def)
  obtain x db2 where 2: "decide_task opd_clock (opd_person ''u2'' APPROVER) ''i'' True ''ok'' db1 = Inr (x, db2)"
      "od_tasks db2 = [opd_approved]" "od_items db2 = [opd_item]" using opd_decide[OF 1(2,3)] by blast
  obtain db3 where 3: "claim_item opd_config opd_clock opd_event ''ii'' db2 = Inr (Some opd_execution, db3)"
      "od_tasks db3 = [start_task opd_clock opd_approved]" "od_items db3 = [start_item opd_clock opd_item]" using opd_claim[OF 2(2,3)] by blast
  obtain db4 t where 4: "record_result opd_config opd_clock opd_execution opd_update db3 = Inr ((), db4)" "od_tasks db4 = [t]" "ot_status t = Task_Succeeded"
      "od_items db4 = [apply_update opd_clock opd_update (start_item opd_clock opd_item)]" using opd_record[OF 3(2,3)] by blast
  define s1 where "s1 = init_system\<lparr>sy_db := db1\<rparr>"
  define s2 where "s2 = s1\<lparr>sy_db := db2\<rparr>"
  define s3 where "s3 = s2\<lparr>sy_db := db3, sy_requests := [opd_execution]\<rparr>"
  define s4 where "s4 = s3\<lparr>sy_executed := [opd_execution]\<rparr>"
  define s5 where "s5 = s4\<lparr>sy_results := [(opd_execution, opd_update)]\<rparr>"
  define s6 where "s6 = s5\<lparr>sy_db := db4\<rparr>"
  have v: "valid_update opd_update" by (simp add: valid_update_def opd_update_def)
  note defs = s1_def s2_def s3_def s4_def s5_def s6_def init_system_def
  have "op_step init_system s1" unfolding s1_def by (rule op_step.created[OF 1(1)])
  moreover have "op_step s1 s2" unfolding s2_def by (rule op_step.decided) (use 2(1) in \<open>simp add: defs\<close>)
  moreover have "op_step s2 s3" using op_step.claimed[of opd_config opd_clock opd_event "''ii''" s2 opd_execution db3] 3(1) by (simp add: defs)
  moreover have "op_step s3 s4" using op_step.executed[of opd_execution s3] by (simp add: defs)
  moreover have "op_step s4 s5" using op_step.answered[of opd_execution s4 opd_update] v by (simp add: defs)
  moreover have "op_step s5 s6" unfolding s6_def by (rule op_step.recorded[of opd_execution opd_update]) (use 4(1) in \<open>simp_all add: defs\<close>)
  ultimately have "op_step\<^sup>*\<^sup>* init_system s1" "op_step s1 s2" "op_step\<^sup>*\<^sup>* s2 s6"
    by (auto intro: converse_rtranclp_into_rtranclp[of op_step])
  moreover have "sy_db s1 = db1" "sy_db s2 = db2" "sy_db s6 = db4" "sy_executed s6 = [opd_execution]" by (simp_all add: defs)
  ultimately show ?thesis using 1(2) 2(2,3) 4 by (intro exI[of _ s1] exI[of _ s2] exI[of _ s6]) auto
qed

lemma opd_done:
  "\<exists>s t. op_step\<^sup>*\<^sup>* init_system s \<and> od_tasks (sy_db s) = [t] \<and> ot_status t = Task_Succeeded \<and>
     od_items (sy_db s) = [apply_update opd_clock opd_update (start_item opd_clock opd_item)] \<and> opd_execution \<in> set (sy_executed s)"
proof -
  obtain s1 s2 s t where r: "op_step\<^sup>*\<^sup>* init_system s1" "op_step s1 s2" "op_step\<^sup>*\<^sup>* s2 s"
      and s: "od_tasks (sy_db s) = [t]" "ot_status t = Task_Succeeded"
        "od_items (sy_db s) = [apply_update opd_clock opd_update (start_item opd_clock opd_item)]" "opd_execution \<in> set (sy_executed s)"
    using opd_run by blast
  have "op_step\<^sup>*\<^sup>* init_system s" using r by (meson rtranclp.rtrancl_into_rtrancl rtranclp_trans)
  then show ?thesis using s by blast
qed

subsection \<open>Properties of the reachable states\<close>

text \<open>
  C14. In every reachable state, whatever users, the service and the consumers did in any order, a task has as many items as it
  was created for, its counts are those of its items, and its status agrees with them: QUEUED and
  PENDING_APPROVAL mean that no item has started, RUNNING that some item is open, SUCCEEDED, FAILED and PARTIAL that all
  items are final and all, none or some succeeded, CANCELED and REJECTED that all are final or blocked.
\<close>

theorem operation_tasks_consistent:
  assumes "op_step\<^sup>*\<^sup>* init_system s" and "t \<in> set (od_tasks (sy_db s))" and "its = items_of (ot_tenant_id t) (ot_id t) (sy_db s)"
  shows "its \<noteq> [] \<and> ot_total_count t = length its \<and> ot_succeeded_count t = count_status Item_Succeeded its \<and>
    ot_failed_count t = count_status Item_Failed its \<and> ot_blocked_count t = count_status Item_Blocked its \<and>
    ot_canceled_count t = count_status Item_Canceled its \<and> status_agrees (ot_status t) its \<and>
    (ot_completed_at t \<noteq> None \<longleftrightarrow> ot_status t \<in> TERMINAL_TASK_STATES) \<and> (ot_status t \<in> TERMINAL_TASK_STATES \<longleftrightarrow> all_in TERMINAL_ITEM_STATES its)"
proof -
  have ok: "task_ok (t, its)" using reachable_inv[OF assms(1)] assms(2,3) by (auto simp: system_inv_def ops_inv_def task_view_def)
  then have "ot_status t \<in> TERMINAL_TASK_STATES \<longleftrightarrow> all_in TERMINAL_ITEM_STATES its"
    by (cases "ot_status t") (auto simp: task_ok_def status_agrees_def all_in_def counts_agree_def neq_Nil_conv)
  then show ?thesis using ok by (auto simp: task_ok_def counts_agree_def)
qed

theorem operation_tasks_consistent_witness:
  "\<exists>s t. op_step\<^sup>*\<^sup>* init_system s \<and> t \<in> set (od_tasks (sy_db s)) \<and> ot_status t = Task_Succeeded \<and> ot_completed_at t \<noteq> None \<and>
     ot_succeeded_count t = count_status Item_Succeeded (items_of (ot_tenant_id t) (ot_id t) (sy_db s))"
proof -
  obtain s t where s: "op_step\<^sup>*\<^sup>* init_system s" "t \<in> set (od_tasks (sy_db s))" "ot_status t = Task_Succeeded" using opd_done by fastforce
  then show ?thesis using operation_tasks_consistent[OF s(1,2) refl] by (intro exI[of _ s] exI[of _ t]) simp
qed

text \<open>
  C7. Every transaction of the service and of the consumers, in any reachable state, is for every task either nothing or one
  step of the machine of one task: approved, rejected, canceled, an item started, or an item finished.
\<close>

theorem operation_refines_machine:
  assumes "op_step\<^sup>*\<^sup>* init_system s" and "op_step s s'" and "t \<in> set (od_tasks (sy_db s))"
  shows "\<exists>t' \<in> set (od_tasks (sy_db s')). ot_id t' = ot_id t \<and>
    task_step\<^sup>=\<^sup>= (t, items_of (ot_tenant_id t) (ot_id t) (sy_db s)) (t', items_of (ot_tenant_id t') (ot_id t') (sy_db s'))"
proof -
  note inv = reachable_inv[OF assms(1)]
  obtain t' where t': "t' \<in> set (od_tasks (sy_db s'))" "task_step\<^sup>=\<^sup>= (task_view (sy_db s) t) (task_view (sy_db s') t')"
    using op_step_law[OF assms(2) inv] assms(3) unfolding moves_def by blast
  have "task_ok (task_view (sy_db s) t)" using inv assms(3) by (auto simp: system_inv_def ops_inv_def)
  then show ?thesis using t' moved_view[OF t'(2)] unfolding task_view_def by blast
qed

theorem operation_refines_machine_witness:
  "\<exists>s s' t'. op_step\<^sup>*\<^sup>* init_system s \<and> op_step s s' \<and> t' \<in> set (od_tasks (sy_db s')) \<and>
     task_step\<^sup>=\<^sup>= (opd_task, items_of (ot_tenant_id opd_task) (ot_id opd_task) (sy_db s)) (t', items_of (ot_tenant_id t') (ot_id t') (sy_db s'))"
proof -
  obtain s1 s2 where s: "op_step\<^sup>*\<^sup>* init_system s1" "op_step s1 s2" "od_tasks (sy_db s1) = [opd_task]" using opd_run by blast
  then have "opd_task \<in> set (od_tasks (sy_db s1))" by simp
  from operation_refines_machine[OF s(1,2) this] show ?thesis using s by blast
qed

text \<open>
  C13. Results are final: once an item is SUCCEEDED, FAILED, BLOCKED or CANCELED, its row never changes again, whatever results
  come late, again or in conflict, and a task that is final stays exactly as it is, with all its items.
\<close>

theorem operation_results_final:
  assumes "op_step\<^sup>*\<^sup>* init_system s" and "op_step\<^sup>*\<^sup>* s s'"
  shows "(\<forall>r \<in> set (od_items (sy_db s)). oi_status r \<in> TERMINAL_ITEM_STATES \<longrightarrow> r \<in> set (od_items (sy_db s'))) \<and>
    (\<forall>t \<in> set (od_tasks (sy_db s)). ot_status t \<in> TERMINAL_TASK_STATES \<longrightarrow>
       t \<in> set (od_tasks (sy_db s')) \<and> items_of (ot_tenant_id t) (ot_id t) (sy_db s') = items_of (ot_tenant_id t) (ot_id t) (sy_db s))"
proof -
  note inv = reachable_inv[OF assms(1)]
  have final: "t \<in> set (od_tasks (sy_db s')) \<and> items_of (ot_tenant_id t) (ot_id t) (sy_db s') = items_of (ot_tenant_id t) (ot_id t) (sy_db s)"
    if t: "t \<in> set (od_tasks (sy_db s))" "ot_status t \<in> TERMINAL_TASK_STATES" for t
    using steps_view[OF assms(2) inv t(1)] t(2) by (auto simp: task_view_def)
  have "r \<in> set (od_items (sy_db s'))" if r: "r \<in> set (od_items (sy_db s))" "oi_status r \<in> TERMINAL_ITEM_STATES" for r
  proof -
    obtain t where t: "t \<in> set (od_tasks (sy_db s))" "ot_id t = oi_task_id r" "ot_tenant_id t = oi_tenant_id r"
      using inv r(1) ops_invD(3) unfolding system_inv_def by blast
    then have "r \<in> set (snd (task_view (sy_db s) t))" using r(1) by (simp add: task_view_def items_of_def)
    then show ?thesis using steps_view[OF assms(2) inv t(1)] r(2) by (auto simp: task_view_def items_of_def)
  qed
  then show ?thesis using final by blast
qed

theorem operation_results_final_witness:
  "\<exists>s s' r. op_step\<^sup>*\<^sup>* init_system s \<and> op_step s s' \<and> r \<in> set (od_items (sy_db s)) \<and> oi_status r = Item_Succeeded \<and> r \<in> set (od_items (sy_db s'))"
proof -
  obtain s where s: "op_step\<^sup>*\<^sup>* init_system s" "od_items (sy_db s) = [apply_update opd_clock opd_update (start_item opd_clock opd_item)]"
    using opd_done by blast
  let ?s = "s\<lparr>sy_db := (sy_db s)\<lparr>od_core := empty_db\<rparr>\<rparr>" and ?r = "apply_update opd_clock opd_update (start_item opd_clock opd_item)"
  have st: "op_step s ?s" by (rule op_step.elsewhere)
  have "oi_status ?r = Item_Succeeded" by (simp add: opd_update_def)
  then show ?thesis using operation_results_final[OF s(1) r_into_rtranclp[of op_step, OF st]] s st
    by (intro exI[of _ s] exI[of _ ?s] exI[of _ ?r]) simp
qed

text \<open>
  C9. Nothing of an operation that needs approval is executed before it was approved by a user other than its requester: every
  request that a consumer ever handed to an executor stands for an item of a task of its tenant with its operation key,
  and if that operation needs approval, the task carries the decision APPROVED of another user.
\<close>

theorem approval_before_execution:
  assumes "op_step\<^sup>*\<^sup>* init_system s" and "rq \<in> set (sy_executed s)"
  shows "\<exists>t \<in> set (od_tasks (sy_db s)). ot_id t = xr_task_id rq \<and> ot_tenant_id t = xr_tenant_id rq \<and> ot_operation_key t = xr_operation_key rq \<and>
    (\<exists>r \<in> set (od_items (sy_db s)). oi_id r = xr_item_id rq \<and> oi_task_id r = ot_id t \<and> oi_resource_id r = xr_resource_id rq) \<and>
    (needs_approval (xr_operation_key rq) \<longrightarrow> ot_approval_decision t = Some ''APPROVED'' \<and>
       (\<exists>u. ot_approved_by t = Some u \<and> u \<noteq> ot_requested_by t))"
proof -
  have "request_ok (sy_db s) rq" using reachable_inv[OF assms(1)] assms(2) by (auto simp: system_inv_def)
  then show ?thesis unfolding request_ok_def released_def items_of_def by fastforce
qed

theorem approval_before_execution_witness:
  "\<exists>s t u. op_step\<^sup>*\<^sup>* init_system s \<and> opd_execution \<in> set (sy_executed s) \<and> t \<in> set (od_tasks (sy_db s)) \<and>
     ot_approval_decision t = Some ''APPROVED'' \<and> ot_approved_by t = Some u \<and> u \<noteq> ot_requested_by t"
proof -
  obtain s where s: "op_step\<^sup>*\<^sup>* init_system s" "opd_execution \<in> set (sy_executed s)" using opd_done by blast
  have "xr_operation_key opd_execution = ''publish_plans.snapshot.validate''" by (simp add: opd_execution_def request_of_def opd_approved_def opd_fields)
  then have "needs_approval (xr_operation_key opd_execution)" by (simp add: needs_approval_def opd_key opd_definition_def operation_def)
  then show ?thesis using approval_before_execution[OF s] s by blast
qed

end
