(* ===== verification/Operation_Consume.thy ===== *)
theory Operation_Consume
  imports Operation_Props
begin

text \<open>
  The consumption of one event by the operation sink, alone: that it completes the task when its handler answers,
  that the redelivery of the event then changes nothing, and the built-in operation for which no handler exists.
\<close>

subsection \<open>Completion\<close>

text \<open>A handler that always answers, with results that the schema admits.\<close>

definition answers :: "handler \<Rightarrow> bool" where
  "answers h \<longleftrightarrow> (\<forall>rq db. \<exists>u. h rq db = Inr u \<and> valid_update u)"

lemma revision_handler_answers: "answers (revision_handler hash)"
  unfolding answers_def revision_handler_def answer_def by (auto simp: valid_update_def split: option.split)

lemma snapshot_handler_answers: "answers (snapshot_handler hash)"
  unfolding answers_def snapshot_handler_def answer_def by (auto simp: valid_update_def Let_def split: option.split json.split)

definition task_items :: "string \<Rightarrow> string \<Rightarrow> odb \<Rightarrow> string set" where
  "task_items tenant i db = oi_id ` set (items_of tenant i db)"

definition item_done :: "string \<Rightarrow> string \<Rightarrow> string \<Rightarrow> odb \<Rightarrow> bool" where
  "item_done tenant i j db \<longleftrightarrow> (\<exists>r \<in> set (items_of tenant i db). oi_id r = j \<and> oi_status r \<in> TERMINAL_ITEM_STATES)"

text \<open>The state in the middle of the loop: the invariant, the task, and the items that remain.\<close>

definition at_work :: "string \<Rightarrow> string \<Rightarrow> string list \<Rightarrow> odb \<Rightarrow> bool" where
  "at_work tenant i js db \<longleftrightarrow> ops_inv db \<and> (\<exists>t. find_task tenant i db = Some t \<and> released t) \<and>
     set js \<subseteq> task_items tenant i db"

lemma find_task_mem: "ops_inv db \<Longrightarrow> t \<in> set (od_tasks db) \<Longrightarrow> find_task (ot_tenant_id t) (ot_id t) db = Some t"
proof -
  assume inv: "ops_inv db" and t: "t \<in> set (od_tasks db)"
  obtain q where q: "find_task (ot_tenant_id t) (ot_id t) db = Some q" using t unfolding find_task_def by (metis (mono_tags, lifting) find_row_None not_None_eq)
  then show ?thesis using task_eq[OF inv _ t] find_taskD[OF q] by auto
qed

lemma found_ok: "ops_inv db \<Longrightarrow> find_task tenant i db = Some t \<Longrightarrow> task_ok (t, items_of tenant i db)"
  using ops_invD(4)[of db t] find_taskD[of tenant i db t] by (simp add: task_view_def)

lemma moves_task:
  assumes "ops_inv db" and "ops_inv db'" and "moves db db'" and "find_task tenant i db = Some t"
  obtains t' where "find_task tenant i db' = Some t'" "task_step\<^sup>=\<^sup>= (t, items_of tenant i db) (t', items_of tenant i db')"
proof -
  note t = find_taskD[OF assms(4)]
  obtain t' where t': "t' \<in> set (od_tasks db')" "task_step\<^sup>=\<^sup>= (task_view db t) (task_view db' t')" using assms(3) t unfolding moves_def by blast
  have m: "ot_id t' = i" "ot_tenant_id t' = tenant" using moved_view[OF t'(2)] ops_invD(4)[OF assms(1)] t by auto
  show thesis by (rule that[of t']) (use find_task_mem[OF assms(2) t'(1)] m t t'(2) in \<open>simp_all add: task_view_def\<close>)
qed

lemma at_work_moves:
  assumes "at_work tenant i js db" and "ops_inv db'" and "moves db db'"
  shows "at_work tenant i js db' \<and> task_items tenant i db' = task_items tenant i db \<and> (\<forall>j. item_done tenant i j db \<longrightarrow> item_done tenant i j db')"
proof -
  obtain t where inv: "ops_inv db" and t: "find_task tenant i db = Some t" "released t" and js: "set js \<subseteq> task_items tenant i db"
    using assms(1) by (auto simp: at_work_def)
  obtain t' where t': "find_task tenant i db' = Some t'" "task_step\<^sup>=\<^sup>= (t, items_of tenant i db) (t', items_of tenant i db')"
    using moves_task[OF inv assms(2,3) t(1)] .
  have ok: "task_ok (t, items_of tenant i db)" by (rule found_ok[OF inv t(1)])
  show ?thesis
  proof (cases "task_step (t, items_of tenant i db) (t', items_of tenant i db')")
    case True
    have "map oi_id (items_of tenant i db') = map oi_id (items_of tenant i db)"
      using arg_cong[OF conjunct2[OF task_step_core[OF True]], of "map fst"] by (simp add: item_core_def o_def)
    then have "task_items tenant i db' = task_items tenant i db" unfolding task_items_def by (metis list.set_map)
    then show ?thesis using released_step[OF True ok t(2)] task_step_item_final[OF True ok] t'(1) js assms(2)
      by (auto simp: at_work_def item_done_def)
  next
    case False
    then show ?thesis using t' t(2) js assms(2) by (auto simp: at_work_def item_done_def task_items_def)
  qed
qed

text \<open>A claim finds its item; the item is done, or handed out, and then stored.\<close>

lemma claim_runs:
  assumes "at_work (en_tenant_id e) (en_aggregate_id e) (j # js) db"
  obtains (skipped) "claim_item cf ev e j db = Inr (None, db)" "item_done (en_tenant_id e) (en_aggregate_id e) j db"
  | (handed) rq db1 where "claim_item cf ev e j db = Inr (Some rq, db1)" "xr_tenant_id rq = en_tenant_id e" "xr_task_id rq = en_aggregate_id e"
      "xr_item_id rq = j"
proof -
  let ?i = "en_aggregate_id e" and ?n = "en_tenant_id e"
  obtain t where inv: "ops_inv db" and t: "find_task ?n ?i db = Some t" and j: "j \<in> task_items ?n ?i db"
    using assms by (auto simp: at_work_def)
  have "find_row (\<lambda>r. oi_id r = j \<and> oi_task_id r = ?i \<and> oi_tenant_id r = ?n) (od_items db) \<noteq> None"
    using j by (auto simp: find_row_None items_of_def task_items_def)
  then obtain r where r: "find_row (\<lambda>r. oi_id r = j \<and> oi_task_id r = ?i \<and> oi_tenant_id r = ?n) (od_items db) = Some r" by blast
  then have m: "r \<in> set (items_of ?n ?i db)" "oi_id r = j" by (auto simp: items_of_def dest: find_row_SomeD)
  have run: "not_executable t r \<Longrightarrow> claim_item cf ev e j db = Inr (None, db)"
    "\<not> not_executable t r \<Longrightarrow> \<exists>db1. claim_item cf ev e j db = Inr (Some (request_of e t r), db1)"
    unfolding claim_item_def Let_def using t r by simp_all
  show thesis
  proof (cases "not_executable t r")
    case True
    have ok: "task_ok (t, items_of ?n ?i db)" by (rule found_ok[OF inv t])
    have "released t" using assms t by (auto simp: at_work_def)
    then have "ot_status t \<in> TERMINAL_TASK_STATES \<or> oi_status r \<in> TERMINAL_ITEM_STATES"
      using True ok by (auto simp: not_executable_def released_def task_ok_def)
    then have "oi_status r \<in> TERMINAL_ITEM_STATES" using open_items[OF ok m(1)] by blast
    then show ?thesis using skipped run(1)[OF True] m by (auto simp: item_done_def)
  next
    case False
    then show ?thesis using handed run(2)[OF False] m find_taskD[OF t] by (auto simp: request_of_def)
  qed
qed

lemma record_runs:
  assumes "ops_inv db" and "request_ok db rq" and "valid_update u"
  shows "\<exists>db'. record_result cf ev rq u db = Inr ((), db') \<and> ops_inv db' \<and> moves db db' \<and> item_done (xr_tenant_id rq) (xr_task_id rq) (xr_item_id rq) db'"
proof -
  let ?i = "xr_task_id rq" and ?n = "xr_tenant_id rq"
  obtain t r where t: "t \<in> set (od_tasks db)" "ot_id t = ?i" "ot_tenant_id t = ?n"
      and r: "r \<in> set (items_of ?n ?i db)" "oi_id r = xr_item_id rq"
    using assms(2) by (auto simp: request_ok_def)
  have ft: "find_task ?n ?i db = Some t" using find_task_mem[OF assms(1) t(1)] t by simp
  have "find_item ?n (xr_item_id rq) db \<noteq> None" using r by (auto simp: find_item_def find_row_None items_of_def)
  then have fr: "find_item ?n (xr_item_id rq) db = Some r" using item_eq[OF assms(1)] find_itemD r items_in_task by (metis not_None_eq)
  have ok: "task_ok (t, items_of ?n ?i db)" by (rule found_ok[OF assms(1) ft])
  show ?thesis
  proof (cases "ot_cancel_requested t \<or> ot_status t = Task_Canceled \<or> oi_status r \<in> TERMINAL_ITEM_STATES")
    case True
    then have fin: "oi_status r \<in> TERMINAL_ITEM_STATES" using ok open_items[OF ok r(1)] by (auto simp: task_ok_def)
    have d: "\<exists>db'. discarded cf ev rq t r u x y db = Inr ((), db') \<and> od_tasks db' = od_tasks db \<and> od_items db' = od_items db" for x y
      by (simp add: discarded_def)
    have "record_result cf ev rq u db = (if ot_cancel_requested t \<or> ot_status t = Task_Canceled \<or> oi_status r = Item_Canceled
        then discarded cf ev rq t r u ''operation.item.late_result_discarded'' ''CANCELED'' db
        else if same_result r u then Inr ((), db) else discarded cf ev rq t r u ''operation.item.conflicting_result_discarded'' ''FAILED'' db)"
      using ft fr fin by (simp add: record_result_def tx_run)
    then obtain db' where "record_result cf ev rq u db = Inr ((), db')" "od_tasks db' = od_tasks db" "od_items db' = od_items db"
      using d by (metis (full_types))
    then show ?thesis using same_tables[OF assms(1)] r fin by (auto simp: item_done_def items_of_def)
  next
    case False
    then have closed: "oi_status r \<noteq> Item_Canceled" by auto
    with False have "\<exists>db'. record_result cf ev rq u db = Inr ((), db')"
      using ft fr by (auto simp add: record_result_def tx_run as_sink_def store_result_def Let_def)
    then obtain db' where run: "record_result cf ev rq u db = Inr ((), db')" ..
    from record_result_law[OF assms(1) run assms(2,3)] have law: "ops_inv db' \<and> moves db db'" .
    let ?u = "apply_update ev u r"
    have "od_items db' = upd_where (\<lambda>q. oi_id q = oi_id r) (apply_update ev u) (od_items db)"
      using False closed ft fr run by (auto simp: record_result_def store_result_def Let_def set_items_def set_task_def)
    then have "?u \<in> set (od_items db')" using items_in_task[OF r(1)] by (auto simp: upd_where_def)
    then have "item_done ?n ?i (xr_item_id rq) db'"
      using items_in_task[OF r(1)] r(2) valid_update_terminal[OF assms(3)] unfolding item_done_def items_of_def by (intro bexI[of _ ?u]) auto
    then show ?thesis using run law by blast
  qed
qed

lemma execute_items_completes:
  assumes "answers h" and "at_work (en_tenant_id e) (en_aggregate_id e) js db"
  shows "\<exists>db'. execute_items cf h ev e js db = (None, db') \<and> at_work (en_tenant_id e) (en_aggregate_id e) [] db' \<and>
    task_items (en_tenant_id e) (en_aggregate_id e) db' = task_items (en_tenant_id e) (en_aggregate_id e) db \<and>
    (\<forall>j. j \<in> set js \<or> item_done (en_tenant_id e) (en_aggregate_id e) j db \<longrightarrow> item_done (en_tenant_id e) (en_aggregate_id e) j db')"
  using assms(2)
proof (induction js arbitrary: db)
  case Nil
  then show ?case by (simp add: at_work_def)
next
  case (Cons j js)
  let ?i = "en_aggregate_id e" and ?n = "en_tenant_id e"
  have rest: "at_work ?n ?i js db1" if "at_work ?n ?i (j # js) db1" for db1 using that by (auto simp: at_work_def)
  have inv: "ops_inv db" using Cons.prems by (simp add: at_work_def)
  from Cons.prems show ?case
  proof (cases rule: claim_runs[where cf = cf and ev = ev])
    case 1: skipped
    from Cons.IH[OF rest[OF Cons.prems]] show ?thesis using 1 by fastforce
  next
    case 2: (handed rq db1)
    have law: "ops_inv db1" "moves db db1" using claim_item_law[OF inv 2(1)] by auto
    note w1 = at_work_moves[OF Cons.prems law]
    have rq: "request_ok db1 rq" using request_ok_moves[OF inv law(2) claimed_request_ok[OF inv 2(1)]] .
    obtain u where u: "h rq db1 = Inr u" "valid_update u" using assms(1) by (auto simp: answers_def)
    obtain db2 where db2: "record_result cf ev rq u db1 = Inr ((), db2)" "ops_inv db2" "moves db1 db2" "item_done ?n ?i j db2"
      using record_runs[OF law(1) rq u(2), of cf ev] 2 by auto
    note w2 = at_work_moves[OF conjunct1[OF w1] db2(2,3)]
    from Cons.IH[OF rest[OF conjunct1[OF w2]]] obtain db' where
      "execute_items cf h ev e js db2 = (None, db')" "at_work ?n ?i [] db'" "task_items ?n ?i db' = task_items ?n ?i db2" "\<forall>k. k \<in> set js \<or> item_done ?n ?i k db2 \<longrightarrow> item_done ?n ?i k db'" by blast
    then show ?thesis using 2 u db2 w1 w2 by auto
  qed
qed

lemma all_done_terminal:
  assumes "ops_inv db" and "find_task tenant i db = Some t" and "released t"
    and "\<forall>j \<in> task_items tenant i db. item_done tenant i j db"
  shows "ot_status t \<in> TERMINAL_TASK_STATES"
proof -
  have ok: "task_ok (t, items_of tenant i db)" by (rule found_ok[OF assms(1,2)])
  have "all_in TERMINAL_ITEM_STATES (items_of tenant i db)"
    unfolding all_in_def
  proof
    fix r assume r: "r \<in> set (items_of tenant i db)"
    then obtain q where q: "q \<in> set (items_of tenant i db)" "oi_id q = oi_id r" "oi_status q \<in> TERMINAL_ITEM_STATES"
      using assms(4) by (auto simp: item_done_def task_items_def)
    have "q = r" using distinct_ids[OF _ q(1) r q(2)] ok by (simp add: task_ok_def counts_agree_def)
    then show "oi_status r \<in> TERMINAL_ITEM_STATES" using q(3) by simp
  qed
  then show ?thesis using ok assms(3)
    by (cases "ot_status t") (auto simp: task_ok_def status_agrees_def all_in_def counts_agree_def released_def neq_Nil_conv)
qed

text \<open>
  C24. An event of a released task whose handler always answers is consumed without an error, by a number of executions that
  is bounded by the items, and leaves the task final, whatever state earlier and partial deliveries of the event left; its
  redelivery then changes nothing.
\<close>

theorem operation_publish_completes:
  assumes "op_step\<^sup>*\<^sup>* init_system s" and "find_task (en_tenant_id e) (en_aggregate_id e) (sy_db s) = Some t"
    and "ot_status t \<noteq> Task_Pending_Approval" and "handlers (ot_operation_key t) = Some h" and "answers h"
    and "en_event_type e \<in> set EXECUTION_EVENT_TYPES" and "en_aggregate_type e = ''operation_task''"
    and "dget (en_payload e) ''taskId'' = Some (JStr (en_aggregate_id e))"
  shows "\<exists>db t'. operation_publish cf handlers ev e (sy_db s) = (None, db) \<and> find_task (en_tenant_id e) (en_aggregate_id e) db = Some t' \<and>
    ot_status t' \<in> TERMINAL_TASK_STATES \<and> (\<forall>cf' ev'. operation_publish cf' handlers ev' e db = (None, db))"
proof -
  let ?i = "en_aggregate_id e" and ?n = "en_tenant_id e"
  have inv: "ops_inv (sy_db s)" using reachable_inv[OF assms(1)] by (simp add: system_inv_def)
  have again: "operation_publish cf' handlers ev' e db = (None, db)"
    if "find_task ?n ?i db = Some t'" "ot_status t' \<in> TERMINAL_TASK_STATES" for cf' ev' db t'
    using that assms(6-8) by (simp add: operation_publish_def)
  show ?thesis
  proof (cases "ot_status t \<in> TERMINAL_TASK_STATES")
    case True
    then show ?thesis using again[OF assms(2)] assms(2) by blast
  next
    case False
    have rel: "released t" using released_open[OF found_ok[OF inv assms(2)] False assms(3)] .
    have "at_work ?n ?i (item_ids e (sy_db s)) (sy_db s)" using inv rel assms(2) by (auto simp: at_work_def item_ids_def task_items_def)
    from execute_items_completes[OF assms(5) this, of cf ev] obtain db where db: "execute_items cf h ev e (item_ids e (sy_db s)) (sy_db s) = (None, db)"
        "at_work ?n ?i [] db" "task_items ?n ?i db = task_items ?n ?i (sy_db s)" "\<forall>j \<in> set (item_ids e (sy_db s)). item_done ?n ?i j db" by blast
    obtain t' where t': "ops_inv db" "find_task ?n ?i db = Some t'" "released t'" using db(2) by (auto simp: at_work_def)
    have "set (item_ids e (sy_db s)) = task_items ?n ?i (sy_db s)" by (simp add: item_ids_def task_items_def)
    then have "ot_status t' \<in> TERMINAL_TASK_STATES" using all_done_terminal[OF t'] db(3,4) by simp
    moreover have "operation_publish cf handlers ev e (sy_db s) = (None, db)"
      using False assms(2-4,6-8) db(1) by (simp add: operation_publish_def)
    ultimately show ?thesis using again t'(2) by blast
  qed
qed

theorem operation_publish_completes_witness:
  "\<exists>s db t. op_step\<^sup>*\<^sup>* init_system s \<and>
     operation_publish opd_config (sink_handlers (\<lambda>v. ''h'') (\<lambda>k rq db. Inl ''ConnectError'') []) opd_clock opd_event (sy_db s) = (None, db) \<and>
     find_task ''t'' ''i'' db = Some t \<and> ot_status t \<in> TERMINAL_TASK_STATES"
proof -
  obtain s1 s where s: "op_step\<^sup>*\<^sup>* init_system s1" "op_step s1 s" "od_tasks (sy_db s) = [opd_approved]" using opd_run by blast
  have r: "op_step\<^sup>*\<^sup>* init_system s" using s by (meson rtranclp.rtrancl_into_rtrancl)
  let ?h = "sink_handlers (\<lambda>v. ''h'') (\<lambda>k rq db. Inl ''ConnectError'') []"
  have e: "en_tenant_id opd_event = ''t''" "en_aggregate_id opd_event = ''i''" "en_event_type opd_event \<in> set EXECUTION_EVENT_TYPES"
      "en_aggregate_type opd_event = ''operation_task''" "dget (en_payload opd_event) ''taskId'' = Some (JStr (en_aggregate_id opd_event))"
    by (simp_all add: opd_event_def EXECUTION_EVENT_TYPES_def)
  have t: "find_task (en_tenant_id opd_event) (en_aggregate_id opd_event) (sy_db s) = Some opd_approved" "ot_status opd_approved \<noteq> Task_Pending_Approval"
      "?h (ot_operation_key opd_approved) = Some (snapshot_handler (\<lambda>v. ''h''))"
    using s(3) by (simp_all add: find_task_def e opd_approved_def opd_fields sink_handlers_def)
  from operation_publish_completes[of s opd_event opd_approved ?h "snapshot_handler (\<lambda>v. ''h'')" opd_config opd_clock, OF r t(1,2,3) snapshot_handler_answers e(3-5)]
  show ?thesis using r e(1,2) by auto
qed

subsection \<open>An operation without a handler\<close>

text \<open>
  \<open>xianyu.listing.publish\<close> is offered as a built-in operation and needs no approval, but the sink has no handler for it: unless an
  endpoint is configured, every delivery of the event of such a task raises \<open>OperationExecutorUnavailable\<close> and leaves the
  tasks and items as they were, in every state in which the task is not final.
\<close>

theorem builtin_operation_without_handler:
  assumes "''xianyu.listing.publish'' \<notin> set configured" and "find_task (en_tenant_id e) (en_aggregate_id e) db = Some t"
    and "ot_operation_key t = ''xianyu.listing.publish''" and "ot_status t \<in> {Task_Queued, Task_Running}"
    and "en_event_type e \<in> set EXECUTION_EVENT_TYPES" and "en_aggregate_type e = ''operation_task''"
    and "dget (en_payload e) ''taskId'' = Some (JStr (en_aggregate_id e))"
  shows "executor_available cf ''xianyu.listing.publish'' \<and> \<not> needs_approval ''xianyu.listing.publish'' \<and>
    (\<exists>db'. operation_publish cf (sink_handlers hash endpoint configured) ev e db = (Some ''OperationExecutorUnavailable'', db') \<and>
       od_tasks db' = od_tasks db \<and> od_items db' = od_items db)"
proof -
  have "\<not> needs_approval ''xianyu.listing.publish''"
    unfolding needs_approval_def by_key_def DEFINITIONS_def XY_TASK_DEFINITIONS_def rev_append
    by (simp add: operation_def BASE_OPERATIONS_1_def BASE_OPERATIONS_2_def XY_OPERATIONS_1_def XY_OPERATIONS_2_def XY_OPERATIONS_3_def XY_OPERATIONS_4_def)
  moreover have "executor_available cf ''xianyu.listing.publish''" by (simp add: executor_available_def BUILTIN_OPERATION_KEYS_def)
  moreover have "sink_handlers hash endpoint configured ''xianyu.listing.publish'' = None" using assms(1) by (simp add: sink_handlers_def)
  then have "\<exists>db'. operation_publish cf (sink_handlers hash endpoint configured) ev e db = (Some ''OperationExecutorUnavailable'', db') \<and>
       od_tasks db' = od_tasks db \<and> od_items db' = od_items db"
    using assms(2-7) by (auto simp: operation_publish_def audit_unavailable_def as_sink_def)
  ultimately show ?thesis by blast
qed

theorem builtin_operation_without_handler_witness:
  "\<exists>db'. operation_publish opd_config (sink_handlers (\<lambda>v. ''h'') (\<lambda>k rq db. Inl ''ConnectError'') []) opd_clock opd_event
     (empty_odb\<lparr>od_tasks := [opd_approved\<lparr>ot_operation_key := ''xianyu.listing.publish''\<rparr>]\<rparr>) = (Some ''OperationExecutorUnavailable'', db')"
proof -
  let ?t = "opd_approved\<lparr>ot_operation_key := ''xianyu.listing.publish''\<rparr>"
  have "find_task (en_tenant_id opd_event) (en_aggregate_id opd_event) (empty_odb\<lparr>od_tasks := [?t]\<rparr>) = Some ?t" "ot_status ?t \<in> {Task_Queued, Task_Running}"
    by (simp_all add: find_task_def opd_event_def opd_approved_def opd_fields)
  then show ?thesis
    using builtin_operation_without_handler[of "[]" opd_event "empty_odb\<lparr>od_tasks := [?t]\<rparr>" ?t opd_config "\<lambda>v. ''h''" "\<lambda>k rq db. Inl ''ConnectError''" opd_clock]
    by (auto simp: opd_event_def EXECUTION_EVENT_TYPES_def)
qed

end
