(* ===== verification/Mobile_Tasks.thy ===== *)
theory Mobile_Tasks
  imports Accounts
begin

text \<open>
  Tasks of the mobile agents (\<open>MobileTaskRow\<close> and its neighbours of \<open>db.py\<close>) and the operator's control over them
  (\<open>platform_tasks.py\<close>): the transition matrices, the persistent control events on the header of the steps, and
  cancellation, pause, acknowledgement, resumption, reconciliation and the check of a retry. The rest of the Control
  API is the database \<open>mb_core\<close>; its short mobile task rows are not used here. A view of a task is its row. A status
  and a business state are the strings of their columns. The instant of a call is \<open>mv_now\<close>, in microseconds.
\<close>

subsection \<open>Rows\<close>

record mobile_task =
  mk_id :: string
  mk_tenant_id :: string
  mk_device_id :: string
  mk_idempotency_key :: string
  mk_request_sha256 :: string
  mk_requested_by :: string
  mk_target_package :: string
  mk_account_id :: "string option"
  mk_binding_version :: "int option"
  mk_device_id_at_execution :: "string option"
  mk_operation_id :: "string option"
  mk_command_type :: "string option"
  mk_command_payload :: dict
  mk_recipe_pin :: "dict option"
  mk_business_state :: string
  mk_control_mode :: string
  mk_batch_id :: "string option"
  mk_scheduled_for :: "int option"
  mk_stall_reason :: "string option"
  mk_attempt_id :: "string option"
  mk_resume_count :: int
  mk_pause_ack_at :: "int option"
  mk_reconciliation :: dict
  mk_steps :: "dict list"
  mk_status :: string
  mk_lease_id :: "string option"
  mk_lease_expires_at :: "int option"
  mk_attempt :: int
  mk_last_sequence :: int
  mk_current_step :: "int option"
  mk_result :: dict
  mk_error_code :: "string option"
  mk_detail :: "string option"
  mk_started_at :: "int option"
  mk_completed_at :: "int option"
  mk_created_at :: int

record action_row =
  aw_action_key :: string
  aw_tenant_id :: string
  aw_task_id :: string
  aw_device_id :: string
  aw_account_id :: string
  aw_platform_account_id :: "string option"
  aw_binding_version :: int
  aw_recipe_version_id :: string
  aw_recipe_sha256 :: string
  aw_snapshot_sha256 :: string
  aw_action_id :: string
  aw_parameter_hash :: string
  aw_lease_id :: string
  aw_status :: string
  aw_before_evidence :: string
  aw_reported_evidence :: "string option"
  aw_resolution_revision :: int
  aw_resolution_evidence :: "string option"
  aw_resolved_at :: "int option"
  aw_created_at :: int
  aw_updated_at :: int

record task_event_row =
  te_id :: string
  te_tenant_id :: string
  te_task_id :: string
  te_sequence :: int
  te_event_type :: string
  te_step_index :: "int option"
  te_step_id :: "string option"
  te_attempt_id :: "string option"
  te_payload :: dict
  te_occurred_at :: int
  te_received_at :: "int option"

record companion_row =
  cb_id :: string
  cb_tenant_id :: string
  cb_device_id :: string
  cb_token_digest :: string
  cb_app_instance_id :: string
  cb_companion_version :: string
  cb_last_seen_at :: "int option"
  cb_revoked_at :: "int option"
  cb_created_at :: int

record enrollment_row =
  er_id :: string
  er_tenant_id :: string
  er_device_id :: string
  er_code_digest :: string
  er_expires_at :: int
  er_consumed_at :: "int option"
  er_created_by :: string
  er_created_at :: int

record fleet_session_row =
  fs_id :: string
  fs_session_id :: string
  fs_tenant_id :: string
  fs_device_id :: string
  fs_binding_id :: string
  fs_boot_id :: "string option"
  fs_companion_version :: "string option"
  fs_engine_version :: "int option"
  fs_capabilities :: "dict option"
  fs_accessibility_enabled :: "bool option"
  fs_accessibility_active :: "bool option"
  fs_ime_ready :: "bool option"
  fs_screen_unlocked :: "bool option"
  fs_last_seen_at :: "int option"
  fs_revoked_at :: "int option"
  fs_created_at :: int

text \<open>Of an automation version, the columns that the identity of an action reads.\<close>

record package_row =
  pk_id :: string
  pk_tenant_id :: string
  pk_artifact_sha256 :: string
  pk_manifest :: dict

record mdb =
  mb_core :: cdb
  mb_tasks :: "mobile_task list"
  mb_actions :: "action_row list"
  mb_events :: "task_event_row list"
  mb_companions :: "companion_row list"
  mb_enrollments :: "enrollment_row list"
  mb_sessions :: "fleet_session_row list"
  mb_packages :: "package_row list"
  mb_media :: "(string \<times> string) list"

datatype mobile_error =
    Plain api_error
  | ReconcileRequiredError
  | AccountBusyError string
  | AuthorizationEnvelopeStaleError
  | IneligibleCapabilityError string "string list"
  | CursorTooOldError
  | ControlSeqInvalidError
  | KeyError string

type_synonym 'a mop = "(mdb, mobile_error, 'a) tx"

text \<open>
  What the services take from elsewhere: identifiers, the clock and its ISO text, SHA-256 of a text, \<open>str\<close> of a JSON
  value that is not a boolean, \<open>fromisoformat\<close>, the recipe published for a device, the built-in recipe, the
  validation of a signed recipe package, the public keys, and whether a live session holds the device.
\<close>

record recipe =
  rc_app :: string
  rc_hash :: string
  rc_signing_key_id :: string
  rc_signature_key_id :: string
  rc_command_types :: "string list"
  rc_state_ids :: "string list"
  rc_commit_action_id :: "string option"

record menv =
  mv_id :: "nat \<Rightarrow> string"
  mv_now :: int
  mv_iso :: "int \<Rightarrow> string"
  mv_from_iso :: "string \<Rightarrow> int option"
  mv_sha256 :: "string \<Rightarrow> string"
  mv_str :: "json \<Rightarrow> string"
  mv_published_recipe :: "string \<Rightarrow> string \<Rightarrow> string \<Rightarrow> dict option"
  mv_builtin_recipe :: "string \<Rightarrow> dict"
  mv_validate_recipe :: "dict \<Rightarrow> string \<Rightarrow> recipe option"
  mv_public_key :: "string \<Rightarrow> string option"
  mv_has_remote :: "string \<Rightarrow> bool"

subsection \<open>Access to the tables\<close>

definition conflict :: "string \<Rightarrow> mobile_error" where
  "conflict m = Plain (Api (ConflictError m))"

definition missing :: "string \<Rightarrow> mobile_error" where
  "missing what = Plain (Api (NotFoundError (what @ '' was not found'')))"

definition unauthenticated :: "string \<Rightarrow> mobile_error" where
  "unauthenticated m = Plain (Api (AuthenticationError m))"

definition mrequire :: "actor \<Rightarrow> permission \<Rightarrow> unit mop" where
  "mrequire a p = tlift (case require_permissions (actor_roles a) [p] of Inl e \<Rightarrow> Inl (Plain (Api e)) | Inr u \<Rightarrow> Inr u)"

definition get_task_row :: "string \<Rightarrow> mdb \<Rightarrow> mobile_task option" where
  "get_task_row i db = find_row (\<lambda>t. mk_id t = i) (mb_tasks db)"

definition get_device :: "string \<Rightarrow> mdb \<Rightarrow> device_row option" where
  "get_device i db = find_row (\<lambda>d. de_id d = i) (db_devices (mb_core db))"

definition get_device_lease :: "string \<Rightarrow> mdb \<Rightarrow> lease_row option" where
  "get_device_lease i db = find_row (\<lambda>l. le_device_id l = i) (db_leases (mb_core db))"

definition update_task :: "string \<Rightarrow> (mobile_task \<Rightarrow> mobile_task) \<Rightarrow> unit mop" where
  "update_task i f = tmodify (\<lambda>db. db\<lparr>mb_tasks := upd_where (\<lambda>t. mk_id t = i) f (mb_tasks db)\<rparr>)"

definition update_core :: "(cdb \<Rightarrow> cdb) \<Rightarrow> unit mop" where
  "update_core f = tmodify (\<lambda>db. db\<lparr>mb_core := f (mb_core db)\<rparr>)"

definition update_device :: "string \<Rightarrow> (device_row \<Rightarrow> device_row) \<Rightarrow> unit mop" where
  "update_device i f = update_core (\<lambda>c. c\<lparr>db_devices := upd_where (\<lambda>d. de_id d = i) f (db_devices c)\<rparr>)"

definition update_device_lease :: "string \<Rightarrow> (lease_row \<Rightarrow> lease_row) \<Rightarrow> unit mop" where
  "update_device_lease i f = update_core (\<lambda>c. c\<lparr>db_leases := upd_where (\<lambda>l. le_device_id l = i) f (db_leases c)\<rparr>)"

definition mnew_id :: "menv \<Rightarrow> string mop" where
  "mnew_id ev db = (let n = db_next (mb_core db) in Inr (mv_id ev n, db\<lparr>mb_core := (mb_core db)\<lparr>db_next := n + 1\<rparr>\<rparr>))"

text \<open>The row that a caller of the tenant may see.\<close>

definition tenant_task :: "actor \<Rightarrow> string \<Rightarrow> mobile_task mop" where
  "tenant_task a i =
     tbind (tsome (get_task_row i) (missing ''platform task'')) (\<lambda>t.
     tbind (tguard (mk_tenant_id t = tenant_of a) (missing ''platform task'')) (\<lambda>_. treturn t))"

definition tenant_device :: "actor \<Rightarrow> string \<Rightarrow> device_row mop" where
  "tenant_device a i =
     tbind (tsome (get_device i) (missing ''device'')) (\<lambda>d.
     tbind (tguard (de_tenant_id d = tenant_of a) (missing ''device'')) (\<lambda>_. treturn d))"

text \<open>The unique indexes of the table of tasks, checked when a transaction flushes.\<close>

definition ACTIVE_STATES :: "string list" where
  "ACTIVE_STATES = [''CLAIMED'', ''RUNNING'']"

definition active_task :: "mobile_task \<Rightarrow> bool" where
  "active_task t \<longleftrightarrow> mk_status t \<in> set ACTIVE_STATES"

definition task_indexes :: "mobile_task list \<Rightarrow> bool" where
  "task_indexes ts \<longleftrightarrow> distinct (map mk_id ts) \<and> distinct (map mk_device_id (filter active_task ts)) \<and>
     distinct (List.map_filter mk_lease_id ts) \<and> distinct (map (\<lambda>t. (mk_tenant_id t, mk_idempotency_key t)) ts)"

definition flush_tasks :: "unit mop" where
  "flush_tasks = tbind (tread (\<lambda>db. task_indexes (mb_tasks db))) (\<lambda>ok. tguard ok (Plain IntegrityError))"

subsection \<open>Business states and the transition matrices\<close>

definition BUSINESS_STATES :: "string list" where
  "BUSINESS_STATES = [''QUEUED'', ''WAITING_MATERIALS'', ''PREFLIGHT'', ''RUNNING'', ''PAUSE_REQUESTED'', ''PAUSED_WAITING_USER'',
     ''RESUME_CHECK'', ''RECONCILING'', ''CANCEL_REQUESTED'', ''SUCCEEDED'', ''FAILED'', ''CANCELLED'', ''EXPIRED'']"

definition TERMINAL_BUSINESS :: "string list" where
  "TERMINAL_BUSINESS = [''SUCCEEDED'', ''FAILED'', ''CANCELLED'', ''EXPIRED'']"

definition SAFE_RETRY_CODES :: "string list" where
  "SAFE_RETRY_CODES = [''LOCATOR_NOT_FOUND'', ''STEP_TIMEOUT'', ''APP_NOT_FOREGROUND'', ''NETWORK_UNAVAILABLE'', ''PREFLIGHT_FAILED'']"

definition UNSAFE_RETRY_CODES :: "string list" where
  "UNSAFE_RETRY_CODES = [''ACCOUNT_CHANGED'', ''COMMIT_UNKNOWN'', ''XIANYU_PUBLISH_SUCCESS'', ''RECONCILING'']"

definition RECONCILE_DECISIONS :: "string list" where
  "RECONCILE_DECISIONS = [''CONFIRMED_APPLIED'', ''CONFIRMED_NOT_SUBMITTED'', ''KEEP_WAITING'']"

definition RUNNER_TO_BUSINESS :: "(string \<times> string) list" where
  "RUNNER_TO_BUSINESS = [(''QUEUED'', ''QUEUED''), (''CLAIMED'', ''PREFLIGHT''), (''RUNNING'', ''RUNNING''),
     (''SUCCEEDED'', ''SUCCEEDED''), (''FAILED'', ''FAILED'')]"

definition CANCEL_TRANSITIONS :: "(string \<times> string) list" where
  "CANCEL_TRANSITIONS = [(''QUEUED'', ''CANCELLED_NOW''), (''WAITING_MATERIALS'', ''CANCELLED_NOW''), (''PREFLIGHT'', ''CANCELLED_NOW''),
     (''PAUSE_REQUESTED'', ''CANCELLED_NOW''), (''PAUSED_WAITING_USER'', ''CANCELLED_NOW''), (''RUNNING'', ''CANCEL_REQUESTED''),
     (''RESUME_CHECK'', ''CANCEL_REQUESTED''), (''CANCEL_REQUESTED'', ''IDEMPOTENT_RETURN''),
     (''RECONCILING'', ''REJECTED_RECONCILE_FIRST''), (''SUCCEEDED'', ''REJECTED_TERMINAL''), (''FAILED'', ''REJECTED_TERMINAL''),
     (''CANCELLED'', ''IDEMPOTENT_RETURN''), (''EXPIRED'', ''REJECTED_TERMINAL'')]"

definition PAUSE_TRANSITIONS :: "(string \<times> string) list" where
  "PAUSE_TRANSITIONS = [(''QUEUED'', ''PAUSE_REQUESTED''), (''WAITING_MATERIALS'', ''PAUSE_REQUESTED''), (''PREFLIGHT'', ''PAUSE_REQUESTED''),
     (''RUNNING'', ''PAUSE_REQUESTED''), (''RESUME_CHECK'', ''PAUSE_REQUESTED''), (''PAUSE_REQUESTED'', ''IDEMPOTENT_RETURN''),
     (''PAUSED_WAITING_USER'', ''IDEMPOTENT_RETURN''), (''CANCEL_REQUESTED'', ''REJECTED_CANCEL_WINS''),
     (''RECONCILING'', ''REJECTED_RECONCILE_FIRST''), (''SUCCEEDED'', ''REJECTED_TERMINAL''), (''FAILED'', ''REJECTED_TERMINAL''),
     (''CANCELLED'', ''REJECTED_TERMINAL''), (''EXPIRED'', ''REJECTED_TERMINAL'')]"

definition ACK_PAUSED_TRANSITIONS :: "(string \<times> string) list" where
  "ACK_PAUSED_TRANSITIONS = [(''QUEUED'', ''PAUSED_WAITING_USER''), (''WAITING_MATERIALS'', ''PAUSED_WAITING_USER''),
     (''PREFLIGHT'', ''PAUSED_WAITING_USER''), (''RUNNING'', ''PAUSED_WAITING_USER''), (''PAUSE_REQUESTED'', ''PAUSED_WAITING_USER''),
     (''PAUSED_WAITING_USER'', ''IDEMPOTENT_RETURN''), (''RESUME_CHECK'', ''REJECTED_SUPERSEDED''),
     (''CANCEL_REQUESTED'', ''REJECTED_CANCEL_WINS''), (''RECONCILING'', ''REJECTED_RECONCILE_FIRST''),
     (''SUCCEEDED'', ''REJECTED_TERMINAL''), (''FAILED'', ''REJECTED_TERMINAL''), (''CANCELLED'', ''REJECTED_TERMINAL''),
     (''EXPIRED'', ''REJECTED_TERMINAL'')]"

definition RESUME_TRANSITIONS :: "(string \<times> string) list" where
  "RESUME_TRANSITIONS = [(''PAUSED_WAITING_USER'', ''RESUME_CHECK''), (''QUEUED'', ''REJECTED_REQUIRES_PAUSE_ACK''),
     (''WAITING_MATERIALS'', ''REJECTED_REQUIRES_PAUSE_ACK''), (''PREFLIGHT'', ''REJECTED_REQUIRES_PAUSE_ACK''),
     (''RUNNING'', ''REJECTED_REQUIRES_PAUSE_ACK''), (''PAUSE_REQUESTED'', ''REJECTED_REQUIRES_PAUSE_ACK''),
     (''RESUME_CHECK'', ''REJECTED_REQUIRES_PAUSE_ACK''), (''CANCEL_REQUESTED'', ''REJECTED_CANCEL_WINS''),
     (''RECONCILING'', ''REJECTED_RECONCILE_FIRST''), (''SUCCEEDED'', ''REJECTED_REQUIRES_PAUSE_ACK''),
     (''FAILED'', ''REJECTED_REQUIRES_PAUSE_ACK''), (''CANCELLED'', ''REJECTED_CANCEL_WINS''),
     (''EXPIRED'', ''REJECTED_REQUIRES_PAUSE_ACK'')]"

text \<open>The assertions of the module at import: the four tables are total on the business states.\<close>

lemma transition_tables_total:
  "set (map fst CANCEL_TRANSITIONS) = set BUSINESS_STATES" "set (map fst PAUSE_TRANSITIONS) = set BUSINESS_STATES"
  "set (map fst ACK_PAUSED_TRANSITIONS) = set BUSINESS_STATES" "set (map fst RESUME_TRANSITIONS) = set BUSINESS_STATES"
  unfolding CANCEL_TRANSITIONS_def PAUSE_TRANSITIONS_def ACK_PAUSED_TRANSITIONS_def RESUME_TRANSITIONS_def BUSINESS_STATES_def
  by (simp_all add: insert_commute)

definition business_state_of :: "mobile_task \<Rightarrow> string" where
  "business_state_of t =
     (let st = (if mk_business_state t \<noteq> [] then mk_business_state t
                else (case map_of RUNNER_TO_BUSINESS (mk_status t) of Some b \<Rightarrow> b | None \<Rightarrow> mk_status t))
      in if st = ''CANCELED'' then ''CANCELLED'' else st)"

definition has_commit_intent :: "mobile_task \<Rightarrow> bool" where
  "has_commit_intent t \<longleftrightarrow> dget (mk_command_payload t) ''commitIntent'' \<noteq> None"

definition transition_of :: "(string \<times> string) list \<Rightarrow> mobile_task \<Rightarrow> string mop" where
  "transition_of table t = tsome (\<lambda>_. map_of table (business_state_of t)) (KeyError (business_state_of t))"

subsection \<open>Control events\<close>

definition PROTECTED_CONTROL_EVENT_KINDS :: "string list" where
  "PROTECTED_CONTROL_EVENT_KINDS = [''MARKED_UNKNOWN'', ''RECONCILED_APPLIED'', ''RECONCILED_NOT_SUBMITTED'', ''RECONCILED_KEEP_WAITING'']"

definition MAX_CONTROL_EVENTS :: nat where
  "MAX_CONTROL_EVENTS = 50"

record control_event =
  ce_revision :: int
  ce_event :: string
  ce_reason :: string
  ce_actor :: string
  ce_issued_at :: string

definition event_json :: "control_event \<Rightarrow> json" where
  "event_json e = JObj [(''revision'', JInt (ce_revision e)), (''event'', JStr (ce_event e)), (''reason'', JStr (ce_reason e)),
     (''actor'', JStr (ce_actor e)), (''issuedAt'', JStr (ce_issued_at e))]"

fun event_kind :: "json \<Rightarrow> string option" where
  "event_kind (JObj d) = (case dget d ''event'' of Some (JStr k) \<Rightarrow> Some k | _ \<Rightarrow> None)"
| "event_kind _ = None"

definition protected_event :: "json \<Rightarrow> bool" where
  "protected_event e \<longleftrightarrow> (case event_kind e of Some k \<Rightarrow> k \<in> set PROTECTED_CONTROL_EVENT_KINDS | None \<Rightarrow> False)"

definition retain_control_events :: "json list \<Rightarrow> json list" where
  "retain_control_events es =
     (let n = length es - MAX_CONTROL_EVENTS in filter protected_event (take n es) @ drop n es)"

definition control_header :: "mobile_task \<Rightarrow> dict" where
  "control_header t = (case mk_steps t of [] \<Rightarrow> [] | h # _ \<Rightarrow> h)"

definition header_events :: "dict \<Rightarrow> json list" where
  "header_events h = (case dget h ''controlEvents'' of Some (JList es) \<Rightarrow> es | _ \<Rightarrow> [])"

definition header_revision :: "dict \<Rightarrow> int" where
  "header_revision h = (case dget h ''controlRevision'' of Some (JInt n) \<Rightarrow> n | _ \<Rightarrow> 0)"

definition set_header :: "dict \<Rightarrow> mobile_task \<Rightarrow> mobile_task" where
  "set_header h t = t\<lparr>mk_steps := h # (case mk_steps t of [] \<Rightarrow> [] | _ # rest \<Rightarrow> rest)\<rparr>"

definition record_control_event :: "menv \<Rightarrow> string \<Rightarrow> string \<Rightarrow> string \<Rightarrow> mobile_task \<Rightarrow> mobile_task" where
  "record_control_event ev kind reason who t =
     (let h = control_header t; revision = header_revision h + 1;
          e = event_json \<lparr>ce_revision = revision, ce_event = kind, ce_reason = take 160 reason, ce_actor = take 128 who,
                ce_issued_at = mv_iso ev (mv_now ev)\<rparr>
      in set_header (AList.update ''controlEvents'' (JList (retain_control_events (header_events h @ [e])))
           (AList.update ''controlRevision'' (JInt revision) h)) t)"

definition control_revision :: "mobile_task \<Rightarrow> int" where
  "control_revision t = header_revision (control_header t)"

definition audit_control_event ::
  "menv \<Rightarrow> string \<Rightarrow> string \<Rightarrow> string \<Rightarrow> string \<Rightarrow> dict \<Rightarrow> unit mop" where
  "audit_control_event ev i action actor_id actor_type extra =
     tbind (tsome (get_task_row i) (missing ''platform task'')) (\<lambda>t.
     tbind (mnew_id ev) (\<lambda>id1. tbind (mnew_id ev) (\<lambda>id2.
     update_core (\<lambda>c. c\<lparr>db_audit := db_audit c @ [\<lparr>ad_id = id1, ad_tenant_id = mk_tenant_id t, ad_actor_type = actor_type,
       ad_actor_id = take 255 actor_id, ad_action = ''platform.task.'' @ action, ad_resource_type = ''mobile_task'', ad_resource_id = mk_id t,
       ad_request_id = id2, ad_workflow_id = None, ad_device_id = Some (mk_device_id t), ad_edge_id = None, ad_before_hash = None,
       ad_after_hash = None, ad_result = ''SUCCEEDED'',
       ad_metadata = dupdate [(''taskId'', JStr (mk_id t)), (''controlRevision'', JInt (control_revision t)),
         (''businessState'', JStr (mk_business_state t))] extra, ad_occurred_at = mv_now ev\<rparr>]\<rparr>))))"

definition release_occupation :: "menv \<Rightarrow> mobile_task \<Rightarrow> bool mop" where
  "release_occupation ev t =
     tbind (tread (get_device_lease (mk_device_id t))) (\<lambda>found. (case found of
         None \<Rightarrow> treturn False
       | Some l \<Rightarrow>
           if le_canceled_at l \<noteq> None \<or> le_tenant_id l \<noteq> mk_tenant_id t \<or> le_owner_type l \<noteq> ''AUTO'' \<or>
              le_owner_workflow_id l \<noteq> ''auto/'' @ mk_id t then treturn False
           else tbind (update_device_lease (mk_device_id t) (\<lambda>l. l\<lparr>le_canceled_at := Some (mv_now ev)\<rparr>)) (\<lambda>_. treturn True)))"

definition settle_reply :: "string \<Rightarrow> string \<Rightarrow> unit mop" where
  "settle_reply i st = update_core (settle_reply_delivery i st)"

definition operator_of :: "actor \<Rightarrow> string" where
  "operator_of a = ''operator:'' @ actor_user_id a"

subsection \<open>Operations of the operator\<close>

text \<open>The task and the mutex of its device, which cancellation and resumption share with the claim.\<close>

definition locked_task :: "actor \<Rightarrow> string \<Rightarrow> (mobile_task \<times> device_row) mop" where
  "locked_task a i =
     tbind (tenant_task a i) (\<lambda>t.
     tbind (tenant_device a (mk_device_id t)) (\<lambda>d. treturn (t, d)))"

definition cancel_requested :: "menv \<Rightarrow> actor \<Rightarrow> string \<Rightarrow> mobile_task \<Rightarrow> mobile_task" where
  "cancel_requested ev a reason t =
     (record_control_event ev ''CANCEL_REQUESTED'' reason (operator_of a) t)
       \<lparr>mk_business_state := ''CANCEL_REQUESTED'', mk_stall_reason := Some (take 160 reason)\<rparr>"

definition cancelled_now :: "int \<Rightarrow> string \<Rightarrow> mobile_task \<Rightarrow> mobile_task" where
  "cancelled_now now reason t = t\<lparr>mk_status := ''FAILED'', mk_business_state := ''CANCELLED'', mk_error_code := Some ''CANCELLED'',
     mk_detail := Some reason, mk_completed_at := Some now, mk_lease_id := None, mk_lease_expires_at := None\<rparr>"

definition cancel_task :: "menv \<Rightarrow> actor \<Rightarrow> string \<Rightarrow> string \<Rightarrow> mobile_task mop" where
  "cancel_task ev a i reason =
     tbind (mrequire a TASK_CREATE) (\<lambda>_.
     tbind (locked_task a i) (\<lambda>(t, d).
     tbind (transition_of CANCEL_TRANSITIONS t) (\<lambda>outcome.
     if outcome = ''IDEMPOTENT_RETURN'' then treturn t
     else
       tbind (tguard (outcome \<noteq> ''REJECTED_TERMINAL'') (conflict ''terminal platform task cannot be canceled'')) (\<lambda>_.
       tbind (tguard (outcome \<noteq> ''REJECTED_RECONCILE_FIRST'' \<and> \<not> has_commit_intent t)
         (conflict ''uncertain result must be reconciled before cancellation'')) (\<lambda>_.
       if outcome = ''CANCEL_REQUESTED'' then
         tbind (update_task i (cancel_requested ev a reason)) (\<lambda>_.
         tbind (audit_control_event ev i ''cancel_requested'' (actor_user_id a) ''operator'' [(''reason'', JStr (take 160 reason))]) (\<lambda>_.
         tsome (get_task_row i) (missing ''platform task'')))
       else
         tbind (update_task i (cancelled_now (mv_now ev) reason)) (\<lambda>_.
         tbind (release_occupation ev t) (\<lambda>released.
         tbind (update_task i (record_control_event ev ''CANCELLED'' reason (operator_of a))) (\<lambda>_.
         tbind (audit_control_event ev i ''cancelled'' (actor_user_id a) ''operator'' [(''occupationReleased'', JBool released)]) (\<lambda>_.
         tbind (settle_reply i ''CANCELLED'') (\<lambda>_.
         tsome (get_task_row i) (missing ''platform task'')))))))))))"

definition pause_task :: "menv \<Rightarrow> actor \<Rightarrow> string \<Rightarrow> string \<Rightarrow> mobile_task mop" where
  "pause_task ev a i reason =
     tbind (mrequire a DEVICE_CONTROL) (\<lambda>_.
     tbind (tenant_task a i) (\<lambda>t.
     tbind (transition_of PAUSE_TRANSITIONS t) (\<lambda>outcome.
     if outcome = ''IDEMPOTENT_RETURN'' then treturn t
     else
       tbind (tguard (outcome \<noteq> ''REJECTED_TERMINAL'') (conflict ''terminal platform task cannot be paused'')) (\<lambda>_.
       tbind (tguard (outcome \<noteq> ''REJECTED_RECONCILE_FIRST'') (conflict ''uncertain result must be reconciled before pause'')) (\<lambda>_.
       tbind (tguard (outcome \<noteq> ''REJECTED_CANCEL_WINS'') (conflict ''cancelled task cannot be paused'')) (\<lambda>_.
       tbind (update_task i (\<lambda>t. (record_control_event ev ''PAUSE_REQUESTED'' reason (operator_of a) t)
         \<lparr>mk_business_state := ''PAUSE_REQUESTED'', mk_stall_reason := Some (take 160 reason)\<rparr>)) (\<lambda>_.
       tbind (audit_control_event ev i ''pause_requested'' (actor_user_id a) ''operator'' []) (\<lambda>_.
       tsome (get_task_row i) (missing ''platform task'')))))))))"

definition stalled :: "mobile_task \<Rightarrow> string \<Rightarrow> string" where
  "stalled t r = (case mk_stall_reason t of Some s \<Rightarrow> if s = [] then r else s | None \<Rightarrow> r)"

definition pause_acked :: "menv \<Rightarrow> mobile_task \<Rightarrow> mobile_task" where
  "pause_acked ev t =
     (let t1 = (if has_commit_intent t
                then t\<lparr>mk_business_state := ''RECONCILING'', mk_stall_reason := Some (stalled t ''commit intent already written'')\<rparr>
                else t\<lparr>mk_business_state := ''PAUSED_WAITING_USER''\<rparr>);
          t2 = t1\<lparr>mk_pause_ack_at := Some (mv_now ev), mk_control_mode := ''REMOTE''\<rparr>
      in record_control_event ev (if has_commit_intent t then ''PAUSE_ACKED_RECONCILING'' else ''PAUSE_ACKED'')
           (stalled t2 ''pause acknowledged'') ''companion'' t2)"

definition ack_paused :: "menv \<Rightarrow> string \<Rightarrow> string option \<Rightarrow> mobile_task mop" where
  "ack_paused ev i lease_id =
     tbind (tsome (get_task_row i) (missing ''platform task'')) (\<lambda>t.
     tbind (transition_of ACK_PAUSED_TRANSITIONS t) (\<lambda>outcome.
     tbind (tguard (outcome \<noteq> ''REJECTED_TERMINAL'' \<and> mk_status t \<notin> {''SUCCEEDED'', ''FAILED''})
       (conflict ''terminal platform task cannot be pause-acked'')) (\<lambda>_.
     tbind (tguard (outcome \<noteq> ''REJECTED_RECONCILE_FIRST'')
       (conflict ''uncertain result must be reconciled before pause acknowledgement'')) (\<lambda>_.
     tbind (tguard (outcome \<noteq> ''REJECTED_CANCEL_WINS'') (conflict ''cancelled task cannot be pause-acked'')) (\<lambda>_.
     tbind (tguard (outcome \<noteq> ''REJECTED_SUPERSEDED'')
       (conflict ''task already resumed; late pause acknowledgement is superseded'')) (\<lambda>_.
     tbind (tguard (\<not> (\<exists>l m. lease_id = Some l \<and> l \<noteq> [] \<and> mk_lease_id t = Some m \<and> m \<noteq> [] \<and> m \<noteq> l))
       (conflict ''pause ack lease does not match'')) (\<lambda>_.
     if outcome = ''IDEMPOTENT_RETURN'' then treturn t
     else
       tbind (update_task i (pause_acked ev)) (\<lambda>_.
       tbind (audit_control_event ev i ''pause_acked'' ''companion'' ''companion'' []) (\<lambda>_.
       tsome (get_task_row i) (missing ''platform task''))))))))))"

text \<open>The account binding that a task is frozen to, when it has an account.\<close>

definition bound_to :: "string \<Rightarrow> string \<Rightarrow> string \<Rightarrow> mdb \<Rightarrow> account_binding_row option" where
  "bound_to tenant account device db =
     find_row (\<lambda>b. ab_tenant_id b = tenant \<and> ab_account_id b = account \<and> ab_device_id b = device \<and> ab_status b = ''BOUND'')
       (db_bindings (mb_core db))"

definition binding_intact :: "mobile_task \<Rightarrow> mdb \<Rightarrow> bool" where
  "binding_intact t db \<longleftrightarrow> (case mk_account_id t of
     None \<Rightarrow> True
   | Some acc \<Rightarrow> acc = [] \<or>
       (case bound_to (mk_tenant_id t) acc (mk_device_id t) db of
          None \<Rightarrow> False
        | Some b \<Rightarrow> (case mk_binding_version t of None \<Rightarrow> True | Some v \<Rightarrow> ab_binding_version b = v)))"

definition resumed :: "menv \<Rightarrow> string \<Rightarrow> string \<Rightarrow> mobile_task \<Rightarrow> mobile_task" where
  "resumed ev lease reason t =
     t\<lparr>mk_lease_id := Some lease, mk_lease_expires_at := Some (mv_now ev + 60000000),
       mk_status := (if mk_status t \<in> {''QUEUED'', ''CLAIMED'', ''RUNNING''} then ''RUNNING'' else mk_status t),
       mk_business_state := ''RESUME_CHECK'', mk_control_mode := ''AUTO'', mk_resume_count := mk_resume_count t + 1,
       mk_stall_reason := Some reason\<rparr>"

definition stamp_epoch :: "int \<Rightarrow> mobile_task \<Rightarrow> mobile_task" where
  "stamp_epoch epoch t = (case mk_steps t of [] \<Rightarrow> t | h # rest \<Rightarrow> t\<lparr>mk_steps := AList.update ''controlEpoch'' (JInt epoch) h # rest\<rparr>)"

definition auto_lease :: "menv \<Rightarrow> mobile_task \<Rightarrow> string \<Rightarrow> int \<Rightarrow> int \<Rightarrow> lease_row" where
  "auto_lease ev t lease token expires =
     \<lparr>le_device_id = mk_device_id t, le_tenant_id = mk_tenant_id t, le_lease_id = lease, le_owner_workflow_id = ''auto/'' @ mk_id t,
      le_fencing_token = token, le_expires_at = expires, le_canceled_at = None, le_owner_type = ''AUTO'', le_created_at = mv_now ev\<rparr>"

definition replace_lease :: "lease_row \<Rightarrow> unit mop" where
  "replace_lease l = update_core (\<lambda>c. c\<lparr>db_leases := filter (\<lambda>x. le_device_id x \<noteq> le_device_id l) (db_leases c) @ [l]\<rparr>)"

definition resume_task :: "menv \<Rightarrow> actor \<Rightarrow> string \<Rightarrow> string \<Rightarrow> bool \<Rightarrow> mobile_task mop" where
  "resume_task ev a i reason page_verified =
     tbind (mrequire a DEVICE_CONTROL) (\<lambda>_.
     tbind (locked_task a i) (\<lambda>(t, d).
     tbind (transition_of RESUME_TRANSITIONS t) (\<lambda>outcome.
     tbind (tguard (outcome \<noteq> ''REJECTED_CANCEL_WINS'') (conflict ''cancelled task cannot be resumed'')) (\<lambda>_.
     tbind (tguard (outcome \<noteq> ''REJECTED_RECONCILE_FIRST'') (conflict ''reconciling tasks must be decided before resume'')) (\<lambda>_.
     tbind (tguard (outcome = ''RESUME_CHECK'')
       (conflict ''resume requires pause ack before the original task can continue'')) (\<lambda>_.
     tbind (tguard page_verified (Plain (Api (ValidationError ''resume requires pageVerified=true after resumeGuard'')))) (\<lambda>_.
     tbind (tguard (\<not> truthy (dget_or (mk_command_payload t) ''commitIntent'' JNull))
       (conflict ''reconciling tasks must be decided before resume'')) (\<lambda>_.
     tbind (tread (binding_intact t)) (\<lambda>intact.
     tbind (tguard intact (conflict ''account or binding changed; original task cannot continue'')) (\<lambda>_.
     tbind (mnew_id ev) (\<lambda>lease.
     tbind (update_device (de_id d) (\<lambda>d. d\<lparr>de_fencing_counter := de_fencing_counter d + 1, de_control_epoch := de_control_epoch d + 1\<rparr>)) (\<lambda>_.
     tbind (update_task i (resumed ev lease reason)) (\<lambda>_.
     tbind (replace_lease (auto_lease ev t lease (de_fencing_counter d + 1) (mv_now ev + 60000000))) (\<lambda>_.
     tbind (update_task i (\<lambda>t. record_control_event ev ''RESUMED'' reason (operator_of a) (stamp_epoch (de_fencing_counter d + 1) t))) (\<lambda>_.
     tbind flush_tasks (\<lambda>_.
     tbind (audit_control_event ev i ''resumed'' (actor_user_id a) ''operator''
       [(''pageVerified'', JBool True), (''controlEpoch'', JInt (de_fencing_counter d + 1))]) (\<lambda>_.
     tsome (get_task_row i) (missing ''platform task''))))))))))))))))))"

definition history_of :: "mobile_task \<Rightarrow> json list" where
  "history_of t = (case dget (mk_reconciliation t) ''history'' of Some (JList h) \<Rightarrow> h | _ \<Rightarrow> [])"

definition marked_unknown :: "menv \<Rightarrow> actor \<Rightarrow> string \<Rightarrow> mobile_task \<Rightarrow> mobile_task" where
  "marked_unknown ev a reason t = record_control_event ev ''MARKED_UNKNOWN'' reason (operator_of a)
     (t\<lparr>mk_business_state := ''RECONCILING'', mk_stall_reason := Some (take 160 reason),
        mk_reconciliation := dupdate (mk_reconciliation t)
          [(''status'', JStr ''UNKNOWN''), (''reason'', JStr reason), (''history'', JList (history_of t))]\<rparr>)"

definition mark_unknown :: "menv \<Rightarrow> actor \<Rightarrow> string \<Rightarrow> string \<Rightarrow> mobile_task mop" where
  "mark_unknown ev a i reason =
     tbind (mrequire a TASK_CREATE) (\<lambda>_.
     tbind (tenant_task a i) (\<lambda>t.
     tbind (tguard (business_state_of t \<notin> set TERMINAL_BUSINESS \<and> mk_status t \<noteq> ''SUCCEEDED'')
       (conflict ''terminal tasks cannot enter reconciliation'')) (\<lambda>_.
     tbind (update_task i (marked_unknown ev a reason)) (\<lambda>_.
     tbind (audit_control_event ev i ''marked_unknown'' (actor_user_id a) ''operator'' []) (\<lambda>_.
     tsome (get_task_row i) (missing ''platform task''))))))"

subsection \<open>Reconciliation\<close>

record reconcile_request =
  rq_decision :: string
  rq_evidence :: string
  rq_platform_item_id :: "string option"

definition opt_str :: "string option \<Rightarrow> json" where
  "opt_str s = (case s of None \<Rightarrow> JNull | Some v \<Rightarrow> JStr v)"

definition opt_instant :: "menv \<Rightarrow> int option \<Rightarrow> json" where
  "opt_instant ev s = (case s of None \<Rightarrow> JNull | Some v \<Rightarrow> JStr (mv_iso ev v))"

definition evidence_binding :: "menv \<Rightarrow> action_row \<Rightarrow> dict" where
  "evidence_binding ev r =
     (let platform = (case aw_platform_account_id r of Some p \<Rightarrow> if p = [] then None else Some p | None \<Rightarrow> None) in
      [(''contract'', JStr ''p09-ledger/20260910.1''), (''taskId'', JStr (aw_task_id r)), (''deviceId'', JStr (aw_device_id r)),
       (''accountId'', JStr (case platform of Some p \<Rightarrow> p | None \<Rightarrow> aw_account_id r)),
       (''accountSource'', JStr (if platform = None then ''legacy_account_id'' else ''platform_account_id'')),
       (''leaseId'', JStr (aw_lease_id r)), (''bindingVersion'', JInt (aw_binding_version r)),
       (''recipeVersionId'', JStr (aw_recipe_version_id r)), (''recipeSha256'', JStr (aw_recipe_sha256 r)),
       (''actionId'', JStr (aw_action_id r)), (''createdAt'', JStr (mv_iso ev (aw_created_at r))),
       (''updatedAt'', JStr (mv_iso ev (aw_updated_at r))), (''resolvedAt'', opt_instant ev (aw_resolved_at r))])"

definition audit_action :: "menv \<Rightarrow> action_row \<Rightarrow> string \<Rightarrow> string \<Rightarrow> unit mop" where
  "audit_action ev r actor_id kind =
     tbind (mnew_id ev) (\<lambda>id1. tbind (mnew_id ev) (\<lambda>id2.
     update_core (\<lambda>c. c\<lparr>db_audit := db_audit c @ [\<lparr>ad_id = id1, ad_tenant_id = aw_tenant_id r,
       ad_actor_type = (if kind = ''resolved'' then ''operator'' else ''companion''), ad_actor_id = actor_id,
       ad_action = ''mobile.action.'' @ kind, ad_resource_type = ''mobile_action_commit'', ad_resource_id = aw_action_key r,
       ad_request_id = id2, ad_workflow_id = None, ad_device_id = Some (aw_device_id r), ad_edge_id = None, ad_before_hash = None,
       ad_after_hash = None, ad_result = ''SUCCESS'',
       ad_metadata = [(''taskId'', JStr (aw_task_id r)), (''actionKey'', JStr (aw_action_key r)), (''status'', JStr (aw_status r)),
         (''resolutionRevision'', JInt (aw_resolution_revision r)), (''resolutionEvidence'', opt_str (aw_resolution_evidence r)),
         (''evidenceBinding'', JObj (evidence_binding ev r))], ad_occurred_at = mv_now ev\<rparr>]\<rparr>)))"

definition resolved_action :: "menv \<Rightarrow> reconcile_request \<Rightarrow> action_row \<Rightarrow> action_row" where
  "resolved_action ev rq r = r\<lparr>aw_status := (if rq_decision rq = ''CONFIRMED_APPLIED'' then ''APPLIED'' else ''NOT_SUBMITTED''),
     aw_resolution_revision := aw_resolution_revision r + 1, aw_resolution_evidence := Some (rq_evidence rq),
     aw_resolved_at := Some (mv_now ev), aw_updated_at := mv_now ev\<rparr>"

definition resolve_actions :: "menv \<Rightarrow> actor \<Rightarrow> string \<Rightarrow> reconcile_request \<Rightarrow> unit mop" where
  "resolve_actions ev a i rq =
     tbind (tmodify (\<lambda>db. db\<lparr>mb_actions := upd_where (\<lambda>r. aw_task_id r = i) (resolved_action ev rq) (mb_actions db)\<rparr>)) (\<lambda>_.
     tbind (tread (\<lambda>db. filter (\<lambda>r. aw_task_id r = i) (mb_actions db))) (\<lambda>rows.
     tbind (tmap (\<lambda>r. audit_action ev r (actor_user_id a) ''resolved'') rows) (\<lambda>_. treturn ())))"

definition history_entry :: "menv \<Rightarrow> actor \<Rightarrow> reconcile_request \<Rightarrow> mobile_task \<Rightarrow> json" where
  "history_entry ev a rq t = JObj [(''decision'', JStr (rq_decision rq)), (''evidence'', JStr (rq_evidence rq)),
     (''platformItemId'', opt_str (rq_platform_item_id rq)), (''actorId'', JStr (actor_user_id a)),
     (''occurredAt'', JStr (mv_iso ev (mv_now ev))), (''attemptId'', opt_str (mk_attempt_id t))]"

definition verdict :: "string \<Rightarrow> json list \<Rightarrow> dict" where
  "verdict st history = [(''status'', JStr st), (''history'', JList history)]"

definition kept_waiting :: "menv \<Rightarrow> actor \<Rightarrow> reconcile_request \<Rightarrow> json list \<Rightarrow> mobile_task \<Rightarrow> mobile_task" where
  "kept_waiting ev a rq history t = record_control_event ev ''RECONCILED_KEEP_WAITING'' (rq_evidence rq) (operator_of a)
     (t\<lparr>mk_business_state := ''RECONCILING'', mk_stall_reason := Some ''waiting for unique platform result'',
        mk_reconciliation := verdict ''KEEP_WAITING'' history\<rparr>)"

definition confirmed_applied :: "menv \<Rightarrow> actor \<Rightarrow> reconcile_request \<Rightarrow> string \<Rightarrow> json list \<Rightarrow> mobile_task \<Rightarrow> mobile_task" where
  "confirmed_applied ev a rq item history t = record_control_event ev ''RECONCILED_APPLIED'' (rq_evidence rq) (operator_of a)
     (t\<lparr>mk_status := ''SUCCEEDED'', mk_business_state := ''SUCCEEDED'', mk_error_code := None, mk_detail := Some (rq_evidence rq),
        mk_completed_at := Some (mv_now ev),
        mk_result := dupdate (mk_result t) [(''outcome'', JStr ''applied''), (''platformItemId'', JStr item)],
        mk_reconciliation := verdict ''APPLIED'' history\<rparr>)"

definition confirmed_not_submitted :: "menv \<Rightarrow> actor \<Rightarrow> reconcile_request \<Rightarrow> json list \<Rightarrow> mobile_task \<Rightarrow> mobile_task" where
  "confirmed_not_submitted ev a rq history t = record_control_event ev ''RECONCILED_NOT_SUBMITTED'' (rq_evidence rq) (operator_of a)
     (t\<lparr>mk_status := ''FAILED'', mk_business_state := ''FAILED'', mk_error_code := Some ''CONFIRMED_NOT_SUBMITTED'',
        mk_detail := Some (rq_evidence rq), mk_completed_at := Some (mv_now ev), mk_reconciliation := verdict ''NOT_SUBMITTED'' history\<rparr>)"

definition reconcile_task :: "menv \<Rightarrow> actor \<Rightarrow> string \<Rightarrow> reconcile_request \<Rightarrow> mobile_task mop" where
  "reconcile_task ev a i rq =
     tbind (mrequire a TASK_CREATE) (\<lambda>_.
     tbind (tenant_task a i) (\<lambda>t.
     tbind (tguard (mk_business_state t \<notin> set TERMINAL_BUSINESS) (conflict ''terminal tasks cannot be reconciled again'')) (\<lambda>_.
     tbind (tguard (mk_business_state t = ''RECONCILING'' \<or> mk_error_code t \<in> {Some ''COMMIT_UNKNOWN'', Some ''RECONCILING''})
       (conflict ''only RECONCILING tasks can be reconciled'')) (\<lambda>_.
     tbind (tread (\<lambda>db. filter (\<lambda>r. aw_task_id r = i) (mb_actions db))) (\<lambda>actions.
     tbind (tguard (\<not> (rq_decision rq = ''CONFIRMED_NOT_SUBMITTED'' \<and> (\<exists>r \<in> set actions. aw_status r = ''APPLIED'')))
       (conflict ''reported APPLIED evidence contradicts NOT_SUBMITTED'')) (\<lambda>_.
     tbind (twhen (rq_decision rq \<noteq> ''KEEP_WAITING'') (resolve_actions ev a i rq)) (\<lambda>_.
     let history = history_of t @ [history_entry ev a rq t] in
     if rq_decision rq = ''KEEP_WAITING'' then
       tbind (update_task i (kept_waiting ev a rq history)) (\<lambda>_.
       tbind (audit_control_event ev i ''reconciled_keep_waiting'' (actor_user_id a) ''operator''
         [(''evidence'', JStr (take 160 (rq_evidence rq)))]) (\<lambda>_.
       tsome (get_task_row i) (missing ''platform task'')))
     else if rq_decision rq = ''CONFIRMED_APPLIED'' then
       (case rq_platform_item_id rq of
          None \<Rightarrow> tfail (conflict ''CONFIRMED_APPLIED requires a unique platformItemId'')
        | Some item \<Rightarrow>
            tbind (tguard (item \<noteq> []) (conflict ''CONFIRMED_APPLIED requires a unique platformItemId'')) (\<lambda>_.
            tbind (update_task i (confirmed_applied ev a rq item history)) (\<lambda>_.
            tbind (audit_control_event ev i ''reconciled_applied'' (actor_user_id a) ''operator'' [(''platformItemId'', JStr item)]) (\<lambda>_.
            tbind (settle_reply i ''SUCCEEDED'') (\<lambda>_.
            tsome (get_task_row i) (missing ''platform task''))))))
     else
       tbind (update_task i (confirmed_not_submitted ev a rq history)) (\<lambda>_.
       tbind (audit_control_event ev i ''reconciled_not_submitted'' (actor_user_id a) ''operator''
         [(''evidence'', JStr (take 160 (rq_evidence rq)))]) (\<lambda>_.
       tbind (settle_reply i ''FAILED'') (\<lambda>_.
       tsome (get_task_row i) (missing ''platform task'')))))))))))"

end
