(* ===== verification/Mobile_Fleet.thy ===== *)
theory Mobile_Fleet
  imports Mobile_Tasks
begin

text \<open>
  The policies of \<open>fleet_identity.py\<close> (capabilities, executable gates, the write mutex of an account, open uncertain
  actions, the envelope of a lease), the registry of companion sessions, the enrolment of companions
  (\<open>mobile_service.py\<close>) and the stream of control events of a device with its cursor.
\<close>

subsection \<open>Capabilities and gates\<close>

definition CAPABILITY_KEYS :: "string list" where
  "CAPABILITY_KEYS = [''accessibility'', ''ime'', ''screen_capture'', ''media_projection'', ''flutter_anchors'', ''im_listen'']"

definition ONLINE_GRACE :: int where
  "ONLINE_GRACE = 90 * 1000000"

definition device_online :: "int option \<Rightarrow> int \<Rightarrow> bool" where
  "device_online last_seen now \<longleftrightarrow> (case last_seen of None \<Rightarrow> False | Some t \<Rightarrow> t > now - ONLINE_GRACE)"

definition validation :: "string \<Rightarrow> mobile_error" where
  "validation m = Plain (Api (ValidationError m))"

text \<open>The entry of one key: absent or null is unsupported.\<close>

definition normalize_entry :: "string \<Rightarrow> json option \<Rightarrow> mobile_error + json" where
  "normalize_entry key entry = (case entry of
     None \<Rightarrow> Inr (JObj [(''supported'', JBool False)])
   | Some JNull \<Rightarrow> Inr (JObj [(''supported'', JBool False)])
   | Some (JObj d) \<Rightarrow>
       (case dget d ''supported'' of
          Some (JBool b) \<Rightarrow>
            (case dget d ''engineMin'' of
               None \<Rightarrow> Inr (JObj [(''supported'', JBool b)])
             | Some JNull \<Rightarrow> Inr (JObj [(''supported'', JBool b)])
             | Some (JInt n) \<Rightarrow>
                 if n < 1 then Inl (validation (''capability '' @ key @ '' engineMin must be a positive integer''))
                 else Inr (JObj [(''supported'', JBool b), (''engineMin'', JInt n)])
             | _ \<Rightarrow> Inl (validation (''capability '' @ key @ '' engineMin must be a positive integer'')))
        | _ \<Rightarrow> Inl (validation (''capability '' @ key @ '' requires a boolean supported'')))
   | _ \<Rightarrow> Inl (validation (''capability '' @ key @ '' must be an object'')))"

fun normalize_keys :: "dict \<Rightarrow> string list \<Rightarrow> mobile_error + dict" where
  "normalize_keys v [] = Inr []"
| "normalize_keys v (k # ks) = (case normalize_entry k (dget v k) of
     Inl e \<Rightarrow> Inl e
   | Inr x \<Rightarrow> (case normalize_keys v ks of Inl e \<Rightarrow> Inl e | Inr d \<Rightarrow> Inr ((k, x) # d)))"

definition normalize_capabilities :: "dict option \<Rightarrow> mobile_error + dict option" where
  "normalize_capabilities v = (case v of
     None \<Rightarrow> Inr None
   | Some d \<Rightarrow>
       if \<not> set (map fst d) \<subseteq> set CAPABILITY_KEYS then Inl (validation ''unknown capability keys (closed set v1)'')
       else (case normalize_keys d CAPABILITY_KEYS of Inl e \<Rightarrow> Inl e | Inr n \<Rightarrow> Inr (Some n)))"

fun engine_minimum :: "json \<Rightarrow> int option" where
  "engine_minimum (JObj d) =
     (if truthy (dget_or d ''supported'' JNull)
      then (case dget d ''engineMin'' of Some (JInt n) \<Rightarrow> Some n | _ \<Rightarrow> Some 1) else None)"
| "engine_minimum _ = None"

definition negotiated_engine_min :: "dict option \<Rightarrow> int option" where
  "negotiated_engine_min capabilities = (case capabilities of
     None \<Rightarrow> None
   | Some d \<Rightarrow> (let minima = List.map_filter engine_minimum (map snd d) in if minima = [] then None else Some (Max (set minima))))"

text \<open>The gates that were reported, in the frozen order, with their values.\<close>

definition gate :: "string \<Rightarrow> bool option \<Rightarrow> (string \<times> bool) list" where
  "gate name v = (case v of None \<Rightarrow> [] | Some b \<Rightarrow> [(name, b)])"

definition evaluated_gates :: "bool \<Rightarrow> fleet_session_row \<Rightarrow> (string \<times> bool) list" where
  "evaluated_gates online s =
     [(''transport'', online)] @ gate ''accessibility-enabled'' (fs_accessibility_enabled s) @
     gate ''accessibility-active'' (fs_accessibility_active s) @ gate ''ime'' (fs_ime_ready s) @
     gate ''screen-unlocked'' (fs_screen_unlocked s) @
     (case (fs_engine_version s, negotiated_engine_min (fs_capabilities s)) of
        (Some v, Some m) \<Rightarrow> [(''engine>=min'', v \<ge> m)] | _ \<Rightarrow> [])"

definition evaluate_executable :: "bool \<Rightarrow> fleet_session_row \<Rightarrow> bool \<times> string list \<times> string list" where
  "evaluate_executable online s =
     (let gs = evaluated_gates online s in (list_all snd gs, map fst (filter snd gs), map fst (filter (\<lambda>g. \<not> snd g) gs)))"

definition FLEET_REQUIRED_CAPABILITIES :: "(string \<times> string list) list" where
  "FLEET_REQUIRED_CAPABILITIES =
    [(''xianyu.publish_listing.v1'', [''accessibility'', ''ime'', ''screen_capture'']),
     (''xianyu.publish_listing.steps.v1'', [''accessibility'', ''ime'', ''screen_capture'']),
     (''xiaohongshu.publish_note.v1'', [''accessibility'', ''ime'', ''screen_capture'']),
     (''xhs.publish_note.steps.v1'', [''accessibility'', ''ime'', ''screen_capture'', ''flutter_anchors'']),
     (''douyin.publish_note.steps.v1'', [''accessibility'', ''ime'', ''screen_capture'']),
     (''xianyu.collect_orders.v1'', [''accessibility'', ''screen_capture'']),
     (''xianyu.collect_orders.steps.v1'', [''accessibility'', ''screen_capture'']),
     (''xianyu.collect_orders.steps.v2'', [''accessibility'', ''screen_capture'']),
     (''device.probe_capabilities.v1'', [''accessibility'']),
     (''xianyu.polish.steps.v1'', [''accessibility'', ''screen_capture'']),
     (''xianyu.delist.steps.v1'', [''accessibility'', ''screen_capture'']),
     (''xianyu.delete_delisted.steps.v1'', [''accessibility'', ''screen_capture'']),
     (''xianyu.delist.steps.v2'', [''accessibility'', ''screen_capture'']),
     (''xianyu.delete_delisted.steps.v2'', [''accessibility'', ''screen_capture''])]"

definition LEGACY_STEPS_PACKAGE_CAPABILITIES :: "(string \<times> string list) list" where
  "LEGACY_STEPS_PACKAGE_CAPABILITIES =
    [(''com.taobao.idlefish'', [''accessibility'', ''ime'', ''screen_capture'']),
     (''com.xingin.xhs'', [''accessibility'', ''ime'', ''screen_capture'', ''flutter_anchors'']),
     (''com.ss.android.ugc.aweme'', [''accessibility'', ''ime'', ''screen_capture''])]"

text \<open>A command type counts when it is a non-empty string.\<close>

definition command_of :: "mobile_task \<Rightarrow> string option" where
  "command_of t = (case mk_command_type t of Some c \<Rightarrow> if c = [] then None else Some c | None \<Rightarrow> None)"

definition required_capability_keys :: "mobile_task \<Rightarrow> string list" where
  "required_capability_keys t = (case command_of t of
     Some c \<Rightarrow> (case map_of FLEET_REQUIRED_CAPABILITIES c of Some ks \<Rightarrow> ks | None \<Rightarrow> [])
   | None \<Rightarrow> (case map_of LEGACY_STEPS_PACKAGE_CAPABILITIES (mk_target_package t) of Some ks \<Rightarrow> ks | None \<Rightarrow> []))"

fun supports :: "json option \<Rightarrow> bool" where
  "supports (Some (JObj d)) = truthy (dget_or d ''supported'' JNull)"
| "supports _ = False"

definition capability_shortfall :: "mobile_task \<Rightarrow> dict \<Rightarrow> string list" where
  "capability_shortfall t capabilities = filter (\<lambda>k. \<not> supports (dget capabilities k)) (required_capability_keys t)"

subsection \<open>The write mutex and open actions\<close>

definition READ_COMMAND_TYPES :: "string list" where
  "READ_COMMAND_TYPES = [''xianyu.collect_orders.v1'', ''xianyu.collect_orders.steps.v1'', ''xianyu.collect_orders.steps.v2'',
     ''device.probe_capabilities.v1'']"

definition task_write_effect :: "mobile_task \<Rightarrow> bool" where
  "task_write_effect t \<longleftrightarrow> (case command_of t of Some c \<Rightarrow> c \<notin> set READ_COMMAND_TYPES | None \<Rightarrow> True)"

definition account_write_conflict :: "string \<Rightarrow> string \<Rightarrow> string \<Rightarrow> mdb \<Rightarrow> mobile_task option" where
  "account_write_conflict tenant account exclude db =
     find_row (\<lambda>t. mk_tenant_id t = tenant \<and> mk_account_id t = Some account \<and> active_task t \<and> mk_id t \<noteq> exclude \<and> task_write_effect t)
       (mb_tasks db)"

definition open_unknown_actions :: "string \<Rightarrow> string \<Rightarrow> mdb \<Rightarrow> action_row list" where
  "open_unknown_actions tenant device db =
     filter (\<lambda>r. aw_tenant_id r = tenant \<and> aw_status r = ''UNKNOWN'' \<and> aw_resolved_at r = None \<and>
       (\<exists>t \<in> set (mb_tasks db). mk_tenant_id t = tenant \<and> mk_device_id t = device \<and> mk_id t = aw_task_id r)) (mb_actions db)"

subsection \<open>Sessions of companions\<close>

text \<open>The newest session of a binding that is not revoked.\<close>

definition active_session :: "string \<Rightarrow> string \<Rightarrow> mdb \<Rightarrow> fleet_session_row option" where
  "active_session tenant binding db =
     (case rev (sort_key fs_created_at (filter (\<lambda>s. fs_tenant_id s = tenant \<and> fs_binding_id s = binding \<and> fs_revoked_at s = None) (mb_sessions db))) of
        [] \<Rightarrow> None | s # _ \<Rightarrow> Some s)"

definition lease_envelope_stale :: "string option \<Rightarrow> string option \<Rightarrow> fleet_session_row option \<Rightarrow> bool" where
  "lease_envelope_stale recorded_session recorded_boot current =
     (if recorded_session = None \<and> recorded_boot = None then False
      else (case current of
          None \<Rightarrow> True
        | Some s \<Rightarrow>
            (case recorded_session of Some r \<Rightarrow> fs_session_id s \<noteq> r | None \<Rightarrow> False) \<or>
            (case (recorded_boot, fs_boot_id s) of (Some r, Some b) \<Rightarrow> b \<noteq> r | _ \<Rightarrow> False)))"

record session_profile =
  sp_boot_id :: "string option"
  sp_companion_version :: "string option"
  sp_capabilities :: "dict option"
  sp_accessibility_enabled :: "bool option"
  sp_accessibility_active :: "bool option"
  sp_ime_ready :: "bool option"
  sp_screen_unlocked :: "bool option"
  sp_engine_version :: "int option"

definition register_session_row :: "menv \<Rightarrow> string \<Rightarrow> string \<Rightarrow> string \<Rightarrow> session_profile \<Rightarrow> fleet_session_row mop" where
  "register_session_row ev tenant device binding p =
     tbind (tmodify (\<lambda>db. db\<lparr>mb_sessions := upd_where (\<lambda>s. fs_device_id s = device \<and> fs_revoked_at s = None)
       (\<lambda>s. s\<lparr>fs_revoked_at := Some (mv_now ev)\<rparr>) (mb_sessions db)\<rparr>)) (\<lambda>_.
     tbind (tlift (normalize_capabilities (sp_capabilities p))) (\<lambda>capabilities.
     tbind (mnew_id ev) (\<lambda>id1. tbind (mnew_id ev) (\<lambda>id2.
     let row = \<lparr>fs_id = id1, fs_session_id = ''sess-'' @ id2, fs_tenant_id = tenant, fs_device_id = device, fs_binding_id = binding,
       fs_boot_id = sp_boot_id p, fs_companion_version = sp_companion_version p, fs_engine_version = sp_engine_version p,
       fs_capabilities = capabilities, fs_accessibility_enabled = sp_accessibility_enabled p,
       fs_accessibility_active = sp_accessibility_active p, fs_ime_ready = sp_ime_ready p, fs_screen_unlocked = sp_screen_unlocked p,
       fs_last_seen_at = Some (mv_now ev), fs_revoked_at = None, fs_created_at = mv_now ev\<rparr> in
     tbind (tmodify (\<lambda>db. db\<lparr>mb_sessions := mb_sessions db @ [row]\<rparr>)) (\<lambda>_. treturn row)))))"

definition get_companion :: "string \<Rightarrow> mdb \<Rightarrow> companion_row option" where
  "get_companion i db = find_row (\<lambda>b. cb_id b = i) (mb_companions db)"

definition INVALID_TOKEN :: string where
  "INVALID_TOKEN = ''invalid or revoked Companion bearer token''"

definition register_fleet_session :: "menv \<Rightarrow> companion_row \<Rightarrow> session_profile \<Rightarrow> fleet_session_row mop" where
  "register_fleet_session ev b p =
     tbind (tsome (get_companion (cb_id b)) (unauthenticated INVALID_TOKEN)) (\<lambda>stored.
     tbind (tguard (cb_revoked_at stored = None) (unauthenticated INVALID_TOKEN)) (\<lambda>_.
     tbind (register_session_row ev (cb_tenant_id stored) (cb_device_id stored) (cb_id stored)
       (p\<lparr>sp_companion_version := (case sp_companion_version p of
            Some v \<Rightarrow> if v = [] then Some (cb_companion_version stored) else Some v
          | None \<Rightarrow> Some (cb_companion_version stored))\<rparr>)) (\<lambda>row.
     tbind (update_device (cb_device_id stored) (\<lambda>d. d\<lparr>de_last_seen_at := Some (mv_now ev)\<rparr>)) (\<lambda>_. treturn row))))"

definition mobile_digest :: "menv \<Rightarrow> string \<Rightarrow> string \<Rightarrow> string" where
  "mobile_digest ev kind v = mv_sha256 ev (''cloudctl-mobile:'' @ kind @ '':'' @ v)"

definition create_enrollment :: "menv \<Rightarrow> actor \<Rightarrow> string \<Rightarrow> int \<Rightarrow> string \<Rightarrow> enrollment_row mop" where
  "create_enrollment ev a device ttl_seconds secret =
     tbind (mrequire a DEVICE_MAINTAIN) (\<lambda>_.
     tbind (tenant_device a device) (\<lambda>_.
     tbind (mnew_id ev) (\<lambda>i.
     let row = \<lparr>er_id = i, er_tenant_id = tenant_of a, er_device_id = device, er_code_digest = mobile_digest ev ''enrollment'' secret,
       er_expires_at = mv_now ev + ttl_seconds * 1000000, er_consumed_at = None, er_created_by = actor_user_id a, er_created_at = mv_now ev\<rparr> in
     tbind (tread (\<lambda>db. \<exists>r \<in> set (mb_enrollments db). er_code_digest r = er_code_digest row)) (\<lambda>taken.
     tbind (tguard (\<not> taken) (Plain IntegrityError)) (\<lambda>_.
     tbind (tmodify (\<lambda>db. db\<lparr>mb_enrollments := mb_enrollments db @ [row]\<rparr>)) (\<lambda>_. treturn row))))))"

text \<open>The secret and the token are drawn by the caller; a code is compared by the digest of its trimmed upper-case text.\<close>

definition py_space :: "char \<Rightarrow> bool" where
  "py_space c \<longleftrightarrow> (9 \<le> code c \<and> code c \<le> 13) \<or> (28 \<le> code c \<and> code c \<le> 32)"

definition str_strip :: "string \<Rightarrow> string" where
  "str_strip s = rev (dropWhile py_space (rev (dropWhile py_space s)))"

definition revoke_companions :: "menv \<Rightarrow> (companion_row \<Rightarrow> bool) \<Rightarrow> unit mop" where
  "revoke_companions ev p = tmodify (\<lambda>db. db\<lparr>mb_companions := upd_where (\<lambda>b. p b \<and> cb_revoked_at b = None)
     (\<lambda>b. b\<lparr>cb_revoked_at := Some (mv_now ev)\<rparr>) (mb_companions db)\<rparr>)"

definition enrolled_binding :: "menv \<Rightarrow> enrollment_row \<Rightarrow> string \<Rightarrow> string \<Rightarrow> string \<Rightarrow> companion_row mop" where
  "enrolled_binding ev row token app version =
     tbind (tread (\<lambda>db. find_row (\<lambda>b. cb_device_id b = er_device_id row \<and> cb_app_instance_id b = app) (mb_companions db))) (\<lambda>existing.
     (case existing of
        None \<Rightarrow>
          tbind (revoke_companions ev (\<lambda>b. cb_device_id b = er_device_id row)) (\<lambda>_.
          tbind (mnew_id ev) (\<lambda>i.
          let b = \<lparr>cb_id = i, cb_tenant_id = er_tenant_id row, cb_device_id = er_device_id row, cb_token_digest = mobile_digest ev ''binding'' token,
            cb_app_instance_id = app, cb_companion_version = version, cb_last_seen_at = Some (mv_now ev), cb_revoked_at = None,
            cb_created_at = mv_now ev\<rparr> in
          tbind (tmodify (\<lambda>db. db\<lparr>mb_companions := mb_companions db @ [b]\<rparr>)) (\<lambda>_. treturn b)))
      | Some x \<Rightarrow>
          tbind (revoke_companions ev (\<lambda>b. cb_device_id b = er_device_id row \<and> cb_id b \<noteq> cb_id x)) (\<lambda>_.
          let b = x\<lparr>cb_token_digest := mobile_digest ev ''binding'' token, cb_companion_version := version, cb_last_seen_at := Some (mv_now ev),
            cb_revoked_at := None\<rparr> in
          tbind (tmodify (\<lambda>db. db\<lparr>mb_companions := upd_where (\<lambda>y. cb_id y = cb_id x) (\<lambda>_. b) (mb_companions db)\<rparr>)) (\<lambda>_. treturn b))))"

definition legacy_profile :: "string \<Rightarrow> session_profile" where
  "legacy_profile version = \<lparr>sp_boot_id = None, sp_companion_version = Some version, sp_capabilities = None, sp_accessibility_enabled = None,
     sp_accessibility_active = None, sp_ime_ready = None, sp_screen_unlocked = None, sp_engine_version = None\<rparr>"

definition INVALID_CODE :: string where
  "INVALID_CODE = ''enrollment code is invalid, consumed, or expired''"

definition enroll :: "menv \<Rightarrow> string \<Rightarrow> string \<Rightarrow> string \<Rightarrow> string \<Rightarrow> companion_row mop" where
  "enroll ev code_text token app version =
     tbind (tsome (\<lambda>db. find_row (\<lambda>r. er_code_digest r = mobile_digest ev ''enrollment'' (str_upper (str_strip code_text))) (mb_enrollments db))
       (unauthenticated INVALID_CODE)) (\<lambda>row.
     tbind (tguard (er_consumed_at row = None \<and> er_expires_at row > mv_now ev) (unauthenticated INVALID_CODE)) (\<lambda>_.
     tbind (tmodify (\<lambda>db. db\<lparr>mb_enrollments := upd_where (\<lambda>r. er_id r = er_id row) (\<lambda>r. r\<lparr>er_consumed_at := Some (mv_now ev)\<rparr>) (mb_enrollments db)\<rparr>)) (\<lambda>_.
     tbind (enrolled_binding ev row token app version) (\<lambda>b.
     tbind (update_device (er_device_id row) (\<lambda>d. d\<lparr>de_last_seen_at := Some (mv_now ev), de_control_epoch := de_control_epoch d + 1,
       de_active_binding_id := Some (cb_id b), de_fencing_counter := de_fencing_counter d + 1\<rparr>)) (\<lambda>_.
     tbind (register_session_row ev (er_tenant_id row) (er_device_id row) (cb_id b) (legacy_profile version)) (\<lambda>_. treturn b))))))"

definition authenticate :: "menv \<Rightarrow> string \<Rightarrow> companion_row mop" where
  "authenticate ev token =
     tbind (tguard (32 \<le> length token \<and> length token \<le> 512) (unauthenticated ''invalid Companion bearer token'')) (\<lambda>_.
     tbind (tsome (\<lambda>db. find_row (\<lambda>b. cb_token_digest b = mobile_digest ev ''binding'' token \<and> cb_revoked_at b = None) (mb_companions db))
       (unauthenticated INVALID_TOKEN)) (\<lambda>b.
     tbind (tmodify (\<lambda>db. db\<lparr>mb_companions := upd_where (\<lambda>y. cb_id y = cb_id b) (\<lambda>y. y\<lparr>cb_last_seen_at := Some (mv_now ev)\<rparr>) (mb_companions db)\<rparr>)) (\<lambda>_.
     tbind (update_device (cb_device_id b) (\<lambda>d. d\<lparr>de_last_seen_at := Some (mv_now ev)\<rparr>)) (\<lambda>_.
     treturn (b\<lparr>cb_last_seen_at := Some (mv_now ev)\<rparr>)))))"

definition unbind_companion :: "menv \<Rightarrow> companion_row \<Rightarrow> unit mop" where
  "unbind_companion ev b =
     tbind (tsome (get_companion (cb_id b)) (unauthenticated ''binding is already revoked'')) (\<lambda>stored.
     tbind (tguard (cb_revoked_at stored = None) (unauthenticated ''binding is already revoked'')) (\<lambda>_.
     tbind (revoke_companions ev (\<lambda>y. cb_id y = cb_id b)) (\<lambda>_.
     update_device (cb_device_id stored) (\<lambda>d. d\<lparr>de_last_seen_at := None\<rparr>))))"

subsection \<open>The control stream of a device\<close>

definition CONTROL_SEQ_TIE_WIDTH :: int where
  "CONTROL_SEQ_TIE_WIDTH = 1024"

definition CONTROL_WIRE_TYPES :: "(string \<times> string) list" where
  "CONTROL_WIRE_TYPES = [(''CANCEL_REQUESTED'', ''CANCEL''), (''CANCELLED'', ''TERMINAL''), (''CANCEL_ACKED'', ''TERMINAL''),
     (''CANCEL_DEFERRED_RECONCILING'', ''CANCEL_DEFERRED_RECONCILING''), (''PAUSE_REQUESTED'', ''PAUSE_REQUESTED''),
     (''PAUSE_ACKED'', ''PAUSE_ACKED''), (''PAUSE_ACKED_RECONCILING'', ''PAUSE_ACKED_RECONCILING''), (''RESUMED'', ''RESUME''),
     (''MARKED_UNKNOWN'', ''MARKED_UNKNOWN''), (''RECONCILED_APPLIED'', ''TERMINAL''), (''RECONCILED_NOT_SUBMITTED'', ''TERMINAL''),
     (''RECONCILED_KEEP_WAITING'', ''RECONCILED_KEEP_WAITING'')]"

definition control_wire_type :: "string \<Rightarrow> string" where
  "control_wire_type kind = (case map_of CONTROL_WIRE_TYPES kind of Some w \<Rightarrow> w | None \<Rightarrow> kind)"

text \<open>Instants are microseconds since the epoch.\<close>

definition control_event_epoch_ms :: "int \<Rightarrow> int" where
  "control_event_epoch_ms issued = issued div 1000"

fun compose_from :: "int option \<Rightarrow> int \<Rightarrow> int list \<Rightarrow> int list" where
  "compose_from previous rank [] = []"
| "compose_from previous rank (issued # rest) =
     (let ms = control_event_epoch_ms issued; r = (if Some ms \<noteq> previous then 0 else rank)
      in (ms * CONTROL_SEQ_TIE_WIDTH + r) # compose_from (Some ms) (r + 1) rest)"

definition compose_device_control_seqs :: "int list \<Rightarrow> int list" where
  "compose_device_control_seqs issued = compose_from None 0 issued"

record device_control_entry =
  dc_seq :: int
  dc_task_id :: string
  dc_task_revision :: int
  dc_wire_type :: string
  dc_issued_at :: string
  dc_reason :: string

record collected_event =
  cl_issued :: int
  cl_task_id :: string
  cl_revision :: int
  cl_entry :: dict

definition text_of :: "json option \<Rightarrow> string" where
  "text_of v = (case v of Some (JStr x) \<Rightarrow> x | _ \<Rightarrow> [])"

fun collect_event :: "menv \<Rightarrow> string \<Rightarrow> json \<Rightarrow> collected_event option" where
  "collect_event ev i (JObj d) = (case dget d ''issuedAt'' of
     Some (JStr x) \<Rightarrow> (case mv_from_iso ev x of
         None \<Rightarrow> None
       | Some issued \<Rightarrow> Some \<lparr>cl_issued = issued, cl_task_id = i,
           cl_revision = (case dget d ''revision'' of Some (JInt n) \<Rightarrow> n | _ \<Rightarrow> 0), cl_entry = d\<rparr>)
   | _ \<Rightarrow> None)"
| "collect_event ev i _ = None"

definition task_control_events :: "menv \<Rightarrow> mobile_task \<Rightarrow> collected_event list" where
  "task_control_events ev t = List.map_filter (collect_event ev (mk_id t)) (header_events (control_header t))"

text \<open>Sorted by instant, task and revision: three stable sorts, the last key first.\<close>

definition sort_collected :: "collected_event list \<Rightarrow> collected_event list" where
  "sort_collected xs = sort_key cl_issued (sort_key cl_task_id (sort_key cl_revision xs))"

definition control_entry :: "int \<Rightarrow> collected_event \<Rightarrow> device_control_entry" where
  "control_entry n x = \<lparr>dc_seq = n, dc_task_id = cl_task_id x, dc_task_revision = cl_revision x,
     dc_wire_type = control_wire_type (text_of (dget (cl_entry x) ''event'')), dc_issued_at = text_of (dget (cl_entry x) ''issuedAt''),
     dc_reason = text_of (dget (cl_entry x) ''reason'')\<rparr>"

definition device_control_entries :: "menv \<Rightarrow> string \<Rightarrow> string \<Rightarrow> mdb \<Rightarrow> device_control_entry list" where
  "device_control_entries ev tenant device db =
     (let xs = sort_collected (concat (map (task_control_events ev)
                 (filter (\<lambda>t. mk_tenant_id t = tenant \<and> mk_device_id t = device) (mb_tasks db))))
      in map2 control_entry (compose_device_control_seqs (map cl_issued xs)) xs)"

record control_page =
  cp_from :: int
  cp_through :: int
  cp_high_watermark :: int
  cp_events :: "device_control_entry list"

definition control_page_after :: "device_control_entry list \<Rightarrow> int \<Rightarrow> nat \<Rightarrow> mobile_error + control_page" where
  "control_page_after entries after limit =
     (if (entries \<noteq> [] \<and> after < dc_seq (hd entries)) \<or> (entries = [] \<and> after > 0) then Inl CursorTooOldError
      else (let page = take limit (filter (\<lambda>e. dc_seq e > after) entries) in
        Inr \<lparr>cp_from = (if page = [] then after + 1 else dc_seq (hd page)), cp_through = (if page = [] then after else dc_seq (last page)),
             cp_high_watermark = (if entries = [] then 0 else dc_seq (last entries)), cp_events = page\<rparr>))"

definition control_pull :: "menv \<Rightarrow> companion_row \<Rightarrow> int \<Rightarrow> nat \<Rightarrow> control_page mop" where
  "control_pull ev b after limit =
     tbind (tguard (0 \<le> after) ControlSeqInvalidError) (\<lambda>_.
     tbind (tread (device_control_entries ev (cb_tenant_id b) (cb_device_id b))) (\<lambda>entries.
     tlift (control_page_after entries after limit)))"

record snapshot_entry =
  sx_task_id :: string
  sx_status :: string
  sx_business_state :: string
  sx_task_revision :: int
  sx_terminal :: bool
  sx_ledger_blocks :: bool

definition CONTROL_SNAPSHOT_TASK_LIMIT :: nat where
  "CONTROL_SNAPSHOT_TASK_LIMIT = 200"

definition ledger_blocks :: "string \<Rightarrow> string \<Rightarrow> mdb \<Rightarrow> string \<Rightarrow> bool" where
  "ledger_blocks tenant device db i \<longleftrightarrow> (\<exists>r \<in> set (mb_actions db). aw_task_id r = i \<and> aw_tenant_id r = tenant \<and>
     aw_device_id r = device \<and> aw_status r = ''UNKNOWN'' \<and> aw_resolved_at r = None)"

definition reconcile_snapshot :: "menv \<Rightarrow> companion_row \<Rightarrow> mdb \<Rightarrow> int \<times> snapshot_entry list" where
  "reconcile_snapshot ev b db =
     (let entries = device_control_entries ev (cb_tenant_id b) (cb_device_id b) db;
          rows = take CONTROL_SNAPSHOT_TASK_LIMIT (rev (sort_key mk_created_at
            (filter (\<lambda>t. mk_tenant_id t = cb_tenant_id b \<and> mk_device_id t = cb_device_id b) (mb_tasks db))))
      in (if entries = [] then 0 else dc_seq (last entries),
          map (\<lambda>t. \<lparr>sx_task_id = mk_id t, sx_status = mk_status t, sx_business_state = business_state_of t,
            sx_task_revision = control_revision t, sx_terminal = (business_state_of t \<in> set TERMINAL_BUSINESS),
            sx_ledger_blocks = ledger_blocks (cb_tenant_id b) (cb_device_id b) db (mk_id t)\<rparr>) rows))"

end
