(* ===== verification/Mobile_Runs.thy ===== *)
theory Mobile_Runs
  imports Mobile_Fleet
begin

text \<open>
  The life of a task on its device (\<open>mobile_service.py\<close>): insertion, the claim with its checks in order, release,
  heartbeat, events, the final result and the acknowledgement of a cancellation; the second transaction of the creation
  of a platform task (\<open>platform_tasks.py\<close>) and the settlement of a task by the publish queue (\<open>xianyu_publish.py\<close>).
\<close>

text \<open>A condition on an optional row: it is there and satisfies \<open>p\<close>.\<close>

definition some_such :: "'a option \<Rightarrow> ('a \<Rightarrow> bool) \<Rightarrow> bool" where
  "some_such l p = (case l of None \<Rightarrow> False | Some x \<Rightarrow> p x)"

lemma some_such_iff [simp]: "some_such l p \<longleftrightarrow> (\<exists>x. l = Some x \<and> p x)"
  by (cases l) (simp_all add: some_such_def)

text \<open>Equality of two dictionaries of scalars, whatever the order of their keys.\<close>

definition same_dict :: "dict \<Rightarrow> dict \<Rightarrow> bool" where
  "same_dict d e = list_all (\<lambda>k. dget d k = dget e k) (map fst d @ map fst e)"

subsection \<open>Identity of frozen steps\<close>

definition real_steps :: "mobile_task \<Rightarrow> dict list" where
  "real_steps t = filter (\<lambda>s. truthy (dget_or s ''action'' JNull)) (mk_steps t)"

definition scalar :: "menv \<Rightarrow> json \<Rightarrow> string" where
  "scalar ev v = (case v of JBool b \<Rightarrow> if b then ''true'' else ''false'' | _ \<Rightarrow> mv_str ev v)"

definition NEWLINE :: char where
  "NEWLINE = CHR 0x0A"

definition canonical_step :: "menv \<Rightarrow> dict \<Rightarrow> string" where
  "canonical_step ev s = join_with NEWLINE (map (\<lambda>k. k @ ''='' @ scalar ev (dget_or s k JNull)) (sort (map fst s)))"

definition canonical_steps :: "menv \<Rightarrow> dict list \<Rightarrow> string" where
  "canonical_steps ev steps = join_with NEWLINE (map (canonical_step ev) steps)"

definition steps_payload_identity :: "menv \<Rightarrow> mobile_task \<Rightarrow> string" where
  "steps_payload_identity ev t = mv_sha256 ev (canonical_steps ev (real_steps t))"

definition UNPINNED_STEPS_COMMANDS :: "string list" where
  "UNPINNED_STEPS_COMMANDS = [''xianyu.polish.steps.v1'', ''xianyu.delist.steps.v1'', ''xianyu.delete_delisted.steps.v1'',
     ''xianyu.delist.steps.v2'', ''xianyu.delete_delisted.steps.v2'', ''xianyu.collect_orders.steps.v1'', ''xianyu.collect_orders.steps.v2'',
     ''xianyu.review_orders.steps.v1'']"

definition COMMAND_REGISTRY_VERSION :: string where
  "COMMAND_REGISTRY_VERSION = ''steps-registry/20260916.1''"

definition BLOCKING_BUSINESS_STATES :: "string list" where
  "BLOCKING_BUSINESS_STATES = [''PAUSE_REQUESTED'', ''PAUSED_WAITING_USER'', ''RESUME_CHECK'', ''CANCEL_REQUESTED'',
     ''WAITING_MATERIALS'', ''RECONCILING'']"

definition CLAIM_CANDIDATE_LIMIT :: nat where
  "CLAIM_CANDIDATE_LIMIT = 64"

definition unpinned :: "mobile_task \<Rightarrow> bool" where
  "unpinned t \<longleftrightarrow> (case mk_command_type t of Some c \<Rightarrow> c \<in> set UNPINNED_STEPS_COMMANDS | None \<Rightarrow> False)"

subsection \<open>Order delivery\<close>

definition ORDER_PROTOCOL :: string where
  "ORDER_PROTOCOL = ''order-delivery/1''"

definition delivery_metadata :: "mobile_task \<Rightarrow> dict option" where
  "delivery_metadata t = (case dget (control_header t) ''orderCollection'' of
     Some (JObj meta) \<Rightarrow> if dget meta ''deliveryProtocol'' = Some (JStr ORDER_PROTOCOL) then Some meta else None
   | _ \<Rightarrow> None)"

definition capability :: "device_row \<Rightarrow> string \<Rightarrow> json option" where
  "capability d k = (case de_capabilities d of JObj c \<Rightarrow> dget c k | _ \<Rightarrow> None)"

definition account_usable :: "menv \<Rightarrow> string \<Rightarrow> account_row \<Rightarrow> bool" where
  "account_usable ev tenant acc \<longleftrightarrow> ac_tenant_id acc = tenant \<and> ac_platform acc = ''xianyu'' \<and> ac_status acc = ''AUTHORIZED'' \<and>
     ac_revoked_at acc = None \<and> (case ac_expires_at acc of None \<Rightarrow> True | Some x \<Rightarrow> x > mv_now ev)"

definition get_account :: "string \<Rightarrow> mdb \<Rightarrow> account_row option" where
  "get_account i db = find_row (\<lambda>r. ac_id r = i) (db_accounts (mb_core db))"

definition delivery_identity_error :: "menv \<Rightarrow> mobile_task \<Rightarrow> device_row \<Rightarrow> mdb \<Rightarrow> string option" where
  "delivery_identity_error ev t d db = (case delivery_metadata t of
     None \<Rightarrow> Some ''ORDER_DELIVERY_PROTOCOL_REQUIRED''
   | Some meta \<Rightarrow>
       if opt_str (de_active_binding_id d) \<noteq> dget_or meta ''mobileBindingId'' JNull then Some ''MOBILE_BINDING_CHANGED''
       else (case Option.bind (de_active_binding_id d) (\<lambda>i. get_companion i db) of
           None \<Rightarrow> Some ''MOBILE_BINDING_CHANGED''
         | Some m \<Rightarrow>
             if cb_revoked_at m \<noteq> None then Some ''MOBILE_BINDING_CHANGED''
             else (case Option.bind (mk_account_id t) (\<lambda>i. if i = [] then None else get_account i db) of
                 None \<Rightarrow> Some ''ACCOUNT_BINDING_CHANGED''
               | Some acc \<Rightarrow>
                   if \<not> account_usable ev (mk_tenant_id t) acc then Some ''ACCOUNT_BINDING_CHANGED''
                   else (case bound_to (mk_tenant_id t) (ac_id acc) (mk_device_id t) db of
                       None \<Rightarrow> Some ''ACCOUNT_BINDING_CHANGED''
                     | Some b \<Rightarrow> if mk_binding_version t = Some (ab_binding_version b) then None else Some ''ACCOUNT_BINDING_CHANGED''))))"

definition resolve_order_account :: "menv \<Rightarrow> device_row \<Rightarrow> account_binding_row mop" where
  "resolve_order_account ev d =
     tbind (tguard (capability d ''orderDeliveryProtocol'' = Some (JStr ORDER_PROTOCOL)) (conflict ''ORDER_DELIVERY_CAPABILITY_REQUIRED'')) (\<lambda>_.
     tbind (tsome (\<lambda>db. Option.bind (de_active_binding_id d) (\<lambda>i. get_companion i db)) (conflict ''MOBILE_BINDING_CHANGED'')) (\<lambda>m.
     tbind (tguard (cb_revoked_at m = None \<and> cb_device_id m = de_id d \<and> cb_tenant_id m = de_tenant_id d) (conflict ''MOBILE_BINDING_CHANGED'')) (\<lambda>_.
     tbind (tread (\<lambda>db. filter (\<lambda>b. ab_tenant_id b = de_tenant_id d \<and> ab_device_id b = de_id d \<and> ab_platform b = ''xianyu'' \<and> ab_status b = ''BOUND'')
       (db_bindings (mb_core db)))) (\<lambda>bs.
     (case bs of
        [b] \<Rightarrow>
          tbind (tsome (get_account (ab_account_id b)) (conflict ''ACCOUNT_BINDING_CHANGED'')) (\<lambda>acc.
          tbind (tguard (account_usable ev (de_tenant_id d) acc) (conflict ''ACCOUNT_BINDING_CHANGED'')) (\<lambda>_. treturn b))
      | _ \<Rightarrow> tfail (conflict ''ORDER_ACCOUNT_BINDING_REQUIRED''))))))"

subsection \<open>Insertion\<close>

text \<open>
  The request of a task after its schema and the shape of its steps were validated: \<open>tb_digest\<close> is the hash of the
  document, \<open>tb_command_type\<close> the command of the frozen shape, if any.
\<close>

record task_body =
  tb_device_id :: string
  tb_target_package :: string
  tb_account_id :: "string option"
  tb_expected_binding_version :: "int option"
  tb_media :: "(json \<times> string list) option"
  tb_total_timeout_ms :: int
  tb_steps :: "dict list"
  tb_digest :: string
  tb_command_type :: "string option"
  tb_order_collection :: "dict option"

definition replayed_task :: "string \<Rightarrow> string \<Rightarrow> string \<Rightarrow> mobile_task option mop" where
  "replayed_task tenant key sha =
     tbind (tread (\<lambda>db. find_row (\<lambda>t. mk_tenant_id t = tenant \<and> mk_idempotency_key t = key) (mb_tasks db))) (\<lambda>found. (case found of
       None \<Rightarrow> treturn None
     | Some t \<Rightarrow> tbind (tguard (mk_request_sha256 t = sha) (conflict ''Idempotency-Key was reused with different task content'')) (\<lambda>_. treturn (Some t))))"

text \<open>The account, its binding version and the order collection that the new task is frozen to.\<close>

definition frozen_account :: "menv \<Rightarrow> string \<Rightarrow> task_body \<Rightarrow> device_row \<Rightarrow> (string option \<times> int option \<times> dict option) mop" where
  "frozen_account ev tenant tb d = (case tb_order_collection tb of
     Some oc \<Rightarrow>
       tbind (resolve_order_account ev d) (\<lambda>b.
       treturn (Some (ab_account_id b), Some (ab_binding_version b), Some (dupdate oc [(''mobileBindingId'', opt_str (de_active_binding_id d))])))
   | None \<Rightarrow> (case tb_account_id tb of
       None \<Rightarrow> treturn (None, None, None)
     | Some acc \<Rightarrow>
         if acc = [] then treturn (Some acc, None, None)
         else
           tbind (tsome (bound_to tenant acc (tb_device_id tb)) (conflict ''account is not bound to the selected device'')) (\<lambda>b.
           tbind (tguard (case tb_expected_binding_version tb of None \<Rightarrow> True | Some v \<Rightarrow> v = ab_binding_version b)
             (conflict ''binding version does not match expectedBindingVersion'')) (\<lambda>_.
           treturn (Some acc, Some (ab_binding_version b), None)))))"

definition new_task_row ::
  "menv \<Rightarrow> string \<Rightarrow> string \<Rightarrow> string \<Rightarrow> task_body \<Rightarrow> string option \<times> int option \<times> dict option \<Rightarrow> string \<Rightarrow> string \<Rightarrow> mobile_task" where
  "new_task_row ev tenant requested_by key tb frozen i attempt = (case frozen of (acc, version, oc) \<Rightarrow>
     \<lparr>mk_id = i, mk_tenant_id = tenant, mk_device_id = tb_device_id tb, mk_idempotency_key = key, mk_request_sha256 = tb_digest tb,
      mk_requested_by = requested_by, mk_target_package = tb_target_package tb, mk_account_id = acc, mk_binding_version = version,
      mk_device_id_at_execution = None, mk_operation_id = None, mk_command_type = tb_command_type tb, mk_command_payload = [],
      mk_recipe_pin = None, mk_business_state = ''QUEUED'', mk_control_mode = ''AUTO'',
      mk_batch_id = Option.bind (tb_order_collection tb) (\<lambda>d. case dget d ''runId'' of Some (JStr r) \<Rightarrow> Some r | _ \<Rightarrow> None),
      mk_scheduled_for = None, mk_stall_reason = None, mk_attempt_id = Some attempt, mk_resume_count = 0, mk_pause_ack_at = None,
      mk_reconciliation = [],
      mk_steps = ([(''totalTimeoutMs'', JInt (tb_total_timeout_ms tb)),
          (''mediaDelivery'', (case tb_media tb of Some (j, _) \<Rightarrow> j | None \<Rightarrow> JNull))] @
          (case oc of Some d \<Rightarrow> if d = [] then [] else [(''orderCollection'', JObj d)] | None \<Rightarrow> [])) # tb_steps tb,
      mk_status = ''QUEUED'', mk_lease_id = None, mk_lease_expires_at = None, mk_attempt = 0, mk_last_sequence = 0, mk_current_step = None,
      mk_result = [], mk_error_code = None, mk_detail = None, mk_started_at = None, mk_completed_at = None, mk_created_at = mv_now ev\<rparr>)"

definition insert_task_in_session :: "menv \<Rightarrow> string \<Rightarrow> string \<Rightarrow> string \<Rightarrow> task_body \<Rightarrow> (mobile_task \<times> bool) mop" where
  "insert_task_in_session ev tenant requested_by key tb =
     tbind (replayed_task tenant key (tb_digest tb)) (\<lambda>existing. (case existing of
       Some t \<Rightarrow> treturn (t, False)
     | None \<Rightarrow>
         tbind (tsome (get_device (tb_device_id tb)) (missing ''device'')) (\<lambda>d.
         tbind (tguard (de_tenant_id d = tenant) (missing ''device'')) (\<lambda>_.
         tbind (frozen_account ev tenant tb d) (\<lambda>frozen.
         tbind (tread (\<lambda>db. case tb_media tb of None \<Rightarrow> True
             | Some (_, ids) \<Rightarrow> length (filter (\<lambda>(tn, i). tn = tenant \<and> i \<in> set ids) (mb_media db)) = length ids)) (\<lambda>complete.
         tbind (tguard complete (missing ''one or more media assets'')) (\<lambda>_.
         tbind (mnew_id ev) (\<lambda>i. tbind (mnew_id ev) (\<lambda>attempt.
         let row = new_task_row ev tenant requested_by key tb frozen i attempt in
         tbind (tmodify (\<lambda>db. db\<lparr>mb_tasks := mb_tasks db @ [row]\<rparr>)) (\<lambda>_.
         tbind flush_tasks (\<lambda>_. treturn (row, True))))))))))))"

definition stamp_business_fields ::
  "menv \<Rightarrow> string \<Rightarrow> string \<Rightarrow> dict \<Rightarrow> string \<Rightarrow> int option \<Rightarrow> string option \<Rightarrow> unit mop" where
  "stamp_business_fields ev i command payload batch scheduled operation =
     tbind (tsome (get_task_row i) (missing ''platform task'')) (\<lambda>t.
     tbind (mnew_id ev) (\<lambda>attempt.
     update_task i (\<lambda>t. t\<lparr>mk_command_type := Some command, mk_operation_id := operation, mk_command_payload := payload,
       mk_business_state := ''QUEUED'', mk_control_mode := ''AUTO'', mk_batch_id := Some batch, mk_scheduled_for := scheduled,
       mk_attempt_id := (case mk_attempt_id t of Some x \<Rightarrow> if x = [] then Some attempt else Some x | None \<Rightarrow> Some attempt)\<rparr>)))"

subsection \<open>The claim\<close>

definition post_commit_pending :: "mobile_task \<Rightarrow> mdb \<Rightarrow> bool" where
  "post_commit_pending t db \<longleftrightarrow> has_commit_intent t \<or> (\<exists>r \<in> set (mb_actions db). aw_task_id r = mk_id t)"

definition account_binding_mismatch :: "mobile_task \<Rightarrow> mdb \<Rightarrow> string option" where
  "account_binding_mismatch t db = (case mk_account_id t of
     None \<Rightarrow> None
   | Some acc \<Rightarrow>
       if acc = [] then None
       else (case bound_to (mk_tenant_id t) acc (mk_device_id t) db of
           None \<Rightarrow> Some ''account is no longer bound to this device''
         | Some b \<Rightarrow> (case mk_binding_version t of
             None \<Rightarrow> None
           | Some v \<Rightarrow> if ab_binding_version b = v then None else Some ''account binding version changed'')))"

definition failed_task :: "int \<Rightarrow> string \<Rightarrow> mobile_task \<Rightarrow> mobile_task" where
  "failed_task now reason t = t\<lparr>mk_status := ''FAILED'', mk_business_state := ''FAILED'', mk_error_code := Some reason,
     mk_completed_at := Some now, mk_lease_id := None, mk_lease_expires_at := None\<rparr>"

datatype choice = Skip | Ineligible "string list" | Take

text \<open>The body of the loop over the candidates; \<open>capabilities\<close> is the negotiated table, if there is one.\<close>

definition consider_candidate ::
  "menv \<Rightarrow> string option \<Rightarrow> device_row \<Rightarrow> dict option \<Rightarrow> mobile_task \<Rightarrow> choice mop" where
  "consider_candidate ev protocol d capabilities c =
     tbind (tread (delivery_identity_error ev c d)) (\<lambda>identity_error.
     tbind (tread (account_binding_mismatch c)) (\<lambda>mismatch.
     tbind (tread (post_commit_pending c)) (\<lambda>pending.
     if delivery_metadata c \<noteq> None \<and>
        (protocol \<noteq> Some ORDER_PROTOCOL \<or> capability d ''orderDeliveryProtocol'' \<noteq> Some (JStr ORDER_PROTOCOL)) then treturn Skip
     else if delivery_metadata c \<noteq> None \<and> identity_error \<noteq> None then
       tbind (update_task (mk_id c) (failed_task (mv_now ev) (the identity_error))) (\<lambda>_. treturn Skip)
     else (case mismatch of
         Some detail \<Rightarrow>
           tbind (update_task (mk_id c) (\<lambda>t. (failed_task (mv_now ev) ''ACCOUNT_CHANGED'' t)\<lparr>mk_detail := Some detail\<rparr>)) (\<lambda>_.
           tbind (settle_reply (mk_id c) ''FAILED'') (\<lambda>_. treturn Skip))
       | None \<Rightarrow>
           (case (case capabilities of None \<Rightarrow> [] | Some cs \<Rightarrow> capability_shortfall c cs) of
              m # ms \<Rightarrow> treturn (Ineligible (m # ms))
            | [] \<Rightarrow>
                if pending then
                  tbind (update_task (mk_id c) (\<lambda>t. t\<lparr>mk_business_state := ''RECONCILING'',
                    mk_stall_reason := Some (stalled t ''post-commit recovery pending'')\<rparr>)) (\<lambda>_. treturn Skip)
                else treturn Take)))))"

fun select_candidate ::
  "menv \<Rightarrow> string option \<Rightarrow> device_row \<Rightarrow> dict option \<Rightarrow> mobile_task list \<Rightarrow> (mobile_task option \<times> (string \<times> string list) list) mop" where
  "select_candidate ev protocol d capabilities [] = treturn (None, [])"
| "select_candidate ev protocol d capabilities (c # cs) =
     tbind (consider_candidate ev protocol d capabilities c) (\<lambda>choice. (case choice of
       Take \<Rightarrow> treturn (Some c, [])
     | Skip \<Rightarrow> select_candidate ev protocol d capabilities cs
     | Ineligible m \<Rightarrow>
         tbind (select_candidate ev protocol d capabilities cs) (\<lambda>(found, rest). treturn (found, (mk_id c, m) # rest))))"

definition steps_header_text :: "mobile_task \<Rightarrow> string \<Rightarrow> string" where
  "steps_header_text t k = text_of (dget (control_header t) k)"

text \<open>A task that was claimed before keeps its recipe, or the frozen identity of its steps.\<close>

definition reclaim_guard :: "menv \<Rightarrow> mobile_task \<Rightarrow> unit mop" where
  "reclaim_guard ev t =
     (if command_of t \<noteq> None \<and> mk_attempt t > 0 \<and> mk_recipe_pin t = None then
        tbind (tguard (unpinned t) (conflict ''legacy task has no persisted recipe pin; reconcile before continuing'')) (\<lambda>_.
        tbind (tguard (steps_header_text t ''payloadIdentity'' \<noteq> [] \<and> steps_header_text t ''commandRegistryVersion'' \<noteq> [])
          (conflict ''frozen steps task has no persisted payload identity; reconcile before continuing'')) (\<lambda>_.
        tbind (tguard (steps_header_text t ''payloadIdentity'' = steps_payload_identity ev t)
          (conflict ''frozen steps payload identity changed; reconcile before continuing'')) (\<lambda>_.
        tguard (steps_header_text t ''commandRegistryVersion'' = COMMAND_REGISTRY_VERSION)
          (conflict ''frozen steps command registry version changed; reconcile before continuing''))))
      else treturn ())"

definition claimed :: "menv \<Rightarrow> string \<Rightarrow> string \<Rightarrow> int \<Rightarrow> mobile_task \<Rightarrow> mobile_task" where
  "claimed ev lease device seconds t =
     t\<lparr>mk_status := ''CLAIMED'', mk_business_state := ''PREFLIGHT'', mk_lease_id := Some lease,
       mk_lease_expires_at := Some (mv_now ev + seconds * 1000000), mk_attempt := mk_attempt t + 1, mk_started_at := Some (mv_now ev),
       mk_device_id_at_execution := Some device\<rparr>"

definition stamp_claim :: "menv \<Rightarrow> int \<Rightarrow> fleet_session_row option \<Rightarrow> mobile_task \<Rightarrow> mobile_task" where
  "stamp_claim ev epoch fleet t = (case mk_steps t of
     [] \<Rightarrow> t
   | h # rest \<Rightarrow>
       (let h1 = AList.update ''controlEpoch'' (JInt epoch) h;
            h2 = (case fleet of None \<Rightarrow> h1
                  | Some s \<Rightarrow> (let x = AList.update ''fleetSessionId'' (JStr (fs_session_id s)) h1 in
                      (case fs_boot_id s of Some b \<Rightarrow> if b = [] then x else AList.update ''fleetBootId'' (JStr b) x | None \<Rightarrow> x)));
            h3 = (if unpinned t then
                    AList.update ''commandRegistryVersion'' (JStr COMMAND_REGISTRY_VERSION)
                      (AList.update ''payloadIdentity''
                        (JStr (if text_of (dget h2 ''payloadIdentity'') \<noteq> [] then text_of (dget h2 ''payloadIdentity'')
                               else steps_payload_identity ev t)) h2)
                  else h2)
        in t\<lparr>mk_steps := h3 # rest\<rparr>))"

definition audit_pin :: "menv \<Rightarrow> companion_row \<Rightarrow> string \<Rightarrow> dict \<Rightarrow> unit mop" where
  "audit_pin ev b i metadata =
     tbind (mnew_id ev) (\<lambda>id1.
     update_core (\<lambda>c. c\<lparr>db_audit := db_audit c @ [\<lparr>ad_id = id1, ad_tenant_id = cb_tenant_id b, ad_actor_type = ''companion'',
       ad_actor_id = cb_id b, ad_action = ''recipe.task.pinned'', ad_resource_type = ''mobile_task'', ad_resource_id = i, ad_request_id = i,
       ad_workflow_id = None, ad_device_id = Some (cb_device_id b), ad_edge_id = None, ad_before_hash = None, ad_after_hash = None,
       ad_result = ''SUCCEEDED'', ad_metadata = (''deviceId'', JStr (cb_device_id b)) # metadata, ad_occurred_at = mv_now ev\<rparr>]\<rparr>))"

definition pin_recipe :: "menv \<Rightarrow> companion_row \<Rightarrow> mobile_task \<Rightarrow> unit mop" where
  "pin_recipe ev b t = (case command_of t of
     None \<Rightarrow> treturn ()
   | Some c \<Rightarrow>
       if mk_recipe_pin t \<noteq> None then treturn ()
       else if unpinned t then
         twhen (mk_attempt t + 1 = 1) (audit_pin ev b (mk_id t)
           [(''stepsIdentity'', JStr (steps_payload_identity ev t)), (''commandRegistryVersion'', JStr COMMAND_REGISTRY_VERSION)])
       else
         (let pin = (case mv_published_recipe ev (cb_tenant_id b) (cb_device_id b) c of Some p \<Rightarrow> if p = [] then mv_builtin_recipe ev c else p
                     | None \<Rightarrow> mv_builtin_recipe ev c) in
          tbind (update_task (mk_id t) (\<lambda>x. x\<lparr>mk_recipe_pin := Some pin\<rparr>)) (\<lambda>_.
          audit_pin ev b (mk_id t) [(''recipe'', JObj pin)])))"

text \<open>The device may claim: its binding is active and nothing uncertain or foreign holds it.\<close>

definition claim_gate :: "menv \<Rightarrow> companion_row \<Rightarrow> device_row mop" where
  "claim_gate ev b =
     tbind (tsome (get_device (cb_device_id b)) (missing ''device'')) (\<lambda>d.
     tbind (tguard (de_tenant_id d = cb_tenant_id b) (missing ''device'')) (\<lambda>_.
     tbind (tguard (\<not> de_maintenance d) (conflict ''device is in maintenance and cannot claim tasks'')) (\<lambda>_.
     tbind (tguard (\<not> mv_has_remote ev (cb_device_id b)) (conflict ''DEVICE_REMOTE'')) (\<lambda>_.
     tbind (tguard (case de_active_binding_id d of Some i \<Rightarrow> i = [] \<or> i = cb_id b | None \<Rightarrow> True)
       (unauthenticated ''companion instance is no longer the active binding'')) (\<lambda>_.
     tbind (tread (open_unknown_actions (cb_tenant_id b) (cb_device_id b))) (\<lambda>open_rows.
     tbind (tguard (open_rows = []) ReconcileRequiredError) (\<lambda>_. treturn d)))))))"

definition first_by_age :: "mobile_task list \<Rightarrow> mobile_task option" where
  "first_by_age ts = (case sort_key mk_created_at ts of [] \<Rightarrow> None | t # _ \<Rightarrow> Some t)"

definition tasks_of :: "companion_row \<Rightarrow> (mobile_task \<Rightarrow> bool) \<Rightarrow> mdb \<Rightarrow> mobile_task list" where
  "tasks_of b p db = filter (\<lambda>t. mk_tenant_id t = cb_tenant_id b \<and> mk_device_id t = cb_device_id b \<and> p t) (mb_tasks db)"

definition live_lease :: "int \<Rightarrow> mobile_task \<Rightarrow> bool" where
  "live_lease now t \<longleftrightarrow> (case mk_lease_expires_at t of None \<Rightarrow> False | Some x \<Rightarrow> x > now)"

definition remote_lease :: "int \<Rightarrow> lease_row option \<Rightarrow> bool" where
  "remote_lease now l \<longleftrightarrow> (case l of None \<Rightarrow> False | Some x \<Rightarrow> le_canceled_at x = None \<and> le_expires_at x > now \<and> le_owner_type x = ''REMOTE'')"

text \<open>The candidate becomes the claimed task, under the account's write mutex and a new fencing token.\<close>

definition dispatch_task :: "menv \<Rightarrow> companion_row \<Rightarrow> int \<Rightarrow> device_row \<Rightarrow> fleet_session_row option \<Rightarrow> mobile_task \<Rightarrow> mobile_task option mop" where
  "dispatch_task ev b seconds d fleet t =
     tbind (tread (\<lambda>db. case mk_account_id t of
         Some acc \<Rightarrow> if acc \<noteq> [] \<and> task_write_effect t then account_write_conflict (cb_tenant_id b) acc (mk_id t) db else None
       | None \<Rightarrow> None)) (\<lambda>busy.
     tbind (tguard (busy = None) (AccountBusyError (case busy of Some x \<Rightarrow> mk_id x | None \<Rightarrow> []))) (\<lambda>_.
     tbind (reclaim_guard ev t) (\<lambda>_.
     tbind (mnew_id ev) (\<lambda>lease.
     tbind (update_task (mk_id t) (claimed ev lease (cb_device_id b) seconds)) (\<lambda>_.
     tbind flush_tasks (\<lambda>_.
     tbind (update_device (de_id d) (\<lambda>x. x\<lparr>de_fencing_counter := de_fencing_counter x + 1\<rparr>)) (\<lambda>_.
     tbind (replace_lease ((auto_lease ev t lease (de_fencing_counter d + 1) (mv_now ev + seconds * 1000000))
       \<lparr>le_device_id := de_id d, le_tenant_id := cb_tenant_id b\<rparr>)) (\<lambda>_.
     tbind (update_task (mk_id t) (stamp_claim ev (de_fencing_counter d + 1) fleet)) (\<lambda>_.
     tbind (pin_recipe ev b t) (\<lambda>_.
     tbind (tsome (get_task_row (mk_id t)) (missing ''mobile task'')) (\<lambda>row. treturn (Some row))))))))))))"

text \<open>An active task whose lease has expired goes back to the queue.\<close>

definition requeued :: "mobile_task \<Rightarrow> mobile_task" where
  "requeued x = x\<lparr>mk_status := ''QUEUED'', mk_lease_id := None, mk_lease_expires_at := None\<rparr>"

definition requeue_active :: "mobile_task option \<Rightarrow> unit mop" where
  "requeue_active active = (case active of None \<Rightarrow> treturn () | Some t \<Rightarrow> update_task (mk_id t) requeued)"

definition claim :: "menv \<Rightarrow> companion_row \<Rightarrow> int \<Rightarrow> string option \<Rightarrow> mobile_task option mop" where
  "claim ev b seconds protocol =
     tbind (claim_gate ev b) (\<lambda>d.
     tbind (tread (active_session (cb_tenant_id b) (cb_id b))) (\<lambda>fleet.
     let capabilities = Option.bind fleet fs_capabilities in
     if some_such fleet (\<lambda>s. capabilities \<noteq> None \<and> \<not> fst (evaluate_executable (device_online (de_last_seen_at d) (mv_now ev)) s))
     then treturn None
     else
       tbind (tread (tasks_of b (\<lambda>t. mk_business_state t \<in> set BLOCKING_BUSINESS_STATES))) (\<lambda>blocking.
       if blocking \<noteq> [] then treturn None
       else
         tbind (tread (\<lambda>db. first_by_age (tasks_of b active_task db))) (\<lambda>active.
         tbind (tread (get_device_lease (cb_device_id b))) (\<lambda>lease.
         tbind (tguard (\<not> remote_lease (mv_now ev) lease) (conflict ''device write lease is held by remote control'')) (\<lambda>_.
         if some_such active (live_lease (mv_now ev)) then treturn None
         else
           tbind (requeue_active active) (\<lambda>_.
           tbind (tread (\<lambda>db. take CLAIM_CANDIDATE_LIMIT (sort_key mk_created_at (tasks_of b (\<lambda>t. mk_status t = ''QUEUED'') db)))) (\<lambda>queued.
           tbind (select_candidate ev protocol d capabilities queued) (\<lambda>(found, ineligible).
           (case found of
              Some t \<Rightarrow> dispatch_task ev b seconds d fleet t
            | None \<Rightarrow> (case ineligible of
                [] \<Rightarrow> treturn None
              | (i, m) # _ \<Rightarrow> tfail (IneligibleCapabilityError i m))))))))))))"

subsection \<open>Updates of the runner\<close>

definition owned_task :: "companion_row \<Rightarrow> string \<Rightarrow> mobile_task mop" where
  "owned_task b i =
     tbind (tsome (get_task_row i) (missing ''mobile task'')) (\<lambda>t.
     tbind (tguard (mk_tenant_id t = cb_tenant_id b \<and> mk_device_id t = cb_device_id b) (missing ''mobile task'')) (\<lambda>_. treturn t))"

definition validate_active_lease :: "menv \<Rightarrow> mobile_task \<Rightarrow> string \<Rightarrow> unit mop" where
  "validate_active_lease ev t lease =
     tbind (tguard (mk_business_state t \<notin> set TERMINAL_BUSINESS) (conflict ''terminal mobile task cannot accept runner updates'')) (\<lambda>_.
     tbind (tguard (active_task t \<and> mk_lease_id t = Some lease) (conflict ''mobile task lease does not match'')) (\<lambda>_.
     tguard (live_lease (mv_now ev) t) (conflict ''mobile task lease has expired'')))"

definition RELEASE_REASONS :: "string list" where
  "RELEASE_REASONS = [''ACCESSIBILITY_NOT_ENABLED'', ''ACCESSIBILITY_NOT_ACTIVE'']"

text \<open>The device lease of the running task: held by its workflow, not canceled, not expired.\<close>

definition auto_lease_of :: "menv \<Rightarrow> mobile_task \<Rightarrow> string \<Rightarrow> lease_row \<Rightarrow> bool" where
  "auto_lease_of ev t lease l \<longleftrightarrow> le_tenant_id l = mk_tenant_id t \<and> le_lease_id l = lease \<and> le_owner_type l = ''AUTO'' \<and>
     le_owner_workflow_id l = ''auto/'' @ mk_id t \<and> le_canceled_at l = None \<and> le_expires_at l > mv_now ev"

definition holds_auto_lease :: "menv \<Rightarrow> string \<Rightarrow> mobile_task \<Rightarrow> string \<Rightarrow> mdb \<Rightarrow> bool" where
  "holds_auto_lease ev device t lease db \<longleftrightarrow> (case get_device_lease device db of Some l \<Rightarrow> auto_lease_of ev t lease l | None \<Rightarrow> False)"

definition released :: "mobile_task \<Rightarrow> mobile_task" where
  "released t = t\<lparr>mk_status := ''QUEUED'', mk_business_state := ''QUEUED'', mk_lease_id := None, mk_lease_expires_at := None\<rparr>"

definition release_task :: "menv \<Rightarrow> companion_row \<Rightarrow> string \<Rightarrow> string \<Rightarrow> string \<Rightarrow> mobile_task mop" where
  "release_task ev b i lease reason =
     tbind (tguard (reason \<in> set RELEASE_REASONS) (validation ''unsupported task release reason'')) (\<lambda>_.
     tbind (tsome (get_device (cb_device_id b)) (missing ''device'')) (\<lambda>d.
     tbind (tguard (de_tenant_id d = cb_tenant_id b) (missing ''device'')) (\<lambda>_.
     tbind (tsome (get_companion (cb_id b)) (unauthenticated INVALID_TOKEN)) (\<lambda>stored.
     tbind (tguard (cb_revoked_at stored = None \<and> cb_tenant_id stored = cb_tenant_id b \<and> cb_device_id stored = cb_device_id b)
       (unauthenticated INVALID_TOKEN)) (\<lambda>_.
     tbind (tguard (de_active_binding_id d = Some (cb_id stored)) (unauthenticated ''companion instance is no longer the active binding'')) (\<lambda>_.
     tbind (owned_task stored i) (\<lambda>t.
     tbind (tguard (mk_status t = ''CLAIMED'' \<and> mk_business_state t = ''PREFLIGHT'') (conflict ''only a claimed task in PREFLIGHT can be released'')) (\<lambda>_.
     tbind (tguard (mk_lease_id t = Some lease) (conflict ''mobile task lease does not match'')) (\<lambda>_.
     tbind (tguard (live_lease (mv_now ev) t) (conflict ''mobile task lease has expired'')) (\<lambda>_.
     tbind (tguard (\<not> has_commit_intent t) (conflict ''task has a legacy commit intent and cannot be released'')) (\<lambda>_.
     tbind (tread (holds_auto_lease ev (cb_device_id b) t lease)) (\<lambda>held.
     tbind (tguard held (conflict ''matching active device lease is required'')) (\<lambda>_.
     tbind (tread (\<lambda>db. \<exists>r \<in> set (mb_actions db). aw_task_id r = i)) (\<lambda>committed.
     tbind (tguard (\<not> committed) (conflict ''task has an action commit row and cannot be released'')) (\<lambda>_.
     tbind (update_device_lease (cb_device_id b) (\<lambda>l. l\<lparr>le_canceled_at := Some (mv_now ev)\<rparr>)) (\<lambda>_.
     tbind (update_task i released) (\<lambda>_.
     tsome (get_task_row i) (missing ''mobile task''))))))))))))))))))"

definition stale_envelope :: "companion_row \<Rightarrow> mobile_task \<Rightarrow> mdb \<Rightarrow> bool" where
  "stale_envelope b t db =
     (let entry = (\<lambda>k. case dget (control_header t) k of Some (JStr x) \<Rightarrow> Some x | _ \<Rightarrow> None)
      in lease_envelope_stale (entry ''fleetSessionId'') (entry ''fleetBootId'') (active_session (mk_tenant_id t) (cb_id b) db))"

definition beaten :: "menv \<Rightarrow> int option \<Rightarrow> int \<Rightarrow> mobile_task \<Rightarrow> mobile_task" where
  "beaten ev step seconds t =
     t\<lparr>mk_status := ''RUNNING'',
       mk_business_state := (if mk_business_state t \<in> {''PAUSE_REQUESTED'', ''CANCEL_REQUESTED'', ''PAUSED_WAITING_USER'', ''RECONCILING''}
         then mk_business_state t else ''RUNNING''),
       mk_current_step := step, mk_lease_expires_at := Some (mv_now ev + seconds * 1000000)\<rparr>"

definition heartbeat_task :: "menv \<Rightarrow> companion_row \<Rightarrow> string \<Rightarrow> string \<Rightarrow> int option \<Rightarrow> int \<Rightarrow> mobile_task mop" where
  "heartbeat_task ev b i lease step seconds =
     tbind (owned_task b i) (\<lambda>t.
     tbind (tread (stale_envelope b t)) (\<lambda>stale.
     tbind (tguard (\<not> stale) AuthorizationEnvelopeStaleError) (\<lambda>_.
     tbind (validate_active_lease ev t lease) (\<lambda>_.
     tbind (update_task i (beaten ev step seconds)) (\<lambda>_.
     tbind (tread (get_device_lease (cb_device_id b))) (\<lambda>l.
     tbind (twhen (some_such l (\<lambda>x. Some (le_lease_id x) = mk_lease_id t))
       (update_device_lease (cb_device_id b) (\<lambda>l. l\<lparr>le_expires_at := mv_now ev + seconds * 1000000\<rparr>))) (\<lambda>_.
     tsome (get_task_row i) (missing ''mobile task''))))))))"

text \<open>What an event of the runner does to its task.\<close>

definition event_applied :: "menv \<Rightarrow> int \<Rightarrow> string \<Rightarrow> int option \<Rightarrow> mobile_task \<Rightarrow> mobile_task" where
  "event_applied ev sequence event_type step t =
     (let t1 = (if event_type = ''PAUSE_REQUESTED'' then t\<lparr>mk_business_state := ''PAUSE_REQUESTED''\<rparr>
                else if event_type = ''PAUSED_WAITING_USER'' then
                  (if truthy (dget_or (mk_command_payload t) ''commitIntent'' JNull)
                   then t\<lparr>mk_business_state := ''RECONCILING'', mk_stall_reason := Some (stalled t ''commit intent already written'')\<rparr>
                   else t\<lparr>mk_business_state := ''PAUSED_WAITING_USER''\<rparr>)\<lparr>mk_control_mode := ''REMOTE'', mk_pause_ack_at := Some (mv_now ev)\<rparr>
                else if event_type = ''RESUME_CHECK'' then t\<lparr>mk_business_state := ''RESUME_CHECK''\<rparr>
                else if event_type = ''RECONCILING'' then t\<lparr>mk_business_state := ''RECONCILING''\<rparr>
                else t)
      in t1\<lparr>mk_last_sequence := sequence, mk_current_step := step\<rparr>)"

definition task_event ::
  "menv \<Rightarrow> companion_row \<Rightarrow> string \<Rightarrow> string \<Rightarrow> int \<Rightarrow> string \<Rightarrow> int option \<Rightarrow> dict \<Rightarrow> (task_event_row \<times> bool) mop" where
  "task_event ev b i lease sequence event_type step payload =
     tbind (owned_task b i) (\<lambda>t.
     tbind (validate_active_lease ev t lease) (\<lambda>_.
     if sequence \<le> mk_last_sequence t then
       tbind (tsome (\<lambda>db. find_row (\<lambda>e. te_task_id e = i \<and> te_sequence e = sequence) (mb_events db))
         (conflict ''event sequence was replayed with different content'')) (\<lambda>e.
       tbind (tguard (te_event_type e = event_type \<and> te_step_index e = step \<and> same_dict (te_payload e) payload)
         (conflict ''event sequence was replayed with different content'')) (\<lambda>_. treturn (e, False)))
     else
       tbind (tguard (sequence = mk_last_sequence t + 1) (conflict ''mobile task event sequence has a gap'')) (\<lambda>_.
       tbind (tguard (\<not> (mk_business_state t = ''RECONCILING'' \<and> event_type \<in> {''PAUSE_REQUESTED'', ''PAUSED_WAITING_USER'', ''RESUME_CHECK''}))
         (conflict ''uncertain result must be reconciled before changing task state'')) (\<lambda>_.
       tbind (mnew_id ev) (\<lambda>n.
       let e = \<lparr>te_id = n, te_tenant_id = mk_tenant_id t, te_task_id = i, te_sequence = sequence, te_event_type = event_type,
         te_step_index = step, te_step_id = (case dget payload ''stepId'' of Some (JStr x) \<Rightarrow> Some x | _ \<Rightarrow> None),
         te_attempt_id = mk_attempt_id t, te_payload = payload, te_occurred_at = mv_now ev, te_received_at = Some (mv_now ev)\<rparr> in
       tbind (tmodify (\<lambda>db. db\<lparr>mb_events := mb_events db @ [e]\<rparr>)) (\<lambda>_.
       tbind (update_task i (event_applied ev sequence event_type step)) (\<lambda>_. treturn (e, True))))))))"

definition RESULT_TYPES :: "(string \<times> string) list" where
  "RESULT_TYPES = [(''xianyu.publish_listing.v1'', ''XianyuPublishListingResult''), (''xianyu.collect_orders.v1'', ''XianyuCollectOrdersResult''),
     (''xiaohongshu.publish_note.v1'', ''XiaohongshuPublishNoteResult''), (''device.probe_capabilities.v1'', ''DeviceProbeResult'')]"

record final_outcome =
  fo_status :: string
  fo_result :: dict
  fo_error_code :: "string option"
  fo_detail :: "string option"

definition finished :: "menv \<Rightarrow> final_outcome \<Rightarrow> mobile_task \<Rightarrow> mobile_task" where
  "finished ev fo t = t\<lparr>mk_status := fo_status fo, mk_result := fo_result fo, mk_error_code := fo_error_code fo, mk_detail := fo_detail fo,
     mk_business_state := (case map_of RUNNER_TO_BUSINESS (fo_status fo) of Some s \<Rightarrow> s | None \<Rightarrow> fo_status fo),
     mk_completed_at := Some (mv_now ev), mk_lease_expires_at := None\<rparr>"

definition result_type_ok :: "mobile_task \<Rightarrow> dict \<Rightarrow> unit mop" where
  "result_type_ok t result =
     (let expected = Option.bind (command_of t) (map_of RESULT_TYPES);
          incoming = dget_or result ''resultType'' JNull in
      tbind (tguard (\<not> some_such expected (\<lambda>e. truthy incoming \<and> incoming \<noteq> JStr e)) (validation ''resultType does not match commandType'')) (\<lambda>_.
      tguard (\<not> (truthy incoming \<and> expected = None \<and> command_of t \<noteq> None)) (validation ''resultType is not defined for this command'')))"

definition finish_task :: "menv \<Rightarrow> companion_row \<Rightarrow> string \<Rightarrow> string \<Rightarrow> final_outcome \<Rightarrow> mobile_task mop" where
  "finish_task ev b i lease fo =
     tbind (owned_task b i) (\<lambda>t.
     tbind (tguard (mk_business_state t \<noteq> ''RECONCILING'') (conflict ''uncertain result must be resolved by explicit reconciliation'')) (\<lambda>_.
     if mk_status t \<in> {''SUCCEEDED'', ''FAILED''} then
       tbind (tguard (mk_status t = fo_status fo \<and> same_dict (mk_result t) (fo_result fo) \<and> mk_error_code t = fo_error_code fo \<and> mk_detail t = fo_detail fo)
         (conflict ''mobile task already has a different terminal result'')) (\<lambda>_. treturn t)
     else
       tbind (validate_active_lease ev t lease) (\<lambda>_.
       tbind (result_type_ok t (fo_result fo)) (\<lambda>_.
       tbind (update_task i (finished ev fo)) (\<lambda>_.
       tbind (settle_reply i (case map_of RUNNER_TO_BUSINESS (fo_status fo) of Some s \<Rightarrow> s | None \<Rightarrow> fo_status fo)) (\<lambda>_.
       tbind (tread (get_device_lease (cb_device_id b))) (\<lambda>l.
       tbind (twhen (some_such l (\<lambda>x. Some (le_lease_id x) = mk_lease_id t))
         (update_device_lease (cb_device_id b) (\<lambda>l. l\<lparr>le_canceled_at := Some (mv_now ev)\<rparr>))) (\<lambda>_.
       tsome (get_task_row i) (missing ''mobile task'')))))))))"

subsection \<open>The acknowledgement of a cancellation\<close>

text \<open>\<open>_append_control_event\<close>, the second implementation of the control events.\<close>

definition append_control_event :: "menv \<Rightarrow> string \<Rightarrow> string \<Rightarrow> string \<Rightarrow> mobile_task \<Rightarrow> mobile_task" where
  "append_control_event ev kind reason who t =
     (let h = control_header t; revision = header_revision h + 1;
          events = header_events h @ [event_json \<lparr>ce_revision = revision, ce_event = kind, ce_reason = take 160 reason, ce_actor = take 128 who,
                ce_issued_at = mv_iso ev (mv_now ev)\<rparr>];
          older = take (length events - 50) events; recent = drop (length events - 50) events;
          kept = filter (\<lambda>e. event_kind e \<in> {Some ''MARKED_UNKNOWN'', Some ''RECONCILED_APPLIED'', Some ''RECONCILED_NOT_SUBMITTED'',
            Some ''RECONCILED_KEEP_WAITING''}) older
      in set_header (AList.update ''controlEvents'' (JList (if kept = [] then recent else kept @ recent))
           (AList.update ''controlRevision'' (JInt revision) h)) t)"

text \<open>Both append the same event under the same retention.\<close>

lemma append_record: "append_control_event ev kind reason who t = record_control_event ev kind reason who t"
proof -
  have "event_kind e \<in> {Some ''MARKED_UNKNOWN'', Some ''RECONCILED_APPLIED'', Some ''RECONCILED_NOT_SUBMITTED'',
      Some ''RECONCILED_KEEP_WAITING''} \<longleftrightarrow> protected_event e" for e
    by (auto simp: protected_event_def PROTECTED_CONTROL_EVENT_KINDS_def split: option.splits)
  then show ?thesis
    by (simp add: append_control_event_def record_control_event_def retain_control_events_def MAX_CONTROL_EVENTS_def Let_def)
qed

record control_ack_request =
  ca_task_id :: string
  ca_task_revision :: "int option"
  ca_applied :: bool
  ca_reason :: "string option"

definition or_else :: "string option \<Rightarrow> string \<Rightarrow> string" where
  "or_else v d = (case v of Some x \<Rightarrow> if x = [] then d else x | None \<Rightarrow> d)"

definition cancel_deferred :: "menv \<Rightarrow> string \<Rightarrow> mobile_task \<Rightarrow> mobile_task" where
  "cancel_deferred ev reason t = append_control_event ev ''CANCEL_DEFERRED_RECONCILING'' reason ''companion''
     (t\<lparr>mk_business_state := ''RECONCILING'', mk_stall_reason := Some (take 160 reason)\<rparr>)"

definition control_ack :: "menv \<Rightarrow> companion_row \<Rightarrow> control_ack_request \<Rightarrow> mobile_task mop" where
  "control_ack ev b rq =
     tbind (owned_task b (ca_task_id rq)) (\<lambda>t.
     let st = business_state_of t; i = ca_task_id rq;
         fresh = (case ca_task_revision rq of None \<Rightarrow> True | Some n \<Rightarrow> n = control_revision t) in
     tbind (tguard (\<not> (st \<in> set TERMINAL_BUSINESS \<and> st \<noteq> ''CANCELLED'')) (conflict ''terminal platform task cannot be cancel-acked'')) (\<lambda>_.
     if ca_applied rq then
       (if st = ''CANCELLED'' then treturn t
        else
          tbind (tguard fresh (conflict ''cancel ack task revision does not match'')) (\<lambda>_.
          tbind (tguard (st \<noteq> ''RECONCILING'') (conflict ''uncertain result must be reconciled before cancel acknowledgement'')) (\<lambda>_.
          tbind (tguard (st = ''CANCEL_REQUESTED'') (conflict ''cancel acknowledgement requires a pending CANCEL'')) (\<lambda>_.
          tbind (update_task i (cancelled_now (mv_now ev) (or_else (ca_reason rq) ''cancel applied by device''))) (\<lambda>_.
          tbind (release_occupation ev t) (\<lambda>released.
          tbind (update_task i (append_control_event ev ''CANCELLED'' (or_else (ca_reason rq) ''cancel applied by device'') ''companion'')) (\<lambda>_.
          tbind (audit_control_event ev i ''cancel_acked'' ''companion'' ''companion'' [(''occupationReleased'', JBool released)]) (\<lambda>_.
          tbind (settle_reply i ''CANCELLED'') (\<lambda>_.
          tsome (get_task_row i) (missing ''mobile task''))))))))))
     else
       (if st = ''RECONCILING'' then treturn t
        else
          tbind (tguard fresh (conflict ''cancel ack task revision does not match'')) (\<lambda>_.
          tbind (tguard (st \<noteq> ''CANCELLED'') (conflict ''cancelled task cannot defer a cancel ack'')) (\<lambda>_.
          tbind (tguard (st = ''CANCEL_REQUESTED'') (conflict ''cancel acknowledgement requires a pending CANCEL'')) (\<lambda>_.
          tbind (update_task i (cancel_deferred ev (or_else (ca_reason rq) ''cancel deferred by device''))) (\<lambda>_.
          tbind (audit_control_event ev i ''cancel_deferred_reconciling'' ''companion'' ''companion''
            [(''reason'', JStr (take 160 (or_else (ca_reason rq) [])))]) (\<lambda>_.
          tsome (get_task_row i) (missing ''mobile task'')))))))))"

subsection \<open>Settlement by the publish queue\<close>

text \<open>The part of \<open>XianyuPublishQueueService.confirm\<close> that concerns the task of the confirmed target.\<close>

definition settled :: "menv \<Rightarrow> string \<Rightarrow> dict \<Rightarrow> mobile_task \<Rightarrow> mobile_task" where
  "settled ev st result t =
     (let t1 = t\<lparr>mk_result := dupdate (mk_result t) result\<rparr> in
      if mk_status t \<in> {''SUCCEEDED'', ''FAILED''} then t1
      else t1\<lparr>mk_status := st, mk_business_state := st, mk_completed_at := Some (mv_now ev)\<rparr>)"

definition settle_task :: "menv \<Rightarrow> string \<Rightarrow> string \<Rightarrow> dict \<Rightarrow> unit mop" where
  "settle_task ev i st result = update_task i (settled ev st result)"

text \<open>The loop of \<open>_block_stale_account_work\<close> over the queued tasks, on the full rows.\<close>

definition stale_task :: "string \<Rightarrow> string \<Rightarrow> string list \<Rightarrow> mobile_task \<Rightarrow> bool" where
  "stale_task tenant device accounts t \<longleftrightarrow> mk_tenant_id t = tenant \<and> mk_device_id t = device \<and> mk_status t = ''QUEUED'' \<and>
     (case mk_account_id t of Some acc \<Rightarrow> acc \<in> set accounts | None \<Rightarrow> False)"

definition block_stale_tasks :: "menv \<Rightarrow> string \<Rightarrow> string \<Rightarrow> string list \<Rightarrow> string \<Rightarrow> mdb \<Rightarrow> mdb" where
  "block_stale_tasks ev tenant device accounts reason db =
     (let queued = filter (stale_task tenant device accounts) (mb_tasks db) in
      db\<lparr>mb_tasks := upd_where (stale_task tenant device accounts)
           (\<lambda>t. (failed_task (mv_now ev) reason t)\<lparr>mk_detail := Some ''account binding changed before execution''\<rparr>) (mb_tasks db),
         mb_core := fold (\<lambda>t. settle_reply_delivery (mk_id t) ''FAILED'') queued (mb_core db)\<rparr>)"

end
