(* ===== verification/Mobile_Actions.thy ===== *)
theory Mobile_Actions
  imports Mobile_Runs
begin

text \<open>
  The ledger of controlled actions (\<open>mobile_actions.py\<close>, \<open>controlled_actions.py\<close>): the frozen shapes of steps and the
  identity of an action, the intent that authorises its irreversible click, the outcome that the device reports, and the
  phases of a row. A shape that is violated is only told apart from one that matches; the text of the violation is
  left out.
\<close>

subsection \<open>Frozen shapes\<close>

definition field :: "dict \<Rightarrow> string \<Rightarrow> json" where
  "field s k = dget_or s k JNull"

definition is_action :: "string \<Rightarrow> dict \<Rightarrow> bool" where
  "is_action a s \<longleftrightarrow> field s ''action'' = JStr a"

definition refers :: "string \<Rightarrow> string \<Rightarrow> dict \<Rightarrow> bool" where
  "refers k v s \<longleftrightarrow> field s k = JStr v"

text \<open>\<open>isinstance(v, int)\<close> admits booleans; equality with an integer also admits floats.\<close>

fun int_value :: "json \<Rightarrow> int option" where
  "int_value (JInt n) = Some n"
| "int_value (JBool b) = Some (of_bool b)"
| "int_value _ = None"

fun equals_int :: "json \<Rightarrow> int \<Rightarrow> bool" where
  "equals_int (JInt m) n = (m = n)"
| "equals_int (JBool b) n = (of_bool b = n)"
| "equals_int (JFloat q) n = (q = of_int n)"
| "equals_int _ n = False"

definition strict_int :: "json \<Rightarrow> int \<Rightarrow> int \<Rightarrow> bool" where
  "strict_int v low high \<longleftrightarrow> (case v of JInt n \<Rightarrow> low \<le> n \<and> n \<le> high | _ \<Rightarrow> False)"

record publish_shape =
  ps_command_type :: string
  ps_publish_button :: string
  ps_postcondition :: string
  ps_content_input :: string

definition STEPS_SHAPES :: "(string \<times> publish_shape) list" where
  "STEPS_SHAPES =
    [(''com.taobao.idlefish'', \<lparr>ps_command_type = ''xianyu.publish_listing.steps.v1'', ps_publish_button = ''xianyu_publish_button'',
        ps_postcondition = ''xianyu_publish_success'', ps_content_input = ''xianyu_description''\<rparr>),
     (''com.xingin.xhs'', \<lparr>ps_command_type = ''xhs.publish_note.steps.v1'', ps_publish_button = ''xhs_publish_button'',
        ps_postcondition = ''xhs_publish_success'', ps_content_input = ''xhs_note_body''\<rparr>),
     (''com.ss.android.ugc.aweme'', \<lparr>ps_command_type = ''douyin.publish_note.steps.v1'', ps_publish_button = ''dy_publish_button'',
        ps_postcondition = ''dy_publish_success'', ps_content_input = ''dy_note_body''\<rparr>)]"

definition publish_shape_matches :: "publish_shape \<Rightarrow> dict list \<Rightarrow> bool" where
  "publish_shape_matches sh steps \<longleftrightarrow>
     length (filter (\<lambda>s. is_action ''ui.tap'' s \<and> refers ''locatorRef'' (ps_publish_button sh) s) steps) = 1 \<and>
     list_ex (refers ''locatorRef'' (ps_postcondition sh)) steps \<and>
     list_ex (\<lambda>s. is_action ''ui.input'' s \<and> refers ''locatorRef'' (ps_content_input sh) s) steps"

datatype screenshot_rule = Between string string | After_Layout string | After_Badge

record layout_rule =
  lr_count :: nat
  lr_tab :: string
  lr_max_card :: int

record maintenance_shape =
  ms_package :: string
  ms_action_id :: "string option"
  ms_navigation :: "string list"
  ms_layout_taps :: "(string \<times> layout_rule) list"
  ms_gated_layout :: "string option"
  ms_badge :: "(string \<times> int) option"
  ms_screenshot_rules :: "screenshot_rule list"
  ms_log_code :: string

definition XIANYU_PACKAGE :: string where
  "XIANYU_PACKAGE = ''com.taobao.idlefish''"

definition tap_rule :: "string \<Rightarrow> int \<Rightarrow> layout_rule" where
  "tap_rule tab max_card = \<lparr>lr_count = 1, lr_tab = tab, lr_max_card = max_card\<rparr>"

definition XIANYU_MAINTENANCE_SHAPES :: "(string \<times> maintenance_shape) list" where
  "XIANYU_MAINTENANCE_SHAPES =
    [(''xianyu.polish.steps.v1'', \<lparr>ms_package = XIANYU_PACKAGE, ms_action_id = None, ms_navigation = [''xianyu_profile_tab'', ''xianyu_my_published''],
        ms_layout_taps = [(''polish_all'', tap_rule ''onsale'' 0)], ms_gated_layout = None, ms_badge = None,
        ms_screenshot_rules = [After_Layout ''polish_all''], ms_log_code = ''XIANYU_POLISH_DONE''\<rparr>),
     (''xianyu.delist.steps.v1'', \<lparr>ms_package = XIANYU_PACKAGE, ms_action_id = Some ''confirm-delist'',
        ms_navigation = [''xianyu_profile_tab'', ''xianyu_my_published''],
        ms_layout_taps = [(''more'', tap_rule ''onsale'' 0), (''delist_menu_item'', tap_rule ''onsale'' 0), (''confirm_delist'', tap_rule ''onsale'' 0)],
        ms_gated_layout = Some ''confirm_delist'', ms_badge = Some (''xianyu_pub_tab_onsale'', -1),
        ms_screenshot_rules = [Between ''more'' ''delist_menu_item'', Between ''delist_menu_item'' ''confirm_delist'', After_Badge],
        ms_log_code = ''XIANYU_DELIST_DONE''\<rparr>),
     (''xianyu.delete_delisted.steps.v1'', \<lparr>ms_package = XIANYU_PACKAGE, ms_action_id = Some ''confirm-delete'',
        ms_navigation = [''xianyu_profile_tab'', ''xianyu_my_published'', ''xianyu_pub_tab_delisted''],
        ms_layout_taps = [(''delete_card'', tap_rule ''delisted'' 2), (''confirm_delete'', tap_rule ''delisted'' 0)],
        ms_gated_layout = Some ''confirm_delete'', ms_badge = None,
        ms_screenshot_rules = [Between ''delete_card'' ''confirm_delete'', After_Badge], ms_log_code = ''XIANYU_DELETE_DELISTED_DONE''\<rparr>)]"

definition step_index :: "dict list \<Rightarrow> (dict \<Rightarrow> bool) \<Rightarrow> nat" where
  "step_index steps p = length (takeWhile (\<lambda>s. \<not> p s) steps)"

definition layout_index :: "dict list \<Rightarrow> string \<Rightarrow> nat" where
  "layout_index steps layout = step_index steps (\<lambda>s. is_action ''ui.tapLayout'' s \<and> refers ''layoutAction'' layout s)"

definition shots :: "dict list \<Rightarrow> nat list" where
  "shots steps = filter (\<lambda>n. is_action ''ui.screenshot'' (steps ! n)) [0..<length steps]"

fun string_in :: "json \<Rightarrow> string list \<Rightarrow> bool" where
  "string_in (JStr x) xs = (x \<in> set xs)"
| "string_in _ xs = False"

definition layout_tap_ok :: "dict list \<Rightarrow> string \<times> layout_rule \<Rightarrow> bool" where
  "layout_tap_ok steps r = (case r of (layout, rule) \<Rightarrow>
     (let hits = filter (\<lambda>s. is_action ''ui.tapLayout'' s \<and> refers ''layoutAction'' layout s) steps in
      length hits = lr_count rule \<and>
      list_all (\<lambda>s. refers ''tab'' (lr_tab rule) s \<and>
        (case int_value (field s ''cardIndex'') of Some c \<Rightarrow> 0 \<le> c \<and> c \<le> lr_max_card rule | None \<Rightarrow> False)) hits))"

definition badge_ok :: "maintenance_shape \<Rightarrow> dict list \<Rightarrow> bool" where
  "badge_ok sh steps = (let badges = filter (is_action ''ui.assertBadge'') steps in (case ms_badge sh of
     None \<Rightarrow> badges = []
   | Some (loc, delta) \<Rightarrow> (case badges of [b] \<Rightarrow> refers ''locatorRef'' loc b \<and> equals_int (field b ''expectedDelta'') delta | _ \<Rightarrow> False)))"

definition badge_after_gate :: "maintenance_shape \<Rightarrow> dict list \<Rightarrow> bool" where
  "badge_after_gate sh steps = (case (ms_gated_layout sh, ms_badge sh) of
     (Some g, Some _) \<Rightarrow> step_index steps (is_action ''ui.assertBadge'') \<ge> layout_index steps g
   | _ \<Rightarrow> True)"

definition navigation_first :: "maintenance_shape \<Rightarrow> dict list \<Rightarrow> bool" where
  "navigation_first sh steps \<longleftrightarrow> list_ex (is_action ''ui.tapLayout'') steps \<longrightarrow>
     list_all (\<lambda>ref. step_index steps (\<lambda>s. is_action ''ui.tap'' s \<and> refers ''locatorRef'' ref s) \<le> step_index steps (is_action ''ui.tapLayout''))
       (ms_navigation sh)"

fun screenshot_ok :: "maintenance_shape \<Rightarrow> dict list \<Rightarrow> screenshot_rule \<Rightarrow> bool" where
  "screenshot_ok sh steps (Between a b) = list_ex (\<lambda>n. layout_index steps a < n \<and> n < layout_index steps b) (shots steps)"
| "screenshot_ok sh steps (After_Layout a) = list_ex (\<lambda>n. n > layout_index steps a) (shots steps)"
| "screenshot_ok sh steps After_Badge =
     (if list_ex (is_action ''ui.assertBadge'') steps then list_ex (\<lambda>n. n > step_index steps (is_action ''ui.assertBadge'')) (shots steps)
      else (case ms_gated_layout sh of None \<Rightarrow> False | Some g \<Rightarrow> list_ex (\<lambda>n. n > layout_index steps g) (shots steps)))"

definition maintenance_shape_ok :: "maintenance_shape \<Rightarrow> dict list \<Rightarrow> bool" where
  "maintenance_shape_ok sh steps \<longleftrightarrow>
     list_all (\<lambda>ref. length (filter (\<lambda>s. is_action ''ui.tap'' s \<and> refers ''locatorRef'' ref s) steps) = 1) (ms_navigation sh) \<and>
     list_all (\<lambda>s. is_action ''ui.tap'' s \<longrightarrow> string_in (field s ''locatorRef'') (ms_navigation sh)) steps \<and>
     list_all (layout_tap_ok steps) (ms_layout_taps sh) \<and>
     list_all (\<lambda>s. is_action ''ui.tapLayout'' s \<longrightarrow> string_in (field s ''layoutAction'') (map fst (ms_layout_taps sh))) steps \<and>
     badge_ok sh steps \<and> navigation_first sh steps \<and> badge_after_gate sh steps \<and>
     list_all (screenshot_ok sh steps) (ms_screenshot_rules sh) \<and>
     list_ex (\<lambda>s. is_action ''run.log'' s \<and> refers ''messageCode'' (ms_log_code sh) s) steps"

text \<open>The second version is one exact sequence of steps.\<close>

datatype step_rule = Tap string "string option" | Card string | Screenshot | Layout string string | Log string

record sequence_shape =
  ss_package :: string
  ss_action_id :: string
  ss_navigation :: "string list"
  ss_card_tab :: string
  ss_manage_taps :: "string \<times> string"
  ss_gated_step :: step_rule
  ss_log_code :: string

definition XIANYU_MAINTENANCE_V2_SHAPES :: "(string \<times> sequence_shape) list" where
  "XIANYU_MAINTENANCE_V2_SHAPES =
    [(''xianyu.delist.steps.v2'', \<lparr>ss_package = XIANYU_PACKAGE, ss_action_id = ''confirm-delist'',
        ss_navigation = [''xianyu_profile_tab'', ''xianyu_my_published''], ss_card_tab = ''onsale'',
        ss_manage_taps = (''xianyu_detail_manage'', ''xianyu_manage_delist''), ss_gated_step = Layout ''confirm_delist'' ''onsale'',
        ss_log_code = ''XIANYU_DELIST_DONE''\<rparr>),
     (''xianyu.delete_delisted.steps.v2'', \<lparr>ss_package = XIANYU_PACKAGE, ss_action_id = ''confirm-delete'',
        ss_navigation = [''xianyu_profile_tab'', ''xianyu_my_published'', ''xianyu_pub_tab_delisted''], ss_card_tab = ''delisted'',
        ss_manage_taps = (''xianyu_detail_manage'', ''xianyu_manage_delete''), ss_gated_step = Tap ''xianyu_delete_confirm'' (Some ''confirm-delete''),
        ss_log_code = ''XIANYU_DELETE_DELISTED_DONE''\<rparr>)]"

definition expected_rules :: "sequence_shape \<Rightarrow> step_rule list" where
  "expected_rules sh = map (\<lambda>r. Tap r None) (ss_navigation sh) @
     [Card (ss_card_tab sh), Tap (fst (ss_manage_taps sh)) None, Screenshot, Tap (snd (ss_manage_taps sh)) None, Screenshot,
      ss_gated_step sh, Screenshot, Log (ss_log_code sh)]"

fun step_obeys :: "dict \<Rightarrow> step_rule \<Rightarrow> bool" where
  "step_obeys s (Tap ref sid) \<longleftrightarrow> is_action ''ui.tap'' s \<and> refers ''locatorRef'' ref s \<and> (case sid of None \<Rightarrow> True | Some x \<Rightarrow> refers ''stepId'' x s)"
| "step_obeys s (Card tab) \<longleftrightarrow> is_action ''ui.tapCardByTitle'' s \<and> refers ''tab'' tab s \<and>
     (case field s ''titleContains'' of JStr t \<Rightarrow> 1 \<le> length t \<and> length t \<le> 64 | _ \<Rightarrow> False)"
| "step_obeys s Screenshot \<longleftrightarrow> is_action ''ui.screenshot'' s"
| "step_obeys s (Layout a tab) \<longleftrightarrow> is_action ''ui.tapLayout'' s \<and> refers ''layoutAction'' a s \<and> refers ''tab'' tab s \<and> equals_int (field s ''cardIndex'') 0"
| "step_obeys s (Log c) \<longleftrightarrow> is_action ''run.log'' s \<and> refers ''messageCode'' c s"

definition sequence_shape_ok :: "sequence_shape \<Rightarrow> dict list \<Rightarrow> bool" where
  "sequence_shape_ok sh steps \<longleftrightarrow> list_all2 step_obeys steps (expected_rules sh)"

definition MAINTENANCE_COMMAND_TYPES :: "string list" where
  "MAINTENANCE_COMMAND_TYPES = map fst XIANYU_MAINTENANCE_SHAPES @ map fst XIANYU_MAINTENANCE_V2_SHAPES"

definition MAINTENANCE_STEP_ACTIONS :: "string list" where
  "MAINTENANCE_STEP_ACTIONS = [''ui.tapLayout'', ''ui.assertBadge'', ''ui.tapCardByTitle'']"

definition uses_maintenance_step_actions :: "dict list \<Rightarrow> bool" where
  "uses_maintenance_step_actions steps = list_ex (\<lambda>s. string_in (field s ''action'') MAINTENANCE_STEP_ACTIONS) steps"

definition validate_maintenance_steps :: "string \<Rightarrow> dict list \<Rightarrow> mobile_error + string" where
  "validate_maintenance_steps package steps =
     (if \<not> uses_maintenance_step_actions steps then Inl (validation ''maintenance step actions are required for this validation'')
      else (case map fst (filter (\<lambda>(c, sh). ms_package sh = package \<and> maintenance_shape_ok sh steps) XIANYU_MAINTENANCE_SHAPES) @
                 map fst (filter (\<lambda>(c, sh). ss_package sh = package \<and> sequence_shape_ok sh steps) XIANYU_MAINTENANCE_V2_SHAPES) of
          [c] \<Rightarrow> Inr c
        | _ \<Rightarrow> Inl (validation ''xianyu maintenance steps must match exactly one frozen command shape'')))"

text \<open>Collection of orders, on one screen or on two or three, and the review of orders.\<close>

definition ORDERS_READ_LOCATOR :: string where
  "ORDERS_READ_LOCATOR = ''xianyu_orders_container''"

definition ORDERS_ENTRY_LOCATORS :: "(string \<times> string) list" where
  "ORDERS_ENTRY_LOCATORS = [(''SOLD'', ''xianyu_order_list_sold''), (''BOUGHT'', ''xianyu_order_list_bought'')]"

definition ORDERS_LOG_CODE :: string where
  "ORDERS_LOG_CODE = ''XIANYU_COLLECT_ORDERS_DONE''"

definition follows :: "dict \<Rightarrow> string \<times> string option \<Rightarrow> bool" where
  "follows s r = (case r of (a, loc) \<Rightarrow> is_action a s \<and> (case loc of None \<Rightarrow> True | Some l \<Rightarrow> refers ''locatorRef'' l s))"

definition entry_of :: "dict \<Rightarrow> string option" where
  "entry_of s = (case field s ''direction'' of JStr d \<Rightarrow> map_of ORDERS_ENTRY_LOCATORS d | _ \<Rightarrow> None)"

definition closes_with :: "string \<Rightarrow> dict list \<Rightarrow> bool" where
  "closes_with c steps \<longleftrightarrow> steps \<noteq> [] \<and> refers ''messageCode'' c (last steps)"

definition orders_shape_ok :: "dict list \<Rightarrow> bool" where
  "orders_shape_ok steps = (case filter (is_action ''ui.readOrders'') steps of
     [r] \<Rightarrow> (case entry_of r of
         Some entry \<Rightarrow> strict_int (field r ''maxRows'') 1 10 \<and> refers ''locatorRef'' ORDERS_READ_LOCATOR r \<and>
           list_all2 follows steps [(''ui.tap'', Some ''xianyu_profile_tab''), (''ui.tap'', Some entry), (''ui.readOrders'', None),
             (''ui.screenshot'', None), (''run.log'', None)] \<and> closes_with ORDERS_LOG_CODE steps
       | None \<Rightarrow> False)
   | _ \<Rightarrow> False)"

definition orders_shape_ok_v2 :: "dict list \<Rightarrow> bool" where
  "orders_shape_ok_v2 steps =
     (let reads = filter (is_action ''ui.readOrders'') steps; swipes = filter (is_action ''ui.swipeUp'') steps in
      2 \<le> length reads \<and> length reads \<le> 3 \<and> length swipes = length reads - 1 \<and>
      (case entry_of (hd reads) of
         None \<Rightarrow> False
       | Some entry \<Rightarrow> strict_int (field (hd reads) ''maxRows'') 1 10 \<and>
           list_all (\<lambda>r. field r ''direction'' = field (hd reads) ''direction'' \<and>
             (case field (hd reads) ''maxRows'' of JInt n \<Rightarrow> equals_int (field r ''maxRows'') n | _ \<Rightarrow> False)) (tl reads) \<and>
           list_all2 follows steps ([(''ui.tap'', Some ''xianyu_profile_tab''), (''ui.tap'', Some entry), (''ui.readOrders'', Some ORDERS_READ_LOCATOR)] @
             concat (replicate (length reads - 1) [(''ui.swipeUp'', Some ORDERS_READ_LOCATOR), (''ui.readOrders'', Some ORDERS_READ_LOCATOR)]) @
             [(''ui.screenshot'', None), (''run.log'', None)]) \<and> closes_with ORDERS_LOG_CODE steps))"

definition validate_orders_steps :: "string \<Rightarrow> dict list \<Rightarrow> mobile_error + string" where
  "validate_orders_steps package steps =
     (if \<not> list_ex (\<lambda>s. string_in (field s ''action'') [''ui.readOrders'', ''ui.swipeUp'']) steps
      then Inl (validation ''order collection step actions are required for this validation'')
      else if package \<noteq> XIANYU_PACKAGE then Inl (validation ''order collection is only defined for the xianyu package'')
      else if orders_shape_ok steps then Inr ''xianyu.collect_orders.steps.v1''
      else if orders_shape_ok_v2 steps then Inr ''xianyu.collect_orders.steps.v2''
      else Inl (validation ''xianyu order steps must match exactly one frozen command shape''))"

definition review_shape_ok :: "dict list \<Rightarrow> bool" where
  "review_shape_ok steps = (case filter (is_action ''xianyu.reviewOrders'') steps of
     [r] \<Rightarrow> strict_int (field r ''maxOrders'') 1 50 \<and>
       (case field r ''comment'' of JStr c \<Rightarrow> 1 \<le> length c \<and> length c \<le> 200 \<and> CHR 0x00 \<notin> set c | _ \<Rightarrow> False) \<and>
       (case field r ''dryRun'' of JBool _ \<Rightarrow> True | _ \<Rightarrow> False) \<and>
       list_all2 follows steps [(''ui.tap'', Some ''xianyu_profile_tab''), (''ui.tap'', Some ''xianyu_order_list_sold''),
         (''ui.tap'', Some ''xianyu_orders_tab_pending''), (''xianyu.reviewOrders'', None), (''ui.screenshot'', None), (''run.log'', None)] \<and>
       closes_with ''XIANYU_REVIEW_DONE'' steps
   | _ \<Rightarrow> False)"

definition validate_review_steps :: "string \<Rightarrow> dict list \<Rightarrow> mobile_error + string" where
  "validate_review_steps package steps =
     (if \<not> list_ex (is_action ''xianyu.reviewOrders'') steps then Inl (validation ''review step actions are required for this validation'')
      else if package \<noteq> XIANYU_PACKAGE then Inl (validation ''auto-review is only defined for the xianyu package'')
      else if review_shape_ok steps then Inr ''xianyu.review_orders.steps.v1''
      else Inl (validation ''xianyu review steps violate the frozen shape''))"

text \<open>The creation gate of \<open>_insert_task\<close>: the command that the shape of the steps stands for, if they use special actions.\<close>

definition ALLOWED_PACKAGES :: "string list" where
  "ALLOWED_PACKAGES = [''com.company.cloudctl.companion'', ''com.taobao.idlefish'', ''com.xingin.xhs'', ''com.ss.android.ugc.aweme'']"

definition steps_command :: "string \<Rightarrow> dict list \<Rightarrow> mobile_error + string option" where
  "steps_command package steps =
     (let wrap = (\<lambda>r. case r of Inl e \<Rightarrow> Inl e | Inr c \<Rightarrow> Inr (Some c)) in
      if uses_maintenance_step_actions steps then wrap (validate_maintenance_steps package steps)
      else if list_ex (\<lambda>s. string_in (field s ''action'') [''ui.readOrders'', ''ui.swipeUp'']) steps then wrap (validate_orders_steps package steps)
      else if list_ex (is_action ''xianyu.reviewOrders'') steps then wrap (validate_review_steps package steps)
      else Inr None)"

text \<open>
  The insertion in its own transaction; for an order collection the key is looked up again when an index refused the row.
\<close>

definition on_integrity :: "'a mop \<Rightarrow> 'a mop \<Rightarrow> 'a mop" where
  "on_integrity f g db = (case f db of Inl e \<Rightarrow> if e = Plain IntegrityError then g db else Inl e | Inr r \<Rightarrow> Inr r)"

definition insert_task :: "menv \<Rightarrow> string \<Rightarrow> string \<Rightarrow> string \<Rightarrow> task_body \<Rightarrow> (mobile_task \<times> bool) mop" where
  "insert_task ev tenant requested_by key tb =
     tbind (tguard (tb_target_package tb \<in> set ALLOWED_PACKAGES) (validation ''targetPackage must be an allowlisted application'')) (\<lambda>_.
     tbind (tguard (key \<noteq> [] \<and> length key \<le> 128) (validation ''Idempotency-Key is required and must be at most 128 characters'')) (\<lambda>_.
     tbind (tlift (steps_command (tb_target_package tb) (tb_steps tb))) (\<lambda>command.
     on_integrity (insert_task_in_session ev tenant requested_by key (tb\<lparr>tb_command_type := command\<rparr>))
       (tbind (tguard (tb_order_collection tb \<noteq> None) (conflict ''task idempotency conflict'')) (\<lambda>_.
        tbind (tsome (\<lambda>db. find_row (\<lambda>t. mk_tenant_id t = tenant \<and> mk_idempotency_key t = key) (mb_tasks db))
          (conflict ''task idempotency conflict'')) (\<lambda>t.
        tbind (tguard (mk_request_sha256 t = tb_digest tb) (conflict ''task idempotency conflict'')) (\<lambda>_. treturn (t, False))))))))"

lemma on_integrity_Inr: "on_integrity f g db = Inr r \<Longrightarrow> f db = Inr r \<or> g db = Inr r"
  by (auto simp: on_integrity_def split: sum.splits if_splits)

subsection \<open>The identity of an action\<close>

record action_identity =
  xi_action_key :: string
  xi_tenant_id :: string
  xi_task_id :: string
  xi_device_id :: string
  xi_account_id :: string
  xi_binding_version :: int
  xi_recipe_version_id :: string
  xi_recipe_sha256 :: string
  xi_snapshot_sha256 :: string
  xi_action_id :: string
  xi_parameter_hash :: string

definition identity_text :: "string \<Rightarrow> bool" where
  "identity_text v \<longleftrightarrow> v \<noteq> [] \<and> CHR 0x0A \<notin> set v \<and> CHR 0x0D \<notin> set v"

definition action_hashes ::
  "menv \<Rightarrow> string \<Rightarrow> string \<Rightarrow> string \<Rightarrow> int \<Rightarrow> string \<Rightarrow> string \<Rightarrow> string \<Rightarrow> mobile_error + string \<times> string" where
  "action_hashes ev task_id command account binding_version snapshot recipe_sha action_id =
     (if \<not> list_all identity_text [task_id, command, account, snapshot, recipe_sha, action_id] then Inl (conflict ''invalid action identity'')
      else if \<not> id_pattern action_id then Inl (conflict ''invalid action ID'')
      else if \<not> (is_sha256 snapshot \<and> is_sha256 recipe_sha) then Inl (conflict ''invalid frozen hash'')
      else Inr (mv_sha256 ev (join_with NEWLINE [''cloudctl.action/v1'', task_id, recipe_sha, action_id]),
                mv_sha256 ev (join_with NEWLINE [''cloudctl.action-parameters/v1'', task_id, command, account, dec_int binding_version, snapshot, recipe_sha])))"

definition version_or_zero :: "mobile_task \<Rightarrow> int" where
  "version_or_zero t = (case mk_binding_version t of Some v \<Rightarrow> v | None \<Rightarrow> 0)"

definition steps_action_row :: "menv \<Rightarrow> string \<Rightarrow> string \<Rightarrow> mobile_task \<Rightarrow> mobile_error + action_identity" where
  "steps_action_row ev command action_id t =
     (let d = steps_payload_identity ev t in
      (case action_hashes ev (mk_id t) command (mk_device_id t) (version_or_zero t) d d action_id of
         Inl e \<Rightarrow> Inl e
       | Inr (key, parameters) \<Rightarrow> Inr \<lparr>xi_action_key = key, xi_tenant_id = mk_tenant_id t, xi_task_id = mk_id t, xi_device_id = mk_device_id t,
           xi_account_id = mk_device_id t, xi_binding_version = version_or_zero t, xi_recipe_version_id = ''steps'', xi_recipe_sha256 = d,
           xi_snapshot_sha256 = d, xi_action_id = action_id, xi_parameter_hash = parameters\<rparr>))"

definition gated_shapes :: "dict list \<Rightarrow> (string \<times> string) list" where
  "gated_shapes steps =
     List.map_filter (\<lambda>(c, sh). case ms_action_id sh of Some a \<Rightarrow> if maintenance_shape_ok sh steps then Some (c, a) else None | None \<Rightarrow> None)
       XIANYU_MAINTENANCE_SHAPES @
     map (\<lambda>(c, sh). (c, ss_action_id sh)) (filter (\<lambda>(c, sh). sequence_shape_ok sh steps) XIANYU_MAINTENANCE_V2_SHAPES)"

definition steps_action_identity :: "menv \<Rightarrow> mobile_task \<Rightarrow> mobile_error + action_identity" where
  "steps_action_identity ev t =
     (let steps = real_steps t in
      (case map_of STEPS_SHAPES (mk_target_package t) of
         Some sh \<Rightarrow>
           if publish_shape_matches sh steps then steps_action_row ev (ps_command_type sh) ''click-publish'' t
           else (case gated_shapes steps of [] \<Rightarrow> Inl (conflict ''G3_NOT_ACCEPTED'') | (c, a) # _ \<Rightarrow> steps_action_row ev c a t)
       | None \<Rightarrow> (case gated_shapes steps of [] \<Rightarrow> Inl (conflict ''G3_NOT_ACCEPTED'') | (c, a) # _ \<Rightarrow> steps_action_row ev c a t)))"

definition PROBE_COMMAND :: string where
  "PROBE_COMMAND = ''device.probe_capabilities.v1''"

text \<open>The pinned recipe of a probe, with the signature and the pin checked.\<close>

definition manifest_key :: "menv \<Rightarrow> dict \<Rightarrow> string option" where
  "manifest_key ev manifest = (case field manifest ''signature'' of
     JObj s \<Rightarrow> (case dget s ''keyId'' of Some (JStr k) \<Rightarrow> (case mv_public_key ev k of Some x \<Rightarrow> if x = [] then None else Some x | None \<Rightarrow> None) | _ \<Rightarrow> None)
   | _ \<Rightarrow> None)"

definition pinned_recipe :: "menv \<Rightarrow> mobile_task \<Rightarrow> string \<Rightarrow> mdb \<Rightarrow> mobile_error + package_row \<times> recipe" where
  "pinned_recipe ev t action_id db =
     (let pin = (case mk_recipe_pin t of Some p \<Rightarrow> p | None \<Rightarrow> []) in
      (case find_row (\<lambda>p. pk_id p = text_of (dget pin ''versionId'') \<and> pk_tenant_id p = mk_tenant_id t) (mb_packages db) of
         None \<Rightarrow> Inl (conflict ''signed pinned recipe required'')
       | Some p \<Rightarrow> (case manifest_key ev (pk_manifest p) of
           None \<Rightarrow> Inl (conflict ''signed pinned recipe required'')
         | Some key \<Rightarrow> (case mv_validate_recipe ev (pk_manifest p) key of
             None \<Rightarrow> Inl (conflict ''signed pinned recipe invalid'')
           | Some r \<Rightarrow>
               if rc_app r \<noteq> ''com.company.cloudctl.companion'' \<or> mk_target_package t \<noteq> ''com.company.cloudctl.companion''
               then Inl (conflict ''G3_NOT_ACCEPTED'')
               else if field pin ''sha256'' \<noteq> JStr (rc_hash r) \<or> pk_artifact_sha256 p \<noteq> rc_hash r \<or>
                       rc_signing_key_id r \<noteq> rc_signature_key_id r \<or> PROBE_COMMAND \<notin> set (rc_command_types r) \<or>
                       action_id \<notin> set (rc_state_ids r) \<or> some_such (rc_commit_action_id r) (\<lambda>x. x \<noteq> action_id)
               then Inl (conflict ''action does not match signed claim pin'')
               else Inr (p, r)))))"

definition probe_action_identity :: "menv \<Rightarrow> mobile_task \<Rightarrow> string \<Rightarrow> mdb \<Rightarrow> mobile_error + action_identity" where
  "probe_action_identity ev t action_id db = (case pinned_recipe ev t action_id db of
     Inl e \<Rightarrow> Inl e
   | Inr (p, r) \<Rightarrow>
       (let acc = (case mk_account_id t of Some x \<Rightarrow> x | None \<Rightarrow> []);
            snapshot = text_of (dget (mk_command_payload t) ''snapshotSha256'') in
        (case (case mk_account_id t of Some x \<Rightarrow> bound_to (mk_tenant_id t) x (mk_device_id t) db | None \<Rightarrow> None) of
           None \<Rightarrow> Inl (conflict ''account binding changed'')
         | Some b \<Rightarrow>
             if mk_binding_version t \<noteq> Some (ab_binding_version b) then Inl (conflict ''account binding changed'')
             else (case action_hashes ev (mk_id t) PROBE_COMMAND acc (version_or_zero t) snapshot (rc_hash r) action_id of
                 Inl e \<Rightarrow> Inl e
               | Inr (key, parameters) \<Rightarrow> Inr \<lparr>xi_action_key = key, xi_tenant_id = mk_tenant_id t, xi_task_id = mk_id t,
                   xi_device_id = mk_device_id t, xi_account_id = acc, xi_binding_version = version_or_zero t, xi_recipe_version_id = pk_id p,
                   xi_recipe_sha256 = rc_hash r, xi_snapshot_sha256 = snapshot, xi_action_id = action_id, xi_parameter_hash = parameters\<rparr>))))"

definition identity_of :: "menv \<Rightarrow> mobile_task \<Rightarrow> string \<Rightarrow> mdb \<Rightarrow> mobile_error + action_identity" where
  "identity_of ev t action_id db =
     (if (case mk_command_type t of Some c \<Rightarrow> c \<in> set MAINTENANCE_COMMAND_TYPES | None \<Rightarrow> mk_target_package t \<in> set (map fst STEPS_SHAPES)) then
        (case steps_action_identity ev t of
           Inl e \<Rightarrow> Inl e
         | Inr x \<Rightarrow> if xi_action_id x = action_id then Inr x else Inl (conflict ''G3_NOT_ACCEPTED''))
      else if mk_command_type t \<noteq> Some PROBE_COMMAND then Inl (conflict ''G3_NOT_ACCEPTED'')
      else probe_action_identity ev t action_id db)"

subsection \<open>Phases of the ledger\<close>

datatype phase_of_action = Phase_Intent | Phase_Reported | Phase_Resolved

definition phase_from :: "string \<Rightarrow> int \<Rightarrow> phase_of_action" where
  "phase_from st revision = (if revision \<noteq> 0 then Phase_Resolved else if st = ''INTENT'' then Phase_Intent else Phase_Reported)"

definition action_phase :: "action_row \<Rightarrow> phase_of_action" where
  "action_phase r = phase_from (aw_status r) (aw_resolution_revision r)"

fun phase_rank :: "phase_of_action \<Rightarrow> nat" where
  "phase_rank Phase_Intent = 0" | "phase_rank Phase_Reported = 1" | "phase_rank Phase_Resolved = 2"

definition phase_transition_allowed :: "phase_of_action \<Rightarrow> phase_of_action \<Rightarrow> bool" where
  "phase_transition_allowed current target \<longleftrightarrow> phase_rank target \<ge> phase_rank current"

definition TERMINAL_ACTION_STATUSES :: "string list" where
  "TERMINAL_ACTION_STATUSES = [''APPLIED'', ''NOT_SUBMITTED'']"

definition platform_result_proven :: "action_row \<Rightarrow> bool" where
  "platform_result_proven r \<longleftrightarrow> aw_resolution_revision r > 0 \<and> aw_status r \<in> set TERMINAL_ACTION_STATUSES \<and> aw_resolved_at r \<noteq> None \<and>
     (case aw_resolution_evidence r of Some e \<Rightarrow> e \<noteq> [] | None \<Rightarrow> False)"

datatype outcome_decision = Apply | Replay

record outcome_request =
  or_lease_id :: string
  or_parameter_hash :: string
  or_status :: string
  or_evidence :: string

definition outcome_guard :: "action_row \<Rightarrow> string \<Rightarrow> outcome_request \<Rightarrow> mobile_error + outcome_decision" where
  "outcome_guard r task_state rq =
     (if or_parameter_hash rq \<noteq> aw_parameter_hash r \<or> or_lease_id rq \<noteq> aw_lease_id r then Inl (conflict ''outcome identity mismatch'')
      else if aw_resolution_revision r \<noteq> 0 \<or> task_state \<noteq> ''RECONCILING'' then Inl (conflict ''action already resolved or task not reconciling'')
      else if aw_status r \<noteq> ''INTENT'' then
        (if aw_status r \<noteq> or_status rq \<or> aw_reported_evidence r \<noteq> Some (or_evidence rq) then Inl (conflict ''outcome replay differs'') else Inr Replay)
      else if or_status rq = ''APPLIED'' \<and> or_evidence rq = aw_before_evidence r then Inl (conflict ''independent postcondition evidence required'')
      else Inr Apply)"

subsection \<open>Intent and outcome\<close>

definition owned_action_task :: "companion_row \<Rightarrow> string \<Rightarrow> mobile_task mop" where
  "owned_action_task b i =
     tbind (tsome (get_device (cb_device_id b)) (conflict ''Companion binding is no longer active'')) (\<lambda>d.
     tbind (tguard (de_active_binding_id d = Some (cb_id b)) (conflict ''Companion binding is no longer active'')) (\<lambda>_.
     tbind (tsome (get_companion (cb_id b)) (conflict ''Companion binding is no longer active'')) (\<lambda>current.
     tbind (tguard (cb_revoked_at current = None) (conflict ''Companion binding is no longer active'')) (\<lambda>_.
     owned_task current i))))"

definition action_lease :: "menv \<Rightarrow> companion_row \<Rightarrow> mobile_task \<Rightarrow> string \<Rightarrow> unit mop" where
  "action_lease ev b t lease =
     tbind (tread (stale_envelope b t)) (\<lambda>stale.
     tbind (tguard (\<not> stale) AuthorizationEnvelopeStaleError) (\<lambda>_.
     tbind (validate_active_lease ev t lease) (\<lambda>_.
     tbind (tread (holds_auto_lease ev (mk_device_id t) t lease)) (\<lambda>held.
     tguard held (conflict ''current device lease does not authorize this action'')))))"

definition matches_identity :: "action_row \<Rightarrow> action_identity \<Rightarrow> bool" where
  "matches_identity r x \<longleftrightarrow> aw_action_key r = xi_action_key x \<and> aw_tenant_id r = xi_tenant_id x \<and> aw_task_id r = xi_task_id x \<and>
     aw_device_id r = xi_device_id x \<and> aw_account_id r = xi_account_id x \<and> aw_binding_version r = xi_binding_version x \<and>
     aw_recipe_version_id r = xi_recipe_version_id x \<and> aw_recipe_sha256 r = xi_recipe_sha256 x \<and>
     aw_snapshot_sha256 r = xi_snapshot_sha256 x \<and> aw_action_id r = xi_action_id x \<and> aw_parameter_hash r = xi_parameter_hash x"

record intent_request =
  iq_lease_id :: string
  iq_action_id :: string
  iq_action_key :: string
  iq_parameter_hash :: string
  iq_before_evidence :: string

definition new_action_row :: "menv \<Rightarrow> action_identity \<Rightarrow> mobile_task \<Rightarrow> intent_request \<Rightarrow> action_row" where
  "new_action_row ev x t rq =
     \<lparr>aw_action_key = xi_action_key x, aw_tenant_id = xi_tenant_id x, aw_task_id = xi_task_id x, aw_device_id = xi_device_id x,
      aw_account_id = xi_account_id x, aw_platform_account_id = mk_account_id t, aw_binding_version = xi_binding_version x,
      aw_recipe_version_id = xi_recipe_version_id x, aw_recipe_sha256 = xi_recipe_sha256 x, aw_snapshot_sha256 = xi_snapshot_sha256 x,
      aw_action_id = xi_action_id x, aw_parameter_hash = xi_parameter_hash x, aw_lease_id = iq_lease_id rq, aw_status = ''INTENT'',
      aw_before_evidence = iq_before_evidence rq, aw_reported_evidence = None, aw_resolution_revision = 0, aw_resolution_evidence = None,
      aw_resolved_at = None, aw_created_at = mv_now ev, aw_updated_at = mv_now ev\<rparr>"

text \<open>The result tells whether the action is authorised; otherwise the device has to wait for the reconciliation.\<close>

definition action_intent :: "menv \<Rightarrow> companion_row \<Rightarrow> string \<Rightarrow> intent_request \<Rightarrow> (action_row \<times> bool) mop" where
  "action_intent ev b i rq =
     tbind (owned_action_task b i) (\<lambda>t.
     tbind (tread (identity_of ev t (iq_action_id rq))) (\<lambda>identity.
     tbind (tlift identity) (\<lambda>x.
     tbind (action_lease ev b t (iq_lease_id rq)) (\<lambda>_.
     tbind (tguard (iq_action_key rq = xi_action_key x \<and> iq_parameter_hash rq = xi_parameter_hash x) (conflict ''action identity mismatch'')) (\<lambda>_.
     tbind (tread (\<lambda>db. find_row (\<lambda>r. aw_task_id r = i \<and> aw_action_id r = iq_action_id rq) (mb_actions db))) (\<lambda>found. (case found of
       Some r \<Rightarrow>
         tbind (tguard (matches_identity r x) (conflict ''immutable action identity changed'')) (\<lambda>_.
         tbind (tguard (aw_before_evidence r = iq_before_evidence rq \<and> aw_lease_id r = iq_lease_id rq) (conflict ''intent replay differs'')) (\<lambda>_.
         treturn (r, False)))
     | None \<Rightarrow>
         tbind (tguard (mk_status t = ''RUNNING'' \<and> mk_business_state t = ''RUNNING'') (conflict ''new intent requires RUNNING task'')) (\<lambda>_.
         let r = new_action_row ev x t rq in
         tbind (tread (\<lambda>db. \<exists>y \<in> set (mb_actions db). aw_action_key y = aw_action_key r)) (\<lambda>taken.
         tbind (tguard (\<not> taken) (Plain IntegrityError)) (\<lambda>_.
         tbind (tmodify (\<lambda>db. db\<lparr>mb_actions := mb_actions db @ [r]\<rparr>)) (\<lambda>_.
         tbind (update_task i (\<lambda>t. t\<lparr>mk_business_state := ''RECONCILING''\<rparr>)) (\<lambda>_.
         tbind (audit_action ev r (cb_id b) ''intent'') (\<lambda>_. treturn (r, True))))))))))))))"

definition reported :: "menv \<Rightarrow> outcome_request \<Rightarrow> action_row \<Rightarrow> action_row" where
  "reported ev rq r = r\<lparr>aw_status := or_status rq, aw_reported_evidence := Some (or_evidence rq), aw_updated_at := mv_now ev\<rparr>"

definition find_action :: "mobile_task \<Rightarrow> string \<Rightarrow> action_row mop" where
  "find_action t key =
     tbind (tsome (\<lambda>db. find_row (\<lambda>r. aw_action_key r = key) (mb_actions db)) (missing ''action'')) (\<lambda>r.
     tbind (tguard (aw_task_id r = mk_id t \<and> aw_tenant_id r = mk_tenant_id t) (missing ''action'')) (\<lambda>_. treturn r))"

definition decided_outcome :: "menv \<Rightarrow> companion_row \<Rightarrow> action_row \<Rightarrow> outcome_request \<Rightarrow> outcome_decision \<Rightarrow> action_row mop" where
  "decided_outcome ev b r rq decision = (case decision of
     Replay \<Rightarrow> treturn r
   | Apply \<Rightarrow>
       tbind (tmodify (\<lambda>db. db\<lparr>mb_actions := upd_where (\<lambda>y. aw_action_key y = aw_action_key r) (reported ev rq) (mb_actions db)\<rparr>)) (\<lambda>_.
       tbind (audit_action ev (reported ev rq r) (cb_id b) ''outcome'') (\<lambda>_. treturn (reported ev rq r))))"

definition action_outcome :: "menv \<Rightarrow> companion_row \<Rightarrow> string \<Rightarrow> string \<Rightarrow> outcome_request \<Rightarrow> action_row mop" where
  "action_outcome ev b i key rq =
     tbind (owned_action_task b i) (\<lambda>t.
     tbind (find_action t key) (\<lambda>r.
     tbind (tread (identity_of ev t (aw_action_id r))) (\<lambda>identity.
     tbind (tlift identity) (\<lambda>x.
     tbind (action_lease ev b t (or_lease_id rq)) (\<lambda>_.
     tbind (tguard (matches_identity r x) (conflict ''immutable action identity changed'')) (\<lambda>_.
     tbind (tlift (outcome_guard r (mk_business_state t) rq)) (\<lambda>decision.
     decided_outcome ev b r rq decision)))))))"

definition get_action :: "companion_row \<Rightarrow> string \<Rightarrow> string \<Rightarrow> action_row mop" where
  "get_action b i key = tbind (owned_action_task b i) (\<lambda>t. find_action t key)"

end
