(* ===== verification/Mobile_Laws.thy ===== *)
theory Mobile_Laws
  imports Mobile_Actions "HOL-Library.Sublist"
begin

text \<open>
  What every operation on mobile tasks keeps: a relation between the rows of a task before and after, the growth of the
  ledger of actions, and one lemma per operation that it evolves the two tables accordingly.
\<close>

subsection \<open>Small steps of the transactions\<close>

lemma mop_Inr [simp]:
  "update_task i f db = Inr (u, db') \<longleftrightarrow> db' = db\<lparr>mb_tasks := upd_where (\<lambda>t. mk_id t = i) f (mb_tasks db)\<rparr>"
  "update_core h db = Inr (u, db') \<longleftrightarrow> db' = db\<lparr>mb_core := h (mb_core db)\<rparr>"
  "settle_reply i st db = Inr (u, db') \<longleftrightarrow> db' = db\<lparr>mb_core := settle_reply_delivery i st (mb_core db)\<rparr>"
  "mrequire a p db = Inr (u, db') \<longleftrightarrow> p \<in> effective_permissions (actor_roles a) \<and> db' = db"
  "flush_tasks db = Inr (u, db') \<longleftrightarrow> task_indexes (mb_tasks db) \<and> db' = db"
  "tenant_task a i db = Inr (t, db') \<longleftrightarrow> get_task_row i db = Some t \<and> mk_tenant_id t = tenant_of a \<and> db' = db"
  "tenant_device a i db = Inr (d, db') \<longleftrightarrow> get_device i db = Some d \<and> de_tenant_id d = tenant_of a \<and> db' = db"
  "owned_task b i db = Inr (t, db') \<longleftrightarrow>
     get_task_row i db = Some t \<and> mk_tenant_id t = cb_tenant_id b \<and> mk_device_id t = cb_device_id b \<and> db' = db"
  "transition_of table t db = Inr (outcome, db') \<longleftrightarrow> map_of table (business_state_of t) = Some outcome \<and> db' = db"
  using require_permissions_ok[of "actor_roles a" "[p]"]
  by (auto simp: update_task_def update_core_def settle_reply_def mrequire_def tlift_def flush_tasks_def tenant_task_def tenant_device_def
      owned_task_def transition_of_def split: sum.splits)

lemma mop_core_Inr [simp]:
  "mnew_id ev db = Inr (n, db') \<longleftrightarrow> n = mv_id ev (db_next (mb_core db)) \<and> db' = db\<lparr>mb_core := (mb_core db)\<lparr>db_next := db_next (mb_core db) + 1\<rparr>\<rparr>"
  "update_device i f db = Inr (u, db') \<longleftrightarrow>
     db' = db\<lparr>mb_core := (mb_core db)\<lparr>db_devices := upd_where (\<lambda>d. de_id d = i) f (db_devices (mb_core db))\<rparr>\<rparr>"
  "update_device_lease i g db = Inr (u, db') \<longleftrightarrow>
     db' = db\<lparr>mb_core := (mb_core db)\<lparr>db_leases := upd_where (\<lambda>l. le_device_id l = i) g (db_leases (mb_core db))\<rparr>\<rparr>"
  "replace_lease l db = Inr (u, db') \<longleftrightarrow> db' = db\<lparr>mb_core := (mb_core db)
     \<lparr>db_leases := filter (\<lambda>x. le_device_id x \<noteq> le_device_id l) (db_leases (mb_core db)) @ [l]\<rparr>\<rparr>"
  by (auto simp: mnew_id_def Let_def update_device_def update_device_lease_def replace_lease_def)

lemma get_task_row_core [simp]: "get_task_row i (db\<lparr>mb_core := c\<rparr>) = get_task_row i db"
  by (simp add: get_task_row_def)

lemma locked_task_Inr [simp]:
  "locked_task a i db = Inr (p, db') \<longleftrightarrow>
     get_task_row i db = Some (fst p) \<and> mk_tenant_id (fst p) = tenant_of a \<and> get_device (mk_device_id (fst p)) db = Some (snd p) \<and>
     de_tenant_id (snd p) = tenant_of a \<and> db' = db"
  by (cases p) (auto simp: locked_task_def)

text \<open>The two tables that the laws are about; most steps leave them alone.\<close>

definition mtabs :: "mdb \<Rightarrow> mobile_task list \<times> action_row list" where
  "mtabs db = (mb_tasks db, mb_actions db)"

lemma mtabs_core [simp]: "mtabs (db\<lparr>mb_core := c\<rparr>) = mtabs db"
  by (simp add: mtabs_def)

lemma leaves_mtabs [keeps_intros]:
  "leaves mtabs (mnew_id ev)" "leaves mtabs (update_core h)" "leaves mtabs (update_device d k)" "leaves mtabs (update_device_lease d m)"
  "leaves mtabs (replace_lease l)" "leaves mtabs (settle_reply i st)"
  by (auto simp: leaves_def mnew_id_def Let_def update_device_def update_device_lease_def replace_lease_def)

lemma leaves_mtabs_audit [keeps_intros]:
  "leaves mtabs (audit_control_event ev i action who kind extra)" "leaves mtabs (audit_action ev r who kind')"
  "leaves mtabs (release_occupation ev t)" "leaves mtabs (audit_pin ev b i metadata)"
  unfolding audit_control_event_def audit_action_def release_occupation_def audit_pin_def
  by (intro keeps_intros)+

lemmas frame = leaves_mtabs[THEN keepsD] leaves_mtabs_audit[THEN keepsD]

subsection \<open>The relation of a task before and after\<close>

definition committed :: "mobile_task \<Rightarrow> bool" where
  "committed t \<longleftrightarrow> mk_business_state t = ''RECONCILING'' \<and> active_task t \<or>
     mk_business_state t = ''SUCCEEDED'' \<and> mk_status t = ''SUCCEEDED'' \<or> mk_business_state t = ''FAILED'' \<and> mk_status t = ''FAILED''"

definition final :: "mobile_task \<Rightarrow> bool" where
  "final t \<longleftrightarrow> mk_status t \<in> {''SUCCEEDED'', ''FAILED''} \<and> mk_business_state t \<in> set TERMINAL_BUSINESS"

text \<open>
  The control events on the header: their revisions increase and stay below the next one, and at most fifty of them are
  not protected. From one row to the next the revision does not fall and no protected event is lost.
\<close>

fun event_revision :: "json \<Rightarrow> int" where
  "event_revision (JObj d) = (case dget d ''revision'' of Some (JInt n) \<Rightarrow> n | _ \<Rightarrow> 0)"
| "event_revision _ = 0"

abbreviation control_events :: "mobile_task \<Rightarrow> json list" where
  "control_events t \<equiv> header_events (control_header t)"

definition events_ok :: "mobile_task \<Rightarrow> bool" where
  "events_ok t \<longleftrightarrow> sorted_wrt (<) (map event_revision (control_events t) @ [control_revision t + 1]) \<and>
     length (filter (\<lambda>e. \<not> protected_event e) (control_events t)) \<le> MAX_CONTROL_EVENTS"

definition controls_kept :: "mobile_task \<Rightarrow> mobile_task \<Rightarrow> bool" where
  "controls_kept t t' \<longleftrightarrow> control_revision t \<le> control_revision t' \<and>
     prefix (filter protected_event (control_events t)) (filter protected_event (control_events t')) \<and> (events_ok t \<longrightarrow> events_ok t')"

lemma controls_kept_trans: "controls_kept t t' \<Longrightarrow> controls_kept t' t'' \<Longrightarrow> controls_kept t t''"
  by (auto simp: controls_kept_def intro: prefix_order.trans)

lemma controls_kept_same:
  "control_events t' = control_events t \<Longrightarrow> control_revision t' = control_revision t \<Longrightarrow> controls_kept t t'"
  by (simp add: controls_kept_def events_ok_def)

lemma controls_kept_steps [simp]: "mk_steps t' = mk_steps t \<Longrightarrow> controls_kept t t'"
  by (rule controls_kept_same) (simp_all add: control_header_def control_revision_def)

lemma controls_kept_cong: "mk_steps t1 = mk_steps t2 \<Longrightarrow> controls_kept t t1 = controls_kept t t2"
  by (simp add: controls_kept_def events_ok_def control_header_def control_revision_def)

lemma controls_kept_fields [simp]:
  "controls_kept t (x\<lparr>mk_status := s\<rparr>) = controls_kept t x" "controls_kept t (x\<lparr>mk_business_state := s\<rparr>) = controls_kept t x"
  "controls_kept t (x\<lparr>mk_stall_reason := o1\<rparr>) = controls_kept t x" "controls_kept t (x\<lparr>mk_reconciliation := d\<rparr>) = controls_kept t x"
  "controls_kept t (x\<lparr>mk_completed_at := o2\<rparr>) = controls_kept t x" "controls_kept t (x\<lparr>mk_detail := o3\<rparr>) = controls_kept t x"
  "controls_kept t (x\<lparr>mk_result := d'\<rparr>) = controls_kept t x" "controls_kept t (x\<lparr>mk_error_code := o4\<rparr>) = controls_kept t x"
  "controls_kept t (x\<lparr>mk_lease_id := o5\<rparr>) = controls_kept t x" "controls_kept t (x\<lparr>mk_lease_expires_at := o6\<rparr>) = controls_kept t x"
  by (rule controls_kept_cong, simp)+

lemma retain_protected: "filter protected_event (retain_control_events es) = filter protected_event es"
proof -
  have "filter protected_event es = filter protected_event (take n es) @ filter protected_event (drop n es)" for n
    by (simp flip: filter_append)
  then show ?thesis by (simp add: retain_control_events_def Let_def)
qed

lemma retain_bound: "length (filter (\<lambda>e. \<not> protected_event e) (retain_control_events es)) \<le> MAX_CONTROL_EVENTS"
proof -
  have "length (filter (\<lambda>e. \<not> protected_event e) (drop (length es - MAX_CONTROL_EVENTS) es)) \<le> length (drop (length es - MAX_CONTROL_EVENTS) es)"
    by (rule length_filter_le)
  also have "\<dots> \<le> MAX_CONTROL_EVENTS" by simp
  finally show ?thesis by (simp add: retain_control_events_def Let_def)
qed

lemma retain_sorted: "sorted_wrt R (map f es @ [x]) \<Longrightarrow> sorted_wrt R (map f (retain_control_events es) @ [x])"
proof -
  assume a: "sorted_wrt R (map f es @ [x])"
  define n where "n = length es - MAX_CONTROL_EVENTS"
  have "es = take n es @ drop n es" by simp
  with a have "sorted_wrt R (map f (take n es) @ map f (drop n es) @ [x])" by (metis append.assoc map_append)
  then show ?thesis
    by (auto simp: retain_control_events_def Let_def n_def[symmetric] sorted_wrt_append sorted_wrt_map sorted_wrt_filter)
qed

lemma record_controls:
  shows "control_events (record_control_event ev k r w t) = retain_control_events (control_events t @ [event_json
      \<lparr>ce_revision = control_revision t + 1, ce_event = k, ce_reason = take 160 r, ce_actor = take 128 w, ce_issued_at = mv_iso ev (mv_now ev)\<rparr>])"
    "control_revision (record_control_event ev k r w t) = control_revision t + 1"
  by (simp_all add: record_control_event_def control_revision_def control_header_def set_header_def header_events_def header_revision_def Let_def)

lemma record_controls_kept: "controls_kept t (record_control_event ev k r w t)"
proof -
  let ?e = "event_json \<lparr>ce_revision = control_revision t + 1, ce_event = k, ce_reason = take 160 r, ce_actor = take 128 w, ce_issued_at = mv_iso ev (mv_now ev)\<rparr>"
  have e: "event_revision ?e = control_revision t + 1" by (simp add: event_json_def)
  have "events_ok (record_control_event ev k r w t)" if "events_ok t"
  proof -
    have "sorted_wrt (<) (map event_revision (control_events t @ [?e]) @ [control_revision t + 1 + 1])"
      using that e by (auto simp: events_ok_def sorted_wrt_append)
    from retain_sorted[OF this] show ?thesis by (simp add: events_ok_def record_controls retain_bound)
  qed
  then show ?thesis by (simp add: controls_kept_def record_controls retain_protected)
qed

lemma record_kept [simp]: "controls_kept t x \<Longrightarrow> controls_kept t (record_control_event ev k r w x)"
  using controls_kept_trans[OF _ record_controls_kept] .

definition task_rel :: "bool \<Rightarrow> mobile_task \<Rightarrow> mobile_task \<Rightarrow> bool" where
  "task_rel L t t' \<longleftrightarrow> mk_id t' = mk_id t \<and> mk_tenant_id t' = mk_tenant_id t \<and> mk_device_id t' = mk_device_id t \<and>
     (L \<and> committed t \<longrightarrow> committed t') \<and> (final t \<longrightarrow> mk_status t' = mk_status t \<and> mk_business_state t' = mk_business_state t) \<and>
     controls_kept t t'"

lemma task_rel_refl [simp]: "task_rel L t t"
  by (simp add: task_rel_def)

lemma final_cong: "mk_status t' = mk_status t \<Longrightarrow> mk_business_state t' = mk_business_state t \<Longrightarrow> final t' = final t"
  by (simp add: final_def)

lemma task_rel_trans: "task_rel L t t' \<Longrightarrow> task_rel L t' t'' \<Longrightarrow> task_rel L t t''"
  unfolding task_rel_def using final_cong[of t' t] controls_kept_trans[of t t' t''] by metis

text \<open>An update that changes neither the status nor the business state, or hits a task that is neither committed nor final.\<close>

lemma task_rel_same:
  "mk_id t' = mk_id t \<Longrightarrow> mk_tenant_id t' = mk_tenant_id t \<Longrightarrow> mk_device_id t' = mk_device_id t \<Longrightarrow>
   mk_status t' = mk_status t \<Longrightarrow> mk_business_state t' = mk_business_state t \<Longrightarrow> controls_kept t t' \<Longrightarrow> task_rel L t t'"
  by (simp add: task_rel_def committed_def active_task_def)

lemma task_rel_open:
  "mk_id t' = mk_id t \<Longrightarrow> mk_tenant_id t' = mk_tenant_id t \<Longrightarrow> mk_device_id t' = mk_device_id t \<Longrightarrow>
   \<not> committed t \<Longrightarrow> \<not> final t \<Longrightarrow> controls_kept t t' \<Longrightarrow> task_rel L t t'"
  by (simp add: task_rel_def)

lemma record_fields [simp]:
  "mk_id (record_control_event ev k r w t) = mk_id t" "mk_tenant_id (record_control_event ev k r w t) = mk_tenant_id t"
  "mk_device_id (record_control_event ev k r w t) = mk_device_id t" "mk_status (record_control_event ev k r w t) = mk_status t"
  "mk_business_state (record_control_event ev k r w t) = mk_business_state t"
  "mk_lease_id (record_control_event ev k r w t) = mk_lease_id t" "mk_idempotency_key (record_control_event ev k r w t) = mk_idempotency_key t"
  by (simp_all add: record_control_event_def set_header_def Let_def)

lemma stamp_fields [simp]:
  "mk_id (stamp_epoch n t) = mk_id t" "mk_tenant_id (stamp_epoch n t) = mk_tenant_id t" "mk_device_id (stamp_epoch n t) = mk_device_id t"
  "mk_status (stamp_epoch n t) = mk_status t" "mk_business_state (stamp_epoch n t) = mk_business_state t"
  "mk_id (stamp_claim ev n fleet t) = mk_id t" "mk_tenant_id (stamp_claim ev n fleet t) = mk_tenant_id t"
  "mk_device_id (stamp_claim ev n fleet t) = mk_device_id t" "mk_status (stamp_claim ev n fleet t) = mk_status t"
  "mk_business_state (stamp_claim ev n fleet t) = mk_business_state t"
  by (simp_all add: stamp_epoch_def stamp_claim_def Let_def split: list.splits)

lemma header_update [simp]:
  "k \<noteq> ''controlEvents'' \<Longrightarrow> header_events (AList.update k v h) = header_events h"
  "k \<noteq> ''controlRevision'' \<Longrightarrow> header_revision (AList.update k v h) = header_revision h"
  by (simp_all add: header_events_def header_revision_def)

lemma stamp_controls: "controls_kept t (stamp_epoch n t)" "controls_kept t (stamp_claim ev n fleet t)"
  by (rule controls_kept_same;
      simp add: stamp_epoch_def stamp_claim_def control_revision_def control_header_def Let_def split: list.splits option.splits)+

lemma stamp_kept [simp]: "controls_kept t x \<Longrightarrow> controls_kept t (stamp_epoch n x)" "controls_kept t x \<Longrightarrow> controls_kept t (stamp_claim ev n fleet x)"
  using controls_kept_trans[OF _ stamp_controls(1)] controls_kept_trans[OF _ stamp_controls(2)] by blast+

subsection \<open>Evolution of the tables\<close>

definition ledger :: "mdb \<Rightarrow> string \<Rightarrow> bool" where
  "ledger db i \<longleftrightarrow> (\<exists>r \<in> set (mb_actions db). aw_task_id r = i)"

text \<open>An action keeps its identity, its phase never goes back, and a resolved one stays as it is.\<close>

definition action_rel :: "bool \<Rightarrow> action_row \<Rightarrow> action_row \<Rightarrow> bool" where
  "action_rel F r r' \<longleftrightarrow> aw_action_key r' = aw_action_key r \<and> aw_task_id r' = aw_task_id r \<and> aw_action_id r' = aw_action_id r \<and>
     aw_tenant_id r' = aw_tenant_id r \<and> aw_resolution_revision r \<le> aw_resolution_revision r' \<and>
     phase_transition_allowed (action_phase r) (action_phase r') \<and> (F \<longrightarrow> r' = r)"

lemma action_rel_refl [simp]: "action_rel F r r"
  by (simp add: action_rel_def phase_transition_allowed_def)

lemma action_rel_trans: "action_rel F r r' \<Longrightarrow> action_rel F r' r'' \<Longrightarrow> action_rel F r r''"
  by (auto simp: action_rel_def phase_transition_allowed_def)

definition final_at :: "mdb \<Rightarrow> string \<Rightarrow> bool" where
  "final_at db i \<longleftrightarrow> (\<exists>t \<in> set (mb_tasks db). mk_id t = i \<and> final t)"

definition evolves :: "mdb \<Rightarrow> mdb \<Rightarrow> bool" where
  "evolves db db' \<longleftrightarrow>
     (\<exists>g. mb_tasks db' = map g (mb_tasks db) \<and> (\<forall>t \<in> set (mb_tasks db). task_rel (ledger db (mk_id t)) t (g t))) \<and>
     (\<exists>h. mb_actions db' = map h (mb_actions db) \<and> (\<forall>r \<in> set (mb_actions db). action_rel (final_at db (aw_task_id r)) r (h r)))"

lemma evolvesI:
  "mb_tasks db' = map g (mb_tasks db) \<Longrightarrow> (\<And>t. t \<in> set (mb_tasks db) \<Longrightarrow> task_rel (ledger db (mk_id t)) t (g t)) \<Longrightarrow>
   mb_actions db' = map h (mb_actions db) \<Longrightarrow>
   (\<And>r. r \<in> set (mb_actions db) \<Longrightarrow> action_rel (final_at db (aw_task_id r)) r (h r)) \<Longrightarrow> evolves db db'"
  unfolding evolves_def by blast

lemma evolves_frame: "mtabs db' = mtabs db \<Longrightarrow> evolves db db'"
  by (rule evolvesI[where g = id and h = id]) (simp_all add: mtabs_def)

lemma evolves_refl [simp]: "evolves db db"
  by (simp add: evolves_frame)

lemma evolves_ledger: "evolves db db' \<Longrightarrow> ledger db' i = ledger db i"
  unfolding evolves_def ledger_def action_rel_def by fastforce

lemma evolves_final: assumes "evolves db db'" "final_at db i" shows "final_at db' i"
proof -
  obtain g t where g: "mb_tasks db' = map g (mb_tasks db)" and t: "t \<in> set (mb_tasks db)" "mk_id t = i" "final t"
    and r: "task_rel (ledger db (mk_id t)) t (g t)"
    using assms by (auto simp: evolves_def final_at_def)
  then have "final (g t)" using final_cong[of "g t" t] by (simp add: task_rel_def)
  then show ?thesis using g t r by (auto simp: final_at_def task_rel_def)
qed

lemma evolves_trans: assumes "evolves db1 db2" "evolves db2 db3" shows "evolves db1 db3"
proof -
  obtain g h where g: "mb_tasks db2 = map g (mb_tasks db1)" "\<forall>t \<in> set (mb_tasks db1). task_rel (ledger db1 (mk_id t)) t (g t)"
    and h: "mb_actions db2 = map h (mb_actions db1)" "\<forall>r \<in> set (mb_actions db1). action_rel (final_at db1 (aw_task_id r)) r (h r)"
    using assms(1) by (auto simp: evolves_def)
  obtain g' h' where g': "mb_tasks db3 = map g' (mb_tasks db2)" "\<forall>t \<in> set (mb_tasks db2). task_rel (ledger db2 (mk_id t)) t (g' t)"
    and h': "mb_actions db3 = map h' (mb_actions db2)" "\<forall>r \<in> set (mb_actions db2). action_rel (final_at db2 (aw_task_id r)) r (h' r)"
    using assms(2) by (auto simp: evolves_def)
  have "task_rel (ledger db1 (mk_id t)) t (g' (g t))" if "t \<in> set (mb_tasks db1)" for t
  proof (rule task_rel_trans)
    show "task_rel (ledger db1 (mk_id t)) t (g t)" using g(2) that by blast
    then have "mk_id (g t) = mk_id t" by (simp add: task_rel_def)
    moreover have "task_rel (ledger db2 (mk_id (g t))) (g t) (g' (g t))" using g'(2) g(1) that by simp
    ultimately show "task_rel (ledger db1 (mk_id t)) (g t) (g' (g t))" using evolves_ledger[OF assms(1)] by simp
  qed
  moreover have "action_rel (final_at db1 (aw_task_id r)) r (h' (h r))" if "r \<in> set (mb_actions db1)" for r
  proof (rule action_rel_trans)
    show 1: "action_rel (final_at db1 (aw_task_id r)) r (h r)" using h(2) that by blast
    have "action_rel (final_at db2 (aw_task_id (h r))) (h r) (h' (h r))" using h'(2) h(1) that by simp
    then show "action_rel (final_at db1 (aw_task_id r)) (h r) (h' (h r))"
      using 1 evolves_final[OF assms(1)] by (auto simp: action_rel_def)
  qed
  ultimately show ?thesis
    by (intro evolvesI[where g = "g' \<circ> g" and h = "h' \<circ> h"]) (simp_all add: g(1) g'(1) h(1) h'(1))
qed

definition unique_tasks :: "mdb \<Rightarrow> bool" where
  "unique_tasks db \<longleftrightarrow> distinct (map mk_id (mb_tasks db))"

lemma evolves_ids: "evolves db db' \<Longrightarrow> map mk_id (mb_tasks db') = map mk_id (mb_tasks db)"
  by (auto simp: evolves_def task_rel_def)

lemma evolves_unique: "evolves db db' \<Longrightarrow> unique_tasks db \<Longrightarrow> unique_tasks db'"
  by (simp add: unique_tasks_def evolves_ids)

lemma get_task_rowD: "get_task_row i db = Some t \<Longrightarrow> t \<in> set (mb_tasks db) \<and> mk_id t = i"
  unfolding get_task_row_def by (drule find_row_SomeD) simp

lemma unique_task: "unique_tasks db \<Longrightarrow> get_task_row i db = Some t \<Longrightarrow> x \<in> set (mb_tasks db) \<Longrightarrow> mk_id x = i \<Longrightarrow> x = t"
  using get_task_rowD[of i db t] by (auto simp: unique_tasks_def distinct_map inj_on_def)

text \<open>The update of one task, found by its id.\<close>

lemma evolves_update:
  assumes "unique_tasks db" "get_task_row i db = Some t" "task_rel (ledger db i) t (f t)"
    and "mtabs db' = (upd_where (\<lambda>t. mk_id t = i) f (mb_tasks db), mb_actions db)"
  shows "evolves db db'"
proof -
  have "task_rel (ledger db (mk_id x)) x (if mk_id x = i then f x else x)" if "x \<in> set (mb_tasks db)" for x
    using unique_task[OF assms(1,2) that] assms(3) by auto
  then show ?thesis using assms(4)
    by (intro evolvesI[where g = "\<lambda>t. if mk_id t = i then f t else t" and h = id]) (simp_all add: mtabs_def upd_where_def)
qed

lemma get_task_row_update:
  assumes "get_task_row i db = Some t" "mk_id (f t) = i" "mb_tasks db' = upd_where (\<lambda>t. mk_id t = i) f (mb_tasks db)"
    and "unique_tasks db"
  shows "get_task_row i db' = Some (f t)"
proof -
  have "find_row (\<lambda>t. mk_id t = i) (upd_where (\<lambda>t. mk_id t = i) f ts) = Some (f t)"
    if "find_row (\<lambda>t. mk_id t = i) ts = Some t" for ts
    using that assms(2) by (induction ts) (auto simp: find_row_def upd_where_def split: if_splits)
  then show ?thesis using assms by (simp add: get_task_row_def)
qed

subsection \<open>Rules for transactions\<close>

text \<open>\<open>evo db f\<close>: a successful run of \<open>f\<close> from \<open>db\<close> evolves the tables. The rules follow the structure of an operation.\<close>

definition evo :: "mdb \<Rightarrow> 'a mop \<Rightarrow> bool" where
  "evo db f \<longleftrightarrow> (\<forall>a db'. f db = Inr (a, db') \<longrightarrow> evolves db db')"

named_theorems evo_intros "structural rules for \<open>evo\<close>"

lemma evoD: "evo db f \<Longrightarrow> f db = Inr (a, db') \<Longrightarrow> evolves db db'"
  by (simp add: evo_def)

lemma evo_bind [evo_intros]: "evo db f \<Longrightarrow> (\<And>x db1. f db = Inr (x, db1) \<Longrightarrow> evo db1 (g x)) \<Longrightarrow> evo db (tbind f g)"
  unfolding evo_def by (auto intro: evolves_trans)

lemma evo_pure [evo_intros]:
  "evo db (treturn a)" "evo db (tfail e)" "evo db (tread h)" "evo db (tguard p e)" "evo db (tlift r)" "evo db (tsome l e)"
  by (auto simp: evo_def)

lemma evo_when [evo_intros]: "(b \<Longrightarrow> evo db f) \<Longrightarrow> evo db (twhen b f)"
  by (simp add: twhen_def evo_pure)

lemma evo_if [evo_intros]: "(b \<Longrightarrow> evo db f) \<Longrightarrow> (\<not> b \<Longrightarrow> evo db g) \<Longrightarrow> evo db (if b then f else g)"
  by simp

lemma evo_option [evo_intros]:
  "(x = None \<Longrightarrow> evo db f) \<Longrightarrow> (\<And>y. x = Some y \<Longrightarrow> evo db (g y)) \<Longrightarrow> evo db (case x of None \<Rightarrow> f | Some y \<Rightarrow> g y)"
  by (cases x) auto

lemma evo_list [evo_intros]:
  "(x = [] \<Longrightarrow> evo db f) \<Longrightarrow> (\<And>y ys. x = y # ys \<Longrightarrow> evo db (g y ys)) \<Longrightarrow> evo db (case x of [] \<Rightarrow> f | y # ys \<Rightarrow> g y ys)"
  by (cases x) auto

lemma evo_prod [evo_intros]: "(\<And>u v. x = (u, v) \<Longrightarrow> evo db (g u v)) \<Longrightarrow> evo db (case x of (u, v) \<Rightarrow> g u v)"
  by (cases x) auto

lemma evo_let [evo_intros]: "(\<And>y. y = x \<Longrightarrow> evo db (f y)) \<Longrightarrow> evo db (let y = x in f y)"
  by (simp add: Let_def)

lemma evo_frame: "leaves mtabs f \<Longrightarrow> evo db f"
  by (auto simp: evo_def leaves_def intro: evolves_frame)

lemmas evo_frames [evo_intros] = leaves_mtabs[THEN evo_frame] leaves_mtabs_audit[THEN evo_frame]

lemma evo_reads [evo_intros]:
  "evo db (mrequire a p)" "evo db flush_tasks" "evo db (tenant_task a i)" "evo db (tenant_device a i)" "evo db (owned_task b i)"
  "evo db (transition_of table t)" "evo db (locked_task a i)"
  by (auto simp: evo_def)

lemma evo_update:
  assumes "unique_tasks db" "get_task_row i db = Some t" "task_rel (ledger db i) t (f t)"
  shows "evo db (update_task i f)"
  unfolding evo_def using evolves_update[where f = f, OF assms] by (auto simp: mtabs_def)

lemma evo_header:
  assumes "\<And>x L. task_rel L x (f x)" shows "evo db (update_task i f)"
  unfolding evo_def
proof (intro allI impI)
  fix u db' assume "update_task i f db = Inr (u, db')"
  then show "evolves db db'"
    by (intro evolvesI[where g = "\<lambda>t. if mk_id t = i then f t else t" and h = id]) (auto simp: upd_where_def assms)
qed

lemma record_rel [simp]: "task_rel L t (record_control_event ev k r w t)"
  by (rule task_rel_same) simp_all

lemma evo_record [evo_intros]: "evo db (update_task i (record_control_event ev k r w))" "evo db (update_task i (append_control_event ev k r w))"
  by (rule evo_header, simp add: append_record)+

subsection \<open>Operations of the operator\<close>

lemma closed_states: "committed t \<or> final t \<Longrightarrow> business_state_of t \<in> {''RECONCILING'', ''SUCCEEDED'', ''FAILED'', ''CANCELLED'', ''EXPIRED''}"
  by (auto simp: committed_def final_def TERMINAL_BUSINESS_def business_state_of_def)

lemma cancel_open:
  "map_of CANCEL_TRANSITIONS (business_state_of t) = Some x \<Longrightarrow> x \<notin> {''IDEMPOTENT_RETURN'', ''REJECTED_TERMINAL'', ''REJECTED_RECONCILE_FIRST''} \<Longrightarrow>
   \<not> committed t \<and> \<not> final t"
  using closed_states[of t] by (auto simp: CANCEL_TRANSITIONS_def)

lemma pause_open:
  "map_of PAUSE_TRANSITIONS (business_state_of t) = Some x \<Longrightarrow> x \<notin> {''REJECTED_TERMINAL'', ''REJECTED_RECONCILE_FIRST''} \<Longrightarrow>
   \<not> committed t \<and> \<not> final t"
  using closed_states[of t] by (auto simp: PAUSE_TRANSITIONS_def)

lemma ack_open:
  "map_of ACK_PAUSED_TRANSITIONS (business_state_of t) = Some x \<Longrightarrow> x \<notin> {''REJECTED_TERMINAL'', ''REJECTED_RECONCILE_FIRST''} \<Longrightarrow>
   \<not> committed t \<and> \<not> final t"
  using closed_states[of t] by (auto simp: ACK_PAUSED_TRANSITIONS_def)

lemma resume_open: "map_of RESUME_TRANSITIONS (business_state_of t) = Some ''RESUME_CHECK'' \<Longrightarrow> \<not> committed t \<and> \<not> final t"
  using closed_states[of t] by (auto simp: RESUME_TRANSITIONS_def)

lemma evo_open:
  assumes "unique_tasks db" "get_task_row i db = Some t" "\<not> committed t \<and> \<not> final t"
    and "mk_id (f t) = mk_id t" "mk_tenant_id (f t) = mk_tenant_id t" "mk_device_id (f t) = mk_device_id t" "controls_kept t (f t)"
  shows "evo db (update_task i f)"
  by (rule evo_update[OF assms(1,2)]) (use assms(3-) in \<open>auto intro: task_rel_open\<close>)

lemma unique_tasks_core [simp]: "unique_tasks (db\<lparr>mb_core := c\<rparr>) = unique_tasks db"
  by (simp add: unique_tasks_def)

lemma cancel_evo: assumes "unique_tasks db" shows "evo db (cancel_task ev a i reason)"
  unfolding cancel_task_def
  apply (intro evo_intros; clarsimp)
  subgoal by (rule evo_open[OF assms], assumption, rule cancel_open, assumption) (simp_all add: cancel_requested_def)
  subgoal by (rule evo_open[OF assms], assumption, rule cancel_open, assumption) (simp_all add: cancelled_now_def)
  done

lemma pause_evo: assumes "unique_tasks db" shows "evo db (pause_task ev a i reason)"
  unfolding pause_task_def
  by (intro evo_intros; clarsimp) (rule evo_open[OF assms], assumption, rule pause_open, assumption, simp_all)

lemma pause_acked_fields [simp]:
  "mk_id (pause_acked ev t) = mk_id t" "mk_tenant_id (pause_acked ev t) = mk_tenant_id t" "mk_device_id (pause_acked ev t) = mk_device_id t" "controls_kept t (pause_acked ev t)"
  by (simp_all add: pause_acked_def Let_def)

lemma ack_evo: assumes "unique_tasks db" shows "evo db (ack_paused ev i lease)"
  unfolding ack_paused_def
  by (intro evo_intros; clarsimp) (rule evo_open[OF assms], assumption, rule ack_open, assumption, simp_all)

lemma stamp_record_rel: "task_rel L t (record_control_event ev k r w (stamp_epoch n t))"
  by (rule task_rel_same) simp_all

lemma resume_evo: assumes "unique_tasks db" shows "evo db (resume_task ev a i reason verified)"
  unfolding resume_task_def
  apply (intro evo_intros)
  subgoal
    by (rule evo_open; clarsimp simp: assms) (auto simp: resumed_def dest!: resume_open)
  subgoal by (rule evo_header) (rule stamp_record_rel)
  done

lemma mark_unknown_evo: assumes "unique_tasks db" shows "evo db (mark_unknown ev a i reason)"
  unfolding mark_unknown_def
proof (intro evo_intros, clarsimp)
  fix t assume t: "get_task_row i db = Some t" "business_state_of t \<notin> set TERMINAL_BUSINESS"
  have "committed (marked_unknown ev a reason t)" if "committed t"
    using that t(2) by (auto simp: committed_def business_state_of_def TERMINAL_BUSINESS_def marked_unknown_def active_task_def)
  moreover have "\<not> final t" using t(2) by (auto simp: final_def business_state_of_def TERMINAL_BUSINESS_def)
  ultimately show "evo db (update_task i (marked_unknown ev a reason))"
    by (intro evo_update[OF assms t(1)]) (simp add: task_rel_def marked_unknown_def)
qed

definition revisions_ok :: "mdb \<Rightarrow> bool" where
  "revisions_ok db \<longleftrightarrow> (\<forall>r \<in> set (mb_actions db). 0 \<le> aw_resolution_revision r)"

lemma resolve_evo: assumes "revisions_ok db" "\<not> final_at db i" shows "evo db (resolve_actions ev a i rq)"
  unfolding resolve_actions_def
proof (intro evo_intros)
  show "evo db (tmodify (\<lambda>db. db\<lparr>mb_actions := upd_where (\<lambda>r. aw_task_id r = i) (resolved_action ev rq) (mb_actions db)\<rparr>))"
    unfolding evo_def tx_Inr
  proof (intro allI impI)
    fix db' assume "db' = db\<lparr>mb_actions := upd_where (\<lambda>r. aw_task_id r = i) (resolved_action ev rq) (mb_actions db)\<rparr>"
    then show "evolves db db'" using assms
      by (intro evolvesI[where g = id and h = "\<lambda>r. if aw_task_id r = i then resolved_action ev rq r else r"])
         (auto simp: upd_where_def action_rel_def resolved_action_def action_phase_def phase_from_def phase_transition_allowed_def revisions_ok_def)
  qed
next
  fix db1 :: mdb and rows show "evo db1 (tmap (\<lambda>r. audit_action ev r (actor_user_id a) ''resolved'') rows)"
    by (rule evo_frame) (intro keeps_intros)
qed

lemma resolve_rows: "resolve_actions ev a i rq db = Inr (u, db') \<Longrightarrow> mb_tasks db' = mb_tasks db"
proof -
  have "leaves mb_tasks (resolve_actions ev a i rq)"
    unfolding resolve_actions_def audit_action_def by (intro keeps_intros) (simp_all add: leaves_def)
  then show "resolve_actions ev a i rq db = Inr (u, db') \<Longrightarrow> mb_tasks db' = mb_tasks db" by (rule keepsD)
qed

lemma reconciled_rel:
  assumes "mk_business_state t \<notin> set TERMINAL_BUSINESS"
  shows "task_rel L t (kept_waiting ev a rq h t)" "task_rel L t (confirmed_applied ev a rq item h t)"
    "task_rel L t (confirmed_not_submitted ev a rq h t)"
  using assms
  by (auto simp: task_rel_def final_def committed_def TERMINAL_BUSINESS_def kept_waiting_def confirmed_applied_def confirmed_not_submitted_def
      active_task_def)

lemma when_resolve_rows: "twhen b (resolve_actions ev a i rq) db = Inr (u, db') \<Longrightarrow> mb_tasks db' = mb_tasks db"
  using resolve_rows by (auto simp: twhen_def split: if_splits)

lemma evo_reconciled:
  assumes "unique_tasks db" "get_task_row i db = Some t" "mb_tasks db1 = mb_tasks db" "\<And>L. task_rel L t (f t)"
  shows "evo db1 (update_task i f)"
  by (rule evo_update[of _ _ t]) (use assms in \<open>simp_all add: unique_tasks_def get_task_row_def\<close>)

lemma not_final_at: "unique_tasks db \<Longrightarrow> get_task_row i db = Some t \<Longrightarrow> mk_business_state t \<notin> set TERMINAL_BUSINESS \<Longrightarrow> \<not> final_at db i"
  using unique_task[of db i t] by (auto simp: final_at_def final_def)

lemma reconcile_evo: assumes "unique_tasks db" "revisions_ok db" shows "evo db (reconcile_task ev a i rq)"
  unfolding reconcile_task_def
proof (intro evo_intros, goal_cases)
  case 1 then show ?case using not_final_at[OF assms(1)] by (clarsimp simp: assms resolve_evo)
next
  case 2 then show ?case by (clarsimp dest!: when_resolve_rows) (erule evo_reconciled[OF assms(1)]; simp add: reconciled_rel)
next
  case 3 then show ?case by (clarsimp dest!: when_resolve_rows) (erule evo_reconciled[OF assms(1)]; simp add: reconciled_rel)
next
  case 4 then show ?case by (clarsimp dest!: when_resolve_rows) (erule evo_reconciled[OF assms(1)]; simp add: reconciled_rel)
qed

subsection \<open>Operations of the runner\<close>

lemma validate_active_lease_Inr [simp]:
  "validate_active_lease ev t lease db = Inr (u, db') \<longleftrightarrow>
     mk_business_state t \<notin> set TERMINAL_BUSINESS \<and> active_task t \<and> mk_lease_id t = Some lease \<and> live_lease (mv_now ev) t \<and> db' = db"
  by (auto simp: validate_active_lease_def)

lemma evo_validate [evo_intros]: "evo db (validate_active_lease ev t lease)" "evo db (result_type_ok t result)"
  by (auto simp: evo_def result_type_ok_def Let_def)

lemma unique_tasks_events [simp]: "unique_tasks (db\<lparr>mb_events := e\<rparr>) = unique_tasks db" "get_task_row i (db\<lparr>mb_events := e\<rparr>) = get_task_row i db"
  by (simp_all add: unique_tasks_def get_task_row_def)

lemma release_evo: assumes "unique_tasks db" shows "evo db (release_task ev b i lease reason)"
  unfolding release_task_def
  by (intro evo_intros; clarsimp)
     (rule evo_open[of _ _ "the (get_task_row i db)"];
      auto simp: assms released_def committed_def final_def TERMINAL_BUSINESS_def)

lemma beaten_rel: "mk_business_state t \<notin> set TERMINAL_BUSINESS \<Longrightarrow> task_rel L t (beaten ev step seconds t)"
  by (auto simp: task_rel_def final_def committed_def TERMINAL_BUSINESS_def beaten_def active_task_def ACTIVE_STATES_def)

lemma heartbeat_evo: assumes "unique_tasks db" shows "evo db (heartbeat_task ev b i lease step seconds)"
  unfolding heartbeat_task_def
  by (intro evo_intros; clarsimp) (rule evo_update[OF assms], assumption, simp add: beaten_rel)

lemma event_rel:
  assumes "mk_business_state t \<notin> set TERMINAL_BUSINESS"
    "\<not> (mk_business_state t = ''RECONCILING'' \<and> event_type \<in> {''PAUSE_REQUESTED'', ''PAUSED_WAITING_USER'', ''RESUME_CHECK''})"
  shows "task_rel L t (event_applied ev n event_type step t)"
  using assms
  by (auto simp: task_rel_def final_def committed_def TERMINAL_BUSINESS_def event_applied_def active_task_def Let_def)

lemma event_evo: assumes "unique_tasks db" shows "evo db (task_event ev b i lease n event_type step payload)"
  unfolding task_event_def
proof (intro evo_intros, goal_cases)
  case 1 then show ?case by (auto simp: evo_def mtabs_def intro: evolves_frame)
next
  case 2 then show ?case by (clarsimp, intro evo_update) (auto simp: assms event_rel)
qed

lemma result_type_ok_state: "result_type_ok t result db = Inr (u, db') \<Longrightarrow> db' = db"
  by (simp add: result_type_ok_def Let_def)

lemma finished_rel:
  assumes "mk_business_state t \<noteq> ''RECONCILING''" "mk_business_state t \<notin> set TERMINAL_BUSINESS"
  shows "task_rel L t (finished ev fo t)"
  using assms by (intro task_rel_open) (auto simp: finished_def committed_def final_def TERMINAL_BUSINESS_def)

lemma finish_evo: assumes "unique_tasks db" shows "evo db (finish_task ev b i lease fo)"
  unfolding finish_task_def
  by (intro evo_intros; clarsimp dest!: result_type_ok_state) (rule evo_update[OF assms], assumption, simp add: finished_rel)

lemma cancelled_fields [simp]:
  "mk_id (cancelled_now now r t) = mk_id t" "mk_tenant_id (cancelled_now now r t) = mk_tenant_id t" "mk_device_id (cancelled_now now r t) = mk_device_id t" "controls_kept t (cancelled_now now r t)"
  by (simp_all add: cancelled_now_def)

lemma deferred_fields [simp]:
  "mk_id (cancel_deferred ev r t) = mk_id t" "mk_tenant_id (cancel_deferred ev r t) = mk_tenant_id t" "mk_device_id (cancel_deferred ev r t) = mk_device_id t" "controls_kept t (cancel_deferred ev r t)"
  by (simp_all add: cancel_deferred_def append_record)

lemma requested_open: "business_state_of t = ''CANCEL_REQUESTED'' \<Longrightarrow> \<not> committed t \<and> \<not> final t"
  using closed_states[of t] by auto

lemma control_ack_evo: assumes "unique_tasks db" shows "evo db (control_ack ev b rq)"
  unfolding control_ack_def
  by (intro evo_intros; clarsimp) (rule evo_open[OF assms], assumption, rule requested_open, simp_all)+

lemma settled_rel:
  assumes "st \<in> {''SUCCEEDED'', ''FAILED''}" shows "task_rel L t (settled ev st result t)"
  using assms by (auto simp: task_rel_def settled_def committed_def final_def Let_def active_task_def)

lemma settle_evo: "st \<in> {''SUCCEEDED'', ''FAILED''} \<Longrightarrow> evo db (settle_task ev i st result)"
  unfolding settle_task_def by (rule evo_header) (rule settled_rel)

lemma block_stale_evolves: "evolves db (block_stale_tasks ev tenant device accounts reason db)"
  unfolding block_stale_tasks_def
  by (rule evolvesI[where g = "\<lambda>t. if stale_task tenant device accounts t
        then (failed_task (mv_now ev) reason t)\<lparr>mk_detail := Some ''account binding changed before execution''\<rparr> else t" and h = id])
     (auto simp: upd_where_def Let_def stale_task_def failed_task_def task_rel_def committed_def final_def active_task_def ACTIVE_STATES_def)

end
