(* ===== verification/Mobile_Claims.thy ===== *)
theory Mobile_Claims
  imports Mobile_Laws
begin

text \<open>
  The claim and the ledger of actions: the tables evolve, a claimed task has no action, and an intent adds the first
  action of a running task.
\<close>

subsection \<open>The claim\<close>

definition queued_at :: "mdb \<Rightarrow> string \<Rightarrow> bool" where
  "queued_at db i \<longleftrightarrow> (\<forall>t \<in> set (mb_tasks db). mk_id t = i \<longrightarrow> mk_status t = ''QUEUED'')"

lemma queued_open: "mk_status t = ''QUEUED'' \<Longrightarrow> \<not> committed t \<and> \<not> final t"
  by (simp add: committed_def final_def active_task_def ACTIVE_STATES_def)

lemma evo_queued:
  assumes "queued_at db i"
    and "\<And>t. mk_id (f t) = mk_id t \<and> mk_tenant_id (f t) = mk_tenant_id t \<and> mk_device_id (f t) = mk_device_id t \<and> controls_kept t (f t)"
  shows "evo db (update_task i f)"
  unfolding evo_def
proof (intro allI impI)
  fix u db' assume "update_task i f db = Inr (u, db')"
  moreover have "task_rel L t (f t)" if "t \<in> set (mb_tasks db)" "mk_id t = i" for t L
    using assms that queued_open[of t] by (intro task_rel_open) (auto simp: queued_at_def)
  ultimately show "evolves db db'"
    by (intro evolvesI[where g = "\<lambda>t. if mk_id t = i then f t else t" and h = id]) (auto simp: upd_where_def)
qed

lemma failed_fields [simp]:
  "mk_id (failed_task now r t) = mk_id t" "mk_tenant_id (failed_task now r t) = mk_tenant_id t" "mk_device_id (failed_task now r t) = mk_device_id t"
  "controls_kept t (failed_task now r t)"
  by (simp_all add: failed_task_def)

lemma consider_evo: assumes "queued_at db (mk_id c)" shows "evo db (consider_candidate ev protocol d capabilities c)"
  unfolding consider_candidate_def
  by (intro evo_intros; clarsimp; rule evo_queued) (use assms in simp_all)

text \<open>What the consideration of a candidate leaves alone.\<close>

lemma consider_effects:
  assumes "consider_candidate ev protocol d capabilities c db = Inr (v, db')"
  shows "mb_actions db' = mb_actions db" "j \<noteq> mk_id c \<Longrightarrow> queued_at db j \<Longrightarrow> queued_at db' j" "v = Take \<Longrightarrow> db' = db \<and> \<not> post_commit_pending c db"
  using assms unfolding consider_candidate_def
  by (auto simp: queued_at_def upd_where_def split: if_splits option.splits list.splits)

lemma select_evo:
  "distinct (map mk_id cs) \<Longrightarrow> (\<And>c. c \<in> set cs \<Longrightarrow> queued_at db (mk_id c)) \<Longrightarrow> evo db (select_candidate ev protocol d capabilities cs)"
proof (induction cs arbitrary: db)
  case Nil show ?case by (simp add: evo_pure)
next
  case (Cons c cs)
  have step: "evo db1 (select_candidate ev protocol d capabilities cs)"
    if "consider_candidate ev protocol d capabilities c db = Inr (v, db1)" for v db1
  proof (rule Cons.IH)
    show "distinct (map mk_id cs)" using Cons.prems(1) by simp
    fix c' assume "c' \<in> set cs"
    then show "queued_at db1 (mk_id c')" using Cons.prems consider_effects(2)[OF that] by (metis distinct.simps(2) image_eqI list.map(2) list.set_intros(2) list.set_map)
  qed
  have "evo db1 (case v of Take \<Rightarrow> treturn (Some c, []) | Skip \<Rightarrow> select_candidate ev protocol d capabilities cs
     | Ineligible m \<Rightarrow> tbind (select_candidate ev protocol d capabilities cs) (\<lambda>(found, rest). treturn (found, (mk_id c, m) # rest)))"
    if "consider_candidate ev protocol d capabilities c db = Inr (v, db1)" for v db1
    using step[OF that] by (cases v) (auto intro!: evo_intros)
  then show ?case unfolding select_candidate.simps by (intro evo_bind consider_evo) (use Cons.prems(2) in auto)
qed

lemma select_found:
  "select_candidate ev protocol d capabilities cs db = Inr ((Some t, rest), db') \<Longrightarrow> distinct (map mk_id cs) \<Longrightarrow>
   (\<And>c. c \<in> set cs \<Longrightarrow> queued_at db (mk_id c)) \<Longrightarrow>
   t \<in> set cs \<and> queued_at db' (mk_id t) \<and> mb_actions db' = mb_actions db \<and> \<not> ledger db (mk_id t)"
proof (induction cs arbitrary: db rest)
  case Nil then show ?case by simp
next
  case (Cons c cs)
  obtain v db1 where v: "consider_candidate ev protocol d capabilities c db = Inr (v, db1)"
    using Cons.prems(1) by auto
  note eff = consider_effects[OF v]
  have q: "queued_at db1 (mk_id c')" if "c' \<in> set cs" for c'
    using Cons.prems(2,3) eff(2)[of "mk_id c'"] that by (metis distinct.simps(2) image_eqI list.map(2) list.set_intros(2) list.set_map)
  have ih: "t \<in> set cs \<and> queued_at db' (mk_id t) \<and> mb_actions db' = mb_actions db1 \<and> \<not> ledger db1 (mk_id t)"
    if "select_candidate ev protocol d capabilities cs db1 = Inr ((Some t, r), db')" for r
    using Cons.IH[OF that] Cons.prems(2) q by simp
  show ?case
  proof (cases v)
    case Take
    then show ?thesis using Cons.prems(1,3) v eff(3) by (auto simp: post_commit_pending_def ledger_def)
  next
    case Skip
    then show ?thesis using Cons.prems(1) v ih eff(1) by (auto simp: ledger_def)
  next
    case (Ineligible m)
    then obtain r where "select_candidate ev protocol d capabilities cs db1 = Inr ((Some t, r), db')"
      using Cons.prems(1) v by (auto split: prod.splits)
    from ih[OF this] show ?thesis using eff(1) by (auto simp: ledger_def)
  qed
qed

lemma claimed_fields [simp]:
  "mk_id (claimed ev l d n t) = mk_id t" "mk_tenant_id (claimed ev l d n t) = mk_tenant_id t" "mk_device_id (claimed ev l d n t) = mk_device_id t"
  "controls_kept t (claimed ev l d n t)"
  by (simp_all add: claimed_def)

lemma pin_evo [evo_intros]: "evo db (pin_recipe ev b t)"
  unfolding pin_recipe_def by (intro evo_intros evo_header task_rel_same) simp_all

lemma reclaim_evo [evo_intros]: "evo db (reclaim_guard ev t)"
  unfolding reclaim_guard_def by (intro evo_intros)

lemma reclaim_state [simp]: "reclaim_guard ev t db = Inr (u, db') \<Longrightarrow> db' = db"
  by (auto simp: reclaim_guard_def split: if_splits)

lemma queued_at_core [simp]: "queued_at (db\<lparr>mb_core := c\<rparr>) i = queued_at db i"
  by (simp add: queued_at_def)

lemma dispatch_evo: assumes "queued_at db (mk_id t)" shows "evo db (dispatch_task ev b seconds d fleet t)"
  unfolding dispatch_task_def
proof (intro evo_intros, goal_cases)
  case 1 then show ?case using assms by (clarsimp dest!: reclaim_state) (rule evo_queued, simp_all)
next
  case 2 then show ?case by (intro evo_header task_rel_same) simp_all
qed

lemma gate_evo [evo_intros]: "evo db (claim_gate ev b)"
  unfolding claim_gate_def by (intro evo_intros)

lemma gate_state: "claim_gate ev b db = Inr (d, db') \<Longrightarrow> db' = db"
  by (auto simp: claim_gate_def)

lemma get_task_row_unique: "unique_tasks db \<Longrightarrow> t \<in> set (mb_tasks db) \<Longrightarrow> get_task_row (mk_id t) db = Some t"
proof (cases "get_task_row (mk_id t) db")
  case None
  then show "unique_tasks db \<Longrightarrow> t \<in> set (mb_tasks db) \<Longrightarrow> get_task_row (mk_id t) db = Some t" by (auto simp: get_task_row_def find_row_None)
next
  case (Some x)
  then show "unique_tasks db \<Longrightarrow> t \<in> set (mb_tasks db) \<Longrightarrow> get_task_row (mk_id t) db = Some t" using unique_task[of db "mk_id t" x t] by simp
qed

lemma first_by_age_mem: "first_by_age ts = Some t \<Longrightarrow> t \<in> set ts"
  by (auto simp: first_by_age_def split: list.splits) (metis list.set_intros(1) set_sort)

lemma requeue_evo:
  assumes "unique_tasks db" "tasks_of b (\<lambda>t. mk_business_state t \<in> set BLOCKING_BUSINESS_STATES) db = []"
    and "first_by_age (tasks_of b active_task db) = Some t"
  shows "evo db (update_task (mk_id t) requeued)"
proof -
  have t: "t \<in> set (mb_tasks db)" "mk_tenant_id t = cb_tenant_id b" "mk_device_id t = cb_device_id b" "active_task t"
    using first_by_age_mem[OF assms(3)] by (auto simp: tasks_of_def)
  then have "mk_business_state t \<noteq> ''RECONCILING''" using assms(2) by (auto simp: tasks_of_def filter_empty_conv BLOCKING_BUSINESS_STATES_def)
  then have "\<not> committed t \<and> \<not> final t" using t(4) by (auto simp: committed_def final_def active_task_def ACTIVE_STATES_def)
  moreover have "get_task_row (mk_id t) db = Some t" by (rule get_task_row_unique[OF assms(1) t(1)])
  ultimately show ?thesis by (intro evo_open[OF assms(1)]) (simp_all add: requeued_def)
qed

lemma requeue_active_evo:
  assumes "unique_tasks db" "tasks_of b (\<lambda>t. mk_business_state t \<in> set BLOCKING_BUSINESS_STATES) db = []"
  shows "evo db (requeue_active (first_by_age (tasks_of b active_task db)))"
  unfolding requeue_active_def by (intro evo_intros) (rule requeue_evo[OF assms])

lemma requeue_active_actions: "requeue_active x db = Inr (u, db') \<Longrightarrow> mb_actions db' = mb_actions db"
  by (auto simp: requeue_active_def split: option.splits)

text \<open>The candidates of a claim are queued, each once.\<close>

lemma candidates_queued:
  assumes "unique_tasks db" and cs: "cs = take n (sort_key mk_created_at (tasks_of b (\<lambda>t. mk_status t = ''QUEUED'') db))"
  shows "distinct (map mk_id cs)" "c \<in> set cs \<Longrightarrow> queued_at db (mk_id c) \<and> c \<in> set (mb_tasks db) \<and> mk_device_id c = cb_device_id b"
proof -
  have "distinct (map mk_id (tasks_of b (\<lambda>t. mk_status t = ''QUEUED'') db))"
    using assms(1) by (simp add: tasks_of_def unique_tasks_def distinct_map_filter)
  then have "distinct (map mk_id (sort_key mk_created_at (tasks_of b (\<lambda>t. mk_status t = ''QUEUED'') db)))"
    by (simp add: distinct_map)
  then show "distinct (map mk_id cs)" unfolding cs by (simp add: distinct_take take_map[symmetric])
  assume "c \<in> set cs"
  then have "c \<in> set (tasks_of b (\<lambda>t. mk_status t = ''QUEUED'') db)" unfolding cs by (metis in_set_takeD set_sort)
  then have c: "c \<in> set (mb_tasks db)" "mk_status c = ''QUEUED''" "mk_device_id c = cb_device_id b" by (auto simp: tasks_of_def)
  have "mk_status t = ''QUEUED''" if "t \<in> set (mb_tasks db)" "mk_id t = mk_id c" for t
    using unique_task[OF assms(1) get_task_row_unique[OF assms(1) c(1)] that] c(2) by simp
  then show "queued_at db (mk_id c) \<and> c \<in> set (mb_tasks db) \<and> mk_device_id c = cb_device_id b" using c by (auto simp: queued_at_def)
qed

lemma claim_evo: assumes "unique_tasks db" shows "evo db (claim ev b seconds protocol)"
  unfolding claim_def
proof (intro evo_intros, goal_cases)
  case 1 then show ?case using requeue_active_evo[OF assms] by (clarsimp dest!: gate_state)
next
  case (2 d db1 fleet db2 capabilities blocking db3 active db4 lease db5 u db6 u' db7 cs db8)
  then have u: "unique_tasks db7"
    using requeue_active_evo[OF assms] evolves_unique[OF _ assms] by (auto simp: evo_def dest!: gate_state)
  show ?case by (rule select_evo) (use 2 candidates_queued[OF u] in auto)
next
  case (3 d db1 fleet db2 capabilities blocking db3 active db4 lease db5 u db6 u' db7 cs db8 r db9 found ineligible t)
  then have u: "unique_tasks db7"
    using requeue_active_evo[OF assms] evolves_unique[OF _ assms] by (auto simp: evo_def dest!: gate_state)
  show ?case by (rule dispatch_evo) (use 3 select_found candidates_queued[OF u] in auto)
qed

lemma dispatch_result: "dispatch_task ev b seconds d fleet t db = Inr (r, db') \<Longrightarrow> \<exists>row. r = Some row \<and> mk_id row = mk_id t"
  by (auto simp: dispatch_task_def dest: get_task_rowD)

lemma claim_unledgered:
  assumes "claim ev b seconds protocol db = Inr (Some row, db')" "unique_tasks db"
  shows "\<not> ledger db (mk_id row)"
proof -
  obtain d db1 t rest db2 fleet where
    r: "requeue_active (first_by_age (tasks_of b active_task db)) db = Inr ((), db1)"
      "tasks_of b (\<lambda>t. mk_business_state t \<in> set BLOCKING_BUSINESS_STATES) db = []"
    and s: "select_candidate ev protocol d (Option.bind fleet fs_capabilities)
        (take CLAIM_CANDIDATE_LIMIT (sort_key mk_created_at (tasks_of b (\<lambda>t. mk_status t = ''QUEUED'') db1))) db1 = Inr ((Some t, rest), db2)"
    and e: "dispatch_task ev b seconds d fleet t db2 = Inr (Some row, db')"
    using assms(1) unfolding claim_def
    by (auto simp: Let_def dest!: gate_state split: if_splits option.splits list.splits prod.splits)
       (metis neq_Nil_conv surj_pair)
  have "unique_tasks db1" using requeue_active_evo[OF assms(2) r(2)] r(1) evolves_unique[OF _ assms(2)] by (auto simp: evo_def)
  then have "\<not> ledger db1 (mk_id t)" using select_found[OF s] candidates_queued by blast
  then show ?thesis using dispatch_result[OF e] requeue_active_actions[OF r(1)] by (simp add: ledger_def)
qed

subsection \<open>Actions\<close>

lemma identity_fields:
  "identity_of ev t act db = Inr x \<Longrightarrow> xi_task_id x = mk_id t \<and> xi_action_id x = act \<and> xi_tenant_id x = mk_tenant_id t"
  by (auto simp: identity_of_def steps_action_identity_def steps_action_row_def probe_action_identity_def Let_def
      split: if_splits sum.splits option.splits prod.splits list.splits)

lemma owned_action_Inr: "owned_action_task b i db = Inr (t, db') \<Longrightarrow> get_task_row i db = Some t \<and> db' = db"
  by (auto simp: owned_action_task_def)

lemma action_lease_Inr:
  "action_lease ev b t lease db = Inr (u, db') \<Longrightarrow>
   db' = db \<and> mk_business_state t \<notin> set TERMINAL_BUSINESS \<and> active_task t \<and> mk_lease_id t = Some lease \<and> live_lease (mv_now ev) t \<and>
   holds_auto_lease ev (mk_device_id t) t lease db \<and> \<not> stale_envelope b t db"
  by (auto simp: action_lease_def)

text \<open>An intent either changes nothing or adds the row of a running task that has none for this action yet.\<close>

lemma intent_cases:
  assumes "action_intent ev b i rq db = Inr ((r, created), db')"
  obtains (replay) "\<not> created" "db' = db"
  | (authorized) t where "created" "get_task_row i db = Some t" "mk_status t = ''RUNNING''" "mk_business_state t = ''RUNNING''"
      "aw_task_id r = i" "aw_action_id r = iq_action_id rq" "aw_resolution_revision r = 0"
      "\<forall>y \<in> set (mb_actions db). \<not> (aw_task_id y = i \<and> aw_action_id y = iq_action_id rq)"
      "mb_actions db' = mb_actions db @ [r]"
      "mb_tasks db' = upd_where (\<lambda>t. mk_id t = i) (\<lambda>t. t\<lparr>mk_business_state := ''RECONCILING''\<rparr>) (mb_tasks db)"
proof -
  obtain t x where t: "get_task_row i db = Some t" and x: "identity_of ev t (iq_action_id rq) db = Inr x"
    and rest: "(case find_row (\<lambda>r. aw_task_id r = i \<and> aw_action_id r = iq_action_id rq) (mb_actions db) of
       Some r' \<Rightarrow> r' = r \<and> \<not> created \<and> db' = db
     | None \<Rightarrow> created \<and> mk_status t = ''RUNNING'' \<and> mk_business_state t = ''RUNNING'' \<and> r = new_action_row ev x t rq \<and>
         mtabs db' = (upd_where (\<lambda>t. mk_id t = i) (\<lambda>t. t\<lparr>mk_business_state := ''RECONCILING''\<rparr>) (mb_tasks db), mb_actions db @ [r]))"
    using assms unfolding action_intent_def
    by (auto simp: Let_def mtabs_def dest!: owned_action_Inr action_lease_Inr frame(8) split: option.splits)
  show thesis
  proof (cases "find_row (\<lambda>r. aw_task_id r = i \<and> aw_action_id r = iq_action_id rq) (mb_actions db)")
    case None
    with rest have c: "created" "mk_status t = ''RUNNING''" "mk_business_state t = ''RUNNING''" "r = new_action_row ev x t rq"
      "mb_tasks db' = upd_where (\<lambda>t. mk_id t = i) (\<lambda>t. t\<lparr>mk_business_state := ''RECONCILING''\<rparr>) (mb_tasks db)" "mb_actions db' = mb_actions db @ [r]"
      by (simp_all add: mtabs_def)
    have f: "aw_task_id r = i" "aw_action_id r = iq_action_id rq" "aw_resolution_revision r = 0"
      using c(4) identity_fields[OF x] get_task_rowD[OF t] by (simp_all add: new_action_row_def)
    show ?thesis using None by (intro authorized[OF c(1) t c(2,3) f _ c(6,5)]) (simp add: find_row_None)
  next
    case (Some y)
    then show ?thesis using rest by (intro replay) auto
  qed
qed

lemma intent_key_fresh:
  "action_intent ev b i rq db = Inr ((r, created), db') \<Longrightarrow> created \<Longrightarrow> aw_action_key r \<notin> aw_action_key ` set (mb_actions db)"
  unfolding action_intent_def by (auto simp: Let_def dest!: owned_action_Inr action_lease_Inr split: option.splits)

lemma reported_rel:
  "outcome_guard r st rq = Inr Apply \<Longrightarrow> action_rel False r (reported ev rq r)"
  by (auto simp: outcome_guard_def action_rel_def reported_def action_phase_def phase_from_def phase_transition_allowed_def split: if_splits)

lemma find_action_Inr:
  "find_action t key db = Inr (r, db') \<Longrightarrow> r \<in> set (mb_actions db) \<and> aw_action_key r = key \<and> aw_task_id r = mk_id t \<and> db' = db"
  by (auto simp: find_action_def dest: find_row_SomeD)

lemma outcome_cases:
  assumes "action_outcome ev b i key rq db = Inr (v, db')"
  obtains (replay) "db' = db"
  | (report) t r where "get_task_row i db = Some t" "mk_business_state t \<notin> set TERMINAL_BUSINESS" "r \<in> set (mb_actions db)" "aw_action_key r = key" "aw_task_id r = i"
      "outcome_guard r (mk_business_state t) rq = Inr Apply"
      "mtabs db' = (mb_tasks db, upd_where (\<lambda>y. aw_action_key y = key) (reported ev rq) (mb_actions db))"
proof -
  obtain t r dec where t: "get_task_row i db = Some t" "mk_business_state t \<notin> set TERMINAL_BUSINESS" and r: "find_action t key db = Inr (r, db)"
    and dec: "outcome_guard r (mk_business_state t) rq = Inr dec" and rest: "decided_outcome ev b r rq dec db = Inr (v, db')"
    using assms unfolding action_outcome_def by (fastforce dest: owned_action_Inr action_lease_Inr find_action_Inr)
  note f = find_action_Inr[OF r] get_task_rowD[OF t(1)]
  show thesis
  proof (cases dec)
    case Replay then show ?thesis using rest by (intro replay) (simp add: decided_outcome_def)
  next
    case Apply
    then show ?thesis using rest dec t f
      by (intro report[of t r]) (auto simp: decided_outcome_def mtabs_def dest!: frame(8))
  qed
qed

lemma outcome_evo:
  assumes "distinct (map aw_action_key (mb_actions db))" "unique_tasks db" shows "evo db (action_outcome ev b i key rq)"
  unfolding evo_def
proof (intro allI impI)
  fix v db' assume "action_outcome ev b i key rq db = Inr (v, db')"
  then show "evolves db db'"
  proof (cases rule: outcome_cases)
    case replay then show ?thesis by simp
  next
    case (report t r)
    have "y = r" if "y \<in> set (mb_actions db)" "aw_action_key y = key" for y
      using assms(1) report(3,4) that by (auto simp: distinct_map inj_on_def)
    moreover have "\<not> final_at db (aw_task_id r)" using not_final_at[OF assms(2) report(1,2)] report(5) by simp
    ultimately show ?thesis using report(6,7)
      by (intro evolvesI[where g = id and h = "\<lambda>y. if aw_action_key y = key then reported ev rq y else y"])
         (auto simp: mtabs_def upd_where_def reported_rel)
  qed
qed

end
