(* ===== verification/Mobile_System.thy ===== *)
theory Mobile_System
  imports Mobile_Claims
begin

text \<open>
  Operators, companions and the other services at work on mobile tasks: every operation is a step, in any order and any
  number of times, and everything outside the tasks and the ledger may change at any moment. The log records the claims,
  the resumptions and the authorised actions.
\<close>

subsection \<open>Steps\<close>

datatype entry = Claimed string | Resumed string | Authorized string string

record msys =
  my_db :: mdb
  my_log :: "entry list"
  my_pending :: "string list"
  my_raced :: "string list"

text \<open>Steps that the log does not show.\<close>

inductive quiet :: "mdb \<Rightarrow> mdb \<Rightarrow> bool" where
  q_cancel: "cancel_task ev a i reason db = Inr (v, db') \<Longrightarrow> quiet db db'"
| q_pause: "pause_task ev a i reason db = Inr (v, db') \<Longrightarrow> quiet db db'"
| q_ack_paused: "ack_paused ev i lease db = Inr (v, db') \<Longrightarrow> quiet db db'"
| q_mark_unknown: "mark_unknown ev a i reason db = Inr (v, db') \<Longrightarrow> quiet db db'"
| q_reconcile: "reconcile_task ev a i rq db = Inr (v, db') \<Longrightarrow> quiet db db'"
| q_release: "release_task ev b i lease_id reason db = Inr (v, db') \<Longrightarrow> quiet db db'"
| q_heartbeat: "heartbeat_task ev b i lease_id step_no seconds db = Inr (v, db') \<Longrightarrow> quiet db db'"
| q_event: "task_event ev b i lease_id n event_type step_no payload db = Inr (w, db') \<Longrightarrow> quiet db db'"
| q_finish: "finish_task ev b i lease_id fo db = Inr (v, db') \<Longrightarrow> quiet db db'"
| q_control_ack: "control_ack ev b ack db = Inr (v, db') \<Longrightarrow> quiet db db'"
| q_outcome: "action_outcome ev b i key oq db = Inr (r, db') \<Longrightarrow> quiet db db'"
| q_settle: "st \<in> {''SUCCEEDED'', ''FAILED''} \<Longrightarrow> settle_task ev i st result db = Inr (u, db') \<Longrightarrow> quiet db db'"
| q_block_stale: "quiet db (block_stale_tasks ev tenant device accounts reason db)"
| q_elsewhere: "mtabs db' = mtabs db \<Longrightarrow> quiet db db'"

definition claim_entries :: "mobile_task option \<Rightarrow> entry list" where
  "claim_entries r = (case r of None \<Rightarrow> [] | Some t \<Rightarrow> [Claimed (mk_id t)])"

text \<open>
  A task that nobody has touched since its insertion may still be stamped by its creation; a task that is created for
  the runner alone, or whose creation dies, is never stamped.
\<close>

definition untouched :: "mobile_task \<Rightarrow> bool" where
  "untouched t \<longleftrightarrow> mk_status t = ''QUEUED''"

inductive mobile_step :: "msys \<Rightarrow> msys \<Rightarrow> bool" where
  s_quiet: "quiet (my_db s) db' \<Longrightarrow> mobile_step s (s\<lparr>my_db := db'\<rparr>)"
| s_insert: "insert_task ev tenant who key tb (my_db s) = Inr ((t, created), db') \<Longrightarrow>
    mobile_step s (s\<lparr>my_db := db', my_pending := (if created then [mk_id t] else []) @ my_pending s\<rparr>)"
| s_stamp: "i \<in> set (my_pending s) \<Longrightarrow> get_task_row i (my_db s) = Some t \<Longrightarrow>
    stamp_business_fields ev i command payload batch scheduled operation (my_db s) = Inr (u, db') \<Longrightarrow>
    mobile_step s (s\<lparr>my_db := db', my_pending := remove1 i (my_pending s), my_raced := (if untouched t then [] else [i]) @ my_raced s\<rparr>)"
| s_unstamped: "mobile_step s (s\<lparr>my_pending := remove1 i (my_pending s)\<rparr>)"
| s_claim: "claim ev b seconds protocol (my_db s) = Inr (r, db') \<Longrightarrow>
    mobile_step s (s\<lparr>my_db := db', my_log := my_log s @ claim_entries r\<rparr>)"
| s_resume: "resume_task ev a i reason verified (my_db s) = Inr (v, db') \<Longrightarrow>
    mobile_step s (s\<lparr>my_db := db', my_log := my_log s @ [Resumed i]\<rparr>)"
| s_intent: "action_intent ev b i rq (my_db s) = Inr ((row, created), db') \<Longrightarrow>
    mobile_step s (s\<lparr>my_db := db', my_log := my_log s @ (if created then [Authorized i (iq_action_id rq)] else [])\<rparr>)"

definition mobile_init :: "mdb \<Rightarrow> msys" where
  "mobile_init db = \<lparr>my_db = db, my_log = [], my_pending = [], my_raced = []\<rparr>"

text \<open>A database without tasks; the rest of it is arbitrary.\<close>

definition no_tasks :: "mdb \<Rightarrow> bool" where
  "no_tasks db \<longleftrightarrow> mb_tasks db = [] \<and> mb_actions db = []"

inductive mobile_reach :: "msys \<Rightarrow> bool" where
  m_init: "no_tasks db \<Longrightarrow> mobile_reach (mobile_init db)"
| m_step: "mobile_reach s \<Longrightarrow> mobile_step s s' \<Longrightarrow> mobile_reach s'"

subsection \<open>The invariant\<close>

definition tables_ok :: "mdb \<Rightarrow> bool" where
  "tables_ok db \<longleftrightarrow> unique_tasks db \<and> revisions_ok db \<and> distinct (map aw_action_key (mb_actions db)) \<and>
     (\<forall>r \<in> set (mb_actions db). \<exists>t \<in> set (mb_tasks db). mk_id t = aw_task_id r) \<and> (\<forall>t \<in> set (mb_tasks db). events_ok t)"

definition ledger_ok :: "string list \<Rightarrow> mdb \<Rightarrow> bool" where
  "ledger_ok raced db \<longleftrightarrow> (\<forall>t \<in> set (mb_tasks db). ledger db (mk_id t) \<and> mk_id t \<notin> set raced \<longrightarrow> committed t)"

text \<open>The log against the ledger: what was authorised is in the ledger, and nothing follows that would repeat it.\<close>

fun log_ok :: "string list \<Rightarrow> entry list \<Rightarrow> bool" where
  "log_ok raced [] = True"
| "log_ok raced (Authorized i a # es) = (log_ok raced es \<and> Claimed i \<notin> set es \<and> Authorized i a \<notin> set es \<and>
     (i \<notin> set raced \<longrightarrow> Resumed i \<notin> set es \<and> (\<forall>a'. Authorized i a' \<notin> set es)))"
| "log_ok raced (e # es) = log_ok raced es"

definition actions_of :: "mdb \<Rightarrow> (string \<times> string) set" where
  "actions_of db = (\<lambda>r. (aw_task_id r, aw_action_id r)) ` set (mb_actions db)"

definition logged :: "mdb \<Rightarrow> entry list \<Rightarrow> bool" where
  "logged db es \<longleftrightarrow> (\<forall>i a. Authorized i a \<in> set es \<longrightarrow> (i, a) \<in> actions_of db)"

definition mobile_inv :: "msys \<Rightarrow> bool" where
  "mobile_inv s \<longleftrightarrow> tables_ok (my_db s) \<and> ledger_ok (my_raced s) (my_db s) \<and> log_ok (my_raced s) (my_log s) \<and> logged (my_db s) (my_log s)"

lemma log_ok_append: "log_ok raced (es @ [e]) \<longleftrightarrow> log_ok raced es \<and>
   (case e of Claimed i \<Rightarrow> \<forall>a. Authorized i a \<notin> set es
    | Resumed i \<Rightarrow> i \<notin> set raced \<longrightarrow> (\<forall>a. Authorized i a \<notin> set es)
    | Authorized i a \<Rightarrow> Authorized i a \<notin> set es \<and> (i \<notin> set raced \<longrightarrow> (\<forall>a'. Authorized i a' \<notin> set es)))"
  by (induction raced es rule: log_ok.induct) (auto split: entry.splits)

lemma log_ok_mono: "log_ok raced es \<Longrightarrow> set raced \<subseteq> set raced' \<Longrightarrow> log_ok raced' es"
  by (induction raced es rule: log_ok.induct) auto

lemma log_ok_split:
  "log_ok raced (xs @ Authorized i a # ys) \<Longrightarrow>
   Claimed i \<notin> set ys \<and> Authorized i a \<notin> set ys \<and> (i \<notin> set raced \<longrightarrow> Resumed i \<notin> set ys \<and> (\<forall>a'. Authorized i a' \<notin> set ys))"
  by (induction raced xs rule: log_ok.induct) auto

subsection \<open>Every step keeps it\<close>

lemma quiet_evolves: assumes "quiet db db'" "tables_ok db" shows "evolves db db'"
proof -
  have u: "unique_tasks db" "revisions_ok db" "distinct (map aw_action_key (mb_actions db))" using assms(2) by (auto simp: tables_ok_def)
  show ?thesis using assms(1)
  proof cases
    case q_cancel then show ?thesis by (rule evoD[OF cancel_evo[OF u(1)]])
  next
    case q_pause then show ?thesis by (rule evoD[OF pause_evo[OF u(1)]])
  next
    case q_ack_paused then show ?thesis by (rule evoD[OF ack_evo[OF u(1)]])
  next
    case q_mark_unknown then show ?thesis by (rule evoD[OF mark_unknown_evo[OF u(1)]])
  next
    case q_reconcile then show ?thesis by (rule evoD[OF reconcile_evo[OF u(1,2)]])
  next
    case q_release then show ?thesis by (rule evoD[OF release_evo[OF u(1)]])
  next
    case q_heartbeat then show ?thesis by (rule evoD[OF heartbeat_evo[OF u(1)]])
  next
    case q_event then show ?thesis by (rule evoD[OF event_evo[OF u(1)]])
  next
    case q_finish then show ?thesis by (rule evoD[OF finish_evo[OF u(1)]])
  next
    case q_control_ack then show ?thesis by (rule evoD[OF control_ack_evo[OF u(1)]])
  next
    case q_outcome then show ?thesis by (rule evoD[OF outcome_evo[OF u(3,1)]])
  next
    case q_settle then show ?thesis using evoD[OF settle_evo] by blast
  next
    case q_block_stale then show ?thesis by (simp add: block_stale_evolves)
  next
    case q_elsewhere then show ?thesis by (rule evolves_frame)
  qed
qed

lemma evolves_actions:
  assumes "evolves db db'"
  shows "map aw_action_key (mb_actions db') = map aw_action_key (mb_actions db)"
    "map (\<lambda>r. (aw_task_id r, aw_action_id r)) (mb_actions db') = map (\<lambda>r. (aw_task_id r, aw_action_id r)) (mb_actions db)"
    "revisions_ok db \<Longrightarrow> revisions_ok db'"
proof -
  obtain h where h: "mb_actions db' = map h (mb_actions db)" "\<forall>r \<in> set (mb_actions db). action_rel (final_at db (aw_task_id r)) r (h r)"
    using assms unfolding evolves_def by blast
  then show "map aw_action_key (mb_actions db') = map aw_action_key (mb_actions db)"
    "map (\<lambda>r. (aw_task_id r, aw_action_id r)) (mb_actions db') = map (\<lambda>r. (aw_task_id r, aw_action_id r)) (mb_actions db)"
    by (simp_all add: action_rel_def)
  show "revisions_ok db'" if "revisions_ok db"
    unfolding revisions_ok_def h(1)
  proof
    fix x assume "x \<in> set (map h (mb_actions db))"
    then obtain r where r: "r \<in> set (mb_actions db)" "x = h r" by auto
    then have "aw_resolution_revision r \<le> aw_resolution_revision x" using h(2) by (simp add: action_rel_def)
    moreover have "0 \<le> aw_resolution_revision r" using that r(1) by (simp add: revisions_ok_def)
    ultimately show "0 \<le> aw_resolution_revision x" by simp
  qed
qed

lemma evolves_tables_ok: assumes "evolves db db'" "tables_ok db" shows "tables_ok db'"
proof -
  note a = evolves_actions[OF assms(1)]
  have "fst ` (\<lambda>r. (aw_task_id r, aw_action_id r)) ` set (mb_actions db') = fst ` (\<lambda>r. (aw_task_id r, aw_action_id r)) ` set (mb_actions db)"
    using a(2) by (metis set_map)
  then have "aw_task_id ` set (mb_actions db') = aw_task_id ` set (mb_actions db)" by (simp add: image_image)
  moreover have "mk_id ` set (mb_tasks db') = mk_id ` set (mb_tasks db)" using evolves_ids[OF assms(1)] by (metis set_map)
  moreover have "aw_task_id ` set (mb_actions db) \<subseteq> mk_id ` set (mb_tasks db)" using assms(2) by (force simp: tables_ok_def)
  ultimately have "aw_task_id ` set (mb_actions db') \<subseteq> mk_id ` set (mb_tasks db')" by simp
  then have "\<forall>r \<in> set (mb_actions db'). \<exists>t \<in> set (mb_tasks db'). mk_id t = aw_task_id r" by force
  moreover have "\<forall>t \<in> set (mb_tasks db'). events_ok t"
    using assms unfolding evolves_def task_rel_def controls_kept_def tables_ok_def by auto
  ultimately show ?thesis using assms(2) a evolves_unique[OF assms(1)] by (simp add: tables_ok_def)
qed

lemma evolves_ledger_ok: assumes "evolves db db'" "ledger_ok raced db" shows "ledger_ok raced db'"
  using assms evolves_ledger[OF assms(1)] unfolding evolves_def ledger_ok_def task_rel_def by fastforce

lemma evolves_logged: assumes "evolves db db'" shows "logged db' es = logged db es"
proof -
  have "actions_of db' = actions_of db" using evolves_actions(2)[OF assms] by (metis actions_of_def set_map)
  then show ?thesis by (simp add: logged_def)
qed

lemma logged_ledger: "logged db es \<Longrightarrow> Authorized i a \<in> set es \<Longrightarrow> ledger db i"
  by (force simp: logged_def actions_of_def ledger_def)

lemma evolves_inv:
  assumes "evolves (my_db s) db'" "mobile_inv s" "log_ok (my_raced s) es" "logged (my_db s) es"
  shows "mobile_inv (s\<lparr>my_db := db', my_log := es, my_pending := ps\<rparr>)"
  using assms evolves_tables_ok evolves_ledger_ok evolves_logged by (auto simp: mobile_inv_def)

lemma evolves_inv0: assumes "evolves (my_db s) db'" "mobile_inv s" shows "mobile_inv (s\<lparr>my_db := db', my_pending := ps\<rparr>)" "mobile_inv (s\<lparr>my_db := db'\<rparr>)"
  using evolves_inv[OF assms, of "my_log s"] assms(2) by (auto simp: mobile_inv_def)

text \<open>A step of a claim, a resumption or an intent adds to the log what the log admits.\<close>

lemma claim_log: assumes "mobile_inv s" "claim ev b seconds protocol (my_db s) = Inr (r, db')"
  shows "log_ok (my_raced s) (my_log s @ claim_entries r)" "logged (my_db s) (my_log s @ claim_entries r)"
proof -
  have i: "log_ok (my_raced s) (my_log s)" "logged (my_db s) (my_log s)" "unique_tasks (my_db s)"
    using assms(1) by (auto simp: mobile_inv_def tables_ok_def)
  show "log_ok (my_raced s) (my_log s @ claim_entries r)"
  proof (cases r)
    case (Some t)
    with assms(2) i(3) have "\<not> ledger (my_db s) (mk_id t)" by (intro claim_unledgered) simp_all
    then show ?thesis using i Some logged_ledger by (auto simp: claim_entries_def log_ok_append)
  qed (simp add: claim_entries_def i)
  show "logged (my_db s) (my_log s @ claim_entries r)" using i(2) by (auto simp: logged_def claim_entries_def split: option.splits)
qed

lemma resume_row:
  "resume_task ev a i reason verified db = Inr (v, db') \<Longrightarrow> \<exists>t. get_task_row i db = Some t \<and> \<not> committed t"
  unfolding resume_task_def by (auto dest!: resume_open)

lemma resume_log: assumes "mobile_inv s" "resume_task ev a i reason verified (my_db s) = Inr (v, db')"
  shows "log_ok (my_raced s) (my_log s @ [Resumed i])" "logged (my_db s) (my_log s @ [Resumed i])"
proof -
  have i: "log_ok (my_raced s) (my_log s)" "logged (my_db s) (my_log s)" "ledger_ok (my_raced s) (my_db s)"
    using assms(1) by (auto simp: mobile_inv_def)
  obtain t where "get_task_row i (my_db s) = Some t" "\<not> committed t" using resume_row[OF assms(2)] by blast
  then have "i \<notin> set (my_raced s) \<Longrightarrow> \<not> ledger (my_db s) i" using i(3) get_task_rowD by (fastforce simp: ledger_ok_def)
  then show "log_ok (my_raced s) (my_log s @ [Resumed i])" using i(1) logged_ledger[OF i(2)] by (auto simp: log_ok_append)
  show "logged (my_db s) (my_log s @ [Resumed i])" using i(2) by (auto simp: logged_def)
qed

lemma intent_inv:
  assumes inv: "mobile_inv s" and st: "action_intent ev b i rq (my_db s) = Inr ((row, created), db')"
  shows "mobile_inv (s\<lparr>my_db := db', my_log := my_log s @ (if created then [Authorized i (iq_action_id rq)] else [])\<rparr>)"
  using st
proof (cases rule: intent_cases)
  case replay then show ?thesis using inv by (simp add: mobile_inv_def)
next
  case (authorized t)
  let ?db = "my_db s" and ?e = "Authorized i (iq_action_id rq)"
  have i: "tables_ok ?db" "ledger_ok (my_raced s) ?db" "log_ok (my_raced s) (my_log s)" "logged ?db (my_log s)"
    using inv by (auto simp: mobile_inv_def)
  then have u: "unique_tasks ?db" "revisions_ok ?db" by (auto simp: tables_ok_def)
  note t = get_task_rowD[OF authorized(2)]
  have open_t: "\<not> committed t" using authorized(4) by (simp add: committed_def)
  have tasks: "mb_tasks db' = map (\<lambda>t. if mk_id t = i then t\<lparr>mk_business_state := ''RECONCILING''\<rparr> else t) (mb_tasks ?db)"
    using authorized(10) by (simp add: upd_where_def)
  have ids: "map mk_id (mb_tasks db') = map mk_id (mb_tasks ?db)" unfolding tasks by auto
  have fresh: "aw_action_key row \<notin> aw_action_key ` set (mb_actions ?db)" by (rule intent_key_fresh[OF st]) (use authorized in simp_all)
  have "tables_ok db'"
    unfolding tables_ok_def
  proof (intro conjI ballI)
    fix x assume "x \<in> set (mb_tasks db')"
    then obtain y where "y \<in> set (mb_tasks ?db)" "controls_kept y x" unfolding tasks by fastforce
    then show "events_ok x" using i(1) by (simp add: controls_kept_def tables_ok_def)
  next
    show "unique_tasks db'" using u(1) ids by (simp add: unique_tasks_def)
    show "revisions_ok db'" using u(2) authorized(7,9) by (auto simp: revisions_ok_def)
    show "distinct (map aw_action_key (mb_actions db'))" using i(1) fresh authorized(9) by (simp add: tables_ok_def)
    fix r assume "r \<in> set (mb_actions db')"
    then have "aw_task_id r \<in> mk_id ` set (mb_tasks ?db)" using i(1) authorized(5,9) t by (force simp: tables_ok_def)
    then have "aw_task_id r \<in> mk_id ` set (mb_tasks db')" using ids by (metis set_map)
    then show "\<exists>t \<in> set (mb_tasks db'). mk_id t = aw_task_id r" by force
  qed
  moreover have "ledger_ok (my_raced s) db'"
    unfolding ledger_ok_def
  proof (intro ballI impI)
    fix t' assume "t' \<in> set (mb_tasks db')" and l: "ledger db' (mk_id t') \<and> mk_id t' \<notin> set (my_raced s)"
    then obtain x where x: "x \<in> set (mb_tasks ?db)" "t' = (if mk_id x = i then x\<lparr>mk_business_state := ''RECONCILING''\<rparr> else x)"
      unfolding tasks by auto
    show "committed t'"
    proof (cases "mk_id x = i")
      case True
      then have "x = t" using unique_task[OF u(1) authorized(2) x(1)] by simp
      then show ?thesis using x True authorized(3) by (simp add: committed_def active_task_def ACTIVE_STATES_def)
    next
      case False
      then show ?thesis using x l i(2) authorized(5,9) by (auto simp: ledger_ok_def ledger_def)
    qed
  qed
  moreover have "log_ok (my_raced s) (my_log s @ [?e])"
  proof -
    have "?e \<notin> set (my_log s)" using i(4) authorized(8) by (force simp: logged_def actions_of_def)
    moreover have "i \<notin> set (my_raced s) \<Longrightarrow> Authorized i a' \<notin> set (my_log s)" for a'
      using i(2) t open_t logged_ledger[OF i(4), of i a'] by (auto simp: ledger_ok_def)
    ultimately show ?thesis using i(3) by (auto simp: log_ok_append)
  qed
  moreover have "logged db' (my_log s @ [?e])" using i(4) authorized(5,6,9) by (auto simp: logged_def actions_of_def)
  ultimately show ?thesis using authorized(1) by (simp add: mobile_inv_def)
qed

lemma stamp_evolves:
  assumes "tables_ok db" "get_task_row i db = Some t" "untouched t"
    "stamp_business_fields ev i command payload batch scheduled operation db = Inr (u, db')"
  shows "evolves db db'"
proof -
  have "\<not> committed t \<and> \<not> final t" using assms(3) queued_open by (simp add: untouched_def)
  then have "evo db (stamp_business_fields ev i command payload batch scheduled operation)"
    unfolding stamp_business_fields_def
    by (intro evo_intros; clarsimp, intro evo_open) (use assms(1,2) in \<open>auto simp: tables_ok_def\<close>)
  from evoD[OF this assms(4)] show ?thesis .
qed

text \<open>A stamp that comes too late keeps the ids and the ledger, and takes its task out of the promise.\<close>

lemma stamp_raced:
  assumes "stamp_business_fields ev i command payload batch scheduled operation db = Inr (u, db')"
  shows "mb_actions db' = mb_actions db" "map mk_id (mb_tasks db') = map mk_id (mb_tasks db)"
    "t' \<in> set (mb_tasks db') \<Longrightarrow> mk_id t' \<noteq> i \<Longrightarrow> t' \<in> set (mb_tasks db)"
    "\<exists>g. mb_tasks db' = map g (mb_tasks db) \<and> (\<forall>t \<in> set (mb_tasks db). mk_id (g t) = mk_id t \<and> controls_kept t (g t) \<and> (mk_id t \<noteq> i \<longrightarrow> g t = t))"
proof -
  obtain attempt where d: "mtabs db' = (upd_where (\<lambda>t. mk_id t = i) (\<lambda>t. t\<lparr>mk_command_type := Some command, mk_operation_id := operation,
      mk_command_payload := payload, mk_business_state := ''QUEUED'', mk_control_mode := ''AUTO'', mk_batch_id := Some batch, mk_scheduled_for := scheduled,
      mk_attempt_id := (case mk_attempt_id t of Some x \<Rightarrow> if x = [] then Some attempt else Some x | None \<Rightarrow> Some attempt)\<rparr>) (mb_tasks db), mb_actions db)"
    using assms unfolding stamp_business_fields_def by (auto simp: mtabs_def)
  then show "mb_actions db' = mb_actions db" "map mk_id (mb_tasks db') = map mk_id (mb_tasks db)"
    "t' \<in> set (mb_tasks db') \<Longrightarrow> mk_id t' \<noteq> i \<Longrightarrow> t' \<in> set (mb_tasks db)"
    by (auto simp: mtabs_def upd_where_def)
  from d show "\<exists>g. mb_tasks db' = map g (mb_tasks db) \<and> (\<forall>t \<in> set (mb_tasks db). mk_id (g t) = mk_id t \<and> controls_kept t (g t) \<and> (mk_id t \<noteq> i \<longrightarrow> g t = t))"
    unfolding mtabs_def prod.inject upd_where_def by (elim conjE) (rule exI, rule conjI, assumption, simp)
qed

lemma stamp_inv:
  assumes "mobile_inv s" "get_task_row i (my_db s) = Some t"
    "stamp_business_fields ev i command payload batch scheduled operation (my_db s) = Inr (u, db')"
  shows "mobile_inv (s\<lparr>my_db := db', my_pending := ps, my_raced := (if untouched t then [] else [i]) @ my_raced s\<rparr>)"
proof (cases "untouched t")
  case True
  then have "evolves (my_db s) db'" using assms by (intro stamp_evolves) (auto simp: mobile_inv_def)
  from evolves_inv0(1)[OF this assms(1)] show ?thesis using True by (simp add: mobile_inv_def)
next
  case False
  note r = stamp_raced[OF assms(3)]
  have "\<forall>t \<in> set (mb_tasks db'). events_ok t"
    using assms(1) r(4) by (auto simp: mobile_inv_def tables_ok_def controls_kept_def)
  then have "tables_ok db'"
    using assms(1) r(1,2) unfolding mobile_inv_def tables_ok_def unique_tasks_def revisions_ok_def by (metis (no_types, lifting) image_iff list.set_map)
  moreover have "ledger_ok (i # my_raced s) db'"
    using assms(1) r(1,3) by (auto simp: mobile_inv_def ledger_ok_def ledger_def)
  moreover have "log_ok (i # my_raced s) (my_log s)" by (rule log_ok_mono[of "my_raced s"]) (use assms(1) in \<open>auto simp: mobile_inv_def\<close>)
  ultimately show ?thesis using assms(1) r(1) False by (simp add: mobile_inv_def logged_def actions_of_def)
qed

lemma insert_reads:
  "replayed_task tenant key sha db = Inr (x, db') \<Longrightarrow> db' = db"
  "resolve_order_account ev d db = Inr (y, db') \<Longrightarrow> db' = db"
  "frozen_account ev tenant tb d db = Inr (z, db') \<Longrightarrow> db' = db"
proof -
  show o: "resolve_order_account ev d db = Inr (y, db') \<Longrightarrow> db' = db" for y db'
    by (auto simp: resolve_order_account_def split: list.splits)
  show "replayed_task tenant key sha db = Inr (x, db') \<Longrightarrow> db' = db" by (auto simp: replayed_task_def split: option.splits)
  show "frozen_account ev tenant tb d db = Inr (z, db') \<Longrightarrow> db' = db"
    by (auto simp: frozen_account_def split: option.splits if_splits dest: o)
qed

lemma new_events_ok: "events_ok (new_task_row ev tenant who key tb frozen i attempt)"
  by (cases frozen) (simp add: new_task_row_def events_ok_def control_header_def control_revision_def header_events_def header_revision_def
      split: option.splits)

lemma insert_session_cases:
  assumes "insert_task_in_session ev tenant who key tb db = Inr ((t, created), db')"
  obtains (replay) "db' = db" "\<not> created"
  | (new) "created" "mtabs db' = (mb_tasks db @ [t], mb_actions db)" "task_indexes (mb_tasks db')" "events_ok t"
  using assms unfolding insert_task_in_session_def
  by (auto simp: Let_def mtabs_def new_events_ok dest!: insert_reads split: option.splits)

lemma insert_cases:
  assumes "insert_task ev tenant who key tb db = Inr ((t, created), db')"
  obtains (replay) "mtabs db' = mtabs db" "\<not> created"
  | (new) "created" "mtabs db' = (mb_tasks db @ [t], mb_actions db)" "unique_tasks db'" "events_ok t"
proof -
  have c: "(\<exists>tb'. insert_task_in_session ev tenant who key tb' db = Inr ((t, created), db')) \<or> db' = db \<and> \<not> created"
    using assms unfolding insert_task_def by (auto dest!: on_integrity_Inr)
  then show thesis
  proof (elim disjE exE)
    fix tb' assume "insert_task_in_session ev tenant who key tb' db = Inr ((t, created), db')"
    then show thesis
      by (cases rule: insert_session_cases) (auto simp: task_indexes_def unique_tasks_def intro: replay new)
  qed (auto intro: replay)
qed

lemma insert_inv:
  assumes "mobile_inv s" "insert_task ev tenant who key tb (my_db s) = Inr ((t, created), db')"
  shows "mobile_inv (s\<lparr>my_db := db', my_pending := ps\<rparr>)"
  using assms(2)
proof (cases rule: insert_cases)
  case replay
  show ?thesis by (rule evolves_inv0(1)[OF evolves_frame[OF replay(1)] assms(1)])
next
  case new
  have i: "tables_ok (my_db s)" "ledger_ok (my_raced s) (my_db s)" using assms(1) by (auto simp: mobile_inv_def)
  have f: "mk_id t \<notin> mk_id ` set (mb_tasks (my_db s))" using new by (auto simp: unique_tasks_def mtabs_def)
  then have "\<not> ledger (my_db s) (mk_id t)" using i(1) by (auto simp: ledger_def tables_ok_def) (metis image_eqI)
  then have "ledger_ok (my_raced s) db'" using i(2) new(2) by (auto simp: ledger_ok_def ledger_def mtabs_def)
  moreover have "tables_ok db'" using i(1) new by (auto simp: tables_ok_def mtabs_def revisions_ok_def)
  ultimately show ?thesis using assms(1) new(2) by (simp add: mobile_inv_def logged_def actions_of_def mtabs_def)
qed

lemma step_inv: assumes "mobile_step s s'" "mobile_inv s" shows "mobile_inv s'"
  using assms(1)
proof cases
  case (s_quiet db')
  have "evolves (my_db s) db'" using assms(2) by (intro quiet_evolves[OF s_quiet(2)]) (simp add: mobile_inv_def)
  from evolves_inv0(2)[OF this assms(2)] show ?thesis using s_quiet(1) by simp
next
  case (s_insert ev tenant who key tb t created db')
  then show ?thesis using insert_inv[OF assms(2)] by blast
next
  case (s_stamp i t ev command payload batch scheduled operation u db')
  then show ?thesis using stamp_inv[OF assms(2)] by blast
next
  case (s_unstamped i) then show ?thesis using assms(2) by (simp add: mobile_inv_def)
next
  case (s_claim ev b seconds protocol r db')
  have "evolves (my_db s) db'" using assms(2) s_claim(2) by (intro evoD[OF claim_evo]) (auto simp: mobile_inv_def tables_ok_def)
  from evolves_inv[OF this assms(2) claim_log[OF assms(2) s_claim(2)]] show ?thesis using s_claim(1) by (simp add: mobile_inv_def)
next
  case (s_resume ev a i reason verified v db')
  have "evolves (my_db s) db'" using assms(2) s_resume(2) by (intro evoD[OF resume_evo]) (auto simp: mobile_inv_def tables_ok_def)
  from evolves_inv[OF this assms(2) resume_log[OF assms(2) s_resume(2)]] show ?thesis using s_resume(1) by (simp add: mobile_inv_def)
next
  case (s_intent ev b i rq row created db')
  then show ?thesis using intent_inv[OF assms(2)] by blast
qed

text \<open>
  Whatever a step is, it evolves the tables, adds a task, adds the first action of a running task, or stamps a pending one late.
\<close>

lemma intent_step:
  assumes "action_intent ev b i rq db = Inr ((row, created), db')" "unique_tasks db"
  shows "\<exists>g. mb_tasks db' = map g (mb_tasks db) \<and>
      (\<forall>t \<in> set (mb_tasks db). mk_id (g t) = mk_id t \<and> controls_kept t (g t) \<and> (final t \<longrightarrow> g t = t))"
    "set (mb_actions db) \<subseteq> set (mb_actions db')"
  using assms(1)
proof (cases rule: intent_cases, goal_cases)
  case 1 then show ?case by (intro exI[of _ id]) simp
next
  case (2 t)
  let ?g = "\<lambda>t. if mk_id t = i then t\<lparr>mk_business_state := ''RECONCILING''\<rparr> else t"
  have "\<not> final x" if "x \<in> set (mb_tasks db)" "mk_id x = i" for x
    using unique_task[OF assms(2) 2(2) that] 2(4) by (simp add: final_def TERMINAL_BUSINESS_def)
  then show ?case using 2(10) by (intro exI[of _ ?g]) (auto simp: upd_where_def)
next
  show "set (mb_actions db) \<subseteq> set (mb_actions db')" using assms(1) by (cases rule: intent_cases) auto
qed

lemma evolves_controls:
  "evolves db db' \<Longrightarrow> t \<in> set (mb_tasks db) \<Longrightarrow> \<exists>t' \<in> set (mb_tasks db'). mk_id t' = mk_id t \<and> controls_kept t t'"
  unfolding evolves_def task_rel_def by auto

lemma step_controls:
  assumes "mobile_step s s'" "mobile_inv s" "t \<in> set (mb_tasks (my_db s))"
  shows "\<exists>t' \<in> set (mb_tasks (my_db s')). mk_id t' = mk_id t \<and> controls_kept t t'"
proof -
  have u: "unique_tasks (my_db s)" "tables_ok (my_db s)" using assms(2) by (auto simp: mobile_inv_def tables_ok_def)
  show ?thesis using assms(1)
  proof cases
    case (s_quiet db')
    then show ?thesis using evolves_controls[OF quiet_evolves[OF s_quiet(2) u(2)] assms(3)] by simp
  next
    case (s_insert ev tenant who key tb x created db')
    from s_insert(2) have "set (mb_tasks (my_db s)) \<subseteq> set (mb_tasks db')" by (cases rule: insert_cases) (auto simp: mtabs_def)
    then show ?thesis using s_insert(1) assms(3) by (intro bexI[of _ t]) auto
  next
    case (s_stamp i x ev command payload batch scheduled operation v db')
    then show ?thesis using stamp_raced(4)[OF s_stamp(4)] assms(3) by auto
  next
    case (s_unstamped i) then show ?thesis using assms(3) by auto
  next
    case (s_claim ev b seconds protocol r db')
    then show ?thesis using evolves_controls[OF evoD[OF claim_evo[OF u(1)]] assms(3)] by simp
  next
    case (s_resume ev a i reason verified v db')
    then show ?thesis using evolves_controls[OF evoD[OF resume_evo[OF u(1)]] assms(3)] by simp
  next
    case (s_intent ev b i rq row created db')
    then show ?thesis using intent_step(1)[OF s_intent(2) u(1)] assms(3) by auto
  qed
qed

text \<open>
  A task that is final and whose creation is over keeps its row's verdict and its actions, whatever happens.
\<close>

definition sealed :: "msys \<Rightarrow> mobile_task \<Rightarrow> action_row \<Rightarrow> bool" where
  "sealed s t r \<longleftrightarrow> t \<in> set (mb_tasks (my_db s)) \<and> final t \<and> mk_id t \<notin> set (my_pending s) \<and> r \<in> set (mb_actions (my_db s)) \<and> aw_task_id r = mk_id t"

lemma evolves_sealed:
  assumes "evolves db db'" "t \<in> set (mb_tasks db)" "final t" "r \<in> set (mb_actions db)" "aw_task_id r = mk_id t"
  shows "\<exists>t' \<in> set (mb_tasks db'). final t' \<and> mk_id t' = mk_id t \<and> mk_tenant_id t' = mk_tenant_id t \<and> mk_device_id t' = mk_device_id t"
    "r \<in> set (mb_actions db')"
proof -
  obtain g h where g: "mb_tasks db' = map g (mb_tasks db)" "task_rel (ledger db (mk_id t)) t (g t)"
    and h: "mb_actions db' = map h (mb_actions db)" "action_rel (final_at db (aw_task_id r)) r (h r)"
    using assms(1,2,4) unfolding evolves_def by meson
  show "\<exists>t' \<in> set (mb_tasks db'). final t' \<and> mk_id t' = mk_id t \<and> mk_tenant_id t' = mk_tenant_id t \<and> mk_device_id t' = mk_device_id t"
    using g assms(2,3) final_cong[of "g t" t] by (intro bexI[of _ "g t"]) (auto simp: task_rel_def)
  have "final_at db (aw_task_id r)" using assms by (auto simp: final_at_def)
  then have "h r = r" using h(2) by (simp add: action_rel_def)
  then show "r \<in> set (mb_actions db')" using h(1) assms(4) by (metis image_eqI list.set_map)
qed

lemma step_sealed:
  assumes "mobile_step s s'" "mobile_inv s" "sealed s t r"
  shows "\<exists>t'. sealed s' t' r \<and> mk_id t' = mk_id t \<and> mk_tenant_id t' = mk_tenant_id t \<and> mk_device_id t' = mk_device_id t"
proof -
  have u: "unique_tasks (my_db s)" "tables_ok (my_db s)" using assms(2) by (auto simp: mobile_inv_def tables_ok_def)
  have t: "t \<in> set (mb_tasks (my_db s))" "final t" "mk_id t \<notin> set (my_pending s)" "r \<in> set (mb_actions (my_db s))" "aw_task_id r = mk_id t"
    using assms(3) by (auto simp: sealed_def)
  have evolved: ?thesis if "evolves (my_db s) (my_db s')" "my_pending s' = my_pending s"
    using evolves_sealed[OF that(1) t(1,2,4,5)] that(2) t(3,5) by (auto simp: sealed_def)
  have kept: ?thesis if "t \<in> set (mb_tasks (my_db s'))" "r \<in> set (mb_actions (my_db s'))" "mk_id t \<notin> set (my_pending s')"
    using that t by (auto simp: sealed_def)
  show ?thesis using assms(1)
  proof cases
    case (s_quiet db')
    then show ?thesis using quiet_evolves[OF s_quiet(2) u(2)] by (intro evolved) simp_all
  next
    case (s_insert ev tenant who key tb x created db')
    from s_insert(2) show ?thesis
    proof (cases rule: insert_cases)
      case replay then show ?thesis using s_insert(1) t by (intro kept) (simp_all add: mtabs_def)
    next
      case new
      then have "mk_id x \<noteq> mk_id t" using t(1) by (auto simp: unique_tasks_def mtabs_def)
      then show ?thesis using s_insert(1) new(1,2) t by (intro kept) (auto simp: mtabs_def)
    qed
  next
    case (s_stamp i x ev command payload batch scheduled operation v db')
    then have "mk_id t \<noteq> i" using t(3) by auto
    moreover obtain g where "mb_tasks db' = map g (mb_tasks (my_db s))" "mk_id t \<noteq> i \<longrightarrow> g t = t" using stamp_raced(4)[OF s_stamp(4)] t(1) by blast
    ultimately have "t \<in> set (mb_tasks db')" using t(1) by (metis image_eqI list.set_map)
    then show ?thesis using s_stamp(1) stamp_raced(1)[OF s_stamp(4)] t by (intro kept) (auto dest: notin_set_remove1)
  next
    case (s_unstamped i) then show ?thesis using t by (intro kept) (auto dest: notin_set_remove1)
  next
    case (s_claim ev b seconds protocol y db')
    then show ?thesis using evoD[OF claim_evo[OF u(1)]] by (intro evolved) simp_all
  next
    case (s_resume ev a i reason verified v db')
    then show ?thesis using evoD[OF resume_evo[OF u(1)]] by (intro evolved) simp_all
  next
    case (s_intent ev b i rq row created db')
    obtain g where "mb_tasks db' = map g (mb_tasks (my_db s))" "final t \<longrightarrow> g t = t" using intent_step(1)[OF s_intent(2) u(1)] t(1) by blast
    then have "t \<in> set (mb_tasks db')" using t(1,2) by (metis image_eqI list.set_map)
    then show ?thesis using s_intent(1) intent_step(2)[OF s_intent(2) u(1)] t by (intro kept) auto
  qed
qed

lemma reach_inv: "mobile_reach s \<Longrightarrow> mobile_inv s"
proof (induction rule: mobile_reach.induct)
  case (m_init db)
  then show ?case by (simp add: mobile_inv_def mobile_init_def no_tasks_def tables_ok_def unique_tasks_def revisions_ok_def ledger_ok_def logged_def)
next
  case (m_step s s') then show ?case using step_inv by blast
qed

end
