(* ===== verification/Mobile_Demo.thy ===== *)
theory Mobile_Demo
  imports Mobile_System
begin

text \<open>
  A concrete run: a publish task for one phone is created, claimed, started, its irreversible click authorised and
  reported as uncertain, and settled by the publish queue.
\<close>

definition phone_env :: menv where
  "phone_env = \<lparr>mv_id = (\<lambda>n. ''id-'' @ dec_nat n), mv_now = 1000, mv_iso = dec_int, mv_from_iso = (\<lambda>s. None), mv_sha256 = (\<lambda>s. replicate 64 CHR ''a''),
     mv_str = (\<lambda>j. []), mv_published_recipe = (\<lambda>a b c. None), mv_builtin_recipe = (\<lambda>c. []), mv_validate_recipe = (\<lambda>m k. None),
     mv_public_key = (\<lambda>k. None), mv_has_remote = (\<lambda>d. False)\<rparr>"

definition phone_binding :: companion_row where
  "phone_binding = \<lparr>cb_id = ''binding'', cb_tenant_id = ''tenant'', cb_device_id = ''phone'', cb_token_digest = ''d'', cb_app_instance_id = ''app'',
     cb_companion_version = ''6'', cb_last_seen_at = None, cb_revoked_at = None, cb_created_at = 0\<rparr>"

definition phone_db0 :: mdb where
  "phone_db0 = \<lparr>mb_core = empty_db\<lparr>db_devices := [\<lparr>de_id = ''phone'', de_tenant_id = ''tenant'', de_edge_id = None, de_logical_name = ''phone'',
       de_android_version = None, de_lamda_version = None, de_target_app_versions = JNull, de_capabilities = JNull, de_labels = [],
       de_state = ''IDLE'', de_maintenance = False, de_last_seen_at = None, de_version = 1, de_fencing_counter = 0, de_control_epoch = 0,
       de_active_binding_id = Some ''binding'', de_created_at = 0\<rparr>]\<rparr>,
     mb_tasks = [], mb_actions = [], mb_events = [], mb_companions = [phone_binding], mb_enrollments = [], mb_sessions = [], mb_packages = [], mb_media = []\<rparr>"

definition phone_body :: task_body where
  "phone_body = \<lparr>tb_device_id = ''phone'', tb_target_package = ''com.taobao.idlefish'', tb_account_id = None, tb_expected_binding_version = None,
     tb_media = None, tb_total_timeout_ms = 60000, tb_steps = [
       [(''action'', JStr ''ui.input''), (''locatorRef'', JStr ''xianyu_description'')],
       [(''action'', JStr ''ui.tap''), (''locatorRef'', JStr ''xianyu_publish_button'')],
       [(''action'', JStr ''ui.wait''), (''locatorRef'', JStr ''xianyu_publish_success'')]],
     tb_digest = ''digest'', tb_command_type = None, tb_order_collection = None\<rparr>"

abbreviation phone_key :: string where
  "phone_key \<equiv> replicate 64 CHR ''a''"

definition phone_intent :: intent_request where
  "phone_intent = \<lparr>iq_lease_id = ''id-2'', iq_action_id = ''click-publish'', iq_action_key = phone_key, iq_parameter_hash = phone_key,
     iq_before_evidence = ''before''\<rparr>"

definition phone_outcome :: outcome_request where
  "phone_outcome = \<lparr>or_lease_id = ''id-2'', or_parameter_hash = phone_key, or_status = ''UNKNOWN'', or_evidence = ''screen''\<rparr>"

text \<open>The state after an operation that succeeds.\<close>

definition after :: "'a mop \<Rightarrow> mdb \<Rightarrow> mdb" where
  "after f db = (case f db of Inl e \<Rightarrow> db | Inr (v, db') \<Rightarrow> db')"

definition result_of :: "'a mop \<Rightarrow> mdb \<Rightarrow> 'a option" where
  "result_of f db = (case f db of Inl e \<Rightarrow> None | Inr (v, db') \<Rightarrow> Some v)"

lemma result_after: "map_option g (result_of f db) = Some w \<Longrightarrow> \<exists>v. f db = Inr (v, after f db) \<and> g v = w"
  by (auto simp: result_of_def after_def split: sum.splits prod.splits)

definition "phone_created = after (insert_task phone_env ''tenant'' ''alice'' ''key'' phone_body) phone_db0"
definition "phone_claimed = after (claim phone_env phone_binding 60 None) phone_created"
definition "phone_running = after (heartbeat_task phone_env phone_binding ''id-0'' ''id-2'' None 60) phone_claimed"
definition "phone_intended = after (action_intent phone_env phone_binding ''id-0'' phone_intent) phone_running"
definition "phone_uncertain = after (action_outcome phone_env phone_binding ''id-0'' phone_key phone_outcome) phone_intended"
definition "phone_settled = after (settle_task phone_env ''id-0'' ''SUCCEEDED'' []) phone_uncertain"

lemma phone_created_runs:
  "map_option (\<lambda>(t, c). (mk_id t, c)) (result_of (insert_task phone_env ''tenant'' ''alice'' ''key'' phone_body) phone_db0) = Some (''id-0'', True)"
  by code_simp

lemma phone_claimed_runs: "map_option (map_option mk_id) (result_of (claim phone_env phone_binding 60 None) phone_created) = Some (Some ''id-0'')"
  by code_simp

lemma phone_running_runs: "map_option mk_id (result_of (heartbeat_task phone_env phone_binding ''id-0'' ''id-2'' None 60) phone_claimed) = Some ''id-0''"
  by code_simp

lemma phone_intended_runs: "map_option snd (result_of (action_intent phone_env phone_binding ''id-0'' phone_intent) phone_running) = Some True"
  by code_simp

lemma phone_uncertain_runs:
  "map_option aw_status (result_of (action_outcome phone_env phone_binding ''id-0'' phone_key phone_outcome) phone_intended) = Some ''UNKNOWN''"
  by code_simp

lemma phone_settled_runs: "map_option (\<lambda>u. u) (result_of (settle_task phone_env ''id-0'' ''SUCCEEDED'' []) phone_uncertain) = Some ()"
  by code_simp

end
