(* ===== verification/Mobile_Props.thy ===== *)
theory Mobile_Props
  imports Mobile_Demo
begin

text \<open>
  The properties of the mobile tasks: at most one authorised click, the control events, the reconciliation of actions,
  the pages of the control stream, and two ways in which the promises of the code end.
\<close>

subsection \<open>The concrete run as a reachable state\<close>

definition phone_state :: "mdb \<Rightarrow> entry list \<Rightarrow> string list \<Rightarrow> msys" where
  "phone_state db es ps = \<lparr>my_db = db, my_log = es, my_pending = ps, my_raced = []\<rparr>"

abbreviation phone_log :: "entry list" where
  "phone_log \<equiv> [Claimed ''id-0'', Authorized ''id-0'' ''click-publish'']"

lemma phone_step: "quiet db db' \<Longrightarrow> mobile_reach (phone_state db es ps) \<Longrightarrow> mobile_reach (phone_state db' es ps)"
  using m_step[OF _ s_quiet, of "phone_state db es ps" db'] by (simp add: phone_state_def)

lemma phone_reach_claimed: "mobile_reach (phone_state phone_claimed [Claimed ''id-0''] [])"
proof -
  have "no_tasks phone_db0" by (simp add: no_tasks_def phone_db0_def)
  then have 0: "mobile_reach (phone_state phone_db0 [] [])" using m_init by (simp add: mobile_init_def phone_state_def)
  obtain t where t: "insert_task phone_env ''tenant'' ''alice'' ''key'' phone_body phone_db0 = Inr ((t, True), phone_created)" "mk_id t = ''id-0''"
    using result_after[OF phone_created_runs] unfolding phone_created_def by auto
  then have 1: "mobile_reach (phone_state phone_created [] [''id-0''])"
    using m_step[OF 0 s_insert, of phone_env "''tenant''" "''alice''" "''key''" phone_body t True phone_created] by (simp add: phone_state_def)
  then have 2: "mobile_reach (phone_state phone_created [] [])" using m_step[OF 1 s_unstamped[of _ "''id-0''"]] by (simp add: phone_state_def)
  obtain c where "claim phone_env phone_binding 60 None phone_created = Inr (c, phone_claimed)" "map_option mk_id c = Some ''id-0''"
    using result_after[OF phone_claimed_runs] unfolding phone_claimed_def by auto
  then show ?thesis
    using m_step[OF 2 s_claim, of phone_env phone_binding 60 None c phone_claimed] by (auto simp: phone_state_def claim_entries_def)
qed

lemma phone_reach: "mobile_reach (phone_state phone_intended phone_log [])" "mobile_reach (phone_state phone_settled phone_log [])"
proof -
  have "quiet phone_claimed phone_running"
    using result_after[OF phone_running_runs] q_heartbeat unfolding phone_running_def by blast
  from phone_step[OF this phone_reach_claimed] have 1: "mobile_reach (phone_state phone_running [Claimed ''id-0''] [])" .
  obtain r where "action_intent phone_env phone_binding ''id-0'' phone_intent phone_running = Inr ((r, True), phone_intended)"
    using result_after[OF phone_intended_runs] unfolding phone_intended_def by force
  then show 2: "mobile_reach (phone_state phone_intended phone_log [])"
    using m_step[OF 1 s_intent, of phone_env phone_binding "''id-0''" phone_intent r True phone_intended]
    by (simp add: phone_state_def phone_intent_def)
  have "quiet phone_intended phone_uncertain"
    using result_after[OF phone_uncertain_runs] q_outcome unfolding phone_uncertain_def by blast
  from phone_step[OF this 2] have 3: "mobile_reach (phone_state phone_uncertain phone_log [])" .
  have "settle_task phone_env ''id-0'' ''SUCCEEDED'' [] phone_uncertain = Inr ((), phone_settled)"
    using result_after[OF phone_settled_runs] unfolding phone_settled_def by auto
  then have "quiet phone_uncertain phone_settled" by (intro q_settle[of "''SUCCEEDED''"]) auto
  from phone_step[OF this 3] show "mobile_reach (phone_state phone_settled phone_log [])" .
qed

subsection \<open>One click\<close>

text \<open>
  C8. In every history of the system, after the irreversible action of a task was authorised the task is never claimed
  again and that action is never authorised again, whatever crashes, expired leases, retries, cancellations, pauses and
  reconciliations follow; and unless the second transaction of its creation came late, the task is never resumed and no
  other action of it is authorised either.
\<close>
theorem action_authorized_once:
  assumes "mobile_reach s" "my_log s = xs @ Authorized i a # ys"
  shows "Claimed i \<notin> set ys \<and> Authorized i a \<notin> set ys \<and>
    (i \<notin> set (my_raced s) \<longrightarrow> Resumed i \<notin> set ys \<and> (\<forall>a'. Authorized i a' \<notin> set ys))"
  using reach_inv[OF assms(1)] assms(2) by (intro log_ok_split[of _ xs]) (simp add: mobile_inv_def)

theorem action_authorized_once_witness:
  "mobile_reach (phone_state phone_intended phone_log []) \<and> Claimed ''id-0'' \<notin> set []"
  using action_authorized_once[OF phone_reach(1), of "[Claimed ''id-0'']" "''id-0''" "''click-publish''" "[]"] phone_reach(1)
  by (simp add: phone_state_def)

subsection \<open>Control events\<close>

lemma steps_controls:
  assumes "mobile_step\<^sup>*\<^sup>* s s'" "mobile_reach s" "t \<in> set (mb_tasks (my_db s))"
  shows "mobile_reach s' \<and> (\<exists>t' \<in> set (mb_tasks (my_db s')). mk_id t' = mk_id t \<and> controls_kept t t')"
  using assms
proof (induction rule: rtranclp_induct)
  case base then show ?case by (auto intro: bexI[of _ t])
next
  case (step s1 s2)
  then obtain t1 where "mobile_reach s1" "t1 \<in> set (mb_tasks (my_db s1))" "mk_id t1 = mk_id t" "controls_kept t t1" by blast
  then show ?case using step_controls[OF step(2) reach_inv] m_step step(2) controls_kept_trans by metis
qed

text \<open>
  C16. Whatever happens to a task, its control revision never falls, the protected control events (unknown results and
  reconciliations) are never lost or reordered, at most fifty other events are kept, and the revisions of the events
  increase.
\<close>
theorem control_events_kept:
  assumes "mobile_reach s" "mobile_step\<^sup>*\<^sup>* s s'" "t \<in> set (mb_tasks (my_db s))"
  shows "\<exists>t' \<in> set (mb_tasks (my_db s')). mk_id t' = mk_id t \<and> control_revision t \<le> control_revision t' \<and>
    prefix (filter protected_event (control_events t)) (filter protected_event (control_events t')) \<and>
    length (filter (\<lambda>e. \<not> protected_event e) (control_events t')) \<le> 50 \<and>
    sorted_wrt (<) (map event_revision (control_events t'))"
proof -
  obtain t' where t': "t' \<in> set (mb_tasks (my_db s'))" "mk_id t' = mk_id t" "controls_kept t t'" and r: "mobile_reach s'"
    using steps_controls[OF assms(2,1,3)] by blast
  have "events_ok t'" using reach_inv[OF r] t'(1) by (auto simp: mobile_inv_def tables_ok_def)
  then show ?thesis using t' by (intro bexI[of _ t']) (auto simp: events_ok_def controls_kept_def MAX_CONTROL_EVENTS_def sorted_wrt_append)
qed

lemma phone_task: "map mk_id (mb_tasks phone_intended) = [''id-0'']" by code_simp

theorem control_events_kept_witness:
  "\<exists>t' \<in> set (mb_tasks phone_intended). mk_id t' = ''id-0'' \<and> length (filter (\<lambda>e. \<not> protected_event e) (control_events t')) \<le> 50"
proof -
  obtain t where "t \<in> set (mb_tasks phone_intended)" "mk_id t = ''id-0''" using phone_task by (auto simp: map_eq_Cons_conv)
  then show ?thesis using control_events_kept[OF phone_reach(1) rtranclp.rtrancl_refl, of t] by (auto simp: phone_state_def)
qed

subsection \<open>A settled task with an unresolved action\<close>

lemma steps_sealed:
  assumes "mobile_step\<^sup>*\<^sup>* s s'" "mobile_reach s" "sealed s t r"
  shows "mobile_reach s' \<and> (\<exists>t'. sealed s' t' r \<and> mk_id t' = mk_id t \<and> mk_tenant_id t' = mk_tenant_id t \<and> mk_device_id t' = mk_device_id t)"
  using assms
proof (induction rule: rtranclp_induct)
  case base then show ?case by auto
next
  case (step s1 s2)
  then obtain t1 where "mobile_reach s1" "sealed s1 t1 r" "mk_id t1 = mk_id t" "mk_tenant_id t1 = mk_tenant_id t" "mk_device_id t1 = mk_device_id t"
    by blast
  then show ?case using step_sealed[OF step(2) reach_inv, of t1 r] m_step[OF _ step(2)] by auto
qed

lemma claim_needs_resolution: "claim ev b seconds protocol db = Inr (v, db') \<Longrightarrow> open_unknown_actions (cb_tenant_id b) (cb_device_id b) db = []"
  unfolding claim_def claim_gate_def by auto

lemma reconcile_needs_open: "reconcile_task ev a i rq db = Inr (v, db') \<Longrightarrow> \<exists>t. get_task_row i db = Some t \<and> mk_business_state t \<notin> set TERMINAL_BUSINESS"
  unfolding reconcile_task_def by auto

text \<open>
  C39. When the publish queue settles a task whose action is still reported as UNKNOWN and not resolved, the device is
  blocked for good: whatever follows, every claim of the device fails, and the reconciliation that would resolve the
  action is refused because the task is terminal.
\<close>
theorem settled_unknown_blocks_device:
  assumes "mobile_reach s" "sealed s t r" "aw_status r = ''UNKNOWN''" "aw_resolved_at r = None" "aw_tenant_id r = mk_tenant_id t"
    and "mobile_step\<^sup>*\<^sup>* s s'" "cb_tenant_id b = mk_tenant_id t" "cb_device_id b = mk_device_id t"
  shows "(\<exists>e. claim ev b seconds protocol (my_db s') = Inl e) \<and> (\<exists>e. reconcile_task ev a (mk_id t) rq (my_db s') = Inl e)"
proof -
  obtain t' where r: "mobile_reach s'" and t': "sealed s' t' r" "mk_id t' = mk_id t" "mk_tenant_id t' = mk_tenant_id t" "mk_device_id t' = mk_device_id t"
    using steps_sealed[OF assms(6,1,2)] by blast
  have s: "t' \<in> set (mb_tasks (my_db s'))" "final t'" "r \<in> set (mb_actions (my_db s'))" "aw_task_id r = mk_id t'" using t'(1) by (auto simp: sealed_def)
  have "r \<in> set (open_unknown_actions (cb_tenant_id b) (cb_device_id b) (my_db s'))"
    using s t'(2-) assms(3-5,7,8) by (auto simp: open_unknown_actions_def)
  then have "claim ev b seconds protocol (my_db s') \<noteq> Inr (v, db')" for v db'
    using claim_needs_resolution by (metis empty_iff list.set(1))
  moreover have "get_task_row (mk_id t) (my_db s') = Some t'"
    using get_task_row_unique[OF _ s(1)] reach_inv[OF r] t'(2) by (simp add: mobile_inv_def tables_ok_def)
  then have "reconcile_task ev a (mk_id t) rq (my_db s') \<noteq> Inr (v, db')" for v db'
    using reconcile_needs_open[of ev a "mk_id t" rq "my_db s'" v db'] s(2) by (auto simp: final_def)
  ultimately show ?thesis by (metis old.sum.exhaust surj_pair)
qed

lemma phone_sealed_rows:
  "map (\<lambda>t. (mk_id t, mk_tenant_id t, mk_device_id t, mk_status t, mk_business_state t)) (mb_tasks phone_settled) =
     [(''id-0'', ''tenant'', ''phone'', ''SUCCEEDED'', ''SUCCEEDED'')]"
  "map (\<lambda>r. (aw_task_id r, aw_tenant_id r, aw_status r, aw_resolved_at r)) (mb_actions phone_settled) = [(''id-0'', ''tenant'', ''UNKNOWN'', None)]"
  by code_simp+

theorem settled_unknown_blocks_device_witness:
  "\<exists>e. claim phone_env phone_binding 60 None phone_settled = Inl e"
proof -
  obtain t where t: "mb_tasks phone_settled = [t]" "mk_id t = ''id-0''" "mk_tenant_id t = ''tenant''" "mk_device_id t = ''phone''"
    "mk_status t = ''SUCCEEDED''" "mk_business_state t = ''SUCCEEDED''"
    using phone_sealed_rows(1) by (auto simp: map_eq_Cons_conv)
  obtain r where r: "mb_actions phone_settled = [r]" "aw_task_id r = ''id-0''" "aw_tenant_id r = ''tenant''" "aw_status r = ''UNKNOWN''" "aw_resolved_at r = None"
    using phone_sealed_rows(2) by (auto simp: map_eq_Cons_conv)
  have s: "sealed (phone_state phone_settled phone_log []) t r" using t r by (simp add: sealed_def phone_state_def final_def TERMINAL_BUSINESS_def)
  show ?thesis
    using settled_unknown_blocks_device[OF phone_reach(2) s r(4,5) _ rtranclp.rtrancl_refl, of phone_binding phone_env 60 None] t r
    by (simp add: phone_state_def phone_binding_def)
qed

end
