(* ===== verification/Mobile_Pages.thy ===== *)
theory Mobile_Pages
  imports Mobile_Props
begin

text \<open>
  The device-wide stream of control events and its pages, the reconciliation of the actions of a task, and an event that
  a device never sees.
\<close>

subsection \<open>Sequence numbers\<close>

abbreviation in_ms :: "int \<Rightarrow> int list \<Rightarrow> int" where
  "in_ms m xs \<equiv> int (length (filter (\<lambda>x. control_event_epoch_ms x = m) xs))"

lemma compose_from_length [simp]: "length (compose_from p r xs) = length xs"
  by (induction xs arbitrary: p r) (simp_all add: Let_def)

lemma compose_from_increasing:
  assumes "sorted xs" "\<forall>x \<in> set xs. p \<le> control_event_epoch_ms x" "0 \<le> r" "r + in_ms p xs \<le> CONTROL_SEQ_TIE_WIDTH"
    "\<forall>m. in_ms m xs \<le> CONTROL_SEQ_TIE_WIDTH"
  shows "sorted_wrt (<) (compose_from (Some p) r xs) \<and> (\<forall>n \<in> set (compose_from (Some p) r xs). p * CONTROL_SEQ_TIE_WIDTH + r \<le> n)"
  using assms
proof (induction xs arbitrary: p r)
  case Nil show ?case by simp
next
  case (Cons x xs)
  let ?m = "control_event_epoch_ms x" and ?w = "CONTROL_SEQ_TIE_WIDTH"
  have later: "\<forall>y \<in> set xs. ?m \<le> control_event_epoch_ms y" using Cons.prems(1) by (auto simp: control_event_epoch_ms_def zdiv_mono1)
  have cnt: "\<forall>k. in_ms k xs \<le> ?w"
  proof
    fix k show "in_ms k xs \<le> ?w" using spec[OF Cons.prems(5), of k] by (auto split: if_splits)
  qed
  have one: "1 + in_ms ?m xs \<le> ?w" using spec[OF Cons.prems(5), of ?m] by simp
  show ?case
  proof (cases "?m = p")
    case True
    then have "r + 1 + in_ms p xs \<le> ?w" using Cons.prems(4) by simp
    from Cons.IH[OF _ _ _ this cnt] show ?thesis using Cons.prems(1,3) later True by (fastforce simp: Let_def)
  next
    case False
    then have "p + 1 \<le> ?m" using Cons.prems(2) by force
    then have "(p + 1) * ?w \<le> ?m * ?w" by (intro mult_right_mono) (simp_all add: CONTROL_SEQ_TIE_WIDTH_def)
    moreover have "r \<le> ?w" using Cons.prems(4) by linarith
    ultimately have le: "p * ?w + r \<le> ?m * ?w" by (simp add: distrib_right)
    from Cons.IH[OF _ later _ one cnt] show ?thesis using Cons.prems(1) le False by (fastforce simp: Let_def)
  qed
qed

text \<open>The events of a device before they are sorted.\<close>

definition device_events :: "menv \<Rightarrow> string \<Rightarrow> string \<Rightarrow> mdb \<Rightarrow> collected_event list" where
  "device_events ev tenant device db =
     concat (map (task_control_events ev) (filter (\<lambda>t. mk_tenant_id t = tenant \<and> mk_device_id t = device) (mb_tasks db)))"

lemma compose_increasing:
  assumes "sorted xs" "\<forall>m. in_ms m xs \<le> CONTROL_SEQ_TIE_WIDTH" shows "sorted_wrt (<) (compose_device_control_seqs xs)"
proof (cases xs)
  case (Cons x ys)
  have "compose_device_control_seqs xs = compose_from (Some (control_event_epoch_ms x)) 0 xs"
    by (simp add: compose_device_control_seqs_def Cons Let_def)
  moreover have "\<forall>y \<in> set xs. control_event_epoch_ms x \<le> control_event_epoch_ms y"
    using assms(1) Cons by (auto simp: control_event_epoch_ms_def zdiv_mono1)
  ultimately show ?thesis using compose_from_increasing[OF assms(1) _ _ _ assms(2), of "control_event_epoch_ms x" 0] assms(2) by simp
qed (simp add: compose_device_control_seqs_def)

lemma sort_collected_filter: "length (filter P (sort_collected xs)) = length (filter P xs)"
  by (simp add: sort_collected_def filter_sort)

lemma entries_increasing:
  assumes "\<forall>m. in_ms m (map cl_issued (device_events ev tenant device db)) \<le> CONTROL_SEQ_TIE_WIDTH"
  shows "sorted_wrt (<) (map dc_seq (device_control_entries ev tenant device db))"
proof -
  let ?xs = "sort_collected (device_events ev tenant device db)"
  have "sorted (map cl_issued ?xs)" by (simp add: sort_collected_def)
  moreover have "in_ms m (map cl_issued ?xs) = in_ms m (map cl_issued (device_events ev tenant device db))" for m
    by (simp add: filter_map comp_def sort_collected_filter)
  ultimately have "sorted_wrt (<) (compose_device_control_seqs (map cl_issued ?xs))" using assms by (intro compose_increasing) simp_all
  moreover have "map dc_seq (device_control_entries ev tenant device db) = compose_device_control_seqs (map cl_issued ?xs)"
    by (rule nth_equalityI)
       (simp_all add: device_control_entries_def device_events_def Let_def compose_device_control_seqs_def control_entry_def)
  ultimately show ?thesis by simp
qed

subsection \<open>Pages\<close>

lemma page_rest:
  fixes f :: "'a \<Rightarrow> int"
  assumes "sorted_wrt (<) (map f ys)" "take k ys \<noteq> []"
  shows "filter (\<lambda>e. f e > f (last (take k ys))) ys = drop k ys"
proof -
  have s: "sorted_wrt (<) (map f (take k ys) @ map f (drop k ys))" using assms(1) by (metis append_take_drop_id map_append)
  obtain zs z where z: "take k ys = zs @ [z]" using assms(2) by (metis rev_exhaust)
  have low: "\<forall>e \<in> set (take k ys). \<not> f z < f e" using s by (auto simp: z sorted_wrt_append)
  have high: "\<forall>e \<in> set (drop k ys). f z < f e" using s by (auto simp: z sorted_wrt_append)
  have "filter (\<lambda>e. f z < f e) (take k ys @ drop k ys) = drop k ys" using low high by (auto simp: filter_empty_conv filter_id_conv simp del: append_take_drop_id)
  then have "filter (\<lambda>e. f z < f e) ys = drop k ys" unfolding append_take_drop_id .
  then show ?thesis using z by simp
qed

lemma control_pull_Inr:
  "control_pull ev b cursor limit db = Inr (p, db') \<Longrightarrow>
   control_page_after (device_control_entries ev (cb_tenant_id b) (cb_device_id b) db) cursor limit = Inr p \<and> db' = db"
  by (simp add: control_pull_def)

text \<open>
  C35. While at most 1024 control events of a device share a millisecond, its sequence numbers strictly increase, and a
  pull loses nothing of the stream it reads: the events of its page, followed by the events after the cursor it
  returns, are all the events after the cursor it was given.
\<close>
theorem control_pages_complete:
  assumes "\<forall>m. in_ms m (map cl_issued (device_events ev (cb_tenant_id b) (cb_device_id b) db)) \<le> 1024" "0 < limit"
    and "control_pull ev b cursor limit db = Inr (p, db')"
  shows "sorted_wrt (<) (map dc_seq (device_control_entries ev (cb_tenant_id b) (cb_device_id b) db)) \<and>
    cp_events p @ filter (\<lambda>e. dc_seq e > cp_through p) (device_control_entries ev (cb_tenant_id b) (cb_device_id b) db) =
    filter (\<lambda>e. dc_seq e > cursor) (device_control_entries ev (cb_tenant_id b) (cb_device_id b) db)"
proof -
  define entries where "entries = device_control_entries ev (cb_tenant_id b) (cb_device_id b) db"
  have inc: "sorted_wrt (<) (map dc_seq entries)"
    unfolding entries_def by (rule entries_increasing) (use assms(1) in \<open>simp add: CONTROL_SEQ_TIE_WIDTH_def\<close>)
  let ?ys = "filter (\<lambda>e. dc_seq e > cursor) entries"
  have p: "cp_events p = take limit ?ys" "cp_through p = (if take limit ?ys = [] then cursor else dc_seq (last (take limit ?ys)))"
    using control_pull_Inr[OF assms(3)] by (auto simp: control_page_after_def entries_def Let_def split: if_splits)
  show ?thesis
  proof (cases "take limit ?ys = []")
    case True
    then have "?ys = []" using assms(2) by simp
    then show ?thesis using p inc True by (simp add: entries_def)
  next
    case False
    let ?z = "last (take limit ?ys)"
    have "?z \<in> set ?ys" using False by (meson in_set_takeD last_in_set)
    then have "filter (\<lambda>e. dc_seq e > dc_seq ?z) entries = filter (\<lambda>e. dc_seq e > dc_seq ?z) ?ys"
      by (auto intro: filter_cong)
    moreover have "sorted_wrt (<) (map dc_seq ?ys)" using inc by (simp add: sorted_wrt_map sorted_wrt_filter)
    ultimately have "filter (\<lambda>e. dc_seq e > dc_seq ?z) entries = drop limit ?ys" using page_rest False by metis
    then have "cp_events p @ filter (\<lambda>e. dc_seq e > cp_through p) entries = ?ys" using p False by simp
    then show ?thesis using inc unfolding entries_def by blast
  qed
qed

subsection \<open>An event that is never seen\<close>

definition phone_task_at :: "string \<Rightarrow> mobile_task" where
  "phone_task_at i = new_task_row phone_env ''tenant'' ''alice'' i phone_body (None, None, None) i i"

definition phone_pair :: mdb where
  "phone_pair = phone_db0\<lparr>mb_tasks := [phone_task_at ''a'', phone_task_at ''b'']\<rparr>"

definition phone_clock :: "int \<Rightarrow> menv" where
  "phone_clock now = phone_env\<lparr>mv_now := now, mv_iso := (\<lambda>n. [if n = 5000000 then CHR ''5'' else CHR ''4'']),
     mv_from_iso := (\<lambda>s. if s = ''5'' then Some 5000000 else if s = ''4'' then Some 4999000 else None)\<rparr>"

definition phone_operator :: actor where
  "phone_operator = \<lparr>actor_tenant_id = ''tenant'', actor_user_id = ''alice'', actor_roles = [SECURITY_ADMIN], actor_mfa = True,
     actor_request_id = ''req'', actor_ip = None, actor_user_agent = None\<rparr>"

definition "phone_first = after (pause_task (phone_clock 5000000) phone_operator ''b'' ''check'') phone_pair"
definition "phone_second = after (pause_task (phone_clock 4999000) phone_operator ''a'' ''check'') phone_first"

lemma phone_stream:
  "length (device_events (phone_clock 0) ''tenant'' ''phone'' phone_second) = 2"
  "result_of (control_pull (phone_clock 0) phone_binding 5118976 1) phone_second \<noteq> None"
  by code_simp+

theorem control_pages_complete_witness:
  "sorted_wrt (<) (map dc_seq (device_control_entries (phone_clock 0) ''tenant'' ''phone'' phone_second))"
proof -
  obtain p where "control_pull (phone_clock 0) phone_binding 5118976 1 phone_second = Inr p" using phone_stream(2)
    by (auto simp: result_of_def split: sum.splits)
  moreover have "in_ms m (map cl_issued (device_events (phone_clock 0) ''tenant'' ''phone'' phone_second)) \<le> 1024" for m
    using phone_stream(1) length_filter_le[of "\<lambda>x. control_event_epoch_ms x = m" "map cl_issued (device_events (phone_clock 0) ''tenant'' ''phone'' phone_second)"]
    by simp
  ultimately show ?thesis
    using control_pages_complete[of "phone_clock 0" phone_binding phone_second 1 5118976 "fst p" "snd p"] by (simp add: phone_binding_def)
qed

text \<open>
  The sequence number of an event is its instant, not the order of the commits. The device takes its cursor from the
  snapshot after the first event; the second event, recorded a millisecond earlier by another process and committed
  later, is in the stream, but no pull from that cursor returns it.
\<close>

lemma control_event_skipped:
  "map dc_task_id (device_control_entries (phone_clock 0) ''tenant'' ''phone'' phone_first) = [''b'']"
  "map dc_task_id (device_control_entries (phone_clock 0) ''tenant'' ''phone'' phone_second) = [''a'', ''b'']"
  "map_option cp_events (result_of (control_pull (phone_clock 0) phone_binding (fst (reconcile_snapshot (phone_clock 0) phone_binding phone_first)) 100)
     phone_second) = Some []"
  by code_simp+

subsection \<open>Reconciliation\<close>

lemma resolve_effect:
  assumes "resolve_actions ev a i rq db = Inr (u, db')"
  shows "mb_actions db' = upd_where (\<lambda>r. aw_task_id r = i) (resolved_action ev rq) (mb_actions db)"
proof -
  have "leaves mtabs (tmap (\<lambda>r. audit_action ev r (actor_user_id a) ''resolved'') rows)" for rows by (intro keeps_intros)
  note audits = keepsD[OF this]
  show ?thesis using assms unfolding resolve_actions_def by (auto simp: mtabs_def dest!: audits)
qed

lemma resolved_proven:
  "0 \<le> aw_resolution_revision r \<Longrightarrow> rq_evidence rq \<noteq> [] \<Longrightarrow> platform_result_proven (resolved_action ev rq r)"
  by (simp add: platform_result_proven_def resolved_action_def TERMINAL_ACTION_STATUSES_def)

lemma updated_row:
  "get_task_row i db' = Some t' \<Longrightarrow> mb_tasks db' = upd_where (\<lambda>t. mk_id t = i) f ts \<Longrightarrow> \<exists>x \<in> set ts. mk_id x = i \<and> t' = f x"
  by (drule get_task_rowD) (auto simp: upd_where_def split: if_splits)

lemma confirmed_status:
  "mk_status (confirmed_applied ev a rq item h x) = ''SUCCEEDED''" "mk_status (confirmed_not_submitted ev a rq h x) = ''FAILED''"
  "mk_business_state (confirmed_applied ev a rq item h x) = ''SUCCEEDED''" "mk_business_state (confirmed_not_submitted ev a rq h x) = ''FAILED''"
  by (simp_all add: confirmed_applied_def confirmed_not_submitted_def)

definition reconciled_status :: "reconcile_request \<Rightarrow> string" where
  "reconciled_status rq = (if rq_decision rq = ''CONFIRMED_APPLIED'' then ''SUCCEEDED'' else ''FAILED'')"

lemma reconcile_effect:
  assumes "reconcile_task ev a i rq db = Inr (t', db')" "rq_decision rq \<noteq> ''KEEP_WAITING''"
  shows "\<exists>db1 f. resolve_actions ev a i rq db = Inr ((), db1) \<and> mtabs db' = (upd_where (\<lambda>t. mk_id t = i) f (mb_tasks db1), mb_actions db1) \<and>
     get_task_row i db' = Some t' \<and> (\<forall>x. mk_status (f x) = reconciled_status rq \<and> mk_business_state (f x) = reconciled_status rq)"
proof -
  have "\<exists>db1 f kind extra db2 st. resolve_actions ev a i rq db = Inr ((), db1) \<and>
     audit_control_event ev i kind (actor_user_id a) ''operator'' extra (db1\<lparr>mb_tasks := upd_where (\<lambda>t. mk_id t = i) f (mb_tasks db1)\<rparr>) = Inr ((), db2) \<and>
     settle_reply i st db2 = Inr ((), db') \<and> get_task_row i db' = Some t' \<and>
     (\<forall>x. mk_status (f x) = reconciled_status rq \<and> mk_business_state (f x) = reconciled_status rq)"
  proof (cases "rq_decision rq = ''CONFIRMED_APPLIED''")
    case True
    then obtain t db1 item db2 where "resolve_actions ev a i rq db = Inr ((), db1)"
      "audit_control_event ev i ''reconciled_applied'' (actor_user_id a) ''operator'' [(''platformItemId'', JStr item)]
         (db1\<lparr>mb_tasks := upd_where (\<lambda>t. mk_id t = i) (confirmed_applied ev a rq item (history_of t @ [history_entry ev a rq t])) (mb_tasks db1)\<rparr>) = Inr ((), db2)"
      "settle_reply i ''SUCCEEDED'' db2 = Inr ((), db')" "get_task_row i db' = Some t'"
      using assms(1) unfolding reconcile_task_def by (auto simp: Let_def twhen_def split: option.splits)
    moreover have "\<forall>x. mk_status (confirmed_applied ev a rq item h x) = reconciled_status rq \<and>
       mk_business_state (confirmed_applied ev a rq item h x) = reconciled_status rq" for h
      using True by (simp add: confirmed_status reconciled_status_def)
    ultimately show ?thesis by blast
  next
    case False
    then obtain t db1 db2 where "resolve_actions ev a i rq db = Inr ((), db1)"
      "audit_control_event ev i ''reconciled_not_submitted'' (actor_user_id a) ''operator'' [(''evidence'', JStr (take 160 (rq_evidence rq)))]
         (db1\<lparr>mb_tasks := upd_where (\<lambda>t. mk_id t = i) (confirmed_not_submitted ev a rq (history_of t @ [history_entry ev a rq t])) (mb_tasks db1)\<rparr>) = Inr ((), db2)"
      "settle_reply i ''FAILED'' db2 = Inr ((), db')" "get_task_row i db' = Some t'"
      using assms unfolding reconcile_task_def by (auto simp: Let_def twhen_def)
    moreover have "\<forall>x. mk_status (confirmed_not_submitted ev a rq h x) = reconciled_status rq \<and>
       mk_business_state (confirmed_not_submitted ev a rq h x) = reconciled_status rq" for h
      using False by (simp add: confirmed_status reconciled_status_def)
    ultimately show ?thesis by blast
  qed
  then obtain db1 f db2 st where r: "resolve_actions ev a i rq db = Inr ((), db1)"
    and a: "mtabs db2 = mtabs (db1\<lparr>mb_tasks := upd_where (\<lambda>t. mk_id t = i) f (mb_tasks db1)\<rparr>)" and b: "settle_reply i st db2 = Inr ((), db')"
    and t: "get_task_row i db' = Some t'" "\<forall>x. mk_status (f x) = reconciled_status rq \<and> mk_business_state (f x) = reconciled_status rq"
    using keepsD[OF leaves_mtabs_audit(1)] by metis
  have "mtabs db' = (upd_where (\<lambda>t. mk_id t = i) f (mb_tasks db1), mb_actions db1)" using a b by (simp add: mtabs_def)
  then show ?thesis using r t by blast
qed

text \<open>
  C17. A reconciliation that decides closes the ledger of its task: every action of the task is then proven, with the
  decided status, a revision, an instant and evidence, none of them holds the device any longer, and the task has
  succeeded or failed as decided.
\<close>
theorem reconcile_closes_actions:
  assumes "mobile_reach s" "reconcile_task ev a i rq (my_db s) = Inr (t', db')"
    and "rq_decision rq \<noteq> ''KEEP_WAITING''" "rq_evidence rq \<noteq> []"
  shows "(\<forall>r \<in> set (mb_actions db'). aw_task_id r = i \<longrightarrow> platform_result_proven r) \<and>
    (\<forall>r \<in> set (open_unknown_actions tenant device db'). aw_task_id r \<noteq> i) \<and>
    get_task_row i db' = Some t' \<and> mk_status t' = (if rq_decision rq = ''CONFIRMED_APPLIED'' then ''SUCCEEDED'' else ''FAILED'') \<and>
    mk_business_state t' = mk_status t'"
proof -
  obtain db1 f where e: "resolve_actions ev a i rq (my_db s) = Inr ((), db1)"
    "mtabs db' = (upd_where (\<lambda>t. mk_id t = i) f (mb_tasks db1), mb_actions db1)" "get_task_row i db' = Some t'"
    "\<forall>x. mk_status (f x) = reconciled_status rq \<and> mk_business_state (f x) = reconciled_status rq"
    using reconcile_effect[OF assms(2,3)] by blast
  have acts: "mb_actions db' = upd_where (\<lambda>r. aw_task_id r = i) (resolved_action ev rq) (mb_actions (my_db s))"
    using e(2) resolve_effect[OF e(1)] by (simp add: mtabs_def)
  have rev: "0 \<le> aw_resolution_revision r" if "r \<in> set (mb_actions (my_db s))" for r
    using reach_inv[OF assms(1)] that by (auto simp: mobile_inv_def tables_ok_def revisions_ok_def)
  have proven: "platform_result_proven r" if "r \<in> set (mb_actions db')" "aw_task_id r = i" for r
    using that rev resolved_proven[OF _ assms(4)] unfolding acts upd_where_def by (auto split: if_splits)
  moreover have "aw_task_id r \<noteq> i" if "r \<in> set (open_unknown_actions tenant device db')" for r
    using that proven[of r] by (auto simp: open_unknown_actions_def platform_result_proven_def)
  moreover obtain x where "t' = f x" using updated_row[OF e(3), of f "mb_tasks db1"] e(2) by (auto simp: mtabs_def)
  ultimately show ?thesis using e(3,4) by (auto simp: reconciled_status_def)
qed

definition phone_decision :: reconcile_request where
  "phone_decision = \<lparr>rq_decision = ''CONFIRMED_APPLIED'', rq_evidence = ''screenshot'', rq_platform_item_id = Some ''item-1''\<rparr>"

lemma phone_decided_runs: "map_option mk_status (result_of (reconcile_task phone_env phone_operator ''id-0'' phone_decision) phone_intended) = Some ''SUCCEEDED''"
  by code_simp

theorem reconcile_closes_actions_witness:
  "get_task_row ''id-0'' (after (reconcile_task phone_env phone_operator ''id-0'' phone_decision) phone_intended) \<noteq> None"
proof -
  obtain t where "reconcile_task phone_env phone_operator ''id-0'' phone_decision phone_intended =
      Inr (t, after (reconcile_task phone_env phone_operator ''id-0'' phone_decision) phone_intended)"
    using result_after[OF phone_decided_runs] by auto
  then show ?thesis
    using reconcile_closes_actions[OF phone_reach(1), of phone_env phone_operator "''id-0''" phone_decision t]
    by (simp add: phone_state_def phone_decision_def)
qed

subsection \<open>Two writes that go back\<close>

text \<open>
  The creation of a platform task ends with a second transaction that sets the business state to QUEUED without looking
  at it. When the device is faster, a task whose click is already authorised leaves RECONCILING.
\<close>

lemma late_stamp_reopens:
  "map mk_business_state (mb_tasks phone_intended) = [''RECONCILING'']"
  "map mk_business_state (mb_tasks (after (stamp_business_fields phone_env ''id-0'' ''xianyu.publish'' [] ''batch'' None None) phone_intended)) = [''QUEUED'']"
  by code_simp+

text \<open>
  A pause request on a task whose cancellation was requested is refused, but the event by which the device reports that
  it has paused sets the business state without looking at the cancellation, which is lost.
\<close>

definition "phone_cancelling = after (cancel_task phone_env phone_operator ''id-0'' ''wrong item'') phone_running"

lemma pause_event_overrides_cancel:
  "map mk_business_state (mb_tasks phone_cancelling) = [''CANCEL_REQUESTED'']"
  "result_of (pause_task phone_env phone_operator ''id-0'' ''check'') phone_cancelling = None"
  "map mk_business_state (mb_tasks (after (task_event phone_env phone_binding ''id-0'' ''id-2'' 1 ''PAUSED_WAITING_USER'' None []) phone_cancelling)) =
     [''PAUSED_WAITING_USER'']"
  by code_simp+

end
