(* ===== verification/Spec2Isabelle.thy ===== *)
theory Spec2Isabelle
  imports Domain Stream_Link Debug_Relay Plan_Props Tenant_Props Publish_Props Publish_Start Outbox_Delivery Operation_Consume Mobile_Pages
begin

text \<open>
  The verification development of CloudCtl, a cloud control plane that publishes content through fleets of
  Android devices. Its Python services are the programs modelled here.

  \<^bold>\<open>The program and its parts.\<close> Users prepare content and publish plans in the \<^emph>\<open>Control API\<close>
  (\<open>services/control-api\<close>), which keeps all durable state in one relational database, per tenant, and announces
  what happened as rows of an outbox table. The \<^emph>\<open>outbox dispatcher\<close> (\<open>services/outbox-dispatcher\<close>) claims
  those rows and hands them to sinks: one starts a Temporal workflow per publish plan, one executes operation
  tasks. The \<^emph>\<open>Temporal worker\<close> (\<open>services/temporal-worker\<close>) runs a plan as one workflow per target: it takes
  a lease of the device with a fencing token, has the edge prepare the publication, records a commit intent in the
  Control API, has the edge commit and reconciles the result. Work on a device reaches it through the \<^emph>\<open>edge
  hub\<close> (\<open>services/edge-hub\<close>), which keeps a durable stream per edge, and the \<^emph>\<open>edge gateway\<close>
  (\<open>edge/gateway\<close>), which spools commands and events in SQLite, runs one runner per device and asks operators for
  confirmation. Debug sessions cross the hub (browser ingress, relay router, grant delivery) and the gateway (session
  manager, relay frames). Phones without an edge run tasks of the Control API through a \<^emph>\<open>companion\<close> application,
  which claims them, reports progress and asks for leave before every irreversible click. The package \<open>packages/domain\<close> holds the publish states, the roles and the values that
  all of them share; \<open>packages/edge-protocol\<close> the messages of the stream.

  \<^bold>\<open>How code becomes definitions.\<close> A class or row is a \<open>record\<close>, an enumeration a \<open>datatype\<close>, a
  method one \<open>definition\<close> or \<open>fun\<close> with its checks in the order of the code. A method that raises is a function
  into a sum whose left side is the exception; a transaction returns the new state only in \<open>Inr\<close>, so that an
  exception rolls back; where code leaves effects behind when it raises (the runner, the control stream, the
  delivery of grants) the new state stands beside the result. An \<open>await\<close> splits a coroutine into two operations, and
  other coroutines may act between them. Python integers are \<open>int\<close>, and the sixty-four bits of SQLite and of the
  protocol are written out where a value may leave them (\<open>sqlite_int\<close>); UUIDv7 is built from words. Dictionaries
  are association lists in insertion order. Tables are lists of rows with the unique indexes checked on insertion.

  \<^bold>\<open>Theories.\<close>
  \<^item> \<open>Prelude\<close>: results, JSON values, ASCII strings, dictionaries, tables, and the lemmas on them.
  \<^item> \<open>Domain\<close>: \<open>states.py\<close>, \<open>errors.py\<close>, \<open>rbac.py\<close>, \<open>models.py\<close>, \<open>events.py\<close> of \<open>packages/domain\<close>. A history of
    publish states commits at most once and never leaves a terminal state; the fields of a UUIDv7 are recovered.
  \<^item> \<open>Protocol\<close>: the messages of \<open>edge-control.proto\<close> and the serialisation as the record \<open>codec\<close>.
  \<^item> \<open>Spool\<close>, \<open>Spool_Laws\<close>: \<open>spool.py\<close> of the gateway, every table and operation; the invariant of the spool, and that
    the fence of a device only grows, so that a superseded token is refused.
  \<^item> \<open>Runner\<close>: \<open>runner.py\<close> and \<open>scheduler.py\<close>; what executes on a device holds the highest token seen for it.
  \<^item> \<open>Operator_Actions\<close>: \<open>operator_actions.py\<close>, with resolutions that come early, late or twice.
  \<^item> \<open>Debug_Sessions\<close>: the session manager of \<open>remote_proxy.py\<close>.
  \<^item> \<open>Control_Stream\<close>: \<open>control_stream.py\<close>, the handler of every cloud message and the outbound batches.
  \<^item> \<open>Hub_Store\<close>, \<open>Hub_Session\<close>, \<open>Hub_Laws\<close>: \<open>session.py\<close>, \<open>sqlite_hub_store.py\<close>, \<open>identity.py\<close>,
    \<open>grpc_service.py\<close>, \<open>enrollment.py\<close>. The locale \<open>hub_store\<close> is the \<open>HubStore\<close> protocol; both stores interpret it
    and answer alike.
  \<^item> \<open>Stream_Link\<close>: gateway and hub together, as step relations with losses and reconnections; the properties are in
    this theory, on the durable store.
  \<^item> \<open>Relay\<close>, \<open>Debug_Delivery\<close>, \<open>Debug_Relay\<close>: \<open>relay.py\<close>, \<open>debug_delivery.py\<close>, \<open>sqlite_debug_store.py\<close> and
    \<open>debug_relay.py\<close> of the hub; the locale \<open>delivery_store\<close> is the contract of the two delivery stores.
  \<^item> \<open>Control_Db\<close>, \<open>Publishing\<close>, \<open>Accounts\<close>: the rows of \<open>db.py\<close>, the tenant-scoped queries of \<open>repository.py\<close> and the
    methods of \<open>services.py\<close> on plans, snapshots, approvals, leases, commit intents, targets, tenants, users, devices,
    accounts and bindings. \<open>Control_System\<close> makes each of them a call of a state machine; \<open>Publish_Laws\<close>,
    \<open>Plan_Laws\<close>, \<open>Account_Laws\<close> and \<open>Tenancy\<close> show what every call keeps; \<open>Control_Props\<close>, \<open>Plan_Props\<close> and
    \<open>Tenant_Props\<close> state it of every reachable database.
  \<^item> \<open>Workflow\<close>: programs over activities, and steps in which an attempt may fail before or after its effect, its reply
    may be lost, and signals arrive at any moment. \<open>Publish_Workflow\<close> is \<open>workflows.py\<close>, \<open>contracts.py\<close> and
    \<open>activities.py\<close> as such programs; \<open>Publish_Backends\<close> is \<open>backend.py\<close> over the modelled Control API, and the
    locales \<open>lasting\<close> and \<open>counted\<close> carry facts of a backend to a whole run. \<open>Publish_Props\<close>: the commit is called
    only under a stored intent, every run ends, the outcome agrees with the calls.
  \<^item> \<open>Outbox\<close>, \<open>Outbox_Delivery\<close>, \<open>Publish_Start\<close>: \<open>store.py\<close>, \<open>dispatcher.py\<close>, \<open>sinks.py\<close> and \<open>temporal_sink.py\<close>; several
    dispatchers that crash at any point deliver every event they mark, each under its own claim.
  \<^item> \<open>Operation_Catalog\<close>, \<open>Operation_Config\<close>, \<open>Operations\<close>, \<open>Operation_Service\<close>, \<open>Operation_Sink\<close>: the modules
    \<open>operation_catalog.py\<close>, \<open>operation_runtime.py\<close>, \<open>operation_schemas.py\<close>, \<open>operation_repository.py\<close>,
    \<open>operation_service.py\<close> and \<open>operation_sink.py\<close>. \<open>Operation_Laws\<close> is the machine of one task,
    \<open>Operation_Refinement\<close> the proof that each transaction is a step of it, \<open>Operation_Props\<close> the system of users, service
    and consumers with late and repeated results, \<open>Operation_Consume\<close> the consumption of an event by one consumer;
    \<open>Operation_Demo\<close> is a concrete run.
  \<^item> \<open>Mobile_Tasks\<close>, \<open>Mobile_Fleet\<close>, \<open>Mobile_Runs\<close>, \<open>Mobile_Actions\<close>: the tasks that a companion application runs on its
    phone. The operator's control of \<open>platform_tasks.py\<close> with its transition matrices and persistent control events;
    \<open>fleet_identity.py\<close>, the enrolment of companions and the control stream with its cursor; the claim, release,
    heartbeat, events and result of \<open>mobile_service.py\<close>; the frozen shapes and the ledger of irreversible actions of
    \<open>mobile_actions.py\<close> and \<open>controlled_actions.py\<close>. \<open>Mobile_Laws\<close> and \<open>Mobile_Claims\<close> show how each operation changes a task
    and the ledger, \<open>Mobile_System\<close> lets operators, companions and services interleave. \<open>Mobile_Props\<close>: an action is
    authorised once and nothing repeats it, control events are kept, and how a settled task can block its device;
    \<open>Mobile_Pages\<close>: the pages of the control stream and the reconciliation of actions. \<open>Mobile_Demo\<close> is a concrete run.

  \<^bold>\<open>Parameters and hypotheses.\<close> What the services only call is an argument. The protobuf runtime is a \<open>codec\<close>; the
  hypothesis \<open>codec_ok\<close> says that a message parsed from its own serialisation is that message, and the concrete
  \<open>wire_codec\<close> satisfies it. SHA-256, token and identifier generation, the text of the clock, X.509 parsing and
  the JSON encoder are functions (the records \<open>env\<close> and, for the mobile tasks, \<open>menv\<close> of the Control API; the latter
  also holds the published and built-in recipes, the validation of a signed recipe and whether a live session holds a
  device). The edge that executes a publication, the
  handlers and the HTTP transport of operations and the Temporal server's answer to a start are functions that may
  fail in every way the code distinguishes. The pydantic schemas of operation parameters are a predicate.

  \<^bold>\<open>Bounds.\<close> No definition needs fuel: loops over tables and batches recurse on lists, and a workflow is a program
  whose runs the step relation generates. The retry limits are those of the code: the attempts of each activity policy
  in \<open>Publish_Workflow\<close>, the attempts of an operation item and the size limits of configurations are constants
  named as in the source. Termination of a publish run is a theorem, not an assumption.

  \<^bold>\<open>Not modelled.\<close> The Kotlin, TypeScript and Vue applications; scripts, deployment and recorded artifacts; generated
  protobuf code and migrations; HTTP routes, pydantic request schemas, settings and token verification, which
  translate requests into the calls modelled here; sockets, TLS, subprocesses, file systems and certificates (edge hub
  server and CA, WebRTC transport, gateway runtime, executor, cache and companion HTTP server, the device driver of
  \<open>packages/lamda-driver\<close>); logging and metrics. Of the Control API, the services for shop platforms,
  messaging, schedules and live fleets, the previews and downloads of the companions and the views of tasks, which
  read the tables modelled here or have tables of their own. The manifest lists each with its reason.
\<close>

subsection \<open>The control stream end to end\<close>

text \<open>The other operations of the durable hub store, for the two directions of the stream.\<close>

definition sql_cloud_op :: "'b codec \<Rightarrow> 'b sql_store \<Rightarrow> 'b sql_store \<Rightarrow> bool" where
  "sql_cloud_op c st st' \<longleftrightarrow> (\<exists>e m k. sql_append_cloud c e m st = Inr (k, st')) \<or>
                             (\<exists>e n u. sql_acknowledge_cloud e n st = Inr (u, st'))"

definition sql_record_op :: "'b codec \<Rightarrow> 'b sql_store \<Rightarrow> 'b sql_store \<Rightarrow> bool" where
  "sql_record_op c st st' \<longleftrightarrow> (\<exists>e m b. sql_record_edge c e m st = Inr (b, st'))"

abbreviation uplink_run ::
  "'b codec \<Rightarrow> string \<Rightarrow> ('b, 'b sql_store) uplink \<Rightarrow> ('b, 'b sql_store) uplink \<Rightarrow> bool" where
  "uplink_run c e \<equiv> uplink_steps c (sql_record_edge c) sql_last_edge_sequence (sql_cloud_op c) e"

abbreviation downlink_run ::
  "'b codec \<Rightarrow> (string \<Rightarrow> string) \<Rightarrow> config \<Rightarrow> string \<Rightarrow> ('b, 'b sql_store) downlink \<Rightarrow> ('b, 'b sql_store) downlink \<Rightarrow> bool" where
  "downlink_run c digest cfg e \<equiv>
     downlink_steps c digest cfg (sql_append_cloud c) sql_acknowledge_cloud sql_last_edge_sequence (sql_replay_cloud c)
       (sql_record_op c) e"

lemma sql_cloud_op_keeps:
  assumes "sql_cloud_op c st st'" "sql_inv c st"
  shows "sql_inv c st' \<and> v_received (sql_view c st' e) = v_received (sql_view c st e)"
  using assms(1) unfolding sql_cloud_op_def
proof (elim disjE exE)
  fix e' m k
  assume "sql_append_cloud c e' m st = Inr (k, st')"
  from sql_append_law[OF assms(2) this] show ?thesis by simp
next
  fix e' n u
  assume "sql_acknowledge_cloud e' n st = Inr (u, st')"
  from sql_ack_law[OF assms(2) this] show ?thesis by simp
qed

lemma sql_record_op_keeps:
  assumes "sql_record_op c st st'" "sql_inv c st"
  shows "sql_inv c st' \<and> v_pending (sql_view c st' e) = v_pending (sql_view c st e) \<and>
         v_last (sql_view c st' e) = v_last (sql_view c st e) \<and> v_watermark (sql_view c st' e) = v_watermark (sql_view c st e)"
proof -
  obtain e' m b where "sql_record_edge c e' m st = Inr (b, st')" using assms(1) by (auto simp: sql_record_op_def)
  from sql_record_law[OF assms(2) this] show ?thesis by (cases b) auto
qed

lemma metadata_init [simp]: "metadata_int create_schema LAST_ACKED = 0"
  by (simp add: create_schema_def metadata_int_def)

lemma sql_view_init [simp]: "v_received (sql_view c sql_init e) = []" "v_pending (sql_view c sql_init e) = []"
  "v_last (sql_view c sql_init e) = 0" "v_watermark (sql_view c sql_init e) = 0"
  by (simp_all add: sql_view_def sql_init_def edge_rows_def state_row_def)

lemma uplink_ok_init: "codec_ok c \<Longrightarrow> sql.uplink_ok c c e (uplink_init sql_init)"
  by (rule sql.uplink_okI)
     (simp_all add: uplink_init_def spool_ok_init sql_inv_init wire_ok_def)

lemma uplink_run_ok:
  assumes "codec_ok c" "uplink_run c e (uplink_init sql_init) u"
  shows "sql.uplink_ok c c e u"
  by (rule sql.uplink_steps_ok[OF assms(2) uplink_ok_init[OF assms(1)] sql_cloud_op_keeps])

lemma downlink_ok_init: "codec_ok c \<Longrightarrow> cloud_mark ed = 0 \<Longrightarrow> sql.downlink_ok c e (downlink_init ed sql_init)"
  by (simp add: sql.downlink_ok_def downlink_init_def sql_inv_init)

lemma downlink_run_ok:
  assumes "codec_ok c" "cloud_mark ed = 0" "downlink_run c digest cfg e (downlink_init ed sql_init) d"
  shows "sql.downlink_ok c e d"
  by (rule sql.downlink_steps_ok[OF assms(3) downlink_ok_init[OF assms(1,2)] sql_record_op_keeps])

lemma demo_uplink:
  "uplink_run wire_codec ''e'' (uplink_init sql_init) ((uplink_init sql_init)\<lparr>up_spool := demo_spool2\<rparr>)"
proof -
  let ?u0 = "uplink_init sql_init :: (wire, wire sql_store) uplink"
  have "uplink_run wire_codec ''e'' ?u0 (?u0\<lparr>up_spool := demo_spool1\<rparr>)"
    by (rule ul_trans[OF ul_refl ul_spool])
       (use step_accept[OF demo_accept] in \<open>simp_all add: uplink_init_def demo_spool1_def\<close>)
  then have "uplink_run wire_codec ''e'' ?u0 (?u0\<lparr>up_spool := demo_spool1, up_spool := demo_spool2\<rparr>)"
    by (rule ul_trans[OF _ ul_spool])
       (use step_enqueue[OF demo_enqueue] in \<open>simp_all add: demo_spool2_def\<close>)
  then show ?thesis by simp
qed

subsection \<open>Properties\<close>





text \<open>
  C19. Commands travel from the durable hub store to the gateway in order and without a gap, over any
  interleaving of queueing, session openings, live forwarding, handler errors and connection losses: the mark
  of the gateway always lies between the hub's acknowledgement watermark and its last command, a message in
  flight never raises a gap error, and a new session is always accepted.
\<close>

theorem downlink_in_order:
  assumes "codec_ok c" "cloud_mark ed = 0" "downlink_run c digest cfg e (downlink_init ed sql_init) d"
  shows "v_watermark (sql_view c (dn_store d) e) \<le> cloud_mark (dn_edge d) \<and>
         cloud_mark (dn_edge d) \<le> v_last (sql_view c (dn_store d) e) \<and>
         (\<forall>m w now t x y. dn_wire d = m # w \<longrightarrow>
            fst (handle_cloud c digest cfg now t m (dn_edge d)) \<noteq> Inl (CloudSequenceGap x y)) \<and>
         (sqlite_int (cloud_mark (dn_edge d)) \<longrightarrow>
            is_ok (hub_open sql_acknowledge_cloud sql_last_edge_sequence (sql_replay_cloud c) e
                     (cloud_mark (dn_edge d)) (dn_store d)))"
proof -
  have ok: "sql.downlink_ok c e d" by (rule downlink_run_ok[OF assms])
  have b: "sql_inv c (dn_store d)" "v_watermark (sql_view c (dn_store d) e) \<le> cloud_mark (dn_edge d)"
    "cloud_mark (dn_edge d) \<le> v_last (sql_view c (dn_store d) e)"
    using ok by (auto simp: sql.downlink_ok_def Let_def)
  have "fst (handle_cloud c digest cfg now t m (dn_edge d)) \<noteq> Inl (CloudSequenceGap x y)"
    if "dn_wire d = m # w" for m w now t x y
    by (rule sql.downlink_deliver_ok(2)[OF ok that]) (simp add: prod_eq_iff)
  moreover have "is_ok (hub_open sql_acknowledge_cloud sql_last_edge_sequence (sql_replay_cloud c) e
      (cloud_mark (dn_edge d)) (dn_store d))" if "sqlite_int (cloud_mark (dn_edge d))"
    using sql.open_yields[OF b that] by (auto simp: is_ok_iff)
  ultimately show ?thesis using b by blast
qed

theorem downlink_in_order_witness:
  "is_ok (hub_open sql_acknowledge_cloud sql_last_edge_sequence (sql_replay_cloud wire_codec) ''e'' 0 demo_hub)"
proof -
  let ?d0 = "downlink_init demo_edge sql_init :: (wire, wire sql_store) downlink"
  have mark: "cloud_mark demo_edge = 0"
    by (simp add: cloud_mark_def demo_edge_def last_cloud_sequence_def create_schema_def metadata_int_def)
  have "hub_queue (sql_append_cloud wire_codec) ''e'' demo_cloud (dn_store ?d0) = Inr (demo_cloud\<lparr>ce_sequence := 1\<rparr>, demo_hub)"
    using demo_hub_append by (simp add: hub_queue_def downlink_init_def demo_cloud_def)
  from dl_trans[OF dl_refl dl_queue[OF this]]
  have run: "downlink_run wire_codec (\<lambda>x. x) demo_config ''e'' ?d0 (?d0\<lparr>dn_store := demo_hub, dn_queue := []\<rparr>)"
    by (simp add: demo_cloud_def is_hello_def downlink_init_def)
  show ?thesis
    using downlink_in_order[OF wire_codec_ok mark run] mark by (simp add: downlink_init_def sqlite_int_def)
qed

end
